(* ===== verification/Prelude.thy ===== *)
theory Prelude
  imports Main "HOL-Library.List_Lexorder" "HOL-Library.Char_ord"
begin

text \<open>
  The prelude shared by every component: strings and time stamps, the effect monad in
  which the asynchronous service methods are written, its calculus of preserved
  properties, and the table lemmas.

  A service method becomes a value of type \<open>('s, 'e, 'a) op\<close>: it takes the state and
  returns either an error or a result, together with the state at that point. A thrown
  exception keeps the writes made before it (the raw client commits each statement);
  \<open>transaction\<close> rolls them back, as an interactive \<open>$transaction\<close> does.
\<close>

named_theorems op_simps \<open>unfolding rules of the effect combinators\<close>
named_theorems keeps_intros \<open>introduction rules of the preservation calculus\<close>

section \<open>Names of the model's types\<close>

type_synonym uid = string
type_synonym time = int

section \<open>The effect monad\<close>

type_synonym ('s, 'e, 'a) op = "'s \<Rightarrow> ('e + 'a) \<times> 's"

definition ret :: "'a \<Rightarrow> ('s, 'e, 'a) op" where
  "ret x = (\<lambda>s. (Inr x, s))"

definition throw :: "'e \<Rightarrow> ('s, 'e, 'a) op" where
  "throw e = (\<lambda>s. (Inl e, s))"

definition bind :: "('s, 'e, 'a) op \<Rightarrow> ('a \<Rightarrow> ('s, 'e, 'b) op) \<Rightarrow> ('s, 'e, 'b) op" where
  "bind m f = (\<lambda>s. case m s of (Inl e, t) \<Rightarrow> (Inl e, t) | (Inr x, t) \<Rightarrow> f x t)"

definition reads :: "('s \<Rightarrow> 'a) \<Rightarrow> ('s, 'e, 'a) op" where
  "reads f = (\<lambda>s. (Inr (f s), s))"

definition modify :: "('s \<Rightarrow> 's) \<Rightarrow> ('s, 'e, unit) op" where
  "modify f = (\<lambda>s. (Inr (), f s))"

definition lift_res :: "'e + 'a \<Rightarrow> ('s, 'e, 'a) op" where
  "lift_res r = (\<lambda>s. (r, s))"

definition guard :: "bool \<Rightarrow> 'e \<Rightarrow> ('s, 'e, unit) op" where
  "guard b e = (if b then ret () else throw e)"

definition transaction :: "('s, 'e, 'a) op \<Rightarrow> ('s, 'e, 'a) op" where
  "transaction m = (\<lambda>s. case m s of (Inl e, t) \<Rightarrow> (Inl e, s) | (Inr x, t) \<Rightarrow> (Inr x, t))"

definition catch_op :: "('s, 'e, 'a) op \<Rightarrow> ('e \<Rightarrow> ('s, 'e, 'a) op) \<Rightarrow> ('s, 'e, 'a) op" where
  "catch_op m h = (\<lambda>s. case m s of (Inl e, t) \<Rightarrow> h e t | (Inr x, t) \<Rightarrow> (Inr x, t))"

fun for_each :: "'a list \<Rightarrow> ('a \<Rightarrow> ('s, 'e, unit) op) \<Rightarrow> ('s, 'e, unit) op" where
  "for_each [] f = ret ()"
| "for_each (x # xs) f = bind (f x) (\<lambda>_. for_each xs f)"

fun map_op :: "('a \<Rightarrow> ('s, 'e, 'b) op) \<Rightarrow> 'a list \<Rightarrow> ('s, 'e, 'b list) op" where
  "map_op f [] = ret []"
| "map_op f (x # xs) = bind (f x) (\<lambda>y. bind (map_op f xs) (\<lambda>ys. ret (y # ys)))"

lemma ret_apply [simp, op_simps]: "ret x s = (Inr x, s)"
  by (simp add: ret_def)

lemma throw_apply [simp, op_simps]: "throw e s = (Inl e, s)"
  by (simp add: throw_def)

lemma reads_apply [simp, op_simps]: "reads f s = (Inr (f s), s)"
  by (simp add: reads_def)

lemma modify_apply [simp, op_simps]: "modify f s = (Inr (), f s)"
  by (simp add: modify_def)

lemma lift_res_apply [simp, op_simps]: "lift_res r s = (r, s)"
  by (simp add: lift_res_def)

lemma guard_apply [simp, op_simps]: "guard b e s = (if b then Inr () else Inl e, s)"
  by (simp add: guard_def)

lemma bind_Inr: "m s = (Inr x, t) \<Longrightarrow> bind m f s = f x t"
  by (simp add: bind_def)

lemma bind_Inl: "m s = (Inl e, t) \<Longrightarrow> bind m f s = (Inl e, t)"
  by (simp add: bind_def)

lemma bind_ret [simp]: "bind (ret x) f = f x"
  by (simp add: bind_def ret_def)

lemma bind_throw [simp]: "bind (throw e) f = throw e"
  by (simp add: bind_def throw_def)

lemma bind_reads [simp]: "bind (reads g) f s = f (g s) s"
  by (simp add: bind_def)

lemma bind_modify [simp]: "bind (modify g) f s = f () (g s)"
  by (simp add: bind_def)

lemma bind_lift_res [simp]:
  "bind (lift_res r) f s = (case r of Inl e \<Rightarrow> (Inl e, s) | Inr x \<Rightarrow> f x s)"
  by (simp add: bind_def split: sum.split)

lemma bind_guard [simp]: "bind (guard b e) f s = (if b then f () s else (Inl e, s))"
  by (simp add: bind_def)

lemma bind_assoc: "bind (bind m f) g = bind m (\<lambda>x. bind (f x) g)"
  by (rule ext) (simp add: bind_def split: prod.split sum.split)

lemma bind_eq_Inr:
  "bind m f s = (Inr y, u) \<longleftrightarrow> (\<exists>x t. m s = (Inr x, t) \<and> f x t = (Inr y, u))"
  by (auto simp: bind_def split: prod.splits sum.splits)

lemma bind_eq_Inl:
  "bind m f s = (Inl e, u) \<longleftrightarrow>
    m s = (Inl e, u) \<or> (\<exists>x t. m s = (Inr x, t) \<and> f x t = (Inl e, u))"
  by (auto simp: bind_def split: prod.splits sum.splits)

lemma bind_if: "bind (if b then m else n) f = (if b then bind m f else bind n f)"
  by simp

lemma transaction_Inr: "transaction m s = (Inr x, t) \<longleftrightarrow> m s = (Inr x, t)"
  by (auto simp: transaction_def split: prod.splits sum.splits)

lemma transaction_Inl:
  "transaction m s = (Inl e, t) \<longleftrightarrow> t = s \<and> (\<exists>u. m s = (Inl e, u))"
  by (auto simp: transaction_def split: prod.splits sum.splits)

lemma fst_transaction [simp]: "fst (transaction m s) = fst (m s)"
  by (auto simp: transaction_def split: prod.splits sum.splits)

text \<open>A transaction that throws leaves the state it started from.\<close>

lemma transaction_rollback: "fst (transaction m s) = Inl e \<Longrightarrow> snd (transaction m s) = s"
  by (auto simp: transaction_def split: prod.splits sum.splits)

section \<open>Preserved properties\<close>

text \<open>
  \<open>keeps P m\<close>: whatever the outcome, \<open>m\<close> leads from states with \<open>P\<close> to states with
  \<open>P\<close>. The rules follow the combinators, so that an invariant of a method is proved
  from the invariants of its statements.
\<close>

definition keeps :: "('s \<Rightarrow> bool) \<Rightarrow> ('s, 'e, 'a) op \<Rightarrow> bool" where
  "keeps P m \<longleftrightarrow> (\<forall>s. P s \<longrightarrow> P (snd (m s)))"

lemma keepsI: "(\<And>s. P s \<Longrightarrow> P (snd (m s))) \<Longrightarrow> keeps P m"
  by (simp add: keeps_def)

lemma keepsD: "keeps P m \<Longrightarrow> P s \<Longrightarrow> P (snd (m s))"
  by (simp add: keeps_def)

lemma keeps_ret [keeps_intros, simp]: "keeps P (ret x)"
  by (simp add: keeps_def)

lemma keeps_throw [keeps_intros, simp]: "keeps P (throw e)"
  by (simp add: keeps_def)

lemma keeps_reads [keeps_intros, simp]: "keeps P (reads f)"
  by (simp add: keeps_def)

lemma keeps_lift_res [keeps_intros, simp]: "keeps P (lift_res r)"
  by (simp add: keeps_def)

lemma keeps_guard [keeps_intros, simp]: "keeps P (guard b e)"
  by (simp add: keeps_def)

lemma keeps_modify: "(\<And>s. P s \<Longrightarrow> P (f s)) \<Longrightarrow> keeps P (modify f)"
  by (simp add: keeps_def)

lemma keeps_bind [keeps_intros]:
  "keeps P m \<Longrightarrow> (\<And>x. keeps P (f x)) \<Longrightarrow> keeps P (bind m f)"
  unfolding keeps_def bind_def by (force split: prod.splits sum.splits)

lemma keeps_if [keeps_intros]:
  "(b \<Longrightarrow> keeps P m) \<Longrightarrow> (\<not> b \<Longrightarrow> keeps P n) \<Longrightarrow> keeps P (if b then m else n)"
  by simp

lemma keeps_option [keeps_intros]:
  "(x = None \<Longrightarrow> keeps P m) \<Longrightarrow> (\<And>y. x = Some y \<Longrightarrow> keeps P (f y)) \<Longrightarrow>
    keeps P (case x of None \<Rightarrow> m | Some y \<Rightarrow> f y)"
  by (cases x) simp_all

lemma keeps_let [keeps_intros]: "keeps P (f x) \<Longrightarrow> keeps P (let y = x in f y)"
  by simp

lemma keeps_transaction [keeps_intros]: "keeps P m \<Longrightarrow> keeps P (transaction m)"
  unfolding keeps_def transaction_def by (force split: prod.splits sum.splits)

lemma keeps_catch [keeps_intros]:
  "keeps P m \<Longrightarrow> (\<And>e. keeps P (h e)) \<Longrightarrow> keeps P (catch_op m h)"
  unfolding keeps_def catch_op_def by (force split: prod.splits sum.splits)

lemma keeps_for_each [keeps_intros]:
  "(\<And>x. x \<in> set xs \<Longrightarrow> keeps P (f x)) \<Longrightarrow> keeps P (for_each xs f)"
  by (induction xs) (auto intro!: keeps_intros)

lemma keeps_map_op [keeps_intros]:
  "(\<And>x. x \<in> set xs \<Longrightarrow> keeps P (f x)) \<Longrightarrow> keeps P (map_op f xs)"
  by (induction xs) (auto intro!: keeps_intros)

text \<open>A method that only reads never changes the state.\<close>

definition pure_op :: "('s, 'e, 'a) op \<Rightarrow> bool" where
  "pure_op m \<longleftrightarrow> (\<forall>s. snd (m s) = s)"

lemma pure_opD: "pure_op m \<Longrightarrow> snd (m s) = s"
  by (simp add: pure_op_def)

lemma pure_op_keeps: "pure_op m \<Longrightarrow> keeps P m"
  by (simp add: pure_op_def keeps_def)

lemma pure_op_iff_keeps: "pure_op m \<longleftrightarrow> (\<forall>s0. keeps (\<lambda>s. s = s0) m)"
  by (auto simp: pure_op_def keeps_def)

lemma pure_op_result: "pure_op m \<Longrightarrow> m s = (r, t) \<Longrightarrow> t = s"
  by (metis pure_opD snd_conv)

text \<open>A method that leaves the state alone when it throws.\<close>

definition clean_op :: "('s, 'e, 'a) op \<Rightarrow> bool" where
  "clean_op m \<longleftrightarrow> (\<forall>s e t. m s = (Inl e, t) \<longrightarrow> t = s)"

lemma clean_opD: "clean_op m \<Longrightarrow> m s = (Inl e, t) \<Longrightarrow> t = s"
  by (simp add: clean_op_def)

lemma clean_pure: "pure_op m \<Longrightarrow> clean_op m"
  by (auto simp: pure_op_def clean_op_def) (metis snd_conv)

lemma clean_transaction: "clean_op (transaction m)"
  by (auto simp: clean_op_def transaction_Inl)

lemma clean_bind: "pure_op m \<Longrightarrow> (\<And>x. clean_op (f x)) \<Longrightarrow> clean_op (bind m f)"
  unfolding clean_op_def bind_eq_Inl by (metis pure_op_result)

lemma pure_simps [simp]:
  "pure_op (ret x)" "pure_op (throw e)" "pure_op (reads g)" "pure_op (lift_res r)" "pure_op (guard b e)"
  by (simp_all add: pure_op_def)

lemma pure_bind: "pure_op m \<Longrightarrow> (\<And>x. pure_op (f x)) \<Longrightarrow> pure_op (bind m f)"
  unfolding pure_op_iff_keeps by (auto intro: keeps_bind)

lemma pure_map_op: "(\<And>x. pure_op (f x)) \<Longrightarrow> pure_op (map_op f xs)"
  by (induction xs) (auto intro!: pure_bind)

text \<open>From an evaluated outcome to an equation.\<close>

lemma run_Inr:
  "case fst r of Inl _ \<Rightarrow> False | Inr x \<Rightarrow> P x \<Longrightarrow> \<exists>x. r = (Inr x, snd r) \<and> P x"
  by (cases r; cases "fst r") auto

lemma run_Inl:
  "case fst r of Inl e \<Rightarrow> P e | Inr _ \<Rightarrow> False \<Longrightarrow> \<exists>e. r = (Inl e, snd r) \<and> P e"
  by (cases r; cases "fst r") auto

lemma pure_run_Inr:
  "pure_op m \<Longrightarrow> case fst (m s) of Inl _ \<Rightarrow> False | Inr x \<Rightarrow> P x \<Longrightarrow> \<exists>x. m s = (Inr x, s) \<and> P x"
  by (cases "m s"; cases "fst (m s)") (auto simp: pure_op_def dest: spec [of _ s])

lemma pure_run_eq: "pure_op m \<Longrightarrow> fst (m s) = r \<Longrightarrow> m s = (r, s)"
  by (metis pure_opD prod.collapse)

text \<open>Elimination rules that take a successful run apart.\<close>

lemma bind_InrE:
  assumes "bind m f s = (Inr y, u)"
  obtains x t where "m s = (Inr x, t)" "f x t = (Inr y, u)"
  using assms unfolding bind_eq_Inr by blast

lemma bind_pure_InrE:
  assumes "bind m f s = (Inr y, u)" "pure_op m"
  obtains x where "m s = (Inr x, s)" "f x s = (Inr y, u)"
  using assms unfolding bind_eq_Inr by (metis pure_opD snd_conv)

lemma guard_bind_InrE:
  assumes "bind (guard b e) f s = (Inr y, u)"
  obtains b "f () s = (Inr y, u)"
  using assms by (auto split: if_splits)

lemma bind_pure_InlE:
  assumes "bind m f s = (Inl e, u)" "pure_op m"
  obtains "m s = (Inl e, s)" "u = s" | x where "m s = (Inr x, s)" "f x s = (Inl e, u)"
  using assms unfolding bind_eq_Inl by (metis pure_opD snd_conv)

text \<open>A property of the final state, statement by statement.\<close>

lemma snd_bind_pure:
  assumes "pure_op m" "P s" "\<And>x. m s = (Inr x, s) \<Longrightarrow> P (snd (f x s))"
  shows "P (snd (bind m f s))"
proof -
  obtain r where r: "m s = (r, s)" using pure_opD [OF assms(1), of s] by (metis prod.collapse)
  show ?thesis using assms(2,3) r by (cases r) (simp_all add: bind_def)
qed

lemma snd_bind_keeps:
  assumes "P (snd (m s))" "\<And>x. keeps P (f x)"
  shows "P (snd (bind m f s))"
proof -
  obtain r t where r: "m s = (r, t)" by fastforce
  show ?thesis using assms(1) keepsD [OF assms(2), of t] r by (cases r) (simp_all add: bind_def)
qed

section \<open>Tables as lists of rows\<close>

definition upd_rows :: "('r \<Rightarrow> bool) \<Rightarrow> ('r \<Rightarrow> 'r) \<Rightarrow> 'r list \<Rightarrow> 'r list" where
  "upd_rows p f rs = map (\<lambda>r. if p r then f r else r) rs"

lemma length_upd_rows [simp]: "length (upd_rows p f rs) = length rs"
  by (simp add: upd_rows_def)

lemma upd_rows_Nil [simp]: "upd_rows p f [] = []"
  by (simp add: upd_rows_def)

lemma upd_rows_Cons [simp]:
  "upd_rows p f (r # rs) = (if p r then f r else r) # upd_rows p f rs"
  by (simp add: upd_rows_def)

lemma upd_rows_append [simp]: "upd_rows p f (rs @ qs) = upd_rows p f rs @ upd_rows p f qs"
  by (simp add: upd_rows_def)

lemma upd_rows_none: "(\<And>r. r \<in> set rs \<Longrightarrow> \<not> p r) \<Longrightarrow> upd_rows p f rs = rs"
  by (induction rs) auto

lemma set_upd_rows: "set (upd_rows p f rs) = (\<lambda>r. if p r then f r else r) ` set rs"
  by (simp add: upd_rows_def)

lemma map_upd_rows: "(\<And>r. p r \<Longrightarrow> k (f r) = k r) \<Longrightarrow> map k (upd_rows p f rs) = map k rs"
  by (induction rs) auto

lemma find_SomeD: "find p xs = Some x \<Longrightarrow> x \<in> set xs \<and> p x"
  by (induction xs) (auto split: if_splits)

lemma find_NoneD: "find p xs = None \<Longrightarrow> x \<in> set xs \<Longrightarrow> \<not> p x"
  by (auto simp: find_None_iff)

lemma find_append: "find p (xs @ ys) = (case find p xs of None \<Rightarrow> find p ys | Some x \<Rightarrow> Some x)"
  by (induction xs) auto

lemma find_cong_pred: "(\<And>x. x \<in> set xs \<Longrightarrow> p x = q x) \<Longrightarrow> find p xs = find q xs"
  by (induction xs) auto

lemma find_distinct_key:
  assumes "distinct (map k xs)" "x \<in> set xs"
  shows "find (\<lambda>y. k y = k x) xs = Some x"
  using assms by (induction xs) auto

lemma find_upd_rows:
  "(\<And>r. r \<in> set rs \<Longrightarrow> q r \<Longrightarrow> p (f r) = p r) \<Longrightarrow>
    find p (upd_rows q f rs) = map_option (\<lambda>r. if q r then f r else r) (find p rs)"
  by (induction rs) auto

lemma upd_rows_cong: "(\<And>r. r \<in> set rs \<Longrightarrow> q r \<Longrightarrow> f r = g r) \<Longrightarrow> upd_rows q f rs = upd_rows q g rs"
  by (induction rs) auto

lemma find_key_unique:
  "distinct (map k rs) \<Longrightarrow> find (\<lambda>x. k x = i) rs = Some r \<Longrightarrow> q \<in> set rs \<Longrightarrow> k q = i \<Longrightarrow> q = r"
  by (metis find_distinct_key option.inject)

section \<open>Strings\<close>

text \<open>
  Strings are lists of code units below 256. \<open>is_ws\<close> lists the white space of
  JavaScript's \<open>trim\<close> and \<open>\s\<close> in that range.
\<close>

definition is_ws :: "char \<Rightarrow> bool" where
  "is_ws c \<longleftrightarrow> c \<in> {CHR '' '', CHR 0x09, CHR 0x0A, CHR 0x0B, CHR 0x0C, CHR 0x0D, CHR 0xA0}"

definition trim :: "string \<Rightarrow> string" where
  "trim s = rev (dropWhile is_ws (rev (dropWhile is_ws s)))"

definition is_digit :: "char \<Rightarrow> bool" where
  "is_digit c \<longleftrightarrow> c \<in> set ''0123456789''"

definition digit_val :: "char \<Rightarrow> nat" where
  "digit_val c = of_char c - 48"

definition digit_char :: "nat \<Rightarrow> char" where
  "digit_char d = char_of (48 + d)"

fun show_nat :: "nat \<Rightarrow> string" where
  "show_nat n = (if n < 10 then [digit_char n] else show_nat (n div 10) @ [digit_char (n mod 10)])"

declare show_nat.simps [simp del]

definition read_nat :: "string \<Rightarrow> nat" where
  "read_nat s = foldl (\<lambda>acc c. 10 * acc + digit_val c) 0 s"

lemma digit_char_code [code]:
  "digit_char d = (if d = 0 then CHR ''0'' else if d = 1 then CHR ''1'' else if d = 2 then CHR ''2''
     else if d = 3 then CHR ''3'' else if d = 4 then CHR ''4'' else if d = 5 then CHR ''5''
     else if d = 6 then CHR ''6'' else if d = 7 then CHR ''7'' else if d = 8 then CHR ''8''
     else if d = 9 then CHR ''9'' else char_of (48 + d))"
  by (simp add: digit_char_def char_of_def bit_0)

lemma digit_char_val [simp]: "d < 10 \<Longrightarrow> digit_val (digit_char d) = d"
  by (simp add: digit_val_def digit_char_def)

lemma digit_char_is_digit [simp]: "d < 10 \<Longrightarrow> is_digit (digit_char d)"
proof -
  assume "d < 10"
  then have "d \<in> {0, 1, 2, 3, 4, 5, 6, 7, 8, 9}" by auto
  then show ?thesis
    by (elim insertE emptyE) (simp_all add: is_digit_def digit_char_def char_of_def bit_0)
qed

lemma show_nat_digits: "\<forall>c \<in> set (show_nat n). is_digit c"
proof (induction n rule: show_nat.induct)
  case (1 n)
  then show ?case
    by (cases "n < 10") (auto simp: show_nat.simps [of n])
qed

lemma show_nat_nonempty [simp]: "show_nat n \<noteq> []"
  by (subst show_nat.simps) simp

lemma read_nat_append_digit: "read_nat (s @ [c]) = 10 * read_nat s + digit_val c"
  by (simp add: read_nat_def)

lemma read_show_nat [simp]: "read_nat (show_nat n) = n"
proof (induction n rule: show_nat.induct)
  case (1 n)
  show ?case
  proof (cases "n < 10")
    case True
    then show ?thesis by (simp add: show_nat.simps [of n] read_nat_def)
  next
    case False
    then have "read_nat (show_nat (n div 10)) = n div 10"
      using 1 by simp
    with False show ?thesis
      by (simp add: show_nat.simps [of n] read_nat_append_digit)
  qed
qed

lemma show_nat_inj: "show_nat m = show_nat n \<Longrightarrow> m = n"
  by (metis read_show_nat)

end
