(* ===== verification/JsNumber.thy ===== *)
theory JsNumber
  imports Prelude Complex_Main
begin

text \<open>
  JavaScript numbers. A finite \<open>number\<close> is modelled by its value, a rational; every
  arithmetic operation of the language rounds its exact result to 53 significant bits,
  ties to even, which is what \<open>fl\<close> does. The exponent is not bounded: the model is the
  language's arithmetic for results between the smallest normal number and the largest
  finite one, which covers every amount, quantity and rate the program accepts. Infinite
  values and NaN cannot enter through JSON. The sign of zero is not modelled (the
  program never divides by a zero it could have signed, and JSON prints both as 0).
\<close>

type_synonym num = rat

fun nlog2 :: "nat \<Rightarrow> nat" where
  "nlog2 n = (if n < 2 then 0 else Suc (nlog2 (n div 2)))"

declare nlog2.simps [simp del]

text \<open>The exponent of the binade of a positive rational: \<open>2 ^ e \<le> x < 2 ^ (e + 1)\<close>.\<close>

definition binade :: "rat \<Rightarrow> int" where
  "binade x = (let (p, q) = quotient_of x;
                   k = int (nlog2 (nat p)) - int (nlog2 (nat q))
               in if 2 powi k \<le> x then k else k - 1)"

definition round_half_even :: "rat \<Rightarrow> int" where
  "round_half_even y =
    (let k = \<lfloor>y\<rfloor>; d = y - of_int k
     in if d < 1/2 then k else if 1/2 < d then k + 1 else if even k then k else k + 1)"

definition fl_pos :: "rat \<Rightarrow> rat" where
  "fl_pos x = (let u = 2 powi (binade x - 52) in of_int (round_half_even (x / u)) * u)"

definition fl :: "rat \<Rightarrow> num" where
  "fl x = (if x = 0 then 0 else if 0 < x then fl_pos x else - fl_pos (- x))"

definition jadd :: "num \<Rightarrow> num \<Rightarrow> num" where
  "jadd a b = fl (a + b)"

definition jsub :: "num \<Rightarrow> num \<Rightarrow> num" where
  "jsub a b = fl (a - b)"

definition jmul :: "num \<Rightarrow> num \<Rightarrow> num" where
  "jmul a b = fl (a * b)"

definition jdiv :: "num \<Rightarrow> num \<Rightarrow> num" where
  "jdiv a b = fl (a / b)"

text \<open>\<open>Math.round\<close>: the closest integer, ties towards plus infinity.\<close>

definition js_round :: "num \<Rightarrow> int" where
  "js_round x = \<lfloor>x + 1/2\<rfloor>"

section \<open>The binade\<close>

lemma nlog2_bounds: "0 < n \<Longrightarrow> 2 ^ nlog2 n \<le> n \<and> n < 2 ^ Suc (nlog2 n)"
proof (induction n rule: nlog2.induct)
  case (1 n)
  show ?case
  proof (cases "n < 2")
    case True
    with 1 show ?thesis by (simp add: nlog2.simps [of n])
  next
    case False
    with 1 have "2 ^ nlog2 (n div 2) \<le> n div 2 \<and> n div 2 < 2 ^ Suc (nlog2 (n div 2))"
      by simp
    with False show ?thesis
      by (simp add: nlog2.simps [of n]) linarith
  qed
qed

lemma nlog2_rat:
  assumes "0 < p"
  shows "(2::rat) ^ nlog2 (nat p) \<le> of_int p" and "of_int p < (2::rat) * 2 ^ nlog2 (nat p)"
proof -
  have b: "2 ^ nlog2 (nat p) \<le> nat p" "nat p < 2 ^ Suc (nlog2 (nat p))"
    using nlog2_bounds [of "nat p"] assms by auto
  from b(1) have "int (2 ^ nlog2 (nat p)) \<le> int (nat p)"
    by (simp only: of_nat_le_iff)
  with assms have i1: "(2::int) ^ nlog2 (nat p) \<le> p" by simp
  from b(2) have "int (nat p) < int (2 ^ Suc (nlog2 (nat p)))"
    by (simp only: of_nat_less_iff)
  with assms have i2: "p < 2 * 2 ^ nlog2 (nat p)" by simp
  from i1 have "(of_int (2 ^ nlog2 (nat p)) :: rat) \<le> of_int p"
    by (simp only: of_int_le_iff)
  then show "(2::rat) ^ nlog2 (nat p) \<le> of_int p" by simp
  from i2 have "(of_int p :: rat) < of_int (2 * 2 ^ nlog2 (nat p))"
    by (simp only: of_int_less_iff)
  then show "of_int p < (2::rat) * 2 ^ nlog2 (nat p)" by simp
qed

lemma binade_bounds:
  assumes "0 < x"
  shows "2 powi (binade x) \<le> x" and "x < 2 powi (binade x + 1)"
proof -
  obtain p q where pq: "quotient_of x = (p, q)" by (cases "quotient_of x")
  then have q: "0 < q" and x: "x = of_int p / of_int q"
    by (simp_all add: quotient_of_denom_pos quotient_of_div)
  with assms have p: "0 < p"
    by (simp add: zero_less_divide_iff)
  let ?a = "nlog2 (nat p)" and ?b = "nlog2 (nat q)"
  note p1 = nlog2_rat(1) [OF p] and p2 = nlog2_rat(2) [OF p]
  note q1 = nlog2_rat(1) [OF q] and q2 = nlog2_rat(2) [OF q]
  let ?k = "int ?a - int ?b"
  have k: "(2::rat) powi ?k = 2 ^ ?a / 2 ^ ?b"
    by (simp add: power_int_diff)
  have qr: "0 < (of_int q :: rat)" using q by simp
  have up: "x < 2 powi (?k + 1)"
  proof -
    have "x < 2 * 2 ^ ?a / of_int q"
      unfolding x using p2 qr by (simp add: divide_strict_right_mono)
    also have "\<dots> \<le> 2 * 2 ^ ?a / 2 ^ ?b"
      using q1 qr by (intro divide_left_mono) auto
    finally show ?thesis by (simp add: power_int_add k mult.commute)
  qed
  have lo: "2 powi (?k - 1) \<le> x"
  proof -
    have "2 powi (?k - 1) = 2 ^ ?a / (2 * 2 ^ ?b :: rat)"
      by (simp add: power_int_diff k)
    also have "\<dots> \<le> 2 ^ ?a / of_int q"
      using q2 qr by (intro divide_left_mono) auto
    also have "\<dots> \<le> x"
      unfolding x using p1 qr by (intro divide_right_mono) auto
    finally show ?thesis .
  qed
  have b: "binade x = (if 2 powi ?k \<le> x then ?k else ?k - 1)"
    by (simp add: binade_def pq Let_def)
  show "2 powi (binade x) \<le> x" "x < 2 powi (binade x + 1)"
    using up lo by (auto simp: b)
qed

lemma round_half_even_int [simp]: "round_half_even (of_int m) = m"
  by (simp add: round_half_even_def)

lemma round_half_even_error: "\<bar>of_int (round_half_even y) - y\<bar> \<le> 1/2"
proof -
  let ?k = "\<lfloor>y\<rfloor>"
  have k: "of_int ?k \<le> y" "y < of_int ?k + 1" by linarith+
  show ?thesis
  proof (cases "y - of_int ?k < 1/2")
    case True
    then have "round_half_even y = ?k" by (simp add: round_half_even_def Let_def)
    with k True show ?thesis by (simp add: abs_le_iff)
  next
    case False
    then consider "round_half_even y = ?k + 1" | "round_half_even y = ?k" "y - of_int ?k = 1/2"
      by (simp add: round_half_even_def Let_def) (metis linorder_neqE_linordered_idom)
    then show ?thesis
      using k False by cases (simp_all add: abs_le_iff)
  qed
qed

section \<open>Rounding error and exact results\<close>

abbreviation ulp_half :: rat where
  "ulp_half \<equiv> 1 / 2 ^ 53"

lemma fl_pos_error:
  assumes "0 < x"
  shows "\<bar>fl_pos x - x\<bar> \<le> x * ulp_half"
proof -
  let ?u = "2 powi (binade x - 52) :: rat"
  have u: "0 < ?u" by simp
  have "fl_pos x - x = (of_int (round_half_even (x / ?u)) - x / ?u) * ?u"
    using u by (simp add: fl_pos_def Let_def field_simps)
  then have "\<bar>fl_pos x - x\<bar> \<le> 1/2 * ?u"
    using round_half_even_error [of "x / ?u"] u
    by (simp add: abs_mult mult_right_mono)
  also have "\<dots> = 2 powi (binade x) * ulp_half"
    by (simp add: power_int_diff)
  also have "\<dots> \<le> x * ulp_half"
    using binade_bounds(1) [OF assms] by (intro mult_right_mono) auto
  finally show ?thesis .
qed

lemma fl_error: "\<bar>fl x - x\<bar> \<le> \<bar>x\<bar> * ulp_half"
  using fl_pos_error [of x] fl_pos_error [of "- x"]
  by (auto simp: fl_def abs_if split: if_splits)

lemma fl_0 [simp]: "fl 0 = 0"
  by (simp add: fl_def)

lemma fl_minus: "fl (- x) = - fl x"
  by (auto simp: fl_def)

text \<open>Values with at most 53 significant bits are not rounded.\<close>

lemma fl_pos_exact:
  assumes "0 < m" "m < 2 ^ 53"
  shows "fl_pos (of_int m * 2 powi k) = of_int m * 2 powi k"
proof -
  let ?x = "of_int m * 2 powi k :: rat"
  let ?u = "2 powi (binade ?x - 52) :: rat"
  have x: "0 < ?x" using assms by simp
  have m: "(of_int m :: rat) < of_int (2 ^ 53)"
    using assms(2) by (simp only: of_int_less_iff)
  have "2 powi (binade ?x) \<le> ?x" by (rule binade_bounds(1) [OF x])
  also have "\<dots> < of_int (2 ^ 53) * 2 powi k"
    using m by (rule mult_strict_right_mono) simp
  also have "\<dots> = 2 powi (53 + k)"
    by (simp add: power_int_add)
  finally have "2 powi (binade ?x) < (2::rat) powi (53 + k)" .
  then have "binade ?x < 53 + k"
    by (meson not_le one_le_numeral power_int_increasing)
  then have le: "binade ?x - 52 \<le> k" by simp
  define d where "d = nat (k - (binade ?x - 52))"
  have "k = (binade ?x - 52) + int d"
    using le by (simp add: d_def)
  then have "(2::rat) powi k = ?u * 2 ^ d"
    by (metis power_int_add power_int_of_nat zero_neq_numeral)
  then have xu: "?x = of_int (m * 2 ^ d) * ?u"
    by (simp only: of_int_mult of_int_power of_int_numeral mult.assoc mult.commute [of ?u])
  have "?u \<noteq> 0" by simp
  then have "?x / ?u = of_int (m * 2 ^ d)"
    using xu by (metis nonzero_mult_div_cancel_right)
  then have "fl_pos ?x = of_int (m * 2 ^ d) * ?u"
    by (simp only: fl_pos_def Let_def round_half_even_int)
  then show ?thesis by (rule trans [OF _ xu [symmetric]])
qed

lemma fl_exact:
  assumes "\<bar>m\<bar> < 2 ^ 53"
  shows "fl (of_int m * 2 powi k) = of_int m * 2 powi k"
proof -
  consider "m = 0" | "0 < m" | "m < 0" by linarith
  then show ?thesis
  proof cases
    case 3
    then have "fl_pos (of_int (- m) * 2 powi k) = of_int (- m) * 2 powi k"
      using assms by (intro fl_pos_exact) auto
    moreover have "of_int m * 2 powi k < (0::rat)"
      using 3 by (intro mult_neg_pos) auto
    ultimately show ?thesis by (simp add: fl_def)
  qed (use assms fl_pos_exact [of m k] in \<open>simp_all add: fl_def\<close>)
qed

section \<open>The interface of a correctly rounded arithmetic\<close>

text \<open>
  What the money code relies on: a relative error of half a unit in the last place, and
  exactness on values of at most 53 bits. The lemmas below are proved from these two laws
  only and hold for the model's rounding by the interpretation that follows.
\<close>

locale js_rounding =
  fixes rnd :: "rat \<Rightarrow> rat"
  assumes rnd_error: "\<bar>rnd x - x\<bar> \<le> \<bar>x\<bar> * ulp_half"
    and rnd_exact: "\<bar>m\<bar> < 2 ^ 53 \<Longrightarrow> rnd (of_int m * 2 powi k) = of_int m * 2 powi k"
begin

lemma rnd_int: "\<bar>m\<bar> < 2 ^ 53 \<Longrightarrow> rnd (of_int m) = of_int m"
  using rnd_exact [of m 0] by simp

lemma rnd_half: "\<bar>m\<bar> < 2 ^ 53 \<Longrightarrow> rnd (of_int m / 2) = of_int m / 2"
  using rnd_exact [of m "-1"] by (simp add: power_int_minus field_simps)

lemma rnd_upper: "0 \<le> x \<Longrightarrow> rnd x \<le> x * (1 + ulp_half)"
  using rnd_error [of x] unfolding abs_le_iff distrib_left mult_1_right by linarith

lemma rnd_lower: "0 \<le> x \<Longrightarrow> x * (1 - ulp_half) \<le> rnd x"
  using rnd_error [of x] unfolding abs_le_iff right_diff_distrib mult_1_right by linarith

lemma rnd_nonneg: "0 \<le> x \<Longrightarrow> 0 \<le> rnd x"
proof -
  assume x: "0 \<le> x"
  then have "0 \<le> x * (1 - ulp_half)" by simp
  with rnd_lower [OF x] show ?thesis by linarith
qed

text \<open>Rounding the rounded value to an integer cannot pass an integer bound.\<close>

lemma round_rnd_le:
  assumes "0 \<le> x" "x \<le> of_int c" "c < 2 ^ 52"
  shows "js_round (rnd x) \<le> c"
proof -
  have c: "(of_int c :: rat) < of_int (2 ^ 52)"
    using assms(3) by (simp only: of_int_less_iff)
  have "rnd x \<le> x + x * ulp_half"
    using rnd_upper [OF assms(1)] by (simp add: algebra_simps)
  also have "\<dots> \<le> of_int c + of_int c * ulp_half"
    using assms(1,2) by (intro add_mono mult_right_mono) auto
  also have "\<dots> < of_int c + 1/2"
    using c by simp
  finally show ?thesis
    by (simp add: js_round_def floor_le_iff)
qed

text \<open>
  A quotient of integers, rounded to a double and then to an integer, is the exact
  quotient rounded half up: the double error is too small to cross a half.
\<close>

lemma round_rnd_quotient:
  assumes n: "0 \<le> n" "n < 2 ^ 52" and d: "0 < d"
  shows "js_round (rnd (of_int n / of_int d)) = (2 * n + d) div (2 * d)"
proof -
  let ?x = "of_int n / of_int d :: rat"
  define k where "k = (2 * n + d) div (2 * d)"
  have d': "0 < (of_int d :: rat)" using d by simp
  have x0: "0 \<le> ?x" using n d' by simp
  have kd: "k * (2 * d) + (2 * n + d) mod (2 * d) = 2 * n + d"
    unfolding k_def by (rule div_mult_mod_eq)
  moreover have "0 \<le> (2 * n + d) mod (2 * d)" "(2 * n + d) mod (2 * d) < 2 * d"
    using d by simp_all
  ultimately have k1: "2 * k * d \<le> 2 * n + d" and k2: "2 * n + d < 2 * (k + 1) * d"
    by (simp_all only: distrib_left distrib_right mult.assoc mult.commute [of 2] mult_1_right)
  have n52: "(of_int n :: rat) < of_int (2 ^ 52)"
    using n(2) by (simp only: of_int_less_iff)
  have err: "\<bar>rnd ?x - ?x\<bar> < 1 / (2 * of_int d)"
  proof -
    have "\<bar>rnd ?x - ?x\<bar> \<le> ?x * ulp_half"
      using rnd_error [of ?x] x0 by simp
    also have "\<dots> < 1 / (2 * of_int d)"
      using n52 d' by (simp add: field_simps)
    finally show ?thesis .
  qed
  have upper: "rnd ?x < of_int k + 1/2"
  proof -
    have "2 * n + 1 \<le> (2 * k + 1) * d" using k2 by (simp add: algebra_simps)
    then have "(of_int (2 * n + 1) :: rat) \<le> of_int ((2 * k + 1) * d)"
      by (simp only: of_int_le_iff)
    then have "?x + 1 / (2 * of_int d) \<le> of_int k + 1/2"
      using d' by (simp add: field_simps)
    with err show ?thesis by (simp add: abs_less_iff)
  qed
  have lower: "of_int k - 1/2 \<le> rnd ?x"
  proof (cases "2 * n + d = 2 * k * d")
    case True
    then have "(of_int (2 * n + d) :: rat) = of_int (2 * k * d)" by simp
    then have xe: "?x = of_int (2 * k - 1) / 2"
      using d' by (simp add: field_simps)
    have "\<bar>2 * k - 1\<bar> < 2 ^ 53"
    proof -
      have "0 \<le> k" using n d by (simp add: k_def pos_imp_zdiv_nonneg_iff)
      moreover have "2 * k - 1 \<le> (2 * k - 1) * d" if "1 \<le> k"
        using that d by simp
      moreover have "(2 * k - 1) * d = 2 * n" using True by (simp add: algebra_simps)
      ultimately show ?thesis using n by (cases "1 \<le> k") auto
    qed
    then have "rnd ?x = ?x" unfolding xe by (rule rnd_half)
    then show ?thesis by (simp add: xe)
  next
    case False
    with k1 have "(2 * k - 1) * d + 1 \<le> 2 * n" by (simp add: algebra_simps)
    then have "(of_int ((2 * k - 1) * d + 1) :: rat) \<le> of_int (2 * n)"
      by (simp only: of_int_le_iff)
    then have "of_int k - 1/2 \<le> ?x - 1 / (2 * of_int d)"
      using d' by (simp add: field_simps)
    with err show ?thesis by (simp add: abs_less_iff)
  qed
  have "\<lfloor>rnd ?x + 1/2\<rfloor> = k"
    using lower upper by (simp add: floor_eq_iff)
  then show ?thesis by (simp add: js_round_def k_def)
qed

end

interpretation js: js_rounding fl
  by unfold_locales (rule fl_error, rule fl_exact)

lemmas fl_int = js.rnd_int and fl_nonneg = js.rnd_nonneg

lemma jadd_int [simp]:
  "\<bar>a + b\<bar> < 2 ^ 53 \<Longrightarrow> jadd (of_int a) (of_int b) = of_int (a + b)"
  unfolding jadd_def using fl_int [of "a + b"] by simp

lemma jsub_int [simp]:
  "\<bar>a - b\<bar> < 2 ^ 53 \<Longrightarrow> jsub (of_int a) (of_int b) = of_int (a - b)"
  unfolding jsub_def using fl_int [of "a - b"] by simp

lemma jmul_int [simp]:
  "\<bar>a * b\<bar> < 2 ^ 53 \<Longrightarrow> jmul (of_int a) (of_int b) = of_int (a * b)"
  unfolding jmul_def using fl_int [of "a * b"] by simp

text \<open>A sum of integers is exact as long as the magnitudes add up to less than \<open>2 ^ 53\<close>.\<close>

lemma foldl_jadd_int:
  assumes "\<bar>a\<bar> + sum_list (map (\<lambda>x. \<bar>f x\<bar>) xs) < 2 ^ 53"
  shows "foldl (\<lambda>s x. jadd s (of_int (f x))) (of_int a) xs = of_int (a + sum_list (map f xs))"
  using assms
proof (induction xs arbitrary: a)
  case Nil
  then show ?case by simp
next
  case (Cons x xs)
  have nn: "0 \<le> sum_list (map (\<lambda>x. \<bar>f x\<bar>) xs)" by (induction xs) auto
  have "\<bar>a + f x\<bar> < 2 ^ 53" using Cons.prems nn by simp
  then have "jadd (of_int a) (of_int (f x)) = of_int (a + f x)" by (rule jadd_int)
  moreover have "\<bar>a + f x\<bar> + sum_list (map (\<lambda>x. \<bar>f x\<bar>) xs) < 2 ^ 53"
    using Cons.prems by simp
  ultimately show ?case
    using Cons.IH [of "a + f x"] by (simp add: add.assoc)
qed

section \<open>Evaluation\<close>

text \<open>
  The code equations of the rounding work on the numerator and denominator, so that a
  rounded value is a literal before it is used again.
\<close>

fun ilog2 :: "int \<Rightarrow> int" where
  "ilog2 n = (if n < 2 then 0 else 1 + ilog2 (n div 2))"

declare ilog2.simps [simp del]

lemma ilog2_nlog2: "int (nlog2 (nat p)) = ilog2 p"
proof (induction p rule: ilog2.induct)
  case (1 p)
  show ?case
  proof (cases "p < 2")
    case True
    then show ?thesis by (simp add: ilog2.simps [of p] nlog2.simps [of "nat p"])
  next
    case False
    then have "nat p div 2 = nat (p div 2)" "\<not> nat p < 2" by (simp_all add: nat_div_distrib)
    with False 1 show ?thesis by (simp add: ilog2.simps [of p] nlog2.simps [of "nat p"])
  qed
qed

definition scale :: "int \<Rightarrow> int \<Rightarrow> int \<Rightarrow> int \<times> int" where
  "scale p q e = (if 0 \<le> e then (p, q * 2 ^ nat e) else (p * 2 ^ nat (- e), q))"

definition round_frac :: "int \<times> int \<Rightarrow> int" where
  "round_frac nd =
    (let n = fst nd; d = snd nd; k = n div d; r = n mod d
     in if 2 * r < d then k else if d < 2 * r then k + 1 else if even k then k else k + 1)"

definition binade_frac :: "int \<Rightarrow> int \<Rightarrow> int" where
  "binade_frac p q =
    (let k = ilog2 p - ilog2 q; nd = scale p q k
     in if snd nd \<le> fst nd then k else k - 1)"

definition fl_frac :: "int \<Rightarrow> int \<Rightarrow> rat" where
  "fl_frac p q =
    (if p = 0 then 0
     else let e = binade_frac \<bar>p\<bar> q - 52; m = round_frac (scale \<bar>p\<bar> q e);
              n = (if 0 < p then m else - m)
          in if 0 \<le> e then of_int (n * 2 ^ nat e) else of_int n / of_int (2 ^ nat (- e)))"

lemma powi_times: "of_int n * 2 powi e
    = (if 0 \<le> e then of_int (n * 2 ^ nat e) else of_int n / of_int (2 ^ nat (- e)) :: rat)"
  by (simp add: power_int_def field_simps)

lemma scale_pos: "0 < q \<Longrightarrow> 0 < snd (scale p q e)"
  by (simp add: scale_def)

lemma scale_value:
  assumes "0 < q"
  shows "(of_int (fst (scale p q e)) / of_int (snd (scale p q e)) :: rat) = of_int p / of_int q / 2 powi e"
  using assms by (simp add: scale_def power_int_def field_simps)

lemma round_frac_value:
  assumes "0 < d"
  shows "round_half_even (of_int n / of_int d) = round_frac (n, d)"
proof -
  have d: "0 < (of_int d :: rat)" using assms by simp
  have "n = d * (n div d) + n mod d" by simp
  then have "(of_int n :: rat) = of_int d * of_int (n div d) + of_int (n mod d)"
    by (metis of_int_add of_int_mult)
  then have r: "of_int n / of_int d - of_int (n div d) = (of_int (n mod d) / of_int d :: rat)"
    using d by (simp add: field_simps)
  have fl: "\<lfloor>of_int n / of_int d :: rat\<rfloor> = n div d" by (rule floor_divide_of_int_eq)
  have lt: "(of_int (n mod d) / of_int d < (1/2 :: rat)) = (2 * (n mod d) < d)"
    and gt: "((1/2 :: rat) < of_int (n mod d) / of_int d) = (d < 2 * (n mod d))"
  proof -
    have "(of_int (n mod d) / of_int d < (1/2 :: rat)) = (of_int (2 * (n mod d)) < (of_int d :: rat))"
      using d by (simp add: field_simps)
    then show "(of_int (n mod d) / of_int d < (1/2 :: rat)) = (2 * (n mod d) < d)"
      by (simp only: of_int_less_iff)
    have "((1/2 :: rat) < of_int (n mod d) / of_int d) = ((of_int d :: rat) < of_int (2 * (n mod d)))"
      using d by (simp add: field_simps)
    then show "((1/2 :: rat) < of_int (n mod d) / of_int d) = (d < 2 * (n mod d))"
      by (simp only: of_int_less_iff)
  qed
  show ?thesis
    unfolding round_half_even_def Let_def fl r lt gt round_frac_def fst_conv snd_conv ..
qed

lemma quotient_of_pos: "quotient_of x = (p, q) \<Longrightarrow> 0 < q \<and> x = of_int p / of_int q"
  by (simp add: quotient_of_denom_pos quotient_of_div)

lemma binade_frac_value:
  assumes "quotient_of x = (p, q)" "0 < x"
  shows "binade x = binade_frac p q"
proof -
  note q = quotient_of_pos [OF assms(1)]
  define k where "k = int (nlog2 (nat p)) - int (nlog2 (nat q))"
  let ?n = "fst (scale p q k)" and ?d = "snd (scale p q k)"
  have d: "0 < (of_int ?d :: rat)" using scale_pos q by simp
  have "(2 powi k \<le> x) = (1 \<le> x / 2 powi k)" by (simp add: le_divide_eq)
  also have "\<dots> = (1 \<le> (of_int ?n / of_int ?d :: rat))" using q by (simp add: scale_value)
  also have "\<dots> = (of_int ?d \<le> (of_int ?n :: rat))" using d by (simp add: le_divide_eq)
  finally have "(2 powi k \<le> x) = (?d \<le> ?n)" by simp
  then show ?thesis
    by (simp add: binade_def binade_frac_def assms(1) Let_def ilog2_nlog2 [symmetric] flip: k_def)
qed

lemma fl_pos_frac:
  assumes "quotient_of x = (p, q)" "0 < x"
  shows "fl_pos x = of_int (round_frac (scale p q (binade_frac p q - 52))) * 2 powi (binade_frac p q - 52)"
proof -
  note q = quotient_of_pos [OF assms(1)]
  let ?s = "scale p q (binade_frac p q - 52)"
  have "x / 2 powi (binade_frac p q - 52) = of_int (fst ?s) / of_int (snd ?s)"
    using q scale_value [of q p] by simp
  then have "round_half_even (x / 2 powi (binade_frac p q - 52)) = round_frac ?s"
    using round_frac_value [of "snd ?s" "fst ?s"] scale_pos [of q p "binade_frac p q - 52"] q by simp
  then show ?thesis
    by (simp add: fl_pos_def Let_def binade_frac_value [OF assms])
qed

lemma fl_code [code]: "fl x = (case quotient_of x of (p, q) \<Rightarrow> fl_frac p q)"
proof -
  obtain p q where pq: "quotient_of x = (p, q)" by (cases "quotient_of x")
  note q = quotient_of_pos [OF pq]
  have m: "quotient_of (- x) = (- p, q)" using pq by (simp add: rat_uminus_code)
  have sg: "(0 < x) = (0 < p)" "(x = 0) = (p = 0)"
    using q by (simp_all add: zero_less_divide_iff)
  consider "p = 0" | "0 < p" | "p < 0" by linarith
  then show ?thesis
  proof cases
    case 1
    then show ?thesis by (simp add: fl_def pq fl_frac_def sg)
  next
    case 2
    then show ?thesis using fl_pos_frac [OF pq] by (simp add: fl_def pq fl_frac_def sg Let_def powi_times)
  next
    case 3
    then have "0 < - x" using q by (simp add: divide_less_0_iff)
    then show ?thesis using 3 fl_pos_frac [OF m] by (simp add: fl_def pq fl_frac_def sg Let_def powi_times)
  qed
qed

end
