(* ===== verification/Money.thy ===== *)
theory Money
  imports JsNumber
begin

text \<open>
  Amounts in centavos and quantities in thousandths: \<open>common/totals/money.ts\<close> and
  \<open>common/totals/qty.ts\<close>. A \<open>number\<close> is a \<open>num\<close>; each arithmetic operator of the
  source is the rounded operation of \<open>JsNumber\<close>, in the source's order. A thrown
  \<open>Error\<close> is \<open>None\<close>. The formatter is modelled on whole centavos, the only amounts it
  is given; \<open>toLocaleString('en-PH')\<close> groups the digits of a natural number in threes.
\<close>

section \<open>Money\<close>

definition halfUp :: "num \<Rightarrow> num" where
  "halfUp x = sgn x * of_int (js_round \<bar>x\<bar>)"

definition pesos :: "num \<Rightarrow> num" where
  "pesos p = halfUp (jmul p 100)"

fun group_rev :: "string \<Rightarrow> string" where
  "group_rev (a # b # c # d # ds) = a # b # c # CHR '','' # group_rev (d # ds)"
| "group_rev ds = ds"

definition toLocaleString :: "nat \<Rightarrow> string" where
  "toLocaleString n = rev (group_rev (rev (show_nat n)))"

definition formatC :: "int \<Rightarrow> string" where
  "formatC c =
    (let sign = (if c < 0 then ''-'' else '''');
         a = nat \<bar>c\<bar>;
         cents = show_nat (a mod 100)
     in sign @ toLocaleString (a div 100) @ ''.''
          @ (if List.length cents < 2 then CHR ''0'' # cents else cents))"

text \<open>The regular expression \<open>^\d+(\.\d{1,2})?$\<close>, as whole digits and fraction digits.\<close>

definition match_peso :: "string \<Rightarrow> (string \<times> string) option" where
  "match_peso s =
    (let w = takeWhile is_digit s; r = dropWhile is_digit s
     in if w = [] then None
        else case r of [] \<Rightarrow> Some (w, [])
          | c # f \<Rightarrow> if c = CHR ''.'' \<and> list_all is_digit f \<and> (List.length f = 1 \<or> List.length f = 2)
                     then Some (w, f) else None)"

definition parseFloat :: "string \<times> string \<Rightarrow> num" where
  "parseFloat x = fl (of_nat (read_nat (fst x @ snd x)) / 10 ^ List.length (snd x))"

definition parsePesoInput :: "string \<Rightarrow> num option" where
  "parsePesoInput s =
    (let cleaned = trim (List.filter (\<lambda>c. c \<noteq> CHR '','') s)
     in case match_peso cleaned of None \<Rightarrow> None
        | Some x \<Rightarrow> Some (halfUp (jmul (parseFloat x) 100)))"

definition mulRate :: "num \<Rightarrow> num \<Rightarrow> num" where
  "mulRate c rate = halfUp (jmul c rate)"

definition pct :: "num \<Rightarrow> num \<Rightarrow> num" where
  "pct c percent = halfUp (jdiv (jmul c percent) 100)"

definition vatIncluded :: "num \<Rightarrow> num \<Rightarrow> num" where
  "vatIncluded totalC rate =
    (if rate = 0 then 0 else halfUp (jdiv (jmul totalC rate) (jadd 1 rate)))"

section \<open>Quantities\<close>

definition qtyToMilli :: "num \<Rightarrow> num option" where
  "qtyToMilli q =
    (let m = jmul q 1000; rounded = of_int (js_round m)
     in if fl (1 / 1000000) < \<bar>jsub m rounded\<bar> then None else Some rounded)"

definition milliToQty :: "num \<Rightarrow> num" where
  "milliToQty m = jdiv m 1000"

definition mulQtyPriceC :: "num \<Rightarrow> num \<Rightarrow> num option" where
  "mulQtyPriceC qty unitPriceC =
    map_option (\<lambda>m. halfUp (jdiv (jmul m unitPriceC) 1000)) (qtyToMilli qty)"

text \<open>
  \<open>toFixed(3)\<close>, read as thousandths: the closest multiple, the larger one of two.
\<close>

definition toFixed3 :: "num \<Rightarrow> int" where
  "toFixed3 x = (if x < 0 then - \<lfloor>- x * 1000 + 1/2\<rfloor> else \<lfloor>x * 1000 + 1/2\<rfloor>)"

section \<open>Rounding to whole centavos\<close>

lemma halfUp_nonneg: "0 \<le> x \<Longrightarrow> halfUp x = of_int (js_round x)"
  by (cases "x = 0") (auto simp: halfUp_def js_round_def floor_eq_iff)

lemma halfUp_minus: "halfUp (- x) = - halfUp x"
  by (simp add: halfUp_def sgn_minus)

lemma halfUp_0 [simp]: "halfUp 0 = 0"
  by (simp add: halfUp_def)

lemma js_round_int [simp]: "js_round (of_int m) = m"
  by (simp add: js_round_def floor_eq_iff)

lemma halfUp_int [simp]: "halfUp (of_int m) = of_int m"
  using js_round_int [of "\<bar>m\<bar>"] by (simp add: halfUp_def sgn_if)

lemma halfUp_code [code]:
  "halfUp x = of_int (if 0 < x then js_round x else if x < 0 then - js_round (- x) else 0)"
  by (auto simp: halfUp_def sgn_if)

lemma halfUp_integral: "\<exists>i. halfUp x = of_int i"
proof -
  have "halfUp x = of_int (if 0 < x then js_round \<bar>x\<bar> else if x < 0 then - js_round \<bar>x\<bar> else 0)"
    by (simp add: halfUp_def sgn_if)
  then show ?thesis by blast
qed

text \<open>The rounded result of a non-negative value below an integer bound stays below it.\<close>

lemma js_round_nonneg: "0 \<le> x \<Longrightarrow> 0 \<le> js_round x"
  by (simp add: js_round_def)

lemma halfUp_fl_le:
  assumes "0 \<le> x" "x \<le> of_int c" "c < 2 ^ 52"
  shows "\<exists>i. halfUp (fl x) = of_int i \<and> 0 \<le> i \<and> i \<le> c"
  using assms js.round_rnd_le [OF assms] fl_nonneg [OF assms(1)]
  by (auto simp: halfUp_nonneg js_round_nonneg)

lemma halfUp_quotient:
  assumes "0 \<le> n" "n < 2 ^ 52" "0 < d"
  shows "halfUp (fl (of_int n / of_int d)) = of_int ((2 * n + d) div (2 * d))"
proof -
  have "0 \<le> (of_int n / of_int d :: rat)" using assms by simp
  then have "0 \<le> fl (of_int n / of_int d)" by (rule fl_nonneg)
  then show ?thesis using js.round_rnd_quotient [OF assms] by (simp add: halfUp_nonneg)
qed

text \<open>A percentage of an amount is the exact quotient, rounded half up.\<close>

lemma pct_int:
  assumes "0 \<le> c" "0 \<le> p" "c * p < 2 ^ 52"
  shows "pct (of_int c) (of_int p) = of_int ((2 * (c * p) + 100) div 200)"
proof -
  have "jmul (of_int c) (of_int p) = of_int (c * p)"
    using assms by (intro jmul_int) (simp add: abs_mult)
  moreover have "halfUp (fl (of_int (c * p) / of_int 100)) = of_int ((2 * (c * p) + 100) div (2 * 100))"
    using assms by (intro halfUp_quotient) auto
  ultimately show ?thesis by (simp add: pct_def jdiv_def)
qed

section \<open>Quantities with three decimals are read exactly\<close>

lemma abs_diff_trans: "\<bar>a - b\<bar> \<le> 2 * m * u \<Longrightarrow> \<bar>b - m\<bar> \<le> m * u \<Longrightarrow> \<bar>a - m\<bar> \<le> m * (3 * (u::rat))"
  by (simp add: abs_le_iff)

lemma scaled_error:
  assumes "0 \<le> m" "0 < (k::int)"
  shows "\<bar>jmul (fl (of_int m / of_int k)) (of_int k) - of_int m\<bar> \<le> of_int m * (3 * ulp_half)"
proof -
  let ?x = "of_int m / of_int k :: rat"
  have k: "0 < (of_int k :: rat)" using assms by simp
  have x: "0 \<le> ?x" using assms k by simp
  have q: "\<bar>fl ?x - ?x\<bar> \<le> ?x * ulp_half" using fl_error [of ?x] x by simp
  then have "\<bar>fl ?x - ?x\<bar> * of_int k \<le> ?x * ulp_half * of_int k"
    using k by (intro mult_right_mono) auto
  then have e1: "\<bar>fl ?x * of_int k - of_int m\<bar> \<le> of_int m * ulp_half"
    using k by (simp add: abs_mult_pos left_diff_distrib)
  let ?y = "fl ?x * of_int k"
  have m: "0 \<le> (of_int m :: rat)" using assms by simp
  have y: "\<bar>?y\<bar> \<le> 2 * of_int m"
  proof -
    have "of_int m * ulp_half \<le> of_int m" using m by simp
    with e1 m show ?thesis by linarith
  qed
  have "\<bar>fl ?y - ?y\<bar> \<le> \<bar>?y\<bar> * ulp_half" by (rule fl_error)
  also have "\<dots> \<le> 2 * of_int m * ulp_half" using y by (intro mult_right_mono) auto
  finally have "\<bar>fl ?y - of_int m\<bar> \<le> of_int m * (3 * ulp_half)"
    using e1 by (rule abs_diff_trans)
  then show ?thesis by (simp add: jmul_def)
qed

lemma qtyToMilli_exact:
  assumes "0 \<le> m" "m \<le> 10 ^ 9"
  shows "qtyToMilli (fl (of_int m / 1000)) = Some (of_int m)"
proof -
  define y where "y = jmul (fl (of_int m / 1000)) 1000"
  have mb: "(of_int m :: rat) \<le> of_int (10 ^ 9)" using assms(2) by (simp only: of_int_le_iff)
  have e: "\<bar>y - of_int m\<bar> \<le> 3 * 10 ^ 9 * ulp_half"
    using scaled_error [OF assms(1), of 1000] mb unfolding y_def by simp
  have "3 * 10 ^ 9 * ulp_half < 1 / 2" by simp
  with e have "js_round y = m"
    unfolding js_round_def floor_eq_iff by linarith
  moreover have "\<bar>jsub y (of_int m)\<bar> \<le> 1 / 1000000 * (1 - ulp_half)"
  proof -
    have "\<bar>fl (y - of_int m) - (y - of_int m)\<bar> \<le> \<bar>y - of_int m\<bar> * ulp_half"
      by (rule fl_error)
    also have "\<dots> \<le> \<bar>y - of_int m\<bar>" by simp
    finally have "\<bar>fl (y - of_int m)\<bar> \<le> 2 * (3 * 10 ^ 9 * ulp_half)"
      using e by linarith
    also have "\<dots> \<le> 1 / 1000000 * (1 - ulp_half)" by simp
    finally show ?thesis by (simp add: jsub_def)
  qed
  moreover have "1 / 1000000 * (1 - ulp_half) \<le> fl (1 / 1000000)"
    by (rule js.rnd_lower) simp
  ultimately show ?thesis
    unfolding qtyToMilli_def Let_def y_def [symmetric] by simp
qed

text \<open>
  C15. Price times quantity: the exact product of thousandths and centavos, rounded half up,
  as long as that product fits in 52 bits.
\<close>

theorem mulQtyPriceC_exact:
  assumes "0 \<le> m" "m \<le> 10 ^ 9" "0 \<le> c" "m * c < 2 ^ 52"
  shows "mulQtyPriceC (fl (of_int m / 1000)) (of_int c) = Some (of_int ((2 * (m * c) + 1000) div 2000))"
proof -
  have "jmul (of_int m) (of_int c) = of_int (m * c)"
    using assms by (intro jmul_int) (simp add: abs_mult)
  moreover have "halfUp (fl (of_int (m * c) / of_int 1000)) = of_int ((2 * (m * c) + 1000) div (2 * 1000))"
    using assms by (intro halfUp_quotient) auto
  ultimately show ?thesis
    using qtyToMilli_exact [OF assms(1,2)] by (simp add: mulQtyPriceC_def jdiv_def)
qed

text \<open>A stock level read back from its decimal text, and written as one.\<close>

lemma milli_read_back:
  assumes "0 \<le> m" "m < 2 ^ 50"
  shows "js_round (jmul (fl (of_int m / 1000)) 1000) = m"
proof -
  define y where "y = jmul (fl (of_int m / 1000)) 1000"
  have mb: "(of_int m :: rat) < of_int (2 ^ 50)" using assms(2) by (simp only: of_int_less_iff)
  have "\<bar>y - of_int m\<bar> \<le> of_int m * (3 * ulp_half)"
    using scaled_error [OF assms(1), of 1000] unfolding y_def by simp
  also have "\<dots> < 1 / 2" using mb by simp
  finally show ?thesis
    unfolding y_def [symmetric] js_round_def floor_eq_iff by linarith
qed

lemma toFixed3_minus: "toFixed3 (- x) = - toFixed3 x"
  by (cases "x = 0") (auto simp: toFixed3_def floor_eq_iff)

lemma toFixed3_nonneg_exact:
  assumes "0 \<le> m" "m < 2 ^ 50"
  shows "toFixed3 (jdiv (of_int m) 1000) = m"
proof -
  have mb: "(of_int m :: rat) < of_int (2 ^ 50)" using assms(2) by (simp only: of_int_less_iff)
  let ?x = "of_int m / 1000 :: rat"
  have x: "0 \<le> ?x" using assms(1) by simp
  have "\<bar>fl ?x - ?x\<bar> \<le> ?x * ulp_half" using fl_error [of ?x] x by simp
  also have "\<dots> < 1 / 2000" using mb by simp
  finally have "\<bar>fl ?x - ?x\<bar> < 1 / 2000" .
  then have "\<bar>fl ?x * 1000 - of_int m\<bar> < 1 / 2" by linarith
  then have "\<lfloor>fl ?x * 1000 + 1/2\<rfloor> = m" unfolding floor_eq_iff by linarith
  then show ?thesis using fl_nonneg [OF x] by (simp add: toFixed3_def jdiv_def)
qed

lemma toFixed3_exact:
  assumes "\<bar>m\<bar> < 2 ^ 50"
  shows "toFixed3 (jdiv (of_int m) 1000) = m"
proof (cases "0 \<le> m")
  case False
  have "jdiv (of_int m) 1000 = - jdiv (of_int (- m)) 1000"
    by (simp add: jdiv_def fl_minus [symmetric])
  then show ?thesis
    using toFixed3_nonneg_exact [of "- m"] False assms by (simp add: toFixed3_minus)
qed (use assms toFixed3_nonneg_exact in auto)

section \<open>Formatting and parsing\<close>

lemma filter_group_rev: "List.filter (\<lambda>c. c \<noteq> CHR '','') (group_rev ds) = List.filter (\<lambda>c. c \<noteq> CHR '','') ds"
  by (induction ds rule: group_rev.induct) auto

lemma digit_no_comma: "is_digit c \<Longrightarrow> c \<noteq> CHR '','' \<and> c \<noteq> CHR ''.'' \<and> \<not> is_ws c"
  by (auto simp: is_digit_def is_ws_def)

lemma filter_digits: "\<forall>c \<in> set s. is_digit c \<Longrightarrow> List.filter (\<lambda>c. c \<noteq> CHR '','') s = s"
  by (auto simp: filter_id_conv dest: digit_no_comma)

lemma filter_toLocaleString: "List.filter (\<lambda>c. c \<noteq> CHR '','') (toLocaleString n) = show_nat n"
  by (simp add: toLocaleString_def filter_group_rev flip: rev_filter)
     (simp add: rev_filter filter_digits show_nat_digits)

lemma trim_id: "s \<noteq> [] \<Longrightarrow> \<not> is_ws (hd s) \<Longrightarrow> \<not> is_ws (last s) \<Longrightarrow> trim s = s"
proof -
  assume s: "s \<noteq> []" "\<not> is_ws (hd s)" "\<not> is_ws (last s)"
  have d: "dropWhile is_ws t = t" if "t \<noteq> []" "\<not> is_ws (hd t)" for t
    using that by (cases t) auto
  have "dropWhile is_ws s = s" "dropWhile is_ws (rev s) = rev s"
    using s by (simp_all add: d hd_rev)
  then show ?thesis by (simp add: trim_def)
qed

definition cents2 :: "nat \<Rightarrow> string" where
  "cents2 n = (let cents = show_nat n in if List.length cents < 2 then CHR ''0'' # cents else cents)"

lemma read_nat_append: "read_nat (a @ b) = read_nat a * 10 ^ List.length b + read_nat b"
proof (induction b rule: rev_induct)
  case (snoc c b)
  then show ?case
    using read_nat_append_digit [of "a @ b" c] read_nat_append_digit [of b c]
    by (simp add: algebra_simps)
qed (simp add: read_nat_def)

lemma cents2_props:
  assumes "n < 100"
  shows "List.length (cents2 n) = 2" and "\<forall>c \<in> set (cents2 n). is_digit c" and "read_nat (cents2 n) = n"
proof -
  have len: "List.length (show_nat n) = (if n < 10 then 1 else 2)"
    using assms div_less_iff_less_mult [of 10 n 10] by (simp add: show_nat.simps [of n] show_nat.simps [of "n div 10"])
  show "List.length (cents2 n) = 2" by (simp add: cents2_def len Let_def)
  show "\<forall>c \<in> set (cents2 n). is_digit c"
    using show_nat_digits [of n] by (simp add: cents2_def Let_def) (simp add: is_digit_def)
  have "read_nat (CHR ''0'' # s) = read_nat s" for s
    by (simp add: read_nat_def digit_val_def)
  then show "read_nat (cents2 n) = n" by (simp add: cents2_def Let_def)
qed

lemma match_peso_digits:
  assumes "w \<noteq> []" "\<forall>c \<in> set w. is_digit c" "\<forall>c \<in> set f. is_digit c" "List.length f = 2"
  shows "match_peso (w @ CHR ''.'' # f) = Some (w, f)"
proof -
  have "takeWhile is_digit (w @ CHR ''.'' # f) = w" "dropWhile is_digit (w @ CHR ''.'' # f) = CHR ''.'' # f"
    using assms(2) by (simp_all add: is_digit_def)
  then show ?thesis using assms by (simp add: match_peso_def list_all_iff)
qed

lemma formatC_cleaned:
  assumes "0 \<le> c"
  defines "n \<equiv> nat c"
  shows "trim (List.filter (\<lambda>c. c \<noteq> CHR '','') (formatC c)) = show_nat (n div 100) @ CHR ''.'' # cents2 (n mod 100)"
proof -
  have f: "formatC c = toLocaleString (n div 100) @ CHR ''.'' # cents2 (n mod 100)"
    using assms by (simp add: formatC_def cents2_def Let_def)
  have d: "\<forall>c \<in> set (cents2 (n mod 100)). is_digit c" "cents2 (n mod 100) \<noteq> []"
    using cents2_props [of "n mod 100"] by auto
  have w: "\<forall>c \<in> set (show_nat (n div 100)). is_digit c" by (rule show_nat_digits)
  show ?thesis
    using d w digit_no_comma
    by (simp add: f filter_toLocaleString filter_digits) (rule trim_id; simp add: hd_append)
qed

lemma scaled_round:
  assumes "0 \<le> c" "c < 10 ^ 15"
  shows "halfUp (jmul (fl (of_int c / 100)) 100) = of_int c"
proof -
  define y where "y = jmul (fl (of_int c / 100)) 100"
  have cb: "(of_int c :: rat) < of_int (10 ^ 15)" using assms(2) by (simp only: of_int_less_iff)
  have "0 \<le> fl (of_int c / 100)" using assms by (intro fl_nonneg) simp
  then have y0: "0 \<le> y" unfolding y_def jmul_def by (intro fl_nonneg) simp
  have "\<bar>y - of_int c\<bar> \<le> of_int c * (3 * ulp_half)"
    using scaled_error [OF assms(1), of 100] unfolding y_def by simp
  also have "\<dots> < 1 / 2" using cb by simp
  finally have "js_round y = c"
    unfolding js_round_def floor_eq_iff by linarith
  with y0 show ?thesis unfolding y_def [symmetric] by (simp add: halfUp_nonneg)
qed

text \<open>
  Parsing a formatted amount gives the amount back, group separators included, for
  every amount below \<open>10 ^ 15\<close> centavos.
\<close>

theorem parse_formatC:
  assumes "0 \<le> c" "c < 10 ^ 15"
  shows "parsePesoInput (formatC c) = Some (of_int c)"
proof -
  define n where "n = nat c"
  let ?w = "show_nat (n div 100)" and ?f = "cents2 (n mod 100)"
  have f: "List.length ?f = 2" "\<forall>c \<in> set ?f. is_digit c" "read_nat ?f = n mod 100"
    using cents2_props [of "n mod 100"] by auto
  have "match_peso (?w @ CHR ''.'' # ?f) = Some (?w, ?f)"
    using f by (intro match_peso_digits show_nat_digits) auto
  moreover have "read_nat (?w @ ?f) = n"
    by (simp add: read_nat_append f)
  then have "parseFloat (?w, ?f) = fl (of_int c / 100)"
    using assms(1) f(1) unfolding parseFloat_def fst_conv snd_conv n_def by simp
  ultimately show ?thesis
    using scaled_round [OF assms] formatC_cleaned [OF assms(1)]
    by (simp add: parsePesoInput_def n_def)
qed

theorem mulQtyPriceC_exact_witness: "mulQtyPriceC (fl (of_int 750 / 1000)) (of_int 9500) = Some 7125"
  using mulQtyPriceC_exact [of 750 9500] by simp

theorem parse_formatC_witness: "parsePesoInput (formatC 123456789) = Some 123456789"
  using parse_formatC [of 123456789] by simp

end
