(* ===== verification/Totals.thy ===== *)
theory Totals
  imports Money
begin

text \<open>
  The cart and its totals: \<open>common/totals/cart.ts\<close> and \<open>common/totals/totals.ts\<close>.
  \<open>computeTotals\<close> is \<open>None\<close> exactly when a line's quantity has more than three decimals,
  where the source throws. The lemmas show that on whole centavos below \<open>2 ^ 50\<close> the
  floating-point sums are exact, and derive the line rule and the accounting identities.
\<close>

section \<open>The cart\<close>

datatype order_type = Dine_in | Takeout | No_type

datatype sold_by = By_unit | By_weight

datatype disc_kind = Percent | Fixed

datatype discount_spec =
    Named (ds_id: uid) (ds_name: string) (ds_kind: disc_kind) (ds_value: num)
  | Free (ds_kind: disc_kind) (ds_value: num)

record cart_modifier =
  groupId :: string
  modifierId :: string
  mod_name :: string
  priceDeltaC :: num

record cart_line =
  line_id :: uid
  productId :: "uid option"
  variantId :: "uid option"
  line_name :: string
  soldBy :: sold_by
  qty :: num
  unitPriceC :: num
  modifiers :: "cart_modifier list"
  discount :: "discount_spec option"
  scPwdMarked :: bool
  trackStock :: bool

record scpwd_info =
  idNo :: string
  sc_name :: string

record cart =
  cart_id :: uid
  orderType :: order_type
  cart_lines :: "cart_line list"
  orderDiscount :: "discount_spec option"
  scPwd :: "scpwd_info option"

definition lineUnitWithModsC :: "cart_line \<Rightarrow> num" where
  "lineUnitWithModsC line = foldl (\<lambda>sum m. jadd sum (priceDeltaC m)) (unitPriceC line) (modifiers line)"

section \<open>The totals\<close>

datatype applied = Promo | Scpwd

record line_totals =
  lineId :: uid
  grossC :: num
  promoDiscountC :: num
  scPwdDiscountC :: num
  applied :: "applied option"
  netC :: num

record cart_totals =
  ct_lines :: "line_totals list"
  subtotalC :: num
  ct_promoDiscountC :: num
  ct_scPwdDiscountC :: num
  discountedSubtotalC :: num
  serviceChargeC :: num
  totalC :: num
  vatExemptSalesC :: num
  vatC :: num
  vatableSalesC :: num

record rates =
  taxRate :: num
  serviceChargeRate :: num

definition discountAmountC :: "discount_spec option \<Rightarrow> num \<Rightarrow> num" where
  "discountAmountC d baseC =
    (case d of None \<Rightarrow> 0
     | Some d \<Rightarrow> if baseC \<le> 0 then 0
        else let raw = (if ds_kind d = Percent then pct baseC (ds_value d) else ds_value d)
             in min raw baseC)"

definition lineTotals :: "scpwd_info option \<Rightarrow> rates \<Rightarrow> cart_line \<Rightarrow> line_totals option" where
  "lineTotals sc s line =
    map_option (\<lambda>gross.
      let promo = discountAmountC (discount line) gross;
          scpwd = (if sc \<noteq> None \<and> scPwdMarked line
                   then let base = halfUp (jdiv gross (jadd 1 (taxRate s)))
                        in jsub gross (pct base 80)
                   else 0);
          app = (if 0 < promo \<or> 0 < scpwd
                 then Some (if promo \<le> scpwd then Scpwd else Promo) else None);
          appliedC = (if app = Some Scpwd then scpwd else if app = Some Promo then promo else 0)
      in \<lparr> lineId = line_id line, grossC = gross, promoDiscountC = promo,
           scPwdDiscountC = scpwd, applied = app, netC = jsub gross appliedC \<rparr>)
    (mulQtyPriceC (qty line) (lineUnitWithModsC line))"

fun all_some :: "'a option list \<Rightarrow> 'a list option" where
  "all_some [] = Some []"
| "all_some (x # xs) =
    (case x of None \<Rightarrow> None | Some y \<Rightarrow> map_option ((#) y) (all_some xs))"

definition sumTotals :: "cart \<Rightarrow> rates \<Rightarrow> line_totals list \<Rightarrow> cart_totals" where
  "sumTotals cart s lines =
    (let subtotal = foldl (\<lambda>sum l. jadd sum (grossC l)) 0 lines;
         linePromo = foldl (\<lambda>sum l. if applied l = Some Promo
                                    then jadd sum (promoDiscountC l) else sum) 0 lines;
         scpwd = foldl (\<lambda>sum l. if applied l = Some Scpwd
                                then jadd sum (scPwdDiscountC l) else sum) 0 lines;
         orderBase = foldl (\<lambda>sum l. if applied l = Some Scpwd
                                    then sum else jadd sum (netC l)) 0 lines;
         orderDisc = discountAmountC (orderDiscount cart) orderBase;
         promo = jadd linePromo orderDisc;
         discounted = jsub (jsub subtotal promo) scpwd;
         service = (if orderType cart = Dine_in
                    then mulRate discounted (serviceChargeRate s) else 0);
         total = jadd discounted service;
         exempt = foldl (\<lambda>sum l. if applied l = Some Scpwd
                                 then jadd sum (netC l) else sum) 0 lines;
         vat = vatIncluded (jsub total exempt) (taxRate s);
         vatable = jsub (jsub total exempt) vat
     in \<lparr> ct_lines = lines, subtotalC = subtotal, ct_promoDiscountC = promo,
          ct_scPwdDiscountC = scpwd, discountedSubtotalC = discounted,
          serviceChargeC = service, totalC = total, vatExemptSalesC = exempt,
          vatC = vat, vatableSalesC = vatable \<rparr>)"

definition computeTotals :: "cart \<Rightarrow> rates \<Rightarrow> cart_totals option" where
  "computeTotals cart s =
    map_option (sumTotals cart s) (all_some (map (lineTotals (scPwd cart) s) (cart_lines cart)))"

lemma all_some_eq: "all_some xs = Some ys \<longleftrightarrow> xs = map Some ys"
proof (induction xs arbitrary: ys)
  case (Cons x xs)
  then show ?case by (cases ys; cases x) auto
qed auto

section \<open>One line\<close>

text \<open>A discount that a named or free discount record can hold: not negative, and whole
  centavos when it is an amount.\<close>

definition disc_ok :: "discount_spec option \<Rightarrow> bool" where
  "disc_ok d \<longleftrightarrow> (case d of None \<Rightarrow> True
     | Some d \<Rightarrow> 0 \<le> ds_value d \<and> (ds_kind d = Fixed \<longrightarrow> of_int \<lfloor>ds_value d\<rfloor> = ds_value d))"

definition amount_le :: "int \<Rightarrow> num \<Rightarrow> bool" where
  "amount_le b x \<longleftrightarrow> of_int \<lfloor>x\<rfloor> = x \<and> 0 \<le> x \<and> x \<le> of_int b"

lemma amount_le_iff: "amount_le b x \<longleftrightarrow> (\<exists>i. x = of_int i \<and> 0 \<le> i \<and> i \<le> b)"
  by (auto simp: amount_le_def)

lemma amount_leE: "amount_le b x \<Longrightarrow> (\<And>i. x = of_int i \<Longrightarrow> 0 \<le> i \<Longrightarrow> i \<le> b \<Longrightarrow> thesis) \<Longrightarrow> thesis"
  by (auto simp: amount_le_iff)

lemma amount_le_of_int [simp]: "amount_le b (of_int i) \<longleftrightarrow> 0 \<le> i \<and> i \<le> b"
  by (auto simp: amount_le_iff)

lemma halfUp_amount_nonneg:
  assumes "0 \<le> x"
  shows "\<exists>i. halfUp x = of_int i \<and> 0 \<le> i"
  using assms by (auto simp: halfUp_nonneg js_round_nonneg)

lemma discountAmountC_amount:
  assumes "disc_ok d" "0 \<le> g"
  shows "amount_le g (discountAmountC d (of_int g))"
proof (cases "d = None \<or> g \<le> 0")
  case True
  then show ?thesis using assms(2) by (auto simp: discountAmountC_def amount_le_def split: option.split)
next
  case False
  then obtain x where x: "d = Some x" and g: "0 < g" by auto
  define raw where "raw = (if ds_kind x = Percent then pct (of_int g) (ds_value x) else ds_value x)"
  have v: "0 \<le> ds_value x" "ds_kind x = Fixed \<Longrightarrow> of_int \<lfloor>ds_value x\<rfloor> = ds_value x"
    using assms(1) by (auto simp: disc_ok_def x)
  have "\<exists>i. raw = of_int i \<and> 0 \<le> i"
  proof (cases "ds_kind x")
    case Percent
    have "0 \<le> jdiv (jmul (of_int g) (ds_value x)) 100"
      using v g by (simp add: jdiv_def jmul_def fl_nonneg)
    with Percent show ?thesis by (simp add: raw_def pct_def halfUp_amount_nonneg)
  next
    case Fixed
    then obtain i where "ds_value x = of_int i" using v(2) by metis
    with Fixed v(1) show ?thesis by (simp add: raw_def)
  qed
  then obtain i where "raw = of_int i" "0 \<le> i" by blast
  then have "amount_le g (min raw (of_int g))" using g by (auto simp: min_def)
  moreover have "discountAmountC d (of_int g) = min raw (of_int g)"
    using g by (simp add: discountAmountC_def x raw_def Let_def)
  ultimately show ?thesis by simp
qed

lemma one_plus_rate:
  assumes "0 \<le> r"
  shows "(1 + r) * (1 - ulp_half) \<le> jadd 1 r" and "0 < jadd 1 r"
proof -
  show 1: "(1 + r) * (1 - ulp_half) \<le> jadd 1 r"
    using assms unfolding jadd_def by (intro js.rnd_lower) simp
  have "0 < (1 + r) * (1 - ulp_half)" using assms by simp
  with 1 show "0 < jadd 1 r" by linarith
qed

text \<open>Dividing an amount by one plus a rate and rounding never gives more than the amount.\<close>

lemma net_of_vat_amount:
  assumes r: "0 \<le> r" and g: "0 \<le> g" "g < 2 ^ 50"
  shows "amount_le g (halfUp (jdiv (of_int g) (jadd 1 r)))"
proof -
  have gb: "(of_int g :: rat) < of_int (2 ^ 50)" using g(2) by (simp only: of_int_less_iff)
  let ?q = "of_int g / jadd 1 r"
  note d = one_plus_rate [OF r]
  have q0: "0 \<le> ?q" using d(2) g by simp
  have "1 - ulp_half \<le> (1 + r) * (1 - ulp_half)" using r by simp
  with d(1) have "1 - ulp_half \<le> jadd 1 r" by linarith
  then have "?q \<le> of_int g / (1 - ulp_half)"
    using g by (intro divide_left_mono mult_pos_pos) auto
  also have "\<dots> \<le> of_int g * (1 + 2 * ulp_half)"
    using g by (simp add: field_simps)
  finally have "?q * (1 + ulp_half) \<le> of_int g * (1 + 2 * ulp_half) * (1 + ulp_half)"
    by (intro mult_right_mono) auto
  also have "\<dots> < of_int g + 1 / 2" using gb by simp
  finally have "fl ?q < of_int g + 1 / 2"
    using js.rnd_upper [OF q0] by linarith
  then have "js_round (fl ?q) \<le> g"
    by (simp add: js_round_def floor_le_iff)
  then show ?thesis
    using fl_nonneg [OF q0] by (simp add: jdiv_def halfUp_nonneg js_round_nonneg)
qed

lemma pct80_amount:
  assumes "0 \<le> b" "b < 2 ^ 45"
  shows "amount_le b (pct (of_int b) 80)"
proof -
  have "pct (of_int b) (of_int 80) = of_int ((2 * (b * 80) + 100) div 200)"
    using assms by (intro pct_int) auto
  moreover have "(2 * (b * 80) + 100) div 200 \<le> b" using assms by linarith
  ultimately show ?thesis using assms by simp
qed

lemma scpwd_amount:
  assumes r: "0 \<le> r" and g: "0 \<le> g" "g < 2 ^ 45"
  shows "amount_le g (jsub (of_int g) (pct (halfUp (jdiv (of_int g) (jadd 1 r))) 80))"
proof -
  have "amount_le g (halfUp (jdiv (of_int g) (jadd 1 r)))"
    using g by (intro net_of_vat_amount r) auto
  then obtain b where b: "halfUp (jdiv (of_int g) (jadd 1 r)) = of_int b" "0 \<le> b" "b \<le> g"
    by (rule amount_leE)
  then have "amount_le b (pct (of_int b) 80)" using g by (intro pct80_amount) auto
  then obtain p where p: "pct (of_int b) 80 = of_int p" "0 \<le> p" "p \<le> b"
    by (rule amount_leE)
  then have "jsub (of_int g) (of_int p) = of_int (g - p)" "0 \<le> g - p" "g - p \<le> g"
    using b g by (auto simp del: of_int_diff intro!: jsub_int)
  then show ?thesis unfolding b(1) p(1) by (simp only: amount_le_of_int)
qed

text \<open>The line rule: the higher of the two candidate discounts, ties to SC/PWD.\<close>

lemma lineTotals_rule:
  assumes lt: "lineTotals sc s line = Some lt"
    and g: "grossC lt = of_int g" "0 \<le> g" "g < 2 ^ 45"
    and d: "disc_ok (discount line)" and r: "0 \<le> taxRate s"
  shows "amount_le g (promoDiscountC lt)" and "amount_le g (scPwdDiscountC lt)"
    and "netC lt = grossC lt - max (promoDiscountC lt) (scPwdDiscountC lt)"
    and "applied lt = (if promoDiscountC lt = 0 \<and> scPwdDiscountC lt = 0 then None
                       else if promoDiscountC lt \<le> scPwdDiscountC lt then Some Scpwd else Some Promo)"
proof -
  define promo where "promo = discountAmountC (discount line) (of_int g)"
  define scpwd where "scpwd = (if sc \<noteq> None \<and> scPwdMarked line
    then jsub (of_int g) (pct (halfUp (jdiv (of_int g) (jadd 1 (taxRate s)))) 80) else 0)"
  have gr: "mulQtyPriceC (qty line) (lineUnitWithModsC line) = Some (of_int g)"
    using lt g(1) by (auto simp: lineTotals_def Let_def)
  have p: "amount_le g promo"
    unfolding promo_def by (rule discountAmountC_amount [OF d g(2)])
  have q: "amount_le g scpwd"
    using scpwd_amount [OF r g(2,3)] g(2) by (auto simp: scpwd_def amount_le_def)
  obtain i j where ij: "promo = of_int i" "scpwd = of_int j" "0 \<le> i" "i \<le> g" "0 \<le> j" "j \<le> g"
    using p q by (auto elim!: amount_leE)
  have lt_eq: "promoDiscountC lt = promo" "scPwdDiscountC lt = scpwd"
    "applied lt = (if 0 < promo \<or> 0 < scpwd then Some (if promo \<le> scpwd then Scpwd else Promo) else None)"
    "netC lt = jsub (of_int g) (if 0 < promo \<or> 0 < scpwd then (if promo \<le> scpwd then scpwd else promo) else 0)"
    using lt unfolding lineTotals_def gr promo_def scpwd_def Let_def
    by (auto split del: if_split cong: if_cong) (auto split: if_splits)
  show "amount_le g (promoDiscountC lt)" "amount_le g (scPwdDiscountC lt)"
    using p q by (simp_all add: lt_eq)
  have z: "jsub (of_int g) 0 = of_int g" using jsub_int [of g 0] g by simp
  show "netC lt = grossC lt - max (promoDiscountC lt) (scPwdDiscountC lt)"
    using ij g z by (auto simp: lt_eq max_def)
  show "applied lt = (if promoDiscountC lt = 0 \<and> scPwdDiscountC lt = 0 then None
                       else if promoDiscountC lt \<le> scPwdDiscountC lt then Some Scpwd else Some Promo)"
    using ij by (auto simp: lt_eq)
qed

section \<open>The sums over the lines\<close>

definition line_ok :: "line_totals \<Rightarrow> bool" where
  "line_ok l \<longleftrightarrow> amount_le \<lfloor>grossC l\<rfloor> (grossC l) \<and> amount_le \<lfloor>grossC l\<rfloor> (promoDiscountC l)
    \<and> amount_le \<lfloor>grossC l\<rfloor> (scPwdDiscountC l)
    \<and> netC l = grossC l - (if applied l = Some Scpwd then scPwdDiscountC l
                          else if applied l = Some Promo then promoDiscountC l else 0)"

abbreviation cents :: "num \<Rightarrow> int" where
  "cents x \<equiv> \<lfloor>x\<rfloor>"

lemma foldl_jadd_cond:
  assumes "\<forall>l \<in> set ls. P l \<longrightarrow> f l = of_int (F l) \<and> 0 \<le> F l \<and> F l \<le> G l"
    and "\<forall>l \<in> set ls. 0 \<le> G l" and "0 \<le> a" and "a + sum_list (map G ls) < 2 ^ 53"
  shows "foldl (\<lambda>s l. if P l then jadd s (f l) else s) (of_int a) ls
    = of_int (a + sum_list (map (\<lambda>l. if P l then F l else 0) ls))"
  using assms
proof (induction ls arbitrary: a)
  case Nil
  then show ?case by simp
next
  case (Cons l ls)
  have nn: "0 \<le> sum_list (map G ls)" using Cons.prems(2) by (intro sum_list_nonneg) auto
  show ?case
  proof (cases "P l")
    case True
    with Cons.prems nn have "jadd (of_int a) (f l) = of_int (a + F l)"
      by (auto simp del: of_int_add intro!: jadd_int)
    moreover have "0 \<le> a + F l" "a + F l + sum_list (map G ls) < 2 ^ 53"
      using True Cons.prems by auto
    ultimately show ?thesis
      using True Cons.IH [of "a + F l"] Cons.prems by (simp add: add.assoc del: of_int_add)
  next
    case False
    with Cons.prems have "a + sum_list (map G ls) < 2 ^ 53" by simp
    then show ?thesis
      using False Cons.IH [of a] Cons.prems by simp
  qed
qed

lemma sum_list_cond_le:
  fixes F G :: "'a \<Rightarrow> int"
  assumes "\<forall>l \<in> set ls. P l \<longrightarrow> F l \<le> G l" and "\<forall>l \<in> set ls. 0 \<le> G l"
  shows "sum_list (map (\<lambda>l. if P l then F l else 0) ls) \<le> sum_list (map G ls)"
  using assms by (intro sum_list_mono) auto

definition order_ok :: "cart \<Rightarrow> rates \<Rightarrow> line_totals list \<Rightarrow> bool" where
  "order_ok cart s ls \<longleftrightarrow> (\<forall>l \<in> set ls. line_ok l) \<and> disc_ok (orderDiscount cart)
    \<and> 0 \<le> taxRate s \<and> taxRate s \<le> 1 \<and> 0 \<le> serviceChargeRate s \<and> serviceChargeRate s \<le> 1
    \<and> sum_list (map (\<lambda>l. cents (grossC l)) ls) < 2 ^ 50"

text \<open>The five accumulated sums are the exact integer sums.\<close>

lemma accumulated_sums:
  assumes "order_ok cart s ls"
  defines "G \<equiv> \<lambda>l. cents (grossC l)"
  shows "foldl (\<lambda>sum l. jadd sum (grossC l)) 0 ls = of_int (sum_list (map G ls))"
    and "foldl (\<lambda>sum l. if applied l = Some Promo then jadd sum (promoDiscountC l) else sum) 0 ls
      = of_int (sum_list (map (\<lambda>l. if applied l = Some Promo then cents (promoDiscountC l) else 0) ls))"
    and "foldl (\<lambda>sum l. if applied l = Some Scpwd then jadd sum (scPwdDiscountC l) else sum) 0 ls
      = of_int (sum_list (map (\<lambda>l. if applied l = Some Scpwd then cents (scPwdDiscountC l) else 0) ls))"
    and "foldl (\<lambda>sum l. if applied l = Some Scpwd then sum else jadd sum (netC l)) 0 ls
      = of_int (sum_list (map (\<lambda>l. if applied l \<noteq> Some Scpwd then cents (netC l) else 0) ls))"
    and "foldl (\<lambda>sum l. if applied l = Some Scpwd then jadd sum (netC l) else sum) 0 ls
      = of_int (sum_list (map (\<lambda>l. if applied l = Some Scpwd then cents (netC l) else 0) ls))"
proof -
  have ok: "line_ok l" if "l \<in> set ls" for l using assms that by (simp add: order_ok_def)
  have g: "grossC l = of_int (G l)" "0 \<le> G l" if "l \<in> set ls" for l
    using ok [OF that] by (auto simp: line_ok_def amount_le_def G_def)
  have small: "0 + sum_list (map G ls) < 2 ^ 53" using assms by (simp add: order_ok_def)
  have net: "netC l = of_int (cents (netC l))" "0 \<le> cents (netC l)" "cents (netC l) \<le> G l"
    if "l \<in> set ls" for l
    using ok [OF that] by (auto simp: line_ok_def G_def elim!: amount_leE simp flip: of_int_diff)
  have pr: "promoDiscountC l = of_int (cents (promoDiscountC l))" "0 \<le> cents (promoDiscountC l)"
      "cents (promoDiscountC l) \<le> G l"
    and sc: "scPwdDiscountC l = of_int (cents (scPwdDiscountC l))" "0 \<le> cents (scPwdDiscountC l)"
      "cents (scPwdDiscountC l) \<le> G l" if "l \<in> set ls" for l
    using ok [OF that] by (auto simp: line_ok_def G_def elim!: amount_leE)
  note fold = foldl_jadd_cond [where G = G and a = 0, OF _ _ _ small, unfolded of_int_0 add_0]
  show "foldl (\<lambda>sum l. jadd sum (grossC l)) 0 ls = of_int (sum_list (map G ls))"
    using fold [of "\<lambda>_. True" grossC G] g by simp
  show "foldl (\<lambda>sum l. if applied l = Some Promo then jadd sum (promoDiscountC l) else sum) 0 ls
      = of_int (sum_list (map (\<lambda>l. if applied l = Some Promo then cents (promoDiscountC l) else 0) ls))"
    using g pr by (intro fold) auto
  show "foldl (\<lambda>sum l. if applied l = Some Scpwd then jadd sum (scPwdDiscountC l) else sum) 0 ls
      = of_int (sum_list (map (\<lambda>l. if applied l = Some Scpwd then cents (scPwdDiscountC l) else 0) ls))"
    using g sc by (intro fold) auto
  show "foldl (\<lambda>sum l. if applied l = Some Scpwd then jadd sum (netC l) else sum) 0 ls
      = of_int (sum_list (map (\<lambda>l. if applied l = Some Scpwd then cents (netC l) else 0) ls))"
    using g net by (intro fold) auto
  have swap: "(\<lambda>sum l. if applied l = Some Scpwd then sum else jadd sum (netC l))
      = (\<lambda>sum l. if applied l \<noteq> Some Scpwd then jadd sum (netC l) else sum)"
    by (intro ext) simp
  show "foldl (\<lambda>sum l. if applied l = Some Scpwd then sum else jadd sum (netC l)) 0 ls
      = of_int (sum_list (map (\<lambda>l. if applied l \<noteq> Some Scpwd then cents (netC l) else 0) ls))"
    unfolding swap using g net by (intro fold) auto
qed

lemma line_split_sum:
  assumes "\<forall>l \<in> set ls. line_ok l"
  shows "sum_list (map (\<lambda>l. cents (grossC l)) ls)
    = sum_list (map (\<lambda>l. if applied l = Some Promo then cents (promoDiscountC l) else 0) ls)
    + sum_list (map (\<lambda>l. if applied l = Some Scpwd then cents (scPwdDiscountC l) else 0) ls)
    + sum_list (map (\<lambda>l. if applied l \<noteq> Some Scpwd then cents (netC l) else 0) ls)
    + sum_list (map (\<lambda>l. if applied l = Some Scpwd then cents (netC l) else 0) ls)"
  using assms
proof (induction ls)
  case (Cons l ls)
  have "cents (grossC l) = cents (netC l)
      + (if applied l = Some Promo then cents (promoDiscountC l) else 0)
      + (if applied l = Some Scpwd then cents (scPwdDiscountC l) else 0)"
    using Cons.prems by (auto simp: line_ok_def elim!: amount_leE simp flip: of_int_diff)
  with Cons show ?case by (cases "applied l = Some Scpwd"; cases "applied l = Some Promo") auto
qed simp

lemma cond_sum_nonneg:
  "(\<forall>l \<in> set ls. P l \<longrightarrow> 0 \<le> F l) \<Longrightarrow> 0 \<le> sum_list (map (\<lambda>l. if P l then F l else (0::int)) ls)"
  by (intro sum_list_nonneg) auto

lemma mulRate_amount:
  assumes "0 \<le> r" "r \<le> 1" "0 \<le> c" "c < 2 ^ 52"
  shows "amount_le c (mulRate (of_int c) r)"
proof -
  have "of_int c * r \<le> of_int c * 1" using assms by (intro mult_left_mono) auto
  then have "\<exists>i. halfUp (fl (of_int c * r)) = of_int i \<and> 0 \<le> i \<and> i \<le> c"
    using assms by (intro halfUp_fl_le) auto
  then show ?thesis by (auto simp: mulRate_def jmul_def)
qed

lemma vatIncluded_amount:
  assumes r: "0 \<le> r" "r \<le> 1" and c: "0 \<le> c" "c < 2 ^ 52"
  shows "amount_le c (vatIncluded (of_int c) r)"
proof (cases "r = 0")
  case True
  then show ?thesis using c by (simp add: vatIncluded_def amount_le_def)
next
  case False
  note d = one_plus_rate [OF r(1)]
  let ?n = "fl (of_int c * r)"
  have n0: "0 \<le> ?n" using r c by (intro fl_nonneg) simp
  have cr: "of_int c * r \<le> of_int c * ((1 + r) / 2)"
    using r c by (intro mult_left_mono) auto
  have "?n \<le> of_int c * r * (1 + ulp_half)"
    using r c by (intro js.rnd_upper) simp
  also have "\<dots> \<le> of_int c * ((1 + r) / 2) * (1 + ulp_half)"
    using cr by (intro mult_right_mono) auto
  also have "\<dots> = of_int c * (1 + r) * ((1 + ulp_half) / 2)" by (simp add: field_simps)
  also have "\<dots> \<le> of_int c * (1 + r) * (1 - ulp_half)"
    using r c by (intro mult_left_mono) auto
  also have "\<dots> \<le> of_int c * jadd 1 r"
    using d(1) c by (simp only: mult.assoc) (intro mult_left_mono, auto)
  finally have "?n / jadd 1 r \<le> of_int c"
    using d(2) by (simp add: divide_le_eq)
  moreover have "0 \<le> ?n / jadd 1 r" using n0 d(2) by simp
  ultimately have "\<exists>i. halfUp (fl (?n / jadd 1 r)) = of_int i \<and> 0 \<le> i \<and> i \<le> c"
    using c by (intro halfUp_fl_le) auto
  then show ?thesis using False by (auto simp: vatIncluded_def jdiv_def jmul_def)
qed

text \<open>The accounting identities of a sale, and the sign and size of each of its parts.\<close>

lemma sumTotals_accounts:
  assumes ok: "order_ok cart s ls"
  defines "t \<equiv> sumTotals cart s ls"
  shows "discountedSubtotalC t = subtotalC t - ct_promoDiscountC t - ct_scPwdDiscountC t"
    and "totalC t = discountedSubtotalC t + serviceChargeC t"
    and "totalC t = vatableSalesC t + vatC t + vatExemptSalesC t"
    and "0 \<le> ct_promoDiscountC t" and "0 \<le> ct_scPwdDiscountC t"
    and "vatExemptSalesC t \<le> discountedSubtotalC t"
    and "0 \<le> vatExemptSalesC t" and "0 \<le> serviceChargeC t" and "0 \<le> vatC t" and "0 \<le> vatableSalesC t"
    and "serviceChargeC t \<le> discountedSubtotalC t"
proof -
  let ?S = "sum_list (map (\<lambda>l. cents (grossC l)) ls)"
  let ?P = "sum_list (map (\<lambda>l. if applied l = Some Promo then cents (promoDiscountC l) else 0) ls)"
  let ?Q = "sum_list (map (\<lambda>l. if applied l = Some Scpwd then cents (scPwdDiscountC l) else 0) ls)"
  let ?B = "sum_list (map (\<lambda>l. if applied l \<noteq> Some Scpwd then cents (netC l) else 0) ls)"
  let ?E = "sum_list (map (\<lambda>l. if applied l = Some Scpwd then cents (netC l) else 0) ls)"
  have lok: "\<forall>l \<in> set ls. line_ok l" and S50: "?S < 2 ^ 50"
    and rt: "0 \<le> taxRate s" "taxRate s \<le> 1" "0 \<le> serviceChargeRate s" "serviceChargeRate s \<le> 1"
    and dk: "disc_ok (orderDiscount cart)"
    using ok by (auto simp: order_ok_def)
  note sums = accumulated_sums [OF ok]
  have split: "?S = ?P + ?Q + ?B + ?E" by (rule line_split_sum [OF lok])
  have P0: "0 \<le> ?P" and Q0: "0 \<le> ?Q" and B0: "0 \<le> ?B" and E0: "0 \<le> ?E"
    using lok by (auto intro!: cond_sum_nonneg simp: line_ok_def elim!: amount_leE simp flip: of_int_diff)
  obtain D where D: "discountAmountC (orderDiscount cart) (of_int ?B) = of_int D" "0 \<le> D" "D \<le> ?B"
    using discountAmountC_amount [OF dk B0] by (rule amount_leE)
  have promo: "jadd (of_int ?P) (of_int D) = of_int (?P + D)"
    using P0 Q0 B0 E0 D S50 split by (intro jadd_int) auto
  define X where "X = ?S - (?P + D) - ?Q"
  have X: "?E \<le> X" "X \<le> ?S" using P0 Q0 D split by (auto simp: X_def)
  have disc: "jsub (jsub (of_int ?S) (of_int (?P + D))) (of_int ?Q) = of_int X"
  proof -
    have "jsub (of_int ?S) (of_int (?P + D)) = of_int (?S - (?P + D))"
      using P0 Q0 B0 E0 D S50 split by (intro jsub_int) auto
    moreover have "jsub (of_int (?S - (?P + D))) (of_int ?Q) = of_int X"
      unfolding X_def using P0 Q0 B0 E0 D S50 split by (intro jsub_int) auto
    ultimately show ?thesis by simp
  qed
  obtain V where V: "(if orderType cart = Dine_in then mulRate (of_int X) (serviceChargeRate s) else 0) = of_int V"
      "0 \<le> V" "V \<le> X"
  proof -
    have "amount_le X (if orderType cart = Dine_in then mulRate (of_int X) (serviceChargeRate s) else 0)"
      using mulRate_amount [OF rt(3,4), of X] X E0 S50 by (simp add: amount_le_def)
    then show thesis using that by (rule amount_leE)
  qed
  have tot: "jadd (of_int X) (of_int V) = of_int (X + V)"
    using V X E0 S50 by (intro jadd_int) auto
  have taxed: "jsub (of_int (X + V)) (of_int ?E) = of_int (X + V - ?E)"
    using V X E0 S50 by (intro jsub_int) auto
  obtain W where W: "vatIncluded (of_int (X + V - ?E)) (taxRate s) = of_int W" "0 \<le> W" "W \<le> X + V - ?E"
    using vatIncluded_amount [OF rt(1,2), of "X + V - ?E"] X V E0 S50 by (auto elim!: amount_leE)
  have vatable: "jsub (of_int (X + V - ?E)) (of_int W) = of_int (X + V - ?E - W)"
    using V W X E0 S50 by (intro jsub_int) auto
  have t: "subtotalC t = of_int ?S" "ct_promoDiscountC t = of_int (?P + D)" "ct_scPwdDiscountC t = of_int ?Q"
    "discountedSubtotalC t = of_int X" "serviceChargeC t = of_int V" "totalC t = of_int (X + V)"
    "vatExemptSalesC t = of_int ?E" "vatC t = of_int W" "vatableSalesC t = of_int (X + V - ?E - W)"
    unfolding t_def sumTotals_def Let_def sums D(1) promo disc V(1) tot taxed W(1) vatable by simp_all
  show "discountedSubtotalC t = subtotalC t - ct_promoDiscountC t - ct_scPwdDiscountC t"
    "totalC t = discountedSubtotalC t + serviceChargeC t"
    "totalC t = vatableSalesC t + vatC t + vatExemptSalesC t"
    unfolding t X_def by simp_all
  show "0 \<le> ct_promoDiscountC t" "0 \<le> ct_scPwdDiscountC t" "vatExemptSalesC t \<le> discountedSubtotalC t"
    "0 \<le> vatExemptSalesC t" "0 \<le> serviceChargeC t" "0 \<le> vatC t" "0 \<le> vatableSalesC t"
    "serviceChargeC t \<le> discountedSubtotalC t"
    unfolding t of_int_0_le_iff of_int_le_iff using P0 Q0 D E0 X V W by auto
qed

section \<open>The totals of a cart\<close>

definition lineGrossC :: "cart_line \<Rightarrow> num option" where
  "lineGrossC line = mulQtyPriceC (qty line) (lineUnitWithModsC line)"

text \<open>
  The carts the theorems speak about: every quantity has three decimals, no line has a
  negative price, the discounts are not negative, the rates lie between 0 and 1, and the
  gross amounts add up to less than \<open>2 ^ 45\<close> centavos (350 billion pesos).
\<close>

definition cart_ok :: "cart \<Rightarrow> rates \<Rightarrow> bool" where
  "cart_ok c s \<longleftrightarrow>
    list_all (\<lambda>l. disc_ok (discount l) \<and> (case lineGrossC l of None \<Rightarrow> False | Some g \<Rightarrow> 0 \<le> g)) (cart_lines c)
    \<and> sum_list (map (\<lambda>l. \<lfloor>the (lineGrossC l)\<rfloor>) (cart_lines c)) < 2 ^ 45
    \<and> disc_ok (orderDiscount c)
    \<and> 0 \<le> taxRate s \<and> taxRate s \<le> 1 \<and> 0 \<le> serviceChargeRate s \<and> serviceChargeRate s \<le> 1"

lemma mulQtyPriceC_integral: "mulQtyPriceC q c = Some g \<Longrightarrow> of_int \<lfloor>g\<rfloor> = g"
  using halfUp_integral by (auto simp: mulQtyPriceC_def)

lemma lineTotals_gross: "lineTotals sc s l = Some lt \<Longrightarrow> lineGrossC l = Some (grossC lt) \<and> lineId lt = line_id l"
  by (auto simp: lineTotals_def lineGrossC_def Let_def)

lemma lineTotals_total: "lineGrossC l = Some g \<Longrightarrow> \<exists>lt. lineTotals sc s l = Some lt"
  by (simp add: lineTotals_def lineGrossC_def)

lemma member_le_sum_list_int:
  "x \<in> set xs \<Longrightarrow> (\<And>y. y \<in> set xs \<Longrightarrow> 0 \<le> f y) \<Longrightarrow> f x \<le> sum_list (map f (xs :: 'a list) :: int list)"
proof (induction xs)
  case (Cons y ys)
  have "0 \<le> sum_list (map f ys)" using Cons.prems by (intro sum_list_nonneg) auto
  with Cons show ?case by (auto intro: add_increasing)
qed simp

lemma cart_line_facts:
  assumes ok: "cart_ok c s" and l: "l \<in> set (cart_lines c)" and lt: "lineTotals sc s l = Some lt"
  shows "disc_ok (discount l)" "0 \<le> taxRate s" "grossC lt = of_int \<lfloor>grossC lt\<rfloor>"
    "0 \<le> \<lfloor>grossC lt\<rfloor>" "\<lfloor>grossC lt\<rfloor> < 2 ^ 45"
proof -
  note g = conjunct1 [OF lineTotals_gross [OF lt]]
  show "disc_ok (discount l)" "0 \<le> taxRate s" using ok l by (auto simp: cart_ok_def list_all_iff)
  show i: "grossC lt = of_int \<lfloor>grossC lt\<rfloor>"
    using mulQtyPriceC_integral [of "qty l" "lineUnitWithModsC l" "grossC lt"] g by (metis lineGrossC_def)
  have nn: "0 \<le> \<lfloor>the (lineGrossC x)\<rfloor>" if "x \<in> set (cart_lines c)" for x
    using ok that by (auto simp: cart_ok_def list_all_iff split: option.splits)
  show "0 \<le> \<lfloor>grossC lt\<rfloor>" using nn [OF l] g by simp
  show "\<lfloor>grossC lt\<rfloor> < 2 ^ 45"
  proof -
    have "\<lfloor>the (lineGrossC l)\<rfloor> \<le> sum_list (map (\<lambda>x. \<lfloor>the (lineGrossC x)\<rfloor>) (cart_lines c))"
      using l nn by (rule member_le_sum_list_int)
    also have "\<dots> < 2 ^ 45" using ok by (simp only: cart_ok_def)
    finally show ?thesis by (simp only: g option.sel)
  qed
qed

lemma computeTotals_lines:
  assumes "cart_ok c s"
  obtains ls where "map (lineTotals (scPwd c) s) (cart_lines c) = map Some ls"
    and "computeTotals c s = Some (sumTotals c s ls)"
proof -
  have "\<forall>l \<in> set (cart_lines c). \<exists>lt. lineTotals (scPwd c) s l = Some lt"
    using assms by (auto simp: cart_ok_def list_all_iff split: option.splits dest!: lineTotals_total)
  then have ls: "map (lineTotals (scPwd c) s) (cart_lines c)
      = map Some (map (\<lambda>l. the (lineTotals (scPwd c) s l)) (cart_lines c))"
    by auto
  then have "computeTotals c s
      = Some (sumTotals c s (map (\<lambda>l. the (lineTotals (scPwd c) s l)) (cart_lines c)))"
    unfolding computeTotals_def all_some_eq [THEN iffD2, OF ls] by simp
  with ls that show thesis by blast
qed

lemma map_Some_member:
  "map f xs = map Some ys \<Longrightarrow> y \<in> set ys \<Longrightarrow> \<exists>x \<in> set xs. f x = Some y"
  by (metis (no_types, lifting) image_iff list.set_map)

lemma map_Some_gross:
  "map (lineTotals sc s) xs = map Some ys \<Longrightarrow> map (\<lambda>l. \<lfloor>the (lineGrossC l)\<rfloor>) xs = map (\<lambda>l. \<lfloor>grossC l\<rfloor>) ys"
proof (induction xs arbitrary: ys)
  case (Cons x xs)
  then show ?case by (cases ys) (auto dest: lineTotals_gross)
qed simp

lemma cart_order_ok:
  assumes ok: "cart_ok c s" and ls: "map (lineTotals (scPwd c) s) (cart_lines c) = map Some ls"
  shows "order_ok c s ls"
proof -
  have "line_ok lt" if lt: "lt \<in> set ls" for lt
  proof -
    obtain l where l: "l \<in> set (cart_lines c)" "lineTotals (scPwd c) s l = Some lt"
      using map_Some_member [OF ls lt] by blast
    note f = cart_line_facts [OF ok l]
    note rule = lineTotals_rule [OF l(2) f(3,4,5) f(1,2)]
    have nn: "0 \<le> promoDiscountC lt" "0 \<le> scPwdDiscountC lt"
      using rule(1,2) by (auto simp: amount_le_def)
    have "amount_le \<lfloor>grossC lt\<rfloor> (grossC lt)" using f(3,4) by (simp add: amount_le_def)
    then show ?thesis
      using rule nn by (auto simp: line_ok_def max_def)
  qed
  then show ?thesis
    using ok map_Some_gross [OF ls] by (simp add: order_ok_def cart_ok_def)
qed

text \<open>
  C6. The accounting identities of a sale. On every cart that is \<open>cart_ok\<close> the totals exist,
  the discounted subtotal is the subtotal less both discounts, the total is the discounted
  subtotal plus the service charge and splits exactly into vatable sales, VAT and
  VAT-exempt sales, and no part is negative.
\<close>

theorem computeTotals_accounts:
  assumes "cart_ok c s"
  shows "\<exists>t. computeTotals c s = Some t
    \<and> discountedSubtotalC t = subtotalC t - ct_promoDiscountC t - ct_scPwdDiscountC t
    \<and> totalC t = discountedSubtotalC t + serviceChargeC t
    \<and> totalC t = vatableSalesC t + vatC t + vatExemptSalesC t
    \<and> 0 \<le> ct_promoDiscountC t \<and> 0 \<le> ct_scPwdDiscountC t \<and> 0 \<le> serviceChargeC t
    \<and> 0 \<le> vatC t \<and> 0 \<le> vatableSalesC t \<and> 0 \<le> vatExemptSalesC t
    \<and> vatExemptSalesC t \<le> discountedSubtotalC t \<and> serviceChargeC t \<le> discountedSubtotalC t"
proof -
  obtain ls where ls: "map (lineTotals (scPwd c) s) (cart_lines c) = map Some ls"
    and t: "computeTotals c s = Some (sumTotals c s ls)"
    using computeTotals_lines [OF assms] .
  show ?thesis
    using sumTotals_accounts [OF cart_order_ok [OF assms ls]] t by blast
qed

text \<open>
  C9. The discount rule of a line: SC/PWD or the promotion, whichever is higher, never
  both, ties to SC/PWD, and never more than the line.
\<close>

theorem computeTotals_line_rule:
  assumes "cart_ok c s" and "computeTotals c s = Some t" and "lt \<in> set (ct_lines t)"
  shows "netC lt = grossC lt - max (promoDiscountC lt) (scPwdDiscountC lt)
    \<and> 0 \<le> netC lt \<and> netC lt \<le> grossC lt
    \<and> applied lt = (if promoDiscountC lt = 0 \<and> scPwdDiscountC lt = 0 then None
         else if promoDiscountC lt \<le> scPwdDiscountC lt then Some Scpwd else Some Promo)"
proof -
  obtain ls where ls: "map (lineTotals (scPwd c) s) (cart_lines c) = map Some ls"
    and t: "computeTotals c s = Some (sumTotals c s ls)"
    using computeTotals_lines [OF assms(1)] .
  have "lt \<in> set ls" using assms(2,3) t by (auto simp: sumTotals_def Let_def)
  then obtain l where l: "l \<in> set (cart_lines c)" "lineTotals (scPwd c) s l = Some lt"
    using map_Some_member [OF ls] by blast
  note f = cart_line_facts [OF assms(1) l]
  note rule = lineTotals_rule [OF l(2) f(3,4,5) f(1,2)]
  have "promoDiscountC lt \<le> grossC lt" "scPwdDiscountC lt \<le> grossC lt" "0 \<le> promoDiscountC lt"
    using rule(1,2) f(3) by (auto simp: amount_le_def)
  then show ?thesis using rule(3,4) by (auto simp: max_def)
qed

section \<open>Examples\<close>

text \<open>The cart of the source's first test, and a cart with a senior citizen's line.\<close>

definition ex_rates :: rates where
  "ex_rates = \<lparr> taxRate = fl (12 / 100), serviceChargeRate = fl (5 / 100) \<rparr>"

definition ex_line :: "string \<Rightarrow> num \<Rightarrow> num \<Rightarrow> cart_modifier list \<Rightarrow> discount_spec option \<Rightarrow> cart_line" where
  "ex_line nm price q ms d = \<lparr> line_id = nm, productId = Some ''p'', variantId = None, line_name = nm,
     soldBy = By_unit, qty = q, unitPriceC = price, modifiers = ms, discount = d,
     scPwdMarked = True, trackStock = False \<rparr>"

definition ex_cart :: cart where
  "ex_cart = \<lparr> cart_id = ''c'', orderType = Dine_in,
     cart_lines =
       [ex_line ''Latte'' 14500 1 [\<lparr> groupId = ''mg-milk'', modifierId = ''mod-oat'', mod_name = ''Oat milk'', priceDeltaC = 2500 \<rparr>] None,
        ex_line ''Pan de sal'' 1200 6 [] None,
        ex_line ''Ensaymada'' 5500 2 [] (Some (Named ''d'' ''Merienda'' Percent 10)),
        ex_line ''Rice'' 9500 (3 / 4) [] None],
     orderDiscount = None, scPwd = None \<rparr>"

definition ex_senior :: cart where
  "ex_senior = \<lparr> cart_id = ''c'', orderType = No_type,
     cart_lines = [ex_line ''Item'' 10000 1 [] (Some (Free Percent 25))],
     orderDiscount = None, scPwd = Some \<lparr> idNo = ''X'', sc_name = ''Y'' \<rparr> \<rparr>"

lemma ex_cart_ok: "cart_ok ex_cart ex_rates"
  by code_simp

lemma ex_senior_ok: "cart_ok ex_senior ex_rates"
  by code_simp

lemma ex_cart_values:
  "map_option (\<lambda>t. (subtotalC t, ct_promoDiscountC t, serviceChargeC t, totalC t, vatC t, vatableSalesC t))
     (computeTotals ex_cart ex_rates) = Some (42325, 1100, 2061, 43286, 4638, 38648)"
  by code_simp

lemma ex_senior_values:
  "map_option (\<lambda>t. (map (\<lambda>l. (applied l, netC l)) (ct_lines t), totalC t)) (computeTotals ex_senior ex_rates)
     = Some ([(Some Scpwd, 7143)], 7143)"
  by code_simp

theorem computeTotals_accounts_witness:
  "\<exists>t. computeTotals ex_cart ex_rates = Some t \<and> totalC t = vatableSalesC t + vatC t + vatExemptSalesC t
    \<and> discountedSubtotalC t = subtotalC t - ct_promoDiscountC t - ct_scPwdDiscountC t"
  using computeTotals_accounts [OF ex_cart_ok] by blast

theorem computeTotals_line_rule_witness:
  "\<exists>t lt. computeTotals ex_senior ex_rates = Some t \<and> lt \<in> set (ct_lines t) \<and> applied lt = Some Scpwd
    \<and> netC lt = grossC lt - max (promoDiscountC lt) (scPwdDiscountC lt)"
proof -
  obtain t where t: "computeTotals ex_senior ex_rates = Some t"
    and l: "map (\<lambda>l. (applied l, netC l)) (ct_lines t) = [(Some Scpwd, 7143)]"
    using ex_senior_values by auto
  then obtain lt where "ct_lines t = [lt]" "applied lt = Some Scpwd" by (cases "ct_lines t") auto
  with computeTotals_line_rule [OF ex_senior_ok t, of lt] t show ?thesis by auto
qed

end
