(* ===== verification/Errors.thy ===== *)
theory Errors
  imports Totals
begin

text \<open>
  The errors a request can end with and how they are answered: the exception classes of
  \<open>common/errors/api-errors.ts\<close>, the two plain errors of the tenancy choke point, the
  framework's \<open>HttpException\<close>, the database errors, and \<open>render\<close> of
  \<open>common/filters/api-exception.filter.ts\<close>.
\<close>

record stock_conflict =
  cf_lineId :: uid
  cf_productId :: uid
  cf_variantId :: "uid option"
  cf_availableQty :: num

datatype api_error =
    PinInvalidError int
  | PinLockedError int
  | LoginInvalidError int
  | LoginLockedError int
  | TotpInvalidError
  | ValidationFailedError string
  | UnauthorizedError string
  | ForbiddenError string
  | NotFoundError string
  | EmailTakenError string
  | MaxBusinessesReachedError string
  | OwnerSuspendedError
  | PlatformWriteForbiddenError string
  | InvalidTokenError string
  | StockConflictHttpError "stock_conflict list"

text \<open>
  What a handler can throw. \<open>Unique_violation\<close> is Prisma's \<open>P2002\<close>; \<open>Crash\<close> is any other
  error (a check constraint, a value out of a column's range, a plain \<open>Error\<close>), which the
  filter hides behind a 500.
\<close>

datatype exn =
    Api api_error
  | PlatformWriteError
  | TenantScopeError string
  | Http_text nat string
  | Http_body nat "string option" "string list"
  | Unique_violation
  | Crash string

fun api_status :: "api_error \<Rightarrow> nat" where
  "api_status (PinInvalidError n) = 403"
| "api_status (PinLockedError n) = 423"
| "api_status (LoginInvalidError n) = 401"
| "api_status (LoginLockedError n) = 423"
| "api_status TotpInvalidError = 401"
| "api_status (ValidationFailedError m) = 422"
| "api_status (UnauthorizedError m) = 401"
| "api_status (ForbiddenError m) = 403"
| "api_status (NotFoundError m) = 404"
| "api_status (EmailTakenError m) = 409"
| "api_status (MaxBusinessesReachedError m) = 403"
| "api_status OwnerSuspendedError = 403"
| "api_status (PlatformWriteForbiddenError m) = 403"
| "api_status (InvalidTokenError m) = 400"
| "api_status (StockConflictHttpError c) = 409"

fun api_code :: "api_error \<Rightarrow> string" where
  "api_code (PinInvalidError n) = ''pin_invalid''"
| "api_code (PinLockedError n) = ''pin_locked''"
| "api_code (LoginInvalidError n) = ''login_invalid''"
| "api_code (LoginLockedError n) = ''login_locked''"
| "api_code TotpInvalidError = ''totp_invalid''"
| "api_code (ValidationFailedError m) = ''validation''"
| "api_code (UnauthorizedError m) = ''unauthorized''"
| "api_code (ForbiddenError m) = ''forbidden''"
| "api_code (NotFoundError m) = ''not_found''"
| "api_code (EmailTakenError m) = ''email_taken''"
| "api_code (MaxBusinessesReachedError m) = ''max_businesses_reached''"
| "api_code OwnerSuspendedError = ''owner_suspended''"
| "api_code (PlatformWriteForbiddenError m) = ''platform_write_forbidden''"
| "api_code (InvalidTokenError m) = ''invalid_token''"
| "api_code (StockConflictHttpError c) = ''stock_conflict''"

fun api_message :: "api_error \<Rightarrow> string" where
  "api_message (PinInvalidError n) = ''PIN is incorrect.''"
| "api_message (PinLockedError n) = ''PIN entry is temporarily locked due to too many failed attempts.''"
| "api_message (LoginInvalidError n) = ''Credentials are incorrect.''"
| "api_message (LoginLockedError n) = ''Login is temporarily locked due to too many failed attempts.''"
| "api_message TotpInvalidError = ''TOTP code or recovery code is invalid.''"
| "api_message (ValidationFailedError m) = m"
| "api_message (UnauthorizedError m) = m"
| "api_message (ForbiddenError m) = m"
| "api_message (NotFoundError m) = m"
| "api_message (EmailTakenError m) = m"
| "api_message (MaxBusinessesReachedError m) = m"
| "api_message OwnerSuspendedError = ''This account is suspended. Contact support.''"
| "api_message (PlatformWriteForbiddenError m) = m"
| "api_message (InvalidTokenError m) = m"
| "api_message (StockConflictHttpError c) = ''Stock conflict detected.''"

text \<open>The defaults of the message parameters.\<close>

definition unauthorized :: exn where
  "unauthorized = Api (UnauthorizedError ''Authentication is required.'')"

definition forbidden :: exn where
  "forbidden = Api (ForbiddenError ''You do not have permission to perform this action.'')"

definition invalid_token :: exn where
  "invalid_token = Api (InvalidTokenError ''This link is invalid or has expired.'')"

definition validation :: "string \<Rightarrow> exn" where
  "validation m = Api (ValidationFailedError m)"

definition not_found :: "string \<Rightarrow> exn" where
  "not_found m = Api (NotFoundError m)"

section \<open>The exception filter\<close>

record rendered =
  re_status :: nat
  re_code :: string
  re_message :: string

definition DENIAL_CODES :: "string list" where
  "DENIAL_CODES = [''forbidden'', ''owner_suspended'', ''platform_write_forbidden'',
     ''tenant_scope_violation'', ''pin_locked'', ''login_locked'']"

definition defaultCode :: "nat \<Rightarrow> string" where
  "defaultCode st =
    (if st = 422 then ''validation'' else if st = 401 then ''unauthorized''
     else if st = 403 then ''forbidden'' else if st = 404 then ''not_found'' else ''error'')"

fun join_semi :: "string list \<Rightarrow> string" where
  "join_semi [] = []"
| "join_semi [m] = m"
| "join_semi (m # ms) = m @ ''; '' @ join_semi ms"

fun render :: "exn \<Rightarrow> rendered" where
  "render (Api e) = \<lparr> re_status = api_status e, re_code = api_code e, re_message = api_message e \<rparr>"
| "render PlatformWriteError = \<lparr> re_status = 403, re_code = ''platform_write_forbidden'',
     re_message = ''Platform scope may not write tenant data.'' \<rparr>"
| "render (TenantScopeError m) = \<lparr> re_status = 403, re_code = ''tenant_scope_violation'',
     re_message = ''This resource is outside your scope.'' \<rparr>"
| "render (Http_text st m) = \<lparr> re_status = st, re_code = defaultCode st, re_message = m \<rparr>"
| "render (Http_body st c ms) = \<lparr> re_status = st,
     re_code = (case c of None \<Rightarrow> defaultCode st | Some c \<Rightarrow> c), re_message = join_semi ms \<rparr>"
| "render Unique_violation = \<lparr> re_status = 500, re_code = ''internal_error'',
     re_message = ''An unexpected error occurred.'' \<rparr>"
| "render (Crash m) = \<lparr> re_status = 500, re_code = ''internal_error'',
     re_message = ''An unexpected error occurred.'' \<rparr>"

definition is_denial :: "exn \<Rightarrow> bool" where
  "is_denial e \<longleftrightarrow> re_code (render e) \<in> set DENIAL_CODES"

text \<open>Nothing of an internal error or of the choke point's message reaches the answer.\<close>

lemma render_hides: "render (Crash m) = render (Crash m')" "render (TenantScopeError m) = render (TenantScopeError m')"
  by simp_all

lemma api_denials:
  "is_denial (Api e) \<longleftrightarrow>
    (case e of PinLockedError _ \<Rightarrow> True | LoginLockedError _ \<Rightarrow> True | ForbiddenError _ \<Rightarrow> True
     | OwnerSuspendedError \<Rightarrow> True | PlatformWriteForbiddenError _ \<Rightarrow> True | _ \<Rightarrow> False)"
  by (cases e) (simp_all add: is_denial_def DENIAL_CODES_def)

end
