(* ===== verification/Draft.thy ===== *)
theory Draft
  imports Errors "HOL-Library.Multiset"
begin

text \<open>
  The sale draft a terminal posts (\<open>pos/sales/dto/sale-draft.dto.ts\<close>), the validators of its
  fields, JSON values, and \<open>canonical\<close> of \<open>pos/sales/sales.service.ts\<close>, with which the
  server compares the client's totals with its own. \<open>isUUID\<close>, a check of the validation
  library, is a parameter.
\<close>

section \<open>JSON\<close>

datatype json =
    JNull
  | JBool bool
  | JNum num
  | JStr string
  | JArr "json list"
  | JObj "(string \<times> json) list"

text \<open>
  \<open>canonical\<close> serialises a value with the keys of every object sorted. Serialising is
  injective on parsed JSON, so the string is represented by the sorted value itself; the
  order of the keys is the lexicographic one in place of \<open>localeCompare\<close>, which gives the
  same equalities.
\<close>

fun canonical :: "json \<Rightarrow> json" where
  "canonical (JArr js) = JArr (map canonical js)"
| "canonical (JObj kvs) = JObj (sort_key fst (map (\<lambda>(k, v). (k, canonical v)) kvs))"
| "canonical j = j"

definition applied_json :: "applied option \<Rightarrow> json" where
  "applied_json a = (case a of None \<Rightarrow> JNull | Some Promo \<Rightarrow> JStr ''promo'' | Some Scpwd \<Rightarrow> JStr ''scpwd'')"

definition line_totals_json :: "line_totals \<Rightarrow> json" where
  "line_totals_json l = JObj
    [(''lineId'', JStr (lineId l)), (''grossC'', JNum (grossC l)),
     (''promoDiscountC'', JNum (promoDiscountC l)), (''scPwdDiscountC'', JNum (scPwdDiscountC l)),
     (''applied'', applied_json (applied l)), (''netC'', JNum (netC l))]"

definition totals_json :: "cart_totals \<Rightarrow> json" where
  "totals_json t = JObj
    [(''lines'', JArr (map line_totals_json (ct_lines t))), (''subtotalC'', JNum (subtotalC t)),
     (''promoDiscountC'', JNum (ct_promoDiscountC t)), (''scPwdDiscountC'', JNum (ct_scPwdDiscountC t)),
     (''discountedSubtotalC'', JNum (discountedSubtotalC t)), (''serviceChargeC'', JNum (serviceChargeC t)),
     (''totalC'', JNum (totalC t)), (''vatExemptSalesC'', JNum (vatExemptSalesC t)),
     (''vatC'', JNum (vatC t)), (''vatableSalesC'', JNum (vatableSalesC t))]"

text \<open>Two JSON values with the same content: equal up to the order of object keys.\<close>

inductive same_json :: "json \<Rightarrow> json \<Rightarrow> bool" where
  atom: "same_json j j"
| arr: "list_all2 same_json js ks \<Longrightarrow> same_json (JArr js) (JArr ks)"
| obj: "\<lbrakk> mset kvs' = mset kvs; list_all2 (\<lambda>p q. fst p = fst q \<and> same_json (snd p) (snd q)) kvs' lws \<rbrakk>
    \<Longrightarrow> same_json (JObj kvs) (JObj lws)"

text \<open>Parsed JSON: no object has the same key twice.\<close>

fun wf_json :: "json \<Rightarrow> bool" where
  "wf_json (JArr js) = list_all wf_json js"
| "wf_json (JObj kvs) = (distinct (map fst kvs) \<and> list_all (\<lambda>(k, v). wf_json v) kvs)"
| "wf_json j = True"

lemma map_eq_permuted:
  assumes "mset (map f xs) = mset (map g ys)"
  shows "\<exists>xs'. mset xs' = mset xs \<and> map f xs' = map g ys"
proof -
  have "list_all2 (\<lambda>a x. a = f x) (map f xs) xs" by (simp add: list_all2_conv_all_nth)
  from list_all2_reorder_left_invariance [OF this assms [symmetric]] obtain xs'
    where xs': "list_all2 (\<lambda>a x. a = f x) (map g ys) xs'" "mset xs' = mset xs" by blast
  from xs'(1) have "map g ys = map f xs'" by (auto simp: list_all2_conv_all_nth intro!: nth_equalityI)
  with xs'(2) show ?thesis by metis
qed

abbreviation canon_pair :: "string \<times> json \<Rightarrow> string \<times> json" where
  "canon_pair p \<equiv> (fst p, canonical (snd p))"

lemma canonical_obj: "canonical (JObj kvs) = JObj (sort_key fst (map canon_pair kvs))"
  by (simp add: case_prod_unfold)

lemma canonical_same: "canonical j = canonical k \<Longrightarrow> same_json j k"
proof (induction j arbitrary: k)
  case (JArr js)
  from JArr.prems obtain ks where k: "k = JArr ks" "map canonical js = map canonical ks" by (cases k) auto
  then have "list_all2 same_json js ks"
    using JArr.IH by (simp add: list_all2_conv_all_nth list_eq_iff_nth_eq)
  with k show ?case by (simp add: same_json.arr)
next
  case (JObj kvs)
  from JObj.prems obtain lws where k: "k = JObj lws" "sort_key fst (map canon_pair kvs) = sort_key fst (map canon_pair lws)"
    by (cases k) (auto simp: canonical_obj simp del: canonical.simps(2))
  have "mset (map canon_pair kvs) = mset (map canon_pair lws)"
    using arg_cong [OF k(2), of mset] unfolding mset_sort .
  then obtain kvs' where p: "mset kvs' = mset kvs" "map canon_pair kvs' = map canon_pair lws"
    using map_eq_permuted by blast
  have "list_all2 (\<lambda>p q. fst p = fst q \<and> same_json (snd p) (snd q)) kvs' lws"
  proof (rule list_all2_all_nthI)
    show len: "List.length kvs' = List.length lws" using p(2) by (metis length_map)
    fix n assume n: "n < List.length kvs'"
    then have "kvs' ! n \<in> set kvs" using mset_eq_setD [OF p(1)] nth_mem by fastforce
    moreover have "canon_pair (kvs' ! n) = canon_pair (lws ! n)"
      using nth_map [OF n, of canon_pair] nth_map [of n lws canon_pair] p(2) n len by simp
    ultimately show "fst (kvs' ! n) = fst (lws ! n) \<and> same_json (snd (kvs' ! n)) (snd (lws ! n))"
      using JObj.IH [of "kvs' ! n" "snd (kvs' ! n)"] by (simp add: snds.intros)
  qed
  with p(1) k(1) show ?case by (auto intro: same_json.obj)
qed (case_tac k; simp add: same_json.atom)+

lemma sort_key_distinct_eq:
  assumes "mset xs = mset ys" "distinct (map f xs)"
  shows "sort_key f xs = sort_key f ys"
proof (rule map_sorted_distinct_set_unique)
  have s: "set xs = set ys" using assms(1) by (rule mset_eq_setD)
  then show "set (sort_key f xs) = set (sort_key f ys)" by simp
  show "inj_on f (set (sort_key f xs) \<union> set (sort_key f ys))"
    using assms(2) s by (simp add: distinct_map)
  have "distinct (map f ys)" using assms by (metis mset_map mset_eq_imp_distinct_iff)
  then show "distinct (map f (sort_key f xs))" "distinct (map f (sort_key f ys))"
    using assms(2) by (metis mset_map mset_sort mset_eq_imp_distinct_iff)+
qed simp_all

lemma same_canonical: "same_json j k \<Longrightarrow> wf_json j \<Longrightarrow> wf_json k \<Longrightarrow> canonical j = canonical k"
proof (induction rule: same_json.induct)
  case (arr js ks)
  then show ?case by (auto simp: list_all2_conv_all_nth list_all_length intro!: nth_equalityI)
next
  case (obj kvs' kvs lws)
  have wk: "distinct (map fst kvs)" "\<And>p. p \<in> set kvs \<Longrightarrow> wf_json (snd p)"
    "distinct (map fst lws)" "\<And>p. p \<in> set lws \<Longrightarrow> wf_json (snd p)"
    using obj.prems by (auto simp: list_all_iff case_prod_unfold)
  have e: "map canon_pair kvs' = map canon_pair lws"
  proof (rule nth_equalityI)
    show "List.length (map canon_pair kvs') = List.length (map canon_pair lws)"
      using obj.IH by (auto dest: list_all2_lengthD)
    fix n assume n: "n < List.length (map canon_pair kvs')"
    then have "kvs' ! n \<in> set kvs" using mset_eq_setD [OF obj.hyps(1)] nth_mem by fastforce
    moreover have "lws ! n \<in> set lws" using n obj.IH by (auto dest: list_all2_lengthD)
    moreover have "fst (kvs' ! n) = fst (lws ! n) \<and> (wf_json (snd (kvs' ! n)) \<longrightarrow> wf_json (snd (lws ! n))
        \<longrightarrow> canonical (snd (kvs' ! n)) = canonical (snd (lws ! n)))"
      using obj.IH n by (auto simp: list_all2_conv_all_nth)
    ultimately show "map canon_pair kvs' ! n = map canon_pair lws ! n"
      using n wk obj.IH by (auto dest: list_all2_lengthD)
  qed
  have keys: "mset (map fst kvs') = mset (map fst kvs)" using obj.hyps(1) by simp
  have "sort_key fst (map canon_pair kvs) = sort_key fst (map canon_pair kvs')"
    using wk(1) mset_eq_imp_distinct_iff [OF keys] obj.hyps(1)
    by (intro sort_key_distinct_eq) (simp_all add: comp_def)
  with e show ?case by (simp add: canonical_obj del: canonical.simps(2))
qed simp

section \<open>The draft\<close>

datatype payment_method = Cash | Card | Gcash | Maya | Other_method

record sale_payment_dto =
  pm_id :: uid
  pm_method :: payment_method
  pm_referenceNo :: "string option"
  pm_amountC :: num
  pm_tenderedC :: num
  pm_changeC :: num

record sale_draft =
  sd_id :: uid
  sd_receiptNo :: string
  sd_shiftId :: uid
  sd_orderType :: order_type
  sd_lines :: "cart_line list"
  sd_orderDiscount :: "discount_spec option"
  sd_scPwd :: "scpwd_info option"
  sd_totals :: "json option"
  sd_payment :: sale_payment_dto
  sd_createdAtDevice :: time

definition draft_cart :: "sale_draft \<Rightarrow> cart" where
  "draft_cart d = \<lparr> cart_id = sd_id d, orderType = sd_orderType d, cart_lines = sd_lines d,
     orderDiscount = sd_orderDiscount d, scPwd = sd_scPwd d \<rparr>"

section \<open>The validators\<close>

definition MAX_CENTAVOS :: int where "MAX_CENTAVOS = 100000000"

definition MAX_QTY :: int where "MAX_QTY = 1000000"

definition isInt_between :: "int \<Rightarrow> int \<Rightarrow> num \<Rightarrow> bool" where
  "isInt_between lo hi x \<longleftrightarrow> of_int \<lfloor>x\<rfloor> = x \<and> of_int lo \<le> x \<and> x \<le> of_int hi"

definition three_decimals :: "num \<Rightarrow> bool" where
  "three_decimals x \<longleftrightarrow> fl (of_int \<lfloor>x * 1000 + 1/2\<rfloor> / 1000) = x"

definition modifier_valid :: "cart_modifier \<Rightarrow> bool" where
  "modifier_valid m \<longleftrightarrow> List.length (mod_name m) \<le> 200
    \<and> isInt_between (- MAX_CENTAVOS) MAX_CENTAVOS (priceDeltaC m)"

definition line_valid :: "(string \<Rightarrow> bool) \<Rightarrow> cart_line \<Rightarrow> bool" where
  "line_valid isUUID l \<longleftrightarrow> isUUID (line_id l)
    \<and> (case productId l of None \<Rightarrow> True | Some p \<Rightarrow> isUUID p)
    \<and> (case variantId l of None \<Rightarrow> True | Some v \<Rightarrow> isUUID v)
    \<and> List.length (line_name l) \<le> 300
    \<and> three_decimals (qty l) \<and> 0 < qty l \<and> qty l \<le> of_int MAX_QTY
    \<and> isInt_between 0 MAX_CENTAVOS (unitPriceC l)
    \<and> list_all modifier_valid (modifiers l)"

definition payment_valid :: "(string \<Rightarrow> bool) \<Rightarrow> sale_payment_dto \<Rightarrow> bool" where
  "payment_valid isUUID p \<longleftrightarrow> isUUID (pm_id p)
    \<and> (case pm_referenceNo p of None \<Rightarrow> True | Some r \<Rightarrow> List.length r \<le> 200)
    \<and> isInt_between 0 MAX_CENTAVOS (pm_amountC p) \<and> isInt_between 0 MAX_CENTAVOS (pm_tenderedC p)
    \<and> isInt_between 0 MAX_CENTAVOS (pm_changeC p)"

definition draft_valid :: "(string \<Rightarrow> bool) \<Rightarrow> sale_draft \<Rightarrow> bool" where
  "draft_valid isUUID d \<longleftrightarrow> isUUID (sd_id d) \<and> List.length (sd_receiptNo d) \<le> 120
    \<and> isUUID (sd_shiftId d) \<and> sd_lines d \<noteq> [] \<and> list_all (line_valid isUUID) (sd_lines d)
    \<and> payment_valid isUUID (sd_payment d)"

section \<open>Validated quantities\<close>

lemma three_decimals_milli:
  assumes "three_decimals q" "0 \<le> q" "q \<le> of_int MAX_QTY"
  obtains m where "q = fl (of_int m / 1000)" "0 \<le> m" "m \<le> 10 ^ 9" "qtyToMilli q = Some (of_int m)"
proof -
  define m where "m = \<lfloor>q * 1000 + 1/2\<rfloor>"
  have q: "q = fl (of_int m / 1000)" using assms(1) by (simp add: three_decimals_def m_def)
  have "0 \<le> m" using assms(2) by (simp add: m_def)
  moreover have "q * 1000 \<le> 10 ^ 9" using assms(3) by (simp add: MAX_QTY_def)
  then have "m \<le> 10 ^ 9" by (simp add: m_def floor_le_iff)
  ultimately show thesis using that q qtyToMilli_exact [of m] by simp
qed

lemma line_valid_milli:
  assumes "line_valid isUUID l"
  obtains m where "qty l = fl (of_int m / 1000)" "0 < m" "m \<le> 10 ^ 9" "qtyToMilli (qty l) = Some (of_int m)"
proof -
  have "three_decimals (qty l)" "0 \<le> qty l" "qty l \<le> of_int MAX_QTY" "qty l \<noteq> 0"
    using assms by (auto simp: line_valid_def)
  then obtain m where m: "qty l = fl (of_int m / 1000)" "0 \<le> m" "m \<le> 10 ^ 9" "qtyToMilli (qty l) = Some (of_int m)"
    using three_decimals_milli by metis
  have "m \<noteq> 0" using \<open>qty l \<noteq> 0\<close> m(1) by auto
  with m that show thesis by auto
qed

text \<open>
  C14. A validated draft always has totals: the validator's three decimals and upper bound
  keep the recompute from throwing, so an unpriceable quantity is refused with a 4xx at
  the door and never becomes a server error.
\<close>

theorem validated_draft_has_totals:
  assumes "draft_valid isUUID d"
  shows "\<exists>t. computeTotals (draft_cart d) s = Some t"
proof -
  have "\<exists>lt. lineTotals (sd_scPwd d) s l = Some lt" if "l \<in> set (sd_lines d)" for l
  proof -
    have "line_valid isUUID l" using assms that by (auto simp: draft_valid_def list_all_iff)
    then obtain m where "qtyToMilli (qty l) = Some (of_int m)" by (rule line_valid_milli)
    then show ?thesis by (simp add: lineTotals_def mulQtyPriceC_def)
  qed
  then have "map (lineTotals (sd_scPwd d) s) (sd_lines d)
      = map Some (map (\<lambda>l. the (lineTotals (sd_scPwd d) s l)) (sd_lines d))" by auto
  then have "all_some (map (lineTotals (sd_scPwd d) s) (sd_lines d))
      = Some (map (\<lambda>l. the (lineTotals (sd_scPwd d) s l)) (sd_lines d))"
    by (simp only: all_some_eq)
  then show ?thesis by (simp add: computeTotals_def draft_cart_def)
qed

text \<open>
  The comparison of the client's totals with the recompute accepts exactly the JSON
  values with the same content, whatever the order of the keys at any depth.
\<close>

theorem totals_comparison:
  assumes "wf_json j"
  shows "canonical (totals_json t) = canonical j \<longleftrightarrow> same_json (totals_json t) j"
proof -
  have "wf_json (totals_json t)"
    by (simp add: totals_json_def line_totals_json_def list_all_iff applied_json_def split: option.split applied.split)
  with assms show ?thesis by (blast intro: canonical_same same_canonical)
qed

section \<open>The UUID pattern\<close>

definition is_hex :: "char \<Rightarrow> bool" where
  "is_hex c \<longleftrightarrow> c \<in> set ''0123456789abcdefABCDEF''"

fun hex_groups :: "nat list \<Rightarrow> string \<Rightarrow> bool" where
  "hex_groups [] s = (s = [])"
| "hex_groups [n] s = (List.length s = n \<and> list_all is_hex s)"
| "hex_groups (n # ns) s =
    (List.length (take n s) = n \<and> list_all is_hex (take n s)
     \<and> (case drop n s of [] \<Rightarrow> False | c # r \<Rightarrow> c = CHR ''-'' \<and> hex_groups ns r))"

definition UUID_RE :: "string \<Rightarrow> bool" where
  "UUID_RE = hex_groups [8, 4, 4, 4, 12]"

section \<open>Examples\<close>

definition ex_uuid :: "string \<Rightarrow> string" where
  "ex_uuid sfx = ''0f1e2d3c-4b5a-4978-8796-a5b4c3d2e1'' @ sfx"

definition ex_draft :: sale_draft where
  "ex_draft = \<lparr> sd_id = ex_uuid ''01'', sd_receiptNo = ''DEMO-MKT-T1-000318'', sd_shiftId = ex_uuid ''02'',
     sd_orderType = No_type,
     sd_lines = [\<lparr> line_id = ex_uuid ''03'', productId = Some (ex_uuid ''04''), variantId = None,
       line_name = ''Rice'', soldBy = By_weight, qty = 3 / 4, unitPriceC = 10000, modifiers = [],
       discount = None, scPwdMarked = False, trackStock = True \<rparr>],
     sd_orderDiscount = None, sd_scPwd = None, sd_totals = None,
     sd_payment = \<lparr> pm_id = ex_uuid ''05'', pm_method = Cash, pm_referenceNo = None,
       pm_amountC = 7500, pm_tenderedC = 10000, pm_changeC = 2500 \<rparr>,
     sd_createdAtDevice = 0 \<rparr>"

lemma ex_draft_valid: "draft_valid UUID_RE ex_draft"
  by code_simp

theorem validated_draft_has_totals_witness: "\<exists>t. computeTotals (draft_cart ex_draft) ex_rates = Some t"
  by (rule validated_draft_has_totals [OF ex_draft_valid])

definition ex_totals :: cart_totals where
  "ex_totals = \<lparr> ct_lines = [], subtotalC = 0, ct_promoDiscountC = 0, ct_scPwdDiscountC = 0,
     discountedSubtotalC = 0, serviceChargeC = 0, totalC = 0, vatExemptSalesC = 0, vatC = 0,
     vatableSalesC = 0 \<rparr>"

definition ex_reordered :: json where
  "ex_reordered = (case totals_json ex_totals of JObj kvs \<Rightarrow> JObj (rev kvs) | j \<Rightarrow> j)"

theorem totals_comparison_witness:
  "ex_reordered \<noteq> totals_json ex_totals \<and> same_json (totals_json ex_totals) ex_reordered"
proof -
  have "wf_json ex_reordered" and "canonical (totals_json ex_totals) = canonical ex_reordered"
    and "ex_reordered \<noteq> totals_json ex_totals"
    by code_simp+
  with totals_comparison [of ex_reordered ex_totals] show ?thesis by simp
qed

end
