(* ===== verification/Database.thy ===== *)
theory Database
  imports Draft
begin

text \<open>
  The database (\<open>prisma/schema.prisma\<close>): one record per model, every one an extension of
  the four columns all models share, and the state \<open>db\<close> with a list of rows per table, the
  clock and the supply of generated identifiers. Decimal(10,3) columns are integers of
  thousandths, Decimal(5,4) columns integers of ten-thousandths. Identifiers are compared
  as strings; the case folding of UUID literals by PostgreSQL is not modelled, nor are
  foreign-key constraints (rows are soft-deleted, never removed, and the choke point
  checks the references of what it creates).
\<close>

type_synonym milli = int

section \<open>Enumerations\<close>

datatype owner_status = Active | Suspended | Hard_suspended | Closed
datatype user_role = Platform_admin_role | Owner_role
datatype business_type = Retail | Fnb | Mixed
datatype discount_applies_to = On_line | On_order | On_both
datatype movement_type = Mv_sale | Mv_void | Mv_refund | Mv_adjustment | Mv_receive | Mv_transfer_out | Mv_transfer_in
datatype reason_category = Damage | Expiry | Theft_loss | Count_correction | Other_reason
datatype cash_movement_type = Cash_in | Cash_out
datatype count_status = Count_draft | Count_posted
datatype sale_status = Completed | Voided | Refunded
datatype recipient_type = To_user | To_staff
datatype notification_type = Low_stock | Shift_unclosed | Expiring_soon
datatype actor_type = Act_owner | Act_terminal | Act_platform_admin
datatype auth_token_kind = Invite | Reset

section \<open>Rows\<close>

record row =
  r_id :: uid
  r_createdAt :: time
  r_updatedAt :: time
  r_deletedAt :: "time option"

record owner_row = row +
  ow_name :: string
  ow_email :: string
  ow_status :: owner_status
  ow_maxBusinesses :: int
  ow_suspendedAt :: "time option"

record user_row = row +
  us_email :: string
  us_passwordHash :: "string option"
  us_role :: user_role
  us_ownerId :: "uid option"
  us_pinHash :: "string option"
  us_totpSecret :: "string option"
  us_totpPendingSecret :: "string option"
  us_totpLastTimeStep :: "int option"
  us_totpRecoveryCodes :: "string list"
  us_failedLoginCount :: int
  us_loginLockedUntil :: "time option"
  us_failedPinCount :: int
  us_pinLockedUntil :: "time option"

record auth_token_row = row +
  at_kind :: auth_token_kind
  at_tokenHash :: string
  at_userId :: uid
  at_expiresAt :: time
  at_usedAt :: "time option"

record refresh_token_row = row +
  rt_tokenHash :: string
  rt_userId :: uid
  rt_expiresAt :: time
  rt_revokedAt :: "time option"

record business_row = row +
  bz_ownerId :: uid
  bz_name :: string
  bz_type :: business_type
  bz_currency :: string
  bz_taxRate :: int
  bz_serviceChargeRate :: int
  bz_allowMiscItems :: bool
  bz_isDemo :: bool
  bz_dayStartTime :: string
  bz_expiryWarningDays :: int
  bz_logoPath :: "string option"
  bz_receiptHeader :: string
  bz_receiptFooter :: string

record branch_row = row +
  br_businessId :: uid
  br_name :: string
  br_code :: string
  br_address :: string

record terminal_row = row +
  tm_branchId :: uid
  tm_name :: string
  tm_code :: string
  tm_deviceTokenHash :: "string option"
  tm_receiptSeq :: int
  tm_lastSeenAt :: "time option"

record category_row = row +
  cg_businessId :: uid
  cg_name :: string
  cg_sortOrder :: int

record product_row = row +
  pr_businessId :: uid
  pr_categoryId :: uid
  pr_name :: string
  pr_sku :: "string option"
  pr_barcode :: "string option"
  pr_price :: int
  pr_cost :: "int option"
  pr_soldBy :: sold_by
  pr_lowStockThreshold :: "milli option"
  pr_imagePath :: "string option"
  pr_trackStock :: bool
  pr_trackExpiry :: bool
  pr_active :: bool

record variant_row = row +
  pv_productId :: uid
  pv_name :: string
  pv_sku :: "string option"
  pv_barcode :: "string option"
  pv_price :: int
  pv_cost :: "int option"

record modifier_group_row = row +
  mg_businessId :: uid
  mg_name :: string
  mg_minSelect :: int
  mg_maxSelect :: int

record modifier_row = row +
  md_groupId :: uid
  md_name :: string
  md_priceDelta :: int

record product_modifier_group_row = row +
  pg_productId :: uid
  pg_groupId :: uid

record discount_row = row +
  dc_businessId :: uid
  dc_name :: string
  dc_kind :: disc_kind
  dc_value :: int
  dc_appliesTo :: discount_applies_to
  dc_active :: bool

record branch_stock_row = row +
  bs_branchId :: uid
  bs_productId :: uid
  bs_variantId :: "uid option"
  bs_qty :: milli

record stock_movement_row = row +
  mv_branchId :: uid
  mv_productId :: uid
  mv_variantId :: "uid option"
  mv_type :: movement_type
  mv_refId :: uid
  mv_transferId :: "uid option"
  mv_qtyDelta :: milli
  mv_reasonCategory :: "reason_category option"
  mv_unitCost :: "int option"
  mv_note :: "string option"

record shift_row = row +
  sh_branchId :: uid
  sh_terminalId :: uid
  sh_openedAt :: time
  sh_closedAt :: "time option"
  sh_openingCash :: int
  sh_closingCash :: "int option"
  sh_expectedCash :: "int option"

record cash_movement_row = row +
  cm_shiftId :: uid
  cm_type :: cash_movement_type
  cm_amount :: int
  cm_reason :: string

record sale_row = row +
  sl_branchId :: uid
  sl_terminalId :: uid
  sl_shiftId :: "uid option"
  sl_receiptNo :: string
  sl_orderType :: order_type
  sl_status :: sale_status
  sl_statusReason :: "string option"
  sl_subtotal :: int
  sl_discount :: int
  sl_discountId :: "uid option"
  sl_serviceCharge :: int
  sl_scPwd :: "scpwd_info option"
  sl_scPwdDiscount :: int
  sl_vatExemptSales :: int
  sl_tax :: int
  sl_total :: int
  sl_createdAtDevice :: time
  sl_syncedAt :: "time option"
  sl_voidedAt :: "time option"
  sl_refundedAt :: "time option"
  sl_refundShiftId :: "uid option"
  sl_draft :: sale_draft

record sale_item_row = row +
  si_saleId :: uid
  si_productId :: "uid option"
  si_variantId :: "uid option"
  si_nameSnapshot :: string
  si_qty :: milli
  si_unitPrice :: int
  si_costSnapshot :: "int option"
  si_discount :: int
  si_discountId :: "uid option"
  si_modifiers :: "cart_modifier list"

record sale_payment_row = row +
  sp_saleId :: uid
  sp_method :: payment_method
  sp_reference :: "string option"
  sp_amount :: int
  sp_tendered :: int
  sp_change :: int

record stock_count_row = row +
  sc_branchId :: uid
  sc_status :: count_status
  sc_postedAt :: "time option"

record stock_count_item_row = row +
  ci_stockCountId :: uid
  ci_productId :: uid
  ci_variantId :: "uid option"
  ci_expectedQty :: milli
  ci_countedQty :: milli

record stock_batch_row = row +
  bt_productId :: uid
  bt_variantId :: "uid option"
  bt_qty :: milli
  bt_expiresAt :: "time option"
  bt_receivedAt :: time
  bt_unitCost :: "int option"

record notification_row = row +
  nt_recipientType :: recipient_type
  nt_recipientId :: uid
  nt_type :: notification_type
  nt_title :: string
  nt_body :: string
  nt_businessId :: "uid option"
  nt_branchId :: "uid option"
  nt_entityId :: "uid option"
  nt_readAt :: "time option"

section \<open>Snapshots and the audit log\<close>

text \<open>A row of any table but the audit log, as \<open>audit_logs.changes\<close> stores it.\<close>

datatype any_row =
    Any_owner owner_row
  | Any_user user_row
  | Any_authToken auth_token_row
  | Any_refreshToken refresh_token_row
  | Any_business business_row
  | Any_branch branch_row
  | Any_terminal terminal_row
  | Any_category category_row
  | Any_product product_row
  | Any_productVariant variant_row
  | Any_modifierGroup modifier_group_row
  | Any_modifier modifier_row
  | Any_productModifierGroup product_modifier_group_row
  | Any_discount discount_row
  | Any_branchStock branch_stock_row
  | Any_stockMovement stock_movement_row
  | Any_shift shift_row
  | Any_shiftCashMovement cash_movement_row
  | Any_sale sale_row
  | Any_saleItem sale_item_row
  | Any_salePayment sale_payment_row
  | Any_stockCount stock_count_row
  | Any_stockCountItem stock_count_item_row
  | Any_stockBatch stock_batch_row
  | Any_notification notification_row

record request_meta =
  mt_ip :: string
  mt_userAgent :: string
  mt_terminalCode :: "string option"
  mt_requestId :: string
  mt_sessionId :: "string option"
  mt_deviceTimestamp :: "string option"
  mt_extra :: "(string \<times> string) list"

record audit_row = row +
  al_actorType :: actor_type
  al_actorId :: "uid option"
  al_ownerId :: "uid option"
  al_businessId :: "uid option"
  al_branchId :: "uid option"
  al_action :: string
  al_entityType :: string
  al_entityId :: "uid option"
  al_before :: "any_row option"
  al_after :: "any_row option"
  al_metadata :: request_meta

section \<open>The state\<close>

record db =
  db_owner :: "owner_row list"
  db_user :: "user_row list"
  db_authToken :: "auth_token_row list"
  db_refreshToken :: "refresh_token_row list"
  db_business :: "business_row list"
  db_branch :: "branch_row list"
  db_terminal :: "terminal_row list"
  db_category :: "category_row list"
  db_product :: "product_row list"
  db_productVariant :: "variant_row list"
  db_modifierGroup :: "modifier_group_row list"
  db_modifier :: "modifier_row list"
  db_productModifierGroup :: "product_modifier_group_row list"
  db_discount :: "discount_row list"
  db_branchStock :: "branch_stock_row list"
  db_stockMovement :: "stock_movement_row list"
  db_shift :: "shift_row list"
  db_shiftCashMovement :: "cash_movement_row list"
  db_sale :: "sale_row list"
  db_saleItem :: "sale_item_row list"
  db_salePayment :: "sale_payment_row list"
  db_stockCount :: "stock_count_row list"
  db_stockCountItem :: "stock_count_item_row list"
  db_stockBatch :: "stock_batch_row list"
  db_notification :: "notification_row list"
  db_auditLog :: "audit_row list"
  db_now :: time
  db_nextId :: nat

text \<open>\<open>uuid()\<close> draws the next identifier of the supply.\<close>

definition nth_uuid :: "nat \<Rightarrow> uid" where
  "nth_uuid n = ''uuid-'' @ show_nat n"

definition fresh_id :: "(db, exn, uid) op" where
  "fresh_id = (\<lambda>s. (Inr (nth_uuid (db_nextId s)), s\<lparr> db_nextId := Suc (db_nextId s) \<rparr>))"

definition now :: "(db, exn, time) op" where
  "now = reads db_now"

lemma fresh_id_apply [simp, op_simps]:
  "fresh_id s = (Inr (nth_uuid (db_nextId s)), s\<lparr> db_nextId := Suc (db_nextId s) \<rparr>)"
  by (simp add: fresh_id_def)

lemma now_apply [simp, op_simps]: "now s = (Inr (db_now s), s)"
  by (simp add: now_def)

lemma nth_uuid_inj: "nth_uuid m = nth_uuid n \<longleftrightarrow> m = n"
  by (auto simp: nth_uuid_def dest: show_nat_inj)

definition empty_db :: db where
  "empty_db = \<lparr> db_owner = [], db_user = [], db_authToken = [], db_refreshToken = [], db_business = [], db_branch = [], db_terminal = [], db_category = [], db_product = [], db_productVariant = [], db_modifierGroup = [], db_modifier = [], db_productModifierGroup = [], db_discount = [], db_branchStock = [], db_stockMovement = [], db_shift = [], db_shiftCashMovement = [], db_sale = [], db_saleItem = [], db_salePayment = [], db_stockCount = [], db_stockCountItem = [], db_stockBatch = [], db_notification = [], db_auditLog = [], db_now = 0, db_nextId = 0 \<rparr>"

section \<open>Dynamic view of a row\<close>

text \<open>
  The choke point looks columns up by name on untyped rows; these functions give the
  columns it asks for (\<open>None\<close> when the model has no such column or it is null).
\<close>

definition live :: "'a row_scheme \<Rightarrow> bool" where
  "live r \<longleftrightarrow> r_deletedAt r = None"

fun any_id :: "any_row \<Rightarrow> uid" where
  "any_id (Any_owner r) = r_id r"
  | "any_id (Any_user r) = r_id r"
  | "any_id (Any_authToken r) = r_id r"
  | "any_id (Any_refreshToken r) = r_id r"
  | "any_id (Any_business r) = r_id r"
  | "any_id (Any_branch r) = r_id r"
  | "any_id (Any_terminal r) = r_id r"
  | "any_id (Any_category r) = r_id r"
  | "any_id (Any_product r) = r_id r"
  | "any_id (Any_productVariant r) = r_id r"
  | "any_id (Any_modifierGroup r) = r_id r"
  | "any_id (Any_modifier r) = r_id r"
  | "any_id (Any_productModifierGroup r) = r_id r"
  | "any_id (Any_discount r) = r_id r"
  | "any_id (Any_branchStock r) = r_id r"
  | "any_id (Any_stockMovement r) = r_id r"
  | "any_id (Any_shift r) = r_id r"
  | "any_id (Any_shiftCashMovement r) = r_id r"
  | "any_id (Any_sale r) = r_id r"
  | "any_id (Any_saleItem r) = r_id r"
  | "any_id (Any_salePayment r) = r_id r"
  | "any_id (Any_stockCount r) = r_id r"
  | "any_id (Any_stockCountItem r) = r_id r"
  | "any_id (Any_stockBatch r) = r_id r"
  | "any_id (Any_notification r) = r_id r"

fun any_deletedAt :: "any_row \<Rightarrow> time option" where
  "any_deletedAt (Any_owner r) = r_deletedAt r"
  | "any_deletedAt (Any_user r) = r_deletedAt r"
  | "any_deletedAt (Any_authToken r) = r_deletedAt r"
  | "any_deletedAt (Any_refreshToken r) = r_deletedAt r"
  | "any_deletedAt (Any_business r) = r_deletedAt r"
  | "any_deletedAt (Any_branch r) = r_deletedAt r"
  | "any_deletedAt (Any_terminal r) = r_deletedAt r"
  | "any_deletedAt (Any_category r) = r_deletedAt r"
  | "any_deletedAt (Any_product r) = r_deletedAt r"
  | "any_deletedAt (Any_productVariant r) = r_deletedAt r"
  | "any_deletedAt (Any_modifierGroup r) = r_deletedAt r"
  | "any_deletedAt (Any_modifier r) = r_deletedAt r"
  | "any_deletedAt (Any_productModifierGroup r) = r_deletedAt r"
  | "any_deletedAt (Any_discount r) = r_deletedAt r"
  | "any_deletedAt (Any_branchStock r) = r_deletedAt r"
  | "any_deletedAt (Any_stockMovement r) = r_deletedAt r"
  | "any_deletedAt (Any_shift r) = r_deletedAt r"
  | "any_deletedAt (Any_shiftCashMovement r) = r_deletedAt r"
  | "any_deletedAt (Any_sale r) = r_deletedAt r"
  | "any_deletedAt (Any_saleItem r) = r_deletedAt r"
  | "any_deletedAt (Any_salePayment r) = r_deletedAt r"
  | "any_deletedAt (Any_stockCount r) = r_deletedAt r"
  | "any_deletedAt (Any_stockCountItem r) = r_deletedAt r"
  | "any_deletedAt (Any_stockBatch r) = r_deletedAt r"
  | "any_deletedAt (Any_notification r) = r_deletedAt r"

fun any_model :: "any_row \<Rightarrow> string" where
  "any_model (Any_owner r) = ''owner''"
  | "any_model (Any_user r) = ''user''"
  | "any_model (Any_authToken r) = ''authToken''"
  | "any_model (Any_refreshToken r) = ''refreshToken''"
  | "any_model (Any_business r) = ''business''"
  | "any_model (Any_branch r) = ''branch''"
  | "any_model (Any_terminal r) = ''terminal''"
  | "any_model (Any_category r) = ''category''"
  | "any_model (Any_product r) = ''product''"
  | "any_model (Any_productVariant r) = ''productVariant''"
  | "any_model (Any_modifierGroup r) = ''modifierGroup''"
  | "any_model (Any_modifier r) = ''modifier''"
  | "any_model (Any_productModifierGroup r) = ''productModifierGroup''"
  | "any_model (Any_discount r) = ''discount''"
  | "any_model (Any_branchStock r) = ''branchStock''"
  | "any_model (Any_stockMovement r) = ''stockMovement''"
  | "any_model (Any_shift r) = ''shift''"
  | "any_model (Any_shiftCashMovement r) = ''shiftCashMovement''"
  | "any_model (Any_sale r) = ''sale''"
  | "any_model (Any_saleItem r) = ''saleItem''"
  | "any_model (Any_salePayment r) = ''salePayment''"
  | "any_model (Any_stockCount r) = ''stockCount''"
  | "any_model (Any_stockCountItem r) = ''stockCountItem''"
  | "any_model (Any_stockBatch r) = ''stockBatch''"
  | "any_model (Any_notification r) = ''notification''"

fun any_ownerId :: "any_row \<Rightarrow> uid option" where
  "any_ownerId (Any_user r) = us_ownerId r"
  | "any_ownerId (Any_business r) = Some (bz_ownerId r)"
| "any_ownerId r = None"

fun any_businessId :: "any_row \<Rightarrow> uid option" where
  "any_businessId (Any_branch r) = Some (br_businessId r)"
  | "any_businessId (Any_category r) = Some (cg_businessId r)"
  | "any_businessId (Any_product r) = Some (pr_businessId r)"
  | "any_businessId (Any_modifierGroup r) = Some (mg_businessId r)"
  | "any_businessId (Any_discount r) = Some (dc_businessId r)"
  | "any_businessId (Any_notification r) = nt_businessId r"
| "any_businessId r = None"

fun any_branchId :: "any_row \<Rightarrow> uid option" where
  "any_branchId (Any_terminal r) = Some (tm_branchId r)"
  | "any_branchId (Any_branchStock r) = Some (bs_branchId r)"
  | "any_branchId (Any_stockMovement r) = Some (mv_branchId r)"
  | "any_branchId (Any_shift r) = Some (sh_branchId r)"
  | "any_branchId (Any_sale r) = Some (sl_branchId r)"
  | "any_branchId (Any_stockCount r) = Some (sc_branchId r)"
  | "any_branchId (Any_notification r) = nt_branchId r"
| "any_branchId r = None"

fun any_parentId :: "any_row \<Rightarrow> uid option" where
  "any_parentId (Any_productVariant r) = Some (pv_productId r)"
  | "any_parentId (Any_modifier r) = Some (md_groupId r)"
  | "any_parentId (Any_productModifierGroup r) = Some (pg_productId r)"
  | "any_parentId (Any_shiftCashMovement r) = Some (cm_shiftId r)"
  | "any_parentId (Any_saleItem r) = Some (si_saleId r)"
  | "any_parentId (Any_salePayment r) = Some (sp_saleId r)"
  | "any_parentId (Any_stockCountItem r) = Some (ci_stockCountId r)"
| "any_parentId r = None"

text \<open>\<open>findUnique\<close> by id on the delegate of a model named by a string.\<close>

definition any_rows :: "db \<Rightarrow> string \<Rightarrow> any_row list" where
  "any_rows d m =
    (if m = ''owner'' then map Any_owner (db_owner d)
     else if m = ''user'' then map Any_user (db_user d)
     else if m = ''authToken'' then map Any_authToken (db_authToken d)
     else if m = ''refreshToken'' then map Any_refreshToken (db_refreshToken d)
     else if m = ''business'' then map Any_business (db_business d)
     else if m = ''branch'' then map Any_branch (db_branch d)
     else if m = ''terminal'' then map Any_terminal (db_terminal d)
     else if m = ''category'' then map Any_category (db_category d)
     else if m = ''product'' then map Any_product (db_product d)
     else if m = ''productVariant'' then map Any_productVariant (db_productVariant d)
     else if m = ''modifierGroup'' then map Any_modifierGroup (db_modifierGroup d)
     else if m = ''modifier'' then map Any_modifier (db_modifier d)
     else if m = ''productModifierGroup'' then map Any_productModifierGroup (db_productModifierGroup d)
     else if m = ''discount'' then map Any_discount (db_discount d)
     else if m = ''branchStock'' then map Any_branchStock (db_branchStock d)
     else if m = ''stockMovement'' then map Any_stockMovement (db_stockMovement d)
     else if m = ''shift'' then map Any_shift (db_shift d)
     else if m = ''shiftCashMovement'' then map Any_shiftCashMovement (db_shiftCashMovement d)
     else if m = ''sale'' then map Any_sale (db_sale d)
     else if m = ''saleItem'' then map Any_saleItem (db_saleItem d)
     else if m = ''salePayment'' then map Any_salePayment (db_salePayment d)
     else if m = ''stockCount'' then map Any_stockCount (db_stockCount d)
     else if m = ''stockCountItem'' then map Any_stockCountItem (db_stockCountItem d)
     else if m = ''stockBatch'' then map Any_stockBatch (db_stockBatch d)
     else if m = ''notification'' then map Any_notification (db_notification d)
     else [])"

definition find_any :: "db \<Rightarrow> string \<Rightarrow> uid \<Rightarrow> any_row option" where
  "find_any d m i = find (\<lambda>r. any_id r = i) (any_rows d m)"

end
