(* ===== verification/ScopedPrisma.thy ===== *)
theory ScopedPrisma
  imports Database
begin

text \<open>
  The tenancy and audit choke point: \<open>prisma/scoped-prisma.ts\<close>, its map of models
  \<open>prisma/model-scope-map.ts\<close> and the request context
  \<open>common/context/request-context.ts\<close>. Every scoped operation takes the context and a
  table descriptor; the dynamic walk over models becomes the descriptor's columns. The
  per-request caches return what they would read, so they are not modelled.

  A service that opens its own transaction registers it on the context; mutations then run
  on it, but every read of the scoped client and of the choke point itself goes to the base
  client, which sees the committed database. \<open>cx_tx\<close> holds that database while a
  transaction is registered.
\<close>

section \<open>The request context\<close>

datatype scope = Platform | Tenant

record ctx =
  cx_requestId :: string
  cx_scope :: "scope option"
  cx_actor :: "(actor_type \<times> uid) option"
  cx_ownerId :: "uid option"
  cx_businessId :: "uid option"
  cx_branchId :: "uid option"
  cx_terminalCode :: "string option"
  cx_sessionId :: "string option"
  cx_ip :: string
  cx_userAgent :: string
  cx_deviceTimestamp :: "string option"
  cx_tx :: "db option"

definition is_terminal :: "ctx \<Rightarrow> bool" where
  "is_terminal ctx \<longleftrightarrow> map_option fst (cx_actor ctx) = Some Act_terminal"

definition base_db :: "ctx \<Rightarrow> db \<Rightarrow> db" where
  "base_db ctx s = (case cx_tx ctx of None \<Rightarrow> s | Some d \<Rightarrow> d)"

text \<open>\<open>raw.$transaction\<close> around \<open>runWithTxClient\<close>.\<close>

definition runWithTxClient :: "ctx \<Rightarrow> (ctx \<Rightarrow> (db, exn, 'a) op) \<Rightarrow> (db, exn, 'a) op" where
  "runWithTxClient ctx body = (\<lambda>s. transaction (body (ctx\<lparr> cx_tx := Some s \<rparr>)) s)"

section \<open>The scope map\<close>

datatype scope_col = OwnerId | BusinessId | BranchId

definition PLATFORM_MODELS :: "string list" where
  "PLATFORM_MODELS = [''owner'', ''user'', ''authToken'', ''refreshToken'']"

definition TENANT_DIRECT :: "string \<Rightarrow> scope_col option" where
  "TENANT_DIRECT = map_of
    [(''business'', OwnerId), (''branch'', BusinessId), (''category'', BusinessId),
     (''product'', BusinessId), (''modifierGroup'', BusinessId), (''discount'', BusinessId),
     (''notification'', BusinessId), (''auditLog'', BusinessId), (''terminal'', BranchId),
     (''branchStock'', BranchId), (''stockMovement'', BranchId), (''shift'', BranchId),
     (''sale'', BranchId), (''stockCount'', BranchId), (''stockBatch'', BranchId)]"

definition CHILD_PARENT :: "string \<Rightarrow> string option" where
  "CHILD_PARENT = map_of
    [(''productVariant'', ''product''), (''modifier'', ''modifierGroup''),
     (''productModifierGroup'', ''product''), (''saleItem'', ''sale''), (''salePayment'', ''sale''),
     (''shiftCashMovement'', ''shift''), (''stockCountItem'', ''stockCount'')]"

section \<open>Table descriptors and the raw client\<close>

text \<open>
  \<open>tb_refs\<close> lists the foreign keys of a row that are not null and are not the model's own
  scope column (column, target model, id); \<open>tb_ok\<close> gives the error of a row that violates
  a unique index or a check constraint against the other rows.
\<close>

record 'a table =
  tb_model :: string
  tb_get :: "db \<Rightarrow> 'a row_scheme list"
  tb_put :: "'a row_scheme list \<Rightarrow> db \<Rightarrow> db"
  tb_any :: "'a row_scheme \<Rightarrow> any_row"
  tb_scope :: "uid \<Rightarrow> 'a row_scheme \<Rightarrow> 'a row_scheme"
  tb_refs :: "'a row_scheme \<Rightarrow> (string \<times> string \<times> uid) list"
  tb_ok :: "'a row_scheme list \<Rightarrow> 'a row_scheme \<Rightarrow> exn option"

definition raw_insert :: "'a table \<Rightarrow> 'a row_scheme \<Rightarrow> (db, exn, 'a row_scheme) op" where
  "raw_insert t r = (\<lambda>s.
    let rows = tb_get t s;
        r' = r\<lparr> r_createdAt := db_now s, r_updatedAt := db_now s, r_deletedAt := None \<rparr>
    in if \<exists>q \<in> set rows. r_id q = r_id r then (Inl Unique_violation, s)
       else case tb_ok t rows r' of
         Some e \<Rightarrow> (Inl e, s)
       | None \<Rightarrow> (Inr r', tb_put t (rows @ [r']) s))"

definition raw_update :: "'a table \<Rightarrow> uid \<Rightarrow> ('a row_scheme \<Rightarrow> 'a row_scheme) \<Rightarrow> (db, exn, 'a row_scheme) op" where
  "raw_update t i f = (\<lambda>s.
    let rows = tb_get t s
    in case find (\<lambda>r. r_id r = i) rows of
         None \<Rightarrow> (Inl (Crash ''Record to update not found.''), s)
       | Some r \<Rightarrow>
          let r' = (f r)\<lparr> r_updatedAt := db_now s \<rparr>
          in case tb_ok t (filter (\<lambda>q. r_id q \<noteq> i) rows) r' of
               Some e \<Rightarrow> (Inl e, s)
             | None \<Rightarrow> (Inr r', tb_put t (upd_rows (\<lambda>q. r_id q = i) (\<lambda>_. r') rows) s))"

section \<open>The scope of a request\<close>

definition allowedBusinessIds :: "db \<Rightarrow> ctx \<Rightarrow> uid list" where
  "allowedBusinessIds base ctx = map r_id
    (filter (\<lambda>b. (case cx_ownerId ctx of None \<Rightarrow> True | Some ow \<Rightarrow> bz_ownerId b = ow) \<and> live b)
      (db_business base))"

definition allowedBranchIds :: "db \<Rightarrow> ctx \<Rightarrow> uid list" where
  "allowedBranchIds base ctx =
    (let businessIds = allowedBusinessIds base ctx
     in if businessIds = [] then []
        else map r_id (filter (\<lambda>b. br_businessId b \<in> set businessIds \<and> live b) (db_branch base)))"

definition branchToBusiness :: "db \<Rightarrow> uid \<Rightarrow> uid option" where
  "branchToBusiness base branchId =
    map_option br_businessId (find (\<lambda>b. r_id b = branchId) (db_branch base))"

text \<open>
  The business a referenced row belongs to: \<open>None\<close> for a platform model (not a tenant
  reference), \<open>Some None\<close> when the row does not exist.
\<close>

definition resolveDirect :: "db \<Rightarrow> string \<Rightarrow> uid \<Rightarrow> uid option" where
  "resolveDirect base model i =
    (if model = ''business'' then map_option any_id (find_any base model i)
     else case TENANT_DIRECT model of
         Some BusinessId \<Rightarrow> Option.bind (find_any base model i) any_businessId
       | Some BranchId \<Rightarrow>
           Option.bind (find_any base model i) (\<lambda>r. Option.bind (any_branchId r) (branchToBusiness base))
       | _ \<Rightarrow> None)"

definition resolveRefBusinessId :: "db \<Rightarrow> string \<Rightarrow> uid \<Rightarrow> uid option option" where
  "resolveRefBusinessId base model i =
    (if model \<in> set PLATFORM_MODELS then None
     else Some (case CHILD_PARENT model of
         None \<Rightarrow> resolveDirect base model i
       | Some parent \<Rightarrow>
           Option.bind (find_any base model i)
             (\<lambda>r. Option.bind (any_parentId r) (resolveDirect base parent))))"

definition tenantWhereFor :: "db \<Rightarrow> ctx \<Rightarrow> string \<Rightarrow> any_row \<Rightarrow> bool" where
  "tenantWhereFor base ctx model r =
    (case TENANT_DIRECT model of
       Some OwnerId \<Rightarrow> any_ownerId r = cx_ownerId ctx
     | Some BusinessId \<Rightarrow> (\<exists>b \<in> set (allowedBusinessIds base ctx). any_businessId r = Some b)
     | _ \<Rightarrow> if is_terminal ctx then any_branchId r = cx_branchId ctx
            else (\<exists>b \<in> set (allowedBranchIds base ctx). any_branchId r = Some b))"

text \<open>The rows of the audit log a tenant may read.\<close>

definition audit_visible :: "db \<Rightarrow> ctx \<Rightarrow> audit_row \<Rightarrow> bool" where
  "audit_visible base ctx a \<longleftrightarrow> al_actorType a \<noteq> Act_platform_admin
    \<and> ((\<exists>b \<in> set (allowedBusinessIds base ctx). al_businessId a = Some b)
       \<or> (al_businessId a = None \<and> al_ownerId a = cx_ownerId ctx))"

section \<open>The guard of every operation\<close>

datatype operation = Read | Create | CreateMany | Update | UpdateMany | Upsert | Delete | DeleteMany

definition choke_guard :: "ctx \<Rightarrow> string \<Rightarrow> operation \<Rightarrow> exn option" where
  "choke_guard ctx model operation =
    (case cx_scope ctx of
       None \<Rightarrow> Some (Crash ''query outside an authenticated request context'')
     | Some Platform \<Rightarrow>
         if operation \<noteq> Read \<and> \<not> (model = ''auditLog'' \<and> operation = Create) then Some PlatformWriteError
         else None
     | Some Tenant \<Rightarrow>
         if model \<in> set PLATFORM_MODELS
         then Some (TenantScopeError (''platform model is not accessible in tenant scope: '' @ model))
         else if CHILD_PARENT model \<noteq> None
         then Some (TenantScopeError (''child-only in tenant scope; query through its parent: '' @ model))
         else if TENANT_DIRECT model = None
         then Some (TenantScopeError (''no tenant scope mapping: '' @ model))
         else if model = ''auditLog'' \<and> operation \<in> {Update, Delete, UpdateMany, DeleteMany, Upsert}
         then Some (TenantScopeError ''audit_logs is append-only'')
         else None)"

definition choke :: "ctx \<Rightarrow> 'a table \<Rightarrow> operation \<Rightarrow> (db, exn, unit) op" where
  "choke ctx t operation =
    (case choke_guard ctx (tb_model t) operation of None \<Rightarrow> ret () | Some e \<Rightarrow> throw e)"

section \<open>Reads\<close>

definition in_scope :: "ctx \<Rightarrow> 'a table \<Rightarrow> db \<Rightarrow> 'a row_scheme \<Rightarrow> bool" where
  "in_scope ctx t base r \<longleftrightarrow> tenantWhereFor base ctx (tb_model t) (tb_any t r)"

text \<open>What a read with \<open>includeDeleted = inc\<close> can see: in platform scope every row.\<close>

definition visible :: "ctx \<Rightarrow> 'a table \<Rightarrow> bool \<Rightarrow> db \<Rightarrow> 'a row_scheme \<Rightarrow> bool" where
  "visible ctx t inc base r \<longleftrightarrow>
    cx_scope ctx = Some Platform \<or> (in_scope ctx t base r \<and> (inc \<or> live r))"

definition scoped_find_all :: "ctx \<Rightarrow> 'a table \<Rightarrow> bool \<Rightarrow> ('a row_scheme \<Rightarrow> bool) \<Rightarrow> (db, exn, 'a row_scheme list) op" where
  "scoped_find_all ctx t inc p =
    bind (choke ctx t Read) (\<lambda>_.
    reads (\<lambda>s. let base = base_db ctx s
               in filter (\<lambda>r. p r \<and> visible ctx t inc base r) (tb_get t base)))"

definition scoped_findMany :: "ctx \<Rightarrow> 'a table \<Rightarrow> ('a row_scheme \<Rightarrow> bool) \<Rightarrow> (db, exn, 'a row_scheme list) op" where
  "scoped_findMany ctx t p = scoped_find_all ctx t False p"

definition scoped_findFirst :: "ctx \<Rightarrow> 'a table \<Rightarrow> ('a row_scheme \<Rightarrow> bool) \<Rightarrow> (db, exn, 'a row_scheme option) op" where
  "scoped_findFirst ctx t p =
    bind (scoped_findMany ctx t p) (\<lambda>rs. ret (case rs of [] \<Rightarrow> None | r # _ \<Rightarrow> Some r))"

section \<open>Create policing\<close>

definition tenant_error :: "string \<Rightarrow> string \<Rightarrow> exn" where
  "tenant_error model what = TenantScopeError (''create on '' @ model @ what)"

definition assertInScope :: "db \<Rightarrow> ctx \<Rightarrow> string \<Rightarrow> string \<times> string \<times> uid \<Rightarrow> exn option" where
  "assertInScope base ctx model ref =
    (case ref of (label, target, i) \<Rightarrow>
      (case resolveRefBusinessId base target i of
         None \<Rightarrow> None
       | Some None \<Rightarrow> Some (tenant_error model ('' references '' @ label @ '' outside the owner's scope''))
       | Some (Some b) \<Rightarrow>
           if b \<in> set (allowedBusinessIds base ctx) then None
           else Some (tenant_error model ('' references '' @ label @ '' outside the owner's scope''))))"

fun policeRefs :: "db \<Rightarrow> ctx \<Rightarrow> string \<Rightarrow> (string \<times> string \<times> uid) list \<Rightarrow> exn option" where
  "policeRefs base ctx model [] = None"
| "policeRefs base ctx model (ref # refs) =
    (case assertInScope base ctx model ref of Some e \<Rightarrow> Some e | None \<Rightarrow> policeRefs base ctx model refs)"

definition policeCreateRefs :: "db \<Rightarrow> ctx \<Rightarrow> 'a table \<Rightarrow> 'a row_scheme \<Rightarrow> exn + 'a row_scheme" where
  "policeCreateRefs base ctx t r =
    (case policeRefs base ctx (tb_model t) (tb_refs t r) of Some e \<Rightarrow> Inl e | None \<Rightarrow> Inr r)"

text \<open>
  \<open>sc\<close> is the scope column as the caller supplied it (\<open>None\<close> when absent); the checked or
  forced value replaces the column of the row.
\<close>

definition policeCreateData ::
  "db \<Rightarrow> ctx \<Rightarrow> 'a table \<Rightarrow> uid option \<Rightarrow> 'a row_scheme \<Rightarrow> exn + 'a row_scheme" where
  "policeCreateData base ctx t sc r =
    (case TENANT_DIRECT (tb_model t) of
       None \<Rightarrow> Inr r
     | Some OwnerId \<Rightarrow>
         (case cx_ownerId ctx of None \<Rightarrow> Inl (Crash ''ownerId must not be null'')
          | Some ow \<Rightarrow> Inr (tb_scope t ow r))
     | Some BusinessId \<Rightarrow>
         (case sc of
            Some b \<Rightarrow>
              if b \<notin> set (allowedBusinessIds base ctx)
              then Inl (tenant_error (tb_model t) '' targets businessId outside the owner's scope'')
              else policeCreateRefs base ctx t (tb_scope t b r)
          | None \<Rightarrow>
              (case cx_businessId ctx of
                 Some b \<Rightarrow> policeCreateRefs base ctx t (tb_scope t b r)
               | None \<Rightarrow> Inl (tenant_error (tb_model t) '' requires a businessId within the owner's scope'')))
     | Some BranchId \<Rightarrow>
         if is_terminal ctx
         then (case cx_branchId ctx of None \<Rightarrow> Inl (Crash ''branchId must not be null'')
               | Some b \<Rightarrow> policeCreateRefs base ctx t (tb_scope t b r))
         else (case sc of
            Some b \<Rightarrow>
              if b \<notin> set (allowedBranchIds base ctx)
              then Inl (tenant_error (tb_model t) '' targets branchId outside the owner's scope'')
              else policeCreateRefs base ctx t (tb_scope t b r)
          | None \<Rightarrow> Inl (tenant_error (tb_model t) '' requires a branchId within the owner's scope'')))"

section \<open>The audit row of a mutation\<close>

definition auditMetadata :: "ctx \<Rightarrow> request_meta" where
  "auditMetadata ctx = \<lparr> mt_ip = cx_ip ctx, mt_userAgent = cx_userAgent ctx,
     mt_terminalCode = cx_terminalCode ctx, mt_requestId = cx_requestId ctx,
     mt_sessionId = cx_sessionId ctx, mt_deviceTimestamp = cx_deviceTimestamp ctx, mt_extra = [] \<rparr>"

definition actorTypeFor :: "ctx \<Rightarrow> actor_type" where
  "actorTypeFor ctx =
    (case map_option fst (cx_actor ctx) of
       Some Act_terminal \<Rightarrow> Act_terminal
     | Some Act_platform_admin \<Rightarrow> Act_platform_admin
     | _ \<Rightarrow> Act_owner)"

definition stampScope :: "db \<Rightarrow> ctx \<Rightarrow> string \<Rightarrow> any_row \<Rightarrow> uid option \<times> uid option" where
  "stampScope base ctx model entity =
    (let businessId = (case any_businessId entity of Some b \<Rightarrow> Some b | None \<Rightarrow> cx_businessId ctx);
         branchId = (case any_branchId entity of Some b \<Rightarrow> Some b | None \<Rightarrow> cx_branchId ctx);
         businessId = (if model = ''business'' then Some (any_id entity) else businessId);
         businessId = (if businessId = None then Option.bind branchId (branchToBusiness base) else businessId)
     in (businessId, branchId))"

definition insert_audit :: "audit_row \<Rightarrow> (db, exn, unit) op" where
  "insert_audit a = modify (\<lambda>s. s\<lparr> db_auditLog := db_auditLog s @
     [a\<lparr> r_id := nth_uuid (db_nextId s), r_createdAt := db_now s, r_updatedAt := db_now s, r_deletedAt := None \<rparr>],
     db_nextId := Suc (db_nextId s) \<rparr>)"

definition audit_row_of ::
  "db \<Rightarrow> ctx \<Rightarrow> string \<Rightarrow> string \<Rightarrow> uid \<Rightarrow> any_row option \<Rightarrow> any_row option \<Rightarrow> any_row \<Rightarrow> audit_row" where
  "audit_row_of base ctx model operation entityId prev after scopeEntity =
    (case stampScope base ctx model scopeEntity of (businessId, branchId) \<Rightarrow>
      \<lparr> r_id = [], r_createdAt = 0, r_updatedAt = 0, r_deletedAt = None,
        al_actorType = actorTypeFor ctx, al_actorId = map_option snd (cx_actor ctx),
        al_ownerId = cx_ownerId ctx, al_businessId = businessId, al_branchId = branchId,
        al_action = model @ ''.'' @ operation, al_entityType = model, al_entityId = Some entityId,
        al_before = prev, al_after = after, al_metadata = auditMetadata ctx \<rparr>)"

definition writeAudit ::
  "db \<Rightarrow> ctx \<Rightarrow> string \<Rightarrow> string \<Rightarrow> uid \<Rightarrow> any_row option \<Rightarrow> any_row option \<Rightarrow> any_row \<Rightarrow> (db, exn, unit) op" where
  "writeAudit base ctx model operation entityId prev after scopeEntity =
    insert_audit (audit_row_of base ctx model operation entityId prev after scopeEntity)"

section \<open>Mutations\<close>

text \<open>On the registered transaction, else in one of their own.\<close>

definition atomically :: "ctx \<Rightarrow> (db, exn, 'b) op \<Rightarrow> (db, exn, 'b) op" where
  "atomically ctx work = (if cx_tx ctx = None then transaction work else work)"

text \<open>
  \<open>nested\<close> is what the caller's data nests under the row (\<open>items: { create: ... }\<close>): the
  database runs it with the row's own write, before the audit row is written.
\<close>

definition create_body ::
  "ctx \<Rightarrow> 'a table \<Rightarrow> string \<Rightarrow> ('a row_scheme \<Rightarrow> (db, exn, unit) op) \<Rightarrow> db \<Rightarrow> 'a row_scheme \<Rightarrow> (db, exn, 'a row_scheme) op" where
  "create_body ctx t operation nested base r =
    bind (raw_insert t r) (\<lambda>created.
    bind (nested created) (\<lambda>_.
    bind (writeAudit base ctx (tb_model t) operation (r_id created) None (Some (tb_any t created)) (tb_any t created)) (\<lambda>_.
    ret created)))"

definition scoped_create_nested ::
  "ctx \<Rightarrow> 'a table \<Rightarrow> uid option \<Rightarrow> ('a row_scheme \<Rightarrow> (db, exn, unit) op) \<Rightarrow> 'a row_scheme \<Rightarrow> (db, exn, 'a row_scheme) op" where
  "scoped_create_nested ctx t sc nested data =
    bind (choke ctx t Create) (\<lambda>_.
    bind (reads (base_db ctx)) (\<lambda>base.
    bind (lift_res (policeCreateData base ctx t sc data)) (\<lambda>r.
    atomically ctx (create_body ctx t ''create'' nested base r))))"

definition scoped_create :: "ctx \<Rightarrow> 'a table \<Rightarrow> uid option \<Rightarrow> 'a row_scheme \<Rightarrow> (db, exn, 'a row_scheme) op" where
  "scoped_create ctx t sc data = scoped_create_nested ctx t sc (\<lambda>_. ret ()) data"

definition scoped_createMany ::
  "ctx \<Rightarrow> 'a table \<Rightarrow> (uid option \<times> 'a row_scheme) list \<Rightarrow> (db, exn, nat) op" where
  "scoped_createMany ctx t rows =
    bind (choke ctx t CreateMany) (\<lambda>_.
    bind (reads (base_db ctx)) (\<lambda>base.
    bind (map_op (\<lambda>(sc, r). lift_res (policeCreateData base ctx t sc r)) rows) (\<lambda>policed.
    atomically ctx
      (bind (map_op (raw_insert t) policed) (\<lambda>created.
       bind (for_each created (\<lambda>r. writeAudit base ctx (tb_model t) ''createMany'' (r_id r) None
               (Some (tb_any t r)) (tb_any t r))) (\<lambda>_.
       ret (List.length created)))))))"

definition first_row :: "('a \<Rightarrow> bool) \<Rightarrow> 'a list \<Rightarrow> 'a option" where
  "first_row p rs = find p rs"

definition update_body ::
  "ctx \<Rightarrow> 'a table \<Rightarrow> db \<Rightarrow> 'a row_scheme \<Rightarrow> ('a row_scheme \<Rightarrow> 'a row_scheme)
    \<Rightarrow> ('a row_scheme \<Rightarrow> (db, exn, unit) op) \<Rightarrow> (db, exn, 'a row_scheme) op" where
  "update_body ctx t base prev f nested =
    bind (raw_update t (r_id prev) f) (\<lambda>after.
    bind (nested after) (\<lambda>_.
    bind (writeAudit base ctx (tb_model t) ''update'' (r_id after) (Some (tb_any t prev))
            (Some (tb_any t after)) (tb_any t after)) (\<lambda>_.
    ret after)))"

text \<open>The target of an update is looked up without the soft-delete filter.\<close>

definition scoped_update_nested ::
  "ctx \<Rightarrow> 'a table \<Rightarrow> ('a row_scheme \<Rightarrow> bool) \<Rightarrow> ('a row_scheme \<Rightarrow> 'a row_scheme)
    \<Rightarrow> ('a row_scheme \<Rightarrow> (db, exn, unit) op) \<Rightarrow> (db, exn, 'a row_scheme) op" where
  "scoped_update_nested ctx t p f nested =
    bind (choke ctx t Update) (\<lambda>_.
    bind (reads (base_db ctx)) (\<lambda>base.
    case first_row (\<lambda>r. p r \<and> in_scope ctx t base r) (tb_get t base) of
      None \<Rightarrow> throw (TenantScopeError (tb_model t @ ''.update target not found within scope''))
    | Some prev \<Rightarrow> atomically ctx (update_body ctx t base prev f nested)))"

definition scoped_update ::
  "ctx \<Rightarrow> 'a table \<Rightarrow> ('a row_scheme \<Rightarrow> bool) \<Rightarrow> ('a row_scheme \<Rightarrow> 'a row_scheme) \<Rightarrow> (db, exn, 'a row_scheme) op" where
  "scoped_update ctx t p f = scoped_update_nested ctx t p f (\<lambda>_. ret ())"

definition scoped_updateMany ::
  "ctx \<Rightarrow> 'a table \<Rightarrow> ('a row_scheme \<Rightarrow> bool) \<Rightarrow> ('a row_scheme \<Rightarrow> 'a row_scheme) \<Rightarrow> (db, exn, nat) op" where
  "scoped_updateMany ctx t p f =
    bind (choke ctx t UpdateMany) (\<lambda>_.
    bind (reads (base_db ctx)) (\<lambda>base.
    let targets = filter (\<lambda>r. p r \<and> in_scope ctx t base r) (tb_get t base)
    in atomically ctx
        (bind (for_each targets (\<lambda>prev. bind (update_body ctx t base prev f (\<lambda>_. ret ())) (\<lambda>_. ret ()))) (\<lambda>_.
         ret (List.length targets)))))"

text \<open>Deleting sets \<open>deletedAt\<close>; only live rows can be deleted.\<close>

definition delete_body :: "ctx \<Rightarrow> 'a table \<Rightarrow> db \<Rightarrow> 'a row_scheme \<Rightarrow> (db, exn, 'a row_scheme) op" where
  "delete_body ctx t base prev =
    bind now (\<lambda>n.
    bind (raw_update t (r_id prev) (\<lambda>r. r\<lparr> r_deletedAt := Some n \<rparr>)) (\<lambda>after.
    bind (writeAudit base ctx (tb_model t) ''delete'' (r_id prev) (Some (tb_any t prev)) None
            (tb_any t prev)) (\<lambda>_.
    ret after)))"

definition scoped_delete :: "ctx \<Rightarrow> 'a table \<Rightarrow> ('a row_scheme \<Rightarrow> bool) \<Rightarrow> (db, exn, 'a row_scheme) op" where
  "scoped_delete ctx t p =
    bind (choke ctx t Delete) (\<lambda>_.
    bind (reads (base_db ctx)) (\<lambda>base.
    case first_row (\<lambda>r. p r \<and> in_scope ctx t base r \<and> live r) (tb_get t base) of
      None \<Rightarrow> throw (TenantScopeError (tb_model t @ ''.delete target not found within scope''))
    | Some prev \<Rightarrow> atomically ctx (delete_body ctx t base prev)))"

definition scoped_deleteMany :: "ctx \<Rightarrow> 'a table \<Rightarrow> ('a row_scheme \<Rightarrow> bool) \<Rightarrow> (db, exn, nat) op" where
  "scoped_deleteMany ctx t p =
    bind (choke ctx t DeleteMany) (\<lambda>_.
    bind (reads (base_db ctx)) (\<lambda>base.
    let targets = filter (\<lambda>r. p r \<and> in_scope ctx t base r \<and> live r) (tb_get t base)
    in atomically ctx
        (bind (for_each targets (\<lambda>prev. bind (delete_body ctx t base prev) (\<lambda>_. ret ()))) (\<lambda>_.
         ret (List.length targets)))))"

text \<open>Upsert: the update branch for a live target, else the create branch.\<close>

definition scoped_upsert ::
  "ctx \<Rightarrow> 'a table \<Rightarrow> ('a row_scheme \<Rightarrow> bool) \<Rightarrow> ('a row_scheme \<Rightarrow> 'a row_scheme)
    \<Rightarrow> uid option \<Rightarrow> 'a row_scheme \<Rightarrow> (db, exn, 'a row_scheme) op" where
  "scoped_upsert ctx t p f sc data =
    bind (choke ctx t Upsert) (\<lambda>_.
    bind (reads (base_db ctx)) (\<lambda>base.
    case first_row (\<lambda>r. p r \<and> in_scope ctx t base r \<and> live r) (tb_get t base) of
      Some prev \<Rightarrow> atomically ctx (update_body ctx t base prev f (\<lambda>_. ret ()))
    | None \<Rightarrow>
        bind (lift_res (policeCreateData base ctx t sc data)) (\<lambda>r.
        atomically ctx (create_body ctx t ''create'' (\<lambda>_. ret ()) base r))))"

text \<open>The audit log is read through its own filter, without soft-delete filtering.\<close>

definition scoped_audit_findMany :: "ctx \<Rightarrow> (audit_row \<Rightarrow> bool) \<Rightarrow> (db, exn, audit_row list) op" where
  "scoped_audit_findMany ctx p =
    (case choke_guard ctx ''auditLog'' Read of
       Some e \<Rightarrow> throw e
     | None \<Rightarrow> reads (\<lambda>s. let base = base_db ctx s
         in filter (\<lambda>a. p a \<and> (cx_scope ctx = Some Platform \<or> audit_visible base ctx a)) (db_auditLog base)))"

end
