(* ===== verification/Tables.thy ===== *)
theory Tables
  imports ScopedPrisma
begin

text \<open>
  The table descriptors of the models: scope column, foreign keys (the ones that back a
  relation, in the order of \<open>schema.prisma\<close>), and the unique indexes and checks of the
  schema and its constraint migration; then the laws of a table, as a locale, and what the
  scoped operations do to any table that obeys them.
\<close>

section \<open>Column checks\<close>

definition int4 :: "int \<Rightarrow> bool" where
  "int4 x \<longleftrightarrow> - (2 ^ 31) \<le> x \<and> x < 2 ^ 31"

definition numeric10_3 :: "milli \<Rightarrow> bool" where
  "numeric10_3 x \<longleftrightarrow> \<bar>x\<bar> < 10 ^ 10"

definition opt_ok :: "('a \<Rightarrow> bool) \<Rightarrow> 'a option \<Rightarrow> bool" where
  "opt_ok p x \<longleftrightarrow> (case x of None \<Rightarrow> True | Some y \<Rightarrow> p y)"

definition numeric5_4 :: "int \<Rightarrow> bool" where
  "numeric5_4 x \<longleftrightarrow> \<bar>x\<bar> < 10 ^ 5"

text \<open>A unique index on a key; rows whose key is \<open>None\<close> are not in the index.\<close>

definition unique_ok :: "('r \<Rightarrow> 'k option) \<Rightarrow> 'r list \<Rightarrow> 'r \<Rightarrow> bool" where
  "unique_ok key rows r \<longleftrightarrow> (case key r of None \<Rightarrow> True | Some k \<Rightarrow> \<forall>q \<in> set rows. key q \<noteq> Some k)"

definition column_check :: "bool \<Rightarrow> bool \<Rightarrow> exn option" where
  "column_check ranges uniques =
    (if \<not> ranges then Some (Crash ''value violates a column check'')
     else if \<not> uniques then Some Unique_violation else None)"

section \<open>Descriptors\<close>

definition owner_t where
  "owner_t = \<lparr> tb_model = ''owner'', tb_get = db_owner, tb_put = (\<lambda>xs s. s\<lparr> db_owner := xs \<rparr>), tb_any = Any_owner,
     tb_scope = (\<lambda>_ r. r),
     tb_refs = (\<lambda>_. []),
     tb_ok = (\<lambda>rows r. column_check (int4 (ow_maxBusinesses r)) (unique_ok (\<lambda>q. Some (ow_email q)) rows r)) \<rparr>"

definition user_t where
  "user_t = \<lparr> tb_model = ''user'', tb_get = db_user, tb_put = (\<lambda>xs s. s\<lparr> db_user := xs \<rparr>), tb_any = Any_user,
     tb_scope = (\<lambda>_ r. r),
     tb_refs = (\<lambda>_. []),
     tb_ok = (\<lambda>rows r. column_check True (unique_ok (\<lambda>q. Some (us_email q)) rows r)) \<rparr>"

definition authToken_t where
  "authToken_t = \<lparr> tb_model = ''authToken'', tb_get = db_authToken, tb_put = (\<lambda>xs s. s\<lparr> db_authToken := xs \<rparr>), tb_any = Any_authToken,
     tb_scope = (\<lambda>_ r. r),
     tb_refs = (\<lambda>_. []),
     tb_ok = (\<lambda>rows r. column_check True (unique_ok (\<lambda>q. Some (at_tokenHash q)) rows r)) \<rparr>"

definition refreshToken_t where
  "refreshToken_t = \<lparr> tb_model = ''refreshToken'', tb_get = db_refreshToken, tb_put = (\<lambda>xs s. s\<lparr> db_refreshToken := xs \<rparr>), tb_any = Any_refreshToken,
     tb_scope = (\<lambda>_ r. r),
     tb_refs = (\<lambda>_. []),
     tb_ok = (\<lambda>rows r. column_check True (unique_ok (\<lambda>q. Some (rt_tokenHash q)) rows r)) \<rparr>"

definition business_t where
  "business_t = \<lparr> tb_model = ''business'', tb_get = db_business, tb_put = (\<lambda>xs s. s\<lparr> db_business := xs \<rparr>), tb_any = Any_business,
     tb_scope = (\<lambda>b r. r\<lparr> bz_ownerId := b \<rparr>),
     tb_refs = (\<lambda>_. []),
     tb_ok = (\<lambda>_ r. column_check (int4 (bz_expiryWarningDays r) \<and> numeric5_4 (bz_taxRate r) \<and> numeric5_4 (bz_serviceChargeRate r)) True) \<rparr>"

definition branch_t where
  "branch_t = \<lparr> tb_model = ''branch'', tb_get = db_branch, tb_put = (\<lambda>xs s. s\<lparr> db_branch := xs \<rparr>), tb_any = Any_branch,
     tb_scope = (\<lambda>b r. r\<lparr> br_businessId := b \<rparr>),
     tb_refs = (\<lambda>_. []),
     tb_ok = (\<lambda>rows r. column_check True (unique_ok (\<lambda>q. Some (br_businessId q, br_code q)) rows r)) \<rparr>"

definition terminal_t where
  "terminal_t = \<lparr> tb_model = ''terminal'', tb_get = db_terminal, tb_put = (\<lambda>xs s. s\<lparr> db_terminal := xs \<rparr>), tb_any = Any_terminal,
     tb_scope = (\<lambda>b r. r\<lparr> tm_branchId := b \<rparr>),
     tb_refs = (\<lambda>_. []),
     tb_ok = (\<lambda>rows r. column_check (int4 (tm_receiptSeq r)) (unique_ok (\<lambda>q. Some (tm_branchId q, tm_code q)) rows r)) \<rparr>"

definition category_t where
  "category_t = \<lparr> tb_model = ''category'', tb_get = db_category, tb_put = (\<lambda>xs s. s\<lparr> db_category := xs \<rparr>), tb_any = Any_category,
     tb_scope = (\<lambda>b r. r\<lparr> cg_businessId := b \<rparr>),
     tb_refs = (\<lambda>_. []),
     tb_ok = (\<lambda>_ r. column_check (int4 (cg_sortOrder r)) True) \<rparr>"

definition product_t where
  "product_t = \<lparr> tb_model = ''product'', tb_get = db_product, tb_put = (\<lambda>xs s. s\<lparr> db_product := xs \<rparr>), tb_any = Any_product,
     tb_scope = (\<lambda>b r. r\<lparr> pr_businessId := b \<rparr>),
     tb_refs = (\<lambda>r. [(''categoryId'', ''category'', pr_categoryId r)]),
     tb_ok = (\<lambda>rows r. column_check (int4 (pr_price r) \<and> opt_ok int4 (pr_cost r) \<and> opt_ok numeric10_3 (pr_lowStockThreshold r)) (unique_ok (\<lambda>q. if live q \<and> pr_sku q \<noteq> None then Some (pr_businessId q, pr_sku q) else None) rows r \<and> unique_ok (\<lambda>q. if live q \<and> pr_barcode q \<noteq> None then Some (pr_businessId q, pr_barcode q) else None) rows r)) \<rparr>"

definition productVariant_t where
  "productVariant_t = \<lparr> tb_model = ''productVariant'', tb_get = db_productVariant, tb_put = (\<lambda>xs s. s\<lparr> db_productVariant := xs \<rparr>), tb_any = Any_productVariant,
     tb_scope = (\<lambda>_ r. r),
     tb_refs = (\<lambda>r. [(''productId'', ''product'', pv_productId r)]),
     tb_ok = (\<lambda>rows r. column_check (int4 (pv_price r) \<and> opt_ok int4 (pv_cost r)) (unique_ok (\<lambda>q. if pv_sku q \<noteq> None then Some (pv_productId q, pv_sku q) else None) rows r \<and> unique_ok (\<lambda>q. if pv_barcode q \<noteq> None then Some (pv_productId q, pv_barcode q) else None) rows r)) \<rparr>"

definition modifierGroup_t where
  "modifierGroup_t = \<lparr> tb_model = ''modifierGroup'', tb_get = db_modifierGroup, tb_put = (\<lambda>xs s. s\<lparr> db_modifierGroup := xs \<rparr>), tb_any = Any_modifierGroup,
     tb_scope = (\<lambda>b r. r\<lparr> mg_businessId := b \<rparr>),
     tb_refs = (\<lambda>_. []),
     tb_ok = (\<lambda>_ r. column_check (int4 (mg_minSelect r) \<and> int4 (mg_maxSelect r)) True) \<rparr>"

definition modifier_t where
  "modifier_t = \<lparr> tb_model = ''modifier'', tb_get = db_modifier, tb_put = (\<lambda>xs s. s\<lparr> db_modifier := xs \<rparr>), tb_any = Any_modifier,
     tb_scope = (\<lambda>_ r. r),
     tb_refs = (\<lambda>r. [(''groupId'', ''modifierGroup'', md_groupId r)]),
     tb_ok = (\<lambda>_ r. column_check (int4 (md_priceDelta r)) True) \<rparr>"

definition productModifierGroup_t where
  "productModifierGroup_t = \<lparr> tb_model = ''productModifierGroup'', tb_get = db_productModifierGroup, tb_put = (\<lambda>xs s. s\<lparr> db_productModifierGroup := xs \<rparr>), tb_any = Any_productModifierGroup,
     tb_scope = (\<lambda>_ r. r),
     tb_refs = (\<lambda>r. [(''productId'', ''product'', pg_productId r)] @ [(''groupId'', ''modifierGroup'', pg_groupId r)]),
     tb_ok = (\<lambda>rows r. column_check True (unique_ok (\<lambda>q. Some (pg_productId q, pg_groupId q)) rows r)) \<rparr>"

definition discount_t where
  "discount_t = \<lparr> tb_model = ''discount'', tb_get = db_discount, tb_put = (\<lambda>xs s. s\<lparr> db_discount := xs \<rparr>), tb_any = Any_discount,
     tb_scope = (\<lambda>b r. r\<lparr> dc_businessId := b \<rparr>),
     tb_refs = (\<lambda>_. []),
     tb_ok = (\<lambda>_ r. column_check (int4 (dc_value r)) True) \<rparr>"

definition branchStock_t where
  "branchStock_t = \<lparr> tb_model = ''branchStock'', tb_get = db_branchStock, tb_put = (\<lambda>xs s. s\<lparr> db_branchStock := xs \<rparr>), tb_any = Any_branchStock,
     tb_scope = (\<lambda>b r. r\<lparr> bs_branchId := b \<rparr>),
     tb_refs = (\<lambda>r. [(''productId'', ''product'', bs_productId r)] @ (case bs_variantId r of None \<Rightarrow> [] | Some i \<Rightarrow> [(''variantId'', ''productVariant'', i)])),
     tb_ok = (\<lambda>rows r. column_check (numeric10_3 (bs_qty r) \<and> 0 \<le> bs_qty r) (unique_ok (\<lambda>q. if live q then Some (bs_branchId q, bs_productId q, bs_variantId q) else None) rows r)) \<rparr>"

definition stockMovement_t where
  "stockMovement_t = \<lparr> tb_model = ''stockMovement'', tb_get = db_stockMovement, tb_put = (\<lambda>xs s. s\<lparr> db_stockMovement := xs \<rparr>), tb_any = Any_stockMovement,
     tb_scope = (\<lambda>b r. r\<lparr> mv_branchId := b \<rparr>),
     tb_refs = (\<lambda>r. [(''productId'', ''product'', mv_productId r)] @ (case mv_variantId r of None \<Rightarrow> [] | Some i \<Rightarrow> [(''variantId'', ''productVariant'', i)])),
     tb_ok = (\<lambda>_ r. column_check (opt_ok int4 (mv_unitCost r) \<and> numeric10_3 (mv_qtyDelta r)) True) \<rparr>"

definition shift_t where
  "shift_t = \<lparr> tb_model = ''shift'', tb_get = db_shift, tb_put = (\<lambda>xs s. s\<lparr> db_shift := xs \<rparr>), tb_any = Any_shift,
     tb_scope = (\<lambda>b r. r\<lparr> sh_branchId := b \<rparr>),
     tb_refs = (\<lambda>r. [(''terminalId'', ''terminal'', sh_terminalId r)]),
     tb_ok = (\<lambda>_ r. column_check (int4 (sh_openingCash r) \<and> opt_ok int4 (sh_closingCash r) \<and> opt_ok int4 (sh_expectedCash r)) True) \<rparr>"

definition shiftCashMovement_t where
  "shiftCashMovement_t = \<lparr> tb_model = ''shiftCashMovement'', tb_get = db_shiftCashMovement, tb_put = (\<lambda>xs s. s\<lparr> db_shiftCashMovement := xs \<rparr>), tb_any = Any_shiftCashMovement,
     tb_scope = (\<lambda>_ r. r),
     tb_refs = (\<lambda>_. []),
     tb_ok = (\<lambda>_ r. column_check (int4 (cm_amount r)) True) \<rparr>"

definition sale_t where
  "sale_t = \<lparr> tb_model = ''sale'', tb_get = db_sale, tb_put = (\<lambda>xs s. s\<lparr> db_sale := xs \<rparr>), tb_any = Any_sale,
     tb_scope = (\<lambda>b r. r\<lparr> sl_branchId := b \<rparr>),
     tb_refs = (\<lambda>r. [(''terminalId'', ''terminal'', sl_terminalId r)] @ (case sl_shiftId r of None \<Rightarrow> [] | Some i \<Rightarrow> [(''shiftId'', ''shift'', i)]) @ (case sl_discountId r of None \<Rightarrow> [] | Some i \<Rightarrow> [(''discountId'', ''discount'', i)])),
     tb_ok = (\<lambda>rows r. column_check (int4 (sl_subtotal r) \<and> int4 (sl_discount r) \<and> int4 (sl_serviceCharge r) \<and> int4 (sl_scPwdDiscount r) \<and> int4 (sl_vatExemptSales r) \<and> int4 (sl_tax r) \<and> int4 (sl_total r)) (unique_ok (\<lambda>q. Some (sl_terminalId q, sl_receiptNo q)) rows r)) \<rparr>"

definition saleItem_t where
  "saleItem_t = \<lparr> tb_model = ''saleItem'', tb_get = db_saleItem, tb_put = (\<lambda>xs s. s\<lparr> db_saleItem := xs \<rparr>), tb_any = Any_saleItem,
     tb_scope = (\<lambda>_ r. r),
     tb_refs = (\<lambda>_. []),
     tb_ok = (\<lambda>_ r. column_check (int4 (si_unitPrice r) \<and> int4 (si_discount r) \<and> opt_ok int4 (si_costSnapshot r) \<and> numeric10_3 (si_qty r)) True) \<rparr>"

definition salePayment_t where
  "salePayment_t = \<lparr> tb_model = ''salePayment'', tb_get = db_salePayment, tb_put = (\<lambda>xs s. s\<lparr> db_salePayment := xs \<rparr>), tb_any = Any_salePayment,
     tb_scope = (\<lambda>_ r. r),
     tb_refs = (\<lambda>_. []),
     tb_ok = (\<lambda>_ r. column_check (int4 (sp_amount r) \<and> int4 (sp_tendered r) \<and> int4 (sp_change r)) True) \<rparr>"

definition stockCount_t where
  "stockCount_t = \<lparr> tb_model = ''stockCount'', tb_get = db_stockCount, tb_put = (\<lambda>xs s. s\<lparr> db_stockCount := xs \<rparr>), tb_any = Any_stockCount,
     tb_scope = (\<lambda>b r. r\<lparr> sc_branchId := b \<rparr>),
     tb_refs = (\<lambda>_. []),
     tb_ok = (\<lambda>_ _. None) \<rparr>"

definition stockCountItem_t where
  "stockCountItem_t = \<lparr> tb_model = ''stockCountItem'', tb_get = db_stockCountItem, tb_put = (\<lambda>xs s. s\<lparr> db_stockCountItem := xs \<rparr>), tb_any = Any_stockCountItem,
     tb_scope = (\<lambda>_ r. r),
     tb_refs = (\<lambda>_. []),
     tb_ok = (\<lambda>_ r. column_check (numeric10_3 (ci_expectedQty r) \<and> numeric10_3 (ci_countedQty r)) True) \<rparr>"

definition stockBatch_t where
  "stockBatch_t = \<lparr> tb_model = ''stockBatch'', tb_get = db_stockBatch, tb_put = (\<lambda>xs s. s\<lparr> db_stockBatch := xs \<rparr>), tb_any = Any_stockBatch,
     tb_scope = (\<lambda>_ r. r),
     tb_refs = (\<lambda>_. []),
     tb_ok = (\<lambda>_ r. column_check (opt_ok int4 (bt_unitCost r) \<and> numeric10_3 (bt_qty r)) True) \<rparr>"

definition notification_t where
  "notification_t = \<lparr> tb_model = ''notification'', tb_get = db_notification, tb_put = (\<lambda>xs s. s\<lparr> db_notification := xs \<rparr>), tb_any = Any_notification,
     tb_scope = (\<lambda>b r. r\<lparr> nt_businessId := Some b \<rparr>),
     tb_refs = (\<lambda>_. []),
     tb_ok = (\<lambda>_ _. None) \<rparr>"

lemmas table_defs = owner_t_def
  user_t_def
  authToken_t_def
  refreshToken_t_def
  business_t_def
  branch_t_def
  terminal_t_def
  category_t_def
  product_t_def
  productVariant_t_def
  modifierGroup_t_def
  modifier_t_def
  productModifierGroup_t_def
  discount_t_def
  branchStock_t_def
  stockMovement_t_def
  shift_t_def
  shiftCashMovement_t_def
  sale_t_def
  saleItem_t_def
  salePayment_t_def
  stockCount_t_def
  stockCountItem_t_def
  stockBatch_t_def
  notification_t_def

section \<open>The laws of a table\<close>

text \<open>
  What the scoped operations need of a table: its descriptor reads and writes one component
  of the state, which is neither the audit log nor the clock, and snapshots keep the id.
\<close>

locale db_table =
  fixes t :: "'a table"
  assumes get_put [simp]: "tb_get t (tb_put t xs s) = xs"
    and put_audit [simp]: "db_auditLog (tb_put t xs s) = db_auditLog s"
    and put_now [simp]: "db_now (tb_put t xs s) = db_now s"
    and get_audit [simp]: "tb_get t (s\<lparr> db_auditLog := as, db_nextId := n \<rparr>) = tb_get t s"
    and any_id [simp]: "any_id (tb_any t r) = r_id r"
begin

lemma raw_insert_cases:
  "raw_insert t r s = (res, s') \<Longrightarrow>
    (\<exists>e. res = Inl e \<and> s' = s) \<or>
    (\<exists>r'. res = Inr r' \<and> s' = tb_put t (tb_get t s @ [r']) s \<and> r_id r' = r_id r
      \<and> r' = r\<lparr> r_createdAt := db_now s, r_updatedAt := db_now s, r_deletedAt := None \<rparr>
      \<and> r_id r \<notin> r_id ` set (tb_get t s))"
  by (auto simp: raw_insert_def Let_def split: if_splits option.splits)

lemma raw_update_cases:
  "raw_update t i f s = (res, s') \<Longrightarrow>
    (\<exists>e. res = Inl e \<and> s' = s) \<or>
    (\<exists>r r'. res = Inr r' \<and> find (\<lambda>r. r_id r = i) (tb_get t s) = Some r
      \<and> r' = (f r)\<lparr> r_updatedAt := db_now s \<rparr>
      \<and> s' = tb_put t (upd_rows (\<lambda>q. r_id q = i) (\<lambda>_. r') (tb_get t s)) s)"
  by (auto simp: raw_update_def Let_def split: option.splits)

end

text \<open>A log that only grows.\<close>

definition audit_from :: "audit_row list \<Rightarrow> db \<Rightarrow> bool" where
  "audit_from L s \<longleftrightarrow> (\<exists>as. db_auditLog s = L @ as)"

lemma audit_from_insert [keeps_intros]: "keeps (audit_from L) (insert_audit a)"
  unfolding insert_audit_def by (rule keeps_modify) (auto simp: audit_from_def)

lemma audit_from_writeAudit [keeps_intros]: "keeps (audit_from L) (writeAudit base ctx m oper i b a e)"
  unfolding writeAudit_def by (intro keeps_intros)

lemma keeps_now [keeps_intros]: "keeps P now"
  by (simp add: now_def)

lemma keeps_choke [keeps_intros]: "keeps P (choke ctx t oper)"
  by (simp add: choke_def split: option.split)

lemma keeps_atomically [keeps_intros]: "keeps P m \<Longrightarrow> keeps P (atomically ctx m)"
  by (simp add: atomically_def keeps_transaction)

lemma keeps_reads_only [keeps_intros]:
  "keeps P (scoped_find_all ctx t inc p)" "keeps P (scoped_findMany ctx t p)" "keeps P (scoped_findFirst ctx t p)"
  by (auto simp: scoped_find_all_def scoped_findMany_def scoped_findFirst_def intro!: keeps_intros)

lemma keeps_fresh_audit [keeps_intros]: "keeps (audit_from L) fresh_id"
  by (simp add: keeps_def audit_from_def)

context db_table
begin

lemma audit_raw_insert [keeps_intros]: "keeps (audit_from L) (raw_insert t r)"
  unfolding keeps_def by (auto simp: audit_from_def raw_insert_def Let_def split: option.split)

lemma audit_raw_update [keeps_intros]: "keeps (audit_from L) (raw_update t i f)"
  unfolding keeps_def by (auto simp: audit_from_def raw_update_def Let_def split: option.split)

lemma audit_create_nested [keeps_intros]:
  "(\<And>r. keeps (audit_from L) (nested r)) \<Longrightarrow> keeps (audit_from L) (scoped_create_nested ctx t sc nested data)"
  unfolding scoped_create_nested_def create_body_def by (intro keeps_intros)

lemma audit_create [keeps_intros]: "keeps (audit_from L) (scoped_create ctx t sc data)"
  unfolding scoped_create_def by (intro keeps_intros)

lemma audit_createMany [keeps_intros]: "keeps (audit_from L) (scoped_createMany ctx t rows)"
  unfolding scoped_createMany_def by (intro keeps_intros) (auto intro!: keeps_intros split: prod.split)

lemma audit_update_nested [keeps_intros]:
  "(\<And>r. keeps (audit_from L) (nested r)) \<Longrightarrow> keeps (audit_from L) (scoped_update_nested ctx t p f nested)"
  unfolding scoped_update_nested_def update_body_def by (intro keeps_intros)

lemma audit_update [keeps_intros]: "keeps (audit_from L) (scoped_update ctx t p f)"
  unfolding scoped_update_def by (intro keeps_intros)

lemma audit_updateMany [keeps_intros]: "keeps (audit_from L) (scoped_updateMany ctx t p f)"
  unfolding scoped_updateMany_def update_body_def by (intro keeps_intros)

lemma audit_delete [keeps_intros]: "keeps (audit_from L) (scoped_delete ctx t p)"
  unfolding scoped_delete_def delete_body_def by (intro keeps_intros)

lemma audit_deleteMany [keeps_intros]: "keeps (audit_from L) (scoped_deleteMany ctx t p)"
  unfolding scoped_deleteMany_def delete_body_def by (intro keeps_intros)

lemma audit_upsert [keeps_intros]: "keeps (audit_from L) (scoped_upsert ctx t p f sc data)"
  unfolding scoped_upsert_def create_body_def update_body_def by (intro keeps_intros)

lemmas audit_grows = audit_raw_insert audit_raw_update audit_create_nested audit_create audit_createMany
  audit_update_nested audit_update audit_updateMany audit_delete audit_deleteMany audit_upsert

end

section \<open>Failure leaves nothing behind\<close>

lemma pure_choke [simp]: "pure_op (choke ctx t oper)"
  by (simp add: choke_def split: option.split)

lemma pure_find [simp]:
  "pure_op (scoped_find_all ctx t inc p)" "pure_op (scoped_findMany ctx t p)" "pure_op (scoped_findFirst ctx t p)"
  by (auto simp: scoped_find_all_def scoped_findMany_def scoped_findFirst_def intro!: pure_bind)

lemma clean_atomically: "cx_tx ctx = None \<Longrightarrow> clean_op (atomically ctx m)"
  by (simp add: atomically_def clean_transaction)

lemma clean_throw [simp]: "clean_op (throw e)"
  by (simp add: clean_pure)

lemma scoped_clean:
  assumes "cx_tx ctx = None"
  shows "clean_op (scoped_create_nested ctx t sc nested data)" "clean_op (scoped_create ctx t sc data)"
    "clean_op (scoped_createMany ctx t rows)" "clean_op (scoped_update_nested ctx t p f nested)"
    "clean_op (scoped_update ctx t p f)" "clean_op (scoped_updateMany ctx t p f)"
    "clean_op (scoped_delete ctx t p)" "clean_op (scoped_deleteMany ctx t p)"
    "clean_op (scoped_upsert ctx t p f sc data)"
  unfolding scoped_create_def scoped_create_nested_def scoped_createMany_def scoped_update_def
    scoped_update_nested_def scoped_updateMany_def scoped_delete_def scoped_deleteMany_def scoped_upsert_def Let_def
  by (auto intro!: clean_bind pure_map_op clean_atomically assms split: option.split prod.split)

section \<open>Effects\<close>

lemma insert_audit_apply [simp, op_simps]:
  "insert_audit a s = (Inr (), s\<lparr> db_auditLog := db_auditLog s @
     [a\<lparr> r_id := nth_uuid (db_nextId s), r_createdAt := db_now s, r_updatedAt := db_now s, r_deletedAt := None \<rparr>],
     db_nextId := Suc (db_nextId s) \<rparr>)"
  by (simp add: insert_audit_def)

definition audited :: "audit_row \<Rightarrow> db \<Rightarrow> db" where
  "audited a s = snd (insert_audit a s)"

lemma writeAudit_apply [simp]:
  "writeAudit base ctx m oper i b a e s = (Inr (), audited (audit_row_of base ctx m oper i b a e) s)"
  by (simp add: writeAudit_def audited_def)

lemma atomically_Inr: "atomically ctx m s = (Inr x, s') \<longleftrightarrow> m s = (Inr x, s')"
  by (simp add: atomically_def transaction_Inr)

lemma choke_Inr: "choke ctx t oper s = (Inr u, s') \<longleftrightarrow> choke_guard ctx (tb_model t) oper = None \<and> s' = s"
  by (auto simp: choke_def split: option.split)

lemma choke_bind_Inr:
  "bind (choke ctx t oper) f s = (Inr x, s') \<longleftrightarrow> choke_guard ctx (tb_model t) oper = None \<and> f () s = (Inr x, s')"
  by (auto simp: bind_eq_Inr choke_Inr)

lemma scoped_create_nested_Inr:
  "scoped_create_nested ctx t sc nested data s = (Inr r, s') \<longleftrightarrow>
    choke_guard ctx (tb_model t) Create = None \<and>
    (\<exists>r0 s1 s2. policeCreateData (base_db ctx s) ctx t sc data = Inr r0
      \<and> raw_insert t r0 s = (Inr r, s1) \<and> nested r s1 = (Inr (), s2)
      \<and> s' = audited (audit_row_of (base_db ctx s) ctx (tb_model t) ''create'' (r_id r) None
                        (Some (tb_any t r)) (tb_any t r)) s2)"
  unfolding scoped_create_nested_def choke_bind_Inr
  by (auto simp: atomically_Inr create_body_def bind_eq_Inr split: sum.splits)

lemma scoped_create_Inr:
  "scoped_create ctx t sc data s = (Inr r, s') \<longleftrightarrow>
    choke_guard ctx (tb_model t) Create = None \<and>
    (\<exists>r0 s1. policeCreateData (base_db ctx s) ctx t sc data = Inr r0 \<and> raw_insert t r0 s = (Inr r, s1)
      \<and> s' = audited (audit_row_of (base_db ctx s) ctx (tb_model t) ''create'' (r_id r) None
                        (Some (tb_any t r)) (tb_any t r)) s1)"
  unfolding scoped_create_def scoped_create_nested_Inr by auto

lemma scoped_update_nested_Inr:
  "scoped_update_nested ctx t p f nested s = (Inr r, s') \<longleftrightarrow>
    choke_guard ctx (tb_model t) Update = None \<and>
    (\<exists>before s1 s2. find (\<lambda>r. p r \<and> in_scope ctx t (base_db ctx s) r) (tb_get t (base_db ctx s)) = Some before
      \<and> raw_update t (r_id before) f s = (Inr r, s1) \<and> nested r s1 = (Inr (), s2)
      \<and> s' = audited (audit_row_of (base_db ctx s) ctx (tb_model t) ''update'' (r_id r)
                        (Some (tb_any t before)) (Some (tb_any t r)) (tb_any t r)) s2)"
  unfolding scoped_update_nested_def choke_bind_Inr first_row_def
  by (auto simp: atomically_Inr update_body_def bind_eq_Inr split: option.splits)

lemma scoped_update_Inr:
  "scoped_update ctx t p f s = (Inr r, s') \<longleftrightarrow>
    choke_guard ctx (tb_model t) Update = None \<and>
    (\<exists>before s1. find (\<lambda>r. p r \<and> in_scope ctx t (base_db ctx s) r) (tb_get t (base_db ctx s)) = Some before
      \<and> raw_update t (r_id before) f s = (Inr r, s1)
      \<and> s' = audited (audit_row_of (base_db ctx s) ctx (tb_model t) ''update'' (r_id r)
                        (Some (tb_any t before)) (Some (tb_any t r)) (tb_any t r)) s1)"
  unfolding scoped_update_def scoped_update_nested_Inr by auto

section \<open>Rows outside the scope\<close>

lemma choke_bind:
  "bind (choke ctx t oper) f s =
    (case choke_guard ctx (tb_model t) oper of Some e \<Rightarrow> (Inl e, s) | None \<Rightarrow> f () s)"
  by (simp add: choke_def bind_def split: option.split)

lemma same_id_same_row:
  "distinct (map r_id rows) \<Longrightarrow> q \<in> set rows \<Longrightarrow> r \<in> set rows \<Longrightarrow> r_id q = r_id r \<Longrightarrow> q = r"
  by (metis find_distinct_key option.inject)

context db_table
begin

abbreviation has_row :: "'a row_scheme \<Rightarrow> db \<Rightarrow> bool" where
  "has_row q s \<equiv> q \<in> set (tb_get t s)"

lemma has_row_audit: "keeps (has_row q) (writeAudit base ctx m oper i b a e)"
  by (rule keepsI) (simp add: audited_def)

lemma has_row_insert: "keeps (has_row q) (raw_insert t r)"
  by (rule keepsI) (auto simp: raw_insert_def Let_def split: option.split)

lemma has_row_update: "r_id q \<noteq> i \<Longrightarrow> keeps (has_row q) (raw_update t i f)"
  by (rule keepsI) (auto simp: raw_update_def Let_def set_upd_rows split: option.split)

lemma has_row_update_body:
  "r_id q \<noteq> r_id before \<Longrightarrow> keeps (has_row q) (update_body ctx t base before f (\<lambda>_. ret ()))"
  unfolding update_body_def by (intro keeps_intros has_row_update has_row_audit)

lemma has_row_delete_body: "r_id q \<noteq> r_id before \<Longrightarrow> keeps (has_row q) (delete_body ctx t base before)"
  unfolding delete_body_def by (intro keeps_intros has_row_update has_row_audit)

lemma has_row_create_body: "keeps (has_row q) (create_body ctx t oper (\<lambda>_. ret ()) base r)"
  unfolding create_body_def by (intro keeps_intros has_row_insert has_row_audit)

lemma has_row_lift_bind:
  "(\<And>x. keeps P (f x)) \<Longrightarrow> P s \<Longrightarrow> P (snd (bind (lift_res r) f s))"
  by (rule keepsD) (intro keeps_intros)

lemma targets_differ:
  assumes "distinct (map r_id (tb_get t s))" "has_row q s" "\<not> in_scope ctx t s q"
    and "b \<in> set (tb_get t s)" "in_scope ctx t s b"
  shows "r_id q \<noteq> r_id b"
  using same_id_same_row [OF assms(1,2,4)] assms(3,5) by blast

lemma mutations_isolated:
  assumes d: "distinct (map r_id (tb_get t s))" and tx: "cx_tx ctx = None"
    and q: "has_row q s" "\<not> in_scope ctx t s q"
  shows "has_row q (snd (scoped_update ctx t p f s))"
    and "has_row q (snd (scoped_updateMany ctx t p f s))"
    and "has_row q (snd (scoped_delete ctx t p s))"
    and "has_row q (snd (scoped_deleteMany ctx t p s))"
    and "has_row q (snd (scoped_upsert ctx t p f sc data s))"
    and "has_row q (snd (scoped_create ctx t sc data s))"
proof -
  obtain B where B: "B = s" by simp
  have base: "base_db ctx s = B" by (simp add: base_db_def tx B)
  have diff: "r_id q \<noteq> r_id b" if "b \<in> set (tb_get t B)" "in_scope ctx t B b" for b
    using targets_differ [OF d q] that by (simp add: B)
  have found: "r_id q \<noteq> r_id b" if "find (\<lambda>r. P r \<and> in_scope ctx t B r \<and> Q r) (tb_get t B) = Some b" for b P Q
    using find_SomeD [OF that] by (intro diff) auto
  have found': "r_id q \<noteq> r_id b" if "find (\<lambda>r. P r \<and> in_scope ctx t B r) (tb_get t B) = Some b" for b P
    using find_SomeD [OF that] by (intro diff) auto
  show "has_row q (snd (scoped_update ctx t p f s))"
    unfolding scoped_update_def scoped_update_nested_def choke_bind bind_reads base first_row_def
    using q(1) found' [of p]
    by (auto split: option.split intro!: keepsD [where P = "has_row q"] keeps_intros has_row_update_body)
  show "has_row q (snd (scoped_updateMany ctx t p f s))"
    unfolding scoped_updateMany_def choke_bind bind_reads base Let_def
    using q(1)
    by (auto split: option.split dest: diff intro!: keepsD [where P = "has_row q"] keeps_intros has_row_update_body)
  show "has_row q (snd (scoped_delete ctx t p s))"
    unfolding scoped_delete_def choke_bind bind_reads base first_row_def
    using q(1) found [of p live]
    by (auto split: option.split intro!: keepsD [where P = "has_row q"] keeps_intros has_row_delete_body)
  show "has_row q (snd (scoped_deleteMany ctx t p s))"
    unfolding scoped_deleteMany_def choke_bind bind_reads base Let_def
    using q(1)
    by (auto split: option.split dest: diff intro!: keepsD [where P = "has_row q"] keeps_intros has_row_delete_body)
  show "has_row q (snd (scoped_upsert ctx t p f sc data s))"
    unfolding scoped_upsert_def choke_bind bind_reads base first_row_def
    using q(1) found [of p live]
    by (auto split: option.split sum.split
        intro!: keepsD [where P = "has_row q"] keeps_intros has_row_update_body has_row_create_body)
  show "has_row q (snd (scoped_create ctx t sc data s))"
    unfolding scoped_create_def scoped_create_nested_def choke_bind bind_reads base
    using q(1)
    by (auto split: option.split sum.split
        intro!: keepsD [where P = "has_row q"] keeps_intros has_row_create_body)
qed

end

section \<open>The model's tables obey the laws\<close>

interpretation owner_tb: db_table owner_t
  by unfold_locales (simp_all add: owner_t_def)

interpretation user_tb: db_table user_t
  by unfold_locales (simp_all add: user_t_def)

interpretation authToken_tb: db_table authToken_t
  by unfold_locales (simp_all add: authToken_t_def)

interpretation refreshToken_tb: db_table refreshToken_t
  by unfold_locales (simp_all add: refreshToken_t_def)

interpretation business_tb: db_table business_t
  by unfold_locales (simp_all add: business_t_def)

interpretation branch_tb: db_table branch_t
  by unfold_locales (simp_all add: branch_t_def)

interpretation terminal_tb: db_table terminal_t
  by unfold_locales (simp_all add: terminal_t_def)

interpretation category_tb: db_table category_t
  by unfold_locales (simp_all add: category_t_def)

interpretation product_tb: db_table product_t
  by unfold_locales (simp_all add: product_t_def)

interpretation productVariant_tb: db_table productVariant_t
  by unfold_locales (simp_all add: productVariant_t_def)

interpretation modifierGroup_tb: db_table modifierGroup_t
  by unfold_locales (simp_all add: modifierGroup_t_def)

interpretation modifier_tb: db_table modifier_t
  by unfold_locales (simp_all add: modifier_t_def)

interpretation productModifierGroup_tb: db_table productModifierGroup_t
  by unfold_locales (simp_all add: productModifierGroup_t_def)

interpretation discount_tb: db_table discount_t
  by unfold_locales (simp_all add: discount_t_def)

interpretation branchStock_tb: db_table branchStock_t
  by unfold_locales (simp_all add: branchStock_t_def)

interpretation stockMovement_tb: db_table stockMovement_t
  by unfold_locales (simp_all add: stockMovement_t_def)

interpretation shift_tb: db_table shift_t
  by unfold_locales (simp_all add: shift_t_def)

interpretation shiftCashMovement_tb: db_table shiftCashMovement_t
  by unfold_locales (simp_all add: shiftCashMovement_t_def)

interpretation sale_tb: db_table sale_t
  by unfold_locales (simp_all add: sale_t_def)

interpretation saleItem_tb: db_table saleItem_t
  by unfold_locales (simp_all add: saleItem_t_def)

interpretation salePayment_tb: db_table salePayment_t
  by unfold_locales (simp_all add: salePayment_t_def)

interpretation stockCount_tb: db_table stockCount_t
  by unfold_locales (simp_all add: stockCount_t_def)

interpretation stockCountItem_tb: db_table stockCountItem_t
  by unfold_locales (simp_all add: stockCountItem_t_def)

interpretation stockBatch_tb: db_table stockBatch_t
  by unfold_locales (simp_all add: stockBatch_t_def)

interpretation notification_tb: db_table notification_t
  by unfold_locales (simp_all add: notification_t_def)

lemmas table_interpretations =
  owner_tb.db_table_axioms
  user_tb.db_table_axioms
  authToken_tb.db_table_axioms
  refreshToken_tb.db_table_axioms
  business_tb.db_table_axioms
  branch_tb.db_table_axioms
  terminal_tb.db_table_axioms
  category_tb.db_table_axioms
  product_tb.db_table_axioms
  productVariant_tb.db_table_axioms
  modifierGroup_tb.db_table_axioms
  modifier_tb.db_table_axioms
  productModifierGroup_tb.db_table_axioms
  discount_tb.db_table_axioms
  branchStock_tb.db_table_axioms
  stockMovement_tb.db_table_axioms
  shift_tb.db_table_axioms
  shiftCashMovement_tb.db_table_axioms
  sale_tb.db_table_axioms
  saleItem_tb.db_table_axioms
  salePayment_tb.db_table_axioms
  stockCount_tb.db_table_axioms
  stockCountItem_tb.db_table_axioms
  stockBatch_tb.db_table_axioms
  notification_tb.db_table_axioms

end
