(* ===== verification/Fixture.thy ===== *)
theory Fixture
  imports Tables
begin

text \<open>
  A small database with two tenants, and the contexts of a paired terminal and of an owner
  in the portal: the concrete states at which the theorems are instantiated.
\<close>

definition fx_owner :: "uid \<Rightarrow> owner_status \<Rightarrow> owner_row" where
  "fx_owner i st = \<lparr> r_id = i, r_createdAt = 0, r_updatedAt = 0, r_deletedAt = None, ow_name = ''Owner'',
     ow_email = i @ ''-mail'', ow_status = st, ow_maxBusinesses = 1, ow_suspendedAt = None \<rparr>"

definition fx_user :: "uid \<Rightarrow> uid \<Rightarrow> user_row" where
  "fx_user i ow = \<lparr> r_id = i, r_createdAt = 0, r_updatedAt = 0, r_deletedAt = None, us_email = i @ ''-mail'',
     us_passwordHash = Some ''hash-secret'', us_role = Owner_role, us_ownerId = Some ow,
     us_pinHash = Some ''hash-1234'', us_totpSecret = None, us_totpPendingSecret = None,
     us_totpLastTimeStep = None, us_totpRecoveryCodes = [], us_failedLoginCount = 0,
     us_loginLockedUntil = None, us_failedPinCount = 0, us_pinLockedUntil = None \<rparr>"

definition fx_business :: "uid \<Rightarrow> uid \<Rightarrow> business_row" where
  "fx_business i ow = \<lparr> r_id = i, r_createdAt = 0, r_updatedAt = 0, r_deletedAt = None, bz_ownerId = ow,
     bz_name = ''Store'', bz_type = Retail, bz_currency = ''PHP'', bz_taxRate = 0, bz_serviceChargeRate = 0,
     bz_allowMiscItems = True, bz_isDemo = False, bz_dayStartTime = ''00:00'', bz_expiryWarningDays = 7,
     bz_logoPath = None, bz_receiptHeader = [], bz_receiptFooter = [] \<rparr>"

definition fx_branch :: "uid \<Rightarrow> uid \<Rightarrow> branch_row" where
  "fx_branch i biz = \<lparr> r_id = i, r_createdAt = 0, r_updatedAt = 0, r_deletedAt = None, br_businessId = biz,
     br_name = ''Main'', br_code = ''MKT'', br_address = ''Street'' \<rparr>"

definition fx_terminal :: "uid \<Rightarrow> uid \<Rightarrow> terminal_row" where
  "fx_terminal i br = \<lparr> r_id = i, r_createdAt = 0, r_updatedAt = 0, r_deletedAt = None, tm_branchId = br,
     tm_name = ''Counter'', tm_code = ''T1'', tm_deviceTokenHash = Some (''#'' @ i), tm_receiptSeq = 318,
     tm_lastSeenAt = None \<rparr>"

definition fx_product :: "uid \<Rightarrow> uid \<Rightarrow> product_row" where
  "fx_product i biz = \<lparr> r_id = i, r_createdAt = 0, r_updatedAt = 0, r_deletedAt = None, pr_businessId = biz,
     pr_categoryId = ''cat'', pr_name = ''Rice'', pr_sku = None, pr_barcode = None, pr_price = 10000,
     pr_cost = Some 6000, pr_soldBy = By_weight, pr_lowStockThreshold = None, pr_imagePath = None,
     pr_trackStock = True, pr_trackExpiry = False, pr_active = True \<rparr>"

definition fx_stock :: "uid \<Rightarrow> uid \<Rightarrow> uid \<Rightarrow> milli \<Rightarrow> branch_stock_row" where
  "fx_stock i br p q = \<lparr> r_id = i, r_createdAt = 0, r_updatedAt = 0, r_deletedAt = None, bs_branchId = br,
     bs_productId = p, bs_variantId = None, bs_qty = q \<rparr>"

definition fx_shift :: "uid \<Rightarrow> uid \<Rightarrow> uid \<Rightarrow> shift_row" where
  "fx_shift i br tm = \<lparr> r_id = i, r_createdAt = 0, r_updatedAt = 0, r_deletedAt = None, sh_branchId = br,
     sh_terminalId = tm, sh_openedAt = 0, sh_closedAt = None, sh_openingCash = 100000, sh_closingCash = None,
     sh_expectedCash = None \<rparr>"

definition fx_db :: db where
  "fx_db = empty_db\<lparr>
     db_owner := [fx_owner ''own1'' Active, fx_owner ''own2'' Active],
     db_user := [fx_user ''usr1'' ''own1'', fx_user ''usr2'' ''own2''],
     db_business := [fx_business ''biz1'' ''own1'', fx_business ''biz2'' ''own2''],
     db_branch := [fx_branch ''br1'' ''biz1'', fx_branch ''br2'' ''biz2''],
     db_terminal := [fx_terminal ''tm1'' ''br1'', fx_terminal ''tm2'' ''br2''],
     db_product := [fx_product (ex_uuid ''04'') ''biz1'', fx_product ''prod2'' ''biz2''],
     db_branchStock := [fx_stock ''st1'' ''br1'' (ex_uuid ''04'') 5000, fx_stock ''st2'' ''br2'' ''prod2'' 7000],
     db_shift := [fx_shift (ex_uuid ''02'') ''br1'' ''tm1'', fx_shift ''shift2'' ''br2'' ''tm2''],
     db_now := 1000000 \<rparr>"

definition fx_terminal_ctx :: ctx where
  "fx_terminal_ctx = \<lparr> cx_requestId = ''req'', cx_scope = Some Tenant, cx_actor = Some (Act_terminal, ''tm1''),
     cx_ownerId = Some ''own1'', cx_businessId = Some ''biz1'', cx_branchId = Some ''br1'',
     cx_terminalCode = Some ''T1'', cx_sessionId = Some ''sess'', cx_ip = [], cx_userAgent = [],
     cx_deviceTimestamp = None, cx_tx = None \<rparr>"

definition fx_owner_ctx :: ctx where
  "fx_owner_ctx = fx_terminal_ctx\<lparr> cx_actor := Some (Act_owner, ''usr1''), cx_businessId := None,
     cx_branchId := None, cx_terminalCode := None \<rparr>"

text \<open>A stand-in for the password-hash check.\<close>

definition fx_verify :: "string \<Rightarrow> string \<Rightarrow> bool" where
  "fx_verify h p \<longleftrightarrow> h = ''hash-'' @ p"

end
