(* ===== verification/Lockout.thy ===== *)
theory Lockout
  imports Fixture
begin

text \<open>
  Audit rows written outside the choke point (\<open>auth/audit.service.ts\<close>) and the counters
  that lock PIN entry and login after repeated failures
  (\<open>common/lockout/lockout.service.ts\<close>). \<open>verify\<close> is the password-hash check of the argon2
  package. Times are milliseconds.
\<close>

section \<open>Explicit audit rows\<close>

definition plain_audit ::
  "actor_type \<Rightarrow> uid option \<Rightarrow> uid option \<Rightarrow> uid option \<Rightarrow> uid option \<Rightarrow> string \<Rightarrow> string \<Rightarrow> uid option
    \<Rightarrow> request_meta \<Rightarrow> audit_row" where
  "plain_audit ty actor ow biz br action etype eid meta =
    \<lparr> r_id = [], r_createdAt = 0, r_updatedAt = 0, r_deletedAt = None, al_actorType = ty,
      al_actorId = actor, al_ownerId = ow, al_businessId = biz, al_branchId = br, al_action = action,
      al_entityType = etype, al_entityId = eid, al_before = None, al_after = None, al_metadata = meta \<rparr>"

definition plain_meta :: "ctx \<Rightarrow> (string \<times> string) list \<Rightarrow> request_meta" where
  "plain_meta ctx extra = \<lparr> mt_ip = cx_ip ctx, mt_userAgent = cx_userAgent ctx, mt_terminalCode = None,
     mt_requestId = cx_requestId ctx, mt_sessionId = cx_sessionId ctx, mt_deviceTimestamp = None,
     mt_extra = extra \<rparr>"

definition logAuth :: "ctx \<Rightarrow> string \<Rightarrow> uid \<Rightarrow> uid option \<Rightarrow> (string \<times> string) list \<Rightarrow> (db, exn, unit) op" where
  "logAuth ctx action userId ownerId extra = insert_audit
    (plain_audit (if ownerId \<noteq> None then Act_owner else Act_platform_admin) (Some userId) ownerId None None
       action ''user'' (Some userId) (plain_meta ctx extra))"

definition logAdmin :: "ctx \<Rightarrow> string \<Rightarrow> string \<Rightarrow> uid option \<Rightarrow> (string \<times> string) list \<Rightarrow> (db, exn, unit) op" where
  "logAdmin ctx action etype eid extra = insert_audit
    (plain_audit Act_platform_admin (map_option snd (cx_actor ctx)) None None None action etype eid
       (plain_meta ctx extra))"

definition logPortal ::
  "ctx \<Rightarrow> string \<Rightarrow> string \<Rightarrow> uid option \<Rightarrow> uid option \<Rightarrow> (string \<times> string) list \<Rightarrow> (db, exn, unit) op" where
  "logPortal ctx action etype eid biz extra = insert_audit
    (plain_audit (case cx_actor ctx of None \<Rightarrow> Act_owner | Some a \<Rightarrow> fst a) (map_option snd (cx_actor ctx))
       (cx_ownerId ctx) biz None action etype eid (plain_meta ctx extra))"

section \<open>The counters\<close>

datatype lockout_kind = Pin_kind | Login_kind

definition LOCKOUT_SECONDS :: int where "LOCKOUT_SECONDS = 300"

definition MAX_ATTEMPTS :: int where "MAX_ATTEMPTS = 4"

definition lockedUntil_of :: "lockout_kind \<Rightarrow> user_row \<Rightarrow> time option" where
  "lockedUntil_of kind u = (if kind = Pin_kind then us_pinLockedUntil u else us_loginLockedUntil u)"

definition failedCount_of :: "lockout_kind \<Rightarrow> user_row \<Rightarrow> int" where
  "failedCount_of kind u = (if kind = Pin_kind then us_failedPinCount u else us_failedLoginCount u)"

definition locked_error :: "lockout_kind \<Rightarrow> int \<Rightarrow> exn" where
  "locked_error kind n = Api (if kind = Pin_kind then PinLockedError n else LoginLockedError n)"

definition invalid_error :: "lockout_kind \<Rightarrow> int \<Rightarrow> exn" where
  "invalid_error kind n = Api (if kind = Pin_kind then PinInvalidError n else LoginInvalidError n)"

definition assertNotLocked :: "user_row \<Rightarrow> lockout_kind \<Rightarrow> (db, exn, unit) op" where
  "assertNotLocked u kind =
    bind now (\<lambda>n.
    case lockedUntil_of kind u of
      None \<Rightarrow> ret ()
    | Some lu \<Rightarrow>
        if n < lu then throw (locked_error kind (\<lceil>of_int (lu - n) / (1000 :: rat)\<rceil>)) else ret ())"

definition set_failure :: "lockout_kind \<Rightarrow> int \<Rightarrow> time option \<Rightarrow> user_row \<Rightarrow> user_row" where
  "set_failure kind n lock u =
    (if kind = Pin_kind
     then u\<lparr> us_failedPinCount := n, us_pinLockedUntil := (if lock = None then us_pinLockedUntil u else lock) \<rparr>
     else u\<lparr> us_failedLoginCount := n, us_loginLockedUntil := (if lock = None then us_loginLockedUntil u else lock) \<rparr>)"

definition recordFailure :: "uid \<Rightarrow> lockout_kind \<Rightarrow> (db, exn, unit) op" where
  "recordFailure userId kind =
    bind (reads (\<lambda>s. find (\<lambda>u. r_id u = userId) (db_user s))) (\<lambda>found.
    case found of
      None \<Rightarrow> throw (Crash ''No User found'')
    | Some user \<Rightarrow>
        let newCount = failedCount_of kind user + 1;
            attemptsRemaining = max 0 (MAX_ATTEMPTS - newCount);
            shouldLock = (MAX_ATTEMPTS \<le> newCount)
        in bind now (\<lambda>n.
           bind (raw_update user_t userId
                  (set_failure kind newCount (if shouldLock then Some (n + LOCKOUT_SECONDS * 1000) else None))) (\<lambda>_.
           throw (invalid_error kind attemptsRemaining))))"

definition clear_failures :: "lockout_kind \<Rightarrow> user_row \<Rightarrow> user_row" where
  "clear_failures kind u =
    (if kind = Pin_kind then u\<lparr> us_failedPinCount := 0, us_pinLockedUntil := None \<rparr>
     else u\<lparr> us_failedLoginCount := 0, us_loginLockedUntil := None \<rparr>)"

definition recordSuccess :: "uid \<Rightarrow> lockout_kind \<Rightarrow> (db, exn, unit) op" where
  "recordSuccess userId kind = bind (raw_update user_t userId (clear_failures kind)) (\<lambda>_. ret ())"

definition pinFailureRow :: "ctx \<Rightarrow> uid \<Rightarrow> uid \<Rightarrow> audit_row" where
  "pinFailureRow ctx userId ownerId =
    plain_audit (case cx_actor ctx of None \<Rightarrow> Act_owner | Some a \<Rightarrow> fst a)
       (Some (case cx_actor ctx of None \<Rightarrow> userId | Some a \<Rightarrow> snd a)) (Some ownerId) None None
       ''auth.pin_failure'' ''user'' (Some userId)
       (plain_meta ctx [(''attemptedBy'', case cx_actor ctx of None \<Rightarrow> userId | Some a \<Rightarrow> snd a)])"

definition writePinFailureAudit :: "ctx \<Rightarrow> uid \<Rightarrow> uid \<Rightarrow> (db, exn, unit) op" where
  "writePinFailureAudit ctx userId ownerId = insert_audit (pinFailureRow ctx userId ownerId)"

definition ownerUser :: "db \<Rightarrow> uid \<Rightarrow> user_row option" where
  "ownerUser s ownerId = find (\<lambda>u. us_ownerId u = Some ownerId \<and> live u) (db_user s)"

definition no_pin :: exn where
  "no_pin = validation ''set the refund PIN in the portal''"

definition verifyPinWithLockout ::
  "(string \<Rightarrow> string \<Rightarrow> bool) \<Rightarrow> ctx \<Rightarrow> uid \<Rightarrow> string \<Rightarrow> (db, exn, unit) op" where
  "verifyPinWithLockout verify ctx ownerId pin =
    bind (reads (\<lambda>s. ownerUser s ownerId)) (\<lambda>found.
    case found of
      None \<Rightarrow> throw no_pin
    | Some user \<Rightarrow>
        (case us_pinHash user of
           None \<Rightarrow> throw no_pin
         | Some h \<Rightarrow>
             if h = [] then throw no_pin
             else
               bind (assertNotLocked user Pin_kind) (\<lambda>_.
               if \<not> verify h pin
               then bind (writePinFailureAudit ctx (r_id user) ownerId) (\<lambda>_.
                    recordFailure (r_id user) Pin_kind)
               else recordSuccess (r_id user) Pin_kind)))"

section \<open>Updating one user\<close>

definition wf_users :: "db \<Rightarrow> bool" where
  "wf_users s \<longleftrightarrow> distinct (map r_id (db_user s)) \<and> distinct (map us_email (db_user s))"

definition put_user :: "(user_row \<Rightarrow> user_row) \<Rightarrow> uid \<Rightarrow> db \<Rightarrow> db" where
  "put_user f i s = s\<lparr> db_user := upd_rows (\<lambda>u. r_id u = i) (\<lambda>u. (f u)\<lparr> r_updatedAt := db_now s \<rparr>) (db_user s) \<rparr>"

lemma raw_update_user:
  assumes wf: "wf_users s" and u: "find (\<lambda>u. r_id u = i) (db_user s) = Some u"
    and e: "us_email (f u) = us_email u"
  shows "raw_update user_t i f s = (Inr ((f u)\<lparr> r_updatedAt := db_now s \<rparr>), put_user f i s)"
proof -
  note uD = find_SomeD [OF u]
  have uniq: "q = u" if "q \<in> set (db_user s)" "r_id q = i" for q
    using wf u that by (auto simp: wf_users_def intro: find_key_unique)
  have mail: "us_email q \<noteq> us_email u" if "q \<in> set (db_user s)" "r_id q \<noteq> i" for q
  proof
    assume "us_email q = us_email u"
    then have "q = u" using wf uD that(1) by (simp add: wf_users_def distinct_map inj_on_def)
    with that uD show False by simp
  qed
  have "unique_ok (\<lambda>q. Some (us_email q)) (filter (\<lambda>q. r_id q \<noteq> i) (db_user s)) ((f u)\<lparr> r_updatedAt := db_now s \<rparr>)"
    using mail e by (auto simp: unique_ok_def)
  moreover have "upd_rows (\<lambda>q. r_id q = i) (\<lambda>_. (f u)\<lparr> r_updatedAt := db_now s \<rparr>) (db_user s)
      = upd_rows (\<lambda>u. r_id u = i) (\<lambda>u. (f u)\<lparr> r_updatedAt := db_now s \<rparr>) (db_user s)"
    by (rule upd_rows_cong) (use uniq in auto)
  ultimately show ?thesis
    by (simp add: raw_update_def user_t_def Let_def u column_check_def put_user_def)
qed

lemma put_user_simps [simp]:
  "db_now (put_user f i s) = db_now s" "db_auditLog (put_user f i s) = db_auditLog s"
  by (simp_all add: put_user_def)

definition keeps_identity :: "(user_row \<Rightarrow> user_row) \<Rightarrow> bool" where
  "keeps_identity f \<longleftrightarrow> (\<forall>u. r_id (f u) = r_id u \<and> us_email (f u) = us_email u
     \<and> us_ownerId (f u) = us_ownerId u \<and> r_deletedAt (f u) = r_deletedAt u)"

lemma keeps_identity_lockout [simp]:
  "keeps_identity (set_failure kind n l)" "keeps_identity (clear_failures kind)"
  by (simp_all add: keeps_identity_def set_failure_def clear_failures_def)

lemma wf_users_put: "keeps_identity f \<Longrightarrow> wf_users s \<Longrightarrow> wf_users (put_user f i s)"
  by (simp add: wf_users_def put_user_def map_upd_rows keeps_identity_def)

lemma ownerUser_put:
  assumes "keeps_identity f" "ownerUser s ow = Some u" "r_id u = i"
  shows "ownerUser (put_user f i s) ow = Some ((f u)\<lparr> r_updatedAt := db_now s \<rparr>)"
  using assms by (simp add: ownerUser_def put_user_def find_upd_rows keeps_identity_def live_def)

lemma ownerUser_found:
  assumes "wf_users s" "ownerUser s ow = Some u"
  shows "find (\<lambda>q. r_id q = r_id u) (db_user s) = Some u" "us_ownerId u = Some ow" "live u"
  using assms by (auto simp: wf_users_def ownerUser_def intro: find_distinct_key dest: find_SomeD)

lemma ownerUser_audited [simp]: "ownerUser (audited a s) ow = ownerUser s ow"
  by (simp add: ownerUser_def audited_def)

lemma wf_users_audited [simp]: "wf_users (audited a s) = wf_users s"
  by (simp add: wf_users_def audited_def)

lemma audited_simps [simp]:
  "db_user (audited a s) = db_user s" "db_now (audited a s) = db_now s"
  by (simp_all add: audited_def)

lemma insert_audit_audited: "insert_audit a s = (Inr (), audited a s)"
  by (simp add: audited_def)

section \<open>One attempt\<close>

definition unlocked :: "time \<Rightarrow> time option \<Rightarrow> bool" where
  "unlocked n lu \<longleftrightarrow> (case lu of None \<Rightarrow> True | Some t \<Rightarrow> t \<le> n)"

lemma assertNotLocked_apply:
  "assertNotLocked u kind s =
    (if unlocked (db_now s) (lockedUntil_of kind u) then (Inr (), s)
     else (Inl (locked_error kind \<lceil>of_int (the (lockedUntil_of kind u) - db_now s) / (1000 :: rat)\<rceil>), s))"
  by (auto simp: assertNotLocked_def unlocked_def bind_def split: option.split)

lemma recordFailure_apply:
  assumes "wf_users s" "find (\<lambda>u. r_id u = i) (db_user s) = Some u"
  shows "recordFailure i kind s =
    (Inl (invalid_error kind (max 0 (3 - failedCount_of kind u))),
     put_user (set_failure kind (failedCount_of kind u + 1)
        (if 3 \<le> failedCount_of kind u then Some (db_now s + 300000) else None)) i s)"
proof -
  have e: "us_email (set_failure kind n l u) = us_email u" for n l
    using keeps_identity_lockout(1) by (simp add: keeps_identity_def)
  have m: "max 0 (4 - (failedCount_of kind u + 1)) = max 0 (3 - failedCount_of kind u)" by simp
  show ?thesis
    unfolding recordFailure_def bind_reads assms(2) option.case Let_def
    using raw_update_user [where f = "set_failure kind n l" for n l, OF assms e]
    by (simp add: bind_def m MAX_ATTEMPTS_def LOCKOUT_SECONDS_def)
qed

lemma recordSuccess_apply:
  assumes "wf_users s" "find (\<lambda>u. r_id u = i) (db_user s) = Some u"
  shows "recordSuccess i kind s = (Inr (), put_user (clear_failures kind) i s)"
proof -
  have "us_email (clear_failures kind u) = us_email u"
    using keeps_identity_lockout(2) by (simp add: keeps_identity_def)
  then show ?thesis using raw_update_user [OF assms] by (simp add: recordSuccess_def bind_def)
qed

lemma verifyPin_locked:
  assumes "ownerUser s ow = Some u" "us_pinHash u = Some h" "h \<noteq> []" "us_pinLockedUntil u = Some lu" "db_now s < lu"
  shows "verifyPinWithLockout verify ctx ow pin s
    = (Inl (Api (PinLockedError \<lceil>of_int (lu - db_now s) / (1000 :: rat)\<rceil>)), s)"
  using assms
  by (simp add: verifyPinWithLockout_def bind_def assertNotLocked_apply unlocked_def lockedUntil_of_def locked_error_def)

lemma verifyPin_wrong:
  assumes wf: "wf_users s" and u: "ownerUser s ow = Some u" "us_pinHash u = Some h" "h \<noteq> []"
    and open_: "unlocked (db_now s) (us_pinLockedUntil u)" and bad: "\<not> verify h pin"
  shows "verifyPinWithLockout verify ctx ow pin s =
    (Inl (Api (PinInvalidError (max 0 (3 - us_failedPinCount u)))),
     put_user (set_failure Pin_kind (us_failedPinCount u + 1)
        (if 3 \<le> us_failedPinCount u then Some (db_now s + 300000) else None)) (r_id u)
       (audited (pinFailureRow ctx (r_id u) ow) s))"
proof -
  note f = ownerUser_found(1) [OF wf u(1)]
  have "wf_users (audited a s)" "find (\<lambda>q. r_id q = r_id u) (db_user (audited a s)) = Some u" for a
    using wf f by simp_all
  note fail = recordFailure_apply [OF this, of Pin_kind]
  show ?thesis
    using u open_ bad
    by (simp add: verifyPinWithLockout_def bind_def assertNotLocked_apply lockedUntil_of_def
        writePinFailureAudit_def insert_audit_audited fail invalid_error_def failedCount_of_def
        del: insert_audit_apply)
qed

lemma verifyPin_right:
  assumes wf: "wf_users s" and u: "ownerUser s ow = Some u" "us_pinHash u = Some h" "h \<noteq> []"
    and open_: "unlocked (db_now s) (us_pinLockedUntil u)" and good: "verify h pin"
  shows "verifyPinWithLockout verify ctx ow pin s = (Inr (), put_user (clear_failures Pin_kind) (r_id u) s)"
  using u open_ good recordSuccess_apply [OF wf ownerUser_found(1) [OF wf u(1)], of Pin_kind]
  by (simp add: verifyPinWithLockout_def bind_def assertNotLocked_apply lockedUntil_of_def)

text \<open>
  A wrong PIN on an unlocked account: the caller is told how many attempts remain,
  the counter goes up by one, the failure is in the audit log, and from the fourth
  consecutive failure on (also after a lock has expired) the account is locked for 300
  seconds.
\<close>

theorem wrong_pin_counts:
  assumes "wf_users s" and "ownerUser s ow = Some u" and "us_pinHash u = Some h" and "h \<noteq> []"
    and "unlocked (db_now s) (us_pinLockedUntil u)" and "\<not> verify h pin"
    and "verifyPinWithLockout verify ctx ow pin s = (res, s')"
  shows "res = Inl (Api (PinInvalidError (max 0 (3 - us_failedPinCount u))))
    \<and> map_option us_failedPinCount (ownerUser s' ow) = Some (us_failedPinCount u + 1)
    \<and> map_option us_pinLockedUntil (ownerUser s' ow)
        = Some (if 3 \<le> us_failedPinCount u then Some (db_now s + 300000) else us_pinLockedUntil u)
    \<and> map al_action (db_auditLog s') = map al_action (db_auditLog s) @ [''auth.pin_failure'']"
proof -
  let ?a = "audited (pinFailureRow ctx (r_id u) ow) s"
  have o: "ownerUser ?a ow = Some u" using assms(2) by simp
  have log: "map al_action (db_auditLog ?a) = map al_action (db_auditLog s) @ [''auth.pin_failure'']"
    by (simp add: audited_def pinFailureRow_def plain_audit_def)
  show ?thesis
    using verifyPin_wrong [where verify = verify and pin = pin, OF assms(1-6), of ctx] assms(7) log
    by (simp add: ownerUser_put [OF keeps_identity_lockout(1) o refl] set_failure_def)
qed

text \<open>
  While the lock holds every attempt is refused with the remaining seconds (1 to 300),
  the right PIN included, nothing is compared and nothing changes.
\<close>

theorem pin_lock_window:
  assumes "wf_users s" and "ownerUser s ow = Some u" and "us_pinHash u = Some h" and "h \<noteq> []"
    and "unlocked (db_now s) (us_pinLockedUntil u)" and "\<not> verify h pin" and "3 \<le> us_failedPinCount u"
    and "s1 = snd (verifyPinWithLockout verify ctx ow pin s)"
    and "db_now s \<le> t" and "t < db_now s + 300000"
  shows "\<exists>n. 1 \<le> n \<and> n \<le> 300 \<and> verifyPinWithLockout verify' ctx' ow pin' (s1\<lparr> db_now := t \<rparr>)
    = (Inl (Api (PinLockedError n)), s1\<lparr> db_now := t \<rparr>)"
proof -
  let ?f = "set_failure Pin_kind (us_failedPinCount u + 1) (Some (db_now s + 300000))"
  let ?a = "audited (pinFailureRow ctx (r_id u) ow) s"
  let ?u = "(?f u)\<lparr> r_updatedAt := db_now s \<rparr>"
  have s1: "s1 = put_user ?f (r_id u) ?a"
    using verifyPin_wrong [where verify = verify and pin = pin, OF assms(1-6), of ctx] assms(7,8) by simp
  have o: "ownerUser ?a ow = Some u" using assms(2) by simp
  have "ownerUser (s1\<lparr> db_now := t \<rparr>) ow = ownerUser s1 ow" by (simp add: ownerUser_def)
  also have "\<dots> = Some ?u"
    using ownerUser_put [OF keeps_identity_lockout(1) o refl] by (simp add: s1)
  finally have u': "ownerUser (s1\<lparr> db_now := t \<rparr>) ow = Some ?u" .
  let ?x = "of_int (db_now s + 300000 - t) / (1000 :: rat)"
  have "verifyPinWithLockout verify' ctx' ow pin' (s1\<lparr> db_now := t \<rparr>)
      = (Inl (Api (PinLockedError \<lceil>?x\<rceil>)), s1\<lparr> db_now := t \<rparr>)"
    using verifyPin_locked [OF u', of h "db_now s + 300000" verify' ctx' pin'] assms(3,4,10)
    by (simp add: set_failure_def)
  moreover have "1 \<le> \<lceil>?x\<rceil>" using assms(10) by (simp add: one_le_ceiling)
  moreover have "\<lceil>?x\<rceil> \<le> 300" using assms(9) by (simp add: ceiling_le_iff)
  ultimately show ?thesis by blast
qed

text \<open>
  The right PIN on an unlocked account clears the counter and the lock.\<close>

theorem right_pin_resets:
  assumes "wf_users s" and "ownerUser s ow = Some u" and "us_pinHash u = Some h" and "h \<noteq> []"
    and "unlocked (db_now s) (us_pinLockedUntil u)" and "verify h pin"
    and "verifyPinWithLockout verify ctx ow pin s = (res, s')"
  shows "res = Inr () \<and> map_option us_failedPinCount (ownerUser s' ow) = Some 0
    \<and> map_option us_pinLockedUntil (ownerUser s' ow) = Some None
    \<and> db_auditLog s' = db_auditLog s"
  using verifyPin_right [where verify = verify and pin = pin, OF assms(1-6), of ctx] assms(7)
  by (simp add: ownerUser_put [OF keeps_identity_lockout(2) assms(2) refl] clear_failures_def)

section \<open>Examples\<close>

definition fx_failed :: "int \<Rightarrow> db" where
  "fx_failed n = fx_db\<lparr> db_user := map (\<lambda>u. u\<lparr> us_failedPinCount := n \<rparr>) (db_user fx_db) \<rparr>"

definition fx_failed_user :: "int \<Rightarrow> user_row" where
  "fx_failed_user n = (fx_user ''usr1'' ''own1'')\<lparr> us_failedPinCount := n \<rparr>"

lemma fx_failed_facts:
  "wf_users (fx_failed n)" "ownerUser (fx_failed n) ''own1'' = Some (fx_failed_user n)"
  "us_pinHash (fx_failed_user n) = Some ''hash-1234''" "us_failedPinCount (fx_failed_user n) = n"
  "us_pinLockedUntil (fx_failed_user n) = None" "unlocked m None"
  "db_now (fx_failed n) = 1000000"
  by (simp_all add: wf_users_def ownerUser_def fx_failed_def fx_failed_user_def fx_db_def fx_user_def
      live_def unlocked_def)

theorem wrong_pin_counts_witness:
  "fst (verifyPinWithLockout fx_verify fx_terminal_ctx ''own1'' ''0000'' (fx_failed 0))
    = Inl (Api (PinInvalidError 3))"
  using wrong_pin_counts [where s = "fx_failed 0" and ow = "''own1''" and u = "fx_failed_user 0"
      and h = "''hash-1234''" and verify = fx_verify and pin = "''0000''" and ctx = fx_terminal_ctx,
      OF _ _ _ _ _ _ surjective_pairing]
  by (simp add: fx_failed_facts fx_verify_def)

theorem pin_lock_window_witness:
  "\<exists>n. 1 \<le> n \<and> n \<le> 300 \<and>
    fst (verifyPinWithLockout fx_verify fx_terminal_ctx ''own1'' ''1234''
      ((snd (verifyPinWithLockout fx_verify fx_terminal_ctx ''own1'' ''0000'' (fx_failed 3)))\<lparr> db_now := 1000001 \<rparr>))
    = Inl (Api (PinLockedError n))"
  using pin_lock_window [where s = "fx_failed 3" and ow = "''own1''" and u = "fx_failed_user 3"
      and h = "''hash-1234''" and verify = fx_verify and pin = "''0000''" and ctx = fx_terminal_ctx
      and t = 1000001 and verify' = fx_verify and ctx' = fx_terminal_ctx and pin' = "''1234''",
      OF _ _ _ _ _ _ _ refl]
  by (auto simp: fx_failed_facts fx_verify_def)

theorem right_pin_resets_witness:
  "fst (verifyPinWithLockout fx_verify fx_terminal_ctx ''own1'' ''1234'' (fx_failed 2)) = Inr ()"
  using right_pin_resets [where s = "fx_failed 2" and ow = "''own1''" and u = "fx_failed_user 2"
      and h = "''hash-1234''" and verify = fx_verify and pin = "''1234''" and ctx = fx_terminal_ctx,
      OF _ _ _ _ _ _ surjective_pairing]
  by (simp add: fx_failed_facts fx_verify_def)

end
