(* ===== verification/Sales.thy ===== *)
theory Sales
  imports Lockout "HOL-Library.AList"
begin

text \<open>
  Sales at a terminal: \<open>pos/sales/sales.service.ts\<close>. A JavaScript \<open>Map\<close> is an association
  list in insertion order (\<open>AList.update\<close> is \<open>set\<close>). The reads before the transaction and
  the transaction itself are separate steps of the request: \<open>env\<close> is what other requests
  commit in between.
\<close>

section \<open>Shapes\<close>

record completed_sale =
  cs_draft :: sale_draft
  cs_status :: sale_status
  cs_statusReason :: "string option"
  cs_createdAt :: time
  cs_voidedAt :: "time option"
  cs_refundedAt :: "time option"
  cs_refundShiftId :: "uid option"

record sale_summary =
  ss_id :: uid
  ss_receiptNo :: string
  ss_createdAt :: time
  ss_lineCount :: nat
  ss_orderType :: order_type
  ss_method :: payment_method
  ss_referenceNo :: "string option"
  ss_status :: sale_status
  ss_statusReason :: "string option"
  ss_totalC :: int
  ss_scPwd :: bool

definition keyOf :: "uid \<Rightarrow> uid option \<Rightarrow> string" where
  "keyOf p variant = p @ '':'' @ (case variant of None \<Rightarrow> [] | Some v \<Rightarrow> v)"

text \<open>\<open>/(\d+)\s*$/\<close>: the digits the number ends with, white space after them ignored.\<close>

definition seqOf :: "string \<Rightarrow> num" where
  "seqOf receiptNo =
    (let ds = rev (takeWhile is_digit (dropWhile is_ws (rev receiptNo)))
     in if ds = [] then 0 else fl (of_nat (read_nat ds)))"

definition assemble :: "sale_row \<Rightarrow> completed_sale" where
  "assemble row = \<lparr> cs_draft = sl_draft row, cs_status = sl_status row, cs_statusReason = sl_statusReason row,
     cs_createdAt = r_createdAt row, cs_voidedAt = sl_voidedAt row, cs_refundedAt = sl_refundedAt row,
     cs_refundShiftId = sl_refundShiftId row \<rparr>"

definition assembleSummary :: "sale_row \<Rightarrow> sale_summary" where
  "assembleSummary row = \<lparr> ss_id = r_id row, ss_receiptNo = sl_receiptNo row, ss_createdAt = r_createdAt row,
     ss_lineCount = List.length (sd_lines (sl_draft row)), ss_orderType = sl_orderType row,
     ss_method = pm_method (sd_payment (sl_draft row)),
     ss_referenceNo = pm_referenceNo (sd_payment (sl_draft row)), ss_status = sl_status row,
     ss_statusReason = sl_statusReason row, ss_totalC = sl_total row,
     ss_scPwd = (sd_scPwd (sl_draft row) \<noteq> None) \<rparr>"

section \<open>Validation\<close>

definition unknown_product :: "cart_line \<Rightarrow> exn" where
  "unknown_product line = validation (''Line '' @ line_id line @ '': product does not exist in this business.'')"

definition bad_variant :: "cart_line \<Rightarrow> exn" where
  "bad_variant line = validation (''Line '' @ line_id line @ '': a valid variantId is required for this product.'')"

definition no_variants :: "cart_line \<Rightarrow> exn" where
  "no_variants line = validation (''Line '' @ line_id line @ '': this product has no variants.'')"

definition truthy_id :: "uid option \<Rightarrow> uid option" where
  "truthy_id v = (if v = Some [] then None else v)"

text \<open>The products of the business with their live variants, as the query includes them.\<close>

definition liveVariants :: "db \<Rightarrow> uid \<Rightarrow> variant_row list" where
  "liveVariants base pid = filter (\<lambda>v. pv_productId v = pid \<and> live v) (db_productVariant base)"

definition lineCost :: "db \<Rightarrow> product_row list \<Rightarrow> cart_line \<Rightarrow> exn + (uid \<times> int option) option" where
  "lineCost base products line =
    (case productId line of
       None \<Rightarrow> Inr None
     | Some pid \<Rightarrow>
         (case find (\<lambda>p. r_id p = pid) products of
            None \<Rightarrow> Inl (unknown_product line)
          | Some product \<Rightarrow>
              (let variants = liveVariants base (r_id product)
               in if variants \<noteq> []
                  then (case Option.bind (truthy_id (variantId line)) (\<lambda>v. find (\<lambda>q. r_id q = v) variants) of
                          None \<Rightarrow> Inl (bad_variant line)
                        | Some variant \<Rightarrow> Inr (Some (line_id line, pv_cost variant)))
                  else if truthy_id (variantId line) \<noteq> None then Inl (no_variants line)
                  else Inr (Some (line_id line, pr_cost product)))))"

fun lineCosts :: "db \<Rightarrow> product_row list \<Rightarrow> cart_line list \<Rightarrow> (uid \<times> int option) list \<Rightarrow> exn + (uid \<times> int option) list" where
  "lineCosts base products [] m = Inr m"
| "lineCosts base products (line # ls) m =
    (case lineCost base products line of
       Inl e \<Rightarrow> Inl e
     | Inr None \<Rightarrow> lineCosts base products ls m
     | Inr (Some (k, c)) \<Rightarrow> lineCosts base products ls (AList.update k c m))"

definition validateLines :: "ctx \<Rightarrow> uid \<Rightarrow> cart_line list \<Rightarrow> (db, exn, (uid \<times> int option) list) op" where
  "validateLines ctx businessId lines =
    (let productIds = remdups (List.map_filter productId lines)
     in if productIds = [] then ret []
        else bind (scoped_findMany ctx product_t
                     (\<lambda>p. r_id p \<in> set productIds \<and> pr_businessId p = businessId)) (\<lambda>products.
             bind (reads (base_db ctx)) (\<lambda>base.
             lift_res (lineCosts base products lines []))))"

definition namedId :: "discount_spec option \<Rightarrow> uid option" where
  "namedId d = (case d of Some (Named i _ _ _) \<Rightarrow> Some i | _ \<Rightarrow> None)"

definition validateDiscounts :: "ctx \<Rightarrow> sale_draft \<Rightarrow> (db, exn, unit) op" where
  "validateDiscounts ctx dto =
    (let namedIds = List.map_filter namedId (sd_orderDiscount dto # map discount (sd_lines dto))
     in if namedIds = [] then ret ()
        else bind (guard (list_all UUID_RE namedIds) (validation ''A named discount reference is malformed.'')) (\<lambda>_.
             let uniq = remdups namedIds
             in bind (scoped_findMany ctx discount_t (\<lambda>d. r_id d \<in> set uniq)) (\<lambda>found.
                guard (list_all (\<lambda>i. i \<in> r_id ` set found) uniq) (validation ''Unknown discount reference.''))))"

definition assertPayment :: "sale_payment_dto \<Rightarrow> num \<Rightarrow> exn + unit" where
  "assertPayment payment due =
    (if pm_amountC payment \<noteq> due then Inl (validation ''Payment amount does not match the total.'')
     else if pm_method payment = Cash then
       (if pm_tenderedC payment < due then Inl (validation ''Tendered cash is less than the total.'')
        else if pm_changeC payment \<noteq> jsub (pm_tenderedC payment) due
        then Inl (validation ''Change does not equal tendered minus total.'')
        else Inr ())
     else Inr ())"

section \<open>Stock\<close>

definition is_tracked :: "cart_line \<Rightarrow> bool" where
  "is_tracked l \<longleftrightarrow> productId l \<noteq> None \<and> trackStock l"

definition line_key :: "cart_line \<Rightarrow> string" where
  "line_key l = keyOf (the (productId l)) (variantId l)"

definition row_key :: "branch_stock_row \<Rightarrow> string" where
  "row_key r = keyOf (bs_productId r) (bs_variantId r)"

definition get_or_0 :: "(string \<times> num) list \<Rightarrow> string \<Rightarrow> num" where
  "get_or_0 m k = (case map_of m k of None \<Rightarrow> 0 | Some x \<Rightarrow> x)"

definition bad_quantity :: exn where
  "bad_quantity = Crash ''quantity exceeds 3 decimal places''"

fun addWanted :: "cart_line list \<Rightarrow> (string \<times> num) list \<Rightarrow> exn + (string \<times> num) list" where
  "addWanted [] m = Inr m"
| "addWanted (l # ls) m =
    (case qtyToMilli (qty l) of
       None \<Rightarrow> Inl bad_quantity
     | Some milli \<Rightarrow> addWanted ls (AList.update (line_key l) (jadd (get_or_0 m (line_key l)) milli) m))"

definition lockStock :: "uid \<Rightarrow> uid list \<Rightarrow> (db, exn, (string \<times> num) list \<times> (string \<times> uid) list) op" where
  "lockStock branchId productIds =
    (if productIds = [] then ret ([], [])
     else reads (\<lambda>s.
       let rows = filter (\<lambda>r. bs_branchId r = branchId \<and> live r \<and> bs_productId r \<in> set productIds)
                    (db_branchStock s)
       in (foldl (\<lambda>m r. AList.update (row_key r)
             (of_int (js_round (jmul (fl (of_int (bs_qty r) / 1000)) 1000))) m) [] rows,
           foldl (\<lambda>m r. AList.update (row_key r) (r_id r) m) [] rows)))"

fun detectFrom ::
  "(string \<times> num) list \<Rightarrow> (string \<times> num) list \<Rightarrow> cart_line list \<Rightarrow> exn + stock_conflict list" where
  "detectFrom available claimed [] = Inr []"
| "detectFrom available claimed (line # ls) =
    (if \<not> is_tracked line then detectFrom available claimed ls
     else case qtyToMilli (qty line) of
       None \<Rightarrow> Inl bad_quantity
     | Some milli \<Rightarrow>
        (let k = line_key line; avail = get_or_0 available k;
             want = jadd (get_or_0 claimed k) milli
         in case detectFrom available (AList.update k want claimed) ls of
              Inl e \<Rightarrow> Inl e
            | Inr cs \<Rightarrow> Inr (if avail < want
                then \<lparr> cf_lineId = line_id line, cf_productId = the (productId line),
                       cf_variantId = variantId line, cf_availableQty = milliToQty avail \<rparr> # cs
                else cs)))"

definition detectConflicts :: "cart_line list \<Rightarrow> (string \<times> num) list \<Rightarrow> exn + stock_conflict list" where
  "detectConflicts lines available = detectFrom available [] lines"

definition decrementLevel :: "ctx \<Rightarrow> (string \<times> uid) list \<Rightarrow> string \<times> num \<Rightarrow> (db, exn, unit) op" where
  "decrementLevel ctx rowIdByKey kv =
    (case map_of rowIdByKey (fst kv) of
       None \<Rightarrow> throw (validation ''Stock level not found for a tracked line.'')
     | Some rowId \<Rightarrow>
        bind (scoped_update ctx branchStock_t (\<lambda>r. r_id r = rowId)
               (\<lambda>r. r\<lparr> bs_qty := bs_qty r - toFixed3 (jdiv (snd kv) 1000) \<rparr>)) (\<lambda>_. ret ()))"

section \<open>The rows of a sale\<close>

definition int_column :: "num \<Rightarrow> exn + int" where
  "int_column x = (if of_int \<lfloor>x\<rfloor> = x then Inr \<lfloor>x\<rfloor> else Inl (Crash ''not an integer''))"

definition orderDiscountId :: "sale_draft \<Rightarrow> uid option" where
  "orderDiscountId dto = namedId (sd_orderDiscount dto)"

record item_data =
  id_productId :: "uid option"
  id_variantId :: "uid option"
  id_name :: string
  id_qty :: milli
  id_unitPrice :: num
  id_cost :: "int option"
  id_discount :: num
  id_discountId :: "uid option"
  id_modifiers :: "cart_modifier list"

definition buildItem :: "cart_totals \<Rightarrow> (uid \<times> int option) list \<Rightarrow> cart_line \<Rightarrow> item_data" where
  "buildItem totals costByLine line =
    (let lt = find (\<lambda>x. lineId x = line_id line) (ct_lines totals);
         appliedC = (case lt of None \<Rightarrow> 0 | Some l \<Rightarrow> jsub (grossC l) (netC l));
         lineDiscountId = (if Option.bind lt applied = Some Promo then namedId (discount line) else None)
     in \<lparr> id_productId = productId line, id_variantId = variantId line, id_name = line_name line,
          id_qty = toFixed3 (qty line), id_unitPrice = unitPriceC line,
          id_cost = (case map_of costByLine (line_id line) of None \<Rightarrow> None | Some c \<Rightarrow> c),
          id_discount = appliedC, id_discountId = lineDiscountId, id_modifiers = modifiers line \<rparr>)"

definition sale_columns :: "cart_totals \<Rightarrow> exn + int list" where
  "sale_columns totals =
    (let xs = [subtotalC totals, ct_promoDiscountC totals, serviceChargeC totals, ct_scPwdDiscountC totals,
               vatExemptSalesC totals, vatC totals, totalC totals]
     in if list_all (\<lambda>x. of_int \<lfloor>x\<rfloor> = x) xs then Inr (map floor xs) else Inl (Crash ''not an integer''))"

text \<open>The sale row of \<open>buildSaleData\<close>; \<open>n\<close> is the current time.\<close>

definition buildSaleRow :: "time \<Rightarrow> sale_draft \<Rightarrow> cart_totals \<Rightarrow> uid \<Rightarrow> uid \<Rightarrow> sale_row" where
  "buildSaleRow n dto totals branchId terminalId =
    \<lparr> r_id = sd_id dto, r_createdAt = n, r_updatedAt = n, r_deletedAt = None,
      sl_branchId = branchId, sl_terminalId = terminalId, sl_shiftId = Some (sd_shiftId dto),
      sl_receiptNo = sd_receiptNo dto, sl_orderType = sd_orderType dto, sl_status = Completed,
      sl_statusReason = None, sl_subtotal = \<lfloor>subtotalC totals\<rfloor>, sl_discount = \<lfloor>ct_promoDiscountC totals\<rfloor>,
      sl_discountId = orderDiscountId dto, sl_serviceCharge = \<lfloor>serviceChargeC totals\<rfloor>,
      sl_scPwd = sd_scPwd dto, sl_scPwdDiscount = \<lfloor>ct_scPwdDiscountC totals\<rfloor>,
      sl_vatExemptSales = \<lfloor>vatExemptSalesC totals\<rfloor>, sl_tax = \<lfloor>vatC totals\<rfloor>, sl_total = \<lfloor>totalC totals\<rfloor>,
      sl_createdAtDevice = sd_createdAtDevice dto, sl_syncedAt = Some n, sl_voidedAt = None,
      sl_refundedAt = None, sl_refundShiftId = None, sl_draft = dto \<rparr>"

definition createItem :: "uid \<Rightarrow> item_data \<Rightarrow> (db, exn, unit) op" where
  "createItem saleId d =
    bind fresh_id (\<lambda>i.
    bind (lift_res (int_column (id_unitPrice d))) (\<lambda>price.
    bind (lift_res (int_column (id_discount d))) (\<lambda>disc.
    bind (raw_insert saleItem_t
      \<lparr> r_id = i, r_createdAt = 0, r_updatedAt = 0, r_deletedAt = None, si_saleId = saleId,
        si_productId = id_productId d, si_variantId = id_variantId d, si_nameSnapshot = id_name d,
        si_qty = id_qty d, si_unitPrice = price, si_costSnapshot = id_cost d, si_discount = disc,
        si_discountId = id_discountId d, si_modifiers = id_modifiers d \<rparr>) (\<lambda>_. ret ()))))"

definition createPayment :: "uid \<Rightarrow> sale_payment_dto \<Rightarrow> (db, exn, unit) op" where
  "createPayment saleId p =
    bind (lift_res (int_column (pm_amountC p))) (\<lambda>amount.
    bind (lift_res (int_column (pm_tenderedC p))) (\<lambda>tendered.
    bind (lift_res (int_column (pm_changeC p))) (\<lambda>change.
    bind (raw_insert salePayment_t
      \<lparr> r_id = pm_id p, r_createdAt = 0, r_updatedAt = 0, r_deletedAt = None, sp_saleId = saleId,
        sp_method = pm_method p, sp_reference = pm_referenceNo p, sp_amount = amount,
        sp_tendered = tendered, sp_change = change \<rparr>) (\<lambda>_. ret ()))))"

definition nestedSale :: "sale_draft \<Rightarrow> cart_totals \<Rightarrow> (uid \<times> int option) list \<Rightarrow> sale_row \<Rightarrow> (db, exn, unit) op" where
  "nestedSale dto totals costByLine created =
    bind (for_each (map (buildItem totals costByLine) (sd_lines dto)) (createItem (r_id created))) (\<lambda>_.
    createPayment (r_id created) (sd_payment dto))"

definition createSale ::
  "ctx \<Rightarrow> sale_draft \<Rightarrow> cart_totals \<Rightarrow> (uid \<times> int option) list \<Rightarrow> uid \<Rightarrow> uid \<Rightarrow> (db, exn, sale_row) op" where
  "createSale ctx dto totals costByLine branchId terminalId =
    bind now (\<lambda>n.
    bind (lift_res (sale_columns totals)) (\<lambda>_.
    scoped_create_nested ctx sale_t (Some branchId) (nestedSale dto totals costByLine)
      (buildSaleRow n dto totals branchId terminalId)))"

section \<open>Movements\<close>

definition movement_row :: "uid \<Rightarrow> uid \<Rightarrow> uid option \<Rightarrow> movement_type \<Rightarrow> uid \<Rightarrow> milli \<Rightarrow> uid \<Rightarrow> stock_movement_row" where
  "movement_row br p v ty ref delta i =
    \<lparr> r_id = i, r_createdAt = 0, r_updatedAt = 0, r_deletedAt = None, mv_branchId = br, mv_productId = p,
      mv_variantId = v, mv_type = ty, mv_refId = ref, mv_transferId = None, mv_qtyDelta = delta,
      mv_reasonCategory = None, mv_unitCost = None, mv_note = None \<rparr>"

definition createMovement ::
  "ctx \<Rightarrow> uid \<Rightarrow> uid \<Rightarrow> uid option \<Rightarrow> movement_type \<Rightarrow> uid \<Rightarrow> milli \<Rightarrow> (db, exn, unit) op" where
  "createMovement ctx br p v ty ref delta =
    bind fresh_id (\<lambda>i.
    bind (scoped_create ctx stockMovement_t (Some br) (movement_row br p v ty ref delta i)) (\<lambda>_. ret ()))"

definition saleMovement :: "ctx \<Rightarrow> uid \<Rightarrow> uid \<Rightarrow> cart_line \<Rightarrow> (db, exn, unit) op" where
  "saleMovement ctx branchId saleId l =
    (case qtyToMilli (qty l) of
       None \<Rightarrow> throw bad_quantity
     | Some milli \<Rightarrow>
        createMovement ctx branchId (the (productId l)) (variantId l) Mv_sale saleId
          (toFixed3 (jdiv (- milli) 1000)))"

section \<open>The transaction of a sale\<close>

definition bumpReceiptSeq :: "uid \<Rightarrow> string \<Rightarrow> (db, exn, unit) op" where
  "bumpReceiptSeq terminalId receiptNo =
    bind (reads (\<lambda>s. find (\<lambda>t. r_id t = terminalId) (db_terminal s))) (\<lambda>term.
    case term of
      None \<Rightarrow> ret ()
    | Some t \<Rightarrow>
        let nextSeq = max (of_int (tm_receiptSeq t)) (jadd (seqOf receiptNo) 1)
        in if nextSeq \<noteq> of_int (tm_receiptSeq t)
           then bind (raw_update terminal_t terminalId (\<lambda>r. r\<lparr> tm_receiptSeq := \<lfloor>nextSeq\<rfloor> \<rparr>)) (\<lambda>_. ret ())
           else ret ())"

definition persist ::
  "sale_draft \<Rightarrow> cart_totals \<Rightarrow> (uid \<times> int option) list \<Rightarrow> uid \<Rightarrow> uid \<Rightarrow> ctx \<Rightarrow> (db, exn, completed_sale) op" where
  "persist dto totals costByLine branchId terminalId ctx =
    (let tracked = filter is_tracked (sd_lines dto)
     in bind (lift_res (addWanted tracked [])) (\<lambda>wanted.
        bind (lockStock branchId (remdups (map (\<lambda>l. the (productId l)) tracked))) (\<lambda>(available, rowIdByKey).
        bind (reads (\<lambda>s. find (\<lambda>r. r_id r = sd_id dto) (db_sale s))) (\<lambda>concurrent.
        case concurrent of
          Some row \<Rightarrow> ret (assemble row)
        | None \<Rightarrow>
           bind (lift_res (detectConflicts (sd_lines dto) available)) (\<lambda>conflicts.
           bind (guard (conflicts = []) (Api (StockConflictHttpError conflicts))) (\<lambda>_.
           bind (for_each wanted (decrementLevel ctx rowIdByKey)) (\<lambda>_.
           bind (createSale ctx dto totals costByLine branchId terminalId) (\<lambda>created.
           bind (for_each tracked (saleMovement ctx branchId (r_id created))) (\<lambda>_.
           bind (bumpReceiptSeq terminalId (sd_receiptNo dto)) (\<lambda>_.
           ret (assemble created)))))))))))"

section \<open>Completing a sale\<close>

definition openShift :: "ctx \<Rightarrow> uid \<Rightarrow> (db, exn, shift_row option) op" where
  "openShift ctx terminalId = scoped_findFirst ctx shift_t (\<lambda>s. sh_terminalId s = terminalId \<and> sh_closedAt s = None)"

definition business_rates :: "business_row \<Rightarrow> rates" where
  "business_rates b = \<lparr> taxRate = fl (of_int (bz_taxRate b) / 10000),
     serviceChargeRate = fl (of_int (bz_serviceChargeRate b) / 10000) \<rparr>"

definition findSale :: "ctx \<Rightarrow> uid \<Rightarrow> (db, exn, sale_row option) op" where
  "findSale ctx i = scoped_findFirst ctx sale_t (\<lambda>r. r_id r = i)"

text \<open>Steps 2 to 6: what is checked before the transaction.\<close>

definition checkSale ::
  "ctx \<Rightarrow> uid \<Rightarrow> uid \<Rightarrow> sale_draft \<Rightarrow> (db, exn, cart_totals \<times> (uid \<times> int option) list) op" where
  "checkSale ctx businessId terminalId dto =
    bind (openShift ctx terminalId) (\<lambda>shift.
    bind (guard (map_option r_id shift = Some (sd_shiftId dto)) (validation ''The sale's shift is not open.'')) (\<lambda>_.
    bind (scoped_findFirst ctx business_t (\<lambda>b. r_id b = businessId)) (\<lambda>business.
    case business of
      None \<Rightarrow> throw (not_found ''Business not found.'')
    | Some b \<Rightarrow>
        bind (validateLines ctx businessId (sd_lines dto)) (\<lambda>costByLine.
        bind (validateDiscounts ctx dto) (\<lambda>_.
        case computeTotals (draft_cart dto) (business_rates b) of
          None \<Rightarrow> throw bad_quantity
        | Some totals \<Rightarrow>
            bind (guard (map_option canonical (sd_totals dto) = Some (canonical (totals_json totals)))
                    (validation ''Totals do not match a server-side recompute.'')) (\<lambda>_.
            bind (lift_res (assertPayment (sd_payment dto) (totalC totals))) (\<lambda>_.
            ret (totals, costByLine))))))))"

definition completeSale :: "(db \<Rightarrow> db) \<Rightarrow> ctx \<Rightarrow> sale_draft \<Rightarrow> (db, exn, bool \<times> completed_sale) op" where
  "completeSale env ctx dto =
    (case (cx_branchId ctx, cx_actor ctx, cx_businessId ctx) of
       (Some branchId, Some (_, terminalId), Some businessId) \<Rightarrow>
         bind (findSale ctx (sd_id dto)) (\<lambda>existing.
         case existing of
           Some row \<Rightarrow> ret (True, assemble row)
         | None \<Rightarrow>
             bind (checkSale ctx businessId terminalId dto) (\<lambda>(totals, costByLine).
             bind (modify env) (\<lambda>_.
             catch_op
               (bind (runWithTxClient ctx (persist dto totals costByLine branchId terminalId)) (\<lambda>sale.
                ret (False, sale)))
               (\<lambda>err. if err = Unique_violation
                  then bind (findSale ctx (sd_id dto)) (\<lambda>dup.
                       case dup of Some row \<Rightarrow> ret (True, assemble row)
                       | None \<Rightarrow> throw (validation ''This receipt number is already in use.''))
                  else throw err))))
     | _ \<Rightarrow> throw (Crash ''no terminal context''))"

section \<open>Listing and reading sales\<close>

text \<open>\<open>day\<close> counts days since 1970-01-01 in Manila (UTC+8).\<close>

definition listSales :: "ctx \<Rightarrow> int option \<Rightarrow> (db, exn, sale_summary list) op" where
  "listSales ctx day =
    bind (scoped_findMany ctx sale_t (\<lambda>r.
      (case cx_actor ctx of None \<Rightarrow> True | Some a \<Rightarrow> sl_terminalId r = snd a)
      \<and> (case day of None \<Rightarrow> True
          | Some d \<Rightarrow> let start = d * 86400000 - 8 * 3600000
                      in start \<le> r_createdAt r \<and> r_createdAt r < start + 24 * 60 * 60 * 1000))) (\<lambda>rows.
    ret (map assembleSummary (sort_key (\<lambda>r. - r_createdAt r) rows)))"

definition getSale :: "ctx \<Rightarrow> uid \<Rightarrow> (db, exn, completed_sale) op" where
  "getSale ctx i =
    bind (findSale ctx i) (\<lambda>row.
    case row of None \<Rightarrow> throw (not_found ''Sale not found.'') | Some r \<Rightarrow> ret (assemble r))"

section \<open>Void and refund\<close>

definition lockSale :: "uid \<Rightarrow> uid \<Rightarrow> (db, exn, (sale_status \<times> uid option) option) op" where
  "lockSale i branchId =
    (if \<not> UUID_RE i then ret None
     else reads (\<lambda>s. map_option (\<lambda>r. (sl_status r, sl_shiftId r))
            (find (\<lambda>r. r_id r = i \<and> sl_branchId r = branchId \<and> live r) (db_sale s))))"

definition restored :: "stock_movement_row \<Rightarrow> milli" where
  "restored m = toFixed3 (- fl (of_int (mv_qtyDelta m) / 1000))"

definition restoreLevel :: "ctx \<Rightarrow> stock_movement_row \<Rightarrow> branch_stock_row option \<Rightarrow> (db, exn, unit) op" where
  "restoreLevel ctx m existing =
    (case existing of
       Some e \<Rightarrow>
         bind (scoped_update ctx branchStock_t (\<lambda>r. r_id r = r_id e)
                (\<lambda>r. r\<lparr> bs_qty := bs_qty r + restored m \<rparr>)) (\<lambda>_. ret ())
     | None \<Rightarrow>
         bind fresh_id (\<lambda>i.
         bind (scoped_create ctx branchStock_t (Some (mv_branchId m))
                \<lparr> r_id = i, r_createdAt = 0, r_updatedAt = 0, r_deletedAt = None, bs_branchId = mv_branchId m,
                  bs_productId = mv_productId m, bs_variantId = mv_variantId m, bs_qty = restored m \<rparr>) (\<lambda>_. ret ())))"

definition restoreOne :: "ctx \<Rightarrow> uid \<Rightarrow> movement_type \<Rightarrow> stock_movement_row \<Rightarrow> (db, exn, unit) op" where
  "restoreOne ctx saleId ty m =
    bind (scoped_findFirst ctx branchStock_t (\<lambda>r. bs_branchId r = mv_branchId m
            \<and> bs_productId r = mv_productId m \<and> bs_variantId r = mv_variantId m \<and> live r)) (\<lambda>existing.
    bind (restoreLevel ctx m existing) (\<lambda>_.
    createMovement ctx (mv_branchId m) (mv_productId m) (mv_variantId m) ty saleId (restored m)))"

definition restoreStock :: "ctx \<Rightarrow> uid \<Rightarrow> movement_type \<Rightarrow> (db, exn, unit) op" where
  "restoreStock ctx saleId ty =
    bind (scoped_findMany ctx stockMovement_t (\<lambda>m. mv_refId m = saleId \<and> mv_type m = Mv_sale)) (\<lambda>saleMoves.
    for_each saleMoves (restoreOne ctx saleId ty))"

fun status_name :: "sale_status \<Rightarrow> string" where
  "status_name Completed = ''completed''"
| "status_name Voided = ''voided''"
| "status_name Refunded = ''refunded''"

definition voidBody :: "uid \<Rightarrow> string \<Rightarrow> uid \<Rightarrow> uid \<Rightarrow> ctx \<Rightarrow> (db, exn, completed_sale) op" where
  "voidBody i trimmed branchId terminalId ctx =
    bind (lockSale i branchId) (\<lambda>locked.
    case locked of
      None \<Rightarrow> throw (not_found ''Sale not found.'')
    | Some (status, shiftId) \<Rightarrow>
        bind (guard (status = Completed)
                (validation (''A '' @ status_name status @ '' sale cannot be voided.''))) (\<lambda>_.
        bind (openShift ctx terminalId) (\<lambda>open.
        bind (guard (open \<noteq> None \<and> map_option r_id open = shiftId)
                (validation ''Voids are only allowed while the sale's shift is open.'')) (\<lambda>_.
        bind now (\<lambda>n.
        bind (scoped_update ctx sale_t (\<lambda>r. r_id r = i)
                (\<lambda>r. r\<lparr> sl_status := Voided, sl_voidedAt := Some n, sl_statusReason := Some trimmed \<rparr>)) (\<lambda>after.
        bind (restoreStock ctx i Mv_void) (\<lambda>_.
        ret (assemble after))))))))"

definition voidSale :: "ctx \<Rightarrow> uid \<Rightarrow> string \<Rightarrow> (db, exn, completed_sale) op" where
  "voidSale ctx i reason =
    (let trimmed = trim reason
     in if trimmed = [] then throw (validation ''A reason is required.'')
        else case (cx_branchId ctx, cx_actor ctx) of
          (Some branchId, Some (_, terminalId)) \<Rightarrow>
            runWithTxClient ctx (voidBody i trimmed branchId terminalId)
        | _ \<Rightarrow> throw (Crash ''no terminal context''))"

definition refundBody :: "uid \<Rightarrow> string \<Rightarrow> uid \<Rightarrow> uid \<Rightarrow> ctx \<Rightarrow> (db, exn, completed_sale) op" where
  "refundBody i trimmed branchId terminalId ctx =
    bind (lockSale i branchId) (\<lambda>locked.
    case locked of
      None \<Rightarrow> throw (not_found ''Sale not found.'')
    | Some (status, shiftId) \<Rightarrow>
        bind (guard (status = Completed)
                (validation (''A '' @ status_name status @ '' sale cannot be refunded.''))) (\<lambda>_.
        bind (openShift ctx terminalId) (\<lambda>open.
        let refundShiftId = (if open \<noteq> None \<and> map_option r_id open = shiftId then map_option r_id open else None)
        in bind now (\<lambda>n.
           bind (scoped_update ctx sale_t (\<lambda>r. r_id r = i)
                   (\<lambda>r. r\<lparr> sl_status := Refunded, sl_refundedAt := Some n, sl_statusReason := Some trimmed,
                           sl_refundShiftId := refundShiftId \<rparr>)) (\<lambda>after.
           bind (restoreStock ctx i Mv_refund) (\<lambda>_.
           ret (assemble after)))))))"

definition refundSale ::
  "(string \<Rightarrow> string \<Rightarrow> bool) \<Rightarrow> ctx \<Rightarrow> uid \<Rightarrow> string \<Rightarrow> string \<Rightarrow> (db, exn, completed_sale) op" where
  "refundSale verify ctx i reason pin =
    (case cx_ownerId ctx of
       None \<Rightarrow> throw (Crash ''no terminal context'')
     | Some ownerId \<Rightarrow>
        bind (verifyPinWithLockout verify ctx ownerId pin) (\<lambda>_.
        let trimmed = trim reason
        in if trimmed = [] then throw (validation ''A reason is required.'')
           else case (cx_branchId ctx, cx_actor ctx) of
             (Some branchId, Some (_, terminalId)) \<Rightarrow>
               runWithTxClient ctx (refundBody i trimmed branchId terminalId)
           | _ \<Rightarrow> throw (Crash ''no terminal context'')))"

end
