(* ===== verification/SaleStock.thy ===== *)
theory SaleStock
  imports Sales
begin

text \<open>
  The stock arithmetic of a sale: what the accumulated maps hold, when a basket conflicts,
  and what decrementing the levels does to the stock table.
\<close>

section \<open>Keys and quantities\<close>

text \<open>The identifiers of the schema, which contain no colon (\<open>uid_ok\<close> holds of every UUID).\<close>

definition uid_ok :: "uid \<Rightarrow> bool" where
  "uid_ok i \<longleftrightarrow> i \<noteq> [] \<and> CHR '':'' \<notin> set i"

definition vid_ok :: "uid option \<Rightarrow> bool" where
  "vid_ok v \<longleftrightarrow> (case v of None \<Rightarrow> True | Some i \<Rightarrow> i \<noteq> [])"

lemma append_sep_inj:
  "x \<notin> set a \<Longrightarrow> x \<notin> set b \<Longrightarrow> a @ x # c = b @ x # d \<longleftrightarrow> a = b \<and> c = d"
proof (induction a arbitrary: b)
  case Nil
  then show ?case by (cases b) auto
next
  case (Cons y a)
  then show ?case by (cases b) auto
qed

lemma keyOf_inj:
  assumes "uid_ok p" "uid_ok q" "vid_ok v" "vid_ok w"
  shows "keyOf p v = keyOf q w \<longleftrightarrow> p = q \<and> v = w"
  using assms by (auto simp: keyOf_def uid_ok_def vid_ok_def append_sep_inj split: option.splits)

definition line_ids_ok :: "cart_line \<Rightarrow> bool" where
  "line_ids_ok l \<longleftrightarrow> (case productId l of None \<Rightarrow> True | Some p \<Rightarrow> uid_ok p) \<and> vid_ok (variantId l)"

definition line_milli :: "cart_line \<Rightarrow> int" where
  "line_milli l = (case qtyToMilli (qty l) of None \<Rightarrow> 0 | Some m \<Rightarrow> \<lfloor>m\<rfloor>)"

text \<open>A line whose quantity the validator accepts.\<close>

definition qty_ok :: "cart_line \<Rightarrow> bool" where
  "qty_ok l \<longleftrightarrow> qtyToMilli (qty l) = Some (of_int (line_milli l)) \<and> 0 < line_milli l \<and> line_milli l \<le> 10 ^ 9"

lemma line_valid_qty_ok: "line_valid isUUID l \<Longrightarrow> qty_ok l"
  by (erule line_valid_milli) (simp add: qty_ok_def line_milli_def)

definition key_milli :: "cart_line list \<Rightarrow> string \<Rightarrow> int" where
  "key_milli ls k = sum_list (map line_milli (filter (\<lambda>l. line_key l = k) ls))"

lemma key_milli_simps [simp]:
  "key_milli [] k = 0"
  "key_milli (l # ls) k = (if line_key l = k then line_milli l else 0) + key_milli ls k"
  by (simp_all add: key_milli_def)

lemma key_milli_bounds:
  assumes "\<forall>l \<in> set ls. qty_ok l"
  shows "0 \<le> key_milli ls k" and "key_milli ls k \<le> int (List.length ls) * 10 ^ 9"
  using assms by (induction ls) (auto simp: qty_ok_def)

lemma key_milli_pos: "\<forall>l \<in> set ls. qty_ok l \<Longrightarrow> l \<in> set ls \<Longrightarrow> 0 < key_milli ls (line_key l)"
proof (induction ls)
  case (Cons x xs)
  have "0 \<le> key_milli xs (line_key l)" using Cons.prems by (intro key_milli_bounds) auto
  with Cons show ?case by (auto simp: qty_ok_def add_pos_nonneg add_nonneg_pos)
qed simp

lemma key_milli_none: "(\<forall>l \<in> set ls. line_key l \<noteq> k) \<Longrightarrow> key_milli ls k = 0"
  by (induction ls) auto

section \<open>The wanted quantities\<close>

definition int_map :: "(string \<times> num) list \<Rightarrow> (string \<Rightarrow> int) \<Rightarrow> bool" where
  "int_map m F \<longleftrightarrow> (\<forall>k. get_or_0 m k = of_int (F k))"

lemma get_or_0_update: "get_or_0 (AList.update k v m) k' = (if k' = k then v else get_or_0 m k')"
  by (simp add: get_or_0_def update_conv')

lemma int_map_add:
  assumes "int_map m F" "\<bar>F k + x\<bar> < 2 ^ 53"
  shows "int_map (AList.update k (jadd (get_or_0 m k) (of_int x)) m) (F(k := F k + x))"
  using assms by (auto simp: int_map_def get_or_0_update simp del: of_int_add)

lemma addWanted_spec:
  assumes "addWanted ls m = Inr W" "\<forall>l \<in> set ls. qty_ok l" "int_map m F"
    and "\<forall>k. 0 \<le> F k \<and> F k + int (List.length ls) * 10 ^ 9 < 2 ^ 53"
  shows "int_map W (\<lambda>k. F k + key_milli ls k) \<and> dom (map_of W) = dom (map_of m) \<union> line_key ` set ls"
  using assms
proof (induction ls arbitrary: m F)
  case Nil
  then show ?case by simp
next
  case (Cons l ls)
  have q: "qtyToMilli (qty l) = Some (of_int (line_milli l))" "0 < line_milli l" "line_milli l \<le> 10 ^ 9"
    using Cons.prems(2) by (auto simp: qty_ok_def)
  let ?k = "line_key l"
  let ?m = "AList.update ?k (jadd (get_or_0 m ?k) (of_int (line_milli l))) m"
  let ?F = "F(?k := F ?k + line_milli l)"
  have b: "0 \<le> F k \<and> F k + 10 ^ 9 + int (List.length ls) * 10 ^ 9 < 2 ^ 53" for k
    using Cons.prems(4) by (auto simp: algebra_simps)
  have im: "int_map ?m ?F"
    using b [of ?k] q by (intro int_map_add Cons.prems(3)) auto
  have "\<forall>k. 0 \<le> ?F k \<and> ?F k + int (List.length ls) * 10 ^ 9 < 2 ^ 53"
    using b q by (auto simp: add_increasing) (smt (verit) b)+
  from Cons.IH [OF _ _ im this] Cons.prems(1,2) q(1)
  show ?case by (auto simp: int_map_def update_conv' fun_upd_def algebra_simps)
qed

text \<open>A map filled from rows with distinct keys.\<close>

lemma map_of_fold_update:
  "map_of (foldl (\<lambda>m r. AList.update (f r) (g r) m) m rows)
    = map_of m ++ map_of (rev (map (\<lambda>r. (f r, g r)) rows))"
  by (induction rows arbitrary: m) (auto simp: update_conv' fun_eq_iff map_add_def split: option.splits)

lemma map_of_rev_distinct:
  "distinct (map f rows) \<Longrightarrow> r \<in> set rows \<Longrightarrow> map_of (rev (map (\<lambda>r. (f r, g r)) rows)) (f r) = Some (g r)"
  by (rule map_of_is_SomeI) (auto simp: rev_map [symmetric] comp_def)

lemma map_of_rev_SomeD:
  "map_of (rev (map (\<lambda>r. (f r, g r)) rows)) k = Some v \<Longrightarrow> \<exists>r \<in> set rows. f r = k \<and> g r = v"
  by (drule map_of_SomeD) auto

section \<open>Conflicts\<close>

lemma detectFrom_spec:
  assumes "detectFrom available claimed ls = Inr cs" "\<forall>l \<in> set ls. is_tracked l \<longrightarrow> qty_ok l"
    and "int_map claimed F" "\<forall>k. 0 \<le> F k \<and> F k + int (List.length ls) * 10 ^ 9 < 2 ^ 53"
    and "\<forall>k. get_or_0 available k = of_int (A k)"
  shows "cs = [] \<longleftrightarrow> (\<forall>l \<in> set ls. is_tracked l \<longrightarrow>
    F (line_key l) + key_milli (filter is_tracked ls) (line_key l) \<le> A (line_key l))"
  using assms
proof (induction ls arbitrary: claimed F cs)
  case Nil
  then show ?case by simp
next
  case (Cons l ls)
  have b: "0 \<le> F k \<and> F k + 10 ^ 9 + int (List.length ls) * 10 ^ 9 < 2 ^ 53" for k
    using Cons.prems(4) by (auto simp: algebra_simps)
  show ?case
  proof (cases "is_tracked l")
    case False
    have "\<forall>k. 0 \<le> F k \<and> F k + int (List.length ls) * 10 ^ 9 < 2 ^ 53"
      using b by (smt (verit) zero_less_power)
    with Cons False show ?thesis by simp
  next
    case True
    have q: "qtyToMilli (qty l) = Some (of_int (line_milli l))" "0 < line_milli l" "line_milli l \<le> 10 ^ 9"
      using Cons.prems(2) True by (auto simp: qty_ok_def)
    let ?k = "line_key l"
    let ?F = "F(?k := F ?k + line_milli l)"
    have im: "int_map (AList.update ?k (jadd (get_or_0 claimed ?k) (of_int (line_milli l))) claimed) ?F"
      using b [of ?k] q by (intro int_map_add Cons.prems(3)) auto
    have Fb: "\<forall>k. 0 \<le> ?F k \<and> ?F k + int (List.length ls) * 10 ^ 9 < 2 ^ 53"
      using b q by (auto simp: add_increasing) (smt (verit) b)+
    have want: "jadd (get_or_0 claimed ?k) (of_int (line_milli l)) = of_int (F ?k + line_milli l)"
      using im [unfolded int_map_def, rule_format, of ?k] by (simp only: get_or_0_update fun_upd_same if_True simp_thms)
    obtain cs' where cs': "detectFrom available
        (AList.update ?k (jadd (get_or_0 claimed ?k) (of_int (line_milli l))) claimed) ls = Inr cs'"
      and cs: "cs = [] \<longleftrightarrow> F ?k + line_milli l \<le> A ?k \<and> cs' = []"
      using Cons.prems(1,5) True q(1) want
      by (auto simp: Let_def not_less split: sum.splits if_splits simp del: of_int_add)
    have nn: "0 \<le> key_milli (filter is_tracked ls) k" for k
      using Cons.prems(2) by (intro key_milli_bounds) auto
    note IH = Cons.IH [OF cs' _ im Fb Cons.prems(5)]
    define T where "T k = F k + key_milli (filter is_tracked (l # ls)) k" for k
    have TF: "?F k + key_milli (filter is_tracked ls) k = T k" for k
      using True by (simp add: T_def)
    have rest: "cs' = [] \<longleftrightarrow> (\<forall>x \<in> set ls. is_tracked x \<longrightarrow> T (line_key x) \<le> A (line_key x))"
      using IH Cons.prems(2) by (simp only: TF) simp
    have le: "F ?k + line_milli l \<le> T ?k"
      using True nn [of ?k] by (simp add: T_def)
    consider "T ?k = F ?k + line_milli l" | x where "x \<in> set ls" "is_tracked x" "line_key x = ?k"
      using True key_milli_none [of "filter is_tracked ls" ?k] by (auto simp: T_def)
    then have "cs = [] \<longleftrightarrow> T ?k \<le> A ?k \<and> (\<forall>x \<in> set ls. is_tracked x \<longrightarrow> T (line_key x) \<le> A (line_key x))"
    proof cases
      case 1
      then show ?thesis using cs rest by simp
    next
      case 2
      then show ?thesis using cs rest le by (metis order_trans)
    qed
    then show ?thesis using True by (simp add: T_def)
  qed
qed

section \<open>Frames\<close>

text \<open>What holds of the state whatever is written to one table and to the audit log.\<close>

definition framed :: "(db \<Rightarrow> bool) \<Rightarrow> 'a table \<Rightarrow> bool" where
  "framed P t \<longleftrightarrow> (\<forall>s xs. P s \<longrightarrow> P (tb_put t xs s))
    \<and> (\<forall>s as n. P s \<longrightarrow> P (s\<lparr> db_auditLog := as, db_nextId := n \<rparr>))"

lemma framed_insert: "framed P t \<Longrightarrow> keeps P (raw_insert t r)"
  by (auto simp: keeps_def framed_def raw_insert_def Let_def split: option.split)

lemma framed_update: "framed P t \<Longrightarrow> keeps P (raw_update t i f)"
  by (auto simp: keeps_def framed_def raw_update_def Let_def split: option.split)

lemma framed_audit: "framed P t \<Longrightarrow> keeps P (writeAudit base ctx m oper i b a e)"
  by (auto simp: keeps_def framed_def audited_def)

lemma framed_fresh: "framed P t \<Longrightarrow> keeps P fresh_id"
proof (rule keepsI)
  fix s assume f: "framed P t" and s: "P s"
  have "P (s\<lparr> db_auditLog := db_auditLog s, db_nextId := Suc (db_nextId s) \<rparr>)"
    using f s unfolding framed_def by blast
  then show "P (snd (fresh_id s))" by simp
qed

lemma framed_scoped_update: "framed P t \<Longrightarrow> keeps P (scoped_update ctx t p f)"
  unfolding scoped_update_def scoped_update_nested_def update_body_def
  by (intro keeps_intros framed_update framed_audit [of P t])

lemma framed_scoped_create_nested:
  "framed P t \<Longrightarrow> (\<And>r. keeps P (nested r)) \<Longrightarrow> keeps P (scoped_create_nested ctx t sc nested r)"
  unfolding scoped_create_nested_def create_body_def
  by (intro keeps_intros framed_insert framed_audit [of P t])

lemma framed_scoped_create: "framed P t \<Longrightarrow> keeps P (scoped_create ctx t sc r)"
  unfolding scoped_create_def by (intro framed_scoped_create_nested keeps_intros)

lemma framed_movement: "framed P stockMovement_t \<Longrightarrow> keeps P (createMovement ctx br p v ty ref d)"
  unfolding createMovement_def
  by (intro keeps_intros framed_scoped_create framed_fresh [of P stockMovement_t])

lemma framed_saleMovement: "framed P stockMovement_t \<Longrightarrow> keeps P (saleMovement ctx br i l)"
  unfolding saleMovement_def by (intro keeps_intros framed_movement) auto

lemma framed_bump: "framed P terminal_t \<Longrightarrow> keeps P (bumpReceiptSeq tm no)"
  unfolding bumpReceiptSeq_def by (intro keeps_intros framed_update)

lemma framed_decrement: "framed P branchStock_t \<Longrightarrow> keeps P (decrementLevel ctx ids kv)"
  unfolding decrementLevel_def by (intro keeps_intros framed_scoped_update)

lemma framed_nestedSale:
  "framed P saleItem_t \<Longrightarrow> framed P salePayment_t \<Longrightarrow> keeps P (nestedSale dto totals costs r)"
  unfolding nestedSale_def createItem_def createPayment_def
  by (intro keeps_intros framed_insert framed_fresh [of P saleItem_t])

lemma framed_createSale:
  "framed P sale_t \<Longrightarrow> framed P saleItem_t \<Longrightarrow> framed P salePayment_t \<Longrightarrow>
    keeps P (createSale ctx dto totals costs br tm)"
  unfolding createSale_def by (intro keeps_intros framed_scoped_create_nested framed_nestedSale)

text \<open>The rows of one table are framed by writes to every other.\<close>

lemma framed_sale [simp]:
  "framed (\<lambda>s. db_sale s = X) branchStock_t" "framed (\<lambda>s. db_sale s = X) stockMovement_t"
  "framed (\<lambda>s. db_sale s = X) terminal_t" "framed (\<lambda>s. db_sale s = X) saleItem_t"
  "framed (\<lambda>s. db_sale s = X) salePayment_t"
  by (simp_all add: framed_def table_defs)

lemma framed_stock [simp]:
  "framed (\<lambda>s. db_branchStock s = X) sale_t" "framed (\<lambda>s. db_branchStock s = X) stockMovement_t"
  "framed (\<lambda>s. db_branchStock s = X) terminal_t" "framed (\<lambda>s. db_branchStock s = X) saleItem_t"
  "framed (\<lambda>s. db_branchStock s = X) salePayment_t"
  by (simp_all add: framed_def table_defs)

lemma framed_moves [simp]:
  "framed (\<lambda>s. db_stockMovement s = X) sale_t" "framed (\<lambda>s. db_stockMovement s = X) branchStock_t"
  "framed (\<lambda>s. db_stockMovement s = X) terminal_t" "framed (\<lambda>s. db_stockMovement s = X) saleItem_t"
  "framed (\<lambda>s. db_stockMovement s = X) salePayment_t"
  by (simp_all add: framed_def table_defs)

text \<open>A kept equation: the component after the step is the component before it.\<close>

lemma keeps_eq: "(\<And>X. keeps (\<lambda>s. g s = X) m) \<Longrightarrow> m s = (r, s') \<Longrightarrow> g s' = g s"
  using keepsD [where P = "\<lambda>t. g t = g s" and m = m and s = s] by simp

section \<open>Decrementing levels\<close>

text \<open>Row by row, a table that differs only in the levels, lower by \<open>d\<close> of the row's id.\<close>

definition same_level_row :: "branch_stock_row \<Rightarrow> branch_stock_row \<Rightarrow> bool" where
  "same_level_row r r' \<longleftrightarrow> r_id r' = r_id r \<and> r_deletedAt r' = r_deletedAt r \<and> r_createdAt r' = r_createdAt r
    \<and> bs_branchId r' = bs_branchId r \<and> bs_productId r' = bs_productId r \<and> bs_variantId r' = bs_variantId r"

definition lowered :: "(uid \<Rightarrow> int) \<Rightarrow> branch_stock_row list \<Rightarrow> branch_stock_row list \<Rightarrow> bool" where
  "lowered d rows rows' \<longleftrightarrow>
    list_all2 (\<lambda>r r'. same_level_row r r' \<and> bs_qty r' = bs_qty r - d (r_id r)) rows rows'"

lemma lowered_refl: "(\<And>i. d i = 0) \<Longrightarrow> lowered d rows rows"
  by (simp add: lowered_def list_all2_refl same_level_row_def)

lemma lowered_trans:
  assumes "lowered d xs ys" "lowered e ys zs"
  shows "lowered (\<lambda>i. d i + e i) xs zs"
proof -
  have "list_all2 (\<lambda>r r'. same_level_row r r' \<and> bs_qty r' = bs_qty r - (d (r_id r) + e (r_id r))) xs zs"
    using list_all2_trans [OF _ assms [unfolded lowered_def],
        of "\<lambda>r r'. same_level_row r r' \<and> bs_qty r' = bs_qty r - (d (r_id r) + e (r_id r))"]
    by (auto simp: same_level_row_def)
  then show ?thesis by (simp add: lowered_def)
qed

lemma lowered_cong: "lowered d xs ys \<Longrightarrow> (\<And>r. r \<in> set xs \<Longrightarrow> d (r_id r) = e (r_id r)) \<Longrightarrow> lowered e xs ys"
  unfolding lowered_def by (erule list.rel_mono_strong) auto

lemma lowered_ids: "lowered d xs ys \<Longrightarrow> map r_id ys = map r_id xs"
  unfolding lowered_def
  by (induction rule: list_all2_induct) (auto simp: same_level_row_def)

lemma raw_update_stock:
  assumes "raw_update branchStock_t i f s = (Inr r', s')" "distinct (map r_id (db_branchStock s))"
    and f: "\<And>r. same_level_row r (f r) \<and> bs_qty (f r) = bs_qty r - d"
  shows "lowered (\<lambda>j. if j = i then d else 0) (db_branchStock s) (db_branchStock s')"
    and "i \<in> r_id ` set (db_branchStock s)"
    and "\<forall>r \<in> set (db_branchStock s). 0 \<le> bs_qty r \<Longrightarrow> \<forall>r \<in> set (db_branchStock s'). 0 \<le> bs_qty r"
proof -
  from branchStock_tb.raw_update_cases [OF assms(1)] obtain r
    where r: "find (\<lambda>r. r_id r = i) (db_branchStock s) = Some r"
      and r': "r' = (f r)\<lparr> r_updatedAt := db_now s \<rparr>"
      and s': "db_branchStock s' = upd_rows (\<lambda>q. r_id q = i) (\<lambda>_. r') (db_branchStock s)"
    by (auto simp: branchStock_t_def)
  note rD = find_SomeD [OF r]
  have uniq: "q = r" if "q \<in> set (db_branchStock s)" "r_id q = i" for q
    using find_key_unique [OF assms(2) r that] .
  have s'': "db_branchStock s' = map (\<lambda>q. if r_id q = i then (f q)\<lparr> r_updatedAt := db_now s \<rparr> else q) (db_branchStock s)"
    unfolding s' upd_rows_def r' by (rule map_cong) (auto dest: uniq)
  show "lowered (\<lambda>j. if j = i then d else 0) (db_branchStock s) (db_branchStock s')"
    unfolding lowered_def s''
    using f by (auto simp: list_all2_map2 list_all2_same same_level_row_def)
  show "i \<in> r_id ` set (db_branchStock s)" using rD by auto
  have "0 \<le> bs_qty r'"
    using assms(1) by (auto simp: raw_update_def branchStock_t_def Let_def column_check_def split: option.splits if_splits)
  then show "\<forall>r \<in> set (db_branchStock s'). 0 \<le> bs_qty r"
    if "\<forall>r \<in> set (db_branchStock s). 0 \<le> bs_qty r"
    using that by (auto simp: s' set_upd_rows)
qed

lemma audited_stock [simp]: "db_branchStock (audited a s) = db_branchStock s"
  by (simp add: audited_def)

lemma scoped_update_stock:
  assumes "scoped_update ctx branchStock_t (\<lambda>r. r_id r = i) f s = (Inr r', s')"
    and "distinct (map r_id (db_branchStock s))"
    and "\<And>r. same_level_row r (f r) \<and> bs_qty (f r) = bs_qty r - d"
  shows "lowered (\<lambda>j. if j = i then d else 0) (db_branchStock s) (db_branchStock s')"
    and "\<forall>r \<in> set (db_branchStock s). 0 \<le> bs_qty r \<Longrightarrow> \<forall>r \<in> set (db_branchStock s'). 0 \<le> bs_qty r"
proof -
  obtain prev s1 where p: "find (\<lambda>r. r_id r = i \<and> in_scope ctx branchStock_t (base_db ctx s) r)
        (tb_get branchStock_t (base_db ctx s)) = Some prev"
      and u: "raw_update branchStock_t (r_id prev) f s = (Inr r', s1)"
      and s': "db_branchStock s' = db_branchStock s1"
    using assms(1) unfolding scoped_update_Inr by auto
  have "r_id prev = i" using find_SomeD [OF p] by simp
  with raw_update_stock [OF u assms(2,3)] s'
  show "lowered (\<lambda>j. if j = i then d else 0) (db_branchStock s) (db_branchStock s')"
    "\<forall>r \<in> set (db_branchStock s). 0 \<le> bs_qty r \<Longrightarrow> \<forall>r \<in> set (db_branchStock s'). 0 \<le> bs_qty r"
    by simp_all
qed

definition dec_of :: "(string \<times> uid) list \<Rightarrow> (string \<times> num) list \<Rightarrow> uid \<Rightarrow> int" where
  "dec_of ids W i = sum_list (map (\<lambda>kv. if map_of ids (fst kv) = Some i then toFixed3 (jdiv (snd kv) 1000) else 0) W)"

lemma decrement_all:
  assumes "for_each W (decrementLevel ctx ids) s = (Inr (), s')"
    and "distinct (map r_id (db_branchStock s))"
  shows "lowered (dec_of ids W) (db_branchStock s) (db_branchStock s')"
    and "\<forall>r \<in> set (db_branchStock s). 0 \<le> bs_qty r \<Longrightarrow> \<forall>r \<in> set (db_branchStock s'). 0 \<le> bs_qty r"
  using assms
proof (induction W arbitrary: s)
  case Nil
  { case 1 then show ?case by (simp add: lowered_refl dec_of_def) }
  { case 2 then show ?case by simp }
next
  case (Cons kv W)
  have step: "\<exists>s1. lowered (\<lambda>j. if map_of ids (fst kv) = Some j then toFixed3 (jdiv (snd kv) 1000) else 0)
        (db_branchStock s) (db_branchStock s1)
      \<and> ((\<forall>r \<in> set (db_branchStock s). 0 \<le> bs_qty r) \<longrightarrow> (\<forall>r \<in> set (db_branchStock s1). 0 \<le> bs_qty r))
      \<and> for_each W (decrementLevel ctx ids) s1 = (Inr (), s')"
    if run: "for_each (kv # W) (decrementLevel ctx ids) s = (Inr (), s')"
      and d: "distinct (map r_id (db_branchStock s))" for s
  proof -
    obtain s1 where s1: "decrementLevel ctx ids kv s = (Inr (), s1)" "for_each W (decrementLevel ctx ids) s1 = (Inr (), s')"
      using run by (auto simp: bind_eq_Inr)
    then obtain i r' where i: "map_of ids (fst kv) = Some i"
      "scoped_update ctx branchStock_t (\<lambda>r. r_id r = i)
        (\<lambda>r. r\<lparr> bs_qty := bs_qty r - toFixed3 (jdiv (snd kv) 1000) \<rparr>) s = (Inr r', s1)"
      by (auto simp: decrementLevel_def bind_eq_Inr split: option.splits)
    have f: "same_level_row r (r\<lparr> bs_qty := bs_qty r - x \<rparr>) \<and> bs_qty (r\<lparr> bs_qty := bs_qty r - x \<rparr>) = bs_qty r - x" for r x
      by (simp add: same_level_row_def)
    from scoped_update_stock [OF i(2) d f] s1(2) i(1) show ?thesis
      by (auto intro!: exI [of _ s1] elim!: lowered_cong)
  qed
  { case 1
    from step [OF this] obtain s1 where s1:
      "lowered (\<lambda>j. if map_of ids (fst kv) = Some j then toFixed3 (jdiv (snd kv) 1000) else 0) (db_branchStock s) (db_branchStock s1)"
      "for_each W (decrementLevel ctx ids) s1 = (Inr (), s')" by blast
    have "distinct (map r_id (db_branchStock s1))" using 1(2) lowered_ids [OF s1(1)] by simp
    from lowered_trans [OF s1(1) Cons.IH(1) [OF s1(2) this]]
    show ?case by (rule lowered_cong) (simp add: dec_of_def) }
  { case 2
    from step [OF 2(2,3)] 2(1) obtain s1 where s1:
      "lowered (\<lambda>j. if map_of ids (fst kv) = Some j then toFixed3 (jdiv (snd kv) 1000) else 0) (db_branchStock s) (db_branchStock s1)"
      "for_each W (decrementLevel ctx ids) s1 = (Inr (), s')" "\<forall>r \<in> set (db_branchStock s1). 0 \<le> bs_qty r" by blast
    have "distinct (map r_id (db_branchStock s1))" using 2(3) lowered_ids [OF s1(1)] by simp
    from Cons.IH(2) [OF s1(3,2) this] show ?case . }
qed

section \<open>The locked rows\<close>

definition lockedRows :: "uid \<Rightarrow> uid list \<Rightarrow> db \<Rightarrow> branch_stock_row list" where
  "lockedRows br pids s = filter (\<lambda>r. bs_branchId r = br \<and> live r \<and> bs_productId r \<in> set pids) (db_branchStock s)"

text \<open>
  The stock table as the schema keeps it: unique ids, one live row per branch and key, no
  negative level, and levels that fit the column.
\<close>

definition wf_stock :: "uid \<Rightarrow> db \<Rightarrow> bool" where
  "wf_stock br s \<longleftrightarrow> distinct (map r_id (db_branchStock s))
    \<and> distinct (map row_key (filter (\<lambda>r. bs_branchId r = br \<and> live r) (db_branchStock s)))
    \<and> list_all (\<lambda>r. uid_ok (bs_productId r) \<and> vid_ok (bs_variantId r) \<and> 0 \<le> bs_qty r \<and> bs_qty r < 10 ^ 10)
        (db_branchStock s)"

definition basket_ok :: "cart_line list \<Rightarrow> bool" where
  "basket_ok ls \<longleftrightarrow> list_all (\<lambda>l. line_ids_ok l \<and> qty_ok l) ls \<and> List.length ls \<le> 2 ^ 16"

definition level_of :: "branch_stock_row list \<Rightarrow> string \<Rightarrow> int" where
  "level_of rows k = (case find (\<lambda>r. row_key r = k) rows of None \<Rightarrow> 0 | Some r \<Rightarrow> bs_qty r)"

lemma fold_update_find:
  assumes "distinct (map f rows)"
  shows "map_of (foldl (\<lambda>m r. AList.update (f r) (g r) m) [] rows) k
    = map_option g (find (\<lambda>r. f r = k) rows)"
proof (cases "find (\<lambda>r. f r = k) rows")
  case None
  then have "map_of (rev (map (\<lambda>r. (f r, g r)) rows)) k = None"
    by (auto simp: map_of_eq_None_iff find_None_iff)
  with None show ?thesis by (simp add: map_of_fold_update)
next
  case (Some r)
  then have "r \<in> set rows" "f r = k" by (auto dest: find_SomeD)
  with map_of_rev_distinct [OF assms, of r g] Some show ?thesis by (simp add: map_of_fold_update)
qed

lemma locked_distinct: "wf_stock br s \<Longrightarrow> distinct (map row_key (lockedRows br pids s))"
proof -
  assume "wf_stock br s"
  moreover have "lockedRows br pids s
      = filter (\<lambda>r. bs_productId r \<in> set pids) (filter (\<lambda>r. bs_branchId r = br \<and> live r) (db_branchStock s))"
    unfolding lockedRows_def filter_filter by (rule filter_cong) auto
  ultimately show ?thesis unfolding wf_stock_def by (simp only: distinct_map_filter)
qed

lemma lockStock_maps:
  assumes "wf_stock br s" and "lockStock br pids s = (Inr (available, ids), s')"
  shows "s' = s" and "get_or_0 available k = of_int (level_of (lockedRows br pids s) k)"
    and "map_of ids k = map_option r_id (find (\<lambda>r. row_key r = k) (lockedRows br pids s))"
proof -
  let ?rows = "lockedRows br pids s"
  have e: "available = foldl (\<lambda>m r. AList.update (row_key r)
      (of_int (js_round (jmul (fl (of_int (bs_qty r) / 1000)) 1000))) m) [] ?rows
    \<and> ids = foldl (\<lambda>m r. AList.update (row_key r) (r_id r) m) [] ?rows \<and> s' = s"
    using assms(2) by (cases "pids = []") (auto simp: lockStock_def lockedRows_def Let_def)
  then show "s' = s" by simp
  note find = fold_update_find [OF locked_distinct [OF assms(1), of pids]]
  have q: "js_round (jmul (fl (of_int (bs_qty r) / 1000)) 1000) = bs_qty r" if "r \<in> set ?rows" for r
    using assms(1) that by (intro milli_read_back) (auto simp: wf_stock_def lockedRows_def list_all_iff)
  show "get_or_0 available k = of_int (level_of ?rows k)"
    using e q by (auto simp: get_or_0_def find level_of_def split: option.split dest!: find_SomeD)
  show "map_of ids k = map_option r_id (find (\<lambda>r. row_key r = k) ?rows)"
    using e by (simp add: find)
qed

section \<open>What a basket takes from a row\<close>

definition taken :: "uid \<Rightarrow> cart_line list \<Rightarrow> branch_stock_row \<Rightarrow> int" where
  "taken br ls r =
    (if bs_branchId r = br \<and> live r
     then sum_list (map line_milli (filter (\<lambda>l. is_tracked l \<and> productId l = Some (bs_productId r)
            \<and> variantId l = bs_variantId r) ls))
     else 0)"

lemma key_milli_row:
  assumes "basket_ok ls" "uid_ok (bs_productId r)" "vid_ok (bs_variantId r)"
  shows "key_milli (filter is_tracked ls) (row_key r)
    = sum_list (map line_milli (filter (\<lambda>l. is_tracked l \<and> productId l = Some (bs_productId r)
            \<and> variantId l = bs_variantId r) ls))"
proof -
  have "(line_key l = row_key r) = (productId l = Some (bs_productId r) \<and> variantId l = bs_variantId r)"
    if "l \<in> set ls" "is_tracked l" for l
    using that assms keyOf_inj [of "the (productId l)" "bs_productId r" "variantId l" "bs_variantId r"]
    by (auto simp: basket_ok_def list_all_iff line_ids_ok_def is_tracked_def line_key_def row_key_def)
  then show ?thesis
    unfolding key_milli_def filter_filter by (intro arg_cong [where f = sum_list] arg_cong [where f = "map line_milli"] filter_cong) auto
qed

lemma basket_tracked:
  assumes "basket_ok ls"
  shows "\<forall>l \<in> set (filter is_tracked ls). qty_ok l"
    and "int (List.length (filter is_tracked ls)) * 10 ^ 9 < 2 ^ 46"
proof -
  show "\<forall>l \<in> set (filter is_tracked ls). qty_ok l" using assms by (auto simp: basket_ok_def list_all_iff)
  have "List.length (filter is_tracked ls) \<le> 2 ^ 16"
    using assms by (intro order_trans [OF length_filter_le]) (simp add: basket_ok_def)
  then have "int (List.length (filter is_tracked ls)) \<le> int (2 ^ 16)" by (simp only: of_nat_le_iff)
  then show "int (List.length (filter is_tracked ls)) * 10 ^ 9 < 2 ^ 46" by simp
qed

lemma addWanted_distinct: "addWanted ls m = Inr W \<Longrightarrow> distinct (map fst m) \<Longrightarrow> distinct (map fst W)"
  by (induction ls arbitrary: m) (auto split: option.splits intro: distinct_update)

lemma wanted_values:
  assumes "basket_ok ls" "addWanted (filter is_tracked ls) [] = Inr W"
  shows "distinct (map fst W)" and "get_or_0 W k = of_int (key_milli (filter is_tracked ls) k)"
    and "k \<in> dom (map_of W) \<longleftrightarrow> (\<exists>l \<in> set ls. is_tracked l \<and> line_key l = k)"
proof -
  note t = basket_tracked [OF assms(1)]
  show "distinct (map fst W)" using addWanted_distinct [OF assms(2)] by simp
  have "int_map [] (\<lambda>k. 0)" by (simp add: int_map_def get_or_0_def)
  from addWanted_spec [OF assms(2) t(1) this] t(2)
  have "int_map W (\<lambda>k. 0 + key_milli (filter is_tracked ls) k) \<and> dom (map_of W) = dom (map_of []) \<union> line_key ` set (filter is_tracked ls)"
    by simp
  then show "get_or_0 W k = of_int (key_milli (filter is_tracked ls) k)"
    "k \<in> dom (map_of W) \<longleftrightarrow> (\<exists>l \<in> set ls. is_tracked l \<and> line_key l = k)"
    by (auto simp: int_map_def)
qed

lemma sum_at_key:
  "distinct (map fst W) \<Longrightarrow>
    sum_list (map (\<lambda>kv. if fst kv = k then g (snd kv) else (0::int)) W)
      = (case map_of W k of None \<Rightarrow> 0 | Some v \<Rightarrow> g v)"
proof (induction W)
  case (Cons kv W)
  have "sum_list (map (\<lambda>kv. if fst kv = k then g (snd kv) else 0) W) = 0" if "k \<notin> fst ` set W"
    using that by (induction W) auto
  moreover have "map_of W k = None" if "k \<notin> fst ` set W"
    using that by (simp add: map_of_eq_None_iff)
  ultimately show ?case using Cons by (cases kv) auto
qed simp

lemma dec_of_taken:
  assumes wf: "wf_stock br s" and b: "basket_ok ls" and r: "r \<in> set (db_branchStock s)"
    and W: "addWanted (filter is_tracked ls) [] = Inr W"
    and pids: "set pids = (the \<circ> productId) ` set (filter is_tracked ls)"
    and ids: "\<And>k. map_of ids k = map_option r_id (find (\<lambda>r. row_key r = k) (lockedRows br pids s))"
  shows "dec_of ids W (r_id r) = taken br ls r"
proof -
  note w = wanted_values [OF b W]
  note t = basket_tracked [OF b]
  have rok: "uid_ok (bs_productId r)" "vid_ok (bs_variantId r)"
    using wf r by (auto simp: wf_stock_def list_all_iff)
  have dist: "distinct (map r_id (db_branchStock s))" using wf by (simp add: wf_stock_def)
  have iff: "map_of ids k = Some (r_id r) \<longleftrightarrow> r \<in> set (lockedRows br pids s) \<and> k = row_key r" for k
  proof
    assume "map_of ids k = Some (r_id r)"
    then obtain q where q: "find (\<lambda>r. row_key r = k) (lockedRows br pids s) = Some q" "r_id q = r_id r"
      by (auto simp: ids)
    then have qq: "q \<in> set (lockedRows br pids s)" "row_key q = k" by (auto dest: find_SomeD)
    then have "q \<in> set (db_branchStock s)" by (simp add: lockedRows_def)
    with dist r q(2) have "q = r" by (metis same_id_same_row)
    with qq show "r \<in> set (lockedRows br pids s) \<and> k = row_key r" by simp
  next
    assume "r \<in> set (lockedRows br pids s) \<and> k = row_key r"
    with find_distinct_key [OF locked_distinct [OF wf, of pids], of r]
    show "map_of ids k = Some (r_id r)" by (simp add: ids)
  qed
  have km: "\<bar>key_milli (filter is_tracked ls) k\<bar> < 2 ^ 50" for k
    using key_milli_bounds [OF t(1), of k] t(2) by simp
  have val: "(case map_of W k of None \<Rightarrow> 0 | Some v \<Rightarrow> toFixed3 (jdiv v 1000)) = key_milli (filter is_tracked ls) k" for k
  proof (cases "map_of W k")
    case None
    then have "of_int (key_milli (filter is_tracked ls) k) = (0 :: rat)"
      using w(2) [of k] by (simp add: get_or_0_def)
    with None show ?thesis by simp
  next
    case (Some v)
    then have "v = of_int (key_milli (filter is_tracked ls) k)"
      using w(2) [of k] by (simp add: get_or_0_def)
    with Some toFixed3_exact [OF km] show ?thesis by simp
  qed
  show ?thesis
  proof (cases "r \<in> set (lockedRows br pids s)")
    case True
    then have "dec_of ids W (r_id r) = key_milli (filter is_tracked ls) (row_key r)"
      unfolding dec_of_def iff using sum_at_key [OF w(1), of "row_key r" "\<lambda>v. toFixed3 (jdiv v 1000)"] val
      by simp
    with True key_milli_row [OF b rok] show ?thesis by (simp add: taken_def lockedRows_def)
  next
    case False
    have "taken br ls r = 0"
    proof (cases "bs_branchId r = br \<and> live r")
      case True
      with False r have "bs_productId r \<notin> set pids" by (simp add: lockedRows_def)
      then have "filter (\<lambda>l. is_tracked l \<and> productId l = Some (bs_productId r) \<and> variantId l = bs_variantId r) ls = []"
        by (force simp: filter_empty_conv pids image_iff)
      then show ?thesis by (simp add: taken_def)
    qed (auto simp: taken_def)
    with False show ?thesis by (simp add: dec_of_def iff)
  qed
qed

end
