(* ===== verification/SaleTx.thy ===== *)
theory SaleTx
  imports SaleStock
begin

text \<open>
  The transaction of a sale (\<open>persist\<close>), decomposed into its steps, and what it does to
  the stock, the sales and the movements of the branch.
\<close>

section \<open>The steps of a successful transaction\<close>

lemma lockStock_pure: "lockStock br pids s = (r, s') \<Longrightarrow> s' = s"
  by (auto simp: lockStock_def split: if_splits)

definition tracked_lines :: "sale_draft \<Rightarrow> cart_line list" where
  "tracked_lines dto = filter is_tracked (sd_lines dto)"

lemma persist_steps:
  assumes "persist dto totals costs br tm ctx s = (Inr sale, s')"
    and "find (\<lambda>r. r_id r = sd_id dto) (db_sale s) = None"
  obtains W av ids s1 created s2 s3 where
    "addWanted (tracked_lines dto) [] = Inr W"
    "lockStock br (remdups (map (\<lambda>l. the (productId l)) (tracked_lines dto))) s = (Inr (av, ids), s)"
    "detectConflicts (sd_lines dto) av = Inr []"
    "for_each W (decrementLevel ctx ids) s = (Inr (), s1)"
    "createSale ctx dto totals costs br tm s1 = (Inr created, s2)"
    "for_each (tracked_lines dto) (saleMovement ctx br (r_id created)) s2 = (Inr (), s3)"
    "bumpReceiptSeq tm (sd_receiptNo dto) s3 = (Inr (), s')"
    "sale = assemble created"
proof -
  from assms(1) obtain W where W: "addWanted (tracked_lines dto) [] = Inr W"
    and r1: "bind (lockStock br (remdups (map (\<lambda>l. the (productId l)) (tracked_lines dto)))) (\<lambda>(available, rowIdByKey).
        bind (reads (\<lambda>s. find (\<lambda>r. r_id r = sd_id dto) (db_sale s))) (\<lambda>concurrent.
        case concurrent of
          Some row \<Rightarrow> ret (assemble row)
        | None \<Rightarrow>
           bind (lift_res (detectConflicts (sd_lines dto) available)) (\<lambda>conflicts.
           bind (guard (conflicts = []) (Api (StockConflictHttpError conflicts))) (\<lambda>_.
           bind (for_each W (decrementLevel ctx rowIdByKey)) (\<lambda>_.
           bind (createSale ctx dto totals costs br tm) (\<lambda>created.
           bind (for_each (tracked_lines dto) (saleMovement ctx br (r_id created))) (\<lambda>_.
           bind (bumpReceiptSeq tm (sd_receiptNo dto)) (\<lambda>_.
           ret (assemble created))))))))) s = (Inr sale, s')"
    by (auto simp: persist_def tracked_lines_def Let_def split: sum.splits)
  from r1 obtain p t where L0: "lockStock br (remdups (map (\<lambda>l. the (productId l)) (tracked_lines dto))) s = (Inr p, t)"
    and r1': "(case p of (available, rowIdByKey) \<Rightarrow>
        bind (reads (\<lambda>s. find (\<lambda>r. r_id r = sd_id dto) (db_sale s))) (\<lambda>concurrent.
        case concurrent of
          Some row \<Rightarrow> ret (assemble row)
        | None \<Rightarrow>
           bind (lift_res (detectConflicts (sd_lines dto) available)) (\<lambda>conflicts.
           bind (guard (conflicts = []) (Api (StockConflictHttpError conflicts))) (\<lambda>_.
           bind (for_each W (decrementLevel ctx rowIdByKey)) (\<lambda>_.
           bind (createSale ctx dto totals costs br tm) (\<lambda>created.
           bind (for_each (tracked_lines dto) (saleMovement ctx br (r_id created))) (\<lambda>_.
           bind (bumpReceiptSeq tm (sd_receiptNo dto)) (\<lambda>_.
           ret (assemble created))))))))) t = (Inr sale, s')"
    unfolding bind_eq_Inr [of "lockStock _ _"] by blast
  obtain av ids where p: "p = (av, ids)" by (cases p)
  have t: "t = s" by (rule lockStock_pure [OF L0])
  have L: "lockStock br (remdups (map (\<lambda>l. the (productId l)) (tracked_lines dto))) s = (Inr (av, ids), s)"
    using L0 p t by simp
  have r2: "bind (lift_res (detectConflicts (sd_lines dto) av)) (\<lambda>conflicts.
           bind (guard (conflicts = []) (Api (StockConflictHttpError conflicts))) (\<lambda>_.
           bind (for_each W (decrementLevel ctx ids)) (\<lambda>_.
           bind (createSale ctx dto totals costs br tm) (\<lambda>created.
           bind (for_each (tracked_lines dto) (saleMovement ctx br (r_id created))) (\<lambda>_.
           bind (bumpReceiptSeq tm (sd_receiptNo dto)) (\<lambda>_.
           ret (assemble created))))))) s = (Inr sale, s')"
    using r1' assms(2) unfolding p t by (simp del: bind_lift_res bind_guard)
  from r2 obtain conflicts where C: "detectConflicts (sd_lines dto) av = Inr conflicts" "conflicts = []"
    and r3: "bind (for_each W (decrementLevel ctx ids)) (\<lambda>_.
           bind (createSale ctx dto totals costs br tm) (\<lambda>created.
           bind (for_each (tracked_lines dto) (saleMovement ctx br (r_id created))) (\<lambda>_.
           bind (bumpReceiptSeq tm (sd_receiptNo dto)) (\<lambda>_.
           ret (assemble created))))) s = (Inr sale, s')"
    by (auto split: sum.splits if_splits)
  then have D: "detectConflicts (sd_lines dto) av = Inr []" by simp
  from r3 obtain s1 created s2 s3 where
    "for_each W (decrementLevel ctx ids) s = (Inr (), s1)"
    "createSale ctx dto totals costs br tm s1 = (Inr created, s2)"
    "for_each (tracked_lines dto) (saleMovement ctx br (r_id created)) s2 = (Inr (), s3)"
    "bumpReceiptSeq tm (sd_receiptNo dto) s3 = (Inr (), s')" "sale = assemble created"
    unfolding bind_eq_Inr by auto
  from that [OF W L D this] show thesis .
qed

section \<open>Frames of the steps\<close>

lemma keeps_decrements: "framed P branchStock_t \<Longrightarrow> keeps P (for_each W (decrementLevel ctx ids))"
  by (intro keeps_intros framed_decrement)

lemma keeps_movements: "framed P stockMovement_t \<Longrightarrow> keeps P (for_each ls (saleMovement ctx br i))"
  by (intro keeps_intros framed_saleMovement)

lemma after_stock:
  assumes "createSale ctx dto totals costs br tm s1 = (Inr created, s2)"
    and "for_each ls (saleMovement ctx br i) s2 = (Inr (), s3)"
    and "bumpReceiptSeq tm no s3 = (Inr (), s')"
  shows "db_branchStock s' = db_branchStock s1"
  using keeps_eq [of db_branchStock "createSale ctx dto totals costs br tm" s1, OF _ assms(1)]
    keeps_eq [of db_branchStock "for_each ls (saleMovement ctx br i)" s2, OF _ assms(2)]
    keeps_eq [of db_branchStock "bumpReceiptSeq tm no" s3, OF _ assms(3)]
  by (simp add: framed_createSale keeps_movements framed_bump)

section \<open>The effect on the stock\<close>

lemma persist_stock:
  assumes wf: "wf_stock br s" and b: "basket_ok (sd_lines dto)"
    and new: "find (\<lambda>r. r_id r = sd_id dto) (db_sale s) = None"
    and run: "persist dto totals costs br tm ctx s = (Inr sale, s')"
  shows "list_all2 (\<lambda>r r'. same_level_row r r' \<and> bs_qty r' = bs_qty r - taken br (sd_lines dto) r \<and> 0 \<le> bs_qty r')
    (db_branchStock s) (db_branchStock s')"
proof -
  from persist_steps [OF run new] obtain W av ids s1 created s2 s3 where st:
    "addWanted (tracked_lines dto) [] = Inr W"
    "lockStock br (remdups (map (\<lambda>l. the (productId l)) (tracked_lines dto))) s = (Inr (av, ids), s)"
    "for_each W (decrementLevel ctx ids) s = (Inr (), s1)"
    "createSale ctx dto totals costs br tm s1 = (Inr created, s2)"
    "for_each (tracked_lines dto) (saleMovement ctx br (r_id created)) s2 = (Inr (), s3)"
    "bumpReceiptSeq tm (sd_receiptNo dto) s3 = (Inr (), s')"
    by metis
  have dist: "distinct (map r_id (db_branchStock s))" using wf by (simp add: wf_stock_def)
  have nonneg: "\<forall>r \<in> set (db_branchStock s). 0 \<le> bs_qty r"
    using wf by (simp add: wf_stock_def list_all_iff)
  let ?pids = "remdups (map (\<lambda>l. the (productId l)) (tracked_lines dto))"
  have pids: "set ?pids = (the \<circ> productId) ` set (filter is_tracked (sd_lines dto))"
    by (auto simp: tracked_lines_def image_iff)
  have dec: "dec_of ids W (r_id r) = taken br (sd_lines dto) r" if "r \<in> set (db_branchStock s)" for r
    using dec_of_taken [OF wf b that st(1) [unfolded tracked_lines_def] pids] lockStock_maps(3) [OF wf st(2)] by blast
  have "lowered (dec_of ids W) (db_branchStock s) (db_branchStock s')"
    and nn: "\<forall>r \<in> set (db_branchStock s'). 0 \<le> bs_qty r"
    using decrement_all [OF st(3) dist] nonneg after_stock [OF st(4,5,6)] by simp_all
  then show ?thesis unfolding lowered_def list_all2_conv_all_nth
    by (metis dec nth_mem)
qed

section \<open>When the branch cannot supply the basket\<close>

definition enough :: "uid \<Rightarrow> cart_line list \<Rightarrow> branch_stock_row list \<Rightarrow> bool" where
  "enough br ls rows \<longleftrightarrow> (\<forall>l \<in> set ls. is_tracked l \<longrightarrow>
     key_milli (filter is_tracked ls) (line_key l)
       \<le> level_of (filter (\<lambda>r. bs_branchId r = br \<and> live r) rows) (line_key l))"

lemma level_locked:
  assumes wf: "wf_stock br s" and b: "basket_ok ls" and l: "l \<in> set ls" "is_tracked l"
    and pids: "the (productId l) \<in> set pids"
  shows "level_of (lockedRows br pids s) (line_key l)
    = level_of (filter (\<lambda>r. bs_branchId r = br \<and> live r) (db_branchStock s)) (line_key l)"
proof -
  have ok: "uid_ok (the (productId l))" "vid_ok (variantId l)"
    using b l by (auto simp: basket_ok_def list_all_iff line_ids_ok_def is_tracked_def)
  have key: "row_key r = line_key l \<Longrightarrow> bs_productId r \<in> set pids" if "r \<in> set (db_branchStock s)" for r
    using that wf pids ok keyOf_inj [of "bs_productId r" "the (productId l)" "bs_variantId r" "variantId l"]
    by (auto simp: wf_stock_def list_all_iff row_key_def line_key_def)
  have "find (\<lambda>r. row_key r = line_key l) (filter (\<lambda>r. bs_branchId r = br \<and> live r \<and> bs_productId r \<in> set pids) rows)
      = find (\<lambda>r. row_key r = line_key l) (filter (\<lambda>r. bs_branchId r = br \<and> live r) rows)"
    if "set rows \<subseteq> set (db_branchStock s)" for rows
    using that key by (induction rows) auto
  from this [OF order_refl]
  have "find (\<lambda>r. row_key r = line_key l) (lockedRows br pids s)
      = find (\<lambda>r. row_key r = line_key l) (filter (\<lambda>r. bs_branchId r = br \<and> live r) (db_branchStock s))"
    by (simp add: lockedRows_def)
  then show ?thesis by (simp add: level_of_def)
qed


text \<open>
  The conflicts are decided on the locked levels: a new sale is refused with a stock conflict
  exactly when some tracked line asks, with the other lines of its key, for more than the
  branch holds.
\<close>

lemma addWanted_ok: "\<forall>l \<in> set ls. qty_ok l \<Longrightarrow> \<exists>W. addWanted ls m = Inr W"
  by (induction ls arbitrary: m) (auto simp: qty_ok_def)

lemma detectFrom_ok: "\<forall>l \<in> set ls. is_tracked l \<longrightarrow> qty_ok l \<Longrightarrow> \<exists>cs. detectFrom av cl ls = Inr cs"
proof (induction ls arbitrary: cl)
  case (Cons l ls)
  then have "\<exists>cs. detectFrom av cl' ls = Inr cs" for cl' by simp
  with Cons.prems show ?case by (auto simp: qty_ok_def Let_def split: sum.split) (metis sum.simps(4))
qed simp

lemma conflicts_spec:
  assumes wf: "wf_stock br s" and b: "basket_ok (sd_lines dto)"
    and L: "lockStock br (remdups (map (\<lambda>l. the (productId l)) (tracked_lines dto))) s = (Inr (av, ids), s)"
    and C: "detectConflicts (sd_lines dto) av = Inr cs"
  shows "cs = [] \<longleftrightarrow> enough br (sd_lines dto) (db_branchStock s)"
proof -
  let ?pids = "remdups (map (\<lambda>l. the (productId l)) (tracked_lines dto))"
  have len: "int (List.length (sd_lines dto)) \<le> int (2 ^ 16)" using b unfolding basket_ok_def of_nat_le_iff by simp
  have "cs = [] \<longleftrightarrow> (\<forall>l \<in> set (sd_lines dto). is_tracked l \<longrightarrow>
      0 + key_milli (filter is_tracked (sd_lines dto)) (line_key l) \<le> level_of (lockedRows br ?pids s) (line_key l))"
  proof (rule detectFrom_spec [where claimed = "[]" and F = "\<lambda>k. 0" and available = av])
    show "detectFrom av [] (sd_lines dto) = Inr cs" using C by (simp add: detectConflicts_def)
    show "\<forall>l \<in> set (sd_lines dto). is_tracked l \<longrightarrow> qty_ok l" using b by (simp add: basket_ok_def list_all_iff)
    show "\<forall>k. get_or_0 av k = of_int (level_of (lockedRows br ?pids s) k)"
      using lockStock_maps(2) [OF wf L] by simp
    show "\<forall>k. (0::int) \<le> 0 \<and> 0 + int (List.length (sd_lines dto)) * 10 ^ 9 < 2 ^ 53" using len by simp
  qed (simp add: int_map_def get_or_0_def)
  also have "\<dots> \<longleftrightarrow> enough br (sd_lines dto) (db_branchStock s)"
    unfolding enough_def by (simp add: level_locked [OF wf b] tracked_lines_def cong: imp_cong)
  finally show ?thesis .
qed


section \<open>Rows created on a branch\<close>

text \<open>The branch of a terminal is its own; another actor names it.\<close>

definition on_branch :: "ctx \<Rightarrow> uid \<Rightarrow> bool" where
  "on_branch ctx br \<longleftrightarrow> (is_terminal ctx \<longrightarrow> cx_branchId ctx = Some br)"

lemma police_branch:
  assumes "policeCreateData base ctx t (Some br) r = Inr r0" "TENANT_DIRECT (tb_model t) = Some BranchId" "on_branch ctx br"
  shows "r0 = tb_scope t br r" and "policeCreateRefs base ctx t (tb_scope t br r) = Inr r0"
  using assms
  by (auto simp: policeCreateData_def on_branch_def policeCreateRefs_def split: if_splits option.splits)

lemma branch_models [simp]:
  "TENANT_DIRECT ''stockMovement'' = Some BranchId" "TENANT_DIRECT ''sale'' = Some BranchId"
  "TENANT_DIRECT ''branchStock'' = Some BranchId" "TENANT_DIRECT ''shift'' = Some BranchId"
  by (simp_all add: TENANT_DIRECT_def)

lemma createMovement_Inr:
  assumes "createMovement ctx br p v ty ref d s = (Inr u, s')" "on_branch ctx br"
  shows "\<exists>i n. db_stockMovement s' = db_stockMovement s
    @ [(movement_row br p v ty ref d i)\<lparr> r_createdAt := n, r_updatedAt := n \<rparr>]"
proof -
  obtain i s1 m where i: "fresh_id s = (Inr i, s1)"
    and c: "scoped_create ctx stockMovement_t (Some br) (movement_row br p v ty ref d i) s1 = (Inr m, s')"
    using assms(1) by (auto simp: createMovement_def bind_eq_Inr)
  have s1: "db_stockMovement s1 = db_stockMovement s" using i by (auto simp: fresh_id_def)
  from c [unfolded scoped_create_Inr] obtain r0 s2 where
    pol: "policeCreateData (base_db ctx s1) ctx stockMovement_t (Some br) (movement_row br p v ty ref d i) = Inr r0"
    and ins: "raw_insert stockMovement_t r0 s1 = (Inr m, s2)"
    and s': "db_stockMovement s' = db_stockMovement s2"
    by (auto simp: audited_def)
  have "r0 = movement_row br p v ty ref d i"
    using police_branch(1) [OF pol _ assms(2)] by (simp add: stockMovement_t_def movement_row_def)
  with stockMovement_tb.raw_insert_cases [OF ins] s' s1 show ?thesis
    by (auto simp: stockMovement_t_def movement_row_def)
qed

section \<open>The movements of a sale\<close>

definition movement_of :: "uid \<Rightarrow> uid \<Rightarrow> cart_line \<Rightarrow> stock_movement_row \<Rightarrow> bool" where
  "movement_of br saleId l m \<longleftrightarrow> mv_branchId m = br \<and> productId l = Some (mv_productId m) \<and> mv_variantId m = variantId l
    \<and> mv_type m = Mv_sale \<and> mv_refId m = saleId \<and> mv_qtyDelta m = - line_milli l \<and> live m"

lemma saleMovement_Inr:
  assumes "saleMovement ctx br i l s = (Inr u, s')" "on_branch ctx br" "qty_ok l" "is_tracked l"
  shows "\<exists>m. db_stockMovement s' = db_stockMovement s @ [m] \<and> movement_of br i l m"
proof -
  have q: "qtyToMilli (qty l) = Some (of_int (line_milli l))" "0 < line_milli l" "line_milli l \<le> 10 ^ 9"
    using assms(3) by (auto simp: qty_ok_def)
  have d: "toFixed3 (jdiv (- of_int (line_milli l)) 1000) = - line_milli l"
    using toFixed3_exact [of "- line_milli l"] q(2,3) by simp
  from assms(1) q(1) have "createMovement ctx br (the (productId l)) (variantId l) Mv_sale i
      (toFixed3 (jdiv (- of_int (line_milli l)) 1000)) s = (Inr u, s')"
    by (simp add: saleMovement_def)
  from createMovement_Inr [OF this assms(2)] assms(4) show ?thesis
    unfolding d by (auto simp: movement_of_def movement_row_def is_tracked_def live_def)
qed

lemma saleMovements_Inr:
  assumes "for_each ls (saleMovement ctx br i) s = (Inr u, s')" "on_branch ctx br"
    and "\<forall>l \<in> set ls. qty_ok l \<and> is_tracked l"
  shows "\<exists>ms. db_stockMovement s' = db_stockMovement s @ ms \<and> list_all2 (movement_of br i) ls ms"
  using assms(1,3)
proof (induction ls arbitrary: s)
  case Nil
  then show ?case by simp
next
  case (Cons l ls)
  then obtain s1 where s1: "saleMovement ctx br i l s = (Inr (), s1)"
      "for_each ls (saleMovement ctx br i) s1 = (Inr u, s')"
    by (auto simp: bind_eq_Inr)
  from saleMovement_Inr [OF s1(1) assms(2)] Cons.prems(2) obtain m
    where m: "db_stockMovement s1 = db_stockMovement s @ [m]" "movement_of br i l m" by auto
  from Cons.IH [OF s1(2)] Cons.prems(2) obtain ms
    where ms: "db_stockMovement s' = db_stockMovement s1 @ ms" "list_all2 (movement_of br i) ls ms" by auto
  then have "db_stockMovement s' = db_stockMovement s @ (m # ms)" "list_all2 (movement_of br i) (l # ls) (m # ms)"
    using m by simp_all
  then show ?case by blast
qed

section \<open>The created sale\<close>

lemma createSale_Inr:
  assumes "createSale ctx dto totals costs br tm s = (Inr created, s')" "on_branch ctx br"
  shows "created = buildSaleRow (db_now s) dto totals br tm"
    and "db_sale s' = db_sale s @ [created]"
proof -
  obtain cols where cols: "sale_columns totals = Inr cols"
    and c: "scoped_create_nested ctx sale_t (Some br) (nestedSale dto totals costs)
        (buildSaleRow (db_now s) dto totals br tm) s = (Inr created, s')"
    using assms(1) by (auto simp: createSale_def now_def split: sum.splits)
  from c [unfolded scoped_create_nested_Inr] obtain r0 s1 s2 where
    pol: "policeCreateData (base_db ctx s) ctx sale_t (Some br) (buildSaleRow (db_now s) dto totals br tm) = Inr r0"
    and ins: "raw_insert sale_t r0 s = (Inr created, s1)"
    and nest: "nestedSale dto totals costs created s1 = (Inr (), s2)" and s': "db_sale s' = db_sale s2"
    by (auto simp: audited_def)
  have r0: "r0 = buildSaleRow (db_now s) dto totals br tm"
    using police_branch(1) [OF pol _ assms(2)] by (simp add: sale_t_def buildSaleRow_def)
  from sale_tb.raw_insert_cases [OF ins] have cr: "created = buildSaleRow (db_now s) dto totals br tm"
    and s1: "db_sale s1 = db_sale s @ [created]"
    by (auto simp: r0 sale_t_def buildSaleRow_def)
  have "db_sale s2 = db_sale s1"
    using keeps_eq [of db_sale "nestedSale dto totals costs created" s1, OF _ nest] by (simp add: framed_nestedSale)
  with s' s1 show "created = buildSaleRow (db_now s) dto totals br tm" "db_sale s' = db_sale s @ [created]"
    by (simp_all add: cr)
qed

end
