(* ===== verification/SaleRestore.thy ===== *)
theory SaleRestore
  imports SaleTx
begin

text \<open>
  The stock ledger: what the levels and the movements of a branch add up to, what a sale
  does to both, and that voiding or refunding gives back what the sale took.
\<close>

section \<open>Levels and movements of a key\<close>

definition stock_at :: "uid \<Rightarrow> uid \<Rightarrow> uid option \<Rightarrow> db \<Rightarrow> int" where
  "stock_at br p v s = sum_list (map bs_qty
    (filter (\<lambda>r. live r \<and> bs_branchId r = br \<and> bs_productId r = p \<and> bs_variantId r = v) (db_branchStock s)))"

definition moved_at :: "uid \<Rightarrow> uid \<Rightarrow> uid option \<Rightarrow> db \<Rightarrow> int" where
  "moved_at br p v s = sum_list (map mv_qtyDelta
    (filter (\<lambda>m. mv_branchId m = br \<and> mv_productId m = p \<and> mv_variantId m = v) (db_stockMovement s)))"

text \<open>The ledger balances when every level is the sum of its movements.\<close>

definition ledger :: "db \<Rightarrow> bool" where
  "ledger s \<longleftrightarrow> (\<forall>br p v. stock_at br p v s = moved_at br p v s)"

definition line_taken :: "cart_line list \<Rightarrow> uid \<Rightarrow> uid option \<Rightarrow> int" where
  "line_taken ls p v = sum_list (map line_milli
    (filter (\<lambda>l. is_tracked l \<and> productId l = Some p \<and> variantId l = v) ls))"

lemma stock_at_cong: "db_branchStock s = db_branchStock t \<Longrightarrow> stock_at br p v s = stock_at br p v t"
  by (simp add: stock_at_def)

lemma moved_at_cong: "db_stockMovement s = db_stockMovement t \<Longrightarrow> moved_at br p v s = moved_at br p v t"
  by (simp add: moved_at_def)

lemma moved_at_append:
  "db_stockMovement s' = db_stockMovement s @ ms \<Longrightarrow> moved_at br p v s' = moved_at br p v s
    + sum_list (map mv_qtyDelta (filter (\<lambda>m. mv_branchId m = br \<and> mv_productId m = p \<and> mv_variantId m = v) ms))"
  by (simp add: moved_at_def)

lemma movements_sum:
  "list_all2 (movement_of br i) ls ms \<Longrightarrow> \<forall>l \<in> set ls. is_tracked l \<Longrightarrow>
    sum_list (map mv_qtyDelta (filter (\<lambda>m. mv_branchId m = br' \<and> mv_productId m = p \<and> mv_variantId m = v) ms))
      = (if br' = br then - line_taken ls p v else 0)"
  by (induction rule: list_all2_induct) (auto simp: movement_of_def line_taken_def)

lemma line_taken_tracked: "line_taken (filter is_tracked ls) p v = line_taken ls p v"
  by (simp add: line_taken_def conj_commute conj_left_commute)

abbreviation keyed :: "uid \<Rightarrow> uid \<Rightarrow> uid option \<Rightarrow> branch_stock_row \<Rightarrow> bool" where
  "keyed br p v r \<equiv> live r \<and> bs_branchId r = br \<and> bs_productId r = p \<and> bs_variantId r = v"

lemma stock_at_taken:
  assumes "list_all2 (\<lambda>r r'. same_level_row r r' \<and> bs_qty r' = bs_qty r - taken br ls r \<and> 0 \<le> bs_qty r')
    (db_branchStock s) (db_branchStock s')"
  shows "stock_at br' p v s' = stock_at br' p v s -
    (if br' = br then int (List.length (filter (keyed br p v) (db_branchStock s))) * line_taken ls p v else 0)"
  using assms unfolding stock_at_def
  by (induction rule: list_all2_induct)
    (auto simp: same_level_row_def taken_def line_taken_def live_def algebra_simps)

lemma line_taken_key:
  assumes "basket_ok ls" "uid_ok p" "vid_ok v"
  shows "line_taken ls p v = key_milli (filter is_tracked ls) (keyOf p v)"
  using key_milli_row [OF assms(1), of "undefined\<lparr> bs_productId := p, bs_variantId := v \<rparr>"] assms(2,3)
  by (simp add: row_key_def line_taken_def)

lemma one_row:
  assumes "wf_stock br s"
  shows "List.length (filter (keyed br p v) (db_branchStock s)) \<le> 1"
proof -
  let ?rows = "filter (\<lambda>r. bs_branchId r = br \<and> live r) (db_branchStock s)"
  have d: "distinct (map row_key ?rows)" using assms by (simp add: wf_stock_def)
  have "filter (keyed br p v) (db_branchStock s) = filter (\<lambda>r. bs_productId r = p \<and> bs_variantId r = v) ?rows"
    by (auto intro: filter_cong)
  moreover have "distinct (map row_key (filter (\<lambda>r. bs_productId r = p \<and> bs_variantId r = v) ?rows))"
    using d by (rule distinct_map_filter)
  moreover have "List.length xs \<le> 1" if "distinct (map row_key xs)" "\<forall>r \<in> set xs. row_key r = k" for xs k
    using that by (cases xs; cases "tl xs") auto
  ultimately show ?thesis by (metis (mono_tags, lifting) mem_Collect_eq row_key_def set_filter)
qed

text \<open>A basket the branch can supply takes from a key with a row, or nothing.\<close>

lemma supplied_row:
  assumes wf: "wf_stock br s" and b: "basket_ok ls" and e: "enough br ls (db_branchStock s)"
  shows "line_taken ls p v = 0 \<or> List.length (filter (keyed br p v) (db_branchStock s)) = 1"
proof (cases "\<exists>l \<in> set ls. is_tracked l \<and> productId l = Some p \<and> variantId l = v")
  case False
  then have "filter (\<lambda>l. is_tracked l \<and> productId l = Some p \<and> variantId l = v) ls = []"
    by (auto simp: filter_empty_conv)
  then show ?thesis by (simp add: line_taken_def)
next
  case True
  then obtain l where l: "l \<in> set ls" "is_tracked l" "productId l = Some p" "variantId l = v" by blast
  have ok: "uid_ok p" "vid_ok v" using b l by (auto simp: basket_ok_def list_all_iff line_ids_ok_def)
  have q: "\<forall>x \<in> set (filter is_tracked ls). qty_ok x" using basket_tracked [OF b] by simp
  have "0 < key_milli (filter is_tracked ls) (line_key l)"
    using key_milli_pos [OF q] l by simp
  then have "0 < level_of (filter (\<lambda>r. bs_branchId r = br \<and> live r) (db_branchStock s)) (line_key l)"
    using e l unfolding enough_def by force
  then obtain r where r: "r \<in> set (db_branchStock s)" "bs_branchId r = br" "live r" "row_key r = line_key l"
    by (auto simp: level_of_def split: option.splits dest!: find_SomeD)
  have "bs_productId r = p \<and> bs_variantId r = v"
    using r(4) l keyOf_inj [of "bs_productId r" p "bs_variantId r" v] ok wf r(1)
    by (auto simp: wf_stock_def list_all_iff row_key_def line_key_def)
  then have "filter (keyed br p v) (db_branchStock s) \<noteq> []" using r by (auto simp: filter_empty_conv)
  with one_row [OF wf, of p v] show ?thesis by (cases "filter (keyed br p v) (db_branchStock s)") auto
qed

section \<open>The ledger through a sale\<close>

lemma persist_enough:
  assumes wf: "wf_stock br s" and b: "basket_ok (sd_lines dto)"
    and new: "find (\<lambda>r. r_id r = sd_id dto) (db_sale s) = None"
    and run: "persist dto totals costs br tm ctx s = (Inr sale, s')"
  shows "enough br (sd_lines dto) (db_branchStock s)"
  by (rule persist_steps [OF run new]) (use conflicts_spec [OF wf b] in blast)

lemma persist_stock_at:
  assumes wf: "wf_stock br s" and b: "basket_ok (sd_lines dto)"
    and new: "find (\<lambda>r. r_id r = sd_id dto) (db_sale s) = None"
    and run: "persist dto totals costs br tm ctx s = (Inr sale, s')"
  shows "stock_at br' p v s' = stock_at br' p v s - (if br' = br then line_taken (sd_lines dto) p v else 0)"
  using stock_at_taken [OF persist_stock [OF assms]] supplied_row [OF wf b persist_enough [OF assms], of p v]
  by auto

lemma persist_moves:
  assumes b: "basket_ok (sd_lines dto)" and on: "on_branch ctx br"
    and new: "find (\<lambda>r. r_id r = sd_id dto) (db_sale s) = None"
    and run: "persist dto totals costs br tm ctx s = (Inr sale, s')"
  shows "\<exists>ms. db_stockMovement s' = db_stockMovement s @ ms
    \<and> list_all2 (movement_of br (sd_id dto)) (tracked_lines dto) ms"
proof -
  from persist_steps [OF run new] obtain W ids s1 created s2 s3 where st:
    "for_each W (decrementLevel ctx ids) s = (Inr (), s1)"
    "createSale ctx dto totals costs br tm s1 = (Inr created, s2)"
    "for_each (tracked_lines dto) (saleMovement ctx br (r_id created)) s2 = (Inr (), s3)"
    "bumpReceiptSeq tm (sd_receiptNo dto) s3 = (Inr (), s')"
    by metis
  have "r_id created = sd_id dto" using createSale_Inr(1) [OF st(2) on] by (simp add: buildSaleRow_def)
  moreover have "\<forall>l \<in> set (tracked_lines dto). qty_ok l \<and> is_tracked l"
    using b by (auto simp: tracked_lines_def basket_ok_def list_all_iff)
  ultimately obtain ms where ms: "db_stockMovement s3 = db_stockMovement s2 @ ms"
      "list_all2 (movement_of br (sd_id dto)) (tracked_lines dto) ms"
    using saleMovements_Inr [OF st(3) on] by auto
  have "db_stockMovement s1 = db_stockMovement s" "db_stockMovement s2 = db_stockMovement s1"
    "db_stockMovement s' = db_stockMovement s3"
    using keeps_eq [of db_stockMovement "for_each W (decrementLevel ctx ids)" s, OF _ st(1)]
      keeps_eq [of db_stockMovement "createSale ctx dto totals costs br tm" s1, OF _ st(2)]
      keeps_eq [of db_stockMovement "bumpReceiptSeq tm (sd_receiptNo dto)" s3, OF _ st(4)]
    by (simp_all add: keeps_decrements framed_createSale framed_bump)
  with ms show ?thesis by auto
qed

lemma persist_moved_at:
  assumes "basket_ok (sd_lines dto)" "on_branch ctx br"
    and "find (\<lambda>r. r_id r = sd_id dto) (db_sale s) = None"
    and "persist dto totals costs br tm ctx s = (Inr sale, s')"
  shows "moved_at br' p v s' = moved_at br' p v s - (if br' = br then line_taken (sd_lines dto) p v else 0)"
proof -
  obtain ms where ms: "db_stockMovement s' = db_stockMovement s @ ms"
      "list_all2 (movement_of br (sd_id dto)) (tracked_lines dto) ms"
    using persist_moves [OF assms] by blast
  have "\<forall>l \<in> set (tracked_lines dto). is_tracked l" by (simp add: tracked_lines_def)
  from movements_sum [OF ms(2) this, of br' p v] moved_at_append [OF ms(1), of br' p v] show ?thesis
    by (simp add: tracked_lines_def line_taken_tracked)
qed


section \<open>Giving stock back\<close>

text \<open>A transaction that only changes levels: every committed row is still there.\<close>

definition tx_of :: "db \<Rightarrow> db \<Rightarrow> bool" where
  "tx_of base s \<longleftrightarrow> distinct (map r_id (db_branchStock s))
    \<and> (\<forall>r \<in> set (db_branchStock base). \<exists>r' \<in> set (db_branchStock s). same_level_row r r')"

lemma tx_of_refl: "distinct (map r_id (db_branchStock s)) \<Longrightarrow> tx_of s s"
  by (auto simp: tx_of_def same_level_row_def)

lemma lowered_row:
  "lowered d rows rows' \<Longrightarrow> r \<in> set rows \<Longrightarrow> \<exists>r' \<in> set rows'. same_level_row r r'"
  unfolding lowered_def by (induction rule: list_all2_induct) auto

lemma tx_of_lowered:
  assumes "tx_of base s" "lowered d (db_branchStock s) (db_branchStock s')"
  shows "tx_of base s'"
proof -
  have "distinct (map r_id (db_branchStock s'))" using assms lowered_ids by (simp add: tx_of_def)
  moreover have "\<exists>r'' \<in> set (db_branchStock s'). same_level_row r r''" if r: "r \<in> set (db_branchStock base)" for r
  proof -
    obtain r' where r': "r' \<in> set (db_branchStock s)" "same_level_row r r'"
      using assms(1) r by (auto simp: tx_of_def)
    then obtain r'' where "r'' \<in> set (db_branchStock s')" "same_level_row r' r''"
      using lowered_row [OF assms(2)] by blast
    with r'(2) show ?thesis by (auto simp: same_level_row_def)
  qed
  ultimately show ?thesis by (simp add: tx_of_def)
qed

lemma tx_of_cong: "db_branchStock s' = db_branchStock s \<Longrightarrow> tx_of base s' = tx_of base s"
  by (simp add: tx_of_def)

lemma lowered_sum:
  assumes "lowered (\<lambda>j. if j = r_id r then d else 0) rows rows'" "distinct (map r_id rows)"
    and "\<And>q q'. same_level_row q q' \<Longrightarrow> K q' = K q" "\<forall>q \<in> set rows. r_id q = r_id r \<longrightarrow> q = r"
  shows "sum_list (map bs_qty (filter K rows')) = sum_list (map bs_qty (filter K rows))
    - (if r \<in> set rows \<and> K r then d else 0)"
  using assms(1,2,4) unfolding lowered_def
proof (induction rule: list_all2_induct)
  case (Cons x xs y ys)
  have k: "K y = K x" "bs_qty y = bs_qty x - (if r_id x = r_id r then d else 0)"
    using Cons.hyps assms(3) [of x y] by auto
  have IH: "sum_list (map bs_qty (filter K ys)) = sum_list (map bs_qty (filter K xs))
      - (if r \<in> set xs \<and> K r then d else 0)"
    using Cons.prems by (intro Cons.IH) auto
  show ?case
  proof (cases "x = r")
    case True
    then have "r \<notin> set xs" using Cons.prems(1) by auto
    then show ?thesis using True k IH by simp
  next
    case False
    then have "r_id x \<noteq> r_id r" using Cons.prems(2) by auto
    then show ?thesis using False k IH by simp
  qed
qed simp

lemma lowered_stock_at:
  assumes "lowered (\<lambda>j. if j = r_id r then d else 0) (db_branchStock s) (db_branchStock s')"
    and "distinct (map r_id (db_branchStock s))" "r \<in> set (db_branchStock s)"
  shows "stock_at br p v s' = stock_at br p v s - (if keyed br p v r then d else 0)"
proof -
  have "\<forall>q \<in> set (db_branchStock s). r_id q = r_id r \<longrightarrow> q = r"
    using same_id_same_row [OF assms(2) _ assms(3)] by blast
  from lowered_sum [OF assms(1,2) _ this, of "keyed br p v"] assms(3) show ?thesis
    by (simp add: stock_at_def same_level_row_def live_def)
qed

lemma restored_exact: "\<bar>mv_qtyDelta m\<bar> < 10 ^ 10 \<Longrightarrow> restored m = - mv_qtyDelta m"
  using toFixed3_exact [of "- mv_qtyDelta m"] by (simp add: restored_def jdiv_def fl_minus)

definition mkeyed :: "uid \<Rightarrow> uid \<Rightarrow> uid option \<Rightarrow> stock_movement_row \<Rightarrow> bool" where
  "mkeyed br p v m \<longleftrightarrow> mv_branchId m = br \<and> mv_productId m = p \<and> mv_variantId m = v"

lemma restore_level:
  assumes e: "e \<in> set (db_branchStock base)" "live e" "bs_branchId e = mv_branchId m"
      "bs_productId e = mv_productId m" "bs_variantId e = mv_variantId m"
    and tx: "tx_of base s" and base: "cx_tx ctx = Some base"
    and u: "scoped_update ctx branchStock_t (\<lambda>r. r_id r = r_id e) (\<lambda>r. r\<lparr> bs_qty := bs_qty r + x \<rparr>) s = (Inr u, s')"
  shows "tx_of base s'" and "stock_at br p v s' = stock_at br p v s + (if mkeyed br p v m then x else 0)"
proof -
  obtain r where r: "r \<in> set (db_branchStock s)" "same_level_row e r"
    using tx e(1) by (auto simp: tx_of_def)
  have d: "distinct (map r_id (db_branchStock s))" using tx by (simp add: tx_of_def)
  have f: "same_level_row q (q\<lparr> bs_qty := bs_qty q + x \<rparr>) \<and> bs_qty (q\<lparr> bs_qty := bs_qty q + x \<rparr>) = bs_qty q - (- x)" for q
    by (simp add: same_level_row_def)
  note low = scoped_update_stock(1) [OF u d f]
  from tx_of_lowered [OF tx low] show "tx_of base s'" .
  have "keyed br p v r = mkeyed br p v m"
    using r(2) e by (auto simp: same_level_row_def mkeyed_def live_def)
  moreover have "r_id r = r_id e" using r(2) by (simp add: same_level_row_def)
  ultimately show "stock_at br p v s' = stock_at br p v s + (if mkeyed br p v m then x else 0)"
    using lowered_stock_at [of r "- x", OF _ d r(1)] low by simp
qed

lemma restore_new_level:
  assumes c: "scoped_create ctx branchStock_t (Some (mv_branchId m))
      \<lparr> r_id = i, r_createdAt = 0, r_updatedAt = 0, r_deletedAt = None, bs_branchId = mv_branchId m,
        bs_productId = mv_productId m, bs_variantId = mv_variantId m, bs_qty = x \<rparr> s = (Inr u, s')"
    and on: "on_branch ctx (mv_branchId m)" and tx: "tx_of base s"
  shows "tx_of base s'" and "stock_at br p v s' = stock_at br p v s + (if mkeyed br p v m then x else 0)"
proof -
  let ?row = "\<lparr> r_id = i, r_createdAt = 0, r_updatedAt = 0, r_deletedAt = None, bs_branchId = mv_branchId m,
        bs_productId = mv_productId m, bs_variantId = mv_variantId m, bs_qty = x \<rparr>"
  from c [unfolded scoped_create_Inr] obtain r0 s1 where
    pol: "policeCreateData (base_db ctx s) ctx branchStock_t (Some (mv_branchId m)) ?row = Inr r0"
    and ins: "raw_insert branchStock_t r0 s = (Inr u, s1)" and s': "db_branchStock s' = db_branchStock s1"
    by (auto simp: audited_def)
  have r0: "r0 = ?row" using police_branch(1) [OF pol _ on] by (simp add: branchStock_t_def)
  obtain n where app: "db_branchStock s' = db_branchStock s @ [?row\<lparr> r_createdAt := n, r_updatedAt := n \<rparr>]"
    and fresh: "i \<notin> r_id ` set (db_branchStock s)"
    using branchStock_tb.raw_insert_cases [OF ins] s' by (auto simp: r0 branchStock_t_def)
  show "tx_of base s'" using tx fresh by (auto simp: tx_of_def app)
  show "stock_at br p v s' = stock_at br p v s + (if mkeyed br p v m then x else 0)"
    by (auto simp: stock_at_def app mkeyed_def live_def)
qed


lemma findMany_Inr:
  "scoped_findMany ctx t p s = (Inr rs, s') \<longleftrightarrow> choke_guard ctx (tb_model t) Read = None \<and> s' = s
    \<and> rs = filter (\<lambda>r. p r \<and> visible ctx t False (base_db ctx s) r) (tb_get t (base_db ctx s))"
  by (auto simp: scoped_findMany_def scoped_find_all_def choke_bind_Inr Let_def)

lemma findFirst_Inr:
  assumes "scoped_findFirst ctx t p s = (Inr (Some r), s')"
  shows "r \<in> set (tb_get t (base_db ctx s))" "p r" "visible ctx t False (base_db ctx s) r" "s' = s"
proof -
  let ?rs = "filter (\<lambda>r. p r \<and> visible ctx t False (base_db ctx s) r) (tb_get t (base_db ctx s))"
  have "(case ?rs of [] \<Rightarrow> None | r # _ \<Rightarrow> Some r) = Some r \<and> s' = s"
    using assms unfolding scoped_findFirst_def bind_eq_Inr findMany_Inr by (auto simp del: filter.simps)
  then have "r \<in> set ?rs \<and> s' = s" by (cases ?rs) (auto simp del: set_filter)
  then show "r \<in> set (tb_get t (base_db ctx s))" "p r" "visible ctx t False (base_db ctx s) r" "s' = s" by auto
qed

lemma bind_unit_Inr:
  "bind m (\<lambda>_::unit. k) s = (Inr y, u) \<longleftrightarrow> (\<exists>t. m s = (Inr (), t) \<and> k t = (Inr y, u))"
  by (simp add: bind_eq_Inr)

text \<open>One movement given back: its level and one movement of the opposite sign.\<close>

lemma framed_restoreLevel: "framed P branchStock_t \<Longrightarrow> keeps P (restoreLevel ctx m existing)"
  unfolding restoreLevel_def
  by (intro keeps_intros framed_scoped_update framed_scoped_create framed_fresh [of P branchStock_t])

lemma restoreLevel_Inr:
  assumes run: "restoreLevel ctx m existing s = (Inr u, s')" and tx: "tx_of base s" and base: "cx_tx ctx = Some base"
    and on: "on_branch ctx (mv_branchId m)"
    and found: "\<And>e. existing = Some e \<Longrightarrow> e \<in> set (db_branchStock base) \<and> live e \<and> bs_branchId e = mv_branchId m
      \<and> bs_productId e = mv_productId m \<and> bs_variantId e = mv_variantId m"
  shows "tx_of base s'" and "stock_at br p v s' = stock_at br p v s + (if mkeyed br p v m then restored m else 0)"
proof -
  have "tx_of base s' \<and> stock_at br p v s' = stock_at br p v s + (if mkeyed br p v m then restored m else 0)"
  proof (cases existing)
    case None
    have t0: "tx_of base (s\<lparr> db_nextId := Suc (db_nextId s) \<rparr>)" using tx by (simp add: tx_of_def)
    obtain w where
      w: "scoped_create ctx branchStock_t (Some (mv_branchId m))
          \<lparr> r_id = nth_uuid (db_nextId s), r_createdAt = 0, r_updatedAt = 0, r_deletedAt = None, bs_branchId = mv_branchId m,
            bs_productId = mv_productId m, bs_variantId = mv_variantId m, bs_qty = restored m \<rparr>
          (s\<lparr> db_nextId := Suc (db_nextId s) \<rparr>) = (Inr w, s')"
      using run unfolding restoreLevel_def None option.case bind_eq_Inr by auto
    from restore_new_level [OF w on t0] show ?thesis by (simp add: stock_at_def)
  next
    case (Some e)
    obtain w where
      w: "scoped_update ctx branchStock_t (\<lambda>r. r_id r = r_id e) (\<lambda>r. r\<lparr> bs_qty := bs_qty r + restored m \<rparr>) s = (Inr w, s')"
      using run unfolding restoreLevel_def Some option.case bind_eq_Inr by auto
    from restore_level [OF _ _ _ _ _ tx base w] found [OF Some] show ?thesis by blast
  qed
  then show "tx_of base s'" "stock_at br p v s' = stock_at br p v s + (if mkeyed br p v m then restored m else 0)"
    by simp_all
qed

lemma restoreOne_Inr:
  assumes run: "restoreOne ctx saleId ty m s = (Inr u, s')" and tx: "tx_of base s" and base: "cx_tx ctx = Some base"
    and on: "on_branch ctx (mv_branchId m)" and q: "\<bar>mv_qtyDelta m\<bar> < 10 ^ 10"
  shows "tx_of base s'"
    and "stock_at br p v s' = stock_at br p v s - (if mkeyed br p v m then mv_qtyDelta m else 0)"
    and "moved_at br p v s' = moved_at br p v s - (if mkeyed br p v m then mv_qtyDelta m else 0)"
proof -
  note rest = restored_exact [OF q]
  let ?sel = "\<lambda>r. bs_branchId r = mv_branchId m \<and> bs_productId r = mv_productId m \<and> bs_variantId r = mv_variantId m \<and> live r"
  let ?move = "createMovement ctx (mv_branchId m) (mv_productId m) (mv_variantId m) ty saleId (restored m)"
  obtain e s1 s2 where f: "scoped_findFirst ctx branchStock_t ?sel s = (Inr e, s1)"
    and l: "restoreLevel ctx m e s1 = (Inr (), s2)" and c: "?move s2 = (Inr u, s')"
    using run unfolding restoreOne_def bind_eq_Inr by auto
  have s1: "s1 = s" by (rule pure_op_result [OF pure_find(3) f])
  have found: "x \<in> set (db_branchStock base) \<and> live x \<and> bs_branchId x = mv_branchId m
      \<and> bs_productId x = mv_productId m \<and> bs_variantId x = mv_variantId m" if "e = Some x" for x
    using findFirst_Inr(1,2) [OF f [unfolded that]] by (simp add: base_db_def base branchStock_t_def)
  note tx' = restoreLevel_Inr(1) [OF l [unfolded s1] tx base on found]
    and lev = restoreLevel_Inr(2) [OF l [unfolded s1] tx base on found, of br p v]
  have mv: "db_stockMovement s2 = db_stockMovement s"
    using keeps_eq [of db_stockMovement "restoreLevel ctx m e" s, OF _ l [unfolded s1]]
    by (simp add: framed_restoreLevel)
  have st: "db_branchStock s' = db_branchStock s2"
    using keeps_eq [of db_branchStock ?move s2, OF _ c] by (simp add: framed_movement)
  show "tx_of base s'" using tx' tx_of_cong [OF st] by simp
  show "stock_at br p v s' = stock_at br p v s - (if mkeyed br p v m then mv_qtyDelta m else 0)"
    using lev stock_at_cong [OF st] rest by simp
  from createMovement_Inr [OF c on] obtain i n where
    "db_stockMovement s' = db_stockMovement s2 @ [(movement_row (mv_branchId m) (mv_productId m) (mv_variantId m) ty saleId (restored m) i)\<lparr> r_createdAt := n, r_updatedAt := n \<rparr>]"
    by auto
  from moved_at_append [OF this, of br p v] moved_at_cong [OF mv, of br p v] rest
  show "moved_at br p v s' = moved_at br p v s - (if mkeyed br p v m then mv_qtyDelta m else 0)"
    by (simp add: movement_row_def mkeyed_def)
qed

definition moves_of :: "uid \<Rightarrow> uid option \<Rightarrow> uid \<Rightarrow> stock_movement_row list \<Rightarrow> int" where
  "moves_of p v br ms = sum_list (map mv_qtyDelta (filter (mkeyed br p v) ms))"

lemma moves_of_simps [simp]:
  "moves_of p v br [] = 0"
  "moves_of p v br (m # ms) = (if mkeyed br p v m then mv_qtyDelta m else 0) + moves_of p v br ms"
  by (simp_all add: moves_of_def)

lemma restoreAll_Inr:
  assumes "for_each ms (restoreOne ctx saleId ty) s = (Inr u, s')" "tx_of base s" "cx_tx ctx = Some base"
    and "\<forall>m \<in> set ms. on_branch ctx (mv_branchId m) \<and> \<bar>mv_qtyDelta m\<bar> < 10 ^ 10"
  shows "stock_at br p v s' = stock_at br p v s - moves_of p v br ms
    \<and> moved_at br p v s' = moved_at br p v s - moves_of p v br ms"
  using assms
proof (induction ms arbitrary: s)
  case Nil
  then show ?case by simp
next
  case (Cons m ms)
  then obtain s1 where s1: "restoreOne ctx saleId ty m s = (Inr (), s1)"
    "for_each ms (restoreOne ctx saleId ty) s1 = (Inr u, s')"
    by (auto simp: bind_eq_Inr)
  have m: "on_branch ctx (mv_branchId m)" "\<bar>mv_qtyDelta m\<bar> < 10 ^ 10" using Cons.prems(4) by auto
  note one = restoreOne_Inr [OF s1(1) Cons.prems(2,3) m]
  have "\<forall>m \<in> set ms. on_branch ctx (mv_branchId m) \<and> \<bar>mv_qtyDelta m\<bar> < 10 ^ 10" using Cons.prems(4) by simp
  from Cons.IH [OF s1(2) one(1) Cons.prems(3) this] one(2,3) [of br p v] show ?case by simp
qed

end
