(* ===== verification/SaleRequests.thy ===== *)
theory SaleRequests
  imports SaleRestore
begin

text \<open>
  The requests of the sales service as a whole: completing, voiding and refunding a sale,
  decomposed into the checks before the transaction and the transaction itself.
\<close>

section \<open>Completing\<close>

lemma pure_checkSale: "pure_op (checkSale ctx biz tm dto)"
  unfolding checkSale_def openShift_def validateLines_def validateDiscounts_def Let_def
  by (auto intro!: pure_bind split: option.split)

lemma pure_findSale [simp]: "pure_op (findSale ctx i)"
  by (simp add: findSale_def)

text \<open>The context of a paired terminal.\<close>

definition terminal_of :: "ctx \<Rightarrow> uid \<Rightarrow> uid \<Rightarrow> uid \<Rightarrow> bool" where
  "terminal_of ctx br tm biz \<longleftrightarrow> cx_scope ctx = Some Tenant \<and> cx_actor ctx = Some (Act_terminal, tm)
    \<and> cx_branchId ctx = Some br \<and> cx_businessId ctx = Some biz \<and> cx_tx ctx = None"

lemma terminal_of_on_branch [simp]:
  "terminal_of ctx br tm biz \<Longrightarrow> on_branch (ctx\<lparr> cx_tx := x \<rparr>) br"
  "terminal_of ctx br tm biz \<Longrightarrow> is_terminal ctx"
  by (simp_all add: terminal_of_def on_branch_def is_terminal_def)

abbreviation in_tx :: "ctx \<Rightarrow> db \<Rightarrow> ctx" where
  "in_tx ctx s \<equiv> ctx\<lparr> cx_tx := Some s \<rparr>"

lemma runWithTxClient_Inr: "runWithTxClient ctx body s = (Inr x, s') \<longleftrightarrow> body (in_tx ctx s) s = (Inr x, s')"
  by (simp add: runWithTxClient_def transaction_Inr)

lemma runWithTxClient_Inl: "runWithTxClient ctx body s = (Inl e, s') \<longleftrightarrow> s' = s \<and> (\<exists>t. body (in_tx ctx s) s = (Inl e, t))"
  by (simp add: runWithTxClient_def transaction_Inl)

lemma catch_Inr:
  "catch_op m h s = (Inr x, s') \<longleftrightarrow> m s = (Inr x, s') \<or> (\<exists>e t. m s = (Inl e, t) \<and> h e t = (Inr x, s'))"
  by (auto simp: catch_op_def split: prod.splits sum.splits)

lemma catch_Inl:
  "catch_op m h s = (Inl x, s') \<longleftrightarrow> (\<exists>e t. m s = (Inl e, t) \<and> h e t = (Inl x, s'))"
  by (auto simp: catch_op_def split: prod.splits sum.splits)

text \<open>The transaction with its handler, started in the state \<open>s\<close>.\<close>

definition saleTx :: "ctx \<Rightarrow> sale_draft \<Rightarrow> cart_totals \<Rightarrow> (uid \<times> int option) list \<Rightarrow> uid \<Rightarrow> uid \<Rightarrow> (db, exn, bool \<times> completed_sale) op" where
  "saleTx ctx dto totals costs br tm =
    catch_op
      (bind (runWithTxClient ctx (persist dto totals costs br tm)) (\<lambda>sale. ret (False, sale)))
      (\<lambda>err. if err = Unique_violation
         then bind (findSale ctx (sd_id dto)) (\<lambda>dup.
              case dup of Some row \<Rightarrow> ret (True, assemble row)
              | None \<Rightarrow> throw (validation ''This receipt number is already in use.''))
         else throw err)"

lemma completeSale_terminal:
  assumes "terminal_of ctx br tm biz"
  shows "completeSale env ctx dto =
    bind (findSale ctx (sd_id dto)) (\<lambda>existing.
    case existing of
      Some row \<Rightarrow> ret (True, assemble row)
    | None \<Rightarrow> bind (checkSale ctx biz tm dto) (\<lambda>(totals, costs).
        bind (modify env) (\<lambda>_. saleTx ctx dto totals costs br tm)))"
  unfolding completeSale_def saleTx_def using assms by (simp add: terminal_of_def)

lemma saleTx_Inr_False:
  "saleTx ctx dto totals costs br tm s = (Inr (False, sale), s')
    \<longleftrightarrow> persist dto totals costs br tm (in_tx ctx s) s = (Inr sale, s')"
proof -
  have "bind (findSale ctx (sd_id dto)) (\<lambda>dup. case dup of Some row \<Rightarrow> ret (True, assemble row)
      | None \<Rightarrow> throw (validation m)) t \<noteq> (Inr (False, sale), s')" for m t
    by (auto simp: bind_eq_Inr split: option.splits)
  then show ?thesis
    unfolding saleTx_def catch_Inr bind_eq_Inr [of "runWithTxClient _ _"] runWithTxClient_Inr by auto
qed

lemma clean_catch: "clean_op m \<Longrightarrow> (\<And>e. pure_op (h e)) \<Longrightarrow> clean_op (catch_op m h)"
  unfolding clean_op_def catch_Inl by (metis pure_opD snd_conv)

lemma clean_bind_ret: "clean_op m \<Longrightarrow> clean_op (bind m (\<lambda>x. ret (f x)))"
  by (auto simp: clean_op_def bind_eq_Inl)

lemma clean_runWithTxClient [simp]: "clean_op (runWithTxClient ctx body)"
  by (auto simp: clean_op_def runWithTxClient_Inl)

lemma pure_if: "pure_op m \<Longrightarrow> pure_op n \<Longrightarrow> pure_op (if b then m else n)"
  by simp

lemma pure_option: "pure_op m \<Longrightarrow> (\<And>x. pure_op (f x)) \<Longrightarrow> pure_op (case y of None \<Rightarrow> m | Some x \<Rightarrow> f x)"
  by (cases y) simp_all

lemma clean_saleTx: "clean_op (saleTx ctx dto totals costs br tm)"
  unfolding saleTx_def
  by (intro clean_catch clean_bind_ret clean_runWithTxClient pure_if pure_bind pure_option pure_findSale pure_simps)

lemma saleTx_Inl: "saleTx ctx dto totals costs br tm s = (Inl e, s') \<Longrightarrow> s' = s"
  using clean_saleTx by (rule clean_opD)

lemma completeSale_fresh:
  assumes "terminal_of ctx br tm biz" "completeSale env ctx dto s = (Inr (False, sale), s')"
  obtains totals costs where "findSale ctx (sd_id dto) s = (Inr None, s)"
    "checkSale ctx biz tm dto s = (Inr (totals, costs), s)"
    "persist dto totals costs br tm (in_tx ctx (env s)) (env s) = (Inr sale, s')"
proof -
  from assms(2) [unfolded completeSale_terminal [OF assms(1)] bind_eq_Inr [of "findSale _ _"]] obtain ex s1 where
    f: "findSale ctx (sd_id dto) s = (Inr ex, s1)"
    and r: "(case ex of Some row \<Rightarrow> ret (True, assemble row)
      | None \<Rightarrow> bind (checkSale ctx biz tm dto) (\<lambda>(totals, costs).
          bind (modify env) (\<lambda>_. saleTx ctx dto totals costs br tm))) s1 = (Inr (False, sale), s')"
    by blast
  have s1: "s1 = s" by (rule pure_op_result [OF pure_findSale f])
  have ex: "ex = None" using r by (cases ex) auto
  from r [unfolded s1 ex option.case bind_eq_Inr [of "checkSale _ _ _ _"]] obtain p s2 where
    c: "checkSale ctx biz tm dto s = (Inr p, s2)"
    and r2: "(case p of (totals, costs) \<Rightarrow> bind (modify env) (\<lambda>_. saleTx ctx dto totals costs br tm)) s2 = (Inr (False, sale), s')"
    by blast
  have s2: "s2 = s" by (rule pure_op_result [OF pure_checkSale c])
  obtain totals costs where p: "p = (totals, costs)" by (cases p)
  from r2 have "saleTx ctx dto totals costs br tm (env s) = (Inr (False, sale), s')" by (simp add: p s2)
  then have "persist dto totals costs br tm (in_tx ctx (env s)) (env s) = (Inr sale, s')"
    by (simp only: saleTx_Inr_False)
  with that f c show thesis by (simp add: s1 s2 p ex)
qed

lemma completeSale_failed:
  assumes "terminal_of ctx br tm biz" "completeSale env ctx dto s = (Inl e, s')"
  shows "s' = s \<or> s' = env s"
proof -
  from assms(2) [unfolded completeSale_terminal [OF assms(1)]]
  have "bind (findSale ctx (sd_id dto)) (\<lambda>existing.
      case existing of Some row \<Rightarrow> ret (True, assemble row)
      | None \<Rightarrow> bind (checkSale ctx biz tm dto) (\<lambda>(totals, costs).
          bind (modify env) (\<lambda>_. saleTx ctx dto totals costs br tm))) s = (Inl e, s')" .
  then consider "findSale ctx (sd_id dto) s = (Inl e, s')"
    | s1 where "findSale ctx (sd_id dto) s = (Inr None, s1)"
        "bind (checkSale ctx biz tm dto) (\<lambda>(totals, costs). bind (modify env) (\<lambda>_. saleTx ctx dto totals costs br tm)) s1 = (Inl e, s')"
    unfolding bind_eq_Inl [of "findSale _ _"] by (auto split: option.splits simp del: bind_modify)
  then show ?thesis
  proof cases
    case 1
    then show ?thesis using pure_op_result [OF pure_findSale 1] by simp
  next
    case 2
    have s1: "s1 = s" by (rule pure_op_result [OF pure_findSale 2(1)])
    from 2(2) consider "checkSale ctx biz tm dto s1 = (Inl e, s')"
      | p s2 where "checkSale ctx biz tm dto s1 = (Inr p, s2)"
        "(case p of (totals, costs) \<Rightarrow> bind (modify env) (\<lambda>_. saleTx ctx dto totals costs br tm)) s2 = (Inl e, s')"
      unfolding bind_eq_Inl [of "checkSale _ _ _ _"] by blast
    then show ?thesis
    proof cases
      case 1
      then show ?thesis using pure_op_result [OF pure_checkSale 1] s1 by simp
    next
      case 2
      have "s2 = s" using pure_op_result [OF pure_checkSale 2(1)] s1 by simp
      with 2(2) show ?thesis by (cases p) (auto dest: saleTx_Inl)
    qed
  qed
qed


section \<open>Voiding and refunding\<close>

lemma lockSale_Inr:
  "lockSale i br s = (Inr (Some (status, shiftId)), s') \<longleftrightarrow> s' = s \<and> UUID_RE i \<and>
    (\<exists>r. find (\<lambda>r. r_id r = i \<and> sl_branchId r = br \<and> live r) (db_sale s) = Some r
      \<and> sl_status r = status \<and> sl_shiftId r = shiftId)"
  by (auto simp: lockSale_def)

lemma voidSale_terminal:
  assumes "terminal_of ctx br tm biz"
  shows "voidSale ctx i reason = (if trim reason = [] then throw (validation ''A reason is required.'')
    else runWithTxClient ctx (voidBody i (trim reason) br tm))"
  using assms by (simp add: voidSale_def terminal_of_def Let_def)

text \<open>A successful void: the locked sale, the open shift, the status change and the stock.\<close>

lemma voidSale_Inr:
  assumes t: "terminal_of ctx br tm biz" and run: "voidSale ctx i reason s = (Inr sale, s')"
  obtains r shift after s1 where "trim reason \<noteq> []"
    "find (\<lambda>r. r_id r = i \<and> sl_branchId r = br \<and> live r) (db_sale s) = Some r" "sl_status r = Completed"
    "openShift (in_tx ctx s) tm s = (Inr (Some shift), s)" "sl_shiftId r = Some (r_id shift)"
    "scoped_update (in_tx ctx s) sale_t (\<lambda>r. r_id r = i)
      (\<lambda>r. r\<lparr> sl_status := Voided, sl_voidedAt := Some (db_now s), sl_statusReason := Some (trim reason) \<rparr>) s = (Inr after, s1)"
    "restoreStock (in_tx ctx s) i Mv_void s1 = (Inr (), s')" "sale = assemble after"
proof -
  let ?c = "in_tx ctx s"
  have reason: "trim reason \<noteq> []" and body: "voidBody i (trim reason) br tm ?c s = (Inr sale, s')"
    using run by (auto simp: voidSale_terminal [OF t] runWithTxClient_Inr split: if_splits)
  from body [unfolded voidBody_def bind_eq_Inr [of "lockSale _ _"]] obtain lk s0 where
    l: "lockSale i br s = (Inr lk, s0)"
    and r1: "(case lk of None \<Rightarrow> throw (not_found ''Sale not found.'')
    | Some (status, shiftId) \<Rightarrow>
        bind (guard (status = Completed)
                (validation (''A '' @ status_name status @ '' sale cannot be voided.''))) (\<lambda>_.
        bind (openShift ?c tm) (\<lambda>open.
        bind (guard (open \<noteq> None \<and> map_option r_id open = shiftId)
                (validation ''Voids are only allowed while the sale's shift is open.'')) (\<lambda>_.
        bind now (\<lambda>n.
        bind (scoped_update ?c sale_t (\<lambda>r. r_id r = i)
                (\<lambda>r. r\<lparr> sl_status := Voided, sl_voidedAt := Some n, sl_statusReason := Some (trim reason) \<rparr>)) (\<lambda>after.
        bind (restoreStock ?c i Mv_void) (\<lambda>_. ret (assemble after)))))))) s0 = (Inr sale, s')"
    by blast
  obtain status shiftId where lk: "lk = Some (status, shiftId)" using r1 by (cases lk) auto
  note locked = l [unfolded lk lockSale_Inr]
  then have s0: "s0 = s" by simp
  have st: "status = Completed"
    and r2: "bind (openShift ?c tm) (\<lambda>open.
        bind (guard (open \<noteq> None \<and> map_option r_id open = shiftId)
                (validation ''Voids are only allowed while the sale's shift is open.'')) (\<lambda>_.
        bind now (\<lambda>n.
        bind (scoped_update ?c sale_t (\<lambda>r. r_id r = i)
                (\<lambda>r. r\<lparr> sl_status := Voided, sl_voidedAt := Some n, sl_statusReason := Some (trim reason) \<rparr>)) (\<lambda>after.
        bind (restoreStock ?c i Mv_void) (\<lambda>_. ret (assemble after)))))) s = (Inr sale, s')"
    using r1 [unfolded lk s0] by (simp_all split: if_splits)
  from r2 [unfolded bind_eq_Inr [of "openShift _ _"]] obtain op s2 where
    o1: "openShift ?c tm s = (Inr op, s2)"
    and r3: "bind (guard (op \<noteq> None \<and> map_option r_id op = shiftId)
                (validation ''Voids are only allowed while the sale's shift is open.'')) (\<lambda>_.
        bind now (\<lambda>n.
        bind (scoped_update ?c sale_t (\<lambda>r. r_id r = i)
                (\<lambda>r. r\<lparr> sl_status := Voided, sl_voidedAt := Some n, sl_statusReason := Some (trim reason) \<rparr>)) (\<lambda>after.
        bind (restoreStock ?c i Mv_void) (\<lambda>_. ret (assemble after))))) s2 = (Inr sale, s')"
    by blast
  have "pure_op (openShift ?c tm)" by (simp add: openShift_def)
  then have s2: "s2 = s" using o1 by (metis pure_opD snd_conv)
  obtain shift where op: "op = Some shift" and sh: "shiftId = Some (r_id shift)"
    using r3 by (cases op) (auto split: if_splits)
  from r3 [unfolded s2 op sh] obtain after s1 where
    "scoped_update ?c sale_t (\<lambda>r. r_id r = i)
      (\<lambda>r. r\<lparr> sl_status := Voided, sl_voidedAt := Some (db_now s), sl_statusReason := Some (trim reason) \<rparr>) s = (Inr after, s1)"
    "restoreStock ?c i Mv_void s1 = (Inr (), s')" "sale = assemble after"
    by (auto simp: now_def bind_eq_Inr)
  moreover obtain r where "find (\<lambda>r. r_id r = i \<and> sl_branchId r = br \<and> live r) (db_sale s) = Some r"
    "sl_status r = Completed" "sl_shiftId r = Some (r_id shift)"
    using locked st sh by auto
  ultimately show thesis using that reason o1 s2 op by blast
qed


section \<open>The sale a request creates\<close>

lemma persist_row:
  assumes "terminal_of ctx br tm biz" "find (\<lambda>r. r_id r = sd_id dto) (db_sale s) = None"
    and run: "persist dto totals costs br tm (in_tx ctx s) s = (Inr sale, s')"
  shows "db_sale s' = db_sale s @ [buildSaleRow (db_now s) dto totals br tm]"
    and "sale = assemble (buildSaleRow (db_now s) dto totals br tm)"
proof -
  let ?c = "in_tx ctx s"
  from persist_steps [OF run assms(2)] obtain W ids s1 created s2 s3 where st:
    "for_each W (decrementLevel ?c ids) s = (Inr (), s1)"
    "createSale ?c dto totals costs br tm s1 = (Inr created, s2)"
    "for_each (tracked_lines dto) (saleMovement ?c br (r_id created)) s2 = (Inr (), s3)"
    "bumpReceiptSeq tm (sd_receiptNo dto) s3 = (Inr (), s')" "sale = assemble created"
    by metis
  have fr: "framed (\<lambda>s. db_now s = X) branchStock_t" for X by (simp add: framed_def branchStock_t_def)
  have n: "db_now s1 = db_now s" "db_sale s1 = db_sale s"
    "db_sale s3 = db_sale s2" "db_sale s' = db_sale s3"
    using keeps_eq [of db_sale "for_each W (decrementLevel ?c ids)" s, OF _ st(1)]
      keeps_eq [of db_now "for_each W (decrementLevel ?c ids)" s, OF _ st(1)]
      keeps_eq [of db_sale "for_each (tracked_lines dto) (saleMovement ?c br (r_id created))" s2, OF _ st(3)]
      keeps_eq [of db_sale "bumpReceiptSeq tm (sd_receiptNo dto)" s3, OF _ st(4)]
    by (simp_all add: keeps_decrements keeps_movements framed_bump fr)
  have on: "on_branch ?c br" using assms(1) by simp
  from createSale_Inr [OF st(2) on] n st(5)
  show "db_sale s' = db_sale s @ [buildSaleRow (db_now s) dto totals br tm]"
    "sale = assemble (buildSaleRow (db_now s) dto totals br tm)"
    by simp_all
qed

lemma find_sale_own:
  assumes "terminal_of ctx br tm biz" "db_sale s = rows @ [r]" "sl_branchId r = br" "live r" "r_id r = i"
    and "find (\<lambda>r. r_id r = i) rows = None"
  shows "findSale ctx i s = (Inr (Some r), s)"
proof -
  have "visible ctx sale_t False s r"
    using assms(1,3,4) by (simp add: terminal_of_def visible_def in_scope_def tenantWhereFor_def is_terminal_def
        sale_t_def)
  moreover have "filter (\<lambda>r. r_id r = i \<and> visible ctx sale_t False s r) rows = []"
    using assms(6) by (auto simp: filter_empty_conv find_None_iff)
  moreover have "choke_guard ctx (tb_model sale_t) Read = None"
    using assms(1) by (simp add: terminal_of_def choke_guard_def sale_t_def PLATFORM_MODELS_def CHILD_PARENT_def)
  moreover have "base_db ctx s = s" using assms(1) by (simp add: terminal_of_def base_db_def)
  ultimately show ?thesis
    using assms(2,5) by (simp add: findSale_def scoped_findFirst_def bind_def findMany_Inr scoped_findMany_def
        scoped_find_all_def choke_def sale_t_def)
qed


lemma refundSale_terminal:
  assumes "terminal_of ctx br tm biz" "cx_ownerId ctx = Some ow"
  shows "refundSale verify ctx i reason pin =
    bind (verifyPinWithLockout verify ctx ow pin) (\<lambda>_.
      if trim reason = [] then throw (validation ''A reason is required.'')
      else runWithTxClient ctx (refundBody i (trim reason) br tm))"
  using assms by (simp add: refundSale_def terminal_of_def Let_def)

text \<open>A successful refund transaction.\<close>

lemma refundBody_Inr:
  assumes body: "refundBody i reason br tm ctx s = (Inr sale, s')"
  obtains r cur after s1 where
    "find (\<lambda>r. r_id r = i \<and> sl_branchId r = br \<and> live r) (db_sale s) = Some r" "sl_status r = Completed"
    "openShift ctx tm s = (Inr cur, s)"
    "scoped_update ctx sale_t (\<lambda>r. r_id r = i)
      (\<lambda>q. q\<lparr> sl_status := Refunded, sl_refundedAt := Some (db_now s), sl_statusReason := Some reason,
             sl_refundShiftId := (if cur \<noteq> None \<and> map_option r_id cur = sl_shiftId r then map_option r_id cur else None) \<rparr>) s
      = (Inr after, s1)"
    "restoreStock ctx i Mv_refund s1 = (Inr (), s')" "sale = assemble after"
proof -
  from body [unfolded refundBody_def bind_eq_Inr [of "lockSale _ _"]] obtain lk s0 where
    l: "lockSale i br s = (Inr lk, s0)"
    and r1: "(case lk of None \<Rightarrow> throw (not_found ''Sale not found.'')
    | Some (status, shiftId) \<Rightarrow>
        bind (guard (status = Completed)
                (validation (''A '' @ status_name status @ '' sale cannot be refunded.''))) (\<lambda>_.
        bind (openShift ctx tm) (\<lambda>open.
        let refundShiftId = (if open \<noteq> None \<and> map_option r_id open = shiftId then map_option r_id open else None)
        in bind now (\<lambda>n.
           bind (scoped_update ctx sale_t (\<lambda>r. r_id r = i)
                   (\<lambda>r. r\<lparr> sl_status := Refunded, sl_refundedAt := Some n, sl_statusReason := Some reason,
                           sl_refundShiftId := refundShiftId \<rparr>)) (\<lambda>after.
           bind (restoreStock ctx i Mv_refund) (\<lambda>_. ret (assemble after))))))) s0 = (Inr sale, s')"
    by blast
  obtain status shiftId where lk: "lk = Some (status, shiftId)" using r1 by (cases lk) auto
  note locked = l [unfolded lk lockSale_Inr]
  then have s0: "s0 = s" by simp
  have st: "status = Completed"
    and r2: "bind (openShift ctx tm) (\<lambda>open.
        let refundShiftId = (if open \<noteq> None \<and> map_option r_id open = shiftId then map_option r_id open else None)
        in bind now (\<lambda>n.
           bind (scoped_update ctx sale_t (\<lambda>r. r_id r = i)
                   (\<lambda>r. r\<lparr> sl_status := Refunded, sl_refundedAt := Some n, sl_statusReason := Some reason,
                           sl_refundShiftId := refundShiftId \<rparr>)) (\<lambda>after.
           bind (restoreStock ctx i Mv_refund) (\<lambda>_. ret (assemble after))))) s = (Inr sale, s')"
    using r1 [unfolded lk s0] by (simp_all split: if_splits)
  from r2 [unfolded bind_eq_Inr [of "openShift _ _"]] obtain op s2 where
    o1: "openShift ctx tm s = (Inr op, s2)"
    and r3: "(let refundShiftId = (if op \<noteq> None \<and> map_option r_id op = shiftId then map_option r_id op else None)
        in bind now (\<lambda>n.
           bind (scoped_update ctx sale_t (\<lambda>r. r_id r = i)
                   (\<lambda>r. r\<lparr> sl_status := Refunded, sl_refundedAt := Some n, sl_statusReason := Some reason,
                           sl_refundShiftId := refundShiftId \<rparr>)) (\<lambda>after.
           bind (restoreStock ctx i Mv_refund) (\<lambda>_. ret (assemble after))))) s2 = (Inr sale, s')"
    by blast
  have "pure_op (openShift ctx tm)" by (simp add: openShift_def)
  then have s2: "s2 = s" using o1 by (metis pure_opD snd_conv)
  from r3 [unfolded s2 Let_def now_def bind_reads bind_eq_Inr] obtain after s1 where
    "scoped_update ctx sale_t (\<lambda>r. r_id r = i)
      (\<lambda>r. r\<lparr> sl_status := Refunded, sl_refundedAt := Some (db_now s), sl_statusReason := Some reason,
             sl_refundShiftId := (if op \<noteq> None \<and> map_option r_id op = shiftId then map_option r_id op else None) \<rparr>) s = (Inr after, s1)"
    "restoreStock ctx i Mv_refund s1 = (Inr (), s')" "sale = assemble after"
    by auto
  moreover obtain r where "find (\<lambda>r. r_id r = i \<and> sl_branchId r = br \<and> live r) (db_sale s) = Some r"
    "sl_status r = Completed" "sl_shiftId r = shiftId"
    using locked st by auto
  ultimately show thesis using that o1 s2 by blast
qed

section \<open>What closing a sale gives back\<close>

definition sale_moves :: "ctx \<Rightarrow> uid \<Rightarrow> db \<Rightarrow> stock_movement_row list" where
  "sale_moves ctx i s = filter (\<lambda>m. (mv_refId m = i \<and> mv_type m = Mv_sale) \<and> visible ctx stockMovement_t False s m)
     (db_stockMovement s)"

definition wf_moves :: "db \<Rightarrow> bool" where
  "wf_moves s \<longleftrightarrow> list_all (\<lambda>m. \<bar>mv_qtyDelta m\<bar> < 10 ^ 10) (db_stockMovement s)"

text \<open>What a request may see does not depend on its transaction.\<close>

lemma tx_irrelevant [simp]:
  "is_terminal (ctx\<lparr> cx_tx := x \<rparr>) = is_terminal ctx"
  "allowedBusinessIds base (ctx\<lparr> cx_tx := x \<rparr>) = allowedBusinessIds base ctx"
  "allowedBranchIds base (ctx\<lparr> cx_tx := x \<rparr>) = allowedBranchIds base ctx"
  "choke_guard (ctx\<lparr> cx_tx := x \<rparr>) m oper = choke_guard ctx m oper"
  by (simp_all add: is_terminal_def allowedBranchIds_def allowedBusinessIds_def choke_guard_def)

lemma tx_visible [simp]: "visible (ctx\<lparr> cx_tx := x \<rparr>) t inc base r = visible ctx t inc base r"
  by (simp add: visible_def in_scope_def tenantWhereFor_def split: option.split scope_col.split)

lemma restoreStock_Inr:
  assumes "terminal_of ctx br tm biz" and run: "restoreStock (in_tx ctx s) i ty s1 = (Inr (), s')"
    and same: "db_branchStock s1 = db_branchStock s" "db_stockMovement s1 = db_stockMovement s"
    and wf: "distinct (map r_id (db_branchStock s))" "wf_moves s"
  shows "stock_at b p v s' = stock_at b p v s - moves_of p v b (sale_moves ctx i s)
    \<and> moved_at b p v s' = moved_at b p v s - moves_of p v b (sale_moves ctx i s)"
proof -
  let ?c = "in_tx ctx s"
  have r: "for_each (sale_moves ctx i s) (restoreOne ?c i ty) s1 = (Inr (), s')"
    using run by (auto simp: restoreStock_def bind_eq_Inr findMany_Inr base_db_def sale_moves_def stockMovement_t_def)
  have tx: "tx_of s s1" using tx_of_refl [OF wf(1)] tx_of_cong [OF same(1)] by simp
  have mv: "\<forall>m \<in> set (sale_moves ctx i s). on_branch ?c (mv_branchId m) \<and> \<bar>mv_qtyDelta m\<bar> < 10 ^ 10"
    using wf(2) assms(1)
    by (auto simp: sale_moves_def wf_moves_def list_all_iff on_branch_def visible_def in_scope_def tenantWhereFor_def
        terminal_of_def is_terminal_def stockMovement_t_def)
  from restoreAll_Inr [OF r tx _ mv, of b p v] stock_at_cong [OF same(1), of b p v] moved_at_cong [OF same(2), of b p v]
  show ?thesis by simp
qed

lemma sale_update_frame:
  assumes "scoped_update ctx sale_t sel f s = (Inr after, s1)"
  shows "db_branchStock s1 = db_branchStock s" "db_stockMovement s1 = db_stockMovement s"
  using keeps_eq [of db_branchStock "scoped_update ctx sale_t sel f" s, OF _ assms]
    keeps_eq [of db_stockMovement "scoped_update ctx sale_t sel f" s, OF _ assms]
  by (simp_all add: framed_scoped_update)


section \<open>What the checks establish\<close>

lemma checkSale_Inr:
  assumes "checkSale ctx biz tm dto s = (Inr (totals, costs), s')"
  obtains shift b where "openShift ctx tm s = (Inr (Some shift), s)" "r_id shift = sd_shiftId dto"
    "scoped_findFirst ctx business_t (\<lambda>b. r_id b = biz) s = (Inr (Some b), s)"
    "computeTotals (draft_cart dto) (business_rates b) = Some totals"
    "map_option canonical (sd_totals dto) = Some (canonical (totals_json totals))"
    "assertPayment (sd_payment dto) (totalC totals) = Inr ()"
proof -
  from assms [unfolded checkSale_def bind_eq_Inr [of "openShift _ _"]] obtain sh s1 where
    o1: "openShift ctx tm s = (Inr sh, s1)"
    and r1: "bind (guard (map_option r_id sh = Some (sd_shiftId dto)) (validation ''The sale's shift is not open.'')) (\<lambda>_.
    bind (scoped_findFirst ctx business_t (\<lambda>b. r_id b = biz)) (\<lambda>business.
    case business of
      None \<Rightarrow> throw (not_found ''Business not found.'')
    | Some b \<Rightarrow>
        bind (validateLines ctx biz (sd_lines dto)) (\<lambda>costByLine.
        bind (validateDiscounts ctx dto) (\<lambda>_.
        case computeTotals (draft_cart dto) (business_rates b) of
          None \<Rightarrow> throw bad_quantity
        | Some totals \<Rightarrow>
            bind (guard (map_option canonical (sd_totals dto) = Some (canonical (totals_json totals)))
                    (validation ''Totals do not match a server-side recompute.'')) (\<lambda>_.
            bind (lift_res (assertPayment (sd_payment dto) (totalC totals))) (\<lambda>_.
            ret (totals, costByLine))))))) s1 = (Inr (totals, costs), s')"
    by blast
  have "pure_op (openShift ctx tm)" by (simp add: openShift_def)
  then have s1: "s1 = s" using o1 by (metis pure_opD snd_conv)
  obtain shift where sh: "sh = Some shift" "r_id shift = sd_shiftId dto"
    using r1 by (cases sh) (auto split: if_splits)
  have r2: "bind (scoped_findFirst ctx business_t (\<lambda>b. r_id b = biz)) (\<lambda>business.
    case business of
      None \<Rightarrow> throw (not_found ''Business not found.'')
    | Some b \<Rightarrow>
        bind (validateLines ctx biz (sd_lines dto)) (\<lambda>costByLine.
        bind (validateDiscounts ctx dto) (\<lambda>_.
        case computeTotals (draft_cart dto) (business_rates b) of
          None \<Rightarrow> throw bad_quantity
        | Some totals \<Rightarrow>
            bind (guard (map_option canonical (sd_totals dto) = Some (canonical (totals_json totals)))
                    (validation ''Totals do not match a server-side recompute.'')) (\<lambda>_.
            bind (lift_res (assertPayment (sd_payment dto) (totalC totals))) (\<lambda>_.
            ret (totals, costByLine)))))) s = (Inr (totals, costs), s')"
    using r1 by (simp add: sh s1)
  from r2 [unfolded bind_eq_Inr [of "scoped_findFirst _ _ _"]] obtain bo s2 where
    f: "scoped_findFirst ctx business_t (\<lambda>b. r_id b = biz) s = (Inr bo, s2)"
    and r3: "(case bo of
      None \<Rightarrow> throw (not_found ''Business not found.'')
    | Some b \<Rightarrow>
        bind (validateLines ctx biz (sd_lines dto)) (\<lambda>costByLine.
        bind (validateDiscounts ctx dto) (\<lambda>_.
        case computeTotals (draft_cart dto) (business_rates b) of
          None \<Rightarrow> throw bad_quantity
        | Some totals \<Rightarrow>
            bind (guard (map_option canonical (sd_totals dto) = Some (canonical (totals_json totals)))
                    (validation ''Totals do not match a server-side recompute.'')) (\<lambda>_.
            bind (lift_res (assertPayment (sd_payment dto) (totalC totals))) (\<lambda>_.
            ret (totals, costByLine)))))) s2 = (Inr (totals, costs), s')"
    by blast
  have s2: "s2 = s" by (metis f pure_find(3) pure_opD snd_conv)
  obtain b where b: "bo = Some b" using r3 by (cases bo) auto
  from r3 [unfolded b option.case bind_eq_Inr [of "validateLines _ _ _"]] obtain cs s3 where
    r4: "bind (validateDiscounts ctx dto) (\<lambda>_.
        case computeTotals (draft_cart dto) (business_rates b) of
          None \<Rightarrow> throw bad_quantity
        | Some totals \<Rightarrow>
            bind (guard (map_option canonical (sd_totals dto) = Some (canonical (totals_json totals)))
                    (validation ''Totals do not match a server-side recompute.'')) (\<lambda>_.
            bind (lift_res (assertPayment (sd_payment dto) (totalC totals))) (\<lambda>_.
            ret (totals, cs)))) s3 = (Inr (totals, costs), s')"
    by blast
  from r4 [unfolded bind_eq_Inr [of "validateDiscounts _ _"]] obtain s4 where
    r5: "(case computeTotals (draft_cart dto) (business_rates b) of
          None \<Rightarrow> throw bad_quantity
        | Some totals \<Rightarrow>
            bind (guard (map_option canonical (sd_totals dto) = Some (canonical (totals_json totals)))
                    (validation ''Totals do not match a server-side recompute.'')) (\<lambda>_.
            bind (lift_res (assertPayment (sd_payment dto) (totalC totals))) (\<lambda>_.
            ret (totals, cs)))) s4 = (Inr (totals, costs), s')"
    by blast
  obtain t where t: "computeTotals (draft_cart dto) (business_rates b) = Some t"
    using r5 by (cases "computeTotals (draft_cart dto) (business_rates b)") auto
  have "t = totals" "map_option canonical (sd_totals dto) = Some (canonical (totals_json t))"
    "assertPayment (sd_payment dto) (totalC t) = Inr ()"
    using r5 [unfolded t option.case bind_guard bind_lift_res]
    by (simp_all split: if_splits sum.splits)
  with that o1 sh f b s1 s2 t show thesis by simp
qed

section \<open>The payment of a sale\<close>

lemma int_column_Inr: "int_column x = Inr n \<longleftrightarrow> x = of_int n"
  by (auto simp: int_column_def)

lemma createPayment_row:
  assumes "createPayment i p s = (Inr u, s')"
  shows "\<exists>n q. db_salePayment s' = db_salePayment s @ [q] \<and> sp_saleId q = i \<and> of_int (sp_amount q) = pm_amountC p
    \<and> sp_method q = pm_method p \<and> of_int (sp_tendered q) = pm_tenderedC p \<and> of_int (sp_change q) = pm_changeC p"
proof -
  obtain a t c row where n: "pm_amountC p = of_int a" "pm_tenderedC p = of_int t" "pm_changeC p = of_int c"
    and ins: "raw_insert salePayment_t
      \<lparr> r_id = pm_id p, r_createdAt = 0, r_updatedAt = 0, r_deletedAt = None, sp_saleId = i,
        sp_method = pm_method p, sp_reference = pm_referenceNo p, sp_amount = a,
        sp_tendered = t, sp_change = c \<rparr> s = (Inr row, s')"
    using assms by (auto simp: createPayment_def bind_eq_Inr int_column_Inr split: sum.splits)
  from salePayment_tb.raw_insert_cases [OF ins] n show ?thesis by (auto simp: salePayment_t_def)
qed

lemma createSale_payment:
  assumes "createSale ctx dto totals costs br tm s = (Inr created, s')"
  shows "list_all (\<lambda>x. of_int \<lfloor>x\<rfloor> = x) [subtotalC totals, ct_promoDiscountC totals, serviceChargeC totals,
      ct_scPwdDiscountC totals, vatExemptSalesC totals, vatC totals, totalC totals]"
    and "\<exists>q. q \<in> set (db_salePayment s') \<and> sp_saleId q = r_id created \<and> of_int (sp_amount q) = pm_amountC (sd_payment dto)
      \<and> sp_method q = pm_method (sd_payment dto)"
proof -
  obtain cols where cols: "sale_columns totals = Inr cols"
    and c: "scoped_create_nested ctx sale_t (Some br) (nestedSale dto totals costs)
        (buildSaleRow (db_now s) dto totals br tm) s = (Inr created, s')"
    using assms(1) by (auto simp: createSale_def now_def split: sum.splits)
  show "list_all (\<lambda>x. of_int \<lfloor>x\<rfloor> = x) [subtotalC totals, ct_promoDiscountC totals, serviceChargeC totals,
      ct_scPwdDiscountC totals, vatExemptSalesC totals, vatC totals, totalC totals]"
    using cols unfolding sale_columns_def Let_def by (metis Inl_Inr_False)
  from c [unfolded scoped_create_nested_Inr] obtain s1 s2 where
    nest: "nestedSale dto totals costs created s1 = (Inr (), s2)" and s': "db_salePayment s' = db_salePayment s2"
    by (auto simp: audited_def)
  from nest obtain s3 where "createPayment (r_id created) (sd_payment dto) s3 = (Inr (), s2)"
    by (auto simp: nestedSale_def bind_eq_Inr)
  from createPayment_row [OF this] s' show "\<exists>q. q \<in> set (db_salePayment s') \<and> sp_saleId q = r_id created
      \<and> of_int (sp_amount q) = pm_amountC (sd_payment dto) \<and> sp_method q = pm_method (sd_payment dto)"
    by auto
qed

lemma framed_payment [simp]:
  "framed (\<lambda>s. db_salePayment s = X) branchStock_t" "framed (\<lambda>s. db_salePayment s = X) stockMovement_t"
  "framed (\<lambda>s. db_salePayment s = X) terminal_t"
  by (simp_all add: framed_def table_defs)

lemma persist_payment:
  assumes "terminal_of ctx br tm biz" "find (\<lambda>r. r_id r = sd_id dto) (db_sale s) = None"
    and run: "persist dto totals costs br tm (in_tx ctx s) s = (Inr sale, s')"
  shows "of_int \<lfloor>totalC totals\<rfloor> = totalC totals"
    and "\<exists>q. q \<in> set (db_salePayment s') \<and> sp_saleId q = sd_id dto \<and> of_int (sp_amount q) = pm_amountC (sd_payment dto)
      \<and> sp_method q = pm_method (sd_payment dto)"
proof -
  let ?c = "in_tx ctx s"
  from persist_steps [OF run assms(2)] obtain s1 created s2 s3 where st:
    "createSale ?c dto totals costs br tm s1 = (Inr created, s2)"
    "for_each (tracked_lines dto) (saleMovement ?c br (r_id created)) s2 = (Inr (), s3)"
    "bumpReceiptSeq tm (sd_receiptNo dto) s3 = (Inr (), s')"
    by metis
  show "of_int \<lfloor>totalC totals\<rfloor> = totalC totals" using createSale_payment(1) [OF st(1)] by simp
  have "r_id created = sd_id dto" using createSale_Inr(1) [OF st(1)] assms(1) by (simp add: buildSaleRow_def)
  moreover have "db_salePayment s' = db_salePayment s2"
    using keeps_eq [of db_salePayment "for_each (tracked_lines dto) (saleMovement ?c br (r_id created))" s2, OF _ st(2)]
      keeps_eq [of db_salePayment "bumpReceiptSeq tm (sd_receiptNo dto)" s3, OF _ st(3)]
    by (simp add: keeps_movements framed_bump)
  ultimately show "\<exists>q. q \<in> set (db_salePayment s') \<and> sp_saleId q = sd_id dto
      \<and> of_int (sp_amount q) = pm_amountC (sd_payment dto) \<and> sp_method q = pm_method (sd_payment dto)"
    using createSale_payment(2) [OF st(1)] by simp
qed


section \<open>The PIN gate\<close>

lemma recordFailure_fails: "fst (recordFailure i kind s) \<noteq> Inr u"
  by (auto simp: recordFailure_def bind_def Let_def split: option.split prod.split sum.split)

lemma verifyPin_Inr:
  assumes "verifyPinWithLockout verify ctx ow pin s = (Inr u, s')"
  shows "\<exists>user h. ownerUser s ow = Some user \<and> us_pinHash user = Some h \<and> verify h pin
    \<and> unlocked (db_now s) (us_pinLockedUntil user)"
proof (cases "ownerUser s ow")
  case None
  with assms show ?thesis by (simp add: verifyPinWithLockout_def)
next
  case (Some user)
  show ?thesis
  proof (cases "us_pinHash user")
    case None
    with assms Some show ?thesis by (simp add: verifyPinWithLockout_def)
  next
    case (Some h)
    note pin = this
    have run: "(if h = [] then throw no_pin
        else bind (assertNotLocked user Pin_kind) (\<lambda>_.
             if \<not> verify h pin
             then bind (writePinFailureAudit ctx (r_id user) ow) (\<lambda>_. recordFailure (r_id user) Pin_kind)
             else recordSuccess (r_id user) Pin_kind)) s = (Inr u, s')"
      using assms \<open>ownerUser s ow = Some user\<close> pin by (simp add: verifyPinWithLockout_def)
    then have open_: "unlocked (db_now s) (us_pinLockedUntil user)"
      by (auto simp: bind_eq_Inr assertNotLocked_apply lockedUntil_of_def split: if_splits)
    moreover have "verify h pin"
    proof (rule ccontr)
      assume "\<not> verify h pin"
      with run open_ have "bind (writePinFailureAudit ctx (r_id user) ow) (\<lambda>_. recordFailure (r_id user) Pin_kind) s = (Inr u, s')"
        by (simp add: bind_def assertNotLocked_apply lockedUntil_of_def split: if_splits)
      then show False using recordFailure_fails by (auto simp: bind_eq_Inr) (metis fst_conv)
    qed
    ultimately show ?thesis using \<open>ownerUser s ow = Some user\<close> pin by blast
  qed
qed

text \<open>What the PIN check writes is users and audit rows.\<close>

lemma framed_verifyPin:
  assumes "framed P user_t" shows "keeps P (verifyPinWithLockout verify ctx ow pin)"
proof -
  have "keeps P (insert_audit a)" for a using assms by (auto simp: keeps_def framed_def)
  then show ?thesis
    unfolding verifyPinWithLockout_def assertNotLocked_def recordFailure_def recordSuccess_def writePinFailureAudit_def Let_def
    by (intro keeps_intros framed_update assms)
qed

lemma framed_user [simp]:
  "framed (\<lambda>s. db_sale s = X) user_t" "framed (\<lambda>s. db_branchStock s = Y) user_t"
  "framed (\<lambda>s. db_stockMovement s = Z) user_t" "framed (\<lambda>s. db_now s = n) user_t" "framed (\<lambda>s. db_shift s = W) user_t"
  by (simp_all add: framed_def user_t_def)

section \<open>The receipt counter\<close>

lemma bump_Inr:
  assumes "bumpReceiptSeq tm no s = (Inr u, s')" "find (\<lambda>t. r_id t = tm) (db_terminal s) = Some t"
    and wf: "distinct (map r_id (db_terminal s))"
  shows "\<exists>t'. find (\<lambda>t. r_id t = tm) (db_terminal s') = Some t'
    \<and> tm_receiptSeq t' = (if of_int (tm_receiptSeq t) < jadd (seqOf no) 1 then \<lfloor>jadd (seqOf no) 1\<rfloor> else tm_receiptSeq t)"
proof (cases "max (of_int (tm_receiptSeq t)) (jadd (seqOf no) 1) = of_int (tm_receiptSeq t)")
  case True
  then have "s' = s" and "\<not> of_int (tm_receiptSeq t) < jadd (seqOf no) 1"
    using assms(1,2) by (auto simp: bumpReceiptSeq_def Let_def max_def split: if_splits)
  with assms(2) show ?thesis by simp
next
  case False
  then have lt: "of_int (tm_receiptSeq t) < jadd (seqOf no) 1" by (auto simp: max_def split: if_splits)
  then have mx: "max (of_int (tm_receiptSeq t)) (jadd (seqOf no) 1) = jadd (seqOf no) 1" by simp
  obtain r where u: "raw_update terminal_t tm (\<lambda>r. r\<lparr> tm_receiptSeq := \<lfloor>jadd (seqOf no) 1\<rfloor> \<rparr>) s = (Inr r, s')"
    using assms(1,2) False by (auto simp: bumpReceiptSeq_def Let_def mx bind_eq_Inr split: if_splits)
  from terminal_tb.raw_update_cases [OF u] assms(2)
  have s': "db_terminal s' = upd_rows (\<lambda>q. r_id q = tm) (\<lambda>_. r) (db_terminal s)"
    and r: "tm_receiptSeq r = \<lfloor>jadd (seqOf no) 1\<rfloor>" "r_id r = r_id t"
    by (auto simp: terminal_t_def)
  have "find (\<lambda>t. r_id t = tm) (upd_rows (\<lambda>q. r_id q = tm) (\<lambda>_. r) rows) = Some r"
    if "find (\<lambda>t. r_id t = tm) rows = Some t" for rows
    using that r(2) find_SomeD [OF assms(2)] by (induction rows) auto
  then have "find (\<lambda>t. r_id t = tm) (db_terminal s') = Some r" using assms(2) by (simp add: s')
  with lt r(1) show ?thesis by auto
qed

end
