(* ===== verification/SaleFixture.thy ===== *)
theory SaleFixture
  imports SaleRequests
begin

text \<open>
  One request of the concrete terminal: a draft of 0.750 kg at 100.00, its totals, and the
  database after it was completed.
\<close>

section \<open>A concrete request\<close>

definition fx_totals :: cart_totals where
  "fx_totals = \<lparr> ct_lines = [\<lparr> lineId = ex_uuid ''03'', grossC = 7500, promoDiscountC = 0, scPwdDiscountC = 0,
       applied = None, netC = 7500 \<rparr>],
     subtotalC = 7500, ct_promoDiscountC = 0, ct_scPwdDiscountC = 0, discountedSubtotalC = 7500,
     serviceChargeC = 0, totalC = 7500, vatExemptSalesC = 0, vatC = 0, vatableSalesC = 7500 \<rparr>"

definition fx_draft :: sale_draft where
  "fx_draft = ex_draft\<lparr> sd_totals := Some (totals_json fx_totals) \<rparr>"

definition fx_costs :: "(uid \<times> int option) list" where
  "fx_costs = [(ex_uuid ''03'', Some 6000)]"

definition fx_sold :: db where
  "fx_sold = snd (persist fx_draft fx_totals fx_costs ''br1'' ''tm1'' (fx_terminal_ctx\<lparr> cx_tx := Some fx_db \<rparr>) fx_db)"

definition fx_sale :: completed_sale where
  "fx_sale = assemble (buildSaleRow (db_now fx_db) fx_draft fx_totals ''br1'' ''tm1'')"

lemma fx_terminal: "terminal_of fx_terminal_ctx ''br1'' ''tm1'' ''biz1''"
  by (simp add: terminal_of_def fx_terminal_ctx_def)

lemma fx_find: "findSale fx_terminal_ctx (sd_id fx_draft) fx_db = (Inr None, fx_db)"
proof -
  have "fst (findSale fx_terminal_ctx (sd_id fx_draft) fx_db) = Inr None" by code_simp
  then show ?thesis by (metis pure_findSale pure_opD prod.collapse)
qed

lemma fx_check: "checkSale fx_terminal_ctx ''biz1'' ''tm1'' fx_draft fx_db = (Inr (fx_totals, fx_costs), fx_db)"
proof -
  have "fst (checkSale fx_terminal_ctx ''biz1'' ''tm1'' fx_draft fx_db) = Inr (fx_totals, fx_costs)" by code_simp
  then show ?thesis by (metis pure_checkSale pure_opD prod.collapse)
qed

lemma fx_new: "find (\<lambda>r. r_id r = sd_id fx_draft) (db_sale fx_db) = None"
  by (simp add: fx_db_def empty_db_def)

lemma fx_persist:
  "persist fx_draft fx_totals fx_costs ''br1'' ''tm1'' (fx_terminal_ctx\<lparr> cx_tx := Some fx_db \<rparr>) fx_db = (Inr fx_sale, fx_sold)"
proof -
  have "\<exists>sale. fst (persist fx_draft fx_totals fx_costs ''br1'' ''tm1'' (fx_terminal_ctx\<lparr> cx_tx := Some fx_db \<rparr>) fx_db) = Inr sale"
  proof -
    have "(case fst (persist fx_draft fx_totals fx_costs ''br1'' ''tm1'' (fx_terminal_ctx\<lparr> cx_tx := Some fx_db \<rparr>) fx_db)
        of Inr _ \<Rightarrow> True | Inl _ \<Rightarrow> False)" by code_simp
    then show ?thesis by (auto split: sum.splits)
  qed
  then obtain sale where "persist fx_draft fx_totals fx_costs ''br1'' ''tm1'' (fx_terminal_ctx\<lparr> cx_tx := Some fx_db \<rparr>) fx_db
      = (Inr sale, fx_sold)"
    unfolding fx_sold_def by (metis prod.collapse)
  with persist_row(2) [OF fx_terminal fx_new this] show ?thesis by (simp add: fx_sale_def)
qed

lemma fx_complete: "completeSale (\<lambda>s. s) fx_terminal_ctx fx_draft fx_db = (Inr (False, fx_sale), fx_sold)"
proof -
  have "saleTx fx_terminal_ctx fx_draft fx_totals fx_costs ''br1'' ''tm1'' fx_db = (Inr (False, fx_sale), fx_sold)"
    unfolding saleTx_Inr_False by (rule fx_persist)
  then show ?thesis
    unfolding completeSale_terminal [OF fx_terminal] by (simp add: bind_def fx_find fx_check)
qed

lemma fx_stock: "wf_stock ''br1'' fx_db"
  by (simp add: wf_stock_def fx_db_def empty_db_def fx_stock_def row_key_def keyOf_def uid_ok_def vid_ok_def
      ex_uuid_def live_def)

lemma fx_basket: "basket_ok (sd_lines fx_draft)"
proof -
  have "qtyToMilli (3 / 4) = Some 750" by code_simp
  then show ?thesis
    by (simp add: basket_ok_def fx_draft_def ex_draft_def line_ids_ok_def qty_ok_def line_milli_def uid_ok_def
        vid_ok_def ex_uuid_def)
qed

end
