(* ===== verification/SaleClaims.thy ===== *)
theory SaleClaims
  imports SaleFixture
begin

text \<open>
  The properties of completing a sale over whole requests, with the requests of a concrete
  terminal that satisfy their hypotheses.
\<close>

section \<open>Completing a sale\<close>

text \<open>
  C1. A completed sale takes from every stock row of the branch exactly what its tracked lines
  of that product and variant ask for, leaves every other row as it was, and no level
  becomes negative, whatever other requests committed before its transaction.
\<close>

theorem sale_takes_stock:
  assumes "terminal_of ctx br tm biz" and "completeSale env ctx dto s = (Inr (False, sale), s')"
    and "find (\<lambda>r. r_id r = sd_id dto) (db_sale (env s)) = None"
    and "wf_stock br (env s)" and "basket_ok (sd_lines dto)"
  shows "list_all2 (\<lambda>r r'. same_level_row r r' \<and> bs_qty r' = bs_qty r - taken br (sd_lines dto) r \<and> 0 \<le> bs_qty r')
    (db_branchStock (env s)) (db_branchStock s')"
  by (rule completeSale_fresh [OF assms(1,2)]) (rule persist_stock [OF assms(4,5,3)])

theorem sale_takes_stock_witness:
  "list_all2 (\<lambda>r r'. same_level_row r r' \<and> bs_qty r' = bs_qty r - taken ''br1'' (sd_lines fx_draft) r \<and> 0 \<le> bs_qty r')
    (db_branchStock fx_db) (db_branchStock fx_sold)"
  using sale_takes_stock [OF fx_terminal fx_complete fx_new fx_stock fx_basket] .

text \<open>
  A completed sale writes one stock movement per tracked line, of the line's product,
  variant and quantity with a negative sign and the sale as its reference, and the ledger
  (every level is the sum of its movements) balances after the sale if it did before.
\<close>

theorem sale_keeps_ledger:
  assumes "terminal_of ctx br tm biz" and "completeSale env ctx dto s = (Inr (False, sale), s')"
    and "find (\<lambda>r. r_id r = sd_id dto) (db_sale (env s)) = None"
    and "wf_stock br (env s)" and "basket_ok (sd_lines dto)"
  shows "(\<exists>ms. db_stockMovement s' = db_stockMovement (env s) @ ms
      \<and> list_all2 (movement_of br (sd_id dto)) (filter is_tracked (sd_lines dto)) ms)
    \<and> (ledger (env s) \<longrightarrow> ledger s')"
proof (rule completeSale_fresh [OF assms(1,2)])
  fix totals costs
  assume p: "persist dto totals costs br tm (in_tx ctx (env s)) (env s) = (Inr sale, s')"
  have on: "on_branch (in_tx ctx (env s)) br" using assms(1) by simp
  have "ledger s'" if "ledger (env s)"
    using that persist_stock_at [OF assms(4,5,3) p] persist_moved_at [OF assms(5) on assms(3) p]
    by (simp add: ledger_def)
  with persist_moves [OF assms(5) on assms(3) p] show ?thesis by (simp add: tracked_lines_def)
qed

theorem sale_keeps_ledger_witness:
  "\<exists>ms. db_stockMovement fx_sold = db_stockMovement fx_db @ ms
    \<and> list_all2 (movement_of ''br1'' (sd_id fx_draft)) (filter is_tracked (sd_lines fx_draft)) ms"
  using sale_keeps_ledger [OF fx_terminal fx_complete fx_new fx_stock fx_basket] by blast

text \<open>
  C4. A basket that asks, over all its lines of some product and variant, for more than the
  branch holds is refused with a stock conflict, and the refusal leaves the database as it
  was: nothing is sold, moved or audited.
\<close>

theorem oversell_refused:
  assumes "terminal_of ctx br tm biz"
    and "findSale ctx (sd_id dto) s = (Inr None, s)" and "checkSale ctx biz tm dto s = (Inr (totals, costs), s)"
    and "find (\<lambda>r. r_id r = sd_id dto) (db_sale (env s)) = None"
    and "wf_stock br (env s)" and "basket_ok (sd_lines dto)"
    and "\<not> enough br (sd_lines dto) (db_branchStock (env s))"
  shows "\<exists>cs. cs \<noteq> [] \<and> completeSale env ctx dto s = (Inl (Api (StockConflictHttpError cs)), env s)"
proof -
  let ?pids = "remdups (map (\<lambda>l. the (productId l)) (tracked_lines dto))"
  obtain W where W: "addWanted (tracked_lines dto) [] = Inr W"
    using addWanted_ok basket_tracked(1) [OF assms(6)] unfolding tracked_lines_def by blast
  obtain av ids where L: "lockStock br ?pids (env s) = (Inr (av, ids), env s)"
    by (cases "?pids = []") (auto simp: lockStock_def Let_def)
  have "\<forall>l \<in> set (sd_lines dto). is_tracked l \<longrightarrow> qty_ok l" using assms(6) by (simp add: basket_ok_def list_all_iff)
  then obtain cs where C: "detectConflicts (sd_lines dto) av = Inr cs"
    using detectFrom_ok unfolding detectConflicts_def by blast
  have cs: "cs \<noteq> []" using conflicts_spec [OF assms(5,6) L C] assms(7) by simp
  have "persist dto totals costs br tm (in_tx ctx (env s)) (env s) = (Inl (Api (StockConflictHttpError cs)), env s)"
    using W L C cs assms(4)
    by (simp add: persist_def tracked_lines_def Let_def bind_def [of "lockStock _ _"])
  then have "saleTx ctx dto totals costs br tm (env s) = (Inl (Api (StockConflictHttpError cs)), env s)"
    by (simp add: saleTx_def catch_op_def bind_def runWithTxClient_def transaction_def)
  then have "completeSale env ctx dto s = (Inl (Api (StockConflictHttpError cs)), env s)"
    unfolding completeSale_terminal [OF assms(1)] by (simp add: bind_def assms(2,3))
  with cs show ?thesis by blast
qed


definition fx_short :: db where
  "fx_short = fx_db\<lparr> db_branchStock := [fx_stock ''st1'' ''br1'' (ex_uuid ''04'') 500] \<rparr>"

lemma fx_short_facts:
  "find (\<lambda>r. r_id r = sd_id fx_draft) (db_sale fx_short) = None" "wf_stock ''br1'' fx_short"
  "\<not> enough ''br1'' (sd_lines fx_draft) (db_branchStock fx_short)"
proof -
  show "find (\<lambda>r. r_id r = sd_id fx_draft) (db_sale fx_short) = None"
    by (simp add: fx_short_def fx_db_def empty_db_def)
  show "wf_stock ''br1'' fx_short"
    by (simp add: wf_stock_def fx_short_def fx_stock_def row_key_def keyOf_def uid_ok_def vid_ok_def ex_uuid_def live_def)
  show "\<not> enough ''br1'' (sd_lines fx_draft) (db_branchStock fx_short)" by code_simp
qed

theorem oversell_refused_witness:
  "\<exists>cs. cs \<noteq> [] \<and> completeSale (\<lambda>_. fx_short) fx_terminal_ctx fx_draft fx_db
    = (Inl (Api (StockConflictHttpError cs)), fx_short)"
  by (rule oversell_refused [OF fx_terminal fx_find fx_check fx_short_facts(1,2) fx_basket fx_short_facts(3)])

text \<open>
  A request that fails, at any of its checks or inside its transaction, changes nothing:
  the database is the one other requests left.
\<close>

theorem failed_sale_changes_nothing:
  assumes "terminal_of ctx br tm biz" and "completeSale env ctx dto s = (Inl e, s')"
  shows "s' = s \<or> s' = env s"
  by (rule completeSale_failed [OF assms])

theorem failed_sale_changes_nothing_witness:
  "snd (completeSale (\<lambda>s. s) fx_terminal_ctx (fx_draft\<lparr> sd_shiftId := ''gone'' \<rparr>) fx_db) = fx_db"
proof -
  have "(case fst (completeSale (\<lambda>s. s) fx_terminal_ctx (fx_draft\<lparr> sd_shiftId := ''gone'' \<rparr>) fx_db) of Inl _ \<Rightarrow> True | Inr _ \<Rightarrow> False)"
    by code_simp
  then obtain e where "completeSale (\<lambda>s. s) fx_terminal_ctx (fx_draft\<lparr> sd_shiftId := ''gone'' \<rparr>) fx_db
    = (Inl e, snd (completeSale (\<lambda>s. s) fx_terminal_ctx (fx_draft\<lparr> sd_shiftId := ''gone'' \<rparr>) fx_db))"
    by (metis prod.collapse sum.case_eq_if sum.collapse(1))
  from failed_sale_changes_nothing [OF fx_terminal this] show ?thesis by simp
qed

text \<open>
  C5. Replay. A request that is sent again after it completed (a lost answer, a retry) returns
  the stored sale, marked as a replay, and writes nothing.
\<close>

theorem completed_sale_replays:
  assumes "terminal_of ctx br tm biz" and "completeSale env ctx dto s = (Inr (False, sale), s')"
    and "find (\<lambda>r. r_id r = sd_id dto) (db_sale (env s)) = None"
  shows "completeSale env' ctx dto s' = (Inr (True, sale), s')"
proof (rule completeSale_fresh [OF assms(1,2)])
  fix totals costs
  assume "persist dto totals costs br tm (in_tx ctx (env s)) (env s) = (Inr sale, s')"
  note row = persist_row [OF assms(1,3) this]
  let ?r = "buildSaleRow (db_now (env s)) dto totals br tm"
  have "findSale ctx (sd_id dto) s' = (Inr (Some ?r), s')"
    by (rule find_sale_own [OF assms(1) row(1) _ _ _ assms(3)]) (simp_all add: buildSaleRow_def live_def)
  then show ?thesis unfolding completeSale_terminal [OF assms(1)] by (simp add: bind_def row(2))
qed

theorem completed_sale_replays_witness:
  "completeSale (\<lambda>s. s) fx_terminal_ctx fx_draft fx_sold = (Inr (True, fx_sale), fx_sold)"
  by (rule completed_sale_replays [OF fx_terminal fx_complete fx_new])


lemma persist_columns:
  assumes "terminal_of ctx br tm biz" "find (\<lambda>r. r_id r = sd_id dto) (db_sale s) = None"
    and run: "persist dto totals costs br tm (in_tx ctx s) s = (Inr sale, s')"
  shows "list_all (\<lambda>x. of_int \<lfloor>x\<rfloor> = x) [subtotalC totals, ct_promoDiscountC totals, serviceChargeC totals,
      ct_scPwdDiscountC totals, vatExemptSalesC totals, vatC totals, totalC totals]"
proof -
  from persist_steps [OF run assms(2)] obtain s1 created s2 where
    "createSale (in_tx ctx s) dto totals costs br tm s1 = (Inr created, s2)" by metis
  from createSale_payment(1) [OF this] show ?thesis .
qed

text \<open>
  C21. What is stored is the server's own computation: a completed sale belongs to an open shift
  of its terminal, the totals the device sent are the recompute over the business's rates, and
  every amount column of the stored row is the recomputed amount of its name to the centavo: the
  subtotal, the promo discount, the service charge, the senior or PWD discount, the VAT-exempt
  sales, the tax and the total. The row carries the receipt number, order type and draft of
  the request, and the stored payment is of its method and of exactly that total.
\<close>

theorem sale_records_recompute:
  assumes "terminal_of ctx br tm biz" and "completeSale env ctx dto s = (Inr (False, sale), s')"
    and "find (\<lambda>r. r_id r = sd_id dto) (db_sale (env s)) = None"
  shows "\<exists>b shift totals row q.
    b \<in> set (db_business s) \<and> r_id b = biz
    \<and> shift \<in> set (db_shift s) \<and> sh_terminalId shift = tm \<and> sh_closedAt shift = None
    \<and> computeTotals (draft_cart dto) (business_rates b) = Some totals
    \<and> map_option canonical (sd_totals dto) = Some (canonical (totals_json totals))
    \<and> db_sale s' = db_sale (env s) @ [row] \<and> sale = assemble row
    \<and> r_id row = sd_id dto \<and> sl_branchId row = br \<and> sl_terminalId row = tm \<and> sl_shiftId row = Some (r_id shift)
    \<and> sl_status row = Completed \<and> sl_receiptNo row = sd_receiptNo dto \<and> sl_orderType row = sd_orderType dto \<and> sl_draft row = dto
    \<and> of_int (sl_subtotal row) = subtotalC totals \<and> of_int (sl_discount row) = ct_promoDiscountC totals
    \<and> of_int (sl_serviceCharge row) = serviceChargeC totals \<and> of_int (sl_scPwdDiscount row) = ct_scPwdDiscountC totals
    \<and> of_int (sl_vatExemptSales row) = vatExemptSalesC totals \<and> of_int (sl_tax row) = vatC totals
    \<and> of_int (sl_total row) = totalC totals
    \<and> q \<in> set (db_salePayment s') \<and> sp_saleId q = r_id row \<and> sp_method q = pm_method (sd_payment dto) \<and> sp_amount q = sl_total row"
proof (rule completeSale_fresh [OF assms(1,2)])
  fix totals costs
  assume c: "checkSale ctx biz tm dto s = (Inr (totals, costs), s)"
    and p: "persist dto totals costs br tm (in_tx ctx (env s)) (env s) = (Inr sale, s')"
  have base: "base_db ctx s = s" using assms(1) by (simp add: terminal_of_def base_db_def)
  from checkSale_Inr [OF c] obtain shift b where ck: "openShift ctx tm s = (Inr (Some shift), s)" "r_id shift = sd_shiftId dto"
    "scoped_findFirst ctx business_t (\<lambda>b. r_id b = biz) s = (Inr (Some b), s)"
    "computeTotals (draft_cart dto) (business_rates b) = Some totals"
    "map_option canonical (sd_totals dto) = Some (canonical (totals_json totals))"
    "assertPayment (sd_payment dto) (totalC totals) = Inr ()" by metis
  note sh = findFirst_Inr(1,2) [OF ck(1) [unfolded openShift_def]]
  note bz = findFirst_Inr(1,2) [OF ck(3)]
  obtain q where q: "q \<in> set (db_salePayment s')" "sp_saleId q = sd_id dto" "of_int (sp_amount q) = pm_amountC (sd_payment dto)"
    "sp_method q = pm_method (sd_payment dto)"
    using persist_payment(2) [OF assms(1,3) p] by blast
  have amount: "pm_amountC (sd_payment dto) = totalC totals"
    using ck(6) by (auto simp: assertPayment_def split: if_splits)
  let ?row = "buildSaleRow (db_now (env s)) dto totals br tm"
  have columns: "of_int (sl_subtotal ?row) = subtotalC totals" "of_int (sl_discount ?row) = ct_promoDiscountC totals"
      "of_int (sl_serviceCharge ?row) = serviceChargeC totals" "of_int (sl_scPwdDiscount ?row) = ct_scPwdDiscountC totals"
      "of_int (sl_vatExemptSales ?row) = vatExemptSalesC totals" "of_int (sl_tax ?row) = vatC totals"
      "of_int (sl_total ?row) = totalC totals"
    using persist_columns [OF assms(1,3) p] by (simp_all add: buildSaleRow_def)
  have "sp_amount q = sl_total ?row" using columns(7) q(3) amount by (metis of_int_eq_iff)
  moreover have "r_id ?row = sd_id dto \<and> sl_branchId ?row = br \<and> sl_terminalId ?row = tm \<and> sl_shiftId ?row = Some (r_id shift)
      \<and> sl_status ?row = Completed \<and> sl_receiptNo ?row = sd_receiptNo dto \<and> sl_orderType ?row = sd_orderType dto \<and> sl_draft ?row = dto"
    using ck(2) by (simp add: buildSaleRow_def)
  moreover have "b \<in> set (db_business s) \<and> r_id b = biz \<and> shift \<in> set (db_shift s) \<and> sh_terminalId shift = tm \<and> sh_closedAt shift = None"
    using sh bz base by (simp add: business_t_def shift_t_def)
  moreover note ck(4,5) persist_row [OF assms(1,3) p] q(1,2,4) columns
  ultimately show ?thesis
    by (intro exI [of _ b] exI [of _ shift] exI [of _ totals] exI [of _ ?row] exI [of _ q]) simp
qed

theorem sale_records_recompute_witness:
  "\<exists>row q. db_sale fx_sold = db_sale fx_db @ [row] \<and> sl_status row = Completed
    \<and> q \<in> set (db_salePayment fx_sold) \<and> sp_saleId q = r_id row \<and> sp_amount q = sl_total row"
  using sale_records_recompute [OF fx_terminal fx_complete fx_new] by fast


section \<open>A sale of another tenant\<close>

definition fx_foreign :: db where
  "fx_foreign = fx_db\<lparr> db_sale := [buildSaleRow 0 (fx_draft\<lparr> sd_receiptNo := ''SECRET-7'' \<rparr>) fx_totals ''br2'' ''tm2''] \<rparr>"

text \<open>
  The re-check under the lock looks the id up on the raw transaction client, without the
  tenant's scope: a terminal that completes a sale under the id of another tenant's sale is
  answered with that tenant's stored sale as its own new one, and nothing is sold.
\<close>

theorem completing_a_foreign_id_leaks:
  "findSale fx_terminal_ctx (sd_id fx_draft) fx_foreign = (Inr None, fx_foreign)
    \<and> (\<exists>sale. completeSale (\<lambda>s. s) fx_terminal_ctx fx_draft fx_foreign = (Inr (False, sale), fx_foreign)
      \<and> sd_receiptNo (cs_draft sale) = ''SECRET-7'')"
proof -
  have f: "findSale fx_terminal_ctx (sd_id fx_draft) fx_foreign = (Inr None, fx_foreign)"
  proof -
    have "fst (findSale fx_terminal_ctx (sd_id fx_draft) fx_foreign) = Inr None" by code_simp
    then show ?thesis by (metis pure_findSale pure_opD prod.collapse)
  qed
  have c: "checkSale fx_terminal_ctx ''biz1'' ''tm1'' fx_draft fx_foreign = (Inr (fx_totals, fx_costs), fx_foreign)"
  proof -
    have "fst (checkSale fx_terminal_ctx ''biz1'' ''tm1'' fx_draft fx_foreign) = Inr (fx_totals, fx_costs)" by code_simp
    then show ?thesis by (metis pure_checkSale pure_opD prod.collapse)
  qed
  have found: "find (\<lambda>r. r_id r = sd_id fx_draft) (db_sale fx_foreign)
      = Some (buildSaleRow 0 (fx_draft\<lparr> sd_receiptNo := ''SECRET-7'' \<rparr>) fx_totals ''br2'' ''tm2'')"
    by (simp add: fx_foreign_def buildSaleRow_def)
  let ?sale = "assemble (buildSaleRow 0 (fx_draft\<lparr> sd_receiptNo := ''SECRET-7'' \<rparr>) fx_totals ''br2'' ''tm2'')"
  obtain W where W: "addWanted (tracked_lines fx_draft) [] = Inr W"
    using addWanted_ok basket_tracked(1) [OF fx_basket] unfolding tracked_lines_def by blast
  obtain L where L: "lockStock ''br1'' (remdups (map (\<lambda>l. the (productId l)) (tracked_lines fx_draft))) fx_foreign = (Inr L, fx_foreign)"
    by (cases "remdups (map (\<lambda>l. the (productId l)) (tracked_lines fx_draft)) = []") (auto simp: lockStock_def Let_def)
  have "persist fx_draft fx_totals fx_costs ''br1'' ''tm1'' (in_tx fx_terminal_ctx fx_foreign) fx_foreign = (Inr ?sale, fx_foreign)"
    using W L found by (cases L) (simp add: persist_def tracked_lines_def Let_def bind_def [of "lockStock _ _"])
  then have "saleTx fx_terminal_ctx fx_draft fx_totals fx_costs ''br1'' ''tm1'' fx_foreign = (Inr (False, ?sale), fx_foreign)"
    by (simp only: saleTx_Inr_False)
  then have "completeSale (\<lambda>s. s) fx_terminal_ctx fx_draft fx_foreign = (Inr (False, ?sale), fx_foreign)"
    unfolding completeSale_terminal [OF fx_terminal] by (simp add: bind_def f c)
  moreover have "sd_receiptNo (cs_draft ?sale) = ''SECRET-7''" by (simp add: assemble_def buildSaleRow_def)
  ultimately show ?thesis using f by blast
qed

end
