(* ===== verification/VoidRefund.thy ===== *)
theory VoidRefund
  imports SaleFixture
begin

text \<open>
  Closing a sale: what voiding and refunding require, change and give back.
\<close>

section \<open>Concrete requests\<close>

lemma fx_sold_ledger_facts:
  "distinct (map r_id (db_branchStock fx_sold))" "wf_moves fx_sold"
  by code_simp+

lemma fx_void_ok:
  "\<exists>sale s'. voidSale fx_terminal_ctx (sd_id fx_draft) ''spilled'' fx_sold = (Inr sale, s')"
proof -
  have "(case fst (voidSale fx_terminal_ctx (sd_id fx_draft) ''spilled'' fx_sold) of Inr _ \<Rightarrow> True | Inl _ \<Rightarrow> False)"
    by code_simp
  then show ?thesis by (metis prod.collapse sum.case_eq_if sum.collapse(2))
qed

section \<open>Stock\<close>

text \<open>
  Voiding a sale gives back, per branch, product and variant, exactly what the sale's own
  movements took, in the levels and in the movements alike, so the ledger stays balanced.
\<close>

theorem void_gives_back:
  assumes "terminal_of ctx br tm biz" and "voidSale ctx i reason s = (Inr sale, s')"
    and "distinct (map r_id (db_branchStock s))" and "wf_moves s"
  shows "(\<forall>b p v. stock_at b p v s' = stock_at b p v s - moves_of p v b (sale_moves ctx i s)) \<and> (ledger s \<longrightarrow> ledger s')"
proof (rule voidSale_Inr [OF assms(1,2)])
  fix after s1
  assume u: "scoped_update (in_tx ctx s) sale_t (\<lambda>r. r_id r = i)
      (\<lambda>r. r\<lparr> sl_status := Voided, sl_voidedAt := Some (db_now s), sl_statusReason := Some (trim reason) \<rparr>) s = (Inr after, s1)"
    and r: "restoreStock (in_tx ctx s) i Mv_void s1 = (Inr (), s')"
  note rest = restoreStock_Inr [OF assms(1) r sale_update_frame [OF u] assms(3,4)]
  then show ?thesis by (simp add: ledger_def)
qed

theorem void_gives_back_witness:
  "\<exists>sale s'. voidSale fx_terminal_ctx (sd_id fx_draft) ''spilled'' fx_sold = (Inr sale, s')
    \<and> stock_at ''br1'' (ex_uuid ''04'') None s' = 5000"
proof -
  obtain sale s' where v: "voidSale fx_terminal_ctx (sd_id fx_draft) ''spilled'' fx_sold = (Inr sale, s')"
    using fx_void_ok by blast
  have "stock_at ''br1'' (ex_uuid ''04'') None fx_sold - moves_of (ex_uuid ''04'') None ''br1'' (sale_moves fx_terminal_ctx (sd_id fx_draft) fx_sold) = 5000"
    by code_simp
  with void_gives_back [OF fx_terminal v fx_sold_ledger_facts] v show ?thesis by metis
qed

lemma own_moves_visible:
  assumes "terminal_of ctx br tm biz" "list_all2 (movement_of br i) ls ms" "m \<in> set ms"
  shows "mv_refId m = i \<and> mv_type m = Mv_sale \<and> visible ctx stockMovement_t False s m"
proof -
  obtain l where "movement_of br i l m"
    using assms(2,3) by (auto simp: list_all2_conv_all_nth in_set_conv_nth)
  then show ?thesis
    using assms(1) by (auto simp: movement_of_def terminal_of_def visible_def in_scope_def tenantWhereFor_def
        is_terminal_def stockMovement_t_def)
qed

lemma own_moves_sum:
  assumes "list_all2 (movement_of br i) ls ms" "\<forall>l \<in> set ls. is_tracked l"
  shows "moves_of p v b ms = (if b = br then - line_taken ls p v else 0)"
  using movements_sum [OF assms, of b p v] by (simp add: moves_of_def mkeyed_def [abs_def])

text \<open>
  C11. Selling and voiding cancel out: after a sale is completed and then voided, every level is
  what it was before the sale.
\<close>

theorem sale_then_void:
  assumes "terminal_of ctx br tm biz" and "completeSale env ctx dto s = (Inr (False, sale), s1)"
    and "find (\<lambda>r. r_id r = sd_id dto) (db_sale (env s)) = None"
    and "wf_stock br (env s)" and "basket_ok (sd_lines dto)"
    and "\<forall>m \<in> set (db_stockMovement (env s)). mv_refId m \<noteq> sd_id dto"
    and "voidSale ctx (sd_id dto) reason s1 = (Inr sale', s2)"
    and "distinct (map r_id (db_branchStock s1))" and "wf_moves s1"
  shows "stock_at b p v s2 = stock_at b p v (env s)"
proof (rule completeSale_fresh [OF assms(1,2)])
  fix totals costs
  assume p: "persist dto totals costs br tm (in_tx ctx (env s)) (env s) = (Inr sale, s1)"
  have on: "on_branch (in_tx ctx (env s)) br" using assms(1) by simp
  obtain ms where ms: "db_stockMovement s1 = db_stockMovement (env s) @ ms"
      "list_all2 (movement_of br (sd_id dto)) (tracked_lines dto) ms"
    using persist_moves [OF assms(5) on assms(3) p] by blast
  have "sale_moves ctx (sd_id dto) s1 = ms"
    using own_moves_visible [OF assms(1) ms(2), of _ s1] assms(6)
    by (auto simp: sale_moves_def ms(1) filter_empty_conv filter_id_conv)
  then have m: "moves_of p v b (sale_moves ctx (sd_id dto) s1) = (if b = br then - line_taken (sd_lines dto) p v else 0)"
    using own_moves_sum [OF ms(2)] by (simp add: tracked_lines_def line_taken_tracked)
  show ?thesis
  proof (rule voidSale_Inr [OF assms(1,7)])
    fix after s3
    assume u: "scoped_update (in_tx ctx s1) sale_t (\<lambda>r. r_id r = sd_id dto)
      (\<lambda>r. r\<lparr> sl_status := Voided, sl_voidedAt := Some (db_now s1), sl_statusReason := Some (trim reason) \<rparr>) s1 = (Inr after, s3)"
      and r: "restoreStock (in_tx ctx s1) (sd_id dto) Mv_void s3 = (Inr (), s2)"
    from restoreStock_Inr [OF assms(1) r sale_update_frame [OF u] assms(8,9), of b p v]
      persist_stock_at [OF assms(4,5,3) p, of b p v] m
    show ?thesis by simp
  qed
qed

theorem sale_then_void_witness:
  "\<exists>sale s2. voidSale fx_terminal_ctx (sd_id fx_draft) ''spilled'' fx_sold = (Inr sale, s2)
    \<and> stock_at ''br1'' (ex_uuid ''04'') None s2 = stock_at ''br1'' (ex_uuid ''04'') None fx_db"
proof -
  obtain sale s2 where v: "voidSale fx_terminal_ctx (sd_id fx_draft) ''spilled'' fx_sold = (Inr sale, s2)"
    using fx_void_ok by blast
  have "\<forall>m \<in> set (db_stockMovement fx_db). mv_refId m \<noteq> sd_id fx_draft" by (simp add: fx_db_def empty_db_def)
  from sale_then_void [OF fx_terminal fx_complete fx_new fx_stock fx_basket this v fx_sold_ledger_facts] v
  show ?thesis by blast
qed


section \<open>Who may be closed, and what is recorded\<close>

text \<open>One sale after its update; the other rows are as they were.\<close>

lemma sale_update_rows:
  assumes u: "scoped_update ctx sale_t (\<lambda>r. r_id r = i) f s = (Inr after, s1)"
    and r: "restoreStock ctx j ty s1 = (Inr (), s')" and base: "cx_tx ctx = Some s"
    and f: "\<And>r. r_id (f r) = r_id r"
  shows "\<exists>r. find (\<lambda>r. r_id r = i) (db_sale s) = Some r \<and> after = (f r)\<lparr> r_updatedAt := db_now s \<rparr>
    \<and> db_sale s' = upd_rows (\<lambda>q. r_id q = i) (\<lambda>_. after) (db_sale s)"
proof -
  from u [unfolded scoped_update_Inr] obtain prev s0 where
    p: "find (\<lambda>r. r_id r = i \<and> in_scope ctx sale_t (base_db ctx s) r) (tb_get sale_t (base_db ctx s)) = Some prev"
    and raw: "raw_update sale_t (r_id prev) f s = (Inr after, s0)" and s1: "db_sale s1 = db_sale s0"
    by (auto simp: audited_def)
  have i: "r_id prev = i" using find_SomeD [OF p] by simp
  from sale_tb.raw_update_cases [OF raw] obtain r0 where
    "find (\<lambda>r. r_id r = i) (db_sale s) = Some r0" "after = (f r0)\<lparr> r_updatedAt := db_now s \<rparr>"
    "db_sale s0 = upd_rows (\<lambda>q. r_id q = i) (\<lambda>_. after) (db_sale s)"
    by (auto simp: sale_t_def i)
  moreover have "db_sale s' = db_sale s1"
  proof -
    have "keeps (\<lambda>s. db_sale s = X) (restoreStock ctx j ty)" for X
      unfolding restoreStock_def restoreOne_def
      by (intro keeps_intros framed_restoreLevel framed_movement) (auto intro: pure_op_keeps)
    from keeps_eq [of db_sale "restoreStock ctx j ty" s1, OF this r] show ?thesis .
  qed
  ultimately show ?thesis using s1 by auto
qed

text \<open>
  C12. A sale can be voided only while it is completed, live and of the terminal's branch, and only
  while the shift it was rung up on is still the terminal's open shift; voiding sets the
  status, the time and the trimmed reason of that sale and changes no other sale.
\<close>

theorem void_only_in_open_shift:
  assumes "terminal_of ctx br tm biz" and "voidSale ctx i reason s = (Inr sale, s')"
  shows "\<exists>r shift after. find (\<lambda>r. r_id r = i \<and> sl_branchId r = br \<and> live r) (db_sale s) = Some r
    \<and> sl_status r = Completed \<and> shift \<in> set (db_shift s) \<and> sh_terminalId shift = tm \<and> sh_closedAt shift = None
    \<and> sl_shiftId r = Some (r_id shift) \<and> trim reason \<noteq> []
    \<and> sale = assemble after \<and> sl_status after = Voided \<and> sl_voidedAt after = Some (db_now s)
    \<and> sl_statusReason after = Some (trim reason)
    \<and> db_sale s' = upd_rows (\<lambda>q. r_id q = i) (\<lambda>_. after) (db_sale s)"
proof (rule voidSale_Inr [OF assms])
  fix r shift after s1
  assume v: "trim reason \<noteq> []"
    "find (\<lambda>r. r_id r = i \<and> sl_branchId r = br \<and> live r) (db_sale s) = Some r" "sl_status r = Completed"
    "openShift (in_tx ctx s) tm s = (Inr (Some shift), s)" "sl_shiftId r = Some (r_id shift)"
    "sale = assemble after"
    and u: "scoped_update (in_tx ctx s) sale_t (\<lambda>r. r_id r = i)
      (\<lambda>r. r\<lparr> sl_status := Voided, sl_voidedAt := Some (db_now s), sl_statusReason := Some (trim reason) \<rparr>) s = (Inr after, s1)"
    and rs: "restoreStock (in_tx ctx s) i Mv_void s1 = (Inr (), s')"
  note sh = findFirst_Inr(1,2) [OF v(4) [unfolded openShift_def]]
  from sale_update_rows [OF u rs] obtain r0 where
    "after = (r0\<lparr> sl_status := Voided, sl_voidedAt := Some (db_now s), sl_statusReason := Some (trim reason) \<rparr>)\<lparr> r_updatedAt := db_now s \<rparr>"
    "db_sale s' = upd_rows (\<lambda>q. r_id q = i) (\<lambda>_. after) (db_sale s)" by auto
  with v sh show ?thesis
    by (intro exI [of _ r] exI [of _ shift] exI [of _ after]) (simp add: shift_t_def base_db_def)
qed

theorem void_only_in_open_shift_witness:
  "\<exists>sale s' (r :: sale_row) shift. voidSale fx_terminal_ctx (sd_id fx_draft) ''spilled'' fx_sold = (Inr sale, s')
    \<and> shift \<in> set (db_shift fx_sold) \<and> sh_closedAt shift = None \<and> sl_status r = Completed \<and> sl_shiftId r = Some (r_id shift)"
proof -
  obtain sale s' where v: "voidSale fx_terminal_ctx (sd_id fx_draft) ''spilled'' fx_sold = (Inr sale, s')"
    using fx_void_ok by blast
  from void_only_in_open_shift [OF fx_terminal v] obtain r :: sale_row and shift where
    "shift \<in> set (db_shift fx_sold)" "sh_closedAt shift = None" "sl_status r = Completed" "sl_shiftId r = Some (r_id shift)"
    by (elim exE conjE) blast
  with v show ?thesis by (intro exI conjI)
qed

text \<open>
  Closing is final: a sale that is no longer completed can be neither voided nor refunded,
  whatever the reason and even past the PIN check, and the attempt writes nothing.
\<close>

theorem closed_sale_stays_closed:
  assumes "terminal_of ctx br tm biz" and "UUID_RE i"
    and "find (\<lambda>r. r_id r = i \<and> sl_branchId r = br \<and> live r) (db_sale s) = Some r" and "sl_status r \<noteq> Completed"
  shows "(\<exists>e. voidSale ctx i reason s = (Inl (Api e), s) \<and> api_status e = 422)
    \<and> (\<exists>e. runWithTxClient ctx (refundBody i reason' br tm) s = (Inl (Api e), s) \<and> api_status e = 422)"
proof -
  have l: "lockSale i br s = (Inr (Some (sl_status r, sl_shiftId r)), s)"
    using assms(2,3) by (simp add: lockSale_def)
  have v: "voidBody i x br tm c s = (Inl (validation (''A '' @ status_name (sl_status r) @ '' sale cannot be voided.'')), s)" for x c
    using assms(4) by (simp add: voidBody_def bind_def [of "lockSale _ _"] l)
  have f: "refundBody i x br tm c s = (Inl (validation (''A '' @ status_name (sl_status r) @ '' sale cannot be refunded.'')), s)" for x c
    using assms(4) by (simp add: refundBody_def bind_def [of "lockSale _ _"] l)
  have "\<exists>e. voidSale ctx i reason s = (Inl (Api e), s) \<and> api_status e = 422"
    unfolding voidSale_terminal [OF assms(1)] runWithTxClient_def transaction_def
    by (simp add: v validation_def)
  moreover have "\<exists>e. runWithTxClient ctx (refundBody i reason' br tm) s = (Inl (Api e), s) \<and> api_status e = 422"
    unfolding runWithTxClient_def transaction_def by (simp add: f validation_def)
  ultimately show ?thesis ..
qed

definition fx_closed :: db where
  "fx_closed = fx_db\<lparr> db_sale := [(buildSaleRow 0 fx_draft fx_totals ''br1'' ''tm1'')\<lparr> sl_status := Refunded \<rparr>] \<rparr>"

theorem closed_sale_stays_closed_witness:
  "\<exists>e. voidSale fx_terminal_ctx (sd_id fx_draft) ''again'' fx_closed = (Inl (Api e), fx_closed) \<and> api_status e = 422"
proof -
  have "UUID_RE (sd_id fx_draft)" by code_simp
  moreover have "find (\<lambda>r. r_id r = sd_id fx_draft \<and> sl_branchId r = ''br1'' \<and> live r) (db_sale fx_closed)
      = Some ((buildSaleRow 0 fx_draft fx_totals ''br1'' ''tm1'')\<lparr> sl_status := Refunded \<rparr>)"
    by (simp add: fx_closed_def buildSaleRow_def live_def)
  moreover have "sl_status ((buildSaleRow 0 fx_draft fx_totals ''br1'' ''tm1'')\<lparr> sl_status := Refunded \<rparr>) \<noteq> Completed"
    by simp
  ultimately show ?thesis using closed_sale_stays_closed [OF fx_terminal] by blast
qed


section \<open>Refunds\<close>

lemma fx_refund_ok:
  "\<exists>sale s'. refundSale fx_verify fx_terminal_ctx (sd_id fx_draft) ''returned'' ''1234'' fx_sold = (Inr sale, s')"
proof -
  have "(case fst (refundSale fx_verify fx_terminal_ctx (sd_id fx_draft) ''returned'' ''1234'' fx_sold) of Inr _ \<Rightarrow> True | Inl _ \<Rightarrow> False)"
    by code_simp
  then show ?thesis by (metis prod.collapse sum.case_eq_if sum.collapse(2))
qed

text \<open>
  C13. A refund needs the owner's PIN: it succeeds only if the account of the owner is not locked
  and the PIN matches its hash; then the completed sale becomes refunded, attributed to the
  open shift only if that is the shift of the sale, and the ledger stays balanced.
\<close>

theorem refund_needs_pin:
  assumes "terminal_of ctx br tm biz" and "cx_ownerId ctx = Some ow"
    and "refundSale verify ctx i reason pin s = (Inr sale, s')"
    and "distinct (map r_id (db_branchStock s))" and "wf_moves s"
  shows "(\<exists>user h. ownerUser s ow = Some user \<and> us_pinHash user = Some h \<and> verify h pin
      \<and> unlocked (db_now s) (us_pinLockedUntil user))
    \<and> (\<exists>r. find (\<lambda>r. r_id r = i \<and> sl_branchId r = br \<and> live r) (db_sale s) = Some r \<and> sl_status r = Completed)
    \<and> cs_status sale = Refunded \<and> (ledger s \<longrightarrow> ledger s')"
proof -
  from assms(3) [unfolded refundSale_terminal [OF assms(1,2)]] obtain s0 where
    pin: "verifyPinWithLockout verify ctx ow pin s = (Inr (), s0)"
    and run: "runWithTxClient ctx (refundBody i (trim reason) br tm) s0 = (Inr sale, s')"
    by (auto simp: bind_eq_Inr split: if_splits)
  have fr: "db_sale s0 = db_sale s" "db_branchStock s0 = db_branchStock s" "db_stockMovement s0 = db_stockMovement s"
    using keeps_eq [of db_sale "verifyPinWithLockout verify ctx ow pin" s, OF _ pin]
      keeps_eq [of db_branchStock "verifyPinWithLockout verify ctx ow pin" s, OF _ pin]
      keeps_eq [of db_stockMovement "verifyPinWithLockout verify ctx ow pin" s, OF _ pin]
    by (simp_all add: framed_verifyPin)
  have l0: "ledger s0 = ledger s" using stock_at_cong [OF fr(2)] moved_at_cong [OF fr(3)] by (simp add: ledger_def)
  have wf0: "distinct (map r_id (db_branchStock s0))" "wf_moves s0" using assms(4,5) fr by (simp_all add: wf_moves_def)
  have body: "refundBody i (trim reason) br tm (in_tx ctx s0) s0 = (Inr sale, s')" using run by (simp only: runWithTxClient_Inr)
  show ?thesis
  proof (rule refundBody_Inr [OF body])
    fix r cur after s1
    assume r: "find (\<lambda>r. r_id r = i \<and> sl_branchId r = br \<and> live r) (db_sale s0) = Some r" "sl_status r = Completed"
      and u: "scoped_update (in_tx ctx s0) sale_t (\<lambda>r. r_id r = i)
        (\<lambda>q. q\<lparr> sl_status := Refunded, sl_refundedAt := Some (db_now s0), sl_statusReason := Some (trim reason),
             sl_refundShiftId := (if cur \<noteq> None \<and> map_option r_id cur = sl_shiftId r then map_option r_id cur else None) \<rparr>) s0
        = (Inr after, s1)"
      and rs: "restoreStock (in_tx ctx s0) i Mv_refund s1 = (Inr (), s')" and sale: "sale = assemble after"
    have "ledger s0 \<longrightarrow> ledger s'"
      using restoreStock_Inr [OF assms(1) rs sale_update_frame [OF u] wf0] by (simp add: ledger_def)
    moreover have "sl_status after = Refunded" using sale_update_rows [OF u rs] by auto
    ultimately show ?thesis using verifyPin_Inr [OF pin] r sale fr(1) l0 by (simp add: assemble_def)
  qed
qed

theorem refund_needs_pin_witness:
  "\<exists>sale s'. refundSale fx_verify fx_terminal_ctx (sd_id fx_draft) ''returned'' ''1234'' fx_sold = (Inr sale, s')
    \<and> cs_status sale = Refunded"
proof -
  obtain sale s' where v: "refundSale fx_verify fx_terminal_ctx (sd_id fx_draft) ''returned'' ''1234'' fx_sold = (Inr sale, s')"
    using fx_refund_ok by blast
  have "cx_ownerId fx_terminal_ctx = Some ''own1''" by (simp add: fx_terminal_ctx_def)
  from refund_needs_pin [OF fx_terminal this v fx_sold_ledger_facts] v show ?thesis by blast
qed

end
