(* ===== verification/Tenancy.thy ===== *)
theory Tenancy
  imports Fixture
begin

text \<open>
  What the choke point guarantees to every service built on it: a tenant reads and writes
  only its own rows, what it creates points only at its own rows, and every mutation leaves
  exactly one audit row on an append-only log, or nothing at all.
\<close>

section \<open>The owner of a row\<close>

definition business_owner :: "db \<Rightarrow> uid \<Rightarrow> uid option" where
  "business_owner base b = map_option bz_ownerId (find (\<lambda>r. r_id r = b) (db_business base))"

text \<open>The specification the scope filters implement.\<close>

definition row_owner :: "db \<Rightarrow> string \<Rightarrow> any_row \<Rightarrow> uid option" where
  "row_owner base model r =
    (case TENANT_DIRECT model of
       Some OwnerId \<Rightarrow> any_ownerId r
     | Some BusinessId \<Rightarrow> Option.bind (any_businessId r) (business_owner base)
     | Some BranchId \<Rightarrow> Option.bind (Option.bind (any_branchId r) (branchToBusiness base)) (business_owner base)
     | None \<Rightarrow> None)"

definition wf_tree :: "db \<Rightarrow> bool" where
  "wf_tree s \<longleftrightarrow> distinct (map r_id (db_business s)) \<and> distinct (map r_id (db_branch s))"

lemma allowed_business_owner:
  assumes "wf_tree base" "cx_ownerId ctx = Some ow" "b \<in> set (allowedBusinessIds base ctx)"
  shows "business_owner base b = Some ow"
proof -
  obtain r where r: "r \<in> set (db_business base)" "r_id r = b" "bz_ownerId r = ow"
    using assms(2,3) by (auto simp: allowedBusinessIds_def)
  have "distinct (map r_id (db_business base))" using assms(1) by (simp add: wf_tree_def)
  from find_distinct_key [OF this r(1)] r show ?thesis by (simp add: business_owner_def)
qed

lemma allowed_branch_owner:
  assumes "wf_tree base" "cx_ownerId ctx = Some ow" "b \<in> set (allowedBranchIds base ctx)"
  shows "Option.bind (branchToBusiness base b) (business_owner base) = Some ow"
proof -
  obtain r where r: "r \<in> set (db_branch base)" "r_id r = b" "br_businessId r \<in> set (allowedBusinessIds base ctx)"
    using assms(3) by (auto simp: allowedBranchIds_def Let_def split: if_splits)
  have "distinct (map r_id (db_branch base))" using assms(1) by (simp add: wf_tree_def)
  from find_distinct_key [OF this r(1)] r allowed_business_owner [OF assms(1,2) r(3)]
  show ?thesis by (simp add: branchToBusiness_def)
qed

lemma in_scope_owner:
  assumes "wf_tree base" "cx_ownerId ctx = Some ow" "\<not> is_terminal ctx" "TENANT_DIRECT (tb_model t) \<noteq> None"
    and "in_scope ctx t base r"
  shows "row_owner base (tb_model t) (tb_any t r) = Some ow"
proof -
  obtain c where c: "TENANT_DIRECT (tb_model t) = Some c" using assms(4) by blast
  show ?thesis
    using assms(2,3,5) allowed_business_owner [OF assms(1,2)] allowed_branch_owner [OF assms(1,2)]
    by (cases c) (auto simp: in_scope_def tenantWhereFor_def row_owner_def c)
qed

section \<open>Reads\<close>

text \<open>
  C17. A portal read returns only rows of the caller's owner: whatever the filter of the service
  asks for, every row it gets back hangs, through its business or branch, from the owner in
  the context, and deleted rows are only seen when asked for; models that carry no scope
  column are refused.
\<close>

theorem tenant_reads_own_rows:
  assumes "wf_tree (base_db ctx s)" and "cx_scope ctx = Some Tenant" and "cx_ownerId ctx = Some ow"
    and "\<not> is_terminal ctx" and "scoped_find_all ctx t inc p s = (Inr rs, s')"
  shows "s' = s \<and> TENANT_DIRECT (tb_model t) \<noteq> None \<and> CHILD_PARENT (tb_model t) = None
    \<and> (\<forall>r \<in> set rs. row_owner (base_db ctx s) (tb_model t) (tb_any t r) = Some ow \<and> (inc \<or> live r))"
proof -
  have g: "choke_guard ctx (tb_model t) Read = None" and s': "s' = s"
    and rs: "rs = filter (\<lambda>r. p r \<and> visible ctx t inc (base_db ctx s) r) (tb_get t (base_db ctx s))"
    using assms(5) by (auto simp: scoped_find_all_def choke_bind_Inr Let_def)
  have m: "TENANT_DIRECT (tb_model t) \<noteq> None" "CHILD_PARENT (tb_model t) = None"
    using g assms(2) by (auto simp: choke_guard_def split: if_splits)
  have "row_owner (base_db ctx s) (tb_model t) (tb_any t r) = Some ow \<and> (inc \<or> live r)" if "r \<in> set rs" for r
    using that in_scope_owner [OF assms(1,3,4) m(1)] assms(2) by (auto simp: rs visible_def)
  with s' m show ?thesis by blast
qed

theorem tenant_reads_own_rows_witness:
  "\<exists>rs. scoped_find_all fx_owner_ctx product_t False (\<lambda>_. True) fx_db = (Inr rs, fx_db) \<and> List.length rs = 1
    \<and> (\<forall>r \<in> set rs. row_owner fx_db ''product'' (Any_product r) = Some ''own1'')"
proof -
  have e: "case fst (scoped_find_all fx_owner_ctx product_t False (\<lambda>_. True) fx_db) of Inl _ \<Rightarrow> False | Inr rs \<Rightarrow> List.length rs = 1"
    by code_simp
  from pure_run_Inr [OF pure_find(1) this] obtain rs where
    rs: "scoped_find_all fx_owner_ctx product_t False (\<lambda>_. True) fx_db = (Inr rs, fx_db)" "List.length rs = 1" by blast
  have "wf_tree (base_db fx_owner_ctx fx_db)"
    by (simp add: wf_tree_def base_db_def fx_owner_ctx_def fx_terminal_ctx_def fx_db_def empty_db_def fx_business_def fx_branch_def)
  from tenant_reads_own_rows [OF this _ _ _ rs(1)] rs show ?thesis
    by (simp add: fx_owner_ctx_def fx_terminal_ctx_def is_terminal_def base_db_def product_t_def)
qed

section \<open>Writes\<close>

text \<open>
  C8. A mutation never touches a row outside the caller's scope: an update, delete or upsert,
  single or bulk, with any filter and any change, leaves every row the caller may not see
  exactly as it was, whether it succeeds or fails.
\<close>

theorem writes_stay_in_scope:
  assumes "db_table t" and "distinct (map r_id (tb_get t s))" and "cx_tx ctx = None"
    and "q \<in> set (tb_get t s)" and "\<not> in_scope ctx t s q"
  shows "q \<in> set (tb_get t (snd (scoped_update ctx t p f s)))
    \<and> q \<in> set (tb_get t (snd (scoped_updateMany ctx t p f s)))
    \<and> q \<in> set (tb_get t (snd (scoped_delete ctx t p s)))
    \<and> q \<in> set (tb_get t (snd (scoped_deleteMany ctx t p s)))
    \<and> q \<in> set (tb_get t (snd (scoped_upsert ctx t p f sc data s)))
    \<and> q \<in> set (tb_get t (snd (scoped_create ctx t sc data s)))"
  using db_table.mutations_isolated [OF assms(1,2,3,4,5)] by blast

theorem writes_stay_in_scope_witness:
  "fx_product ''prod2'' ''biz2'' \<in> set (db_product (snd (scoped_deleteMany fx_owner_ctx product_t (\<lambda>_. True) fx_db)))"
proof -
  have "\<not> in_scope fx_owner_ctx product_t fx_db (fx_product ''prod2'' ''biz2'')" by code_simp
  moreover have "distinct (map r_id (tb_get product_t fx_db))" "fx_product ''prod2'' ''biz2'' \<in> set (tb_get product_t fx_db)"
    "cx_tx fx_owner_ctx = None"
    by (simp_all add: product_t_def fx_db_def fx_product_def ex_uuid_def fx_owner_ctx_def fx_terminal_ctx_def)
  ultimately have "fx_product ''prod2'' ''biz2'' \<in> set (tb_get product_t (snd (scoped_deleteMany fx_owner_ctx product_t (\<lambda>_. True) fx_db)))"
    using writes_stay_in_scope [OF product_tb.db_table_axioms] by blast
  then show ?thesis by (simp add: product_t_def)
qed


section \<open>References of a created row\<close>

lemma policeRefs_None:
  "policeRefs base ctx model refs = None \<Longrightarrow> ref \<in> set refs \<Longrightarrow> assertInScope base ctx model ref = None"
  by (induction refs) (auto split: option.splits)

lemma assertInScope_None:
  assumes "assertInScope base ctx model (label, target, i) = None" "target \<notin> set PLATFORM_MODELS"
  shows "\<exists>b. resolveRefBusinessId base target i = Some (Some b) \<and> b \<in> set (allowedBusinessIds base ctx)"
  using assms
  by (auto simp: assertInScope_def resolveRefBusinessId_def split: option.splits if_splits)

lemma policeCreateData_refs:
  assumes "policeCreateData base ctx t sc r = Inr r0" "TENANT_DIRECT (tb_model t) \<in> {Some BusinessId, Some BranchId}"
  shows "policeRefs base ctx (tb_model t) (tb_refs t r0) = None"
  using assms by (auto simp: policeCreateData_def policeCreateRefs_def split: option.splits if_splits)

text \<open>
  What a tenant creates points only at its own data: every foreign key of a row that the
  choke point lets in resolves, through its own business or its parent's, to a business of
  the caller's owner; a key that resolves to nothing, or to another tenant, refuses the
  create before anything is written.
\<close>

theorem created_rows_reference_own_data:
  assumes "db_table t" and "wf_tree (base_db ctx s)" and "cx_ownerId ctx = Some ow"
    and "TENANT_DIRECT (tb_model t) \<in> {Some BusinessId, Some BranchId}"
    and "scoped_create ctx t sc data s = (Inr r, s')"
  shows "\<exists>r0. policeCreateData (base_db ctx s) ctx t sc data = Inr r0 \<and> r_id r = r_id r0
    \<and> (\<forall>(label, target, i) \<in> set (tb_refs t r0). target \<notin> set PLATFORM_MODELS \<longrightarrow>
        (\<exists>b. resolveRefBusinessId (base_db ctx s) target i = Some (Some b)
           \<and> business_owner (base_db ctx s) b = Some ow))"
proof -
  from assms(5) [unfolded scoped_create_Inr] obtain r0 s1 where
    r0: "policeCreateData (base_db ctx s) ctx t sc data = Inr r0" and ins: "raw_insert t r0 s = (Inr r, s1)" by blast
  have id: "r_id r = r_id r0" using db_table.raw_insert_cases [OF assms(1) ins] by auto
  note none = policeRefs_None [OF policeCreateData_refs [OF r0 assms(4)]]
  have "\<exists>b. resolveRefBusinessId (base_db ctx s) target i = Some (Some b) \<and> business_owner (base_db ctx s) b = Some ow"
    if "(label, target, i) \<in> set (tb_refs t r0)" "target \<notin> set PLATFORM_MODELS" for label target i
    using assertInScope_None [OF none [OF that(1)] that(2)] allowed_business_owner [OF assms(2,3)] by blast
  with r0 id show ?thesis by blast
qed

definition fx_new_stock :: branch_stock_row where
  "fx_new_stock = fx_stock ''st9'' ''br1'' (ex_uuid ''04'') 0"

definition fx_bare :: db where
  "fx_bare = fx_db\<lparr> db_branchStock := [] \<rparr>"

lemma fx_bare_tree: "wf_tree (base_db fx_terminal_ctx fx_bare)"
  by (simp add: wf_tree_def base_db_def fx_terminal_ctx_def fx_bare_def fx_db_def empty_db_def fx_business_def fx_branch_def)

lemma fx_create_ok:
  "\<exists>r. scoped_create fx_terminal_ctx branchStock_t (Some ''br1'') fx_new_stock fx_bare
    = (Inr r, snd (scoped_create fx_terminal_ctx branchStock_t (Some ''br1'') fx_new_stock fx_bare)) \<and> True"
  by (rule run_Inr) code_simp

theorem created_rows_reference_own_data_witness:
  "\<exists>b. resolveRefBusinessId fx_bare ''product'' (ex_uuid ''04'') = Some (Some b) \<and> business_owner fx_bare b = Some ''own1''"
proof -
  obtain r s' where c: "scoped_create fx_terminal_ctx branchStock_t (Some ''br1'') fx_new_stock fx_bare = (Inr r, s')"
    using fx_create_ok by blast
  have o: "cx_ownerId fx_terminal_ctx = Some ''own1''" and base: "base_db fx_terminal_ctx fx_bare = fx_bare"
    by (simp_all add: fx_terminal_ctx_def base_db_def)
  have m: "TENANT_DIRECT (tb_model branchStock_t) \<in> {Some BusinessId, Some BranchId}"
    by (simp add: branchStock_t_def TENANT_DIRECT_def)
  from created_rows_reference_own_data [OF branchStock_tb.db_table_axioms fx_bare_tree o m c] obtain r0 where
    r0: "policeCreateData fx_bare fx_terminal_ctx branchStock_t (Some ''br1'') fx_new_stock = Inr r0"
    and refs: "\<forall>(label, target, i) \<in> set (tb_refs branchStock_t r0). target \<notin> set PLATFORM_MODELS \<longrightarrow>
        (\<exists>b. resolveRefBusinessId fx_bare target i = Some (Some b) \<and> business_owner fx_bare b = Some ''own1'')"
    unfolding base by blast
  have "r0 = fx_new_stock"
    using r0 by (auto simp: policeCreateData_def policeCreateRefs_def branchStock_t_def TENANT_DIRECT_def is_terminal_def
        fx_terminal_ctx_def fx_new_stock_def fx_stock_def split: option.splits)
  then have "(''productId'', ''product'', ex_uuid ''04'') \<in> set (tb_refs branchStock_t r0)"
    by (simp add: branchStock_t_def fx_new_stock_def fx_stock_def)
  with refs show ?thesis by (force simp: PLATFORM_MODELS_def)
qed

section \<open>The audit log\<close>

definition stamped :: "db \<Rightarrow> audit_row \<Rightarrow> audit_row" where
  "stamped s a = a\<lparr> r_id := nth_uuid (db_nextId s), r_createdAt := db_now s, r_updatedAt := db_now s, r_deletedAt := None \<rparr>"

lemma audited_log: "db_auditLog (audited a s) = db_auditLog s @ [stamped s a]"
  by (simp add: audited_def stamped_def)

lemma raw_log:
  assumes "db_table t"
  shows "raw_insert t r s = (x, s1) \<Longrightarrow> db_auditLog s1 = db_auditLog s"
    and "raw_update t i f s = (y, s1) \<Longrightarrow> db_auditLog s1 = db_auditLog s"
  using db_table.raw_insert_cases [OF assms, of r s x s1] db_table.raw_update_cases [OF assms, of i f s y s1]
    db_table.put_audit [OF assms] by auto

lemma audit_row_of_fields:
  "al_action (stamped s1 (audit_row_of b ctx m oper i x y z)) = m @ ''.'' @ oper"
  "al_entityId (stamped s1 (audit_row_of b ctx m oper i x y z)) = Some i"
  "al_before (stamped s1 (audit_row_of b ctx m oper i x y z)) = x"
  "al_after (stamped s1 (audit_row_of b ctx m oper i x y z)) = y"
  "al_actorId (stamped s1 (audit_row_of b ctx m oper i x y z)) = map_option snd (cx_actor ctx)"
  by (auto simp: audit_row_of_def stamped_def split: prod.split)

text \<open>The audit row of one mutation by \<open>ctx\<close> of the row \<open>i\<close>, with its images.\<close>

definition audit_of :: "ctx \<Rightarrow> string \<Rightarrow> string \<Rightarrow> uid \<Rightarrow> any_row option \<Rightarrow> any_row option \<Rightarrow> audit_row \<Rightarrow> bool" where
  "audit_of ctx model operation i x y a \<longleftrightarrow> al_action a = model @ ''.'' @ operation \<and> al_entityId a = Some i
    \<and> al_before a = x \<and> al_after a = y \<and> al_actorId a = map_option snd (cx_actor ctx)"

lemma audit_ofI: "audit_of ctx m oper i x y (stamped s1 (audit_row_of b ctx m oper i x y z))"
  by (simp add: audit_of_def audit_row_of_fields)

lemma create_audited:
  assumes "db_table t" "scoped_create ctx t sc data s = (Inr r, s')"
  shows "\<exists>a. db_auditLog s' = db_auditLog s @ [a] \<and> audit_of ctx (tb_model t) ''create'' (r_id r) None (Some (tb_any t r)) a"
proof -
  from assms(2) [unfolded scoped_create_Inr] obtain r0 s1 where
    "raw_insert t r0 s = (Inr r, s1)"
    "s' = audited (audit_row_of (base_db ctx s) ctx (tb_model t) ''create'' (r_id r) None (Some (tb_any t r)) (tb_any t r)) s1"
    by blast
  with raw_log(1) [OF assms(1)] show ?thesis by (auto simp: audited_log intro: audit_ofI)
qed

lemma update_audited:
  assumes "db_table t" "scoped_update ctx t p f s = (Inr r, s')"
  shows "\<exists>a prev. prev \<in> set (tb_get t (base_db ctx s)) \<and> p prev \<and> db_auditLog s' = db_auditLog s @ [a]
    \<and> audit_of ctx (tb_model t) ''update'' (r_id r) (Some (tb_any t prev)) (Some (tb_any t r)) a"
proof -
  from assms(2) [unfolded scoped_update_Inr] obtain prev s1 where
    prev: "find (\<lambda>r. p r \<and> in_scope ctx t (base_db ctx s) r) (tb_get t (base_db ctx s)) = Some prev"
    and "raw_update t (r_id prev) f s = (Inr r, s1)"
    "s' = audited (audit_row_of (base_db ctx s) ctx (tb_model t) ''update'' (r_id r) (Some (tb_any t prev)) (Some (tb_any t r)) (tb_any t r)) s1"
    by blast
  with raw_log(2) [OF assms(1)] find_SomeD [OF prev] show ?thesis by (auto simp: audited_log intro: audit_ofI)
qed

lemma delete_audited:
  assumes "db_table t" "scoped_delete ctx t p s = (Inr r, s')"
  shows "\<exists>a prev. prev \<in> set (tb_get t (base_db ctx s)) \<and> p prev \<and> live prev \<and> db_auditLog s' = db_auditLog s @ [a]
    \<and> audit_of ctx (tb_model t) ''delete'' (r_id prev) (Some (tb_any t prev)) None a"
proof -
  obtain prev s1 where
    prev: "find (\<lambda>r. p r \<and> in_scope ctx t (base_db ctx s) r \<and> live r) (tb_get t (base_db ctx s)) = Some prev"
    and "raw_update t (r_id prev) (\<lambda>r. r\<lparr> r_deletedAt := Some (db_now s) \<rparr>) s = (Inr r, s1)"
    "s' = audited (audit_row_of (base_db ctx s) ctx (tb_model t) ''delete'' (r_id prev) (Some (tb_any t prev)) None (tb_any t prev)) s1"
    using assms(2) unfolding scoped_delete_def choke_bind_Inr first_row_def
    by (auto simp: atomically_Inr delete_body_def now_def bind_eq_Inr split: option.splits)
  with raw_log(2) [OF assms(1)] find_SomeD [OF prev] show ?thesis by (auto simp: audited_log intro: audit_ofI)
qed

text \<open>
  C16. Every single mutation leaves exactly one audit row, or nothing at all: a successful
  create, update or delete appends one row that names the actor, the model and operation, the
  row's id and its images before and after, and a failed one, at whatever step, leaves the
  database, audit log included, as it was.
\<close>

theorem one_audit_row_or_nothing:
  assumes "db_table t" and "cx_tx ctx = None"
  shows "(case scoped_create ctx t sc data s of
      (Inr r, s') \<Rightarrow> \<exists>a. db_auditLog s' = db_auditLog s @ [a]
        \<and> audit_of ctx (tb_model t) ''create'' (r_id r) None (Some (tb_any t r)) a
    | (Inl _, s') \<Rightarrow> s' = s)
    \<and> (case scoped_update ctx t p f s of
      (Inr r, s') \<Rightarrow> \<exists>a prev. prev \<in> set (tb_get t s) \<and> p prev \<and> db_auditLog s' = db_auditLog s @ [a]
        \<and> audit_of ctx (tb_model t) ''update'' (r_id r) (Some (tb_any t prev)) (Some (tb_any t r)) a
    | (Inl _, s') \<Rightarrow> s' = s)
    \<and> (case scoped_delete ctx t p s of
      (Inr r, s') \<Rightarrow> \<exists>a prev. prev \<in> set (tb_get t s) \<and> p prev \<and> live prev \<and> db_auditLog s' = db_auditLog s @ [a]
        \<and> audit_of ctx (tb_model t) ''delete'' (r_id prev) (Some (tb_any t prev)) None a
    | (Inl _, s') \<Rightarrow> s' = s)"
proof -
  have base: "base_db ctx s = s" using assms(2) by (simp add: base_db_def)
  note clean = scoped_clean(2,5,7) [OF assms(2), THEN clean_opD]
  show ?thesis
    using create_audited [OF assms(1), of ctx sc data s] update_audited [OF assms(1), of ctx p f s]
      delete_audited [OF assms(1), of ctx p s] clean(1) [of t sc data s] clean(2) [of t p f s] clean(3) [of t p s]
    unfolding base by (auto split: prod.split sum.split)
qed

theorem one_audit_row_or_nothing_witness:
  "\<exists>r a. db_auditLog (snd (scoped_create fx_terminal_ctx branchStock_t (Some ''br1'') fx_new_stock fx_bare)) = db_auditLog fx_bare @ [a]
    \<and> audit_of fx_terminal_ctx ''branchStock'' ''create'' (r_id r) None (Some (Any_branchStock r)) a"
proof -
  obtain r s' where c: "scoped_create fx_terminal_ctx branchStock_t (Some ''br1'') fx_new_stock fx_bare = (Inr r, s')"
    using fx_create_ok by blast
  have "cx_tx fx_terminal_ctx = None" by (simp add: fx_terminal_ctx_def)
  from one_audit_row_or_nothing [where s = fx_bare and sc = "Some ''br1''" and data = fx_new_stock, OF branchStock_tb.db_table_axioms this] c
  have "\<exists>a. db_auditLog s' = db_auditLog fx_bare @ [a]
      \<and> audit_of fx_terminal_ctx (tb_model branchStock_t) ''create'' (r_id r) None (Some (tb_any branchStock_t r)) a"
    by simp
  with c show ?thesis by (auto simp: branchStock_t_def)
qed

end
