(* ===== verification/Shifts.thy ===== *)
theory Shifts
  imports Sales
begin

text \<open>
  Shifts of a terminal: \<open>pos/shifts/shifts.service.ts\<close> and its DTOs. Amounts are sums of
  integer columns, exact in a JavaScript number while they stay below \<open>2 ^ 53\<close>.
\<close>

section \<open>Shapes\<close>

record cash_movement =
  vm_id :: uid
  vm_type :: cash_movement_type
  vm_amountC :: int
  vm_reason :: string
  vm_at :: time

record shift_view =
  vs_id :: uid
  vs_openedAt :: time
  vs_closedAt :: "time option"
  vs_openingCashC :: int
  vs_cashMovements :: "cash_movement list"

record shift_totals =
  xt_grossC :: int
  xt_saleCount :: nat
  xt_byMethod :: "payment_method \<Rightarrow> int"
  xt_voidCount :: nat
  xt_voidAmountC :: int
  xt_refundCount :: nat
  xt_refundAmountC :: int
  xt_scPwdDiscountC :: int
  xt_serviceChargeC :: int
  xt_cashSalesC :: int
  xt_cashRefundsC :: int
  xt_cashInC :: int
  xt_cashOutC :: int
  xt_expectedCashC :: int

record z_report =
  zr_totals :: shift_totals
  zr_shiftId :: uid
  zr_openedAt :: time
  zr_closedAt :: time
  zr_openingCashC :: int
  zr_countedCashC :: int
  zr_overShortC :: int
  zr_branchCode :: string
  zr_terminalCode :: string

text \<open>The request bodies.\<close>

definition opening_valid :: "num \<Rightarrow> bool" where
  "opening_valid openingCashC \<longleftrightarrow> isInt_between 0 MAX_CENTAVOS openingCashC"

definition counted_valid :: "num \<Rightarrow> bool" where
  "counted_valid countedCashC \<longleftrightarrow> isInt_between 0 MAX_CENTAVOS countedCashC"

definition movement_valid :: "num \<Rightarrow> string \<Rightarrow> bool" where
  "movement_valid amountC reason \<longleftrightarrow> isInt_between 1 MAX_CENTAVOS amountC \<and> List.length reason \<le> 200"

section \<open>Views\<close>

definition serializeCashMovement :: "cash_movement_row \<Rightarrow> cash_movement" where
  "serializeCashMovement m = \<lparr> vm_id = r_id m, vm_type = cm_type m, vm_amountC = cm_amount m,
     vm_reason = cm_reason m, vm_at = r_createdAt m \<rparr>"

definition serializeShift :: "shift_row \<Rightarrow> cash_movement_row list \<Rightarrow> shift_view" where
  "serializeShift s ms = \<lparr> vs_id = r_id s, vs_openedAt = sh_openedAt s, vs_closedAt = sh_closedAt s,
     vs_openingCashC = sh_openingCash s, vs_cashMovements = map serializeCashMovement ms \<rparr>"

text \<open>The live children an \<open>include\<close> brings along, in creation order.\<close>

definition movementsOf :: "db \<Rightarrow> uid \<Rightarrow> cash_movement_row list" where
  "movementsOf base i = sort_key r_createdAt (filter (\<lambda>m. cm_shiftId m = i \<and> live m) (db_shiftCashMovement base))"

definition paymentsOf :: "db \<Rightarrow> uid \<Rightarrow> sale_payment_row list" where
  "paymentsOf base i = sort_key r_createdAt (filter (\<lambda>p. sp_saleId p = i \<and> live p) (db_salePayment base))"

definition no_shift :: exn where
  "no_shift = validation ''No shift is open.''"

definition findOpenShift :: "ctx \<Rightarrow> (db, exn, (shift_row \<times> cash_movement_row list) option) op" where
  "findOpenShift ctx =
    bind (scoped_findFirst ctx shift_t (\<lambda>s.
      (case cx_actor ctx of None \<Rightarrow> True | Some a \<Rightarrow> sh_terminalId s = snd a) \<and> sh_closedAt s = None)) (\<lambda>found.
    bind (reads (base_db ctx)) (\<lambda>base.
    ret (map_option (\<lambda>s. (s, movementsOf base (r_id s))) found)))"

section \<open>The X totals\<close>

definition sumBy :: "('r \<Rightarrow> int) \<Rightarrow> 'r list \<Rightarrow> int" where
  "sumBy pick rows = foldl (\<lambda>acc r. acc + pick r) 0 rows"

definition methodOf :: "db \<Rightarrow> sale_row \<Rightarrow> payment_method option" where
  "methodOf base s = (case paymentsOf base (r_id s) of [] \<Rightarrow> None | p # _ \<Rightarrow> Some (sp_method p))"

fun addMethods :: "db \<Rightarrow> sale_row list \<Rightarrow> (payment_method \<Rightarrow> int) \<Rightarrow> (payment_method \<Rightarrow> int)" where
  "addMethods base [] m = m"
| "addMethods base (s # ss) m =
    addMethods base ss (case methodOf base s of None \<Rightarrow> m | Some k \<Rightarrow> m(k := m k + sl_total s))"

definition shiftTotals :: "db \<Rightarrow> shift_row \<Rightarrow> cash_movement_row list \<Rightarrow> sale_row list \<Rightarrow> sale_row list \<Rightarrow> shift_totals" where
  "shiftTotals base shift ms ofShift refunds =
    (let sold = filter (\<lambda>s. sl_status s \<noteq> Voided) ofShift;
         voided = filter (\<lambda>s. sl_status s = Voided) ofShift;
         cashSalesC = sumBy sl_total (filter (\<lambda>s. methodOf base s = Some Cash) sold);
         cashRefundsC = sumBy sl_total (filter (\<lambda>s. methodOf base s = Some Cash) refunds);
         cashInC = sumBy cm_amount (filter (\<lambda>m. cm_type m = Cash_in) ms);
         cashOutC = sumBy cm_amount (filter (\<lambda>m. cm_type m = Cash_out) ms)
     in \<lparr> xt_grossC = sumBy sl_total sold, xt_saleCount = List.length sold,
          xt_byMethod = addMethods base sold (\<lambda>_. 0), xt_voidCount = List.length voided,
          xt_voidAmountC = sumBy sl_total voided, xt_refundCount = List.length refunds,
          xt_refundAmountC = sumBy sl_total refunds, xt_scPwdDiscountC = sumBy sl_scPwdDiscount sold,
          xt_serviceChargeC = sumBy sl_serviceCharge sold, xt_cashSalesC = cashSalesC,
          xt_cashRefundsC = cashRefundsC, xt_cashInC = cashInC, xt_cashOutC = cashOutC,
          xt_expectedCashC = sh_openingCash shift + cashSalesC - cashRefundsC + cashInC - cashOutC \<rparr>)"

definition computeShiftTotals :: "ctx \<Rightarrow> shift_row \<times> cash_movement_row list \<Rightarrow> (db, exn, shift_totals) op" where
  "computeShiftTotals ctx sm =
    bind (scoped_findMany ctx sale_t (\<lambda>r. sl_shiftId r = Some (r_id (fst sm)))) (\<lambda>ofShift.
    bind (scoped_findMany ctx sale_t (\<lambda>r. sl_status r = Refunded \<and> sl_refundShiftId r = Some (r_id (fst sm)))) (\<lambda>refunds.
    bind (reads (base_db ctx)) (\<lambda>base.
    ret (shiftTotals base (fst sm) (snd sm) ofShift refunds))))"

section \<open>Operations\<close>

definition currentShift :: "ctx \<Rightarrow> (db, exn, shift_view option) op" where
  "currentShift ctx = bind (findOpenShift ctx) (\<lambda>sm. ret (map_option (\<lambda>(s, ms). serializeShift s ms) sm))"

definition new_shift :: "uid \<Rightarrow> uid \<Rightarrow> uid \<Rightarrow> time \<Rightarrow> int \<Rightarrow> shift_row" where
  "new_shift i br tm n openingCashC =
    \<lparr> r_id = i, r_createdAt = 0, r_updatedAt = 0, r_deletedAt = None, sh_branchId = br, sh_terminalId = tm,
      sh_openedAt = n, sh_closedAt = None, sh_openingCash = openingCashC, sh_closingCash = None,
      sh_expectedCash = None \<rparr>"

definition createShift :: "ctx \<Rightarrow> uid \<Rightarrow> uid \<Rightarrow> int \<Rightarrow> (db, exn, shift_view) op" where
  "createShift ctx branchId terminalId openingCashC =
    bind fresh_id (\<lambda>i.
    bind now (\<lambda>n.
    bind (scoped_create ctx shift_t (Some branchId) (new_shift i branchId terminalId n openingCashC)) (\<lambda>created.
    ret (serializeShift created []))))"

definition openNewShift :: "ctx \<Rightarrow> int \<Rightarrow> (db, exn, shift_view) op" where
  "openNewShift ctx openingCashC =
    (case (cx_actor ctx, cx_branchId ctx) of
       (Some (_, terminalId), Some branchId) \<Rightarrow>
         bind (openShift ctx terminalId) (\<lambda>existing.
         bind (guard (existing = None) (validation ''A shift is already open on this terminal.'')) (\<lambda>_.
         createShift ctx branchId terminalId openingCashC))
     | _ \<Rightarrow> throw (Crash ''no terminal context''))"

definition insertCashMovement :: "uid \<Rightarrow> cash_movement_type \<Rightarrow> int \<Rightarrow> string \<Rightarrow> shift_row \<Rightarrow> (db, exn, unit) op" where
  "insertCashMovement i ty amountC reason shift =
    bind (raw_insert shiftCashMovement_t
      \<lparr> r_id = i, r_createdAt = 0, r_updatedAt = 0, r_deletedAt = None, cm_shiftId = r_id shift,
        cm_type = ty, cm_amount = amountC, cm_reason = reason \<rparr>) (\<lambda>_. ret ())"

definition addCashMovement :: "ctx \<Rightarrow> cash_movement_type \<Rightarrow> int \<Rightarrow> string \<Rightarrow> (db, exn, cash_movement) op" where
  "addCashMovement ctx ty amountC reasonIn =
    (let reason = trim reasonIn
     in bind (guard (reason \<noteq> []) (validation ''A reason is required.'')) (\<lambda>_.
        bind (findOpenShift ctx) (\<lambda>found.
        case found of
          None \<Rightarrow> throw no_shift
        | Some (shift, _) \<Rightarrow>
            bind fresh_id (\<lambda>movementId.
            bind (scoped_update_nested ctx shift_t (\<lambda>r. r_id r = r_id shift) (\<lambda>r. r)
                   (insertCashMovement movementId ty amountC reason)) (\<lambda>_.
            bind (scoped_findFirst ctx shift_t (\<lambda>r. r_id r = r_id shift)) (\<lambda>refreshed.
            bind (reads (base_db ctx)) (\<lambda>base.
            case Option.bind refreshed (\<lambda>s. find (\<lambda>m. r_id m = movementId) (movementsOf base (r_id s))) of
              None \<Rightarrow> throw (not_found ''Cash movement not found.'')
            | Some m \<Rightarrow> ret (serializeCashMovement m))))))))"

definition totalsX :: "ctx \<Rightarrow> (db, exn, shift_totals) op" where
  "totalsX ctx =
    bind (findOpenShift ctx) (\<lambda>found.
    case found of None \<Rightarrow> throw no_shift | Some sm \<Rightarrow> computeShiftTotals ctx sm)"

definition closeWith :: "ctx \<Rightarrow> int \<Rightarrow> shift_row \<Rightarrow> shift_totals \<Rightarrow> (db, exn, z_report) op" where
  "closeWith ctx countedCashC shift totals =
    bind now (\<lambda>closedAt.
    bind (scoped_update ctx shift_t (\<lambda>r. r_id r = r_id shift)
           (\<lambda>r. r\<lparr> sh_closedAt := Some closedAt, sh_closingCash := Some countedCashC,
                   sh_expectedCash := Some (xt_expectedCashC totals) \<rparr>)) (\<lambda>_.
    bind (scoped_findFirst ctx branch_t (\<lambda>b. r_id b = sh_branchId shift)) (\<lambda>branch.
    ret \<lparr> zr_totals = totals, zr_shiftId = r_id shift, zr_openedAt = sh_openedAt shift, zr_closedAt = closedAt,
          zr_openingCashC = sh_openingCash shift, zr_countedCashC = countedCashC,
          zr_overShortC = countedCashC - xt_expectedCashC totals,
          zr_branchCode = (case branch of None \<Rightarrow> [] | Some b \<Rightarrow> br_code b),
          zr_terminalCode = (case cx_terminalCode ctx of None \<Rightarrow> [] | Some c \<Rightarrow> c) \<rparr>)))"

definition closeShift :: "ctx \<Rightarrow> int \<Rightarrow> (db, exn, z_report) op" where
  "closeShift ctx countedCashC =
    bind (findOpenShift ctx) (\<lambda>found.
    case found of
      None \<Rightarrow> throw no_shift
    | Some sm \<Rightarrow>
        bind (computeShiftTotals ctx sm) (\<lambda>totals.
        closeWith ctx countedCashC (fst sm) totals))"

end
