(* ===== verification/ShiftFacts.thy ===== *)
theory ShiftFacts
  imports Shifts SaleRequests
begin

text \<open>
  The operations on shifts taken apart: the open shift of a terminal, what each operation
  writes, and the arithmetic of the X report.
\<close>

section \<open>Sums\<close>

lemma foldl_sum: "foldl (\<lambda>acc r. acc + pick r) a rows = a + sum_list (map pick (rows :: 'r list) :: int list)"
  by (induction rows arbitrary: a) (simp_all add: algebra_simps)

lemma sumBy_sum_list: "sumBy pick rows = sum_list (map pick rows)"
  by (simp add: sumBy_def foldl_sum)

lemma sumBy_simps [simp]:
  "sumBy pick [] = 0" "sumBy pick (r # rs) = pick r + sumBy pick rs" "sumBy pick (rs @ ts) = sumBy pick rs + sumBy pick ts"
  by (simp_all add: sumBy_sum_list)

section \<open>The open shifts of a terminal\<close>

definition is_open :: "uid \<Rightarrow> uid \<Rightarrow> shift_row \<Rightarrow> bool" where
  "is_open br tm sh \<longleftrightarrow> live sh \<and> sh_branchId sh = br \<and> sh_terminalId sh = tm \<and> sh_closedAt sh = None"

definition open_shifts :: "uid \<Rightarrow> uid \<Rightarrow> db \<Rightarrow> shift_row list" where
  "open_shifts br tm s = filter (is_open br tm) (db_shift s)"

definition one_open_each :: "db \<Rightarrow> bool" where
  "one_open_each s \<longleftrightarrow> distinct (map r_id (db_shift s)) \<and> (\<forall>br tm. List.length (open_shifts br tm s) \<le> 1)"

lemma terminal_sees_shift:
  assumes "terminal_of ctx br tm biz"
  shows "visible ctx shift_t False base sh \<longleftrightarrow> sh_branchId sh = br \<and> live sh"
  using assms by (auto simp: terminal_of_def visible_def in_scope_def tenantWhereFor_def is_terminal_def shift_t_def)

lemma terminal_sees_sale:
  assumes "terminal_of ctx br tm biz"
  shows "visible ctx sale_t False base r \<longleftrightarrow> sl_branchId r = br \<and> live r"
  using assms by (auto simp: terminal_of_def visible_def in_scope_def tenantWhereFor_def is_terminal_def sale_t_def)

lemma terminal_base [simp]: "terminal_of ctx br tm biz \<Longrightarrow> base_db ctx s = s"
  by (simp add: terminal_of_def base_db_def)

lemma terminal_choke:
  assumes "terminal_of ctx br tm biz"
  shows "choke_guard ctx ''shift'' oper = None" "choke_guard ctx ''sale'' oper = None" "choke_guard ctx ''branch'' oper = None"
  using assms by (simp_all add: terminal_of_def choke_guard_def PLATFORM_MODELS_def CHILD_PARENT_def TENANT_DIRECT_def)

lemma findMany_run:
  assumes "choke_guard ctx (tb_model t) Read = None"
  shows "scoped_findMany ctx t p s
    = (Inr (filter (\<lambda>r. p r \<and> visible ctx t False (base_db ctx s) r) (tb_get t (base_db ctx s))), s)"
  using assms by (simp add: findMany_Inr)

lemma findFirst_run:
  assumes "choke_guard ctx (tb_model t) Read = None"
  shows "scoped_findFirst ctx t p s
    = (Inr (case filter (\<lambda>r. p r \<and> visible ctx t False (base_db ctx s) r) (tb_get t (base_db ctx s)) of
              [] \<Rightarrow> None | r # _ \<Rightarrow> Some r), s)"
  by (simp add: scoped_findFirst_def bind_def findMany_run [OF assms])

lemma openShift_run:
  assumes "terminal_of ctx br tm biz"
  shows "openShift ctx tm s = (Inr (case open_shifts br tm s of [] \<Rightarrow> None | sh # _ \<Rightarrow> Some sh), s)"
proof -
  have "(\<lambda>sh. (sh_terminalId sh = tm \<and> sh_closedAt sh = None) \<and> visible ctx shift_t False s sh) = is_open br tm"
    using terminal_sees_shift [OF assms] by (auto simp: is_open_def fun_eq_iff)
  then show ?thesis
    using findFirst_run [of ctx shift_t "\<lambda>sh. sh_terminalId sh = tm \<and> sh_closedAt sh = None" s] terminal_choke(1) [OF assms] assms
    by (simp add: openShift_def open_shifts_def shift_t_def)
qed

lemma findOpenShift_run:
  assumes "terminal_of ctx br tm biz"
  shows "findOpenShift ctx s = (Inr (case open_shifts br tm s of [] \<Rightarrow> None
    | sh # _ \<Rightarrow> Some (sh, movementsOf s (r_id sh))), s)"
proof -
  have a: "cx_actor ctx = Some (Act_terminal, tm)" using assms by (simp add: terminal_of_def)
  show ?thesis
    using openShift_run [OF assms, of s] assms
    by (simp add: findOpenShift_def a bind_def openShift_def split: list.splits)
qed

section \<open>Rows of the shift table\<close>

lemma open_shifts_append:
  "db_shift s' = db_shift s @ [sh] \<Longrightarrow> open_shifts br tm s' = open_shifts br tm s @ (if is_open br tm sh then [sh] else [])"
  by (simp add: open_shifts_def)

lemma find_by_id_cong:
  "distinct (map r_id rows) \<Longrightarrow> find (\<lambda>r. r_id r = i) rows = Some r \<Longrightarrow> q \<in> set rows \<Longrightarrow> r_id q = i \<Longrightarrow> q = r"
  by (rule find_key_unique)

text \<open>A change of one shift that reopens nothing and moves nothing.\<close>

lemma shift_update_rows:
  assumes u: "raw_update shift_t i f s = (Inr r', s')" and d: "distinct (map r_id (db_shift s))"
    and f: "\<And>r. r_id (f r) = r_id r"
  shows "db_shift s' = map (\<lambda>r. if r_id r = i then (f r)\<lparr> r_updatedAt := db_now s \<rparr> else r) (db_shift s)"
    and "map r_id (db_shift s') = map r_id (db_shift s)"
proof -
  from shift_tb.raw_update_cases [OF u] obtain r where
    r: "find (\<lambda>r. r_id r = i) (db_shift s) = Some r" "r' = (f r)\<lparr> r_updatedAt := db_now s \<rparr>"
      "db_shift s' = upd_rows (\<lambda>q. r_id q = i) (\<lambda>_. r') (db_shift s)"
    by (auto simp: shift_t_def)
  have "upd_rows (\<lambda>q. r_id q = i) (\<lambda>_. r') (db_shift s)
      = map (\<lambda>q. if r_id q = i then (f q)\<lparr> r_updatedAt := db_now s \<rparr> else q) (db_shift s)"
    unfolding upd_rows_def r(2) using find_by_id_cong [OF d r(1)] by (auto intro!: map_cong)
  with r(3) show e: "db_shift s' = map (\<lambda>r. if r_id r = i then (f r)\<lparr> r_updatedAt := db_now s \<rparr> else r) (db_shift s)"
    by simp
  show "map r_id (db_shift s') = map r_id (db_shift s)" unfolding e using f by auto
qed

lemma open_shifts_update:
  assumes "db_shift s' = map (\<lambda>r. if r_id r = i then (f r)\<lparr> r_updatedAt := n \<rparr> else r) (db_shift s)"
    and "\<And>r. sh_branchId (f r) = sh_branchId r \<and> sh_terminalId (f r) = sh_terminalId r \<and> r_deletedAt (f r) = r_deletedAt r"
    and "\<And>r. sh_closedAt (f r) = None \<Longrightarrow> sh_closedAt r = None"
  shows "List.length (open_shifts br tm s') \<le> List.length (open_shifts br tm s)"
proof -
  let ?g = "\<lambda>r. if r_id r = i then (f r)\<lparr> r_updatedAt := n \<rparr> else r"
  have fewer: "List.length (filter P (map g rows)) \<le> List.length (filter P rows)" if "\<And>r. P (g r) \<Longrightarrow> P r"
    for P and g :: "shift_row \<Rightarrow> shift_row" and rows
    using that by (induction rows) (auto simp: le_Suc_eq)
  have "is_open br tm r" if "is_open br tm (?g r)" for r
    using that assms(2) [of r] assms(3) [of r] by (cases "r_id r = i") (simp_all add: is_open_def live_def)
  from fewer [where g = ?g, OF this] show ?thesis by (simp add: open_shifts_def assms(1))
qed

lemma shift_scoped_update:
  assumes t: "terminal_of ctx br tm biz"
    and u: "scoped_update_nested ctx shift_t (\<lambda>r. r_id r = i) f nested s = (Inr r, s')"
  shows "\<exists>s1 s2. raw_update shift_t i f s = (Inr r, s1) \<and> nested r s1 = (Inr (), s2)
    \<and> db_shift s' = db_shift s2 \<and> db_shiftCashMovement s' = db_shiftCashMovement s2
    \<and> db_sale s' = db_sale s2 \<and> db_salePayment s' = db_salePayment s2"
proof -
  from u [unfolded scoped_update_nested_Inr] obtain prev s1 s2 where
    p: "find (\<lambda>r. r_id r = i \<and> in_scope ctx shift_t (base_db ctx s) r) (tb_get shift_t (base_db ctx s)) = Some prev"
    and raw: "raw_update shift_t (r_id prev) f s = (Inr r, s1)" "nested r s1 = (Inr (), s2)"
    and s': "s' = audited (audit_row_of (base_db ctx s) ctx (tb_model shift_t) ''update'' (r_id r)
                        (Some (tb_any shift_t prev)) (Some (tb_any shift_t r)) (tb_any shift_t r)) s2"
    by blast
  have "r_id prev = i" using find_SomeD [OF p] by simp
  with raw s' show ?thesis by (intro exI [of _ s1] exI [of _ s2]) (simp add: audited_def)
qed

section \<open>Opening\<close>

lemma openNewShift_terminal:
  assumes "terminal_of ctx br tm biz"
  shows "openNewShift ctx x s =
    (case open_shifts br tm s of
       [] \<Rightarrow> createShift ctx br tm x s
     | _ \<Rightarrow> (Inl (validation ''A shift is already open on this terminal.''), s))"
proof -
  have "cx_actor ctx = Some (Act_terminal, tm)" "cx_branchId ctx = Some br" using assms by (simp_all add: terminal_of_def)
  then show ?thesis using openShift_run [OF assms, of s]
    by (simp add: openNewShift_def bind_def split: list.splits)
qed

lemma createShift_Inr:
  assumes t: "terminal_of ctx br tm biz" and run: "createShift ctx br tm x s = (Inr v, s')"
  shows "\<exists>sh. db_shift s' = db_shift s @ [sh] \<and> is_open br tm sh \<and> sh_openingCash sh = x
    \<and> r_id sh \<notin> r_id ` set (db_shift s) \<and> v = serializeShift sh []"
proof -
  from run obtain i n s1 created where
    c: "scoped_create ctx shift_t (Some br) (new_shift i br tm n x) s1 = (Inr created, s')"
    and s1: "db_shift s1 = db_shift s" and v: "v = serializeShift created []"
    by (auto simp: createShift_def now_def bind_eq_Inr)
  from c [unfolded scoped_create_Inr] obtain r0 s2 where
    pol: "policeCreateData (base_db ctx s1) ctx shift_t (Some br) (new_shift i br tm n x) = Inr r0"
    and ins: "raw_insert shift_t r0 s1 = (Inr created, s2)" and s': "db_shift s' = db_shift s2"
    by (auto simp: audited_def)
  have "on_branch ctx br" using t by (simp add: terminal_of_def on_branch_def)
  then have r0: "r0 = new_shift i br tm n x"
    using police_branch(1) [OF pol] by (simp add: shift_t_def new_shift_def)
  from shift_tb.raw_insert_cases [OF ins] s' s1 v show ?thesis
    by (auto simp: r0 shift_t_def new_shift_def is_open_def live_def)
qed

section \<open>The X report\<close>

definition sales_of_shift :: "uid \<Rightarrow> uid \<Rightarrow> db \<Rightarrow> sale_row list" where
  "sales_of_shift br i s = filter (\<lambda>r. sl_shiftId r = Some i \<and> sl_branchId r = br \<and> live r) (db_sale s)"

definition refunds_of_shift :: "uid \<Rightarrow> uid \<Rightarrow> db \<Rightarrow> sale_row list" where
  "refunds_of_shift br i s =
    filter (\<lambda>r. (sl_status r = Refunded \<and> sl_refundShiftId r = Some i) \<and> sl_branchId r = br \<and> live r) (db_sale s)"

definition x_of :: "uid \<Rightarrow> db \<Rightarrow> shift_row \<Rightarrow> shift_totals" where
  "x_of br s sh = shiftTotals s sh (movementsOf s (r_id sh)) (sales_of_shift br (r_id sh) s) (refunds_of_shift br (r_id sh) s)"

lemma computeShiftTotals_run:
  assumes "terminal_of ctx br tm biz"
  shows "computeShiftTotals ctx (sh, movementsOf s (r_id sh)) s = (Inr (x_of br s sh), s)"
proof -
  have m: "tb_model sale_t = ''sale''" "tb_get sale_t s = db_sale s" by (simp_all add: sale_t_def)
  show ?thesis
    using findMany_run [of ctx sale_t "\<lambda>r. sl_shiftId r = Some (r_id sh)" s]
      findMany_run [of ctx sale_t "\<lambda>r. sl_status r = Refunded \<and> sl_refundShiftId r = Some (r_id sh)" s]
      terminal_choke(2) [OF assms] assms
    by (simp add: computeShiftTotals_def bind_def m terminal_sees_sale [OF assms] x_of_def sales_of_shift_def
        refunds_of_shift_def conj_assoc)
qed

lemma totalsX_run:
  assumes "terminal_of ctx br tm biz"
  shows "totalsX ctx s = (case open_shifts br tm s of [] \<Rightarrow> (Inl no_shift, s) | sh # _ \<Rightarrow> (Inr (x_of br s sh), s))"
  using findOpenShift_run [OF assms, of s] computeShiftTotals_run [OF assms]
  by (simp add: totalsX_def bind_def split: list.splits)

lemma addMethods_at:
  "addMethods base ss m k = m k + sumBy sl_total (filter (\<lambda>s. methodOf base s = Some k) ss)"
  by (induction ss arbitrary: m) (auto split: option.split)

lemma methods_partition:
  "sumBy sl_total (filter (\<lambda>s. methodOf base s = Some Cash) ss) + sumBy sl_total (filter (\<lambda>s. methodOf base s = Some Card) ss)
    + sumBy sl_total (filter (\<lambda>s. methodOf base s = Some Gcash) ss) + sumBy sl_total (filter (\<lambda>s. methodOf base s = Some Maya) ss)
    + sumBy sl_total (filter (\<lambda>s. methodOf base s = Some Other_method) ss)
    = sumBy sl_total (filter (\<lambda>s. methodOf base s \<noteq> None) ss)"
proof (induction ss)
  case (Cons s ss)
  then show ?case by (cases "methodOf base s"; cases "the (methodOf base s)") auto
qed simp


section \<open>Sorted children\<close>

lemma sumBy_insort [simp]: "sumBy f (insort_key k x xs) = f x + sumBy f xs"
  by (induction xs) simp_all

lemma sumBy_sort: "sumBy f (sort_key k xs) = sumBy f xs"
  by (induction xs) simp_all

lemma sumBy_filter_sort: "sumBy f (filter P (sort_key k xs)) = sumBy f (filter P xs)"
  by (simp add: filter_sort sumBy_sort)

definition drawer_of :: "cash_movement_type \<Rightarrow> uid \<Rightarrow> db \<Rightarrow> int" where
  "drawer_of ty i s = sumBy cm_amount (filter (\<lambda>m. cm_type m = ty) (filter (\<lambda>m. cm_shiftId m = i \<and> live m) (db_shiftCashMovement s)))"

lemma movementsOf_drawer: "sumBy cm_amount (filter (\<lambda>m. cm_type m = ty) (movementsOf s i)) = drawer_of ty i s"
  by (simp add: movementsOf_def drawer_of_def sumBy_filter_sort)

lemma methodOf_cong: "db_salePayment s' = db_salePayment s \<Longrightarrow> methodOf s' = methodOf s"
  by (simp add: methodOf_def paymentsOf_def fun_eq_iff)

text \<open>The expected cash of a shift, over the tables.\<close>

lemma x_expected:
  "xt_expectedCashC (x_of br s sh) = sh_openingCash sh
    + sumBy sl_total (filter (\<lambda>r. methodOf s r = Some Cash) (filter (\<lambda>r. sl_status r \<noteq> Voided) (sales_of_shift br (r_id sh) s)))
    - sumBy sl_total (filter (\<lambda>r. methodOf s r = Some Cash) (refunds_of_shift br (r_id sh) s))
    + drawer_of Cash_in (r_id sh) s - drawer_of Cash_out (r_id sh) s"
  by (simp add: x_of_def shiftTotals_def Let_def movementsOf_drawer)

section \<open>Cash movements\<close>

lemma addCashMovement_Inr:
  assumes t: "terminal_of ctx br tm biz" and d: "distinct (map r_id (db_shift s))"
    and run: "addCashMovement ctx ty amount reason s = (Inr m, s')"
  obtains sh rest i row where "open_shifts br tm s = sh # rest" "trim reason \<noteq> []"
    "db_shiftCashMovement s' = db_shiftCashMovement s @ [row]" "cm_shiftId row = r_id sh" "cm_type row = ty"
    "cm_amount row = amount" "cm_reason row = trim reason" "live row"
    "db_sale s' = db_sale s" "db_salePayment s' = db_salePayment s"
    "db_shift s' = map (\<lambda>r. if r_id r = r_id sh then r\<lparr> r_updatedAt := db_now s \<rparr> else r) (db_shift s)"
proof -
  obtain sh rest where op: "open_shifts br tm s = sh # rest"
    using run findOpenShift_run [OF t, of s]
    by (cases "open_shifts br tm s") (auto simp: addCashMovement_def Let_def bind_def split: if_splits)
  have reason: "trim reason \<noteq> []" using run by (auto simp: addCashMovement_def Let_def split: if_splits)
  let ?s0 = "s\<lparr> db_nextId := Suc (db_nextId s) \<rparr>"
  let ?i = "nth_uuid (db_nextId s)"
  have "bind (scoped_update_nested ctx shift_t (\<lambda>r. r_id r = r_id sh) (\<lambda>r. r)
          (insertCashMovement ?i ty amount (trim reason))) (\<lambda>_.
        bind (scoped_findFirst ctx shift_t (\<lambda>r. r_id r = r_id sh)) (\<lambda>refreshed.
        bind (reads (base_db ctx)) (\<lambda>base.
        case Option.bind refreshed (\<lambda>s. find (\<lambda>m. r_id m = ?i) (movementsOf base (r_id s))) of
          None \<Rightarrow> throw (not_found ''Cash movement not found.'')
        | Some m \<Rightarrow> ret (serializeCashMovement m)))) ?s0 = (Inr m, s')"
    using run reason findOpenShift_run [OF t, of s] op
    by (simp add: addCashMovement_def Let_def bind_def [of "findOpenShift ctx"] bind_def [of fresh_id])
  then obtain r s1 where u: "scoped_update_nested ctx shift_t (\<lambda>r. r_id r = r_id sh) (\<lambda>r. r)
      (insertCashMovement ?i ty amount (trim reason)) ?s0 = (Inr r, s1)"
    and rest': "bind (scoped_findFirst ctx shift_t (\<lambda>r. r_id r = r_id sh)) (\<lambda>refreshed.
        bind (reads (base_db ctx)) (\<lambda>base.
        case Option.bind refreshed (\<lambda>s. find (\<lambda>m. r_id m = ?i) (movementsOf base (r_id s))) of
          None \<Rightarrow> throw (not_found ''Cash movement not found.'')
        | Some m \<Rightarrow> ret (serializeCashMovement m))) s1 = (Inr m, s')"
    by (rule bind_InrE)
  have "s' = s1" using rest' by (rule bind_pure_InrE) (auto split: option.splits)
  from shift_scoped_update [OF t u] obtain sa sb where
    raw: "raw_update shift_t (r_id sh) (\<lambda>r. r) ?s0 = (Inr r, sa)"
    and ins: "insertCashMovement ?i ty amount (trim reason) r sa = (Inr (), sb)"
    and fr: "db_shift s1 = db_shift sb" "db_shiftCashMovement s1 = db_shiftCashMovement sb"
      "db_sale s1 = db_sale sb" "db_salePayment s1 = db_salePayment sb"
    by blast
  have rid: "r_id r = r_id sh" and sa: "db_shiftCashMovement sa = db_shiftCashMovement s" "db_sale sa = db_sale s"
      "db_salePayment sa = db_salePayment s"
    using shift_tb.raw_update_cases [OF raw] by (auto simp: shift_t_def dest: find_SomeD)
  have shs: "db_shift sa = map (\<lambda>r. if r_id r = r_id sh then r\<lparr> r_updatedAt := db_now s \<rparr> else r) (db_shift s)"
    using shift_update_rows(1) [OF raw] d by simp
  from ins obtain row where ri: "raw_insert shiftCashMovement_t
      \<lparr> r_id = ?i, r_createdAt = 0, r_updatedAt = 0, r_deletedAt = None, cm_shiftId = r_id r,
        cm_type = ty, cm_amount = amount, cm_reason = trim reason \<rparr> sa = (Inr row, sb)"
    by (auto simp: insertCashMovement_def bind_eq_Inr)
  from shiftCashMovement_tb.raw_insert_cases [OF ri] have
    "db_shiftCashMovement sb = db_shiftCashMovement sa @ [row]" "cm_shiftId row = r_id sh" "cm_type row = ty"
    "cm_amount row = amount" "cm_reason row = trim reason" "live row"
    "db_shift sb = db_shift sa" "db_sale sb = db_sale sa" "db_salePayment sb = db_salePayment sa"
    by (auto simp: shiftCashMovement_t_def live_def rid)
  with that op reason fr sa shs \<open>s' = s1\<close> show thesis by simp
qed


section \<open>Closing\<close>

lemma closeShift_Inr:
  assumes t: "terminal_of ctx br tm biz" and d: "distinct (map r_id (db_shift s))"
    and run: "closeShift ctx counted s = (Inr z, s')"
  obtains sh rest where "open_shifts br tm s = sh # rest" "zr_totals z = x_of br s sh" "zr_shiftId z = r_id sh"
    "zr_countedCashC z = counted" "zr_overShortC z = counted - xt_expectedCashC (x_of br s sh)"
    "db_shift s' = map (\<lambda>r. if r_id r = r_id sh then r\<lparr> sh_closedAt := Some (db_now s), sh_closingCash := Some counted,
       sh_expectedCash := Some (xt_expectedCashC (x_of br s sh)), r_updatedAt := db_now s \<rparr> else r) (db_shift s)"
    "db_sale s' = db_sale s" "db_salePayment s' = db_salePayment s" "db_shiftCashMovement s' = db_shiftCashMovement s"
proof -
  obtain sh rest where op: "open_shifts br tm s = sh # rest"
    using run findOpenShift_run [OF t, of s]
    by (cases "open_shifts br tm s") (auto simp: closeShift_def bind_def)
  let ?x = "x_of br s sh"
  let ?f = "\<lambda>r. r\<lparr> sh_closedAt := Some (db_now s), sh_closingCash := Some counted, sh_expectedCash := Some (xt_expectedCashC ?x) \<rparr>"
  have cw: "closeWith ctx counted sh ?x s = (Inr z, s')"
    using run findOpenShift_run [OF t, of s] computeShiftTotals_run [OF t, of sh s] op
    by (simp add: closeShift_def bind_def)
  then obtain r s1 where u: "scoped_update ctx shift_t (\<lambda>r. r_id r = r_id sh) ?f s = (Inr r, s1)"
    and z: "bind (scoped_findFirst ctx branch_t (\<lambda>b. r_id b = sh_branchId sh)) (\<lambda>branch.
      ret \<lparr> zr_totals = ?x, zr_shiftId = r_id sh, zr_openedAt = sh_openedAt sh, zr_closedAt = db_now s,
          zr_openingCashC = sh_openingCash sh, zr_countedCashC = counted,
          zr_overShortC = counted - xt_expectedCashC ?x,
          zr_branchCode = (case branch of None \<Rightarrow> [] | Some b \<Rightarrow> br_code b),
          zr_terminalCode = (case cx_terminalCode ctx of None \<Rightarrow> [] | Some c \<Rightarrow> c) \<rparr>) s1 = (Inr z, s')"
    unfolding closeWith_def now_def bind_reads by (rule bind_InrE)
  have s1: "s' = s1" "zr_totals z = ?x" "zr_shiftId z = r_id sh" "zr_countedCashC z = counted"
      "zr_overShortC z = counted - xt_expectedCashC ?x"
    using z by (auto elim!: bind_pure_InrE)
  from shift_scoped_update [OF t u [unfolded scoped_update_def]] obtain sa sb where
    raw: "raw_update shift_t (r_id sh) ?f s = (Inr r, sa)" and "sb = sa"
    and fr: "db_shift s1 = db_shift sb" "db_shiftCashMovement s1 = db_shiftCashMovement sb"
      "db_sale s1 = db_sale sb" "db_salePayment s1 = db_salePayment sb"
    by auto
  have "db_shiftCashMovement sa = db_shiftCashMovement s" "db_sale sa = db_sale s" "db_salePayment sa = db_salePayment s"
    using shift_tb.raw_update_cases [OF raw] by (auto simp: shift_t_def)
  moreover have "db_shift sa = map (\<lambda>r. if r_id r = r_id sh then (?f r)\<lparr> r_updatedAt := db_now s \<rparr> else r) (db_shift s)"
    by (rule shift_update_rows(1) [OF raw d]) simp
  ultimately show thesis using that [OF op] s1 fr \<open>sb = sa\<close> by simp
qed

section \<open>The payment of a completed sale\<close>

lemma framed_items [simp]: "framed (\<lambda>s. db_salePayment s = X) saleItem_t" "framed (\<lambda>s. db_shiftCashMovement s = Y) saleItem_t"
  by (simp_all add: framed_def saleItem_t_def)

lemma keeps_createItem: "framed P saleItem_t \<Longrightarrow> keeps P (createItem i d)"
  unfolding createItem_def by (intro keeps_intros framed_insert framed_fresh [of P saleItem_t])

lemma createSale_payments:
  assumes "createSale ctx dto totals costs br tm s = (Inr created, s')"
  shows "\<exists>q. db_salePayment s' = db_salePayment s @ [q] \<and> sp_saleId q = r_id created \<and> live q
    \<and> sp_method q = pm_method (sd_payment dto)"
proof -
  obtain cols where cols: "sale_columns totals = Inr cols"
    and c: "scoped_create_nested ctx sale_t (Some br) (nestedSale dto totals costs)
        (buildSaleRow (db_now s) dto totals br tm) s = (Inr created, s')"
    using assms(1) by (auto simp: createSale_def now_def split: sum.splits)
  from c [unfolded scoped_create_nested_Inr] obtain r0 s1 s2 where
    ins: "raw_insert sale_t r0 s = (Inr created, s1)"
    and nest: "nestedSale dto totals costs created s1 = (Inr (), s2)" and s': "db_salePayment s' = db_salePayment s2"
    by (auto simp: audited_def)
  have s1: "db_salePayment s1 = db_salePayment s" using sale_tb.raw_insert_cases [OF ins] by (auto simp: sale_t_def)
  from nest [unfolded nestedSale_def] obtain s3 where
    it: "for_each (map (buildItem totals costs) (sd_lines dto)) (createItem (r_id created)) s1 = (Inr (), s3)"
    and pay: "createPayment (r_id created) (sd_payment dto) s3 = (Inr (), s2)"
    unfolding bind_unit_Inr by blast
  have "db_salePayment s3 = db_salePayment s1"
    using keeps_eq [of db_salePayment "for_each (map (buildItem totals costs) (sd_lines dto)) (createItem (r_id created))" s1, OF _ it]
    by (simp add: keeps_for_each keeps_createItem)
  moreover from pay obtain a b c row where "raw_insert salePayment_t
      \<lparr> r_id = pm_id (sd_payment dto), r_createdAt = 0, r_updatedAt = 0, r_deletedAt = None, sp_saleId = r_id created,
        sp_method = pm_method (sd_payment dto), sp_reference = pm_referenceNo (sd_payment dto), sp_amount = a,
        sp_tendered = b, sp_change = c \<rparr> s3 = (Inr row, s2)"
    by (auto simp: createPayment_def bind_eq_Inr split: sum.splits)
  from salePayment_tb.raw_insert_cases [OF this] have "db_salePayment s2 = db_salePayment s3 @ [row]"
    "sp_saleId row = r_id created" "live row" "sp_method row = pm_method (sd_payment dto)"
    by (auto simp: salePayment_t_def live_def)
  ultimately show ?thesis using s' s1 by auto
qed

lemma persist_payments:
  assumes "terminal_of ctx br tm biz" "find (\<lambda>r. r_id r = sd_id dto) (db_sale s) = None"
    and run: "persist dto totals costs br tm (in_tx ctx s) s = (Inr sale, s')"
  shows "\<exists>q. db_salePayment s' = db_salePayment s @ [q] \<and> sp_saleId q = sd_id dto \<and> live q
      \<and> sp_method q = pm_method (sd_payment dto)"
proof -
  let ?c = "in_tx ctx s"
  from persist_steps [OF run assms(2)] obtain W ids s1 created s2 s3 where st:
    "for_each W (decrementLevel ?c ids) s = (Inr (), s1)"
    "createSale ?c dto totals costs br tm s1 = (Inr created, s2)"
    "for_each (tracked_lines dto) (saleMovement ?c br (r_id created)) s2 = (Inr (), s3)"
    "bumpReceiptSeq tm (sd_receiptNo dto) s3 = (Inr (), s')"
    by metis
  have "r_id created = sd_id dto" using createSale_Inr(1) [OF st(2)] assms(1) by (simp add: buildSaleRow_def)
  moreover have "db_salePayment s' = db_salePayment s2" "db_salePayment s1 = db_salePayment s"
    using keeps_eq [of db_salePayment "for_each (tracked_lines dto) (saleMovement ?c br (r_id created))" s2, OF _ st(3)]
      keeps_eq [of db_salePayment "bumpReceiptSeq tm (sd_receiptNo dto)" s3, OF _ st(4)]
      keeps_eq [of db_salePayment "for_each W (decrementLevel ?c ids)" s, OF _ st(1)]
    by (simp_all add: keeps_movements framed_bump keeps_decrements)
  ultimately show ?thesis using createSale_payments [OF st(2)] by simp
qed

lemma framed_shifts [simp]:
  "framed (\<lambda>s. db_shift s = X) branchStock_t" "framed (\<lambda>s. db_shift s = X) stockMovement_t"
  "framed (\<lambda>s. db_shift s = X) terminal_t" "framed (\<lambda>s. db_shift s = X) sale_t"
  "framed (\<lambda>s. db_shift s = X) saleItem_t" "framed (\<lambda>s. db_shift s = X) salePayment_t"
  "framed (\<lambda>s. db_shiftCashMovement s = Y) branchStock_t" "framed (\<lambda>s. db_shiftCashMovement s = Y) stockMovement_t"
  "framed (\<lambda>s. db_shiftCashMovement s = Y) terminal_t" "framed (\<lambda>s. db_shiftCashMovement s = Y) sale_t"
  "framed (\<lambda>s. db_shiftCashMovement s = Y) salePayment_t"
  by (simp_all add: framed_def table_defs)

lemma keeps_persist:
  assumes "framed P branchStock_t" "framed P sale_t" "framed P saleItem_t" "framed P salePayment_t"
    "framed P stockMovement_t" "framed P terminal_t"
  shows "keeps P (persist dto totals costs br tm ctx)"
  unfolding persist_def Let_def lockStock_def
  by (intro keeps_intros framed_decrement framed_createSale framed_saleMovement framed_bump assms)
    (auto split: prod.split intro!: keeps_intros framed_decrement framed_createSale framed_saleMovement framed_bump assms)

end
