(* ===== verification/ShiftClaims.thy ===== *)
theory ShiftClaims
  imports ShiftFacts SaleFixture
begin

text \<open>
  The properties of shifts: one open shift per terminal, the drawer the X and Z reports
  expect, and how sales, cash movements and closing move it.
\<close>

section \<open>Concrete states\<close>

lemma fx_shifts: "one_open_each fx_db"
proof -
  have "List.length (open_shifts br tm fx_db) \<le> 1" for br tm
    by (auto simp: open_shifts_def is_open_def fx_db_def fx_shift_def live_def)
  then show ?thesis by (simp add: one_open_each_def fx_db_def fx_shift_def ex_uuid_def)
qed

definition fx_noshift :: db where
  "fx_noshift = fx_db\<lparr> db_shift := [] \<rparr>"

section \<open>One open shift per terminal\<close>

text \<open>
  C20. A terminal has at most one open shift: opening a shift succeeds only when the terminal has
  none, creates exactly one, and opening, cash movements and closing all keep the invariant
  that no terminal of any branch has two.
\<close>

theorem one_open_shift_per_terminal:
  assumes "terminal_of ctx br tm biz" and "one_open_each s"
  shows "(\<forall>v s'. openNewShift ctx x s = (Inr v, s') \<longrightarrow>
        open_shifts br tm s = [] \<and> List.length (open_shifts br tm s') = 1 \<and> one_open_each s')
    \<and> (\<forall>m s'. addCashMovement ctx ty amount reason s = (Inr m, s') \<longrightarrow> one_open_each s')
    \<and> (\<forall>z s'. closeShift ctx counted s = (Inr z, s') \<longrightarrow> one_open_each s')"
proof (intro conjI allI impI)
  have d: "distinct (map r_id (db_shift s))" and one: "\<And>b t. List.length (open_shifts b t s) \<le> 1"
    using assms(2) by (simp_all add: one_open_each_def)
  fix v s' assume run: "openNewShift ctx x s = (Inr v, s')"
  then have none: "open_shifts br tm s = []" and c: "createShift ctx br tm x s = (Inr v, s')"
    by (auto simp: openNewShift_terminal [OF assms(1)] split: list.splits)
  from createShift_Inr [OF assms(1) c] obtain sh where sh: "db_shift s' = db_shift s @ [sh]" "is_open br tm sh"
    "r_id sh \<notin> r_id ` set (db_shift s)" by blast
  note app = open_shifts_append [OF sh(1)]
  show "open_shifts br tm s = []" by (rule none)
  show "List.length (open_shifts br tm s') = 1" using app sh(2) none by simp
  have "List.length (open_shifts b t s') \<le> 1" for b t
    using app [of b t] one [of b t] sh(2) none by (auto simp: is_open_def split: if_splits)
  then show "one_open_each s'" using d sh by (simp add: one_open_each_def)
next
  have d: "distinct (map r_id (db_shift s))" and one: "\<And>b t. List.length (open_shifts b t s) \<le> 1"
    using assms(2) by (simp_all add: one_open_each_def)
  fix m s' assume run: "addCashMovement ctx ty amount reason s = (Inr m, s')"
  show "one_open_each s'"
  proof (rule addCashMovement_Inr [OF assms(1) d run])
    fix sh assume "db_shift s' = map (\<lambda>r. if r_id r = r_id sh then r\<lparr> r_updatedAt := db_now s \<rparr> else r) (db_shift s)"
    note e = this and u = open_shifts_update [where f = "\<lambda>r. r", OF this]
    have "map r_id (db_shift s') = map r_id (db_shift s)" by (simp add: e)
    moreover have "List.length (open_shifts b t s') \<le> 1" for b t
      using u [of b t] one [of b t] by simp
    ultimately show ?thesis using d by (simp add: one_open_each_def)
  qed
next
  have d: "distinct (map r_id (db_shift s))" and one: "\<And>b t. List.length (open_shifts b t s) \<le> 1"
    using assms(2) by (simp_all add: one_open_each_def)
  fix z s' assume run: "closeShift ctx counted s = (Inr z, s')"
  show "one_open_each s'"
  proof (rule closeShift_Inr [OF assms(1) d run])
    fix sh
    let ?f = "\<lambda>r. r\<lparr> sh_closedAt := Some (db_now s), sh_closingCash := Some counted,
       sh_expectedCash := Some (xt_expectedCashC (x_of br s sh)) \<rparr>"
    assume e: "db_shift s' = map (\<lambda>r. if r_id r = r_id sh then (?f r)\<lparr> r_updatedAt := db_now s \<rparr> else r) (db_shift s)"
    note u = open_shifts_update [where f = ?f, OF e]
    have "map r_id (db_shift s') = map r_id (db_shift s)" by (simp add: e)
    moreover have "List.length (open_shifts b t s') \<le> 1" for b t
      using u [of b t] one [of b t] by simp
    ultimately show ?thesis using d by (simp add: one_open_each_def)
  qed
qed


theorem one_open_shift_per_terminal_witness:
  "\<exists>v s'. openNewShift fx_terminal_ctx 5000 fx_noshift = (Inr v, s') \<and> List.length (open_shifts ''br1'' ''tm1'' s') = 1"
proof -
  have "case fst (openNewShift fx_terminal_ctx 5000 fx_noshift) of Inl _ \<Rightarrow> False | Inr v \<Rightarrow> True" by code_simp
  from run_Inr [OF this] obtain v s' where v: "openNewShift fx_terminal_ctx 5000 fx_noshift = (Inr v, s')" by blast
  have "one_open_each fx_noshift" by (simp add: one_open_each_def fx_noshift_def open_shifts_def)
  from one_open_shift_per_terminal [OF fx_terminal this] v show ?thesis by blast
qed

section \<open>The drawer\<close>

text \<open>
  A cash movement moves the expected drawer of the open shift by exactly its amount, up for
  cash in and down for cash out, and changes nothing else of the X report.
\<close>

theorem cash_movement_moves_drawer:
  assumes "terminal_of ctx br tm biz" and "one_open_each s"
    and "addCashMovement ctx ty amount reason s = (Inr m, s')" and "totalsX ctx s = (Inr x, s)"
  shows "\<exists>x'. totalsX ctx s' = (Inr x', s')
    \<and> xt_expectedCashC x' = xt_expectedCashC x + (if ty = Cash_in then amount else - amount)
    \<and> xt_grossC x' = xt_grossC x \<and> xt_saleCount x' = xt_saleCount x \<and> xt_byMethod x' = xt_byMethod x
    \<and> xt_refundAmountC x' = xt_refundAmountC x"
proof -
  have d: "distinct (map r_id (db_shift s))" and one: "List.length (open_shifts br tm s) \<le> 1"
    using assms(2) by (simp_all add: one_open_each_def)
  show ?thesis
  proof (rule addCashMovement_Inr [OF assms(1) d assms(3)])
    fix sh rest row
    assume op: "open_shifts br tm s = sh # rest"
      and row: "db_shiftCashMovement s' = db_shiftCashMovement s @ [row]" "cm_shiftId row = r_id sh" "cm_type row = ty"
        "cm_amount row = amount" "live row"
      and fr: "db_sale s' = db_sale s" "db_salePayment s' = db_salePayment s"
      and shs: "db_shift s' = map (\<lambda>r. if r_id r = r_id sh then r\<lparr> r_updatedAt := db_now s \<rparr> else r) (db_shift s)"
    let ?g = "\<lambda>r. if r_id r = r_id sh then r\<lparr> r_updatedAt := db_now s \<rparr> else r"
    let ?sh = "sh\<lparr> r_updatedAt := db_now s \<rparr>"
    have rest: "rest = []" using op one by simp
    have "open_shifts br tm s' = map ?g (open_shifts br tm s)"
    proof -
      have "filter (is_open br tm) (map ?g rows) = map ?g (filter (is_open br tm) rows)" for rows
        by (induction rows) (auto simp: is_open_def live_def)
      then show ?thesis by (simp add: open_shifts_def shs)
    qed
    then have op': "open_shifts br tm s' = [?sh]" using op rest by simp
    have x: "x = x_of br s sh" using assms(4) op by (simp add: totalsX_run [OF assms(1)])
    have meth: "methodOf s' = methodOf s" by (rule methodOf_cong [OF fr(2)])
    have sal: "sales_of_shift br i s' = sales_of_shift br i s" "refunds_of_shift br i s' = refunds_of_shift br i s" for i
      by (simp_all add: sales_of_shift_def refunds_of_shift_def fr(1))
    have add: "addMethods s' rows k = addMethods s rows k" for rows k
      by (induction rows arbitrary: k) (simp_all add: meth)
    have dr: "drawer_of Cash_in (r_id sh) s' = drawer_of Cash_in (r_id sh) s + (if ty = Cash_in then amount else 0)"
      "drawer_of Cash_out (r_id sh) s' = drawer_of Cash_out (r_id sh) s + (if ty = Cash_out then amount else 0)"
      using row by (simp_all add: drawer_of_def)
    have "totalsX ctx s' = (Inr (x_of br s' ?sh), s')" by (simp add: totalsX_run [OF assms(1)] op')
    moreover have "xt_expectedCashC (x_of br s' ?sh) = xt_expectedCashC x + (if ty = Cash_in then amount else - amount)"
      unfolding x x_expected by (cases ty) (simp_all add: meth sal dr)
    ultimately show ?thesis by (simp add: x x_of_def shiftTotals_def Let_def sal add)
  qed
qed

theorem cash_movement_moves_drawer_witness:
  "\<exists>m s' x x'. addCashMovement fx_terminal_ctx Cash_out 2500 '' float '' fx_db = (Inr m, s')
    \<and> totalsX fx_terminal_ctx fx_db = (Inr x, fx_db) \<and> totalsX fx_terminal_ctx s' = (Inr x', s')
    \<and> xt_expectedCashC x' = xt_expectedCashC x - 2500"
proof -
  have "case fst (addCashMovement fx_terminal_ctx Cash_out 2500 '' float '' fx_db) of Inl _ \<Rightarrow> False | Inr v \<Rightarrow> True" by code_simp
  from run_Inr [OF this] obtain m s' where m: "addCashMovement fx_terminal_ctx Cash_out 2500 '' float '' fx_db = (Inr m, s')" by blast
  have op: "open_shifts ''br1'' ''tm1'' fx_db = [fx_shift (ex_uuid ''02'') ''br1'' ''tm1'']"
    by (simp add: open_shifts_def is_open_def fx_db_def fx_shift_def live_def)
  have x: "totalsX fx_terminal_ctx fx_db = (Inr (x_of ''br1'' fx_db (fx_shift (ex_uuid ''02'') ''br1'' ''tm1'')), fx_db)"
    by (simp add: totalsX_run [OF fx_terminal] op)
  from cash_movement_moves_drawer [OF fx_terminal fx_shifts m x] m x show ?thesis by auto
qed

text \<open>The figures of a report, over whole tables: a sum and a count of the rows that qualify.\<close>

definition sum_where :: "('r \<Rightarrow> int) \<Rightarrow> ('r \<Rightarrow> bool) \<Rightarrow> 'r list \<Rightarrow> int" where
  "sum_where f P rows = sum_list (map f (filter P rows))"

definition count_where :: "('r \<Rightarrow> bool) \<Rightarrow> 'r list \<Rightarrow> nat" where
  "count_where P rows = List.length (filter P rows)"

definition paid_by :: "payment_method \<Rightarrow> db \<Rightarrow> sale_row \<Rightarrow> bool" where
  "paid_by k s r \<longleftrightarrow> (\<exists>p \<in> set (db_salePayment s). live p \<and> sp_saleId p = r_id r \<and> sp_method p = k)"

text \<open>Whether a sale was rung up in a shift of a branch, and whether it was paid back in it.\<close>

definition rung_up :: "uid \<Rightarrow> shift_row \<Rightarrow> sale_row \<Rightarrow> bool" where
  "rung_up br sh r \<longleftrightarrow> live r \<and> sl_branchId r = br \<and> sl_shiftId r = Some (r_id sh)"

definition paid_back :: "uid \<Rightarrow> shift_row \<Rightarrow> sale_row \<Rightarrow> bool" where
  "paid_back br sh r \<longleftrightarrow> live r \<and> sl_branchId r = br \<and> sl_status r = Refunded \<and> sl_refundShiftId r = Some (r_id sh)"

lemma sum_where_sumBy: "sum_where f P rows = sumBy f (filter P rows)"
  by (simp add: sumBy_sum_list sum_where_def)

lemma shift_rows:
  "sales_of_shift br (r_id sh) s = filter (rung_up br sh) (db_sale s)"
  "refunds_of_shift br (r_id sh) s = filter (paid_back br sh) (db_sale s)"
  by (auto simp: sales_of_shift_def refunds_of_shift_def rung_up_def paid_back_def intro!: filter_cong)

text \<open>With one payment to a sale, the method read off the first one is the method of any.\<close>

lemma methodOf_paid:
  assumes "distinct (map sp_saleId (filter live (db_salePayment s)))"
  shows "methodOf s r = Some k \<longleftrightarrow> paid_by k s r"
proof -
  let ?own = "filter (\<lambda>p. sp_saleId p = r_id r \<and> live p) (db_salePayment s)"
  have paid: "paid_by k s r \<longleftrightarrow> (\<exists>p \<in> set ?own. sp_method p = k)" by (auto simp: paid_by_def)
  have "List.length (filter (\<lambda>p. sp_saleId p = i) ps) \<le> 1" if "distinct (map sp_saleId ps)" for i and ps :: "sale_payment_row list"
    using that
  proof (induction ps)
    case (Cons p ps)
    then have "filter (\<lambda>q. sp_saleId q = i) ps = []" if "sp_saleId p = i"
      using that by (auto simp: filter_empty_conv image_iff)
    with Cons show ?case by simp
  qed simp
  from this [OF assms, of "r_id r"] have "List.length ?own \<le> 1" by (simp add: conj_commute)
  then consider "?own = []" | p where "?own = [p]"
    by (cases ?own) auto
  then show ?thesis unfolding paid by cases (simp_all add: methodOf_def paymentsOf_def)
qed

lemma x_figures:
  assumes "distinct (map sp_saleId (filter live (db_salePayment s)))"
  shows "xt_grossC (x_of br s sh) = sum_where sl_total (\<lambda>r. rung_up br sh r \<and> sl_status r \<noteq> Voided) (db_sale s)"
    "xt_saleCount (x_of br s sh) = count_where (\<lambda>r. rung_up br sh r \<and> sl_status r \<noteq> Voided) (db_sale s)"
    "\<forall>k. xt_byMethod (x_of br s sh) k = sum_where sl_total (\<lambda>r. rung_up br sh r \<and> sl_status r \<noteq> Voided \<and> paid_by k s r) (db_sale s)"
    "xt_voidCount (x_of br s sh) = count_where (\<lambda>r. rung_up br sh r \<and> sl_status r = Voided) (db_sale s)"
    "xt_voidAmountC (x_of br s sh) = sum_where sl_total (\<lambda>r. rung_up br sh r \<and> sl_status r = Voided) (db_sale s)"
    "xt_refundCount (x_of br s sh) = count_where (paid_back br sh) (db_sale s)"
    "xt_refundAmountC (x_of br s sh) = sum_where sl_total (paid_back br sh) (db_sale s)"
    "xt_scPwdDiscountC (x_of br s sh) = sum_where sl_scPwdDiscount (\<lambda>r. rung_up br sh r \<and> sl_status r \<noteq> Voided) (db_sale s)"
    "xt_serviceChargeC (x_of br s sh) = sum_where sl_serviceCharge (\<lambda>r. rung_up br sh r \<and> sl_status r \<noteq> Voided) (db_sale s)"
    "xt_cashSalesC (x_of br s sh) = xt_byMethod (x_of br s sh) Cash"
    "xt_cashRefundsC (x_of br s sh) = sum_where sl_total (\<lambda>r. paid_back br sh r \<and> paid_by Cash s r) (db_sale s)"
    "xt_cashInC (x_of br s sh) = sum_where cm_amount (\<lambda>m. cm_shiftId m = r_id sh \<and> live m \<and> cm_type m = Cash_in) (db_shiftCashMovement s)"
    "xt_cashOutC (x_of br s sh) = sum_where cm_amount (\<lambda>m. cm_shiftId m = r_id sh \<and> live m \<and> cm_type m = Cash_out) (db_shiftCashMovement s)"
    "xt_expectedCashC (x_of br s sh) = sh_openingCash sh + xt_cashSalesC (x_of br s sh) - xt_cashRefundsC (x_of br s sh)
      + xt_cashInC (x_of br s sh) - xt_cashOutC (x_of br s sh)"
  by (simp_all add: x_of_def shiftTotals_def Let_def addMethods_at shift_rows movementsOf_drawer drawer_of_def
      methodOf_paid [OF assms] sum_where_sumBy count_where_def)

lemma x_methods:
  assumes "distinct (map sp_saleId (filter live (db_salePayment s)))"
  shows "(\<forall>r \<in> set (db_sale s). rung_up br sh r \<longrightarrow> sl_status r = Voided \<or> (\<exists>k. paid_by k s r)) \<longrightarrow>
    xt_byMethod (x_of br s sh) Cash + xt_byMethod (x_of br s sh) Card + xt_byMethod (x_of br s sh) Gcash
      + xt_byMethod (x_of br s sh) Maya + xt_byMethod (x_of br s sh) Other_method = xt_grossC (x_of br s sh)"
proof
  let ?sold = "filter (\<lambda>r. sl_status r \<noteq> Voided) (sales_of_shift br (r_id sh) s)"
  assume paid: "\<forall>r \<in> set (db_sale s). rung_up br sh r \<longrightarrow> sl_status r = Voided \<or> (\<exists>k. paid_by k s r)"
  have "methodOf s r \<noteq> None" if "r \<in> set ?sold" for r
    using that paid methodOf_paid [OF assms, of r] by (auto simp: shift_rows)
  then have "filter (\<lambda>r. methodOf s r \<noteq> None) ?sold = ?sold" by (intro filter_True) blast
  then show "xt_byMethod (x_of br s sh) Cash + xt_byMethod (x_of br s sh) Card + xt_byMethod (x_of br s sh) Gcash
      + xt_byMethod (x_of br s sh) Maya + xt_byMethod (x_of br s sh) Other_method = xt_grossC (x_of br s sh)"
    using methods_partition [of s ?sold] by (simp add: x_of_def shiftTotals_def Let_def addMethods_at)
qed

text \<open>
  C18. The X report, figure by figure, over the tables: for the open shift of the terminal, the
  gross, the number of sales, the amount of every payment method, the senior and PWD discounts and
  the service charge are over the sales rung up in the shift that are not voided, the voids over those that
  are, the refunds over the sales of the branch paid back in this shift, whichever shift rang
  them up, and the expected drawer is the opening float plus the cash sales and the shift's cash-in
  movements, less the cash refunds and its cash-out movements. The methods add up to the
  gross when every sale that counts has a payment. Each sale has at most one payment row, as
  completing a sale writes it.
\<close>

theorem x_report_balances:
  assumes "terminal_of ctx br tm biz" and "totalsX ctx s = (Inr x, s')"
    and "distinct (map sp_saleId (filter live (db_salePayment s)))"
  shows "s' = s \<and> (\<exists>sh \<in> set (db_shift s). live sh \<and> sh_branchId sh = br \<and> sh_terminalId sh = tm \<and> sh_closedAt sh = None
    \<and> xt_grossC x = sum_where sl_total (\<lambda>r. rung_up br sh r \<and> sl_status r \<noteq> Voided) (db_sale s)
    \<and> xt_saleCount x = count_where (\<lambda>r. rung_up br sh r \<and> sl_status r \<noteq> Voided) (db_sale s)
    \<and> (\<forall>k. xt_byMethod x k = sum_where sl_total (\<lambda>r. rung_up br sh r \<and> sl_status r \<noteq> Voided \<and> paid_by k s r) (db_sale s))
    \<and> xt_voidCount x = count_where (\<lambda>r. rung_up br sh r \<and> sl_status r = Voided) (db_sale s)
    \<and> xt_voidAmountC x = sum_where sl_total (\<lambda>r. rung_up br sh r \<and> sl_status r = Voided) (db_sale s)
    \<and> xt_refundCount x = count_where (paid_back br sh) (db_sale s)
    \<and> xt_refundAmountC x = sum_where sl_total (paid_back br sh) (db_sale s)
    \<and> xt_scPwdDiscountC x = sum_where sl_scPwdDiscount (\<lambda>r. rung_up br sh r \<and> sl_status r \<noteq> Voided) (db_sale s)
    \<and> xt_serviceChargeC x = sum_where sl_serviceCharge (\<lambda>r. rung_up br sh r \<and> sl_status r \<noteq> Voided) (db_sale s)
    \<and> xt_cashSalesC x = xt_byMethod x Cash
    \<and> xt_cashRefundsC x = sum_where sl_total (\<lambda>r. paid_back br sh r \<and> paid_by Cash s r) (db_sale s)
    \<and> xt_cashInC x = sum_where cm_amount (\<lambda>m. cm_shiftId m = r_id sh \<and> live m \<and> cm_type m = Cash_in) (db_shiftCashMovement s)
    \<and> xt_cashOutC x = sum_where cm_amount (\<lambda>m. cm_shiftId m = r_id sh \<and> live m \<and> cm_type m = Cash_out) (db_shiftCashMovement s)
    \<and> xt_expectedCashC x = sh_openingCash sh + xt_cashSalesC x - xt_cashRefundsC x + xt_cashInC x - xt_cashOutC x
    \<and> ((\<forall>r \<in> set (db_sale s). rung_up br sh r \<longrightarrow> sl_status r = Voided \<or> (\<exists>k. paid_by k s r)) \<longrightarrow>
        xt_byMethod x Cash + xt_byMethod x Card + xt_byMethod x Gcash + xt_byMethod x Maya + xt_byMethod x Other_method = xt_grossC x))"
proof -
  note run = assms(2) [unfolded totalsX_run [OF assms(1)]]
  obtain sh rest where op: "open_shifts br tm s = sh # rest"
    using run by (cases "open_shifts br tm s") simp_all
  have x: "x = x_of br s sh" and s': "s' = s" using run by (auto simp: op)
  have "sh \<in> set (open_shifts br tm s)" by (simp add: op)
  then have sh: "sh \<in> set (db_shift s)" "live sh" "sh_branchId sh = br" "sh_terminalId sh = tm" "sh_closedAt sh = None"
    by (auto simp: open_shifts_def is_open_def)
  note figures = x_figures [OF assms(3), of br sh, folded x]
  have parts: "(\<forall>r \<in> set (db_sale s). rung_up br sh r \<longrightarrow> sl_status r = Voided \<or> (\<exists>k. paid_by k s r)) \<longrightarrow>
      xt_byMethod x Cash + xt_byMethod x Card + xt_byMethod x Gcash + xt_byMethod x Maya + xt_byMethod x Other_method = xt_grossC x"
    unfolding x by (rule x_methods [OF assms(3)])
  show ?thesis by (rule conjI [OF s'], rule bexI [OF _ sh(1)]) (intro conjI sh figures parts)
qed

theorem x_report_balances_witness:
  "\<exists>x. totalsX fx_terminal_ctx fx_sold = (Inr x, fx_sold)
    \<and> (\<exists>sh. xt_grossC x = sum_where sl_total (\<lambda>r. rung_up ''br1'' sh r \<and> sl_status r \<noteq> Voided) (db_sale fx_sold))"
proof -
  have "case fst (totalsX fx_terminal_ctx fx_sold) of Inl _ \<Rightarrow> False | Inr v \<Rightarrow> True" by code_simp
  from run_Inr [OF this] obtain x s' where x: "totalsX fx_terminal_ctx fx_sold = (Inr x, s')" by blast
  have "distinct (map sp_saleId (filter live (db_salePayment fx_sold)))" by code_simp
  from x_report_balances [OF fx_terminal x this] x show ?thesis by blast
qed


section \<open>Closing\<close>

text \<open>
  C19. Closing settles the shift: the Z report carries the X totals of that moment, the over or
  short is the counted cash less the expected cash, the shift row keeps both with the time,
  the terminal has no open shift any more, and no new sale can be completed on it until one
  is opened.
\<close>

theorem closing_settles_the_shift:
  assumes "terminal_of ctx br tm biz" and "one_open_each s" and "closeShift ctx counted s = (Inr z, s')"
  shows "totalsX ctx s = (Inr (zr_totals z), s) \<and> zr_overShortC z = counted - xt_expectedCashC (zr_totals z)
    \<and> (\<exists>sh \<in> set (db_shift s'). r_id sh = zr_shiftId z \<and> sh_closedAt sh = Some (db_now s)
        \<and> sh_closingCash sh = Some counted \<and> sh_expectedCash sh = Some (xt_expectedCashC (zr_totals z)))
    \<and> open_shifts br tm s' = []
    \<and> (findSale ctx (sd_id dto) s' = (Inr None, s') \<longrightarrow>
        completeSale env ctx dto s' = (Inl (validation ''The sale's shift is not open.''), s'))"
proof -
  have d: "distinct (map r_id (db_shift s))" and one: "List.length (open_shifts br tm s) \<le> 1"
    using assms(2) by (simp_all add: one_open_each_def)
  show ?thesis
  proof (rule closeShift_Inr [OF assms(1) d assms(3)])
    fix sh rest
    assume op: "open_shifts br tm s = sh # rest"
      and z: "zr_totals z = x_of br s sh" "zr_shiftId z = r_id sh" "zr_countedCashC z = counted"
        "zr_overShortC z = counted - xt_expectedCashC (x_of br s sh)"
      and shs: "db_shift s' = map (\<lambda>r. if r_id r = r_id sh then r\<lparr> sh_closedAt := Some (db_now s), sh_closingCash := Some counted,
       sh_expectedCash := Some (xt_expectedCashC (x_of br s sh)), r_updatedAt := db_now s \<rparr> else r) (db_shift s)"
    let ?g = "\<lambda>r. if r_id r = r_id sh then r\<lparr> sh_closedAt := Some (db_now s), sh_closingCash := Some counted,
       sh_expectedCash := Some (xt_expectedCashC (x_of br s sh)), r_updatedAt := db_now s \<rparr> else r"
    have "sh \<in> set (open_shifts br tm s)" by (simp add: op)
    then have sh: "sh \<in> set (db_shift s)" "is_open br tm sh" by (simp_all add: open_shifts_def)
    have "?g sh \<in> ?g ` set (db_shift s)" by (rule imageI [OF sh(1)])
    then have stored: "?g sh \<in> set (db_shift s')" by (simp only: shs set_map)
    have only: "q = sh" if "q \<in> set (db_shift s)" "is_open br tm q" for q
    proof -
      have "q \<in> set (open_shifts br tm s)" using that by (simp add: open_shifts_def)
      with op one show ?thesis by simp
    qed
    have notopen: "\<not> is_open br tm (?g q)" if "q \<in> set (db_shift s)" for q
    proof (cases "r_id q = r_id sh")
      case False
      then show ?thesis using only [OF that] by auto
    qed (simp add: is_open_def)
    have none: "open_shifts br tm s' = []"
      unfolding open_shifts_def shs filter_empty_conv set_map using notopen by blast
    have "completeSale env ctx dto s' = (Inl (validation ''The sale's shift is not open.''), s')"
      if "findSale ctx (sd_id dto) s' = (Inr None, s')"
      unfolding completeSale_terminal [OF assms(1)]
      by (simp add: bind_def that checkSale_def openShift_run [OF assms(1)] none)
    with z stored none op show ?thesis
      by (auto simp: totalsX_run [OF assms(1)] intro!: bexI [of _ "?g sh"])
  qed
qed

theorem closing_settles_the_shift_witness:
  "\<exists>z s'. closeShift fx_terminal_ctx 107000 fx_sold = (Inr z, s') \<and> zr_overShortC z = 107000 - xt_expectedCashC (zr_totals z)"
proof -
  have "case fst (closeShift fx_terminal_ctx 107000 fx_sold) of Inl _ \<Rightarrow> False | Inr v \<Rightarrow> True" by code_simp
  from run_Inr [OF this] obtain z s' where z: "closeShift fx_terminal_ctx 107000 fx_sold = (Inr z, s')" by blast
  have "db_shift fx_sold = db_shift fx_db"
    using keeps_eq [of db_shift "persist fx_draft fx_totals fx_costs ''br1'' ''tm1'' (in_tx fx_terminal_ctx fx_db)" fx_db, OF _ fx_persist]
    by (simp add: keeps_persist)
  then have "one_open_each fx_sold" using fx_shifts by (simp add: one_open_each_def open_shifts_def)
  from closing_settles_the_shift [OF fx_terminal this z] z show ?thesis by blast
qed


section \<open>Sales in the X report\<close>

lemma sales_of_shift_append:
  "db_sale s' = db_sale s @ [r] \<Longrightarrow> sales_of_shift br i s'
    = sales_of_shift br i s @ (if sl_shiftId r = Some i \<and> sl_branchId r = br \<and> live r then [r] else [])"
  "db_sale s' = db_sale s @ [r] \<Longrightarrow> sl_status r = Completed \<Longrightarrow> refunds_of_shift br i s' = refunds_of_shift br i s"
  by (simp_all add: sales_of_shift_def refunds_of_shift_def)

lemma methodOf_new_payment:
  assumes "db_salePayment s' = db_salePayment s @ [q]" "sp_saleId q = i" "live q"
    and "\<forall>p \<in> set (db_salePayment s). sp_saleId p \<noteq> i"
  shows "methodOf s' r = (if r_id r = i then Some (sp_method q) else methodOf s r)"
proof -
  have "filter (\<lambda>p. sp_saleId p = i \<and> live p) (db_salePayment s) = []"
    using assms(4) by (auto simp: filter_empty_conv)
  then show ?thesis using assms(1-3) by (auto simp: methodOf_def paymentsOf_def)
qed

text \<open>
  A completed sale shows in the X report of its terminal at once: the gross and the amount of
  its payment method go up by its total, the count by one, and the expected drawer by the
  total exactly when it was paid in cash.
\<close>

theorem sale_shows_in_x_report:
  assumes "terminal_of ctx br tm biz" and "completeSale (\<lambda>s. s) ctx dto s = (Inr (False, sale), s')"
    and "\<forall>r \<in> set (db_sale s). r_id r \<noteq> sd_id dto" and "\<forall>p \<in> set (db_salePayment s). sp_saleId p \<noteq> sd_id dto"
    and "totalsX ctx s = (Inr x, s)"
  shows "\<exists>x' total. totalsX ctx s' = (Inr x', s') \<and> db_sale s' = db_sale s @ [last (db_sale s')]
    \<and> sl_total (last (db_sale s')) = total
    \<and> xt_grossC x' = xt_grossC x + total \<and> xt_saleCount x' = xt_saleCount x + 1
    \<and> xt_byMethod x' (pm_method (sd_payment dto)) = xt_byMethod x (pm_method (sd_payment dto)) + total
    \<and> xt_expectedCashC x' = xt_expectedCashC x + (if pm_method (sd_payment dto) = Cash then total else 0)"
proof (rule completeSale_fresh [OF assms(1,2)])
  fix totals costs
  assume c: "checkSale ctx biz tm dto s = (Inr (totals, costs), s)"
    and p: "persist dto totals costs br tm (in_tx ctx s) s = (Inr sale, s')"
  have new: "find (\<lambda>r. r_id r = sd_id dto) (db_sale s) = None" using assms(3) by (simp add: find_None_iff)
  let ?row = "buildSaleRow (db_now s) dto totals br tm"
  note row = persist_row(1) [OF assms(1) new p]
  from checkSale_Inr [OF c] obtain sh where sh: "openShift ctx tm s = (Inr (Some sh), s)" "r_id sh = sd_shiftId dto" by metis
  obtain rest where op: "open_shifts br tm s = sh # rest"
    using sh(1) by (auto simp: openShift_run [OF assms(1)] split: list.splits)
  have fr: "db_shift s' = db_shift s" "db_shiftCashMovement s' = db_shiftCashMovement s"
    using keeps_eq [of db_shift "persist dto totals costs br tm (in_tx ctx s)" s, OF _ p]
      keeps_eq [of db_shiftCashMovement "persist dto totals costs br tm (in_tx ctx s)" s, OF _ p]
    by (simp_all add: keeps_persist)
  have op': "open_shifts br tm s' = sh # rest" using op by (simp add: open_shifts_def fr(1))
  have x: "x = x_of br s sh" using assms(5) op by (simp add: totalsX_run [OF assms(1)])
  have x': "totalsX ctx s' = (Inr (x_of br s' sh), s')" using op' by (simp add: totalsX_run [OF assms(1)])
  from persist_payments [OF assms(1) new p] obtain q where
    q: "db_salePayment s' = db_salePayment s @ [q]" "sp_saleId q = sd_id dto" "live q" "sp_method q = pm_method (sd_payment dto)"
    by blast
  note meth = methodOf_new_payment [OF q(1-3) assms(4)]
  have rowf: "r_id ?row = sd_id dto" "sl_shiftId ?row = Some (r_id sh)" "sl_branchId ?row = br" "live ?row" "sl_status ?row = Completed"
    using sh(2) by (simp_all add: buildSaleRow_def live_def)
  have old: "methodOf s' r = methodOf s r" if "r \<in> set (db_sale s)" for r
    using that assms(3) meth by simp
  have new_m: "methodOf s' ?row = Some (pm_method (sd_payment dto))" using meth rowf(1) q(4) by simp
  have fl: "filter (\<lambda>r. methodOf s' r = k) (filter P (filter Q (db_sale s))) = filter (\<lambda>r. methodOf s r = k) (filter P (filter Q (db_sale s)))"
    for k P Q by (rule filter_cong) (auto dest: old)
  have sales: "sales_of_shift br (r_id sh) s' = sales_of_shift br (r_id sh) s @ [?row]"
    using sales_of_shift_append(1) [OF row, of br "r_id sh"] rowf by simp
  have refunds: "refunds_of_shift br (r_id sh) s' = refunds_of_shift br (r_id sh) s"
    by (rule sales_of_shift_append(2) [OF row rowf(5)])
  have cash: "filter (\<lambda>r. methodOf s' r = k) (filter (\<lambda>r. sl_status r \<noteq> Voided) (sales_of_shift br (r_id sh) s))
      = filter (\<lambda>r. methodOf s r = k) (filter (\<lambda>r. sl_status r \<noteq> Voided) (sales_of_shift br (r_id sh) s))" for k
    unfolding sales_of_shift_def by (rule fl)
  have refc: "filter (\<lambda>r. methodOf s' r = k) (refunds_of_shift br (r_id sh) s) = filter (\<lambda>r. methodOf s r = k) (refunds_of_shift br (r_id sh) s)" for k
    unfolding refunds_of_shift_def by (rule filter_cong) (auto dest: old)
  have dr: "drawer_of ty i s' = drawer_of ty i s" for ty i by (simp add: drawer_of_def fr(2))
  have last: "last (db_sale s') = ?row" using row by simp
  have "xt_grossC (x_of br s' sh) = xt_grossC x + sl_total ?row \<and> xt_saleCount (x_of br s' sh) = xt_saleCount x + 1"
    using rowf(5) by (simp add: x x_of_def shiftTotals_def Let_def sales)
  moreover have "xt_byMethod (x_of br s' sh) (pm_method (sd_payment dto)) = xt_byMethod x (pm_method (sd_payment dto)) + sl_total ?row"
    using rowf(5) new_m cash by (simp add: x x_of_def shiftTotals_def Let_def sales addMethods_at)
  moreover have "xt_expectedCashC (x_of br s' sh) = xt_expectedCashC x + (if pm_method (sd_payment dto) = Cash then sl_total ?row else 0)"
    unfolding x x_expected using rowf(5) new_m cash refc by (simp add: sales refunds dr)
  ultimately show ?thesis using x' row last by auto
qed

theorem sale_shows_in_x_report_witness:
  "\<exists>x x'. totalsX fx_terminal_ctx fx_db = (Inr x, fx_db) \<and> totalsX fx_terminal_ctx fx_sold = (Inr x', fx_sold)
    \<and> xt_saleCount x' = xt_saleCount x + 1"
proof -
  have op: "open_shifts ''br1'' ''tm1'' fx_db = [fx_shift (ex_uuid ''02'') ''br1'' ''tm1'']"
    by (simp add: open_shifts_def is_open_def fx_db_def fx_shift_def live_def)
  have x: "totalsX fx_terminal_ctx fx_db = (Inr (x_of ''br1'' fx_db (fx_shift (ex_uuid ''02'') ''br1'' ''tm1'')), fx_db)"
    by (simp add: totalsX_run [OF fx_terminal] op)
  have "\<forall>r \<in> set (db_sale fx_db). r_id r \<noteq> sd_id fx_draft" "\<forall>p \<in> set (db_salePayment fx_db). sp_saleId p \<noteq> sd_id fx_draft"
    by (simp_all add: fx_db_def empty_db_def)
  from sale_shows_in_x_report [OF fx_terminal fx_complete this x] x show ?thesis by blast
qed

section \<open>A shift closed under a sale\<close>

definition fx_close :: "db \<Rightarrow> db" where
  "fx_close s = snd (closeShift fx_terminal_ctx 100000 s)"

text \<open>
  The open shift is checked before the transaction and not again inside it: when the shift is
  closed between the two, the sale is still completed into the closed shift, and the Z report
  taken at the close does not hold it.
\<close>

theorem sale_lands_in_closed_shift:
  "\<exists>sale s'. completeSale fx_close fx_terminal_ctx fx_draft fx_db = (Inr (False, sale), s')
    \<and> open_shifts ''br1'' ''tm1'' s' = [] \<and> map sl_shiftId (db_sale s') = [Some (ex_uuid ''02'')]
    \<and> map sh_expectedCash (db_shift s') = [Some 100000, None]"
proof -
  have "case fst (persist fx_draft fx_totals fx_costs ''br1'' ''tm1'' (in_tx fx_terminal_ctx (fx_close fx_db)) (fx_close fx_db)) of
      Inl _ \<Rightarrow> False | Inr _ \<Rightarrow> True" by code_simp
  from run_Inr [OF this] obtain sale s' where
    p: "persist fx_draft fx_totals fx_costs ''br1'' ''tm1'' (in_tx fx_terminal_ctx (fx_close fx_db)) (fx_close fx_db) = (Inr sale, s')"
    by blast
  have "saleTx fx_terminal_ctx fx_draft fx_totals fx_costs ''br1'' ''tm1'' (fx_close fx_db) = (Inr (False, sale), s')"
    unfolding saleTx_Inr_False by (rule p)
  then have done_: "completeSale fx_close fx_terminal_ctx fx_draft fx_db = (Inr (False, sale), s')"
    unfolding completeSale_terminal [OF fx_terminal] by (simp add: bind_def fx_find fx_check)
  have none: "db_sale (fx_close fx_db) = []" by code_simp
  have sh: "open_shifts ''br1'' ''tm1'' (fx_close fx_db) = []" "map sh_expectedCash (db_shift (fx_close fx_db)) = [Some 100000, None]"
    by code_simp+
  have "db_shift s' = db_shift (fx_close fx_db)"
    using keeps_eq [of db_shift "persist fx_draft fx_totals fx_costs ''br1'' ''tm1'' (in_tx fx_terminal_ctx (fx_close fx_db))" "fx_close fx_db", OF _ p]
    by (simp add: keeps_persist)
  moreover have "db_sale s' = [buildSaleRow (db_now (fx_close fx_db)) fx_draft fx_totals ''br1'' ''tm1'']"
    using persist_row(1) [OF fx_terminal _ p] by (simp add: none)
  moreover have "sd_shiftId fx_draft = ex_uuid ''02''" by (simp add: fx_draft_def ex_draft_def)
  ultimately show ?thesis using done_ sh by (simp add: open_shifts_def buildSaleRow_def)
qed

end
