(* ===== verification/Auth.thy ===== *)
theory Auth
  imports Lockout
begin

text \<open>
  Sign-in of owners and platform admins: \<open>auth/auth.service.ts\<close>, \<open>auth/hashing.ts\<close>,
  \<open>auth/jwt.strategy.ts\<close>, \<open>auth/totp.service.ts\<close>, \<open>auth/invite.service.ts\<close> and the token
  exchange of \<open>auth/auth.controller.ts\<close>.

  The libraries the code calls are the fields of \<open>crypto\<close>: SHA-256 and argon2, the JWT
  signer (it holds the one secret all tokens are signed with) and the TOTP check of otplib.
  Random bytes and salts are arguments. Mail is the value an operation returns.
\<close>

section \<open>The libraries\<close>

record jwt_payload =
  jp_sub :: string
  jp_role :: "string option"
  jp_ownerId :: "string option"
  jp_sid :: "string option"
  jp_kind :: "string option"
  jp_aud :: "string option"

text \<open>
  \<open>lib_sign p ttl t\<close> is the token signed at \<open>t\<close> for \<open>ttl\<close> milliseconds; \<open>lib_jwtVerify\<close> gives
  \<open>None\<close> where the library throws. \<open>lib_otp token secret tolerance after t\<close> is \<open>None\<close> where
  it throws, \<open>Some None\<close> for an invalid code, and the matched time step otherwise.
\<close>

record crypto =
  lib_sha256 :: "string \<Rightarrow> string"
  lib_argonHash :: "string \<Rightarrow> string \<Rightarrow> string"
  lib_argonVerify :: "string \<Rightarrow> string \<Rightarrow> bool option"
  lib_sign :: "jwt_payload \<Rightarrow> int \<Rightarrow> time \<Rightarrow> string"
  lib_jwtVerify :: "string \<Rightarrow> time \<Rightarrow> jwt_payload option"
  lib_otp :: "string \<Rightarrow> string \<Rightarrow> int \<Rightarrow> int option \<Rightarrow> time \<Rightarrow> int option option"

definition hashSecret :: "crypto \<Rightarrow> string \<Rightarrow> string \<Rightarrow> string" where
  "hashSecret lib salt plain = lib_argonHash lib salt plain"

definition verifySecret :: "crypto \<Rightarrow> string \<Rightarrow> string \<Rightarrow> bool" where
  "verifySecret lib h plain = (case lib_argonVerify lib h plain of None \<Rightarrow> False | Some b \<Rightarrow> b)"

text \<open>A value that is neither null nor the empty string.\<close>

definition truthy :: "string option \<Rightarrow> bool" where
  "truthy x \<longleftrightarrow> x \<noteq> None \<and> x \<noteq> Some []"

section \<open>The raw client\<close>

text \<open>\<open>updateMany\<close> on columns no index or check mentions; it answers the number of rows.\<close>

definition raw_updateMany ::
  "'a table \<Rightarrow> ('a row_scheme \<Rightarrow> bool) \<Rightarrow> ('a row_scheme \<Rightarrow> 'a row_scheme) \<Rightarrow> (db, exn, nat) op" where
  "raw_updateMany t p f = (\<lambda>s.
    (Inr (List.length (filter p (tb_get t s))),
     tb_put t (upd_rows p (\<lambda>r. (f r)\<lparr> r_updatedAt := db_now s \<rparr>) (tb_get t s)) s))"

definition findUser :: "uid \<Rightarrow> (db, exn, user_row option) op" where
  "findUser i = reads (\<lambda>s. find (\<lambda>u. r_id u = i) (db_user s))"

definition findUserByEmail :: "string \<Rightarrow> (db, exn, user_row option) op" where
  "findUserByEmail email = reads (\<lambda>s. find (\<lambda>u. us_email u = email) (db_user s))"

definition findOwner :: "uid \<Rightarrow> (db, exn, owner_row option) op" where
  "findOwner i = reads (\<lambda>s. find (\<lambda>w. r_id w = i) (db_owner s))"

definition orThrow :: "string \<Rightarrow> 'r option \<Rightarrow> (db, exn, 'r) op" where
  "orThrow m x = (case x of None \<Rightarrow> throw (Crash m) | Some r \<Rightarrow> ret r)"

lemma orThrow_Inr: "orThrow m x s = (Inr r, s') \<longleftrightarrow> x = Some r \<and> s' = s"
  by (auto simp: orThrow_def split: option.splits)

section \<open>Tokens\<close>

definition ACCESS_TTL :: int where "ACCESS_TTL = 15 * 60 * 1000"
definition PREAUTH_TTL :: int where "PREAUTH_TTL = 5 * 60 * 1000"
definition PAIRING_TTL :: int where "PAIRING_TTL = 10 * 60 * 1000"
definition REFRESH_TTL_DAYS :: int where "REFRESH_TTL_DAYS = 30"

definition is_suspended :: "owner_row \<Rightarrow> bool" where
  "is_suspended ow \<longleftrightarrow> ow_status ow \<in> {Suspended, Hard_suspended, Closed}"

fun role_name :: "user_role \<Rightarrow> string" where
  "role_name Platform_admin_role = ''platform_admin''"
| "role_name Owner_role = ''owner''"

datatype login_result =
    Session string string
  | Totp_required string
  | Totp_setup_required string

definition access_payload :: "uid \<Rightarrow> string \<Rightarrow> uid option \<Rightarrow> uid \<Rightarrow> jwt_payload" where
  "access_payload userId role ownerId sid = \<lparr> jp_sub = userId, jp_role = Some role,
     jp_ownerId = (if truthy ownerId then ownerId else None), jp_sid = Some sid, jp_kind = None, jp_aud = None \<rparr>"

definition preauth_payload :: "uid \<Rightarrow> jwt_payload" where
  "preauth_payload userId = \<lparr> jp_sub = userId, jp_role = None, jp_ownerId = None, jp_sid = None,
     jp_kind = Some ''preauth'', jp_aud = None \<rparr>"

definition pairing_payload :: "uid \<Rightarrow> uid \<Rightarrow> jwt_payload" where
  "pairing_payload userId ownerId = \<lparr> jp_sub = userId, jp_role = Some ''owner'', jp_ownerId = Some ownerId,
     jp_sid = None, jp_kind = None, jp_aud = Some ''pairing'' \<rparr>"

text \<open>\<open>rawRefresh\<close> is what \<open>generateRefreshToken\<close> drew.\<close>

definition new_refresh :: "crypto \<Rightarrow> uid \<Rightarrow> string \<Rightarrow> uid \<Rightarrow> time \<Rightarrow> refresh_token_row" where
  "new_refresh lib i rawRefresh userId n =
    \<lparr> r_id = i, r_createdAt = 0, r_updatedAt = 0, r_deletedAt = None, rt_tokenHash = lib_sha256 lib rawRefresh,
      rt_userId = userId, rt_expiresAt = n + REFRESH_TTL_DAYS * 24 * 60 * 60 * 1000, rt_revokedAt = None \<rparr>"

definition mintTokenPair ::
  "crypto \<Rightarrow> string \<Rightarrow> uid \<Rightarrow> string \<Rightarrow> uid option \<Rightarrow> (db, exn, string \<times> string) op" where
  "mintTokenPair lib rawRefresh userId role ownerId =
    bind now (\<lambda>n.
    bind fresh_id (\<lambda>i.
    bind (raw_insert refreshToken_t (new_refresh lib i rawRefresh userId n)) (\<lambda>row.
    ret (lib_sign lib (access_payload userId role ownerId (r_id row)) ACCESS_TTL n, rawRefresh))))"

definition mintPairingToken :: "crypto \<Rightarrow> uid \<Rightarrow> uid \<Rightarrow> (db, exn, string) op" where
  "mintPairingToken lib userId ownerId =
    bind now (\<lambda>n. ret (lib_sign lib (pairing_payload userId ownerId) PAIRING_TTL n))"

section \<open>Login\<close>

text \<open>
  The decoy hash is compared on the branches without a hash so that they take as long; its
  outcome is dropped, so it does not appear here.
\<close>

definition passwordMatches :: "crypto \<Rightarrow> user_row \<Rightarrow> string \<Rightarrow> bool" where
  "passwordMatches lib user password =
    (case us_passwordHash user of None \<Rightarrow> False | Some h \<Rightarrow> verifySecret lib h password)"

definition failLogin :: "ctx \<Rightarrow> string \<Rightarrow> user_row \<Rightarrow> (db, exn, 'a) op" where
  "failLogin ctx action user =
    bind (logAuth ctx action (r_id user) (us_ownerId user) []) (\<lambda>_.
    bind (recordFailure (r_id user) Login_kind) (\<lambda>_.
    throw (Api (LoginInvalidError 0))))"

definition rejectSuspended :: "ctx \<Rightarrow> user_row \<Rightarrow> (db, exn, unit) op" where
  "rejectSuspended ctx user =
    (if truthy (us_ownerId user) then
       bind (findOwner (the (us_ownerId user))) (\<lambda>owner.
       case owner of
         None \<Rightarrow> ret ()
       | Some ow \<Rightarrow>
           if is_suspended ow
           then bind (logAuth ctx ''auth.login_suspended'' (r_id user) (us_ownerId user) []) (\<lambda>_.
                throw (Api OwnerSuspendedError))
           else ret ())
     else ret ())"

definition startSession :: "crypto \<Rightarrow> ctx \<Rightarrow> string \<Rightarrow> user_row \<Rightarrow> (db, exn, login_result) op" where
  "startSession lib ctx rawRefresh user =
    (if us_role user = Platform_admin_role then
       bind now (\<lambda>n.
       let preAuthToken = lib_sign lib (preauth_payload (r_id user)) PREAUTH_TTL n
       in bind (logAuth ctx ''auth.login_preauth'' (r_id user) None []) (\<lambda>_.
          ret (if truthy (us_totpSecret user) then Totp_required preAuthToken else Totp_setup_required preAuthToken)))
     else
       bind (mintTokenPair lib rawRefresh (r_id user) (role_name (us_role user)) (us_ownerId user)) (\<lambda>(access, refresh).
       bind (logAuth ctx ''auth.login'' (r_id user) (us_ownerId user) []) (\<lambda>_.
       ret (Session access refresh))))"

definition login :: "crypto \<Rightarrow> ctx \<Rightarrow> string \<Rightarrow> string \<Rightarrow> string \<Rightarrow> (db, exn, login_result) op" where
  "login lib ctx rawRefresh email password =
    bind (findUserByEmail email) (\<lambda>found.
    case found of
      None \<Rightarrow> throw (Api (LoginInvalidError 3))
    | Some user \<Rightarrow>
        bind (assertNotLocked user Login_kind) (\<lambda>_.
        if \<not> passwordMatches lib user password then failLogin ctx ''auth.login_failed'' user
        else
          bind (recordSuccess (r_id user) Login_kind) (\<lambda>_.
          bind (rejectSuspended ctx user) (\<lambda>_.
          startSession lib ctx rawRefresh user))))"

definition cannot_pair :: exn where
  "cannot_pair = Api (ForbiddenError ''This account cannot pair terminals.'')"

definition verifyOwnerCredentials ::
  "crypto \<Rightarrow> ctx \<Rightarrow> string \<Rightarrow> string \<Rightarrow> string \<Rightarrow> (db, exn, user_row \<times> owner_row) op" where
  "verifyOwnerCredentials lib ctx email password failAction =
    bind (findUserByEmail email) (\<lambda>found.
    case found of
      None \<Rightarrow> throw (Api (LoginInvalidError 3))
    | Some user \<Rightarrow>
        bind (assertNotLocked user Login_kind) (\<lambda>_.
        if \<not> passwordMatches lib user password then failLogin ctx failAction user
        else
          bind (guard (r_deletedAt user = None \<and> us_role user = Owner_role \<and> truthy (us_ownerId user)) cannot_pair) (\<lambda>_.
          bind (recordSuccess (r_id user) Login_kind) (\<lambda>_.
          bind (findOwner (the (us_ownerId user))) (\<lambda>owner.
          case owner of None \<Rightarrow> throw cannot_pair | Some ow \<Rightarrow> ret (user, ow))))))"

section \<open>Refresh and logout\<close>

definition revokeAll :: "uid \<Rightarrow> (db, exn, nat) op" where
  "revokeAll userId =
    bind now (\<lambda>n.
    raw_updateMany refreshToken_t (\<lambda>r. rt_userId r = userId \<and> rt_revokedAt r = None) (\<lambda>r. r\<lparr> rt_revokedAt := Some n \<rparr>))"

definition revoke :: "uid \<Rightarrow> (db, exn, refresh_token_row) op" where
  "revoke i = bind now (\<lambda>n. raw_update refreshToken_t i (\<lambda>r. r\<lparr> rt_revokedAt := Some n \<rparr>))"

definition findRefresh :: "crypto \<Rightarrow> string \<Rightarrow> (db, exn, refresh_token_row option) op" where
  "findRefresh lib rawToken = reads (\<lambda>s. find (\<lambda>r. rt_tokenHash r = lib_sha256 lib rawToken) (db_refreshToken s))"

definition reuseDetected :: "ctx \<Rightarrow> refresh_token_row \<Rightarrow> user_row \<Rightarrow> (db, exn, 'a) op" where
  "reuseDetected ctx row user =
    bind (revokeAll (rt_userId row)) (\<lambda>_.
    bind (logAuth ctx ''auth.refresh_reuse'' (rt_userId row) (us_ownerId user) []) (\<lambda>_.
    throw (Api (UnauthorizedError ''Refresh token reuse detected.''))))"

definition refresh :: "crypto \<Rightarrow> ctx \<Rightarrow> string \<Rightarrow> string \<Rightarrow> (db, exn, string \<times> string) op" where
  "refresh lib ctx rawRefresh rawToken =
    bind (findRefresh lib rawToken) (\<lambda>found.
    case found of
      None \<Rightarrow> throw (Api (UnauthorizedError ''Invalid refresh token.''))
    | Some row \<Rightarrow>
        bind (findUser (rt_userId row)) (\<lambda>u.
        bind (orThrow ''Inconsistent query result'' u) (\<lambda>user.
        if rt_revokedAt row \<noteq> None then reuseDetected ctx row user
        else
          bind now (\<lambda>n.
          if rt_expiresAt row < n
          then bind (revoke (r_id row)) (\<lambda>_. throw (Api (UnauthorizedError ''Refresh token has expired.'')))
          else bind (revoke (r_id row)) (\<lambda>_.
               mintTokenPair lib rawRefresh (r_id user) (role_name (us_role user)) (us_ownerId user))))))"

definition logout :: "crypto \<Rightarrow> string \<Rightarrow> (db, exn, unit) op" where
  "logout lib rawToken =
    bind (findRefresh lib rawToken) (\<lambda>found.
    case found of
      None \<Rightarrow> ret ()
    | Some row \<Rightarrow>
        if rt_revokedAt row \<noteq> None then ret () else bind (revoke (r_id row)) (\<lambda>_. ret ()))"

section \<open>One-time codes\<close>

definition totp_invalid :: exn where "totp_invalid = Api TotpInvalidError"

definition RECOVERY_CODE_COUNT :: nat where "RECOVERY_CODE_COUNT = 8"

definition otp_step :: "crypto \<Rightarrow> string \<Rightarrow> string \<Rightarrow> int option \<Rightarrow> time \<Rightarrow> int option" where
  "otp_step lib code secret after n = (case lib_otp lib code secret 30 after n of None \<Rightarrow> None | Some r \<Rightarrow> r)"

definition no_user :: string where "no_user = ''No User found''"

definition generateSetup :: "string \<Rightarrow> uid \<Rightarrow> (db, exn, string \<times> string) op" where
  "generateSetup secret userId =
    bind (findUser userId) (\<lambda>u.
    bind (orThrow no_user u) (\<lambda>user.
    bind (raw_update user_t userId (\<lambda>r. r\<lparr> us_totpPendingSecret := Some secret \<rparr>)) (\<lambda>_.
    ret (secret, us_email user))))"

text \<open>\<open>newCodes\<close> are the eight codes drawn, each with the salt of its hash.\<close>

definition enableTotp :: "crypto \<Rightarrow> (string \<times> string) list \<Rightarrow> uid \<Rightarrow> string \<Rightarrow> (db, exn, string list) op" where
  "enableTotp lib newCodes userId code =
    bind (findUser userId) (\<lambda>u.
    bind (orThrow no_user u) (\<lambda>user.
    bind (guard (truthy (us_totpPendingSecret user)) totp_invalid) (\<lambda>_.
    bind now (\<lambda>n.
    bind (guard (otp_step lib code (the (us_totpPendingSecret user)) None n \<noteq> None) totp_invalid) (\<lambda>_.
    bind (raw_update user_t userId (\<lambda>r. r\<lparr> us_totpSecret := us_totpPendingSecret user, us_totpPendingSecret := None,
            us_totpRecoveryCodes := map (\<lambda>(salt, c). hashSecret lib salt c) newCodes \<rparr>)) (\<lambda>_.
    ret (map snd newCodes)))))))"

text \<open>The first hash the code matches is dropped; \<open>None\<close> if it matches none.\<close>

fun consumeCode :: "(string \<Rightarrow> bool) \<Rightarrow> string list \<Rightarrow> string list option" where
  "consumeCode matches [] = None"
| "consumeCode matches (h # hs) = (if matches h then Some hs else map_option ((#) h) (consumeCode matches hs))"

definition useTotpCode :: "crypto \<Rightarrow> user_row \<Rightarrow> string \<Rightarrow> (db, exn, bool) op" where
  "useTotpCode lib user code =
    bind now (\<lambda>n.
    case otp_step lib code (the (us_totpSecret user)) (us_totpLastTimeStep user) n of
      None \<Rightarrow> ret False
    | Some timeStep \<Rightarrow>
        catch_op (bind (raw_update user_t (r_id user) (\<lambda>r. r\<lparr> us_totpLastTimeStep := Some timeStep \<rparr>)) (\<lambda>_. ret True))
          (\<lambda>_. ret False))"

definition useRecoveryCode :: "crypto \<Rightarrow> user_row \<Rightarrow> string \<Rightarrow> (db, exn, unit) op" where
  "useRecoveryCode lib user code =
    (case consumeCode (\<lambda>h. verifySecret lib h code) (us_totpRecoveryCodes user) of
       None \<Rightarrow> throw totp_invalid
     | Some remaining \<Rightarrow>
         bind (raw_update user_t (r_id user) (\<lambda>r. r\<lparr> us_totpRecoveryCodes := remaining \<rparr>)) (\<lambda>_. ret ()))"

definition verifyTotp :: "crypto \<Rightarrow> uid \<Rightarrow> string \<Rightarrow> (db, exn, unit) op" where
  "verifyTotp lib userId code =
    bind (findUser userId) (\<lambda>u.
    bind (orThrow no_user u) (\<lambda>user.
    bind (guard (truthy (us_totpSecret user)) totp_invalid) (\<lambda>_.
    bind (useTotpCode lib user code) (\<lambda>matched.
    if matched then ret () else useRecoveryCode lib user code))))"

text \<open>\<open>POST auth/totp/verify\<close>: a preauth token and a code become a session.\<close>

definition exchangeTotp ::
  "crypto \<Rightarrow> string \<Rightarrow> string \<Rightarrow> string \<Rightarrow> (db, exn, (string \<times> string) \<times> string) op" where
  "exchangeTotp lib rawRefresh preAuthToken code =
    bind now (\<lambda>n.
    case lib_jwtVerify lib preAuthToken n of
      None \<Rightarrow> throw (Api (UnauthorizedError ''Invalid or expired pre-auth token.''))
    | Some payload \<Rightarrow>
        bind (guard (jp_kind payload = Some ''preauth'') (Api (UnauthorizedError ''Pre-auth token required.''))) (\<lambda>_.
        bind (findUser (jp_sub payload)) (\<lambda>u.
        bind (orThrow no_user u) (\<lambda>user.
        bind (assertNotLocked user Login_kind) (\<lambda>_.
        bind (catch_op (verifyTotp lib (jp_sub payload) code)
               (\<lambda>_. bind (catch_op (recordFailure (jp_sub payload) Login_kind) (\<lambda>_. ret ())) (\<lambda>_. throw totp_invalid))) (\<lambda>_.
        bind (recordSuccess (jp_sub payload) Login_kind) (\<lambda>_.
        bind (mintTokenPair lib rawRefresh (jp_sub payload) (role_name (us_role user)) None) (\<lambda>pair.
        ret (pair, role_name (us_role user))))))))))"

section \<open>Invitations and password resets\<close>

definition INVITE_TTL_MS :: int where "INVITE_TTL_MS = 7 * 24 * 60 * 60 * 1000"
definition RESET_TTL_MS :: int where "RESET_TTL_MS = 60 * 60 * 1000"

definition issueToken :: "crypto \<Rightarrow> auth_token_kind \<Rightarrow> int \<Rightarrow> string \<Rightarrow> uid \<Rightarrow> (db, exn, unit) op" where
  "issueToken lib kind ttl rawToken userId =
    bind fresh_id (\<lambda>i.
    bind now (\<lambda>n.
    bind (raw_insert authToken_t \<lparr> r_id = i, r_createdAt = 0, r_updatedAt = 0, r_deletedAt = None, at_kind = kind,
            at_tokenHash = lib_sha256 lib rawToken, at_userId = userId, at_expiresAt = n + ttl, at_usedAt = None \<rparr>)
      (\<lambda>_. ret ())))"

text \<open>The mail of a token is its address and the link carrying the raw token.\<close>

definition createInvite :: "crypto \<Rightarrow> string \<Rightarrow> string \<Rightarrow> uid \<Rightarrow> (db, exn, string \<times> (string \<times> string)) op" where
  "createInvite lib appUrl rawToken userId =
    bind (findUser userId) (\<lambda>u.
    bind (orThrow no_user u) (\<lambda>user.
    bind (issueToken lib Invite INVITE_TTL_MS rawToken userId) (\<lambda>_.
    ret (rawToken, (us_email user, appUrl @ ''/invite/accept?token='' @ rawToken)))))"

definition requestReset :: "crypto \<Rightarrow> string \<Rightarrow> string \<Rightarrow> string \<Rightarrow> (db, exn, (string \<times> string) option) op" where
  "requestReset lib appUrl rawToken email =
    bind (findUserByEmail email) (\<lambda>found.
    case found of
      None \<Rightarrow> ret None
    | Some user \<Rightarrow>
        bind (issueToken lib Reset RESET_TTL_MS rawToken (r_id user)) (\<lambda>_.
        ret (Some (us_email user, appUrl @ ''/password-reset/confirm?token='' @ rawToken))))"

definition consumeToken :: "crypto \<Rightarrow> string \<Rightarrow> auth_token_kind \<Rightarrow> (db, exn, uid \<times> uid) op" where
  "consumeToken lib token kind =
    bind (reads (\<lambda>s. find (\<lambda>r. at_tokenHash r = lib_sha256 lib token) (db_authToken s))) (\<lambda>found.
    bind now (\<lambda>n.
    case found of
      None \<Rightarrow> throw invalid_token
    | Some row \<Rightarrow>
        bind (guard (at_kind row = kind \<and> at_usedAt row = None \<and> \<not> at_expiresAt row < n) invalid_token) (\<lambda>_.
        bind (raw_updateMany authToken_t (\<lambda>r. r_id r = r_id row \<and> at_usedAt r = None) (\<lambda>r. r\<lparr> at_usedAt := Some n \<rparr>)) (\<lambda>c.
        bind (guard (c \<noteq> 0) invalid_token) (\<lambda>_.
        ret (r_id row, at_userId row))))))"

text \<open>\<open>seedDemo\<close> is \<open>seedDemoBusiness\<close> on the transaction, of which nothing is assumed.\<close>

definition acceptInvite ::
  "crypto \<Rightarrow> ctx \<Rightarrow> (uid \<Rightarrow> (db, exn, unit) op) \<Rightarrow> string \<Rightarrow> string \<Rightarrow> string \<Rightarrow> (db, exn, unit) op" where
  "acceptInvite lib ctx seedDemo salt token password =
    (let passwordHash = hashSecret lib salt password
     in transaction (
       bind (consumeToken lib token Invite) (\<lambda>row.
       bind (raw_update user_t (snd row) (\<lambda>u. u\<lparr> us_passwordHash := Some passwordHash \<rparr>)) (\<lambda>user.
       bind (if truthy (us_ownerId user) then
               bind (raw_update owner_t (the (us_ownerId user)) (\<lambda>w. w\<lparr> ow_status := Active, ow_suspendedAt := None \<rparr>)) (\<lambda>_.
               seedDemo (the (us_ownerId user)))
             else ret ()) (\<lambda>_.
       logAuth ctx ''auth.invite_accepted'' (r_id user) (us_ownerId user) [])))))"

definition confirmReset :: "crypto \<Rightarrow> ctx \<Rightarrow> string \<Rightarrow> string \<Rightarrow> string \<Rightarrow> (db, exn, unit) op" where
  "confirmReset lib ctx salt token password =
    (let passwordHash = hashSecret lib salt password
     in transaction (
       bind (consumeToken lib token Reset) (\<lambda>row.
       bind (raw_update user_t (snd row) (\<lambda>u. u\<lparr> us_passwordHash := Some passwordHash \<rparr>)) (\<lambda>user.
       bind (revokeAll (snd row)) (\<lambda>_.
       logAuth ctx ''auth.password_reset'' (r_id user) (us_ownerId user) [])))))"

end
