(* ===== verification/Guards.thy ===== *)
theory Guards
  imports Auth Sales
begin

text \<open>
  How a request gets its context: the middleware that starts it
  (\<open>common/context/context.middleware.ts\<close>), the guards that authenticate it
  (\<open>auth/guards\<close>, \<open>pos/guards\<close>, \<open>auth/jwt.strategy.ts\<close>), and the denial rows the exception
  filter writes when it fails (\<open>common/filters/api-exception.filter.ts\<close>).

  A guard that throws leaves what it stamped on the context so far, which the filter then
  records: its error carries that context.
\<close>

section \<open>The start of a request\<close>

definition split_first :: "string \<Rightarrow> string" where
  "split_first h = takeWhile (\<lambda>c. c \<noteq> CHR '','') h"

definition new_context :: "string \<Rightarrow> string option \<Rightarrow> string option \<Rightarrow> string option \<Rightarrow> string option \<Rightarrow> ctx" where
  "new_context requestId forwardedFor remoteAddress userAgent deviceTimestamp =
    \<lparr> cx_requestId = requestId, cx_scope = None, cx_actor = None, cx_ownerId = None, cx_businessId = None,
      cx_branchId = None, cx_terminalCode = None, cx_sessionId = None,
      cx_ip = (case forwardedFor of Some h \<Rightarrow> trim (split_first h)
        | None \<Rightarrow> (case remoteAddress of None \<Rightarrow> [] | Some a \<Rightarrow> a)),
      cx_userAgent = (case userAgent of None \<Rightarrow> [] | Some u \<Rightarrow> u), cx_deviceTimestamp = deviceTimestamp,
      cx_tx = None \<rparr>"

type_synonym 'a guard_op = "(db, ctx \<times> exn, 'a) op"

definition with_ctx :: "ctx \<Rightarrow> (db, exn, 'a) op \<Rightarrow> 'a guard_op" where
  "with_ctx ctx m = (\<lambda>s. case m s of (Inl e, t) \<Rightarrow> (Inl (ctx, e), t) | (Inr x, t) \<Rightarrow> (Inr x, t))"

text \<open>\<open>Bearer\<close> headers as the guards that read them by hand do.\<close>

definition bearer_token :: "string option \<Rightarrow> string option" where
  "bearer_token header = (case header of None \<Rightarrow> None
    | Some h \<Rightarrow> if take 7 h = ''Bearer '' then Some (drop 7 h) else None)"

section \<open>Terminals\<close>

definition LAST_SEEN_THROTTLE_MS :: int where "LAST_SEEN_THROTTLE_MS = 60000"
definition SUSPEND_GRACE_MS :: int where "SUSPEND_GRACE_MS = 24 * 60 * 60 * 1000"

definition findTerminal :: "crypto \<Rightarrow> string \<Rightarrow> (db, exn, terminal_row option) op" where
  "findTerminal lib token = reads (\<lambda>s.
    find (\<lambda>t. tm_deviceTokenHash t = Some (lib_sha256 lib token) \<and> live t) (db_terminal s))"

text \<open>The branch, business and owner of a terminal, deleted or not.\<close>

definition terminalTree :: "db \<Rightarrow> terminal_row \<Rightarrow> (branch_row \<times> business_row \<times> owner_row) option" where
  "terminalTree s t =
    (case find (\<lambda>b. r_id b = tm_branchId t) (db_branch s) of
       None \<Rightarrow> None
     | Some br \<Rightarrow>
        (case find (\<lambda>b. r_id b = br_businessId br) (db_business s) of
           None \<Rightarrow> None
         | Some biz \<Rightarrow>
            (case find (\<lambda>w. r_id w = bz_ownerId biz) (db_owner s) of
               None \<Rightarrow> None
             | Some ow \<Rightarrow> Some (br, biz, ow))))"

definition stamp_terminal :: "crypto \<Rightarrow> ctx \<Rightarrow> string \<Rightarrow> terminal_row \<Rightarrow> branch_row \<Rightarrow> owner_row \<Rightarrow> ctx" where
  "stamp_terminal lib ctx token t br ow = ctx\<lparr> cx_scope := Some Tenant, cx_actor := Some (Act_terminal, r_id t),
     cx_ownerId := Some (r_id ow), cx_businessId := Some (br_businessId br), cx_branchId := Some (tm_branchId t),
     cx_terminalCode := Some (tm_code t), cx_sessionId := Some (take 8 (lib_sha256 lib token)) \<rparr>"

definition within_grace :: "time \<Rightarrow> owner_row \<Rightarrow> bool" where
  "within_grace n ow \<longleftrightarrow> (case ow_suspendedAt ow of None \<Rightarrow> False | Some t \<Rightarrow> n - t < SUSPEND_GRACE_MS)"

definition has_open_shift :: "db \<Rightarrow> uid \<Rightarrow> bool" where
  "has_open_shift s terminalId \<longleftrightarrow>
    find (\<lambda>r. sh_terminalId r = terminalId \<and> sh_closedAt r = None \<and> live r) (db_shift s) \<noteq> None"

definition statusGate :: "terminal_row \<Rightarrow> owner_row \<Rightarrow> (db, exn, unit) op" where
  "statusGate t ow =
    (if ow_status ow = Hard_suspended \<or> ow_status ow = Closed then throw unauthorized
     else if ow_status ow = Suspended then
       bind now (\<lambda>n.
       bind (reads (\<lambda>s. within_grace n ow \<and> has_open_shift s (r_id t))) (\<lambda>allowed.
       guard allowed (Api OwnerSuspendedError)))
     else ret ())"

definition touch :: "terminal_row \<Rightarrow> (db, exn, unit) op" where
  "touch t =
    bind now (\<lambda>n.
    if (case tm_lastSeenAt t of None \<Rightarrow> True | Some l \<Rightarrow> LAST_SEEN_THROTTLE_MS < n - l)
    then bind (raw_update terminal_t (r_id t) (\<lambda>r. r\<lparr> tm_lastSeenAt := Some n \<rparr>)) (\<lambda>_. ret ())
    else ret ())"

definition terminalGuard :: "crypto \<Rightarrow> ctx \<Rightarrow> string option \<Rightarrow> ctx guard_op" where
  "terminalGuard lib ctx header =
    (case bearer_token header of
       None \<Rightarrow> throw (ctx, unauthorized)
     | Some token \<Rightarrow>
        bind (with_ctx ctx (findTerminal lib token)) (\<lambda>found.
        case found of
          None \<Rightarrow> throw (ctx, unauthorized)
        | Some t \<Rightarrow>
            bind (reads (\<lambda>s. terminalTree s t)) (\<lambda>tree.
            case tree of
              None \<Rightarrow> throw (ctx, Crash ''Inconsistent query result'')
            | Some (br, biz, ow) \<Rightarrow>
                let ctx' = stamp_terminal lib ctx token t br ow
                in bind (with_ctx ctx' (statusGate t ow)) (\<lambda>_.
                   bind (with_ctx ctx' (touch t)) (\<lambda>_.
                   ret ctx')))))"

section \<open>Signed tokens\<close>

definition pairingGuard :: "crypto \<Rightarrow> ctx \<Rightarrow> string option \<Rightarrow> (uid \<times> uid) guard_op" where
  "pairingGuard lib ctx header =
    (case bearer_token header of
       None \<Rightarrow> throw (ctx, Api (UnauthorizedError ''Pairing token required.''))
     | Some token \<Rightarrow>
        bind (with_ctx ctx now) (\<lambda>n.
        case lib_jwtVerify lib token n of
          None \<Rightarrow> throw (ctx, Api (UnauthorizedError ''Invalid or expired pairing token.''))
        | Some p \<Rightarrow>
            if jp_aud p \<noteq> Some ''pairing'' \<or> \<not> truthy (jp_ownerId p) \<or> jp_sub p = []
            then throw (ctx, Api (UnauthorizedError ''Pairing token required.''))
            else ret (the (jp_ownerId p), jp_sub p)))"

definition preauthGuard :: "crypto \<Rightarrow> ctx \<Rightarrow> string option \<Rightarrow> jwt_payload guard_op" where
  "preauthGuard lib ctx header =
    (case bearer_token header of
       None \<Rightarrow> throw (ctx, Api (UnauthorizedError ''Pre-auth token required.''))
     | Some token \<Rightarrow>
        bind (with_ctx ctx now) (\<lambda>n.
        case lib_jwtVerify lib token n of
          None \<Rightarrow> throw (ctx, Api (UnauthorizedError ''Invalid or expired pre-auth token.''))
        | Some p \<Rightarrow>
            if jp_kind p \<noteq> Some ''preauth'' then throw (ctx, Api (UnauthorizedError ''Pre-auth token required.''))
            else ret p))"

text \<open>
  Passport finds the token in the header (\<open>extract\<close>), verifies it and calls \<open>validate\<close>; a
  throw of any of them ends as a refusal.
\<close>

definition validate_ok :: "jwt_payload \<Rightarrow> bool" where
  "validate_ok p \<longleftrightarrow> jp_kind p \<noteq> Some ''preauth'' \<and> \<not> truthy (jp_aud p)"

definition jwtUser :: "crypto \<Rightarrow> (string \<Rightarrow> string option) \<Rightarrow> string option \<Rightarrow> time \<Rightarrow> jwt_payload option" where
  "jwtUser lib extract header n =
    (case Option.bind (Option.bind header extract) (\<lambda>token. lib_jwtVerify lib token n) of
       None \<Rightarrow> None
     | Some p \<Rightarrow> if validate_ok p \<and> jp_sub p \<noteq> [] then Some p else None)"

definition portalGuard :: "crypto \<Rightarrow> (string \<Rightarrow> string option) \<Rightarrow> ctx \<Rightarrow> string option \<Rightarrow> ctx guard_op" where
  "portalGuard lib extract ctx header =
    bind (with_ctx ctx now) (\<lambda>n.
    case jwtUser lib extract header n of
      None \<Rightarrow> throw (ctx, unauthorized)
    | Some p \<Rightarrow>
        bind (with_ctx ctx (findUser (jp_sub p))) (\<lambda>found.
        case found of
          None \<Rightarrow> throw (ctx, unauthorized)
        | Some user \<Rightarrow>
            if r_deletedAt user \<noteq> None then throw (ctx, unauthorized)
            else if \<not> truthy (us_ownerId user)
            then throw (ctx, Api (ForbiddenError ''Portal access requires an owner account.''))
            else
              bind (with_ctx ctx (findOwner (the (us_ownerId user)))) (\<lambda>owner.
              if (case owner of None \<Rightarrow> True | Some ow \<Rightarrow> is_suspended ow) then throw (ctx, Api OwnerSuspendedError)
              else ret (ctx\<lparr> cx_scope := Some Tenant, cx_actor := Some (Act_owner, r_id user),
                     cx_ownerId := us_ownerId user, cx_sessionId := jp_sid p \<rparr>))))"

definition adminGuard :: "crypto \<Rightarrow> (string \<Rightarrow> string option) \<Rightarrow> ctx \<Rightarrow> string option \<Rightarrow> ctx guard_op" where
  "adminGuard lib extract ctx header =
    bind (with_ctx ctx now) (\<lambda>n.
    case jwtUser lib extract header n of
      None \<Rightarrow> throw (ctx, unauthorized)
    | Some p \<Rightarrow>
        if jp_role p \<noteq> Some ''platform_admin''
        then throw (ctx, Api (ForbiddenError ''Platform admin access required.''))
        else ret (ctx\<lparr> cx_scope := Some Platform, cx_actor := Some (Act_platform_admin, jp_sub p),
               cx_ownerId := None, cx_sessionId := jp_sid p \<rparr>))"

section \<open>The end of a request\<close>

definition denial_row :: "ctx \<Rightarrow> exn \<Rightarrow> audit_row" where
  "denial_row ctx e =
    plain_audit (case cx_actor ctx of None \<Rightarrow> Act_owner | Some a \<Rightarrow> fst a) (map_option snd (cx_actor ctx))
      (cx_ownerId ctx) None None (''auth.denied.'' @ re_code (render e)) ''request'' None
      (plain_meta ctx [(''code'', re_code (render e)), (''message'', re_message (render e))])"

definition writeDenialAudit :: "ctx \<Rightarrow> exn \<Rightarrow> (db, exn, unit) op" where
  "writeDenialAudit ctx e = (if is_denial e then insert_audit (denial_row ctx e) else ret ())"

text \<open>
  A request behind a guard: the guard, the handler in the context it leaves, and the filter
  on whatever either of them throws. The answer is the handler's result or the rendered error.
\<close>

definition serve :: "ctx guard_op \<Rightarrow> (ctx \<Rightarrow> (db, exn, 'a) op) \<Rightarrow> db \<Rightarrow> (rendered + 'a) \<times> db" where
  "serve guard_m handler s =
    (case bind guard_m (\<lambda>ctx. with_ctx ctx (handler ctx)) s of
       (Inl (ctx, e), t) \<Rightarrow> (Inl (render e), snd (writeDenialAudit ctx e t))
     | (Inr x, t) \<Rightarrow> (Inr x, t))"

end
