(* ===== verification/Pairing.thy ===== *)
theory Pairing
  imports Guards
begin

text \<open>
  Pairing a device with a branch: \<open>pos/pairing/pairing.service.ts\<close> and its DTOs, and
  \<open>pos/business-settings.ts\<close>. The flow runs on the raw client, before there is a tenant.
  \<open>deviceToken\<close> is what the service drew. \<open>env k\<close> is what other requests commit between the
  count of attempt \<open>k\<close> and its insert.
\<close>

section \<open>Shapes\<close>

record business_settings =
  st_id :: uid
  st_name :: string
  st_type :: business_type
  st_currency :: string
  st_taxRate :: num
  st_serviceChargeRate :: num
  st_allowMiscItems :: bool
  st_isDemo :: bool
  st_dayStartTime :: string
  st_receiptHeader :: string
  st_receiptFooter :: string

definition serializeBusinessSettings :: "business_row \<Rightarrow> business_settings" where
  "serializeBusinessSettings b = \<lparr> st_id = r_id b, st_name = bz_name b, st_type = bz_type b,
     st_currency = bz_currency b, st_taxRate = fl (of_int (bz_taxRate b) / 10000),
     st_serviceChargeRate = fl (of_int (bz_serviceChargeRate b) / 10000),
     st_allowMiscItems = bz_allowMiscItems b, st_isDemo = bz_isDemo b, st_dayStartTime = bz_dayStartTime b,
     st_receiptHeader = bz_receiptHeader b, st_receiptFooter = bz_receiptFooter b \<rparr>"

record owner_session =
  os_token :: string
  os_email :: string
  os_ownerName :: string

record business_item =
  bi_id :: uid
  bi_name :: string
  bi_type :: business_type
  bi_isDemo :: bool

record branch_info =
  bn_id :: uid
  bn_name :: string
  bn_code :: string
  bn_address :: string

record pair_result =
  pa_deviceToken :: string
  pa_business :: business_settings
  pa_branch :: branch_info
  pa_terminalName :: string
  pa_terminalCode :: string
  pa_receiptSeq :: int

record pair_dto =
  pd_businessId :: uid
  pd_branchId :: uid
  pd_terminalName :: string

definition pair_valid :: "(string \<Rightarrow> bool) \<Rightarrow> pair_dto \<Rightarrow> bool" where
  "pair_valid isUUID d \<longleftrightarrow> isUUID (pd_businessId d) \<and> isUUID (pd_branchId d)
    \<and> 1 \<le> List.length (pd_terminalName d) \<and> List.length (pd_terminalName d) \<le> 200"

definition branchInfo :: "branch_row \<Rightarrow> branch_info" where
  "branchInfo b = \<lparr> bn_id = r_id b, bn_name = br_name b, bn_code = br_code b, bn_address = br_address b \<rparr>"

section \<open>Audit rows\<close>

text \<open>The row of a pairing event; the actor is the owner who signed in.\<close>

definition pairingAudit ::
  "ctx \<Rightarrow> string \<Rightarrow> uid \<Rightarrow> uid \<Rightarrow> uid option \<Rightarrow> uid option \<Rightarrow> string \<Rightarrow> uid \<Rightarrow> any_row option
    \<Rightarrow> (string \<times> string) list \<Rightarrow> (db, exn, unit) op" where
  "pairingAudit ctx action actorId ownerId businessId branchId entityType entityId after meta =
    insert_audit ((plain_audit Act_owner (Some actorId) (Some ownerId) businessId branchId action entityType
      (Some entityId) (plain_meta ctx meta))\<lparr> al_after := after \<rparr>)"

section \<open>Signing in and browsing\<close>

definition signIn :: "crypto \<Rightarrow> ctx \<Rightarrow> string \<Rightarrow> string \<Rightarrow> (db, exn, owner_session) op" where
  "signIn lib ctx email password =
    bind (verifyOwnerCredentials lib ctx email password ''auth.pairing_signin_failed'') (\<lambda>(user, owner).
    bind (guard (ow_status owner = Active) (Api OwnerSuspendedError)) (\<lambda>_.
    bind (mintPairingToken lib (r_id user) (r_id owner)) (\<lambda>token.
    bind (pairingAudit ctx ''auth.pairing_signin'' (r_id user) (r_id owner) None None ''user'' (r_id user) None []) (\<lambda>_.
    ret \<lparr> os_token = token, os_email = us_email user, os_ownerName = ow_name owner \<rparr>))))"

definition pairingBusinesses :: "uid \<Rightarrow> (db, exn, business_item list) op" where
  "pairingBusinesses ownerId = reads (\<lambda>s.
    map (\<lambda>b. \<lparr> bi_id = r_id b, bi_name = bz_name b, bi_type = bz_type b, bi_isDemo = bz_isDemo b \<rparr>)
      (sort_key r_createdAt (filter (\<lambda>b. bz_ownerId b = ownerId \<and> live b) (db_business s))))"

definition ownedBusiness :: "uid \<Rightarrow> uid \<Rightarrow> (db, exn, business_row) op" where
  "ownedBusiness ownerId businessId =
    bind (reads (\<lambda>s. find (\<lambda>b. r_id b = businessId \<and> bz_ownerId b = ownerId \<and> live b) (db_business s))) (\<lambda>found.
    case found of None \<Rightarrow> throw (not_found ''Business not found.'') | Some b \<Rightarrow> ret b)"

definition pairingBranches :: "uid \<Rightarrow> uid \<Rightarrow> (db, exn, branch_info list) op" where
  "pairingBranches ownerId businessId =
    bind (ownedBusiness ownerId businessId) (\<lambda>_.
    reads (\<lambda>s. map branchInfo
      (sort_key r_createdAt (filter (\<lambda>b. br_businessId b = businessId \<and> live b) (db_branch s)))))"

section \<open>Pairing\<close>

definition terminal_code :: "nat \<Rightarrow> string" where
  "terminal_code n = ''T'' @ show_nat n"

definition priorCount :: "uid \<Rightarrow> db \<Rightarrow> nat" where
  "priorCount branchId s = List.length (filter (\<lambda>t. tm_branchId t = branchId) (db_terminal s))"

definition new_terminal :: "uid \<Rightarrow> uid \<Rightarrow> string \<Rightarrow> nat \<Rightarrow> string \<Rightarrow> terminal_row" where
  "new_terminal i branchId name n hash =
    \<lparr> r_id = i, r_createdAt = 0, r_updatedAt = 0, r_deletedAt = None, tm_branchId = branchId, tm_name = name,
      tm_code = terminal_code (n + 1), tm_deviceTokenHash = Some hash, tm_receiptSeq = 1, tm_lastSeenAt = None \<rparr>"

definition attemptTerminal :: "(db \<Rightarrow> db) \<Rightarrow> uid \<Rightarrow> string \<Rightarrow> string \<Rightarrow> (db, exn, terminal_row) op" where
  "attemptTerminal env branchId name hash =
    bind (reads (priorCount branchId)) (\<lambda>n.
    bind (modify env) (\<lambda>_.
    bind fresh_id (\<lambda>i.
    raw_insert terminal_t (new_terminal i branchId name n hash))))"

text \<open>\<open>retries\<close> counts down from 3; \<open>env\<close> is told which attempt it is.\<close>

fun createTerminal :: "(nat \<Rightarrow> db \<Rightarrow> db) \<Rightarrow> nat \<Rightarrow> uid \<Rightarrow> string \<Rightarrow> string \<Rightarrow> (db, exn, terminal_row) op" where
  "createTerminal env 0 branchId name hash = attemptTerminal (env 0) branchId name hash"
| "createTerminal env (Suc k) branchId name hash =
    catch_op (attemptTerminal (env (Suc k)) branchId name hash)
      (\<lambda>e. if e = Unique_violation then createTerminal env k branchId name hash else throw e)"

definition MAX_RETRIES :: nat where "MAX_RETRIES = 3"

definition pair :: "crypto \<Rightarrow> ctx \<Rightarrow> (nat \<Rightarrow> db \<Rightarrow> db) \<Rightarrow> string \<Rightarrow> uid \<Rightarrow> uid \<Rightarrow> pair_dto \<Rightarrow> (db, exn, pair_result) op" where
  "pair lib ctx env deviceToken ownerId ownerUserId dto =
    bind (ownedBusiness ownerId (pd_businessId dto)) (\<lambda>business.
    bind (reads (\<lambda>s. find (\<lambda>b. r_id b = pd_branchId dto \<and> br_businessId b = r_id business \<and> live b) (db_branch s))) (\<lambda>found.
    case found of
      None \<Rightarrow> throw (not_found ''Branch not found.'')
    | Some branch \<Rightarrow>
        bind (findOwner ownerId) (\<lambda>w.
        bind (orThrow ''No Owner found'' w) (\<lambda>owner.
        bind (guard (ow_status owner = Active) (Api OwnerSuspendedError)) (\<lambda>_.
        bind (createTerminal env MAX_RETRIES (r_id branch) (pd_terminalName dto) (lib_sha256 lib deviceToken)) (\<lambda>terminal.
        bind (pairingAudit ctx ''terminal.pair'' ownerUserId ownerId (Some (r_id business)) (Some (r_id branch))
               ''terminal'' (r_id terminal) (Some (Any_terminal (terminal\<lparr> tm_deviceTokenHash := None \<rparr>)))
               [(''terminalCode'', tm_code terminal)]) (\<lambda>_.
        ret \<lparr> pa_deviceToken = deviceToken, pa_business = serializeBusinessSettings business,
              pa_branch = branchInfo branch, pa_terminalName = tm_name terminal,
              pa_terminalCode = tm_code terminal, pa_receiptSeq = tm_receiptSeq terminal \<rparr>)))))))"

section \<open>Unpairing\<close>

definition unpair :: "crypto \<Rightarrow> ctx \<Rightarrow> string \<Rightarrow> string \<Rightarrow> string \<Rightarrow> (db, exn, unit) op" where
  "unpair lib ctx deviceToken email password =
    bind (findTerminal lib deviceToken) (\<lambda>found.
    case found of
      None \<Rightarrow> throw unauthorized
    | Some terminal \<Rightarrow>
        bind (reads (\<lambda>s. find (\<lambda>b. r_id b = tm_branchId terminal) (db_branch s))) (\<lambda>b.
        bind (orThrow ''Inconsistent query result'' b) (\<lambda>branch.
        bind (verifyOwnerCredentials lib ctx email password ''auth.unpair_failed'') (\<lambda>(user, owner).
        bind (reads (\<lambda>s. find (\<lambda>z. r_id z = br_businessId branch) (db_business s))) (\<lambda>z.
        bind (orThrow ''No Business found'' z) (\<lambda>business.
        bind (guard (r_id owner = bz_ownerId business) unauthorized) (\<lambda>_.
        bind (raw_update terminal_t (r_id terminal) (\<lambda>t. t\<lparr> tm_deviceTokenHash := None \<rparr>)) (\<lambda>_.
        pairingAudit ctx ''terminal.unpair'' (r_id user) (r_id owner) (Some (br_businessId branch))
          (Some (tm_branchId terminal)) ''terminal'' (r_id terminal) None [(''terminalCode'', tm_code terminal)]))))))))"

end
