(* ===== verification/AuthFixture.thy ===== *)
theory AuthFixture
  imports Guards
begin

text \<open>
  A concrete instance of the libraries: tokens are the length-prefixed fields of their payload
  behind their expiry, hashes are tagged strings, one-time codes are the start of the secret.
  The promises the theorems take as hypotheses hold of it.
\<close>

section \<open>Encoding\<close>

definition enc_str :: "string \<Rightarrow> string" where
  "enc_str s = show_nat (List.length s) @ ''.'' @ s"

definition dec_str :: "string \<Rightarrow> string \<times> string" where
  "dec_str xs = (let d = takeWhile is_digit xs; r = tl (drop (List.length d) xs); n = read_nat d in (take n r, drop n r))"

fun enc_opt :: "string option \<Rightarrow> string" where
  "enc_opt None = ''0''"
| "enc_opt (Some s) = ''1'' @ enc_str s"

fun dec_opt :: "string \<Rightarrow> string option \<times> string" where
  "dec_opt (c # xs) = (if c = CHR ''0'' then (None, xs) else (case dec_str xs of (s, r) \<Rightarrow> (Some s, r)))"
| "dec_opt [] = (None, [])"

definition enc_int :: "int \<Rightarrow> string" where
  "enc_int k = (if k < 0 then ''-'' else ''+'') @ enc_str (show_nat (nat \<bar>k\<bar>))"

fun dec_int :: "string \<Rightarrow> int \<times> string" where
  "dec_int (c # xs) = (case dec_str xs of (s, r) \<Rightarrow> ((if c = CHR ''-'' then - 1 else 1) * int (read_nat s), r))"
| "dec_int [] = (0, [])"

lemma dec_enc_str [simp]: "dec_str (enc_str s @ r) = (s, r)"
proof -
  have "takeWhile is_digit (show_nat (List.length s) @ CHR ''.'' # s @ r) = show_nat (List.length s)"
    using show_nat_digits [of "List.length s"] by (subst takeWhile_append2) (auto simp: is_digit_def)
  then show ?thesis by (simp add: dec_str_def enc_str_def Let_def)
qed

lemma dec_enc_opt [simp]: "dec_opt (enc_opt x @ r) = (x, r)"
  by (cases x) simp_all

lemma dec_enc_int [simp]: "dec_int (enc_int k @ r) = (k, r)"
  by (simp add: enc_int_def)

definition fx_sign :: "jwt_payload \<Rightarrow> int \<Rightarrow> time \<Rightarrow> string" where
  "fx_sign p ttl t = enc_int (t div 1000 + ttl div 1000) @ enc_str (jp_sub p) @ enc_opt (jp_role p) @ enc_opt (jp_ownerId p)
     @ enc_opt (jp_sid p) @ enc_opt (jp_kind p) @ enc_opt (jp_aud p)"

definition fx_jwtVerify :: "string \<Rightarrow> time \<Rightarrow> jwt_payload option" where
  "fx_jwtVerify tok n =
    (case dec_int tok of (e, r0) \<Rightarrow> case dec_str r0 of (sub, r1) \<Rightarrow> case dec_opt r1 of (role, r2) \<Rightarrow>
     case dec_opt r2 of (w, r3) \<Rightarrow> case dec_opt r3 of (sid, r4) \<Rightarrow> case dec_opt r4 of (kind, r5) \<Rightarrow>
     case dec_opt r5 of (aud, r6) \<Rightarrow>
       if n div 1000 < e
       then Some \<lparr> jp_sub = sub, jp_role = role, jp_ownerId = w, jp_sid = sid, jp_kind = kind, jp_aud = aud \<rparr>
       else None)"

lemma fx_jwt: "fx_jwtVerify (fx_sign p ttl t) n = (if n div 1000 < t div 1000 + ttl div 1000 then Some p else None)"
proof -
  have e: "enc_opt (jp_aud p) = enc_opt (jp_aud p) @ []" by simp
  show ?thesis unfolding fx_jwtVerify_def fx_sign_def by (subst e) (simp del: append_Nil2)
qed

definition fx_crypto :: crypto where
  "fx_crypto = \<lparr> lib_sha256 = (\<lambda>s. ''#'' @ s), lib_argonHash = (\<lambda>salt p. ''hash-'' @ p),
     lib_argonVerify = (\<lambda>h p. Some (h = ''hash-'' @ p)), lib_sign = fx_sign, lib_jwtVerify = fx_jwtVerify,
     lib_otp = (\<lambda>code secret tol after n.
       if List.length code \<noteq> 6 then None
       else if code = take 6 secret \<and> (case after of None \<Rightarrow> True | Some k \<Rightarrow> k < n div 30000) then Some (Some (n div 30000))
       else Some None) \<rparr>"

text \<open>Passport's reading of a header.\<close>

definition fx_extract :: "string \<Rightarrow> string option" where
  "fx_extract h = bearer_token (Some h)"

definition fx_ctx :: ctx where
  "fx_ctx = new_context ''req'' None (Some ''10.0.0.1'') (Some ''agent'') None"

definition fx_refresh :: "string \<Rightarrow> uid \<Rightarrow> refresh_token_row" where
  "fx_refresh tok u = \<lparr> r_id = tok, r_createdAt = 0, r_updatedAt = 0, r_deletedAt = None, rt_tokenHash = ''#'' @ tok,
     rt_userId = u, rt_expiresAt = 9000000, rt_revokedAt = None \<rparr>"

definition fx_session :: db where
  "fx_session = fx_db\<lparr> db_refreshToken := [fx_refresh ''tokA'' ''usr1'', fx_refresh ''tokB'' ''usr1'', fx_refresh ''tokC'' ''usr2''] \<rparr>"

definition fx_admin :: user_row where
  "fx_admin = (fx_user ''adm'' [])\<lparr> us_role := Platform_admin_role, us_ownerId := None, us_totpSecret := Some ''123456789'',
     us_totpRecoveryCodes := [''hash-first'', ''hash-second''] \<rparr>"

definition fx_reset :: auth_token_row where
  "fx_reset = \<lparr> r_id = ''rst'', r_createdAt = 0, r_updatedAt = 0, r_deletedAt = None, at_kind = Reset,
     at_tokenHash = ''#link'', at_userId = ''usr1'', at_expiresAt = 9000000, at_usedAt = None \<rparr>"

definition fx_access :: db where
  "fx_access = fx_session\<lparr> db_user := db_user fx_db @ [fx_admin], db_authToken := [fx_reset] \<rparr>"

lemma wf_users_fx: "wf_users fx_db" "wf_users fx_session" "wf_users fx_access"
  by (simp_all add: wf_users_def fx_access_def fx_session_def fx_db_def fx_user_def fx_admin_def)

end
