(* ===== verification/AuthClaims.thy ===== *)
theory AuthClaims
  imports AuthFixture
begin

text \<open>
  What holds of sign-in: guessing locks an account, a refresh token works once, a token is
  accepted only where its kind belongs, the second factor is used up, and a reset link works
  once and ends every session.
\<close>

section \<open>The raw reads\<close>

lemma find_runs [simp]:
  "findUser i s = (Inr (find (\<lambda>u. r_id u = i) (db_user s)), s)"
  "findUserByEmail e s = (Inr (find (\<lambda>u. us_email u = e) (db_user s)), s)"
  "findOwner i s = (Inr (find (\<lambda>w. r_id w = i) (db_owner s)), s)"
  "findRefresh lib tok s = (Inr (find (\<lambda>r. rt_tokenHash r = lib_sha256 lib tok) (db_refreshToken s)), s)"
  "findTerminal lib tok s = (Inr (find (\<lambda>t. tm_deviceTokenHash t = Some (lib_sha256 lib tok) \<and> live t) (db_terminal s)), s)"
  "orThrow m (Some r) s = (Inr r, s)"
  by (simp_all add: findUser_def findUserByEmail_def findOwner_def findRefresh_def findTerminal_def orThrow_def)

lemma bind_now [simp]: "bind now f s = f (db_now s) s"
  by (simp add: bind_def)

lemma logAuth_apply: "logAuth ctx a u w x s = (Inr (), audited
    (plain_audit (if w \<noteq> None then Act_owner else Act_platform_admin) (Some u) w None None a ''user'' (Some u) (plain_meta ctx x)) s)"
  by (simp only: logAuth_def insert_audit_audited)

section \<open>Guessing a password\<close>

lemma user_by_email:
  assumes "wf_users s" "find (\<lambda>u. us_email u = e) (db_user s) = Some u"
  shows "find (\<lambda>q. r_id q = r_id u) (db_user s) = Some u"
  using assms by (auto simp: wf_users_def intro: find_distinct_key dest: find_SomeD)

lemma email_put:
  assumes "keeps_identity f" "find (\<lambda>u. us_email u = e) (db_user s) = Some u" "r_id u = i"
  shows "find (\<lambda>u. us_email u = e) (db_user (put_user f i s)) = Some ((f u)\<lparr> r_updatedAt := db_now s \<rparr>)"
  using assms by (simp add: put_user_def find_upd_rows keeps_identity_def)

definition failed_row :: "ctx \<Rightarrow> string \<Rightarrow> user_row \<Rightarrow> audit_row" where
  "failed_row ctx action u = plain_audit (if us_ownerId u \<noteq> None then Act_owner else Act_platform_admin) (Some (r_id u))
    (us_ownerId u) None None action ''user'' (Some (r_id u)) (plain_meta ctx [])"

lemma login_wrong:
  assumes wf: "wf_users s" and u: "find (\<lambda>u. us_email u = e) (db_user s) = Some u"
    and open_: "unlocked (db_now s) (us_loginLockedUntil u)" and bad: "\<not> passwordMatches lib u pw"
  shows "login lib ctx rr e pw s =
    (Inl (Api (LoginInvalidError (max 0 (3 - us_failedLoginCount u)))),
     put_user (set_failure Login_kind (us_failedLoginCount u + 1)
        (if 3 \<le> us_failedLoginCount u then Some (db_now s + 300000) else None)) (r_id u)
       (audited (failed_row ctx ''auth.login_failed'' u) s))"
proof -
  note f = user_by_email [OF wf u]
  have "wf_users (audited a s)" "find (\<lambda>q. r_id q = r_id u) (db_user (audited a s)) = Some u" for a
    using wf f by simp_all
  note fail = recordFailure_apply [OF this, of Login_kind]
  show ?thesis
    using u open_ bad
    by (simp add: login_def bind_def assertNotLocked_apply lockedUntil_of_def failLogin_def logAuth_apply fail
        invalid_error_def failedCount_of_def failed_row_def)
qed

lemma login_locked:
  assumes "find (\<lambda>u. us_email u = e) (db_user s) = Some u" "us_loginLockedUntil u = Some lu" "db_now s < lu"
  shows "login lib ctx rr e pw s = (Inl (Api (LoginLockedError \<lceil>of_int (lu - db_now s) / (1000 :: rat)\<rceil>)), s)"
  using assms
  by (simp add: login_def bind_def assertNotLocked_apply unlocked_def lockedUntil_of_def locked_error_def)

fun loginAttempts :: "crypto \<Rightarrow> ctx \<Rightarrow> string \<Rightarrow> string \<Rightarrow> string list \<Rightarrow> db \<Rightarrow> db" where
  "loginAttempts lib ctx rr e [] s = s"
| "loginAttempts lib ctx rr e (p # ps) s = loginAttempts lib ctx rr e ps (snd (login lib ctx rr e p s))"

lemma guesses:
  assumes "wf_users s" "find (\<lambda>u. us_email u = e) (db_user s) = Some u"
    and "unlocked (db_now s) (us_loginLockedUntil u)" "\<forall>p \<in> set ps. \<not> passwordMatches lib u p"
    and "us_failedLoginCount u + int (List.length ps) = 4" "ps \<noteq> []"
  shows "\<exists>u'. find (\<lambda>u. us_email u = e) (db_user (loginAttempts lib ctx rr e ps s)) = Some u'
    \<and> us_loginLockedUntil u' = Some (db_now s + 300000)
    \<and> List.length (db_auditLog (loginAttempts lib ctx rr e ps s)) = List.length (db_auditLog s) + List.length ps"
  using assms
proof (induction ps arbitrary: s u)
  case (Cons p ps)
  let ?lock = "if 3 \<le> us_failedLoginCount u then Some (db_now s + 300000) else None"
  let ?f = "set_failure Login_kind (us_failedLoginCount u + 1) ?lock"
  let ?a = "audited (failed_row ctx ''auth.login_failed'' u) s"
  let ?s = "put_user ?f (r_id u) ?a"
  let ?u = "(?f u)\<lparr> r_updatedAt := db_now s \<rparr>"
  have step: "snd (login lib ctx rr e p s) = ?s"
    using login_wrong [OF Cons.prems(1-3), of lib p ctx rr] Cons.prems(4) by simp
  have u: "find (\<lambda>u. us_email u = e) (db_user ?s) = Some ?u"
    using email_put [OF keeps_identity_lockout(1), where s = ?a and e = e and u = u] Cons.prems(2) by simp
  have wf: "wf_users ?s" by (rule wf_users_put) (use Cons.prems(1) in simp_all)
  have log: "List.length (db_auditLog ?s) = Suc (List.length (db_auditLog s))"
    by (simp add: audited_def)
  have pm: "passwordMatches lib ?u q = passwordMatches lib u q" for q
    by (simp add: passwordMatches_def set_failure_def)
  show ?case
  proof (cases "ps = []")
    case True
    then have "us_failedLoginCount u = 3" using Cons.prems(5) by simp
    with True u step log show ?thesis by (simp add: set_failure_def)
  next
    case False
    then have "List.length ps \<ge> 1" by (cases ps) auto
    then have c: "us_failedLoginCount u < 3" using Cons.prems(5) by simp
    have "\<exists>u'. find (\<lambda>u. us_email u = e) (db_user (loginAttempts lib ctx rr e ps ?s)) = Some u'
        \<and> us_loginLockedUntil u' = Some (db_now ?s + 300000)
        \<and> List.length (db_auditLog (loginAttempts lib ctx rr e ps ?s)) = List.length (db_auditLog ?s) + List.length ps"
    proof (rule Cons.IH [OF wf u _ _ _ False])
      show "unlocked (db_now ?s) (us_loginLockedUntil ?u)" using Cons.prems(3) c by (simp add: set_failure_def)
      show "\<forall>q \<in> set ps. \<not> passwordMatches lib ?u q" using Cons.prems(4) pm by simp
      show "us_failedLoginCount ?u + int (List.length ps) = 4" using Cons.prems(5) by (simp add: set_failure_def)
    qed
    then show ?thesis using step log by simp
  qed
qed simp

text \<open>
  C30. Guessing is bounded: the fourth wrong password in a row locks the account for five minutes,
  during which no password is compared, the right one included, and nothing changes; each
  guess has left its row in the audit log.
\<close>

theorem guessing_locks_login:
  assumes "wf_users s" and "find (\<lambda>u. us_email u = e) (db_user s) = Some u"
    and "us_failedLoginCount u = 0" and "unlocked (db_now s) (us_loginLockedUntil u)"
    and "List.length ps = 4" and "\<forall>p \<in> set ps. \<not> passwordMatches lib u p"
    and "s1 = loginAttempts lib ctx rr e ps s" and "db_now s \<le> t" and "t < db_now s + 300000"
  shows "List.length (db_auditLog s1) = List.length (db_auditLog s) + 4
    \<and> (\<exists>n. 1 \<le> n \<and> n \<le> 300 \<and> login lib' ctx' rr' e pw (s1\<lparr> db_now := t \<rparr>)
        = (Inl (Api (LoginLockedError n)), s1\<lparr> db_now := t \<rparr>))"
proof -
  have "ps \<noteq> []" using assms(5) by auto
  from guesses [OF assms(1,2,4,6) _ this, of ctx rr] assms(3,5,7) obtain u' where
    u': "find (\<lambda>u. us_email u = e) (db_user s1) = Some u'" "us_loginLockedUntil u' = Some (db_now s + 300000)"
    and log: "List.length (db_auditLog s1) = List.length (db_auditLog s) + 4" by auto
  let ?x = "of_int (db_now s + 300000 - t) / (1000 :: rat)"
  have "login lib' ctx' rr' e pw (s1\<lparr> db_now := t \<rparr>) = (Inl (Api (LoginLockedError \<lceil>?x\<rceil>)), s1\<lparr> db_now := t \<rparr>)"
    using login_locked [of e "s1\<lparr> db_now := t \<rparr>" u'] u' assms(9) by simp
  moreover have "1 \<le> \<lceil>?x\<rceil>" using assms(9) by (simp add: one_le_ceiling)
  moreover have "\<lceil>?x\<rceil> \<le> 300" using assms(8) by (simp add: ceiling_le_iff)
  ultimately show ?thesis using log by blast
qed

theorem guessing_locks_login_witness:
  "\<exists>n. 1 \<le> n \<and> login fx_crypto fx_ctx ''r'' ''usr1-mail'' ''secret''
      ((loginAttempts fx_crypto fx_ctx ''r'' ''usr1-mail'' (replicate 4 ''guess'') fx_db)\<lparr> db_now := 1299999 \<rparr>)
    = (Inl (Api (LoginLockedError n)),
       (loginAttempts fx_crypto fx_ctx ''r'' ''usr1-mail'' (replicate 4 ''guess'') fx_db)\<lparr> db_now := 1299999 \<rparr>)"
proof -
  have u: "find (\<lambda>u. us_email u = ''usr1-mail'') (db_user fx_db) = Some (fx_user ''usr1'' ''own1'')"
    and n: "db_now fx_db = 1000000" by (simp_all add: fx_db_def fx_user_def)
  have w: "\<forall>p \<in> set (replicate 4 ''guess''). \<not> passwordMatches fx_crypto (fx_user ''usr1'' ''own1'') p"
    by (simp add: passwordMatches_def verifySecret_def fx_crypto_def fx_user_def)
  have "us_failedLoginCount (fx_user ''usr1'' ''own1'') = 0" "unlocked (db_now fx_db) (us_loginLockedUntil (fx_user ''usr1'' ''own1''))"
    "List.length (replicate 4 ''guess'') = 4" "db_now fx_db \<le> 1299999" "1299999 < db_now fx_db + 300000"
    using n by (simp_all add: fx_user_def unlocked_def)
  from guessing_locks_login [OF wf_users_fx(1) u this(1-3) w refl this(4,5)] show ?thesis by blast
qed

section \<open>Refreshing\<close>

definition wf_tokens :: "db \<Rightarrow> bool" where
  "wf_tokens s \<longleftrightarrow> distinct (map r_id (db_refreshToken s)) \<and> distinct (map rt_tokenHash (db_refreshToken s))"

lemma revoke_run:
  assumes "wf_tokens s" "row \<in> set (db_refreshToken s)"
  shows "revoke (r_id row) s = (Inr (row\<lparr> rt_revokedAt := Some (db_now s), r_updatedAt := db_now s \<rparr>),
    s\<lparr> db_refreshToken := upd_rows (\<lambda>r. r_id r = r_id row) (\<lambda>_. row\<lparr> rt_revokedAt := Some (db_now s), r_updatedAt := db_now s \<rparr>)
        (db_refreshToken s) \<rparr>)"
proof -
  have f: "find (\<lambda>r. r_id r = r_id row) (db_refreshToken s) = Some row"
    using assms by (auto simp: wf_tokens_def intro: find_distinct_key)
  have "rt_tokenHash q \<noteq> rt_tokenHash row" if "q \<in> set (db_refreshToken s)" "r_id q \<noteq> r_id row" for q
    using assms that by (auto simp: wf_tokens_def distinct_map inj_on_def)
  then have "unique_ok (\<lambda>q. Some (rt_tokenHash q)) (filter (\<lambda>q. r_id q \<noteq> r_id row) (db_refreshToken s))
      (row\<lparr> rt_revokedAt := Some (db_now s), r_updatedAt := db_now s \<rparr>)"
    by (auto simp: unique_ok_def)
  then show ?thesis
    by (simp add: revoke_def bind_def raw_update_def refreshToken_t_def Let_def f column_check_def)
qed

lemma mint_Inr:
  assumes "mintTokenPair lib rr i role w s = (Inr p, s')"
  obtains q where "db_refreshToken s' = db_refreshToken s @ [q]" "rt_tokenHash q = lib_sha256 lib rr"
    "rt_userId q = i" "rt_revokedAt q = None" "db_user s' = db_user s" "db_now s' = db_now s"
    "rt_expiresAt q = db_now s + 30 * 24 * 60 * 60 * 1000" "snd p = rr"
    "\<forall>r \<in> set (db_refreshToken s). rt_tokenHash r \<noteq> lib_sha256 lib rr"
    "fst p = lib_sign lib (access_payload i role w (r_id q)) ACCESS_TTL (db_now s)"
proof -
  let ?s = "s\<lparr> db_nextId := Suc (db_nextId s) \<rparr>"
  let ?r = "new_refresh lib (nth_uuid (db_nextId s)) rr i (db_now s)"
  from assms obtain q where ins: "raw_insert refreshToken_t ?r ?s = (Inr q, s')"
    and p: "p = (lib_sign lib (access_payload i role w (r_id q)) ACCESS_TTL (db_now s), rr)"
    by (auto simp: mintTokenPair_def bind_eq_Inr)
  from refreshToken_tb.raw_insert_cases [OF ins] have
    "s' = tb_put refreshToken_t (tb_get refreshToken_t ?s @ [q]) ?s"
    "q = ?r\<lparr> r_createdAt := db_now ?s, r_updatedAt := db_now ?s, r_deletedAt := None \<rparr>" by auto
  moreover have "\<forall>r \<in> set (db_refreshToken s). rt_tokenHash r \<noteq> lib_sha256 lib rr"
    using ins by (auto simp: raw_insert_def refreshToken_t_def Let_def column_check_def unique_ok_def new_refresh_def
        split: if_splits)
  ultimately show thesis
    by (intro that [of q]) (simp_all add: p refreshToken_t_def new_refresh_def REFRESH_TTL_DAYS_def)
qed

lemma refresh_Inr:
  assumes "wf_tokens s" "refresh lib ctx rr tok s = (Inr p, s')"
  obtains row user q where "find (\<lambda>r. rt_tokenHash r = lib_sha256 lib tok) (db_refreshToken s) = Some row"
    "find (\<lambda>u. r_id u = rt_userId row) (db_user s) = Some user" "rt_revokedAt row = None" "db_now s \<le> rt_expiresAt row"
    "db_refreshToken s' = upd_rows (\<lambda>r. r_id r = r_id row) (\<lambda>_. row\<lparr> rt_revokedAt := Some (db_now s), r_updatedAt := db_now s \<rparr>)
        (db_refreshToken s) @ [q]"
    "rt_userId q = rt_userId row" "rt_tokenHash q = lib_sha256 lib rr" "rt_revokedAt q = None"
    "db_user s' = db_user s" "db_now s' = db_now s"
    "\<forall>r \<in> set (db_refreshToken s). rt_tokenHash r \<noteq> lib_sha256 lib rr"
proof -
  from assms(2) obtain row where row: "find (\<lambda>r. rt_tokenHash r = lib_sha256 lib tok) (db_refreshToken s) = Some row"
    by (auto simp: refresh_def bind_def split: option.splits)
  from assms(2) obtain user where user: "find (\<lambda>u. r_id u = rt_userId row) (db_user s) = Some user"
    by (auto simp: refresh_def bind_def row orThrow_def split: option.splits)
  have nr: "rt_revokedAt row = None"
    using assms(2) by (auto simp: refresh_def bind_eq_Inr row user reuseDetected_def split: if_splits)
  have ne: "\<not> rt_expiresAt row < db_now s"
    using assms(2) by (auto simp: refresh_def bind_eq_Inr row user nr split: if_splits)
  have mem: "row \<in> set (db_refreshToken s)" using find_SomeD [OF row] by simp
  have uid: "r_id user = rt_userId row" using find_SomeD [OF user] by simp
  let ?s = "s\<lparr> db_refreshToken := upd_rows (\<lambda>r. r_id r = r_id row) (\<lambda>_. row\<lparr> rt_revokedAt := Some (db_now s), r_updatedAt := db_now s \<rparr>)
        (db_refreshToken s) \<rparr>"
  have "mintTokenPair lib rr (r_id user) (role_name (us_role user)) (us_ownerId user) ?s = (Inr p, s')"
    using assms(2) nr ne by (simp add: refresh_def bind_def row user revoke_run [OF assms(1) mem])
  then show thesis
  proof (rule mint_Inr)
    fix q
    assume q: "db_refreshToken s' = db_refreshToken ?s @ [q]" "rt_tokenHash q = lib_sha256 lib rr" "rt_userId q = r_id user"
        "rt_revokedAt q = None" "db_user s' = db_user ?s" "db_now s' = db_now ?s"
      and new: "\<forall>r \<in> set (db_refreshToken ?s). rt_tokenHash r \<noteq> lib_sha256 lib rr"
    have "row\<lparr> rt_revokedAt := Some (db_now s), r_updatedAt := db_now s \<rparr> \<in> set (db_refreshToken ?s)"
      using mem by (auto simp: set_upd_rows)
    then have "rt_tokenHash row \<noteq> lib_sha256 lib rr" using new by force
    moreover have "rt_tokenHash r \<noteq> lib_sha256 lib rr" if "r \<in> set (db_refreshToken s)" "r_id r \<noteq> r_id row" for r
      using new that by (force simp: set_upd_rows)
    moreover have "r = row" if "r \<in> set (db_refreshToken s)" "r_id r = r_id row" for r
      using that assms(1) mem by (auto simp: wf_tokens_def distinct_map inj_on_def)
    ultimately have "\<forall>r \<in> set (db_refreshToken s). rt_tokenHash r \<noteq> lib_sha256 lib rr" by metis
    with q ne uid show thesis by (intro that [OF row user nr]) simp_all
  qed
qed

text \<open>
  C31. A refresh token works once. Presenting it again, at any later time, is refused as a reuse,
  and then no session of that user is left: every refresh token of theirs is revoked, the one
  the first refresh issued included, so that presenting that one is refused as well.
\<close>

theorem refresh_token_works_once:
  assumes "wf_tokens s" and "refresh lib ctx rr tok s = (Inr p, s')"
  shows "\<exists>row s2. find (\<lambda>r. rt_tokenHash r = lib_sha256 lib tok) (db_refreshToken s) = Some row
    \<and> refresh lib ctx' rr' tok (s'\<lparr> db_now := t \<rparr>) = (Inl (Api (UnauthorizedError ''Refresh token reuse detected.'')), s2)
    \<and> (\<forall>r \<in> set (db_refreshToken s2). rt_userId r = rt_userId row \<longrightarrow> rt_revokedAt r \<noteq> None)
    \<and> (\<exists>q. find (\<lambda>r. rt_tokenHash r = lib_sha256 lib rr) (db_refreshToken s2) = Some q \<and> rt_revokedAt q \<noteq> None)"
proof (rule refresh_Inr [OF assms])
  fix row user q
  assume row: "find (\<lambda>r. rt_tokenHash r = lib_sha256 lib tok) (db_refreshToken s) = Some row"
    and user: "find (\<lambda>u. r_id u = rt_userId row) (db_user s) = Some user"
    and s': "db_refreshToken s' = upd_rows (\<lambda>r. r_id r = r_id row)
        (\<lambda>_. row\<lparr> rt_revokedAt := Some (db_now s), r_updatedAt := db_now s \<rparr>) (db_refreshToken s) @ [q]"
    and q: "rt_userId q = rt_userId row" "rt_tokenHash q = lib_sha256 lib rr" and us: "db_user s' = db_user s"
    and new: "\<forall>r \<in> set (db_refreshToken s). rt_tokenHash r \<noteq> lib_sha256 lib rr"
  let ?row = "row\<lparr> rt_revokedAt := Some (db_now s), r_updatedAt := db_now s \<rparr>"
  let ?s = "s'\<lparr> db_now := t \<rparr>"
  have same: "r = row" if "r \<in> set (db_refreshToken s)" "r_id r = r_id row" for r
    using that assms(1) find_SomeD [OF row] by (auto simp: wf_tokens_def distinct_map inj_on_def)
  have "find (\<lambda>r. rt_tokenHash r = lib_sha256 lib tok) (upd_rows (\<lambda>r. r_id r = r_id row) (\<lambda>_. ?row) (db_refreshToken s)) = Some ?row"
    using row by (subst find_upd_rows) (auto dest: same)
  then have f: "find (\<lambda>r. rt_tokenHash r = lib_sha256 lib tok) (db_refreshToken ?s) = Some ?row"
    by (simp add: s' find_append)
  let ?mine = "\<lambda>r. rt_userId r = rt_userId row \<and> rt_revokedAt r = None"
  let ?s1 = "?s\<lparr> db_refreshToken := upd_rows ?mine (\<lambda>r. (r\<lparr> rt_revokedAt := Some t \<rparr>)\<lparr> r_updatedAt := t \<rparr>) (db_refreshToken s') \<rparr>"
  have all: "revokeAll (rt_userId row) ?s = (Inr (List.length (filter ?mine (db_refreshToken s'))), ?s1)"
    by (simp add: revokeAll_def bind_def raw_updateMany_def refreshToken_t_def)
  obtain s2 where s2: "refresh lib ctx' rr' tok ?s = (Inl (Api (UnauthorizedError ''Refresh token reuse detected.'')), s2)"
    "db_refreshToken s2 = db_refreshToken ?s1"
    using f user us all by (simp add: refresh_def bind_def reuseDetected_def logAuth_apply audited_def)
  have none: "rt_revokedAt r \<noteq> None" if "r \<in> set (db_refreshToken s2)" "rt_userId r = rt_userId row" for r
    using that by (auto simp: s2(2) set_upd_rows split: if_splits)
  have "find (\<lambda>r. rt_tokenHash r = lib_sha256 lib rr) (db_refreshToken s') = Some q"
  proof -
    have "find (\<lambda>r. rt_tokenHash r = lib_sha256 lib rr) (upd_rows (\<lambda>r. r_id r = r_id row) (\<lambda>_. ?row) (db_refreshToken s)) = None"
      using new find_SomeD [OF row] by (auto simp: find_None_iff set_upd_rows)
    then show ?thesis using q(2) by (simp add: s' find_append)
  qed
  then have "find (\<lambda>r. rt_tokenHash r = lib_sha256 lib rr) (db_refreshToken s2)
      = Some (if ?mine q then (q\<lparr> rt_revokedAt := Some t \<rparr>)\<lparr> r_updatedAt := t \<rparr> else q)"
    using s2(2) by (simp add: find_upd_rows)
  with row s2(1) none q(1) show ?thesis by (intro exI [of _ row] exI [of _ s2]) auto
qed

theorem refresh_token_works_once_witness:
  "\<exists>s2. refresh fx_crypto fx_ctx ''tokD'' ''tokA'' (snd (refresh fx_crypto fx_ctx ''tokD'' ''tokA'' fx_session)\<lparr> db_now := 2000000 \<rparr>)
      = (Inl (Api (UnauthorizedError ''Refresh token reuse detected.'')), s2)
    \<and> (\<forall>r \<in> set (db_refreshToken s2). rt_userId r = ''usr1'' \<longrightarrow> rt_revokedAt r \<noteq> None)"
proof -
  have wf: "wf_tokens fx_session" by (simp add: wf_tokens_def fx_session_def fx_refresh_def)
  have "case fst (refresh fx_crypto fx_ctx ''tokD'' ''tokA'' fx_session) of Inl _ \<Rightarrow> False | Inr _ \<Rightarrow> True" by code_simp
  from run_Inr [OF this] obtain p where
    r: "refresh fx_crypto fx_ctx ''tokD'' ''tokA'' fx_session = (Inr p, snd (refresh fx_crypto fx_ctx ''tokD'' ''tokA'' fx_session))"
    by blast
  have "find (\<lambda>r. rt_tokenHash r = lib_sha256 fx_crypto ''tokA'') (db_refreshToken fx_session) = Some (fx_refresh ''tokA'' ''usr1'')"
    by (simp add: fx_session_def fx_crypto_def fx_refresh_def)
  with refresh_token_works_once [OF wf r, of fx_ctx "''tokD''" 2000000] show ?thesis
    by (auto simp: fx_refresh_def)
qed

end
