(* ===== verification/Credentials.thy ===== *)
theory Credentials
  imports AuthClaims
begin

text \<open>
  The kinds of token, the second factor of platform admins, and password resets.
\<close>

section \<open>Kinds of token\<close>

text \<open>
  What the JWT library promises: a token it signed verifies, to the payload it was signed with,
  in every second before its expiry and in none after it.
\<close>

definition jwt_sound :: "crypto \<Rightarrow> bool" where
  "jwt_sound lib \<longleftrightarrow> (\<forall>p ttl t n. lib_jwtVerify lib (lib_sign lib p ttl t) n =
     (if n div 1000 < t div 1000 + ttl div 1000 then Some p else None))"

definition refuses :: "'a guard_op \<Rightarrow> ctx \<Rightarrow> db \<Rightarrow> bool" where
  "refuses g ctx s \<longleftrightarrow> (\<exists>m. g s = (Inl (ctx, Api (UnauthorizedError m)), s))"

definition signed_header :: "crypto \<Rightarrow> int \<Rightarrow> time \<Rightarrow> jwt_payload \<Rightarrow> string option" where
  "signed_header lib ttl t p = Some (''Bearer '' @ lib_sign lib p ttl t)"

lemma bearer_header [simp]: "bearer_token (Some (''Bearer '' @ tok)) = Some tok"
  by (simp add: bearer_token_def)

lemma with_ctx_bind [simp]: "bind (with_ctx ctx now) f s = f (db_now s) s"
  by (simp add: bind_def with_ctx_def)

lemma with_ctx_Inr: "m s = (Inr x, t) \<Longrightarrow> bind (with_ctx ctx m) f s = f x t"
  by (simp add: bind_def with_ctx_def)

lemma signed_refused:
  assumes "jwt_sound lib"
  shows "jp_kind p \<noteq> Some ''preauth'' \<Longrightarrow> refuses (preauthGuard lib ctx (Some (''Bearer '' @ lib_sign lib p ttl t))) ctx s"
    and "jp_aud p \<noteq> Some ''pairing'' \<Longrightarrow> refuses (pairingGuard lib ctx (Some (''Bearer '' @ lib_sign lib p ttl t))) ctx s"
  using assms by (auto simp: refuses_def preauthGuard_def pairingGuard_def jwt_sound_def bearer_token_def)

lemma scoped_refused:
  assumes "jwt_sound lib" "extract (''Bearer '' @ lib_sign lib p ttl t) = Some (lib_sign lib p ttl t)" "\<not> validate_ok p"
  shows "refuses (portalGuard lib extract ctx (Some (''Bearer '' @ lib_sign lib p ttl t))) ctx s"
    and "refuses (adminGuard lib extract ctx (Some (''Bearer '' @ lib_sign lib p ttl t))) ctx s"
  using assms by (auto simp: refuses_def portalGuard_def adminGuard_def jwtUser_def jwt_sound_def unauthorized_def)

text \<open>
  Tokens of one kind are worth nothing where another is asked for, though one secret signs them
  all: a preauth token is refused by the portal, the admin and the pairing guard, a pairing
  token by the portal, the admin and the preauth guard, and an access token by the pairing
  and the preauth guard, at any time and in any state.
\<close>

theorem token_kinds_do_not_mix:
  assumes "jwt_sound lib" and "\<forall>tok. extract (''Bearer '' @ tok) = Some tok"
  shows "refuses (portalGuard lib extract ctx (signed_header lib ttl t (preauth_payload u))) ctx s
    \<and> refuses (adminGuard lib extract ctx (signed_header lib ttl t (preauth_payload u))) ctx s
    \<and> refuses (pairingGuard lib ctx (signed_header lib ttl t (preauth_payload u))) ctx s
    \<and> refuses (portalGuard lib extract ctx (signed_header lib ttl t (pairing_payload u w))) ctx s
    \<and> refuses (adminGuard lib extract ctx (signed_header lib ttl t (pairing_payload u w))) ctx s
    \<and> refuses (preauthGuard lib ctx (signed_header lib ttl t (pairing_payload u w))) ctx s
    \<and> refuses (pairingGuard lib ctx (signed_header lib ttl t (access_payload u role ow sid))) ctx s
    \<and> refuses (preauthGuard lib ctx (signed_header lib ttl t (access_payload u role ow sid))) ctx s"
  unfolding signed_header_def using assms(1,2)
  by (intro conjI scoped_refused signed_refused)
     (simp_all add: preauth_payload_def pairing_payload_def access_payload_def validate_ok_def truthy_def)

lemma fx_jwt_sound: "jwt_sound fx_crypto"
  by (simp add: jwt_sound_def fx_crypto_def fx_jwt)

theorem token_kinds_do_not_mix_witness:
  "refuses (portalGuard fx_crypto fx_extract fx_ctx (signed_header fx_crypto 600000 1000000 (pairing_payload ''usr1'' ''own1''))) fx_ctx fx_db"
proof -
  have "\<forall>tok. fx_extract (''Bearer '' @ tok) = Some tok" by (simp add: fx_extract_def bearer_token_def)
  from token_kinds_do_not_mix [OF fx_jwt_sound this] show ?thesis by blast
qed

section \<open>The second factor\<close>

lemma keeps_identity_totp [simp]:
  "keeps_identity (\<lambda>r. r\<lparr> us_totpLastTimeStep := k \<rparr>)" "keeps_identity (\<lambda>r. r\<lparr> us_totpRecoveryCodes := c \<rparr>)"
  "keeps_identity (\<lambda>r. r\<lparr> us_totpPendingSecret := h \<rparr>)" "keeps_identity (\<lambda>r. r\<lparr> us_passwordHash := h \<rparr>)"
  by (simp_all add: keeps_identity_def)

lemma update_user_run:
  assumes "wf_users s" "find (\<lambda>u. r_id u = i) (db_user s) = Some u" "keeps_identity f"
  shows "raw_update user_t i f s = (Inr ((f u)\<lparr> r_updatedAt := db_now s \<rparr>), put_user f i s)"
  using assms(3) by (intro raw_update_user [OF assms(1,2)]) (simp add: keeps_identity_def)

lemma find_put_user:
  assumes "keeps_identity f" "find (\<lambda>u. r_id u = i) (db_user s) = Some u"
  shows "find (\<lambda>u. r_id u = i) (db_user (put_user f i s)) = Some ((f u)\<lparr> r_updatedAt := db_now s \<rparr>)"
  using assms find_SomeD [OF assms(2)] by (simp add: put_user_def find_upd_rows keeps_identity_def)

lemma consumeCode_spec:
  "consumeCode m hs = Some rest \<longleftrightarrow> (\<exists>a h b. hs = a @ h # b \<and> rest = a @ b \<and> m h \<and> (\<forall>x \<in> set a. \<not> m x))"
proof (induction hs arbitrary: rest)
  case (Cons h hs)
  show ?case
  proof
    assume c: "consumeCode m (h # hs) = Some rest"
    show "\<exists>a x b. h # hs = a @ x # b \<and> rest = a @ b \<and> m x \<and> (\<forall>y \<in> set a. \<not> m y)"
    proof (cases "m h")
      case True
      with c show ?thesis by (intro exI [of _ "[] :: string list"] exI [of _ h] exI [of _ hs]) simp
    next
      case False
      with c obtain r where "consumeCode m hs = Some r" "rest = h # r" by auto
      moreover from this(1) obtain a x b where "hs = a @ x # b" "r = a @ b" "m x" "\<forall>y \<in> set a. \<not> m y"
        unfolding Cons.IH by blast
      ultimately show ?thesis using False by (intro exI [of _ "h # a"] exI [of _ x] exI [of _ b]) simp
    qed
  next
    assume "\<exists>a x b. h # hs = a @ x # b \<and> rest = a @ b \<and> m x \<and> (\<forall>y \<in> set a. \<not> m y)"
    then obtain a x b where d: "h # hs = a @ x # b" "rest = a @ b" "m x" "\<forall>y \<in> set a. \<not> m y" by blast
    show "consumeCode m (h # hs) = Some rest"
    proof (cases a)
      case (Cons y ys)
      with d have "consumeCode m hs = Some (ys @ b)" unfolding Cons.IH by auto
      with d Cons show ?thesis by simp
    qed (use d in simp)
  qed
qed simp

text \<open>What a successful check leaves: the step it used, or one code fewer.\<close>

definition factor_used :: "crypto \<Rightarrow> user_row \<Rightarrow> string \<Rightarrow> time \<Rightarrow> user_row \<Rightarrow> bool" where
  "factor_used lib u code n u' \<longleftrightarrow>
    (\<exists>k. otp_step lib code (the (us_totpSecret u)) (us_totpLastTimeStep u) n = Some k \<and> us_totpLastTimeStep u' = Some k
        \<and> us_totpRecoveryCodes u' = us_totpRecoveryCodes u)
    \<or> (\<exists>a h b. us_totpRecoveryCodes u = a @ h # b \<and> us_totpRecoveryCodes u' = a @ b \<and> verifySecret lib h code
        \<and> us_totpLastTimeStep u' = us_totpLastTimeStep u)"

lemma verifyTotp_Inr:
  assumes wf: "wf_users s" and u: "find (\<lambda>u. r_id u = i) (db_user s) = Some u"
    and v: "verifyTotp lib i code s = (Inr x, s')"
  shows "truthy (us_totpSecret u) \<and> (\<exists>f. keeps_identity f \<and> s' = put_user f i s \<and> factor_used lib u code (db_now s) (f u)
    \<and> us_role (f u) = us_role u)"
proof -
  have i: "r_id u = i" using find_SomeD [OF u] by simp
  have t: "truthy (us_totpSecret u)" using v by (auto simp: verifyTotp_def bind_eq_Inr u split: if_splits)
  show ?thesis
  proof (cases "otp_step lib code (the (us_totpSecret u)) (us_totpLastTimeStep u) (db_now s)")
    case (Some k)
    have "s' = put_user (\<lambda>r. r\<lparr> us_totpLastTimeStep := Some k \<rparr>) i s"
      using v t Some update_user_run [OF wf u, of "\<lambda>r. r\<lparr> us_totpLastTimeStep := Some k \<rparr>"]
      by (simp add: verifyTotp_def bind_def u useTotpCode_def i catch_op_def)
    with t Some show ?thesis
      by (intro conjI exI [of _ "\<lambda>r. r\<lparr> us_totpLastTimeStep := Some k \<rparr>"]) (simp_all add: factor_used_def)
  next
    case None
    then have r: "useRecoveryCode lib u code s = (Inr (), s')"
      using v t by (simp add: verifyTotp_def bind_def u useTotpCode_def)
    then obtain rest where c: "consumeCode (\<lambda>h. verifySecret lib h code) (us_totpRecoveryCodes u) = Some rest"
      by (auto simp: useRecoveryCode_def split: option.splits)
    have "s' = put_user (\<lambda>r. r\<lparr> us_totpRecoveryCodes := rest \<rparr>) i s"
      using r update_user_run [OF wf u, of "\<lambda>r. r\<lparr> us_totpRecoveryCodes := rest \<rparr>"]
      by (simp add: useRecoveryCode_def c bind_def i)
    with t c [unfolded consumeCode_spec] show ?thesis
      by (intro conjI exI [of _ "\<lambda>r. r\<lparr> us_totpRecoveryCodes := rest \<rparr>"]) (auto simp: factor_used_def)
  qed
qed

text \<open>
  C32. A session from a preauth token takes the second factor, and uses it up: the token verified
  as a preauth token, its user was not locked out, and either the code matched a time step
  after the last one used, which is now the last one used, or it matched a recovery code,
  which is now gone. The refresh token of the session is new and the failure count is zero.
\<close>

theorem session_takes_second_factor:
  assumes "wf_users s" and "exchangeTotp lib rr tok code s = (Inr (session, role), s')"
  shows "\<exists>p u u' q. lib_jwtVerify lib tok (db_now s) = Some p \<and> jp_kind p = Some ''preauth''
    \<and> find (\<lambda>u. r_id u = jp_sub p) (db_user s) = Some u \<and> unlocked (db_now s) (us_loginLockedUntil u)
    \<and> truthy (us_totpSecret u) \<and> find (\<lambda>u. r_id u = jp_sub p) (db_user s') = Some u'
    \<and> factor_used lib u code (db_now s) u' \<and> us_failedLoginCount u' = 0 \<and> role = role_name (us_role u)
    \<and> db_refreshToken s' = db_refreshToken s @ [q] \<and> rt_userId q = jp_sub p \<and> rt_tokenHash q = lib_sha256 lib rr"
proof -
  from assms(2) obtain p where p: "lib_jwtVerify lib tok (db_now s) = Some p"
    by (auto simp: exchangeTotp_def bind_eq_Inr split: option.splits)
  have kind: "jp_kind p = Some ''preauth''"
    using assms(2) by (auto simp: exchangeTotp_def bind_eq_Inr p split: if_splits)
  from assms(2) obtain u where u: "find (\<lambda>u. r_id u = jp_sub p) (db_user s) = Some u"
    by (cases "find (\<lambda>u. r_id u = jp_sub p) (db_user s)") (auto simp: exchangeTotp_def bind_def p orThrow_def split: if_splits)
  have open_: "unlocked (db_now s) (us_loginLockedUntil u)"
    using assms(2) by (auto simp: exchangeTotp_def bind_def p kind u assertNotLocked_apply lockedUntil_of_def split: if_splits)
  let ?attempt = "catch_op (verifyTotp lib (jp_sub p) code)
               (\<lambda>_. bind (catch_op (recordFailure (jp_sub p) Login_kind) (\<lambda>_. ret ())) (\<lambda>_. throw totp_invalid))"
  have rest: "bind ?attempt (\<lambda>_. bind (recordSuccess (jp_sub p) Login_kind) (\<lambda>_.
        bind (mintTokenPair lib rr (jp_sub p) (role_name (us_role u)) None) (\<lambda>pair.
        ret (pair, role_name (us_role u))))) s = (Inr (session, role), s')"
    using assms(2) by (simp add: exchangeTotp_def bind_def p kind u assertNotLocked_apply lockedUntil_of_def open_)
  then obtain x1 s1 where tr: "?attempt s = (Inr x1, s1)"
    and rest1: "bind (recordSuccess (jp_sub p) Login_kind) (\<lambda>_.
        bind (mintTokenPair lib rr (jp_sub p) (role_name (us_role u)) None) (\<lambda>pair.
        ret (pair, role_name (us_role u)))) s1 = (Inr (session, role), s')"
    by (rule bind_InrE)
  have "\<exists>x. verifyTotp lib (jp_sub p) code s = (Inr x, s1)"
  proof (cases "verifyTotp lib (jp_sub p) code s")
    case (Pair r s0)
    then show ?thesis using tr by (cases r) (auto simp: catch_op_def bind_eq_Inr)
  qed
  then obtain x where "verifyTotp lib (jp_sub p) code s = (Inr x, s1)" ..
  from verifyTotp_Inr [OF assms(1) u this] obtain f where t: "truthy (us_totpSecret u)" and
    f: "keeps_identity f" "s1 = put_user f (jp_sub p) s" "factor_used lib u code (db_now s) (f u)" by auto
  note u1 = find_put_user [OF f(1) u, folded f(2)]
  have wf1: "wf_users s1" using wf_users_put [OF f(1) assms(1)] by (simp add: f(2))
  let ?s2 = "put_user (clear_failures Login_kind) (jp_sub p) s1"
  from rest1 recordSuccess_apply [OF wf1 u1, of Login_kind]
  have "bind (mintTokenPair lib rr (jp_sub p) (role_name (us_role u)) None) (\<lambda>pair.
        ret (pair, role_name (us_role u))) ?s2 = (Inr (session, role), s')" by (simp add: bind_def)
  then obtain pr s3 where m: "mintTokenPair lib rr (jp_sub p) (role_name (us_role u)) None ?s2 = (Inr pr, s3)"
    and r: "role = role_name (us_role u)" "s' = s3" by (auto simp: bind_eq_Inr)
  show ?thesis
  proof (rule mint_Inr [OF m])
    fix q
    assume q: "db_refreshToken s3 = db_refreshToken ?s2 @ [q]" "rt_tokenHash q = lib_sha256 lib rr" "rt_userId q = jp_sub p"
      "db_user s3 = db_user ?s2"
    have same: "db_refreshToken ?s2 = db_refreshToken s" by (simp add: f(2) put_user_def)
    have u': "find (\<lambda>u. r_id u = jp_sub p) (db_user s')
        = Some ((clear_failures Login_kind ((f u)\<lparr> r_updatedAt := db_now s \<rparr>))\<lparr> r_updatedAt := db_now s1 \<rparr>)"
      using find_put_user [OF keeps_identity_lockout(2) u1] by (simp add: r(2) q(4))
    have "factor_used lib u code (db_now s)
        ((clear_failures Login_kind ((f u)\<lparr> r_updatedAt := db_now s \<rparr>))\<lparr> r_updatedAt := db_now s1 \<rparr>)"
      using f(3) by (simp add: factor_used_def clear_failures_def)
    moreover have "us_failedLoginCount ((clear_failures Login_kind ((f u)\<lparr> r_updatedAt := db_now s \<rparr>))\<lparr> r_updatedAt := db_now s1 \<rparr>) = 0"
      by (simp add: clear_failures_def)
    ultimately show ?thesis
      using p kind u open_ t u' r q same
      by (intro exI [of _ p] exI [of _ u] exI [of _ q]
          exI [of _ "(clear_failures Login_kind ((f u)\<lparr> r_updatedAt := db_now s \<rparr>))\<lparr> r_updatedAt := db_now s1 \<rparr>"]) simp
  qed
qed


theorem session_takes_second_factor_witness:
  "\<exists>u u'. find (\<lambda>u. r_id u = ''adm'') (db_user fx_access) = Some u
    \<and> find (\<lambda>u. r_id u = ''adm'') (db_user (snd (exchangeTotp fx_crypto ''r'' (fx_sign (preauth_payload ''adm'') 300000 900000) ''second'' fx_access))) = Some u'
    \<and> factor_used fx_crypto u ''second'' 1000000 u'"
proof -
  let ?tok = "fx_sign (preauth_payload ''adm'') 300000 900000"
  have "case fst (exchangeTotp fx_crypto ''r'' ?tok ''second'' fx_access) of Inl _ \<Rightarrow> False | Inr _ \<Rightarrow> True" by code_simp
  from run_Inr [OF this] obtain a b where
    r: "exchangeTotp fx_crypto ''r'' ?tok ''second'' fx_access = (Inr (a, b), snd (exchangeTotp fx_crypto ''r'' ?tok ''second'' fx_access))"
    by (metis prod.collapse)
  have "lib_jwtVerify fx_crypto ?tok (db_now fx_access) = Some (preauth_payload ''adm'')" "db_now fx_access = 1000000"
    by (simp_all add: fx_crypto_def fx_jwt fx_access_def fx_session_def fx_db_def)
  with session_takes_second_factor [OF wf_users_fx(3) r] show ?thesis by (auto simp: preauth_payload_def)
qed

section \<open>Password resets\<close>

definition wf_authTokens :: "db \<Rightarrow> bool" where
  "wf_authTokens s \<longleftrightarrow> distinct (map r_id (db_authToken s)) \<and> distinct (map at_tokenHash (db_authToken s))"

lemma consumeToken_Inr:
  assumes "wf_authTokens s" "consumeToken lib token kind s = (Inr r, s')"
  obtains row where "find (\<lambda>r. at_tokenHash r = lib_sha256 lib token) (db_authToken s) = Some row"
    "at_kind row = kind" "at_usedAt row = None" "db_now s \<le> at_expiresAt row" "r = (r_id row, at_userId row)"
    "s' = s\<lparr> db_authToken := upd_rows (\<lambda>q. r_id q = r_id row \<and> at_usedAt q = None)
        (\<lambda>q. (q\<lparr> at_usedAt := Some (db_now s) \<rparr>)\<lparr> r_updatedAt := db_now s \<rparr>) (db_authToken s) \<rparr>"
proof -
  from assms(2) obtain row where row: "find (\<lambda>r. at_tokenHash r = lib_sha256 lib token) (db_authToken s) = Some row"
    by (auto simp: consumeToken_def split: option.splits)
  show thesis
    using assms(2) by (intro that [OF row]) (auto simp: consumeToken_def row bind_def raw_updateMany_def authToken_t_def
        split: if_splits)
qed

lemma consumed_token_fails:
  assumes "find (\<lambda>r. at_tokenHash r = lib_sha256 lib token) (db_authToken s) = Some row"
    and "at_kind row \<noteq> kind \<or> at_usedAt row \<noteq> None \<or> at_expiresAt row < db_now s"
  shows "consumeToken lib token kind s = (Inl invalid_token, s)"
  using assms(2) by (auto simp: consumeToken_def assms(1))

text \<open>
  C33. A reset link works once, for what it was sent for, and ends every session: a successful reset
  means the token was a reset token, unused and not expired; the account then has the hash of
  the new password and no live refresh token; and the same link is refused from then on,
  at any later time, by the reset and by the invitation alike, with nothing changed.
\<close>

theorem reset_link_works_once:
  assumes "wf_authTokens s" and "wf_users s" and "confirmReset lib ctx salt token password s = (Inr x, s')"
  shows "\<exists>row u'. find (\<lambda>r. at_tokenHash r = lib_sha256 lib token) (db_authToken s) = Some row
    \<and> at_kind row = Reset \<and> at_usedAt row = None \<and> db_now s \<le> at_expiresAt row
    \<and> find (\<lambda>u. r_id u = at_userId row) (db_user s') = Some u' \<and> us_passwordHash u' = Some (hashSecret lib salt password)
    \<and> (\<forall>r \<in> set (db_refreshToken s'). rt_userId r = at_userId row \<longrightarrow> rt_revokedAt r \<noteq> None)
    \<and> confirmReset lib ctx' salt' token password' (s'\<lparr> db_now := t \<rparr>) = (Inl invalid_token, s'\<lparr> db_now := t \<rparr>)
    \<and> acceptInvite lib ctx' seed salt' token password' (s'\<lparr> db_now := t \<rparr>) = (Inl invalid_token, s'\<lparr> db_now := t \<rparr>)"
proof -
  let ?h = "hashSecret lib salt password"
  from assms(3) obtain r s1 where c: "consumeToken lib token Reset s = (Inr r, s1)"
    and rest: "bind (raw_update user_t (snd r) (\<lambda>u. u\<lparr> us_passwordHash := Some ?h \<rparr>)) (\<lambda>user.
       bind (revokeAll (snd r)) (\<lambda>_. logAuth ctx ''auth.password_reset'' (r_id user) (us_ownerId user) [])) s1 = (Inr x, s')"
    by (auto simp: confirmReset_def Let_def transaction_Inr bind_eq_Inr)
  show ?thesis
  proof (rule consumeToken_Inr [OF assms(1) c])
    fix row
    assume row: "find (\<lambda>r. at_tokenHash r = lib_sha256 lib token) (db_authToken s) = Some row"
      and ok: "at_kind row = Reset" "at_usedAt row = None" "db_now s \<le> at_expiresAt row" "r = (r_id row, at_userId row)"
      and s1: "s1 = s\<lparr> db_authToken := upd_rows (\<lambda>q. r_id q = r_id row \<and> at_usedAt q = None)
        (\<lambda>q. (q\<lparr> at_usedAt := Some (db_now s) \<rparr>)\<lparr> r_updatedAt := db_now s \<rparr>) (db_authToken s) \<rparr>"
    from rest obtain u where u: "find (\<lambda>u. r_id u = at_userId row) (db_user s) = Some u"
      by (cases "find (\<lambda>u. r_id u = at_userId row) (db_user s)")
        (auto simp: bind_def raw_update_def user_t_def Let_def ok(4) s1)
    have wf1: "wf_users s1" and u1: "find (\<lambda>u. r_id u = at_userId row) (db_user s1) = Some u"
      using assms(2) u by (simp_all add: s1 wf_users_def)
    let ?f = "\<lambda>u. u\<lparr> us_passwordHash := Some ?h \<rparr>"
    let ?s2 = "put_user ?f (at_userId row) s1"
    have upd: "raw_update user_t (at_userId row) ?f s1 = (Inr ((?f u)\<lparr> r_updatedAt := db_now s1 \<rparr>), ?s2)"
      by (rule update_user_run [OF wf1 u1]) simp
    let ?mine = "\<lambda>q. rt_userId q = at_userId row \<and> rt_revokedAt q = None"
    have frame: "db_refreshToken ?s2 = db_refreshToken s" "db_now ?s2 = db_now s" "db_authToken ?s2 = db_authToken s1"
      by (simp_all add: put_user_def s1)
    have "db_user s' = db_user ?s2 \<and> db_authToken s' = db_authToken ?s2
      \<and> db_refreshToken s' = upd_rows ?mine (\<lambda>q. (q\<lparr> rt_revokedAt := Some (db_now ?s2) \<rparr>)\<lparr> r_updatedAt := db_now ?s2 \<rparr>)
          (db_refreshToken ?s2)"
      using rest by (auto simp: ok(4) bind_def upd revokeAll_def raw_updateMany_def refreshToken_t_def logAuth_apply audited_def)
    then have s': "db_user s' = db_user ?s2 \<and> db_authToken s' = db_authToken s1
      \<and> db_refreshToken s' = upd_rows ?mine (\<lambda>q. (q\<lparr> rt_revokedAt := Some (db_now s) \<rparr>)\<lparr> r_updatedAt := db_now s \<rparr>) (db_refreshToken s)"
      unfolding frame .
    have mem: "row \<in> set (db_authToken s)" using find_SomeD [OF row] by simp
    have "find (\<lambda>r. at_tokenHash r = lib_sha256 lib token) (db_authToken s1)
        = Some ((row\<lparr> at_usedAt := Some (db_now s) \<rparr>)\<lparr> r_updatedAt := db_now s \<rparr>)"
      using row ok(2) by (simp add: s1 find_upd_rows)
    then have used: "find (\<lambda>r. at_tokenHash r = lib_sha256 lib token) (db_authToken (s'\<lparr> db_now := t \<rparr>))
        = Some ((row\<lparr> at_usedAt := Some (db_now s) \<rparr>)\<lparr> r_updatedAt := db_now s \<rparr>)" using s' by simp
    have fails: "consumeToken lib token kind (s'\<lparr> db_now := t \<rparr>) = (Inl invalid_token, s'\<lparr> db_now := t \<rparr>)" for kind
      by (rule consumed_token_fails [OF used]) simp
    have "confirmReset lib ctx' salt' token password' (s'\<lparr> db_now := t \<rparr>) = (Inl invalid_token, s'\<lparr> db_now := t \<rparr>)"
      "acceptInvite lib ctx' seed salt' token password' (s'\<lparr> db_now := t \<rparr>) = (Inl invalid_token, s'\<lparr> db_now := t \<rparr>)"
      by (simp_all add: confirmReset_def acceptInvite_def Let_def transaction_def bind_def [of "consumeToken _ _ _"] fails)
    moreover have "find (\<lambda>u. r_id u = at_userId row) (db_user s') = Some ((?f u)\<lparr> r_updatedAt := db_now s1 \<rparr>)"
      using find_put_user [OF _ u1, of ?f] s' by simp
    moreover have "\<forall>q \<in> set (db_refreshToken s'). rt_userId q = at_userId row \<longrightarrow> rt_revokedAt q \<noteq> None"
      using s' by (auto simp: set_upd_rows split: if_splits)
    ultimately show ?thesis using row ok
      by (intro exI [of _ row] exI [of _ "(?f u)\<lparr> r_updatedAt := db_now s1 \<rparr>"]) simp
  qed
qed

theorem reset_link_works_once_witness:
  "\<exists>s'. confirmReset fx_crypto fx_ctx ''salt'' ''link'' ''newsecret'' fx_access = (Inr (), s')
    \<and> confirmReset fx_crypto fx_ctx ''salt'' ''link'' ''newsecret'' (s'\<lparr> db_now := 1000001 \<rparr>) = (Inl invalid_token, s'\<lparr> db_now := 1000001 \<rparr>)"
proof -
  have wf: "wf_authTokens fx_access" by (simp add: wf_authTokens_def fx_access_def)
  have "case fst (confirmReset fx_crypto fx_ctx ''salt'' ''link'' ''newsecret'' fx_access) of Inl _ \<Rightarrow> False | Inr _ \<Rightarrow> True" by code_simp
  from run_Inr [OF this] obtain x where
    r: "confirmReset fx_crypto fx_ctx ''salt'' ''link'' ''newsecret'' fx_access
      = (Inr x, snd (confirmReset fx_crypto fx_ctx ''salt'' ''link'' ''newsecret'' fx_access))" by blast
  have "x = ()" by simp
  with r reset_link_works_once [OF wf wf_users_fx(3) r] show ?thesis by blast
qed

section \<open>A password is enough to replace the second factor\<close>

text \<open>
  Setting up and enabling the second factor need a preauth token only, which login gives for
  the password, and neither looks whether a factor is already enabled: whoever has the
  password of an admin replaces the enabled secret by one of their own, without a code of the
  old one, and then holds a session.
\<close>

definition takeover :: "(db, exn, (string \<times> string) \<times> string) op" where
  "takeover =
    bind (login fx_crypto fx_ctx ''r0'' ''adm-mail'' ''secret'') (\<lambda>res.
    case res of
      Totp_required tok \<Rightarrow>
        bind (lift_res (case fst (preauthGuard fx_crypto fx_ctx (Some (''Bearer '' @ tok)) fx_access) of
            Inl (c, e) \<Rightarrow> Inl e | Inr p \<Rightarrow> Inr p)) (\<lambda>p.
        bind (generateSetup ''attacker'' (jp_sub p)) (\<lambda>_.
        bind (enableTotp fx_crypto [] (jp_sub p) ''attack'') (\<lambda>_.
        exchangeTotp fx_crypto ''r1'' tok ''attack'')))
    | _ \<Rightarrow> throw unauthorized)"

theorem password_replaces_second_factor:
  "us_totpSecret fx_admin = Some ''123456789''
    \<and> (\<exists>session s'. takeover fx_access = (Inr (session, ''platform_admin''), s')
      \<and> map us_totpSecret (filter (\<lambda>u. r_id u = ''adm'') (db_user s')) = [Some ''attacker''])"
proof -
  have "case takeover fx_access of (Inl _, _) \<Rightarrow> False | (Inr (_, role), s') \<Rightarrow> role = ''platform_admin''
      \<and> map us_totpSecret (filter (\<lambda>u. r_id u = ''adm'') (db_user s')) = [Some ''attacker'']" by code_simp
  then show ?thesis by (auto simp: fx_admin_def split: prod.splits sum.splits)
qed

end
