(* ===== verification/PairingClaims.thy ===== *)
theory PairingClaims
  imports Pairing Credentials SaleRequests
begin

text \<open>
  What holds of paired devices: whom the terminal guard admits and as whom, that pairing makes
  a device a terminal of exactly its branch and unpairing ends that, and that terminal codes
  are never given out twice, even to pairings that race.
\<close>

section \<open>The guard\<close>

definition wf_terminals :: "db \<Rightarrow> bool" where
  "wf_terminals s \<longleftrightarrow> distinct (map r_id (db_terminal s)) \<and> distinct (map (\<lambda>t. (tm_branchId t, tm_code t)) (db_terminal s))
    \<and> (\<forall>t \<in> set (db_terminal s). int4 (tm_receiptSeq t))"

lemma with_ctx_Inr_iff: "with_ctx ctx m s = (Inr x, t) \<longleftrightarrow> m s = (Inr x, t)"
  by (auto simp: with_ctx_def split: prod.splits sum.splits)

lemma pure_statusGate: "pure_op (statusGate t ow)"
  unfolding statusGate_def by (auto intro!: pure_bind simp: now_def)

lemma touch_Inr: "touch t s = (r, s') \<Longrightarrow> s'\<lparr> db_terminal := db_terminal s \<rparr> = s"
proof -
  assume a: "touch t s = (r, s')"
  show ?thesis
  proof (cases "case tm_lastSeenAt t of None \<Rightarrow> True | Some l \<Rightarrow> LAST_SEEN_THROTTLE_MS < db_now s - l")
    case True
    obtain x s1 where u: "raw_update terminal_t (r_id t) (\<lambda>r. r\<lparr> tm_lastSeenAt := Some (db_now s) \<rparr>) s = (x, s1)" by fastforce
    have "s1\<lparr> db_terminal := db_terminal s \<rparr> = s"
      using terminal_tb.raw_update_cases [OF u] by (auto simp: terminal_t_def)
    moreover have "s' = s1" using a True u by (cases x) (auto simp: touch_def bind_def)
    ultimately show ?thesis by simp
  qed (use a in \<open>simp add: touch_def\<close>)
qed

lemma terminalGuard_Inr:
  assumes "terminalGuard lib ctx header s = (Inr ctx', s')"
  obtains tok t br biz ow where "header = Some (''Bearer '' @ tok)"
    "find (\<lambda>t. tm_deviceTokenHash t = Some (lib_sha256 lib tok) \<and> live t) (db_terminal s) = Some t"
    "terminalTree s t = Some (br, biz, ow)" "ctx' = stamp_terminal lib ctx tok t br ow"
    "statusGate t ow s = (Inr (), s)" "touch t s = (Inr (), s')"
proof -
  from assms obtain tok where b: "bearer_token header = Some tok" by (auto simp: terminalGuard_def split: option.splits)
  have h: "header = Some (''Bearer '' @ tok)"
  proof (cases header)
    case (Some x)
    then have "take 7 x = ''Bearer ''" "drop 7 x = tok" using b by (auto simp: bearer_token_def split: if_splits)
    then show ?thesis using append_take_drop_id [of 7 x] Some by simp
  qed (use b in \<open>simp add: bearer_token_def\<close>)
  from assms obtain t where t: "find (\<lambda>t. tm_deviceTokenHash t = Some (lib_sha256 lib tok) \<and> live t) (db_terminal s) = Some t"
    by (auto simp: terminalGuard_def b bind_eq_Inr with_ctx_Inr_iff split: option.splits)
  from assms obtain tree where "terminalTree s t = Some tree"
    by (auto simp: terminalGuard_def b bind_eq_Inr with_ctx_Inr_iff t split: option.splits)
  then obtain br biz ow where tr: "terminalTree s t = Some (br, biz, ow)" by (cases tree) auto
  from assms obtain u s1 where g: "statusGate t ow s = (Inr u, s1)" and
    r: "touch t s1 = (Inr (), s')" "ctx' = stamp_terminal lib ctx tok t br ow"
    by (auto simp: terminalGuard_def b bind_eq_Inr with_ctx_Inr_iff t tr Let_def)
  have "s1 = s" using pure_op_result [OF pure_statusGate g] .
  with g r show thesis by (intro that [OF h t tr]) simp_all
qed

lemma statusGate_Inr:
  "statusGate t ow s = (Inr u, s') \<Longrightarrow> ow_status ow = Active
    \<or> (ow_status ow = Suspended \<and> within_grace (db_now s) ow \<and> has_open_shift s (r_id t))"
  by (cases "ow_status ow") (auto simp: statusGate_def split: if_splits)

lemma terminalTree_Some:
  "terminalTree s t = Some (br, biz, ow) \<Longrightarrow> br \<in> set (db_branch s) \<and> r_id br = tm_branchId t
    \<and> biz \<in> set (db_business s) \<and> r_id biz = br_businessId br \<and> ow \<in> set (db_owner s) \<and> r_id ow = bz_ownerId biz"
  by (auto simp: terminalTree_def split: option.splits dest!: find_SomeD)

text \<open>
  C28. Whoever passes the terminal guard holds the token of a paired, live terminal and acts as that
  terminal, of its own branch, business and owner and of no other; the owner is active, or
  suspended for less than a day while the terminal still has an open shift. The guard writes
  nothing but the terminal's own row.
\<close>

theorem guard_admits_paired_terminals:
  assumes "terminalGuard lib ctx header s = (Inr ctx', s')" and "cx_tx ctx = None"
  shows "\<exists>tok t br biz ow. header = Some (''Bearer '' @ tok) \<and> t \<in> set (db_terminal s)
    \<and> tm_deviceTokenHash t = Some (lib_sha256 lib tok) \<and> live t
    \<and> br \<in> set (db_branch s) \<and> biz \<in> set (db_business s) \<and> ow \<in> set (db_owner s)
    \<and> r_id br = tm_branchId t \<and> r_id biz = br_businessId br \<and> r_id ow = bz_ownerId biz
    \<and> terminal_of ctx' (r_id br) (r_id t) (r_id biz) \<and> cx_ownerId ctx' = Some (r_id ow)
    \<and> (ow_status ow = Active \<or> (ow_status ow = Suspended \<and> within_grace (db_now s) ow \<and> has_open_shift s (r_id t)))
    \<and> s'\<lparr> db_terminal := db_terminal s \<rparr> = s"
proof (rule terminalGuard_Inr [OF assms(1)])
  fix tok t br biz ow
  assume h: "header = Some (''Bearer '' @ tok)"
    and t: "find (\<lambda>t. tm_deviceTokenHash t = Some (lib_sha256 lib tok) \<and> live t) (db_terminal s) = Some t"
    and tr: "terminalTree s t = Some (br, biz, ow)" and c: "ctx' = stamp_terminal lib ctx tok t br ow"
    and g: "statusGate t ow s = (Inr (), s)" and r: "touch t s = (Inr (), s')"
  have "terminal_of ctx' (r_id br) (r_id t) (r_id biz) \<and> cx_ownerId ctx' = Some (r_id ow)"
    using terminalTree_Some [OF tr] assms(2) by (simp add: c stamp_terminal_def terminal_of_def)
  with h find_SomeD [OF t] terminalTree_Some [OF tr] statusGate_Inr [OF g] touch_Inr [OF r] show ?thesis
    by (intro exI [of _ tok] exI [of _ t] exI [of _ br] exI [of _ biz] exI [of _ ow]) simp
qed

theorem guard_admits_paired_terminals_witness:
  "\<exists>ctx' s' biz. terminalGuard fx_crypto fx_ctx (Some ''Bearer tm1'') fx_db = (Inr ctx', s') \<and> terminal_of ctx' ''br1'' ''tm1'' biz"
proof -
  have "case fst (terminalGuard fx_crypto fx_ctx (Some ''Bearer tm1'') fx_db) of Inl _ \<Rightarrow> False | Inr c \<Rightarrow> cx_actor c = Some (Act_terminal, ''tm1'') \<and> cx_branchId c = Some ''br1''"
    by code_simp
  from run_Inr [OF this] obtain c where
    g: "terminalGuard fx_crypto fx_ctx (Some ''Bearer tm1'') fx_db = (Inr c, snd (terminalGuard fx_crypto fx_ctx (Some ''Bearer tm1'') fx_db))"
    and c: "cx_actor c = Some (Act_terminal, ''tm1'')" "cx_branchId c = Some ''br1''" by blast
  have "cx_tx fx_ctx = None" by (simp add: fx_ctx_def new_context_def)
  from guard_admits_paired_terminals [OF g this] obtain br t biz where "terminal_of c (r_id (br :: branch_row)) (r_id (t :: terminal_row)) (r_id (biz :: business_row))"
    by blast
  with c have "terminal_of c ''br1'' ''tm1'' (r_id biz)" by (simp add: terminal_of_def)
  with g show ?thesis by blast
qed

section \<open>Codes\<close>

text \<open>
  The codes of a branch are among the first as many as it ever had terminals; identifiers the
  database has not generated yet are unused.
\<close>

definition codes_ok :: "uid \<Rightarrow> db \<Rightarrow> bool" where
  "codes_ok br s \<longleftrightarrow> (\<forall>t \<in> set (db_terminal s).
    (tm_branchId t = br \<longrightarrow> (\<exists>k. 1 \<le> k \<and> k \<le> priorCount br s \<and> tm_code t = terminal_code k))
    \<and> (\<forall>k \<ge> db_nextId s. r_id t \<noteq> nth_uuid k))"

lemma terminal_code_inj: "terminal_code m = terminal_code n \<longleftrightarrow> m = n"
  by (auto simp: terminal_code_def dest: show_nat_inj)

lemma attempt_run:
  assumes "codes_ok br (env s)"
  shows "(\<exists>r s'. attemptTerminal env br name h s = (Inr r, s') \<and> db_terminal s' = db_terminal (env s) @ [r]
      \<and> tm_branchId r = br \<and> tm_code r = terminal_code (priorCount br s + 1)
      \<and> (\<forall>t \<in> set (db_terminal (env s)). tm_branchId t = br \<longrightarrow> tm_code t \<noteq> tm_code r)
      \<and> (priorCount br s \<le> priorCount br (env s) \<longrightarrow> codes_ok br s'))
    \<or> (attemptTerminal env br name h s = (Inl Unique_violation, (env s)\<lparr> db_nextId := Suc (db_nextId (env s)) \<rparr>)
      \<and> priorCount br s \<noteq> priorCount br (env s))"
proof -
  let ?s = "(env s)\<lparr> db_nextId := Suc (db_nextId (env s)) \<rparr>"
  let ?r = "(new_terminal (nth_uuid (db_nextId (env s))) br name (priorCount br s) h)\<lparr> r_createdAt := db_now ?s,
      r_updatedAt := db_now ?s, r_deletedAt := None \<rparr>"
  have fresh: "\<not> (\<exists>q \<in> set (db_terminal (env s)). r_id q = nth_uuid (db_nextId (env s)))"
    using assms by (auto simp: codes_ok_def)
  have run: "attemptTerminal env br name h s
      = raw_insert terminal_t (new_terminal (nth_uuid (db_nextId (env s))) br name (priorCount br s) h) ?s"
    by (simp add: attemptTerminal_def bind_def)
  have ok: "tb_ok terminal_t (db_terminal (env s)) ?r
      = (if unique_ok (\<lambda>q. Some (tm_branchId q, tm_code q)) (db_terminal (env s)) ?r then None else Some Unique_violation)"
    by (simp add: terminal_t_def column_check_def new_terminal_def int4_def)
  have nid: "r_id (new_terminal (nth_uuid (db_nextId (env s))) br name (priorCount br s) h) = nth_uuid (db_nextId (env s))"
    by (simp add: new_terminal_def)
  have get: "tb_get terminal_t ?s = db_terminal (env s)" by (simp add: terminal_t_def)
  show ?thesis
  proof (cases "unique_ok (\<lambda>q. Some (tm_branchId q, tm_code q)) (db_terminal (env s)) ?r")
    case True
    let ?t = "tb_put terminal_t (db_terminal (env s) @ [?r]) ?s"
    have "attemptTerminal env br name h s = (Inr ?r, ?t)"
      unfolding run raw_insert_def get Let_def nid if_not_P [OF fresh] ok if_P [OF True] by simp
    moreover have "db_terminal ?t = db_terminal (env s) @ [?r]" by (simp add: terminal_t_def)
    moreover have "tm_branchId ?r = br" "tm_code ?r = terminal_code (priorCount br s + 1)" by (simp_all add: new_terminal_def)
    moreover have "\<forall>t \<in> set (db_terminal (env s)). tm_branchId t = br \<longrightarrow> tm_code t \<noteq> tm_code ?r"
      using True by (auto simp: unique_ok_def new_terminal_def)
    moreover have "codes_ok br ?t" if le: "priorCount br s \<le> priorCount br (env s)"
    proof -
      have c: "priorCount br ?t = Suc (priorCount br (env s))" by (simp add: priorCount_def terminal_t_def new_terminal_def)
      have "\<exists>k. 1 \<le> k \<and> k \<le> priorCount br ?t \<and> tm_code x = terminal_code k"
        if "x \<in> set (db_terminal ?t)" and xb: "tm_branchId x = br" for x
      proof (cases "x = ?r")
        case True
        then show ?thesis using le unfolding c by (intro exI [of _ "priorCount br s + 1"]) (simp add: new_terminal_def)
      next
        case False
        then have "x \<in> set (db_terminal (env s))" using that(1) by (simp add: terminal_t_def)
        then obtain k where "1 \<le> k" "k \<le> priorCount br (env s)" "tm_code x = terminal_code k"
          using assms xb by (auto simp: codes_ok_def)
        then show ?thesis unfolding c by (intro exI [of _ k]) simp
      qed
      moreover have "r_id x \<noteq> nth_uuid k" if "x \<in> set (db_terminal ?t)" "db_nextId ?t \<le> k" for x k
      proof -
        have k: "Suc (db_nextId (env s)) \<le> k" using that(2) by (simp add: terminal_t_def)
        show ?thesis
        proof (cases "x = ?r")
          case True
          then show ?thesis using k by (simp add: new_terminal_def nth_uuid_inj)
        next
          case False
          then have "x \<in> set (db_terminal (env s))" using that(1) by (simp add: terminal_t_def)
          then show ?thesis using assms k by (auto simp: codes_ok_def)
        qed
      qed
      ultimately show ?thesis unfolding codes_ok_def by blast
    qed
    ultimately show ?thesis by blast
  next
    case False
    then have "attemptTerminal env br name h s = (Inl Unique_violation, ?s)"
      unfolding run raw_insert_def get Let_def nid if_not_P [OF fresh] ok by simp
    moreover from False obtain t where "t \<in> set (db_terminal (env s))" "tm_branchId t = br"
      "tm_code t = terminal_code (priorCount br s + 1)"
      by (auto simp: unique_ok_def new_terminal_def)
    then have "priorCount br s \<noteq> priorCount br (env s)"
      using assms by (fastforce simp: codes_ok_def terminal_code_inj)
    ultimately show ?thesis by blast
  qed
qed

lemma codes_ok_next: "codes_ok br s \<Longrightarrow> codes_ok br (s\<lparr> db_nextId := Suc (db_nextId s) \<rparr>)"
  by (auto simp: codes_ok_def priorCount_def)

text \<open>
  \<open>raced br env k s s'\<close>: the attempts numbered \<open>k\<close> down to 0 all lost their race: each counted the
  terminals of the branch and found more of them when it inserted; \<open>s'\<close> is what the last one leaves,
  with nothing but used-up identifiers of its own.
\<close>

fun raced :: "uid \<Rightarrow> (nat \<Rightarrow> db \<Rightarrow> db) \<Rightarrow> nat \<Rightarrow> db \<Rightarrow> db \<Rightarrow> bool" where
  "raced br env 0 s s' \<longleftrightarrow> priorCount br s < priorCount br (env 0 s) \<and> s' = (env 0 s)\<lparr> db_nextId := Suc (db_nextId (env 0 s)) \<rparr>"
| "raced br env (Suc k) s s' \<longleftrightarrow> priorCount br s < priorCount br (env (Suc k) s)
    \<and> raced br env k ((env (Suc k) s)\<lparr> db_nextId := Suc (db_nextId (env (Suc k) s)) \<rparr>) s'"

lemma createTerminal_run:
  assumes "\<And>k s. codes_ok br s \<Longrightarrow> codes_ok br (env k s) \<and> priorCount br s \<le> priorCount br (env k s)"
    and "codes_ok br s"
  shows "(\<exists>r s'. createTerminal env k br name h s = (Inr r, s') \<and> last (db_terminal s') = r \<and> db_terminal s' \<noteq> []
      \<and> tm_branchId r = br \<and> (\<forall>t \<in> set (butlast (db_terminal s')). tm_branchId t = br \<longrightarrow> tm_code t \<noteq> tm_code r)
      \<and> codes_ok br s')
    \<or> (\<exists>s'. createTerminal env k br name h s = (Inl Unique_violation, s') \<and> raced br env k s s' \<and> codes_ok br s')"
  using assms(2)
proof (induction k arbitrary: s)
  case 0
  have ok: "codes_ok br (env 0 s)" "priorCount br s \<le> priorCount br (env 0 s)" using assms(1) 0 by blast+
  show ?case using attempt_run [of br "env 0" s name h, OF ok(1)] ok(2) codes_ok_next [OF ok(1)] by auto
next
  case (Suc k)
  have ok: "codes_ok br (env (Suc k) s)" "priorCount br s \<le> priorCount br (env (Suc k) s)" using assms(1) Suc.prems by blast+
  show ?case
  proof (cases "fst (attemptTerminal (env (Suc k)) br name h s)")
    case (Inr r)
    then show ?thesis using attempt_run [of br "env (Suc k)" s name h] ok by (auto simp: catch_op_def)
  next
    case (Inl e)
    then have a: "attemptTerminal (env (Suc k)) br name h s
        = (Inl Unique_violation, (env (Suc k) s)\<lparr> db_nextId := Suc (db_nextId (env (Suc k) s)) \<rparr>)"
      and ne: "priorCount br s < priorCount br (env (Suc k) s)"
      using attempt_run [of br "env (Suc k)" s name h] ok by auto
    from Suc.IH [OF codes_ok_next [OF ok(1)]] ne show ?thesis by (simp add: catch_op_def a)
  qed
qed

text \<open>
  C29. Terminal codes are never reused. Whatever other pairings commit between the count and the
  insert of each attempt, a pairing ends in one of two ways. Either the terminal is created, with
  a code no terminal of the branch, deleted or not, ever had. Or it fails with the unique
  violation, and then only because all four attempts, the first and the three retries, found more
  terminals at their insert than they had counted; it leaves what the others wrote and no row of
  its own. In both cases the codes of the branch stay numbered by its terminals.
\<close>

theorem pairing_code_is_new:
  assumes "\<forall>k s. codes_ok br s \<longrightarrow> codes_ok br (env k s) \<and> priorCount br s \<le> priorCount br (env k s)"
    and "codes_ok br s"
  shows "(\<exists>r s'. createTerminal env MAX_RETRIES br name h s = (Inr r, s') \<and> last (db_terminal s') = r
      \<and> tm_branchId r = br \<and> (\<forall>t \<in> set (butlast (db_terminal s')). tm_branchId t = br \<longrightarrow> tm_code t \<noteq> tm_code r)
      \<and> codes_ok br s')
    \<or> (\<exists>s'. createTerminal env MAX_RETRIES br name h s = (Inl Unique_violation, s') \<and> raced br env 3 s s' \<and> codes_ok br s')"
proof -
  have "MAX_RETRIES = 3" by (simp add: MAX_RETRIES_def)
  then show ?thesis using createTerminal_run [of br env s MAX_RETRIES name h] assms by auto
qed

text \<open>A pairing of another device that commits in between.\<close>

definition fx_rival :: "nat \<Rightarrow> db \<Rightarrow> db" where
  "fx_rival k s = (if k = 3 then s\<lparr> db_terminal := db_terminal s
      @ [new_terminal (nth_uuid (db_nextId s)) ''br1'' ''Rival'' (priorCount ''br1'' s) ''#rival''],
      db_nextId := Suc (db_nextId s) \<rparr> else s)"

lemma fx_rival_ok: "codes_ok ''br1'' s \<Longrightarrow> codes_ok ''br1'' (fx_rival k s) \<and> priorCount ''br1'' s \<le> priorCount ''br1'' (fx_rival k s)"
  by (fastforce simp: fx_rival_def codes_ok_def priorCount_def new_terminal_def nth_uuid_inj)

lemma fx_codes: "codes_ok ''br1'' fx_db"
proof -
  have "''T1'' = terminal_code 1" by code_simp
  then show ?thesis
    by (auto simp: codes_ok_def priorCount_def fx_db_def empty_db_def fx_terminal_def nth_uuid_def)
qed

theorem pairing_code_is_new_witness:
  "\<exists>r s'. createTerminal fx_rival MAX_RETRIES ''br1'' ''Till'' ''#new'' fx_db = (Inr r, s') \<and> codes_ok ''br1'' s'"
proof -
  have "\<forall>k s. codes_ok ''br1'' s \<longrightarrow> codes_ok ''br1'' (fx_rival k s) \<and> priorCount ''br1'' s \<le> priorCount ''br1'' (fx_rival k s)"
    using fx_rival_ok by blast
  moreover have "\<not> raced ''br1'' fx_rival 3 fx_db s'" for s' by (simp add: eval_nat_numeral fx_rival_def)
  ultimately show ?thesis using pairing_code_is_new [of "''br1''" fx_rival fx_db "''Till''" "''#new''"] fx_codes by blast
qed

section \<open>Pairing and unpairing\<close>

lemma findOwner_bind [simp]: "bind (findOwner i) f s = f (find (\<lambda>w. r_id w = i) (db_owner s)) s"
  by (simp add: bind_def)

lemma ownedBusiness_Inr:
  "ownedBusiness ow i s = (Inr b, s') \<longleftrightarrow> s' = s \<and> find (\<lambda>b. r_id b = i \<and> bz_ownerId b = ow \<and> live b) (db_business s) = Some b"
  by (auto simp: ownedBusiness_def split: option.splits)

lemma pair_Inr:
  assumes "pair lib ctx env tok ow usr dto s = (Inr r, s')"
  obtains biz br owner t s1 where "find (\<lambda>b. r_id b = pd_businessId dto \<and> bz_ownerId b = ow \<and> live b) (db_business s) = Some biz"
    "find (\<lambda>b. r_id b = pd_branchId dto \<and> br_businessId b = r_id biz \<and> live b) (db_branch s) = Some br"
    "find (\<lambda>w. r_id w = ow) (db_owner s) = Some owner" "ow_status owner = Active"
    "createTerminal env MAX_RETRIES (r_id br) (pd_terminalName dto) (lib_sha256 lib tok) s = (Inr t, s1)"
    "pa_terminalCode r = tm_code t" "pa_deviceToken r = tok"
    "db_terminal s' = db_terminal s1" "db_branch s' = db_branch s1" "db_business s' = db_business s1" "db_owner s' = db_owner s1"
    "db_now s' = db_now s1"
proof -
  from assms obtain biz where biz: "find (\<lambda>b. r_id b = pd_businessId dto \<and> bz_ownerId b = ow \<and> live b) (db_business s) = Some biz"
    by (auto simp: pair_def bind_eq_Inr ownedBusiness_Inr)
  then have b: "ownedBusiness ow (pd_businessId dto) s = (Inr biz, s)" by (simp add: ownedBusiness_Inr)
  from assms obtain br where br: "find (\<lambda>b. r_id b = pd_branchId dto \<and> br_businessId b = r_id biz \<and> live b) (db_branch s) = Some br"
    by (auto simp: pair_def bind_def [of "ownedBusiness _ _"] b split: option.splits)
  from assms obtain owner where w: "find (\<lambda>w. r_id w = ow) (db_owner s) = Some owner"
    by (auto simp: pair_def bind_def [of "ownedBusiness _ _"] b br bind_def [of "orThrow _ _"] orThrow_def split: option.splits)
  have rest: "ow_status owner = Active" "\<exists>t s1. createTerminal env MAX_RETRIES (r_id br) (pd_terminalName dto) (lib_sha256 lib tok) s = (Inr t, s1)
     \<and> pa_terminalCode r = tm_code t \<and> pa_deviceToken r = tok \<and> (\<exists>a. s' = audited a s1)"
    using assms by (auto simp: pair_def bind_def [of "ownedBusiness _ _"] b br w bind_def [of "orThrow _ _"] bind_eq_Inr
        pairingAudit_def insert_audit_audited simp del: insert_audit_apply split: if_splits)
  then obtain t s1 a where "createTerminal env MAX_RETRIES (r_id br) (pd_terminalName dto) (lib_sha256 lib tok) s = (Inr t, s1)"
     "pa_terminalCode r = tm_code t" "pa_deviceToken r = tok" "s' = audited a s1" by blast
  with rest(1) show thesis by (intro that [OF biz br w]) (simp_all add: audited_def)
qed

lemma createTerminal_Inr:
  assumes "createTerminal (\<lambda>_ s. s) k br name h s = (Inr t, s')"
  shows "tm_branchId t = br \<and> tm_deviceTokenHash t = Some h \<and> tm_lastSeenAt t = None \<and> live t \<and> tm_receiptSeq t = 1
    \<and> db_terminal s' = db_terminal s @ [t] \<and> r_id t \<notin> r_id ` set (db_terminal s)
    \<and> (br, tm_code t) \<notin> (\<lambda>t. (tm_branchId t, tm_code t)) ` set (db_terminal s)
    \<and> db_branch s' = db_branch s \<and> db_business s' = db_business s \<and> db_owner s' = db_owner s"
  using assms
proof (induction k arbitrary: s)
  case 0
  then show ?case
    by (auto simp: attemptTerminal_def bind_def raw_insert_def terminal_t_def Let_def column_check_def unique_ok_def
        new_terminal_def live_def int4_def split: if_splits)
next
  case (Suc k)
  show ?case
  proof (cases "attemptTerminal (\<lambda>s. s) br name h s")
    case (Pair res s1)
    show ?thesis
    proof (cases res)
      case (Inr r)
      then show ?thesis using Suc.prems Pair
        by (auto simp: catch_op_def attemptTerminal_def bind_def raw_insert_def terminal_t_def Let_def column_check_def
            unique_ok_def new_terminal_def live_def int4_def split: if_splits)
    next
      case (Inl e)
      have e: "s1 = s\<lparr> db_nextId := Suc (db_nextId s) \<rparr>"
        using Pair Inl terminal_tb.raw_insert_cases
        by (auto simp: attemptTerminal_def bind_def dest!: terminal_tb.raw_insert_cases)
      have "createTerminal (\<lambda>_ s. s) k br name h s1 = (Inr t, s')"
        using Suc.prems Pair Inl by (auto simp: catch_op_def split: if_splits)
      from Suc.IH [OF this] show ?thesis by (simp add: e)
    qed
  qed
qed

lemma touch_run:
  assumes "wf_terminals s" "t \<in> set (db_terminal s)"
  shows "\<exists>s'. touch t s = (Inr (), s')"
proof (cases "case tm_lastSeenAt t of None \<Rightarrow> True | Some l \<Rightarrow> LAST_SEEN_THROTTLE_MS < db_now s - l")
  case True
  have f: "find (\<lambda>r. r_id r = r_id t) (db_terminal s) = Some t"
    using assms by (auto simp: wf_terminals_def intro: find_distinct_key)
  have "unique_ok (\<lambda>q. Some (tm_branchId q, tm_code q)) (filter (\<lambda>q. r_id q \<noteq> r_id t) (db_terminal s))
      ((t\<lparr> tm_lastSeenAt := Some (db_now s) \<rparr>)\<lparr> r_updatedAt := db_now s \<rparr>)"
    using assms by (auto simp: unique_ok_def wf_terminals_def distinct_map inj_on_def)
  then show ?thesis using True assms
    by (auto simp: touch_def bind_def raw_update_def terminal_t_def Let_def f column_check_def wf_terminals_def)
qed (simp add: touch_def)

lemma terminalGuard_run:
  assumes "find (\<lambda>t. tm_deviceTokenHash t = Some (lib_sha256 lib tok) \<and> live t) (db_terminal s) = Some t"
    and "terminalTree s t = Some (br, biz, ow)" "ow_status ow = Active" "wf_terminals s"
  shows "\<exists>s'. terminalGuard lib ctx (Some (''Bearer '' @ tok)) s = (Inr (stamp_terminal lib ctx tok t br ow), s')"
proof -
  have "t \<in> set (db_terminal s)" using find_SomeD [OF assms(1)] by simp
  from touch_run [OF assms(4) this] obtain s' where "touch t s = (Inr (), s')" ..
  then show ?thesis
    by (simp add: terminalGuard_def bearer_token_def bind_def with_ctx_def assms(1-3) Let_def statusGate_def)
qed

text \<open>
  A paired device is let in at once, as a terminal of the branch and business it was paired with
  and of the owner who paired it, under the code it was given.
\<close>

theorem paired_device_is_admitted:
  assumes "pair lib ctx (\<lambda>_ s. s) tok ow usr dto s = (Inr r, s')" and "wf_terminals s"
    and "distinct (map r_id (db_branch s))" and "distinct (map r_id (db_business s))"
    and "\<forall>t \<in> set (db_terminal s). live t \<longrightarrow> tm_deviceTokenHash t \<noteq> Some (lib_sha256 lib tok)" and "cx_tx ctx0 = None"
  shows "\<exists>ctx1 tm s2. terminalGuard lib ctx0 (Some (''Bearer '' @ pa_deviceToken r)) s' = (Inr ctx1, s2)
    \<and> terminal_of ctx1 (pd_branchId dto) tm (pd_businessId dto) \<and> cx_ownerId ctx1 = Some ow
    \<and> cx_terminalCode ctx1 = Some (pa_terminalCode r)"
proof (rule pair_Inr [OF assms(1)])
  fix biz br owner t s1
  assume biz: "find (\<lambda>b. r_id b = pd_businessId dto \<and> bz_ownerId b = ow \<and> live b) (db_business s) = Some biz"
    and br: "find (\<lambda>b. r_id b = pd_branchId dto \<and> br_businessId b = r_id biz \<and> live b) (db_branch s) = Some br"
    and w: "find (\<lambda>w. r_id w = ow) (db_owner s) = Some owner" "ow_status owner = Active"
    and c: "createTerminal (\<lambda>_ s. s) MAX_RETRIES (r_id br) (pd_terminalName dto) (lib_sha256 lib tok) s = (Inr t, s1)"
    and r: "pa_terminalCode r = tm_code t" "pa_deviceToken r = tok"
    and s': "db_terminal s' = db_terminal s1" "db_branch s' = db_branch s1" "db_business s' = db_business s1" "db_owner s' = db_owner s1"
  note t = createTerminal_Inr [OF c]
  note biz' = find_SomeD [OF biz] and br' = find_SomeD [OF br] and w' = find_SomeD [OF w(1)]
  have "find (\<lambda>t. tm_deviceTokenHash t = Some (lib_sha256 lib tok) \<and> live t) (db_terminal s) = None"
    using assms(5) by (auto simp: find_None_iff)
  then have f: "find (\<lambda>t. tm_deviceTokenHash t = Some (lib_sha256 lib tok) \<and> live t) (db_terminal s') = Some t"
    using t by (simp add: s' find_append)
  have "find (\<lambda>b. r_id b = tm_branchId t) (db_branch s') = Some br"
    using find_distinct_key [OF assms(3), of br] br' t by (simp add: s')
  moreover have "find (\<lambda>b. r_id b = br_businessId br) (db_business s') = Some biz"
    using find_distinct_key [OF assms(4), of biz] biz' br' t by (simp add: s')
  moreover have "find (\<lambda>w. r_id w = bz_ownerId biz) (db_owner s') = Some owner" using w(1) biz' t by (simp add: s')
  ultimately have tr: "terminalTree s' t = Some (br, biz, owner)" by (simp add: terminalTree_def)
  have wf: "wf_terminals s'" using assms(2) t by (auto simp: wf_terminals_def s' int4_def)
  from terminalGuard_run [OF f tr w(2) wf, of ctx0] obtain s2 where
    g: "terminalGuard lib ctx0 (Some (''Bearer '' @ tok)) s' = (Inr (stamp_terminal lib ctx0 tok t br owner), s2)" ..
  have "terminal_of (stamp_terminal lib ctx0 tok t br owner) (pd_branchId dto) (r_id t) (pd_businessId dto)"
    "cx_ownerId (stamp_terminal lib ctx0 tok t br owner) = Some ow"
    "cx_terminalCode (stamp_terminal lib ctx0 tok t br owner) = Some (tm_code t)"
    using t br' biz' w' assms(6) by (simp_all add: stamp_terminal_def terminal_of_def)
  with g r show ?thesis by (intro exI conjI) simp_all
qed

text \<open>Owner credentials are checked on users, owners and the audit log only.\<close>

lemma keeps_verifyOwner: "keeps (\<lambda>s. g (db_terminal s) (db_branch s) (db_business s)) (verifyOwnerCredentials lib ctx e pw a)"
proof -
  let ?P = "\<lambda>s. g (db_terminal s) (db_branch s) (db_business s)"
  have f: "framed ?P user_t" by (simp add: framed_def user_t_def)
  have "keeps ?P (insert_audit x)" for x by (simp add: keeps_def)
  then show ?thesis
    unfolding verifyOwnerCredentials_def failLogin_def logAuth_def assertNotLocked_def recordFailure_def recordSuccess_def
      findUserByEmail_def findOwner_def Let_def
    by (intro keeps_intros framed_update f)
qed

text \<open>
  Unpairing takes an owner's password for the terminal's own business, and from then on the
  device is refused: no request with its token is admitted, at any time, nothing is
  written for it, and the terminal stays on record with its code, so the code is not
  given out again.
\<close>

theorem unpaired_device_is_refused:
  assumes "unpair lib ctx tok e pw s = (Inr u, s')" and "wf_terminals s"
    and "\<forall>t \<in> set (db_terminal s). \<forall>q \<in> set (db_terminal s). live t \<and> live q
      \<and> tm_deviceTokenHash t = Some (lib_sha256 lib tok) \<and> tm_deviceTokenHash q = Some (lib_sha256 lib tok) \<longrightarrow> t = q"
  shows "terminalGuard lib ctx0 (Some (''Bearer '' @ tok)) (s'\<lparr> db_now := n \<rparr>) = (Inl (ctx0, unauthorized), s'\<lparr> db_now := n \<rparr>)
    \<and> map (\<lambda>t. (r_id t, tm_branchId t, tm_code t)) (db_terminal s') = map (\<lambda>t. (r_id t, tm_branchId t, tm_code t)) (db_terminal s)
    \<and> (\<exists>t br biz user ow s1. t \<in> set (db_terminal s) \<and> tm_deviceTokenHash t = Some (lib_sha256 lib tok)
      \<and> br \<in> set (db_branch s) \<and> r_id br = tm_branchId t \<and> biz \<in> set (db_business s) \<and> r_id biz = br_businessId br
      \<and> verifyOwnerCredentials lib ctx e pw ''auth.unpair_failed'' s = (Inr (user, ow), s1) \<and> r_id ow = bz_ownerId biz)"
proof -
  from assms(1) obtain t where t: "find (\<lambda>t. tm_deviceTokenHash t = Some (lib_sha256 lib tok) \<and> live t) (db_terminal s) = Some t"
    by (auto simp: unpair_def bind_def split: option.splits)
  from assms(1) obtain br where br: "find (\<lambda>b. r_id b = tm_branchId t) (db_branch s) = Some br"
    by (auto simp: unpair_def bind_def [of "findTerminal _ _"] t bind_def [of "orThrow _ _"] orThrow_def split: option.splits)
  from assms(1) obtain p s1 where v: "verifyOwnerCredentials lib ctx e pw ''auth.unpair_failed'' s = (Inr p, s1)"
    by (auto simp: unpair_def bind_def [of "findTerminal _ _"] t bind_def [of "orThrow _ _"] br bind_eq_Inr)
  obtain user ow where p: "p = (user, ow)" by (cases p)
  have keep: "db_terminal s1 = db_terminal s" "db_business s1 = db_business s"
    using keeps_eq [of db_terminal "verifyOwnerCredentials lib ctx e pw ''auth.unpair_failed''" s, OF keeps_verifyOwner v]
      keeps_eq [of db_business "verifyOwnerCredentials lib ctx e pw ''auth.unpair_failed''" s, OF keeps_verifyOwner v] by simp_all
  from assms(1) obtain biz where biz: "find (\<lambda>z. r_id z = br_businessId br) (db_business s) = Some biz" "r_id ow = bz_ownerId biz"
    by (auto simp: unpair_def bind_def [of "findTerminal _ _"] t bind_def [of "orThrow _ _"] br
        bind_def [of "verifyOwnerCredentials _ _ _ _ _"] v p keep orThrow_def split: option.splits if_splits)
  have rest: "bind (raw_update terminal_t (r_id t) (\<lambda>t. t\<lparr> tm_deviceTokenHash := None \<rparr>)) (\<lambda>_.
        pairingAudit ctx ''terminal.unpair'' (r_id user) (r_id ow) (Some (br_businessId br))
          (Some (tm_branchId t)) ''terminal'' (r_id t) None [(''terminalCode'', tm_code t)]) s1 = (Inr u, s')"
    using assms(1) by (simp add: unpair_def bind_def [of "findTerminal _ _"] t bind_def [of "orThrow _ _"] br
        bind_def [of "verifyOwnerCredentials _ _ _ _ _"] v p keep biz)
  then obtain t' s2 where up: "raw_update terminal_t (r_id t) (\<lambda>t. t\<lparr> tm_deviceTokenHash := None \<rparr>) s1 = (Inr t', s2)"
    and s': "db_terminal s' = db_terminal s2"
    by (auto simp: bind_eq_Inr pairingAudit_def)
  have ft: "find (\<lambda>r. r_id r = r_id t) (db_terminal s) = Some t"
    using find_SomeD [OF t] assms(2) by (auto simp: wf_terminals_def intro: find_distinct_key)
  have rows: "db_terminal s' = upd_rows (\<lambda>q. r_id q = r_id t) (\<lambda>_. t') (db_terminal s)"
    and t': "t' = (t\<lparr> tm_deviceTokenHash := None \<rparr>)\<lparr> r_updatedAt := db_now s1 \<rparr>"
    using terminal_tb.raw_update_cases [OF up] ft by (auto simp: s' terminal_t_def keep)
  have same: "q = t" if "q \<in> set (db_terminal s)" "r_id q = r_id t" for q
    using that find_SomeD [OF t] assms(2) by (auto simp: wf_terminals_def distinct_map inj_on_def)
  have rows2: "db_terminal s' = upd_rows (\<lambda>q. r_id q = r_id t) (\<lambda>q. (q\<lparr> tm_deviceTokenHash := None \<rparr>)\<lparr> r_updatedAt := db_now s1 \<rparr>) (db_terminal s)"
    unfolding rows by (rule upd_rows_cong) (drule (1) same, simp add: t')
  have gone: "\<not> (tm_deviceTokenHash q = Some (lib_sha256 lib tok) \<and> live q)" if q: "q \<in> set (db_terminal s')" for q
  proof -
    from q obtain r where r: "r \<in> set (db_terminal s)"
        "q = (if r_id r = r_id t then (r\<lparr> tm_deviceTokenHash := None \<rparr>)\<lparr> r_updatedAt := db_now s1 \<rparr> else r)"
      unfolding rows2 set_upd_rows by blast
    show ?thesis
    proof (cases "r_id r = r_id t")
      case False
      then have "q = r" using r(2) by simp
      then show ?thesis using False r(1) assms(3) find_SomeD [OF t] by metis
    qed (use r(2) in simp)
  qed
  then have "find (\<lambda>t. tm_deviceTokenHash t = Some (lib_sha256 lib tok) \<and> live t) (db_terminal (s'\<lparr> db_now := n \<rparr>)) = None"
    by (auto simp: find_None_iff)
  then have "terminalGuard lib ctx0 (Some (''Bearer '' @ tok)) (s'\<lparr> db_now := n \<rparr>) = (Inl (ctx0, unauthorized), s'\<lparr> db_now := n \<rparr>)"
    by (simp add: terminalGuard_def bearer_token_def bind_def with_ctx_def)
  moreover have "map (\<lambda>t. (r_id t, tm_branchId t, tm_code t)) (db_terminal s') = map (\<lambda>t. (r_id t, tm_branchId t, tm_code t)) (db_terminal s)"
    unfolding rows2 by (rule map_upd_rows) simp
  moreover have "t \<in> set (db_terminal s) \<and> tm_deviceTokenHash t = Some (lib_sha256 lib tok)" "br \<in> set (db_branch s) \<and> r_id br = tm_branchId t"
    "biz \<in> set (db_business s) \<and> r_id biz = br_businessId br"
    using find_SomeD [OF t] find_SomeD [OF br] find_SomeD [OF biz(1)] by simp_all
  ultimately show ?thesis using biz(2) v [unfolded p]
    by (intro conjI exI [of _ t] exI [of _ br] exI [of _ biz] exI [of _ user] exI [of _ ow] exI [of _ s1]) simp_all
qed

lemma fx_terminals: "wf_terminals fx_db" "distinct (map r_id (db_branch fx_db))" "distinct (map r_id (db_business fx_db))"
  by (simp_all add: wf_terminals_def fx_db_def fx_terminal_def fx_branch_def fx_business_def int4_def)

theorem paired_device_is_admitted_witness:
  "\<exists>r s' ctx1 tm s2. pair fx_crypto fx_ctx (\<lambda>_ s. s) ''newdev'' ''own1'' ''usr1'' \<lparr> pd_businessId = ''biz1'', pd_branchId = ''br1'', pd_terminalName = ''Till'' \<rparr> fx_db
      = (Inr r, s')
    \<and> terminalGuard fx_crypto fx_ctx (Some (''Bearer '' @ pa_deviceToken r)) s' = (Inr ctx1, s2) \<and> terminal_of ctx1 ''br1'' tm ''biz1''"
proof -
  let ?dto = "\<lparr> pd_businessId = ''biz1'', pd_branchId = ''br1'', pd_terminalName = ''Till'' \<rparr>"
  have "case fst (pair fx_crypto fx_ctx (\<lambda>_ s. s) ''newdev'' ''own1'' ''usr1'' ?dto fx_db) of Inl _ \<Rightarrow> False | Inr _ \<Rightarrow> True"
    by code_simp
  from run_Inr [OF this] obtain r s' where p: "pair fx_crypto fx_ctx (\<lambda>_ s. s) ''newdev'' ''own1'' ''usr1'' ?dto fx_db = (Inr r, s')"
    by blast
  have "\<forall>t \<in> set (db_terminal fx_db). live t \<longrightarrow> tm_deviceTokenHash t \<noteq> Some (lib_sha256 fx_crypto ''newdev'')" "cx_tx fx_ctx = None"
    by (simp_all add: fx_db_def fx_terminal_def fx_crypto_def fx_ctx_def new_context_def)
  from paired_device_is_admitted [OF p fx_terminals this] p show ?thesis by auto
qed

theorem unpaired_device_is_refused_witness:
  "\<exists>s'. unpair fx_crypto fx_ctx ''tm1'' ''usr1-mail'' ''secret'' fx_db = (Inr (), s')
    \<and> terminalGuard fx_crypto fx_ctx (Some (''Bearer '' @ ''tm1'')) (s'\<lparr> db_now := 2000000 \<rparr>) = (Inl (fx_ctx, unauthorized), s'\<lparr> db_now := 2000000 \<rparr>)"
proof -
  have "case fst (unpair fx_crypto fx_ctx ''tm1'' ''usr1-mail'' ''secret'' fx_db) of Inl _ \<Rightarrow> False | Inr _ \<Rightarrow> True" by code_simp
  from run_Inr [OF this] obtain x s' where u: "unpair fx_crypto fx_ctx ''tm1'' ''usr1-mail'' ''secret'' fx_db = (Inr x, s')" by blast
  have "\<forall>t \<in> set (db_terminal fx_db). \<forall>q \<in> set (db_terminal fx_db). live t \<and> live q
      \<and> tm_deviceTokenHash t = Some (lib_sha256 fx_crypto ''tm1'') \<and> tm_deviceTokenHash q = Some (lib_sha256 fx_crypto ''tm1'') \<longrightarrow> t = q"
    by (simp add: fx_db_def fx_terminal_def fx_crypto_def)
  moreover have "x = ()" by simp
  ultimately show ?thesis using unpaired_device_is_refused [OF u fx_terminals(1)] u by blast
qed

end
