(* ===== verification/Nested.thy ===== *)
theory Nested
  imports Tables
begin

text \<open>
  Nested writes through a scoped update (\<open>rewriteNestedWrites\<close>, \<open>captureNestedBefore\<close> and
  \<open>auditNested\<close> of \<open>prisma/scoped-prisma.ts\<close>): what a service nests under a parent row runs
  with the parent's own write, and after the parent's audit row every nested update and
  nested delete gets an audit row of its own. A nested update reaches only children of the
  parent; a nested delete is rewritten to an update that sets \<open>deletedAt\<close>. Nested creates
  have no audit row of their own. The nested writes of one parent run in the order in which
  the data object lists them.
\<close>

section \<open>One nested write\<close>

definition no_record :: exn where
  "no_record = Crash ''An operation failed because it depends on one or more records that were required but not found.''"

definition nested_update ::
  "'a table \<Rightarrow> ('a row_scheme \<Rightarrow> bool) \<Rightarrow> uid \<Rightarrow> ('a row_scheme \<Rightarrow> 'a row_scheme) \<Rightarrow> (db, exn, unit) op" where
  "nested_update ct owned i f =
    bind (reads (\<lambda>s. find (\<lambda>r. r_id r = i \<and> owned r) (tb_get ct s))) (\<lambda>found.
    case found of None \<Rightarrow> throw no_record | Some _ \<Rightarrow> bind (raw_update ct i f) (\<lambda>_. ret ()))"

definition nested_delete :: "'a table \<Rightarrow> ('a row_scheme \<Rightarrow> bool) \<Rightarrow> uid \<Rightarrow> (db, exn, unit) op" where
  "nested_delete ct owned i = bind now (\<lambda>n. nested_update ct owned i (\<lambda>r. r\<lparr> r_deletedAt := Some n \<rparr>))"

definition nested_create :: "'a table \<Rightarrow> (uid \<Rightarrow> 'a row_scheme) \<Rightarrow> (db, exn, unit) op" where
  "nested_create ct mk = bind fresh_id (\<lambda>i. bind (raw_insert ct (mk i)) (\<lambda>_. ret ()))"

section \<open>The audit rows of nested writes\<close>

datatype touched_op = Touched_update | Touched_delete

definition row_by_id :: "'a table \<Rightarrow> uid \<Rightarrow> db \<Rightarrow> 'a row_scheme option" where
  "row_by_id ct i s = find (\<lambda>r. r_id r = i) (tb_get ct s)"

definition audit_touched :: "db \<Rightarrow> ctx \<Rightarrow> 'a table \<Rightarrow> touched_op \<times> uid \<Rightarrow> (db, exn, unit) op" where
  "audit_touched base ctx ct tu =
    bind (reads (row_by_id ct (snd tu))) (\<lambda>found.
    case found of
      None \<Rightarrow> ret ()
    | Some after \<Rightarrow>
        (case fst tu of
           Touched_update \<Rightarrow>
             writeAudit base ctx (tb_model ct) ''update'' (r_id after)
               (map_option (tb_any ct) (row_by_id ct (snd tu) base)) (Some (tb_any ct after)) (tb_any ct after)
         | Touched_delete \<Rightarrow>
             writeAudit base ctx (tb_model ct) ''delete'' (r_id after)
               (Some (tb_any ct (case row_by_id ct (snd tu) base of None \<Rightarrow> after | Some b \<Rightarrow> b))) None (tb_any ct after)))"

definition auditNested :: "ctx \<Rightarrow> 'a table \<Rightarrow> (touched_op \<times> uid) list \<Rightarrow> db \<Rightarrow> (db, exn, unit) op" where
  "auditNested ctx ct touched base = for_each touched (audit_touched base ctx ct)"

section \<open>The parent's update\<close>

definition scoped_update_touched ::
  "ctx \<Rightarrow> 'a table \<Rightarrow> ('a row_scheme \<Rightarrow> bool) \<Rightarrow> ('a row_scheme \<Rightarrow> 'a row_scheme)
    \<Rightarrow> ('a row_scheme \<Rightarrow> (db, exn, unit) op) \<Rightarrow> (db \<Rightarrow> (db, exn, unit) op) \<Rightarrow> (db, exn, 'a row_scheme) op" where
  "scoped_update_touched ctx t p f nested audits =
    bind (choke ctx t Update) (\<lambda>_.
    bind (reads (base_db ctx)) (\<lambda>base.
    case first_row (\<lambda>r. p r \<and> in_scope ctx t base r) (tb_get t base) of
      None \<Rightarrow> throw (TenantScopeError (tb_model t @ ''.update target not found within scope''))
    | Some prev \<Rightarrow>
        atomically ctx
          (bind (update_body ctx t base prev f nested) (\<lambda>after.
           bind (audits base) (\<lambda>_. ret after)))))"

section \<open>Facts\<close>

lemma clean_update_touched: "cx_tx ctx = None \<Longrightarrow> clean_op (scoped_update_touched ctx t p f nested audits)"
  unfolding scoped_update_touched_def
  by (auto intro!: clean_bind clean_atomically split: option.split)

lemma scoped_update_touched_Inr:
  "scoped_update_touched ctx t p f nested audits s = (Inr r, s') \<longleftrightarrow>
    choke_guard ctx (tb_model t) Update = None \<and>
    (\<exists>prev s1. find (\<lambda>r. p r \<and> in_scope ctx t (base_db ctx s) r) (tb_get t (base_db ctx s)) = Some prev
      \<and> update_body ctx t (base_db ctx s) prev f nested s = (Inr r, s1)
      \<and> audits (base_db ctx s) s1 = (Inr (), s'))"
  unfolding scoped_update_touched_def choke_bind_Inr first_row_def
  by (auto simp: atomically_Inr bind_eq_Inr split: option.splits)

end
