(* ===== verification/Stock.thy ===== *)
theory Stock
  imports Sales Nested
begin

text \<open>
  The stock service (\<open>portal/stock/stock.service.ts\<close>): receiving goods, setting a level, and
  listing the levels of a branch, with the request bodies (\<open>portal/stock/dto\<close>), and the two
  routes a terminal has to it (\<open>pos/stock/pos-stock.controller.ts\<close>). A date string is the
  time it denotes, as in the sale draft; of an optional property, \<open>None\<close> is absent and
  \<open>Some None\<close> is \<open>null\<close> where the code tells them apart.
\<close>

section \<open>Requests and answers\<close>

record receive_line =
  rl_productId :: uid
  rl_variantId :: "uid option"
  rl_qty :: num
  rl_unitCostC :: "num option option"
  rl_expiryDate :: "time option"

record adjust_dto =
  aj_productId :: uid
  aj_variantId :: "uid option"
  aj_newQty :: num
  aj_reasonCategory :: reason_category
  aj_note :: "string option"

record movement_response =
  mr_id :: uid
  mr_productId :: uid
  mr_variantId :: "uid option"
  mr_type :: movement_type
  mr_qtyDelta :: num
  mr_unitCostC :: "int option"
  mr_refId :: uid

record stock_level =
  lv_productId :: uid
  lv_productName :: string
  lv_variantId :: "uid option"
  lv_variantName :: "string option"
  lv_qty :: num

record adjust_result =
  ar_productId :: uid
  ar_variantId :: "uid option"
  ar_qty :: num
  ar_movement :: movement_response

definition receive_line_valid :: "(string \<Rightarrow> bool) \<Rightarrow> receive_line \<Rightarrow> bool" where
  "receive_line_valid isUUID l \<longleftrightarrow> isUUID (rl_productId l)
    \<and> (case rl_variantId l of None \<Rightarrow> True | Some v \<Rightarrow> isUUID v)
    \<and> three_decimals (rl_qty l) \<and> 0 < rl_qty l \<and> rl_qty l \<le> of_int MAX_QTY
    \<and> (case rl_unitCostC l of Some (Some c) \<Rightarrow> isInt_between 0 MAX_CENTAVOS c | _ \<Rightarrow> True)"

definition receive_valid :: "(string \<Rightarrow> bool) \<Rightarrow> receive_line list \<Rightarrow> bool" where
  "receive_valid isUUID ls \<longleftrightarrow> 1 \<le> List.length ls \<and> List.length ls \<le> 500 \<and> list_all (receive_line_valid isUUID) ls"

definition adjust_valid :: "(string \<Rightarrow> bool) \<Rightarrow> adjust_dto \<Rightarrow> bool" where
  "adjust_valid isUUID d \<longleftrightarrow> isUUID (aj_productId d)
    \<and> (case aj_variantId d of None \<Rightarrow> True | Some v \<Rightarrow> isUUID v)
    \<and> three_decimals (aj_newQty d) \<and> 0 \<le> aj_newQty d \<and> aj_newQty d \<le> of_int MAX_QTY
    \<and> (case aj_note d of None \<Rightarrow> True | Some n \<Rightarrow> List.length n \<le> 500)"

text \<open>A decimal column read as a number.\<close>

definition milli_num :: "milli \<Rightarrow> num" where
  "milli_num x = fl (of_int x / 1000)"

definition serializeMovement :: "stock_movement_row \<Rightarrow> movement_response" where
  "serializeMovement m = \<lparr> mr_id = r_id m, mr_productId = mv_productId m, mr_variantId = mv_variantId m,
     mr_type = mv_type m, mr_qtyDelta = milli_num (mv_qtyDelta m), mr_unitCostC = mv_unitCost m, mr_refId = mv_refId m \<rparr>"

section \<open>Checks\<close>

definition receive_key :: "receive_line \<Rightarrow> string" where
  "receive_key l = rl_productId l @ '':'' @ (case rl_variantId l of None \<Rightarrow> [] | Some v \<Rightarrow> v)"

fun assertNoDuplicateLines :: "string list \<Rightarrow> receive_line list \<Rightarrow> exn + unit" where
  "assertNoDuplicateLines seen [] = Inr ()"
| "assertNoDuplicateLines seen (l # ls) =
    (if receive_key l \<in> set seen
     then Inl (validation ''Duplicate line for the same product/variant in one receive; combine them.'')
     else assertNoDuplicateLines (receive_key l # seen) ls)"

definition assertBranch :: "ctx \<Rightarrow> uid \<Rightarrow> (db, exn, branch_row) op" where
  "assertBranch ctx branchId =
    bind (scoped_findFirst ctx branch_t (\<lambda>b. r_id b = branchId)) (\<lambda>found.
    case found of None \<Rightarrow> throw (not_found ''Branch not found.'') | Some b \<Rightarrow> ret b)"

text \<open>The product with its live variants.\<close>

definition loadProduct :: "ctx \<Rightarrow> uid \<Rightarrow> uid \<Rightarrow> (db, exn, product_row \<times> variant_row list) op" where
  "loadProduct ctx businessId pid =
    bind (scoped_findFirst ctx product_t (\<lambda>p. r_id p = pid \<and> pr_businessId p = businessId)) (\<lambda>found.
    case found of
      None \<Rightarrow> throw (validation ''productId does not reference a product in this branch business.'')
    | Some p \<Rightarrow> bind (reads (base_db ctx)) (\<lambda>base. ret (p, liveVariants base (r_id p))))"

definition assertVariantIntegrity :: "variant_row list \<Rightarrow> uid option \<Rightarrow> exn + unit" where
  "assertVariantIntegrity variants vid =
    (if variants \<noteq> [] then
       (case truthy_id vid of
          None \<Rightarrow> Inl (validation ''variantId is required for a product with variants.'')
        | Some v \<Rightarrow>
            if list_ex (\<lambda>q. r_id q = v) variants then Inr ()
            else Inl (validation ''variantId does not belong to this product.''))
     else if truthy_id vid \<noteq> None
          then Inl (validation ''variantId is not allowed for a product without variants.'')
          else Inr ())"

section \<open>Levels\<close>

definition level_row :: "uid \<Rightarrow> uid \<Rightarrow> uid \<Rightarrow> uid option \<Rightarrow> milli \<Rightarrow> branch_stock_row" where
  "level_row i branchId pid vid q =
    \<lparr> r_id = i, r_createdAt = 0, r_updatedAt = 0, r_deletedAt = None, bs_branchId = branchId,
      bs_productId = pid, bs_variantId = vid, bs_qty = q \<rparr>"

definition findLevel :: "ctx \<Rightarrow> uid \<Rightarrow> uid \<Rightarrow> uid option \<Rightarrow> (db, exn, branch_stock_row option) op" where
  "findLevel ctx branchId pid vid =
    scoped_findFirst ctx branchStock_t (\<lambda>r. bs_branchId r = branchId \<and> bs_productId r = pid
      \<and> bs_variantId r = vid \<and> live r)"

text \<open>Update the row that was found, or create it: both \<open>addToLevel\<close> and \<open>adjust\<close> do this.\<close>

definition putLevel ::
  "ctx \<Rightarrow> uid \<Rightarrow> uid \<Rightarrow> uid option \<Rightarrow> branch_stock_row option \<Rightarrow> (milli \<Rightarrow> milli) \<Rightarrow> (db, exn, unit) op" where
  "putLevel ctx branchId pid vid existing f =
    (case existing of
       Some e \<Rightarrow> bind (scoped_update ctx branchStock_t (\<lambda>r. r_id r = r_id e) (\<lambda>r. r\<lparr> bs_qty := f (bs_qty r) \<rparr>)) (\<lambda>_. ret ())
     | None \<Rightarrow>
         bind fresh_id (\<lambda>i.
         bind (scoped_create ctx branchStock_t (Some branchId) (level_row i branchId pid vid (f 0))) (\<lambda>_. ret ())))"

definition addToLevel :: "ctx \<Rightarrow> uid \<Rightarrow> uid \<Rightarrow> uid option \<Rightarrow> num \<Rightarrow> (db, exn, unit) op" where
  "addToLevel ctx branchId pid vid q =
    bind (findLevel ctx branchId pid vid) (\<lambda>existing.
    putLevel ctx branchId pid vid existing (\<lambda>old. old + toFixed3 q))"

section \<open>Costs and batches\<close>

definition batch_row :: "product_row \<Rightarrow> receive_line \<Rightarrow> time \<Rightarrow> int option \<Rightarrow> uid \<Rightarrow> stock_batch_row" where
  "batch_row product l n cost i =
    \<lparr> r_id = i, r_createdAt = 0, r_updatedAt = 0, r_deletedAt = None, bt_productId = r_id product,
      bt_variantId = truthy_id (rl_variantId l), bt_qty = toFixed3 (rl_qty l), bt_expiresAt = rl_expiryDate l,
      bt_receivedAt = n, bt_unitCost = cost \<rparr>"

text \<open>An integer column that may be absent, null or a number.\<close>

definition opt_int_column :: "num option option \<Rightarrow> exn + int option option" where
  "opt_int_column x =
    (case x of
       None \<Rightarrow> Inr None
     | Some None \<Rightarrow> Inr (Some None)
     | Some (Some c) \<Rightarrow> (case int_column c of Inl e \<Rightarrow> Inl e | Inr n \<Rightarrow> Inr (Some (Some n))))"

definition nestedCost :: "receive_line \<Rightarrow> int option option \<Rightarrow> product_row \<Rightarrow> (db, exn, unit) op" where
  "nestedCost l cost product =
    (case (cost, truthy_id (rl_variantId l)) of
       (Some c, Some v) \<Rightarrow> nested_update productVariant_t (\<lambda>q. pv_productId q = r_id product) v (\<lambda>q. q\<lparr> pv_cost := c \<rparr>)
     | _ \<Rightarrow> ret ())"

definition nestedBatch :: "receive_line \<Rightarrow> int option option \<Rightarrow> product_row \<Rightarrow> (db, exn, unit) op" where
  "nestedBatch l cost product =
    (if pr_trackExpiry product
     then bind now (\<lambda>n. nested_create stockBatch_t (batch_row product l n (case cost of None \<Rightarrow> None | Some c \<Rightarrow> c)))
     else ret ())"

definition touchedCost :: "receive_line \<Rightarrow> int option option \<Rightarrow> (touched_op \<times> uid) list" where
  "touchedCost l cost =
    (case (cost, truthy_id (rl_variantId l)) of (Some _, Some v) \<Rightarrow> [(Touched_update, v)] | _ \<Rightarrow> [])"

definition applyCostAndBatch :: "ctx \<Rightarrow> product_row \<Rightarrow> receive_line \<Rightarrow> (db, exn, unit) op" where
  "applyCostAndBatch ctx product l =
    bind (lift_res (opt_int_column (rl_unitCostC l))) (\<lambda>cost.
    if cost = None \<and> \<not> pr_trackExpiry product then ret ()
    else
      bind (scoped_update_touched ctx product_t (\<lambda>p. r_id p = r_id product)
             (\<lambda>p. case (cost, truthy_id (rl_variantId l)) of (Some c, None) \<Rightarrow> p\<lparr> pr_cost := c \<rparr> | _ \<Rightarrow> p)
             (\<lambda>_. bind (nestedCost l cost product) (\<lambda>_. nestedBatch l cost product))
             (auditNested ctx productVariant_t (touchedCost l cost))) (\<lambda>_. ret ()))"

section \<open>Retrying a lost race\<close>

text \<open>
  One attempt of an interactive transaction. The queries of the body read what was committed
  when it started; \<open>env\<close> is what other requests commit before its writes.
\<close>

definition racing_tx :: "(db \<Rightarrow> db) \<Rightarrow> ctx \<Rightarrow> (ctx \<Rightarrow> (db, exn, 'a) op) \<Rightarrow> (db, exn, 'a) op" where
  "racing_tx env ctx body = (\<lambda>s. transaction (body (ctx\<lparr> cx_tx := Some s \<rparr>)) (env s))"

text \<open>\<open>retries\<close> counts down from 2; \<open>env\<close> is told which attempt it is.\<close>

fun withLevelCreateRetry ::
  "(nat \<Rightarrow> db \<Rightarrow> db) \<Rightarrow> nat \<Rightarrow> ctx \<Rightarrow> (ctx \<Rightarrow> (db, exn, 'a) op) \<Rightarrow> (db, exn, 'a) op" where
  "withLevelCreateRetry env 0 ctx body = racing_tx (env 0) ctx body"
| "withLevelCreateRetry env (Suc k) ctx body =
    catch_op (racing_tx (env (Suc k)) ctx body)
      (\<lambda>e. if e = Unique_violation then withLevelCreateRetry env k ctx body else throw e)"

definition LEVEL_RETRIES :: nat where "LEVEL_RETRIES = 2"

section \<open>Receiving\<close>

definition receive_movement :: "uid \<Rightarrow> receive_line \<Rightarrow> uid \<Rightarrow> int option \<Rightarrow> uid \<Rightarrow> stock_movement_row" where
  "receive_movement branchId l operationId cost i =
    (movement_row branchId (rl_productId l) (rl_variantId l) Mv_receive operationId (toFixed3 (rl_qty l)) i)
      \<lparr> mv_unitCost := cost \<rparr>"

definition receiveLine :: "ctx \<Rightarrow> branch_row \<Rightarrow> uid \<Rightarrow> receive_line \<Rightarrow> (db, exn, movement_response) op" where
  "receiveLine ctx branch operationId l =
    bind (loadProduct ctx (br_businessId branch) (rl_productId l)) (\<lambda>(product, variants).
    bind (lift_res (assertVariantIntegrity variants (rl_variantId l))) (\<lambda>_.
    bind (guard (\<not> (pr_trackExpiry product \<and> rl_expiryDate l = None))
            (validation ''expiryDate is required when receiving a track_expiry product.'')) (\<lambda>_.
    bind (addToLevel ctx (r_id branch) (rl_productId l) (rl_variantId l) (rl_qty l)) (\<lambda>_.
    bind (lift_res (opt_int_column (rl_unitCostC l))) (\<lambda>cost.
    bind fresh_id (\<lambda>i.
    bind (scoped_create ctx stockMovement_t (Some (r_id branch))
            (receive_movement (r_id branch) l operationId (case cost of None \<Rightarrow> None | Some c \<Rightarrow> c) i)) (\<lambda>mv.
    bind (applyCostAndBatch ctx product l) (\<lambda>_.
    ret (serializeMovement mv)))))))))"

definition receiveBody :: "uid \<Rightarrow> uid \<Rightarrow> receive_line list \<Rightarrow> ctx \<Rightarrow> (db, exn, uid \<times> movement_response list) op" where
  "receiveBody branchId operationId ls ctx =
    bind (assertBranch ctx branchId) (\<lambda>branch.
    bind (map_op (receiveLine ctx branch operationId) ls) (\<lambda>movements.
    ret (operationId, movements)))"

definition receive ::
  "(nat \<Rightarrow> db \<Rightarrow> db) \<Rightarrow> ctx \<Rightarrow> uid \<Rightarrow> receive_line list \<Rightarrow> (db, exn, uid \<times> movement_response list) op" where
  "receive env ctx branchId ls =
    bind (lift_res (assertNoDuplicateLines [] ls)) (\<lambda>_.
    bind fresh_id (\<lambda>operationId.
    withLevelCreateRetry env LEVEL_RETRIES ctx (receiveBody branchId operationId ls)))"

section \<open>Adjusting\<close>

definition adjust_movement :: "uid \<Rightarrow> adjust_dto \<Rightarrow> milli \<Rightarrow> uid \<Rightarrow> stock_movement_row" where
  "adjust_movement branchId d delta i =
    (movement_row branchId (aj_productId d) (aj_variantId d) Mv_adjustment i delta i)
      \<lparr> mv_reasonCategory := Some (aj_reasonCategory d), mv_note := aj_note d \<rparr>"

definition adjustBody :: "uid \<Rightarrow> adjust_dto \<Rightarrow> ctx \<Rightarrow> (db, exn, adjust_result) op" where
  "adjustBody branchId d ctx =
    bind (assertBranch ctx branchId) (\<lambda>branch.
    bind (loadProduct ctx (br_businessId branch) (aj_productId d)) (\<lambda>(product, variants).
    bind (lift_res (assertVariantIntegrity variants (aj_variantId d))) (\<lambda>_.
    bind (findLevel ctx branchId (aj_productId d) (aj_variantId d)) (\<lambda>existing.
    let currentQty = (case existing of None \<Rightarrow> 0 | Some e \<Rightarrow> milli_num (bs_qty e));
        qtyDelta = jsub (aj_newQty d) currentQty
    in bind (putLevel ctx branchId (aj_productId d) (aj_variantId d) existing (\<lambda>_. toFixed3 (aj_newQty d))) (\<lambda>_.
       bind fresh_id (\<lambda>movementId.
       bind (scoped_create ctx stockMovement_t (Some branchId)
               (adjust_movement branchId d (toFixed3 qtyDelta) movementId)) (\<lambda>mv.
       ret \<lparr> ar_productId = aj_productId d, ar_variantId = aj_variantId d, ar_qty = aj_newQty d,
             ar_movement = serializeMovement mv \<rparr>)))))))"

definition adjust :: "(nat \<Rightarrow> db \<Rightarrow> db) \<Rightarrow> ctx \<Rightarrow> uid \<Rightarrow> adjust_dto \<Rightarrow> (db, exn, adjust_result) op" where
  "adjust env ctx branchId d = withLevelCreateRetry env LEVEL_RETRIES ctx (adjustBody branchId d)"

section \<open>Listing levels\<close>

definition tracks_stock :: "db \<Rightarrow> uid \<Rightarrow> bool" where
  "tracks_stock base pid \<longleftrightarrow> list_ex (\<lambda>p. r_id p = pid \<and> pr_trackStock p) (db_product base)"

definition level_of_row :: "product_row list \<Rightarrow> variant_row list \<Rightarrow> branch_stock_row \<Rightarrow> stock_level" where
  "level_of_row products variants r =
    \<lparr> lv_productId = bs_productId r,
      lv_productName = (case find (\<lambda>p. r_id p = bs_productId r) products of None \<Rightarrow> [] | Some p \<Rightarrow> pr_name p),
      lv_variantId = bs_variantId r,
      lv_variantName = Option.bind (truthy_id (bs_variantId r)) (\<lambda>v. map_option pv_name (find (\<lambda>q. r_id q = v) variants)),
      lv_qty = milli_num (bs_qty r) \<rparr>"

definition levels :: "ctx \<Rightarrow> uid \<Rightarrow> (db, exn, stock_level list) op" where
  "levels ctx branchId =
    bind (assertBranch ctx branchId) (\<lambda>_.
    bind (reads (base_db ctx)) (\<lambda>base.
    bind (scoped_findMany ctx branchStock_t (\<lambda>r. bs_branchId r = branchId \<and> tracks_stock base (bs_productId r))) (\<lambda>rows.
    if rows = [] then ret []
    else
      bind (scoped_findMany ctx product_t (\<lambda>p. r_id p \<in> bs_productId ` set rows)) (\<lambda>products.
      ret (map (level_of_row products (List.concat (map (\<lambda>p. liveVariants base (r_id p)) products)))
             (sort_key r_createdAt rows))))))"

section \<open>The terminal's routes\<close>

definition posGetStock :: "ctx \<Rightarrow> (db, exn, (uid \<times> uid option \<times> num) list) op" where
  "posGetStock ctx =
    bind (levels ctx (the (cx_branchId ctx))) (\<lambda>ls.
    ret (map (\<lambda>l. (lv_productId l, lv_variantId l, lv_qty l)) ls))"

definition posAdjust :: "(nat \<Rightarrow> db \<Rightarrow> db) \<Rightarrow> ctx \<Rightarrow> adjust_dto \<Rightarrow> (db, exn, uid \<times> uid option \<times> num) op" where
  "posAdjust env ctx d =
    bind (adjust env ctx (the (cx_branchId ctx)) d) (\<lambda>res.
    ret (ar_productId res, ar_variantId res, ar_qty res))"

end
