(* ===== verification/StockFacts.thy ===== *)
theory StockFacts
  imports Stock SaleRestore
begin

text \<open>
  What the stock service does to levels and movements: the frames of its side writes, one
  level put, one line received, a whole receive, one adjustment, and the retry of a lost race.
\<close>

section \<open>Frames\<close>

lemma framed_nested_update: "framed P ct \<Longrightarrow> keeps P (nested_update ct owned i f)"
  unfolding nested_update_def by (intro keeps_intros framed_update)

lemma framed_nested_delete: "framed P ct \<Longrightarrow> keeps P (nested_delete ct owned i)"
  unfolding nested_delete_def by (intro keeps_intros framed_nested_update)

lemma framed_nested_create: "framed P ct \<Longrightarrow> keeps P (nested_create ct mk)"
  unfolding nested_create_def by (intro keeps_intros framed_insert framed_fresh [of P ct])

lemma framed_auditNested: "framed P ct \<Longrightarrow> keeps P (auditNested ctx ct touched base)"
  unfolding auditNested_def audit_touched_def
  by (intro keeps_intros) (auto intro!: framed_audit [of P ct] split: touched_op.split)

lemma framed_update_touched:
  "framed P t \<Longrightarrow> (\<And>r. keeps P (nested r)) \<Longrightarrow> (\<And>b. keeps P (audits b)) \<Longrightarrow>
    keeps P (scoped_update_touched ctx t p f nested audits)"
  unfolding scoped_update_touched_def update_body_def
  by (intro keeps_intros framed_update framed_audit [of P t])

lemma framed_cost_batch:
  assumes "framed P product_t" "framed P productVariant_t" "framed P stockBatch_t"
  shows "keeps P (applyCostAndBatch ctx product l)"
  unfolding applyCostAndBatch_def nestedCost_def nestedBatch_def
  using assms
  by (auto intro!: keeps_intros framed_update_touched framed_auditNested framed_nested_update framed_nested_create
      split: prod.split option.split)

lemma framed_catalog [simp]:
  "framed (\<lambda>s. db_branchStock s = X) product_t" "framed (\<lambda>s. db_branchStock s = X) productVariant_t"
  "framed (\<lambda>s. db_branchStock s = X) stockBatch_t" "framed (\<lambda>s. db_stockMovement s = Y) product_t"
  "framed (\<lambda>s. db_stockMovement s = Y) productVariant_t" "framed (\<lambda>s. db_stockMovement s = Y) stockBatch_t"
  by (simp_all add: framed_def table_defs)

lemma framed_putLevel: "framed P branchStock_t \<Longrightarrow> keeps P (putLevel ctx br p v existing f)"
  unfolding putLevel_def
  by (intro keeps_intros framed_scoped_update framed_scoped_create framed_fresh [of P branchStock_t])

section \<open>Putting a level\<close>

text \<open>The stock table as the schema keeps it, for every branch at once.\<close>

definition level_key :: "branch_stock_row \<Rightarrow> uid \<times> uid \<times> uid option" where
  "level_key r = (bs_branchId r, bs_productId r, bs_variantId r)"

definition stock_ok :: "db \<Rightarrow> bool" where
  "stock_ok s \<longleftrightarrow> distinct (map r_id (db_branchStock s))
    \<and> distinct (map level_key (filter live (db_branchStock s)))
    \<and> (\<forall>r \<in> set (db_branchStock s). 0 \<le> bs_qty r \<and> bs_qty r < 10 ^ 10)"

lemma raw_update_cong:
  "(\<And>r. find (\<lambda>r. r_id r = i) (tb_get t s) = Some r \<Longrightarrow> f r = g r) \<Longrightarrow> raw_update t i f s = raw_update t i g s"
  by (auto simp: raw_update_def Let_def split: option.split)

lemma raw_insert_stock_ok: "stock_ok s \<Longrightarrow> raw_insert branchStock_t r s = (Inr u, s') \<Longrightarrow> stock_ok s'"
  by (auto simp: raw_insert_def branchStock_t_def Let_def column_check_def unique_ok_def stock_ok_def level_key_def
      numeric10_3_def live_def split: if_splits option.splits) (blast, force)

lemma find_level:
  assumes ok: "stock_ok s" and r: "r \<in> set (db_branchStock s)" "keyed br p v r"
  shows "filter (keyed br p v) (db_branchStock s) = [r]" and "stock_at br p v s = bs_qty r"
proof -
  have e: "filter (keyed br p v) (db_branchStock s)
      = filter (\<lambda>q. level_key q = (br, p, v)) (filter live (db_branchStock s))"
    unfolding filter_filter by (rule filter_cong) (auto simp: level_key_def)
  have d: "distinct (map level_key (filter live (db_branchStock s)))" using ok by (simp add: stock_ok_def)
  have one: "filter (\<lambda>q. level_key q = k) xs = [r]" if "distinct (map level_key xs)" "r \<in> set xs" "level_key r = k" for xs k
    using that
  proof (induction xs)
    case (Cons x xs)
    show ?case
    proof (cases "x = r")
      case True
      then have "\<forall>q \<in> set xs. level_key q \<noteq> k" using Cons.prems by (auto simp: image_iff)
      then show ?thesis using True Cons.prems by (simp add: filter_empty_conv)
    next
      case False
      then have "r \<in> set xs" "level_key x \<noteq> k" using Cons.prems by (auto simp: image_iff)
      then show ?thesis using Cons by simp
    qed
  qed simp
  show "filter (keyed br p v) (db_branchStock s) = [r]"
    unfolding e by (rule one [OF d]) (use r in \<open>auto simp: level_key_def\<close>)
  then show "stock_at br p v s = bs_qty r" by (simp add: stock_at_def)
qed

text \<open>
  The row an update aims at is a row of the transaction; the level is moved by the
  difference, every other key is untouched.
\<close>

lemma putLevel_Inr:
  assumes run: "putLevel ctx br p v existing f s = (Inr u, s')" and tx: "tx_of base s" and base: "cx_tx ctx = Some base"
    and on: "on_branch ctx br"
    and found: "\<And>e. existing = Some e \<Longrightarrow> e \<in> set (db_branchStock base) \<and> keyed br p v e"
  shows "\<exists>x. tx_of base s' \<and> stock_at b q w s' = stock_at b q w s + (if b = br \<and> q = p \<and> w = v then f x - x else 0)
    \<and> (case existing of None \<Rightarrow> x = 0 | Some e \<Rightarrow> \<exists>r \<in> set (db_branchStock s). same_level_row e r \<and> x = bs_qty r)"
proof (cases existing)
  case None
  let ?m = "(undefined :: stock_movement_row)\<lparr> mv_branchId := br, mv_productId := p, mv_variantId := v \<rparr>"
  obtain w' where c: "scoped_create ctx branchStock_t (Some (mv_branchId ?m))
      \<lparr> r_id = nth_uuid (db_nextId s), r_createdAt = 0, r_updatedAt = 0, r_deletedAt = None, bs_branchId = mv_branchId ?m,
        bs_productId = mv_productId ?m, bs_variantId = mv_variantId ?m, bs_qty = f 0 \<rparr>
      (s\<lparr> db_nextId := Suc (db_nextId s) \<rparr>) = (Inr w', s')"
    using run by (auto simp: putLevel_def None bind_eq_Inr level_row_def)
  have t0: "tx_of base (s\<lparr> db_nextId := Suc (db_nextId s) \<rparr>)" using tx by (simp add: tx_of_def)
  have "on_branch ctx (mv_branchId ?m)" using on by simp
  note lev = restore_new_level(1) [OF c this t0] restore_new_level(2) [OF c this t0, of b q w]
  have "stock_at b q w (s\<lparr> db_nextId := Suc (db_nextId s) \<rparr>) = stock_at b q w s" by (rule stock_at_cong) simp
  with lev show ?thesis by (auto simp: None mkeyed_def)
next
  case (Some e)
  note e = found [OF Some]
  obtain r where r: "r \<in> set (db_branchStock s)" "same_level_row e r" using tx e by (auto simp: tx_of_def)
  have d: "distinct (map r_id (db_branchStock s))" using tx by (simp add: tx_of_def)
  have fr: "find (\<lambda>q. r_id q = r_id e) (tb_get branchStock_t s) = Some r"
    using find_distinct_key [OF d r(1)] r(2) by (simp add: branchStock_t_def same_level_row_def)
  let ?x = "f (bs_qty r) - bs_qty r"
  let ?m = "(undefined :: stock_movement_row)\<lparr> mv_branchId := br, mv_productId := p, mv_variantId := v \<rparr>"
  obtain w' where c: "scoped_update ctx branchStock_t (\<lambda>r. r_id r = r_id e) (\<lambda>r. r\<lparr> bs_qty := f (bs_qty r) \<rparr>) s = (Inr w', s')"
    using run by (auto simp: putLevel_def Some bind_eq_Inr)
  then obtain before s1 where b: "find (\<lambda>r. r_id r = r_id e \<and> in_scope ctx branchStock_t (base_db ctx s) r)
        (tb_get branchStock_t (base_db ctx s)) = Some before"
      "raw_update branchStock_t (r_id before) (\<lambda>r. r\<lparr> bs_qty := f (bs_qty r) \<rparr>) s = (Inr w', s1)"
    unfolding scoped_update_Inr by auto
  have "r_id before = r_id e" using find_SomeD [OF b(1)] by simp
  then have "raw_update branchStock_t (r_id before) (\<lambda>r. r\<lparr> bs_qty := f (bs_qty r) \<rparr>) s
      = raw_update branchStock_t (r_id before) (\<lambda>r. r\<lparr> bs_qty := bs_qty r + ?x \<rparr>) s"
    using fr by (intro raw_update_cong) simp
  with c have c': "scoped_update ctx branchStock_t (\<lambda>r. r_id r = r_id e) (\<lambda>r. r\<lparr> bs_qty := bs_qty r + ?x \<rparr>) s = (Inr w', s')"
    using b(1) unfolding scoped_update_Inr by simp
  have "e \<in> set (db_branchStock base)" "live e" "bs_branchId e = mv_branchId ?m" "bs_productId e = mv_productId ?m"
    "bs_variantId e = mv_variantId ?m" using e by simp_all
  note lev = restore_level(1) [OF this tx base c'] restore_level(2) [OF this tx base c', of b q w]
  then show ?thesis
    using r by (intro exI [of _ "bs_qty r"]) (auto simp: Some mkeyed_def)
qed

section \<open>One movement\<close>

lemma movement_create_Inr:
  assumes c: "scoped_create ctx stockMovement_t (Some br) row s = (Inr m, s')" and on: "on_branch ctx br"
    and br: "mv_branchId row = br"
  shows "\<exists>n. m = row\<lparr> r_createdAt := n, r_updatedAt := n, r_deletedAt := None \<rparr> \<and> db_stockMovement s' = db_stockMovement s @ [m]"
    and "db_branchStock s' = db_branchStock s"
proof -
  from c [unfolded scoped_create_Inr] obtain r0 s2 where
    pol: "policeCreateData (base_db ctx s) ctx stockMovement_t (Some br) row = Inr r0"
    and ins: "raw_insert stockMovement_t r0 s = (Inr m, s2)"
    and s': "db_stockMovement s' = db_stockMovement s2"
    by (auto simp: audited_def)
  have "r0 = row" using police_branch(1) [OF pol _ on] br by (simp add: stockMovement_t_def)
  with stockMovement_tb.raw_insert_cases [OF ins] s'
  show "\<exists>n. m = row\<lparr> r_createdAt := n, r_updatedAt := n, r_deletedAt := None \<rparr> \<and> db_stockMovement s' = db_stockMovement s @ [m]"
    by (auto simp: stockMovement_t_def)
  show "db_branchStock s' = db_branchStock s"
    using keeps_eq [of db_branchStock "scoped_create ctx stockMovement_t (Some br) row" s, OF _ c]
    by (simp add: framed_scoped_create)
qed

definition at_key :: "uid \<Rightarrow> uid \<Rightarrow> uid option \<Rightarrow> uid \<Rightarrow> uid \<Rightarrow> uid option \<Rightarrow> bool" where
  "at_key br p v b q w \<longleftrightarrow> b = br \<and> q = p \<and> w = v"

lemma movement_create_moved:
  assumes "scoped_create ctx stockMovement_t (Some br) row s = (Inr m, s')" "on_branch ctx br" "mv_branchId row = br"
  shows "moved_at b q w s' = moved_at b q w s + (if at_key br (mv_productId row) (mv_variantId row) b q w then mv_qtyDelta row else 0)"
    and "stock_at b q w s' = stock_at b q w s"
proof -
  obtain n where m: "m = row\<lparr> r_createdAt := n, r_updatedAt := n, r_deletedAt := None \<rparr>" "db_stockMovement s' = db_stockMovement s @ [m]"
    using movement_create_Inr(1) [OF assms] by blast
  from moved_at_append [OF m(2), of b q w] m(1) assms(3)
  show "moved_at b q w s' = moved_at b q w s + (if at_key br (mv_productId row) (mv_variantId row) b q w then mv_qtyDelta row else 0)"
    by (auto simp: at_key_def)
  show "stock_at b q w s' = stock_at b q w s" by (rule stock_at_cong [OF movement_create_Inr(2) [OF assms]])
qed

section \<open>Receiving\<close>

lemma findLevel_Some:
  assumes "findLevel ctx br p v s = (Inr (Some e), s1)" "cx_tx ctx = Some base"
  shows "e \<in> set (db_branchStock base)" "keyed br p v e"
  using findFirst_Inr(1,2) [OF assms(1) [unfolded findLevel_def]] assms(2)
  by (simp_all add: base_db_def branchStock_t_def)

lemma addToLevel_Inr:
  assumes run: "addToLevel ctx br p v q s = (Inr u, s')" and tx: "tx_of base s" and base: "cx_tx ctx = Some base"
    and on: "on_branch ctx br"
  shows "tx_of base s'" and "stock_at b p' w s' = stock_at b p' w s + (if at_key br p v b p' w then toFixed3 q else 0)"
    and "db_stockMovement s' = db_stockMovement s"
proof -
  obtain e s1 where f: "findLevel ctx br p v s = (Inr e, s1)"
    and l: "putLevel ctx br p v e (\<lambda>old. old + toFixed3 q) s1 = (Inr u, s')"
    using run unfolding addToLevel_def bind_eq_Inr by blast
  have s1: "s1 = s" by (rule pure_op_result [OF pure_find(3) f [unfolded findLevel_def]])
  note put = putLevel_Inr [OF l [unfolded s1] tx base on]
  have "x \<in> set (db_branchStock base) \<and> keyed br p v x" if "e = Some x" for x
    using findLevel_Some [OF f [unfolded that] base] by blast
  note put = put [OF this, of b p' w]
  show "tx_of base s'" "stock_at b p' w s' = stock_at b p' w s + (if at_key br p v b p' w then toFixed3 q else 0)"
    using put by (auto simp: at_key_def)
  show "db_stockMovement s' = db_stockMovement s"
    using keeps_eq [of db_stockMovement "putLevel ctx br p v e (\<lambda>old. old + toFixed3 q)" s, OF _ l [unfolded s1]]
    by (simp add: framed_putLevel)
qed

lemma cost_batch_frame:
  assumes "applyCostAndBatch ctx product l s = (r, s')"
  shows "db_branchStock s' = db_branchStock s" "db_stockMovement s' = db_stockMovement s"
  using keeps_eq [of db_branchStock "applyCostAndBatch ctx product l" s, OF _ assms]
    keeps_eq [of db_stockMovement "applyCostAndBatch ctx product l" s, OF _ assms]
  by (simp_all add: framed_cost_batch)

lemma pure_loadProduct [simp]: "pure_op (loadProduct ctx biz p)"
  unfolding loadProduct_def by (intro pure_bind) (auto intro!: pure_bind split: option.split)

lemma pure_assertBranch [simp]: "pure_op (assertBranch ctx br)"
  unfolding assertBranch_def by (intro pure_bind) (auto split: option.split)

lemma assertBranch_id: "assertBranch ctx br s = (Inr b, s1) \<Longrightarrow> r_id b = br \<and> s1 = s"
  unfolding assertBranch_def bind_eq_Inr
  by (auto split: option.splits dest: findFirst_Inr(2,4))

definition received :: "receive_line list \<Rightarrow> uid \<Rightarrow> uid option \<Rightarrow> int" where
  "received ls p v = sum_list (map (\<lambda>l. toFixed3 (rl_qty l)) (filter (\<lambda>l. rl_productId l = p \<and> rl_variantId l = v) ls))"

lemma receiveLine_Inr:
  assumes run: "receiveLine ctx branch oid l s = (Inr r, s')" and tx: "tx_of base s" and base: "cx_tx ctx = Some base"
    and on: "on_branch ctx (r_id branch)"
  shows "tx_of base s'
    \<and> stock_at b q w s' = stock_at b q w s + (if at_key (r_id branch) (rl_productId l) (rl_variantId l) b q w then toFixed3 (rl_qty l) else 0)
    \<and> moved_at b q w s' = moved_at b q w s + (if at_key (r_id branch) (rl_productId l) (rl_variantId l) b q w then toFixed3 (rl_qty l) else 0)"
proof -
  let ?row = "\<lambda>cost i. receive_movement (r_id branch) l oid (case cost of None \<Rightarrow> None | Some c \<Rightarrow> c) i"
  obtain product variants s1 where lp: "loadProduct ctx (br_businessId branch) (rl_productId l) s = (Inr (product, variants), s1)"
    and rest: "bind (lift_res (assertVariantIntegrity variants (rl_variantId l))) (\<lambda>_.
      bind (guard (\<not> (pr_trackExpiry product \<and> rl_expiryDate l = None))
              (validation ''expiryDate is required when receiving a track_expiry product.'')) (\<lambda>_.
      bind (addToLevel ctx (r_id branch) (rl_productId l) (rl_variantId l) (rl_qty l)) (\<lambda>_.
      bind (lift_res (opt_int_column (rl_unitCostC l))) (\<lambda>cost.
      bind fresh_id (\<lambda>i.
      bind (scoped_create ctx stockMovement_t (Some (r_id branch)) (?row cost i)) (\<lambda>mv.
      bind (applyCostAndBatch ctx product l) (\<lambda>_.
      ret (serializeMovement mv)))))))) s1 = (Inr r, s')"
    using run unfolding receiveLine_def by (auto simp: bind_eq_Inr [of "loadProduct ctx (br_businessId branch) (rl_productId l)"])
  have s1: "s1 = s" by (rule pure_op_result [OF pure_loadProduct lp])
  obtain s2 cost i mv s3 where
    a: "addToLevel ctx (r_id branch) (rl_productId l) (rl_variantId l) (rl_qty l) s = (Inr (), s2)"
    and c: "scoped_create ctx stockMovement_t (Some (r_id branch)) (?row cost i) (s2\<lparr> db_nextId := Suc (db_nextId s2) \<rparr>) = (Inr mv, s3)"
    and d: "applyCostAndBatch ctx product l s3 = (Inr (), s')"
    using rest unfolding s1
    by (cases "opt_int_column (rl_unitCostC l)") (auto simp: bind_eq_Inr [of "addToLevel _ _ _ _ _"] bind_eq_Inr [of fresh_id] bind_eq_Inr [of "scoped_create _ _ _ _"]
        bind_eq_Inr [of "applyCostAndBatch _ _ _"] split: sum.splits if_splits)
  note add = addToLevel_Inr [OF a tx base on]
  have row: "mv_branchId (?row cost i) = r_id branch" "mv_productId (?row cost i) = rl_productId l"
    "mv_variantId (?row cost i) = rl_variantId l" "mv_qtyDelta (?row cost i) = toFixed3 (rl_qty l)"
    by (simp_all add: receive_movement_def movement_row_def)
  note mov = movement_create_moved [OF c on row(1), of b q w]
  note fr = cost_batch_frame [OF d]
  have "db_branchStock s' = db_branchStock s2" using fr movement_create_Inr(2) [OF c on row(1)] by simp
  then have "tx_of base s'" using add(1) tx_of_cong by blast
  moreover have "stock_at b q w s' = stock_at b q w s2" by (rule stock_at_cong) fact
  moreover have "moved_at b q w s' = moved_at b q w s3" by (rule moved_at_cong) (rule fr(2))
  moreover have "moved_at b q w (s2\<lparr> db_nextId := Suc (db_nextId s2) \<rparr>) = moved_at b q w s"
    by (rule moved_at_cong) (simp add: add(3))
  ultimately show ?thesis using add(2) [of b q w] mov(1) row by simp
qed

lemma receiveLines_Inr:
  assumes "map_op (receiveLine ctx branch oid) ls s = (Inr rs, s')" "tx_of base s" "cx_tx ctx = Some base"
    and "on_branch ctx (r_id branch)"
  shows "tx_of base s'
    \<and> stock_at b q w s' = stock_at b q w s + (if b = r_id branch then received ls q w else 0)
    \<and> moved_at b q w s' = moved_at b q w s + (if b = r_id branch then received ls q w else 0)"
  using assms
proof (induction ls arbitrary: s rs)
  case Nil
  then show ?case by (simp add: received_def)
next
  case (Cons l ls)
  then obtain r s1 rs' where s1: "receiveLine ctx branch oid l s = (Inr r, s1)"
    "map_op (receiveLine ctx branch oid) ls s1 = (Inr rs', s')"
    by (auto simp: bind_eq_Inr)
  note one = receiveLine_Inr [OF s1(1) Cons.prems(2,3,4), of b q w]
  then have "tx_of base s1" by blast
  from Cons.IH [OF s1(2) this Cons.prems(3,4)] one show ?case
    by (auto simp: received_def at_key_def)
qed

section \<open>The difference an adjustment records\<close>

lemma toFixed3_near:
  assumes "\<bar>x - of_int k / 1000\<bar> < 1 / 2000"
  shows "toFixed3 x = k"
proof (cases "x < 0")
  case True
  have "\<lfloor>- x * 1000 + 1 / 2\<rfloor> = - k" using assms by (auto simp: floor_eq_iff abs_if split: if_splits)
  with True show ?thesis by (simp add: toFixed3_def)
next
  case False
  have "\<lfloor>x * 1000 + 1 / 2\<rfloor> = k" using assms by (auto simp: floor_eq_iff abs_if split: if_splits)
  with False show ?thesis by (simp add: toFixed3_def)
qed

lemma milli_near: "0 \<le> m \<Longrightarrow> m \<le> 10 ^ 10 \<Longrightarrow> \<bar>milli_num m - of_int m / 1000\<bar> \<le> 10 ^ 7 * ulp_half"
proof -
  assume m: "0 \<le> m" "m \<le> 10 ^ 10"
  have "(of_int m :: rat) \<le> of_int (10 ^ 10)" using m(2) by (simp only: of_int_le_iff)
  then have "\<bar>of_int m / 1000 :: rat\<bar> \<le> 10 ^ 7" using m(1) by simp
  then have "\<bar>of_int m / 1000 :: rat\<bar> * ulp_half \<le> 10 ^ 7 * ulp_half" by (rule mult_right_mono) simp
  with fl_error [of "of_int m / 1000"] show ?thesis unfolding milli_num_def by linarith
qed

lemma toFixed3_milli: "0 \<le> m \<Longrightarrow> m \<le> 10 ^ 10 \<Longrightarrow> toFixed3 (milli_num m) = m"
  using milli_near [of m] by (intro toFixed3_near) simp

lemma abs_diff_diff: "\<bar>a - x\<bar> \<le> u \<Longrightarrow> \<bar>b - y\<bar> \<le> u \<Longrightarrow> \<bar>(a - b) - (x - y)\<bar> \<le> 2 * (u :: rat)"
  by (auto simp: abs_le_iff)

lemma delta_exact:
  assumes "0 \<le> m" "m \<le> 10 ^ 9" "0 \<le> c" "c \<le> 10 ^ 10"
  shows "toFixed3 (jsub (milli_num m) (milli_num c)) = m - c"
proof (rule toFixed3_near)
  let ?d = "milli_num m - milli_num c"
  have n: "\<bar>milli_num m - of_int m / 1000\<bar> \<le> 10 ^ 7 * ulp_half" "\<bar>milli_num c - of_int c / 1000\<bar> \<le> 10 ^ 7 * ulp_half"
    using milli_near [OF assms(1)] milli_near [OF assms(3,4)] assms(2) by simp_all
  have e: "\<bar>?d - of_int (m - c) / 1000\<bar> \<le> 2 * (10 ^ 7 * ulp_half)"
    using abs_diff_diff [OF n] by (simp only: of_int_diff diff_divide_distrib)
  have "\<bar>of_int (m - c) :: rat\<bar> \<le> 10 ^ 10"
    using assms by (simp only: abs_le_iff of_int_le_iff [symmetric, where 'a = rat] flip: of_int_abs of_int_minus) auto
  moreover have "\<bar>?d - of_int (m - c) / 1000\<bar> \<le> 1" by (rule order_trans [OF e]) simp
  ultimately have b: "\<bar>?d\<bar> \<le> 2 * 10 ^ 7" by (simp add: abs_le_iff diff_divide_distrib)
  have "\<bar>fl ?d - ?d\<bar> \<le> \<bar>?d\<bar> * ulp_half" by (rule fl_error)
  also have "\<dots> \<le> 2 * 10 ^ 7 * ulp_half" using b by (rule mult_right_mono) simp
  also have "\<dots> < 1 / 4000" by simp
  finally have f: "\<bar>fl ?d - ?d\<bar> < 1 / 4000" .
  have "\<bar>?d - of_int (m - c) / 1000\<bar> < 1 / 4000" by (rule order.strict_trans1 [OF e]) simp
  with f show "\<bar>jsub (milli_num m) (milli_num c) - of_int (m - c) / 1000\<bar> < 1 / 2000"
    unfolding jsub_def by linarith
qed

section \<open>Adjusting\<close>

lemma created_level_new:
  assumes "putLevel ctx br p v None f s = (Inr u, s')" "on_branch ctx br"
  shows "filter (keyed br p v) (db_branchStock s) = []" and "stock_at br p v s = 0"
proof -
  obtain w s1 where c: "scoped_create ctx branchStock_t (Some br) (level_row (nth_uuid (db_nextId s)) br p v (f 0))
      (s\<lparr> db_nextId := Suc (db_nextId s) \<rparr>) = (Inr w, s1)"
    using assms(1) by (auto simp: putLevel_def bind_eq_Inr)
  from c [unfolded scoped_create_Inr] obtain r0 s2 where
    pol: "policeCreateData (base_db ctx (s\<lparr> db_nextId := Suc (db_nextId s) \<rparr>)) ctx branchStock_t (Some br)
        (level_row (nth_uuid (db_nextId s)) br p v (f 0)) = Inr r0"
    and ins: "raw_insert branchStock_t r0 (s\<lparr> db_nextId := Suc (db_nextId s) \<rparr>) = (Inr w, s2)"
    by auto
  have "r0 = level_row (nth_uuid (db_nextId s)) br p v (f 0)"
    using police_branch(1) [OF pol _ assms(2)] by (simp add: branchStock_t_def level_row_def)
  with ins show "filter (keyed br p v) (db_branchStock s) = []"
    by (auto simp: raw_insert_def branchStock_t_def Let_def column_check_def unique_ok_def level_row_def live_def
        filter_empty_conv split: if_splits option.splits)
  then show "stock_at br p v s = 0" by (simp add: stock_at_def)
qed

lemma adjustBody_Inr:
  assumes run: "adjustBody br d ctx s = (Inr res, s')" and tx: "tx_of base s" and base: "cx_tx ctx = Some base"
    and on: "on_branch ctx br" and ok: "stock_ok base" "stock_ok s"
    and new: "aj_newQty d = milli_num m" "0 \<le> m" "m \<le> 10 ^ 9"
  shows "stock_at br (aj_productId d) (aj_variantId d) s' = m"
    and "\<not> at_key br (aj_productId d) (aj_variantId d) b q w \<Longrightarrow> stock_at b q w s' = stock_at b q w s \<and> moved_at b q w s' = moved_at b q w s"
    and "moved_at br (aj_productId d) (aj_variantId d) s' = moved_at br (aj_productId d) (aj_variantId d) s
      + (m - stock_at br (aj_productId d) (aj_variantId d) base)"
proof -
  let ?p = "aj_productId d" and ?v = "aj_variantId d"
  let ?put = "\<lambda>e. putLevel ctx br ?p ?v e (\<lambda>_. toFixed3 (aj_newQty d))"
  let ?delta = "\<lambda>e. toFixed3 (jsub (aj_newQty d) (case e of None \<Rightarrow> 0 | Some e \<Rightarrow> milli_num (bs_qty e)))"
  have put_m: "toFixed3 (aj_newQty d) = m" using new toFixed3_milli [of m] by simp
  obtain branch product variants where lp: "assertBranch ctx br s = (Inr branch, s)"
      "loadProduct ctx (br_businessId branch) ?p s = (Inr (product, variants), s)"
    and rest: "bind (lift_res (assertVariantIntegrity variants ?v)) (\<lambda>_.
      bind (findLevel ctx br ?p ?v) (\<lambda>e.
      bind (?put e) (\<lambda>_. bind fresh_id (\<lambda>i.
      bind (scoped_create ctx stockMovement_t (Some br) (adjust_movement br d (?delta e) i)) (\<lambda>mv.
      ret \<lparr> ar_productId = ?p, ar_variantId = ?v, ar_qty = aj_newQty d, ar_movement = serializeMovement mv \<rparr>))))) s = (Inr res, s')"
    using run unfolding adjustBody_def Let_def
    by (auto elim!: bind_pure_InrE [OF _ pure_assertBranch] bind_pure_InrE [OF _ pure_loadProduct] split: prod.splits)
  obtain e s1 where fl: "findLevel ctx br ?p ?v s = (Inr e, s1)"
    and rest2: "bind (?put e) (\<lambda>_. bind fresh_id (\<lambda>i.
      bind (scoped_create ctx stockMovement_t (Some br) (adjust_movement br d (?delta e) i)) (\<lambda>mv.
      ret \<lparr> ar_productId = ?p, ar_variantId = ?v, ar_qty = aj_newQty d, ar_movement = serializeMovement mv \<rparr>))) s1 = (Inr res, s')"
    using rest by (cases "assertVariantIntegrity variants ?v") (auto simp: bind_eq_Inr [of "findLevel _ _ _ _"])
  have s1: "s1 = s" by (rule pure_op_result [OF pure_find(3) fl [unfolded findLevel_def]])
  obtain s2 i mv where l: "?put e s = (Inr (), s2)"
    and c: "scoped_create ctx stockMovement_t (Some br) (adjust_movement br d (?delta e) i) (s2\<lparr> db_nextId := Suc (db_nextId s2) \<rparr>) = (Inr mv, s')"
    using rest2 unfolding s1 by (auto simp: bind_eq_Inr [of "?put e"] bind_eq_Inr [of fresh_id] bind_eq_Inr [of "scoped_create _ _ _ _"])
  have found: "x \<in> set (db_branchStock base) \<and> keyed br ?p ?v x" if "e = Some x" for x
    using findLevel_Some [OF fl [unfolded that] base] by blast
  note put = putLevel_Inr [OF l tx base on found]
  have row: "mv_branchId (adjust_movement br d x i) = br" "mv_productId (adjust_movement br d x i) = ?p"
    "mv_variantId (adjust_movement br d x i) = ?v" "mv_qtyDelta (adjust_movement br d x i) = x" for x
    by (simp_all add: adjust_movement_def movement_row_def)
  note mov = movement_create_moved [OF c on row(1)]
  have st2: "db_stockMovement s2 = db_stockMovement s"
    using keeps_eq [of db_stockMovement "?put e" s, OF _ l] by (simp add: framed_putLevel)
  have stock: "stock_at b q w s' = stock_at b q w s2" "moved_at b q w (s2\<lparr> db_nextId := Suc (db_nextId s2) \<rparr>) = moved_at b q w s" for b q w
    using mov(2) [of b q w] by (auto simp: stock_at_def moved_at_def st2)
  show "stock_at b q w s' = stock_at b q w s \<and> moved_at b q w s' = moved_at b q w s" if "\<not> at_key br ?p ?v b q w"
    using that put [of b q w] stock [of b q w] mov(1) [of b q w] row by (auto simp: at_key_def)
  have cur: "stock_at br ?p ?v s' = m \<and> ?delta e = m - stock_at br ?p ?v base"
  proof (cases e)
    case None
    have "stock_at br ?p ?v base = 0"
    proof (rule ccontr)
      assume "stock_at br ?p ?v base \<noteq> 0"
      then obtain r where r: "r \<in> set (db_branchStock base)" "keyed br ?p ?v r"
        unfolding stock_at_def by (metis (mono_tags, lifting) filter_False list.simps(8) sum_list.Nil)
      then obtain r' where "r' \<in> set (db_branchStock s)" "same_level_row r r'" using tx by (auto simp: tx_of_def)
      with r have "r' \<in> set (filter (keyed br ?p ?v) (db_branchStock s))" by (simp add: same_level_row_def live_def)
      with created_level_new(1) [OF l [unfolded None] on] show False by simp
    qed
    moreover have "toFixed3 (jsub (milli_num m) 0) = m"
      using delta_exact [of m 0] new by (simp add: milli_num_def)
    ultimately show ?thesis
      using put [of br ?p ?v] created_level_new(2) [OF l [unfolded None] on] stock(1) [of br ?p ?v] put_m new(1)
      by (auto simp: None)
  next
    case (Some x)
    note x = found [OF Some]
    obtain r where r: "r \<in> set (db_branchStock s)" "same_level_row x r"
        "stock_at br ?p ?v s2 = stock_at br ?p ?v s + (m - bs_qty r)"
      using put [of br ?p ?v] by (auto simp: Some put_m)
    have "keyed br ?p ?v r" using x r(2) by (simp add: same_level_row_def live_def)
    then have "stock_at br ?p ?v s = bs_qty r" using find_level(2) [OF ok(2) r(1)] by blast
    moreover have xb: "stock_at br ?p ?v base = bs_qty x" using find_level(2) [OF ok(1)] x by blast
    moreover have "0 \<le> bs_qty x" "bs_qty x \<le> 10 ^ 10" using ok(1) x by (auto simp: stock_ok_def)
    then have "toFixed3 (jsub (milli_num m) (milli_num (bs_qty x))) = m - bs_qty x"
      using new by (intro delta_exact) auto
    ultimately show ?thesis using r(3) stock(1) [of br ?p ?v] new(1) by (simp add: Some)
  qed
  then show "stock_at br ?p ?v s' = m" by blast
  show "moved_at br ?p ?v s' = moved_at br ?p ?v s + (m - stock_at br ?p ?v base)"
    using cur mov(1) [of br ?p ?v] stock(2) [of br ?p ?v] row by (simp add: at_key_def)
qed

end
