(* ===== verification/StockClaims.thy ===== *)
theory StockClaims
  imports StockFacts SaleFixture
begin

text \<open>
  The stock service as a whole: what a receive and an adjustment leave in the levels and in
  the movements, also when other requests commit between an attempt's reads and its writes.
\<close>

section \<open>The attempt that succeeds\<close>

lemma retry_Inr:
  assumes "withLevelCreateRetry env n ctx body s = (Inr x, s')" "J s" "\<And>k t. J t \<Longrightarrow> J (env k t)"
  shows "\<exists>t k. J t \<and> body (in_tx ctx t) (env k t) = (Inr x, s')"
  using assms(1,2)
proof (induction n arbitrary: s)
  case 0
  then show ?case by (auto simp: racing_tx_def transaction_Inr)
next
  case (Suc n)
  show ?case
  proof (cases "racing_tx (env (Suc n)) ctx body s")
    case (Pair r t)
    show ?thesis
    proof (cases r)
      case (Inl e)
      then have "t = env (Suc n) s" using Pair by (auto simp: racing_tx_def transaction_Inl)
      moreover have "withLevelCreateRetry env n ctx body t = (Inr x, s')"
        using Suc.prems(1) Pair Inl by (auto simp: catch_op_def split: if_splits)
      ultimately show ?thesis using Suc.IH Suc.prems(2) assms(3) by blast
    next
      case (Inr y)
      then have "y = x \<and> t = s'" using Suc.prems(1) Pair by (simp add: catch_op_def)
      then have "body (in_tx ctx s) (env (Suc n) s) = (Inr x, s')"
        using Pair Inr by (simp add: racing_tx_def transaction_Inr)
      then show ?thesis using Suc.prems(2) by blast
    qed
  qed
qed

text \<open>What other requests may do between the reads and the writes of an attempt.\<close>

definition races_kept :: "(nat \<Rightarrow> db \<Rightarrow> db) \<Rightarrow> bool" where
  "races_kept env \<longleftrightarrow> (\<forall>k t. stock_ok t \<longrightarrow> stock_ok (env k t) \<and> tx_of t (env k t) \<and> (ledger t \<longrightarrow> ledger (env k t)))"

lemma races_none: "races_kept (\<lambda>_ t. t)"
  by (simp add: races_kept_def tx_of_refl stock_ok_def)

section \<open>Receiving\<close>

lemma receive_steps:
  assumes run: "receive env ctx br ls s = (Inr (oid, ms), s')" and on: "on_branch ctx br"
    and races: "races_kept env" and ok: "stock_ok s"
    and J: "J (s\<lparr> db_nextId := Suc (db_nextId s) \<rparr>)" "\<And>k t. J t \<Longrightarrow> J (env k t)"
  shows "\<exists>t. J t \<and> (\<forall>b p v. stock_at b p v s' = stock_at b p v t + (if b = br then received ls p v else 0)
    \<and> moved_at b p v s' = moved_at b p v t + (if b = br then received ls p v else 0))"
proof -
  let ?J = "\<lambda>t. J t \<and> stock_ok t"
  obtain oid' where w: "withLevelCreateRetry env LEVEL_RETRIES ctx (receiveBody br oid' ls)
      (s\<lparr> db_nextId := Suc (db_nextId s) \<rparr>) = (Inr (oid, ms), s')"
    using run unfolding receive_def by (auto simp: bind_eq_Inr [of fresh_id] split: sum.splits)
  have "?J (s\<lparr> db_nextId := Suc (db_nextId s) \<rparr>)" using J(1) ok by (simp add: stock_ok_def)
  moreover have "?J (env k t)" if "?J t" for k t using that J(2) races by (simp add: races_kept_def)
  ultimately obtain t k where t: "J t" "stock_ok t" "receiveBody br oid' ls (in_tx ctx t) (env k t) = (Inr (oid, ms), s')"
    using retry_Inr [OF w, of ?J] by blast
  obtain branch s1 where b: "assertBranch (in_tx ctx t) br (env k t) = (Inr branch, s1)"
    and m: "map_op (receiveLine (in_tx ctx t) branch oid') ls s1 = (Inr ms, s')"
    using t(3) unfolding receiveBody_def by (auto simp: bind_eq_Inr)
  have b': "r_id branch = br" "s1 = env k t" using assertBranch_id [OF b] by auto
  have tx: "tx_of t (env k t)" using races t(2) by (simp add: races_kept_def)
  have "on_branch (in_tx ctx t) (r_id branch)" using on b' by (simp add: on_branch_def is_terminal_def)
  from receiveLines_Inr [OF m [unfolded b'(2)] tx _ this] b'(1) J(2) [OF t(1)] show ?thesis
    by (intro exI [of _ "env k t"]) simp
qed

text \<open>
  A receive that succeeds adds to every product and variant of the branch exactly the
  quantities of its lines, and records the same sums as movements; levels and movements of
  every other key and branch stay as they are. When other requests change levels between
  its attempts, it keeps the ledger balanced as long as they do.
\<close>

theorem receive_adds:
  assumes "receive env ctx br ls s = (Inr (oid, ms), s')" and "on_branch ctx br"
    and "races_kept env" and "stock_ok s"
  shows "(ledger s \<longrightarrow> ledger s') \<and> (env = (\<lambda>_ t. t) \<longrightarrow>
      (\<forall>b p v. stock_at b p v s' = stock_at b p v s + (if b = br then received ls p v else 0)
        \<and> moved_at b p v s' = moved_at b p v s + (if b = br then received ls p v else 0)))"
proof (intro conjI impI)
  let ?s = "s\<lparr> db_nextId := Suc (db_nextId s) \<rparr>"
  have same: "stock_at b p v ?s = stock_at b p v s" "moved_at b p v ?s = moved_at b p v s" for b p v
    by (simp_all add: stock_at_def moved_at_def)
  note steps = receive_steps [OF assms]
  { assume "ledger s"
    then have "ledger ?s \<and> stock_ok ?s" using assms(4) by (simp add: ledger_def same stock_ok_def)
    moreover have "ledger (env k t) \<and> stock_ok (env k t)" if "ledger t \<and> stock_ok t" for k t
      using that assms(3) by (simp add: races_kept_def)
    ultimately obtain t where "ledger t" "\<forall>b p v. stock_at b p v s' = stock_at b p v t + (if b = br then received ls p v else 0)
        \<and> moved_at b p v s' = moved_at b p v t + (if b = br then received ls p v else 0)"
      using steps [of "\<lambda>t. ledger t \<and> stock_ok t"] by blast
    then show "ledger s'" by (simp add: ledger_def) }
  { assume env: "env = (\<lambda>_ t. t)"
    have "?s = ?s" by simp
    then obtain t where "t = ?s" "\<forall>b p v. stock_at b p v s' = stock_at b p v t + (if b = br then received ls p v else 0)
        \<and> moved_at b p v s' = moved_at b p v t + (if b = br then received ls p v else 0)"
      using steps [of "\<lambda>t. t = ?s"] env by auto
    then show "\<forall>b p v. stock_at b p v s' = stock_at b p v s + (if b = br then received ls p v else 0)
        \<and> moved_at b p v s' = moved_at b p v s + (if b = br then received ls p v else 0)" by (simp add: same) }
qed

definition fx_receive :: "receive_line list" where
  "fx_receive = [\<lparr> rl_productId = ex_uuid ''04'', rl_variantId = None, rl_qty = 5 / 2, rl_unitCostC = Some (Some 6500),
     rl_expiryDate = None \<rparr>]"

lemma fx_stock_ok: "stock_ok fx_db"
  by code_simp

lemma fx_receive_valid: "receive_valid UUID_RE fx_receive"
  by code_simp

lemma fx_owner_on_branch: "on_branch fx_owner_ctx br"
  by (simp add: on_branch_def is_terminal_def fx_owner_ctx_def)

lemma fx_receive_ok:
  "\<exists>r s'. receive (\<lambda>_ t. t) fx_owner_ctx ''br1'' fx_receive fx_db = (Inr r, s')"
proof -
  have "case fst (receive (\<lambda>_ t. t) fx_owner_ctx ''br1'' fx_receive fx_db) of Inl _ \<Rightarrow> False | Inr _ \<Rightarrow> True"
    by code_simp
  from run_Inr [OF this] show ?thesis by blast
qed

theorem receive_adds_witness:
  "\<exists>r s'. receive (\<lambda>_ t. t) fx_owner_ctx ''br1'' fx_receive fx_db = (Inr r, s')
    \<and> stock_at ''br1'' (ex_uuid ''04'') None s' = 7500"
proof -
  obtain oid ms s' where r: "receive (\<lambda>_ t. t) fx_owner_ctx ''br1'' fx_receive fx_db = (Inr (oid, ms), s')"
    using fx_receive_ok by (metis surj_pair)
  have "stock_at ''br1'' (ex_uuid ''04'') None fx_db + received fx_receive (ex_uuid ''04'') None = 7500" by code_simp
  with receive_adds [OF r fx_owner_on_branch races_none fx_stock_ok] r show ?thesis by auto
qed

section \<open>Adjusting\<close>

text \<open>
  C34. An adjustment that succeeds leaves the level at exactly the requested quantity, also
  when other requests create or change the level between its reads and its writes (an attempt
  that loses the race for a new level is repeated). Undisturbed, it records the difference as
  its movement, touches no other product, variant or branch, and keeps the ledger balanced.
\<close>

theorem adjust_sets_level:
  assumes "adjust env ctx br d s = (Inr res, s')" and "on_branch ctx br" and "adjust_valid isUUID d"
    and "races_kept env" and "stock_ok s"
  shows "stock_at br (aj_productId d) (aj_variantId d) s' = toFixed3 (aj_newQty d)
    \<and> (env = (\<lambda>_ t. t) \<longrightarrow> (ledger s \<longrightarrow> ledger s')
        \<and> (\<forall>b p v. (b, p, v) \<noteq> (br, aj_productId d, aj_variantId d) \<longrightarrow> stock_at b p v s' = stock_at b p v s))"
proof -
  obtain m where m: "aj_newQty d = milli_num m" "0 \<le> m" "m \<le> 10 ^ 9"
    using assms(3) three_decimals_milli [of "aj_newQty d"] by (auto simp: adjust_valid_def milli_num_def)
  have put: "toFixed3 (aj_newQty d) = m" using m toFixed3_milli [of m] by simp
  have races: "stock_ok (env k t) \<and> tx_of t (env k t)" if "stock_ok t" for k t
    using assms(4) that by (simp add: races_kept_def)
  have on: "on_branch (in_tx ctx t) br" for t using assms(2) by (simp add: on_branch_def is_terminal_def)
  obtain t k where t: "stock_ok t" "(env = (\<lambda>_ t. t) \<longrightarrow> t = s)" "adjustBody br d (in_tx ctx t) (env k t) = (Inr res, s')"
    using retry_Inr [OF assms(1) [unfolded adjust_def], of "\<lambda>t. stock_ok t \<and> (env = (\<lambda>_ t. t) \<longrightarrow> t = s)"] races assms(5)
    by auto
  have r: "tx_of t (env k t)" "stock_ok (env k t)" using races [OF t(1)] by auto
  have lev: "stock_at br (aj_productId d) (aj_variantId d) s' = m"
    using adjustBody_Inr(1) [OF t(3) r(1) _ on t(1) r(2) m] by simp
  have others: "stock_at b q w s' = stock_at b q w (env k t) \<and> moved_at b q w s' = moved_at b q w (env k t)"
    if "\<not> at_key br (aj_productId d) (aj_variantId d) b q w" for b q w
    using adjustBody_Inr(2) [OF t(3) r(1) _ on t(1) r(2) m that] by simp
  have moved: "moved_at br (aj_productId d) (aj_variantId d) s' = moved_at br (aj_productId d) (aj_variantId d) (env k t)
      + (m - stock_at br (aj_productId d) (aj_variantId d) t)"
    using adjustBody_Inr(3) [OF t(3) r(1) _ on t(1) r(2) m] by simp
  show ?thesis
  proof (intro conjI impI allI)
    show "stock_at br (aj_productId d) (aj_variantId d) s' = toFixed3 (aj_newQty d)" using lev put by simp
    assume env: "env = (\<lambda>_ t. t)"
    then have ts: "t = s" "env k t = s" using t(2) by simp_all
    show "stock_at b p v s' = stock_at b p v s" if "(b, p, v) \<noteq> (br, aj_productId d, aj_variantId d)" for b p v
      using others [of b p v] that ts by (simp add: at_key_def)
    assume L: "ledger s"
    have "stock_at b p v s' = moved_at b p v s'" for b p v
    proof (cases "at_key br (aj_productId d) (aj_variantId d) b p v")
      case True
      then show ?thesis using lev moved ts L by (simp add: at_key_def ledger_def)
    next
      case False
      then show ?thesis using others [OF False] ts L by (simp add: ledger_def)
    qed
    then show "ledger s'" by (simp add: ledger_def)
  qed
qed

definition fx_adjust :: adjust_dto where
  "fx_adjust = \<lparr> aj_productId = ex_uuid ''04'', aj_variantId = None, aj_newQty = 3, aj_reasonCategory = Count_correction,
     aj_note = None \<rparr>"

lemma fx_adjust_valid: "adjust_valid UUID_RE fx_adjust"
  by code_simp

theorem adjust_sets_level_witness:
  "\<exists>res s'. adjust (\<lambda>_ t. t) fx_terminal_ctx ''br1'' fx_adjust fx_db = (Inr res, s')
    \<and> stock_at ''br1'' (ex_uuid ''04'') None s' = 3000"
proof -
  have "case fst (adjust (\<lambda>_ t. t) fx_terminal_ctx ''br1'' fx_adjust fx_db) of Inl _ \<Rightarrow> False | Inr _ \<Rightarrow> True"
    by code_simp
  from run_Inr [OF this] obtain res s' where r: "adjust (\<lambda>_ t. t) fx_terminal_ctx ''br1'' fx_adjust fx_db = (Inr res, s')"
    by blast
  have on: "on_branch fx_terminal_ctx ''br1''" by (simp add: on_branch_def fx_terminal_ctx_def)
  have "toFixed3 (aj_newQty fx_adjust) = 3000" by code_simp
  with adjust_sets_level [OF r on fx_adjust_valid races_none fx_stock_ok] r show ?thesis
    by (auto simp: fx_adjust_def)
qed

end
