(* ===== verification/Portal.thy ===== *)
theory Portal
  imports Auth Sales
begin

text \<open>
  The owner's portal without the catalogue and the reports: businesses, branches, named
  discounts, terminals, the refund PIN and the activity log (\<open>portal/businesses\<close>,
  \<open>portal/branches\<close>, \<open>portal/discounts\<close>, \<open>portal/terminals\<close>, \<open>portal/settings\<close>,
  \<open>portal/activity-log\<close>), and the shared ownership check (\<open>portal/shared/tenant-guards.ts\<close>).

  Of an optional property, \<open>None\<close> is absent, \<open>Some None\<close> is \<open>null\<close> (the validators let it
  pass) and \<open>Some (Some v)\<close> the value; the database client refuses \<open>null\<close> for a column that
  is not nullable.
\<close>

section \<open>Optional properties\<close>

type_synonym 'a maybe = "'a option option"

definition null_error :: exn where
  "null_error = Crash ''Argument must not be null.''"

text \<open>\<open>{...(x !== undefined ? { c: x } : {})}\<close> for a column that is not nullable.\<close>

definition not_null :: "'a maybe \<Rightarrow> exn + 'a option" where
  "not_null x = (case x of None \<Rightarrow> Inr None | Some None \<Rightarrow> Inl null_error | Some (Some v) \<Rightarrow> Inr (Some v))"

definition not_null_int :: "num maybe \<Rightarrow> exn + int option" where
  "not_null_int x = (case not_null x of Inl e \<Rightarrow> Inl e | Inr None \<Rightarrow> Inr None
     | Inr (Some c) \<Rightarrow> (case int_column c of Inl e \<Rightarrow> Inl e | Inr n \<Rightarrow> Inr (Some n)))"

definition given :: "('a \<Rightarrow> 'r \<Rightarrow> 'r) \<Rightarrow> 'a option \<Rightarrow> 'r \<Rightarrow> 'r" where
  "given put x r = (case x of None \<Rightarrow> r | Some v \<Rightarrow> put v r)"

text \<open>\<open>x ?? d\<close>.\<close>

definition or_default :: "'a maybe \<Rightarrow> 'a \<Rightarrow> 'a" where
  "or_default x d = (case x of Some (Some v) \<Rightarrow> v | _ \<Rightarrow> d)"

section \<open>Ownership and lookups\<close>

definition assertBusinessOwned :: "ctx \<Rightarrow> uid \<Rightarrow> (db, exn, unit) op" where
  "assertBusinessOwned ctx businessId =
    bind (scoped_findFirst ctx business_t (\<lambda>b. r_id b = businessId)) (\<lambda>found.
    guard (found \<noteq> None) (not_found ''Business not found.''))"

definition getOr404 :: "ctx \<Rightarrow> 'a table \<Rightarrow> string \<Rightarrow> uid \<Rightarrow> (db, exn, 'a row_scheme) op" where
  "getOr404 ctx t message i =
    bind (scoped_findFirst ctx t (\<lambda>r. r_id r = i)) (\<lambda>found.
    case found of None \<Rightarrow> throw (not_found message) | Some r \<Rightarrow> ret r)"

text \<open>Rows of a business, newest first.\<close>

definition newest_first :: "'a row_scheme list \<Rightarrow> 'a row_scheme list" where
  "newest_first rs = sort_key (\<lambda>r. - r_createdAt r) rs"

section \<open>Businesses\<close>

definition toFixed4 :: "num \<Rightarrow> int" where
  "toFixed4 x = (if x < 0 then - \<lfloor>- x * 10000 + 1/2\<rfloor> else \<lfloor>x * 10000 + 1/2\<rfloor>)"

record business_response =
  bq_row :: business_row
  bq_taxRate :: num
  bq_serviceChargeRate :: num

definition serializeBusiness :: "business_row \<Rightarrow> business_response" where
  "serializeBusiness b = \<lparr> bq_row = b, bq_taxRate = fl (of_int (bz_taxRate b) / 10000),
     bq_serviceChargeRate = fl (of_int (bz_serviceChargeRate b) / 10000) \<rparr>"

record create_business =
  cb_name :: string
  cb_type :: business_type
  cb_currency :: "string maybe"
  cb_taxRate :: num
  cb_serviceChargeRate :: "num maybe"
  cb_dayStartTime :: "string maybe"
  cb_allowMiscItems :: "bool maybe"
  cb_expiryWarningDays :: "num maybe"
  cb_receiptHeader :: "string maybe"
  cb_receiptFooter :: "string maybe"

record update_business =
  ub_name :: "string maybe"
  ub_type :: "business_type maybe"
  ub_currency :: "string maybe"
  ub_taxRate :: "num maybe"
  ub_serviceChargeRate :: "num maybe"
  ub_dayStartTime :: "string maybe"
  ub_allowMiscItems :: "bool maybe"
  ub_expiryWarningDays :: "num maybe"
  ub_receiptHeader :: "string maybe"
  ub_receiptFooter :: "string maybe"

definition listBusinesses :: "ctx \<Rightarrow> (db, exn, business_response list) op" where
  "listBusinesses ctx =
    bind (scoped_findMany ctx business_t (\<lambda>_. True)) (\<lambda>rows.
    ret (map serializeBusiness (newest_first rows)))"

definition no_business :: string where "no_business = ''Business not found.''"

definition getBusiness :: "ctx \<Rightarrow> uid \<Rightarrow> (db, exn, business_response) op" where
  "getBusiness ctx i = bind (getOr404 ctx business_t no_business i) (\<lambda>b. ret (serializeBusiness b))"

definition cap_reached :: exn where
  "cap_reached = Api (MaxBusinessesReachedError ''You have reached the maximum number of businesses for your account.'')"

definition no_owner :: exn where
  "no_owner = Api (ForbiddenError ''Portal access requires an owner account.'')"

definition ownedCount :: "uid \<Rightarrow> db \<Rightarrow> nat" where
  "ownedCount ownerId s =
    List.length (filter (\<lambda>b. bz_ownerId b = ownerId \<and> \<not> bz_isDemo b \<and> live b) (db_business s))"

definition new_business ::
  "uid \<Rightarrow> uid \<Rightarrow> create_business \<Rightarrow> string option \<Rightarrow> bool option \<Rightarrow> int option \<Rightarrow> string option \<Rightarrow> string option \<Rightarrow> business_row" where
  "new_business i ownerId d dayStart misc days header footer =
    \<lparr> r_id = i, r_createdAt = 0, r_updatedAt = 0, r_deletedAt = None, bz_ownerId = ownerId, bz_name = cb_name d,
      bz_type = cb_type d, bz_currency = or_default (cb_currency d) ''PHP'', bz_taxRate = toFixed4 (cb_taxRate d),
      bz_serviceChargeRate = toFixed4 (or_default (cb_serviceChargeRate d) 0),
      bz_allowMiscItems = (case misc of None \<Rightarrow> True | Some x \<Rightarrow> x), bz_isDemo = False,
      bz_dayStartTime = (case dayStart of None \<Rightarrow> ''00:00'' | Some x \<Rightarrow> x),
      bz_expiryWarningDays = (case days of None \<Rightarrow> 7 | Some x \<Rightarrow> x), bz_logoPath = None,
      bz_receiptHeader = (case header of None \<Rightarrow> [] | Some x \<Rightarrow> x),
      bz_receiptFooter = (case footer of None \<Rightarrow> [] | Some x \<Rightarrow> x) \<rparr>"

definition insertBusiness :: "ctx \<Rightarrow> uid \<Rightarrow> create_business \<Rightarrow> (db, exn, business_row) op" where
  "insertBusiness ctx ownerId d =
    bind (lift_res (not_null (cb_dayStartTime d))) (\<lambda>dayStart.
    bind (lift_res (not_null (cb_allowMiscItems d))) (\<lambda>misc.
    bind (lift_res (not_null_int (cb_expiryWarningDays d))) (\<lambda>days.
    bind (lift_res (not_null (cb_receiptHeader d))) (\<lambda>header.
    bind (lift_res (not_null (cb_receiptFooter d))) (\<lambda>footer.
    bind fresh_id (\<lambda>i.
    scoped_create ctx business_t (Some ownerId) (new_business i ownerId d dayStart misc days header footer)))))))"

text \<open>The owner row is locked, so the count and the insert see one state.\<close>

definition createBusinessBody :: "uid \<Rightarrow> create_business \<Rightarrow> ctx \<Rightarrow> (db, exn, business_row) op" where
  "createBusinessBody ownerId d ctx =
    bind (findOwner ownerId) (\<lambda>found.
    bind (orThrow ''No Owner found'' found) (\<lambda>owner.
    bind (reads (ownedCount ownerId)) (\<lambda>n.
    bind (guard (\<not> ow_maxBusinesses owner \<le> int n) cap_reached) (\<lambda>_.
    insertBusiness ctx ownerId d))))"

definition createBusiness :: "ctx \<Rightarrow> create_business \<Rightarrow> (db, exn, business_response) op" where
  "createBusiness ctx d =
    (case truthy_id (cx_ownerId ctx) of
       None \<Rightarrow> throw no_owner
     | Some ownerId \<Rightarrow>
         bind (runWithTxClient ctx (createBusinessBody ownerId d)) (\<lambda>b. ret (serializeBusiness b)))"

definition empty_business_patch :: "update_business \<Rightarrow> bool" where
  "empty_business_patch d \<longleftrightarrow> ub_name d = None \<and> ub_type d = None \<and> ub_currency d = None \<and> ub_taxRate d = None
    \<and> ub_serviceChargeRate d = None \<and> ub_dayStartTime d = None \<and> ub_allowMiscItems d = None
    \<and> ub_expiryWarningDays d = None \<and> ub_receiptHeader d = None \<and> ub_receiptFooter d = None"

definition updateBusiness :: "ctx \<Rightarrow> uid \<Rightarrow> update_business \<Rightarrow> (db, exn, business_response) op" where
  "updateBusiness ctx i d =
    bind (getBusiness ctx i) (\<lambda>existing.
    if empty_business_patch d then ret existing
    else
      bind (lift_res (not_null (ub_name d))) (\<lambda>name.
      bind (lift_res (not_null (ub_type d))) (\<lambda>ty.
      bind (lift_res (not_null (ub_currency d))) (\<lambda>currency.
      bind (lift_res (not_null (ub_taxRate d))) (\<lambda>tax.
      bind (lift_res (not_null (ub_serviceChargeRate d))) (\<lambda>service.
      bind (lift_res (not_null (ub_dayStartTime d))) (\<lambda>dayStart.
      bind (lift_res (not_null (ub_allowMiscItems d))) (\<lambda>misc.
      bind (lift_res (not_null_int (ub_expiryWarningDays d))) (\<lambda>days.
      bind (lift_res (not_null (ub_receiptHeader d))) (\<lambda>header.
      bind (lift_res (not_null (ub_receiptFooter d))) (\<lambda>footer.
      bind (scoped_update ctx business_t (\<lambda>r. r_id r = i)
             (given (\<lambda>v r. r\<lparr> bz_name := v \<rparr>) name
              \<circ> given (\<lambda>v r. r\<lparr> bz_type := v \<rparr>) ty
              \<circ> given (\<lambda>v r. r\<lparr> bz_currency := v \<rparr>) currency
              \<circ> given (\<lambda>v r. r\<lparr> bz_taxRate := toFixed4 v \<rparr>) tax
              \<circ> given (\<lambda>v r. r\<lparr> bz_serviceChargeRate := toFixed4 v \<rparr>) service
              \<circ> given (\<lambda>v r. r\<lparr> bz_dayStartTime := v \<rparr>) dayStart
              \<circ> given (\<lambda>v r. r\<lparr> bz_allowMiscItems := v \<rparr>) misc
              \<circ> given (\<lambda>v r. r\<lparr> bz_expiryWarningDays := v \<rparr>) days
              \<circ> given (\<lambda>v r. r\<lparr> bz_receiptHeader := v \<rparr>) header
              \<circ> given (\<lambda>v r. r\<lparr> bz_receiptFooter := v \<rparr>) footer)) (\<lambda>b.
      ret (serializeBusiness b)))))))))))))"

definition removeBusiness :: "ctx \<Rightarrow> uid \<Rightarrow> (db, exn, business_response) op" where
  "removeBusiness ctx i =
    bind (getBusiness ctx i) (\<lambda>_.
    bind (scoped_delete ctx business_t (\<lambda>r. r_id r = i)) (\<lambda>b. ret (serializeBusiness b)))"

section \<open>Branches\<close>

record create_branch =
  cbr_name :: string
  cbr_code :: string
  cbr_address :: string

record update_branch =
  ubr_name :: "string maybe"
  ubr_code :: "string maybe"
  ubr_address :: "string maybe"

definition mapBranchWriteError :: "exn \<Rightarrow> exn" where
  "mapBranchWriteError e =
    (if e = Unique_violation then validation ''A branch with this code already exists for this business.'' else e)"

definition no_branch :: string where "no_branch = ''Branch not found.''"

definition listBranches :: "ctx \<Rightarrow> uid \<Rightarrow> (db, exn, branch_row list) op" where
  "listBranches ctx businessId =
    bind (assertBusinessOwned ctx businessId) (\<lambda>_.
    bind (scoped_findMany ctx branch_t (\<lambda>b. br_businessId b = businessId)) (\<lambda>rows. ret (newest_first rows)))"

definition createBranch :: "ctx \<Rightarrow> uid \<Rightarrow> create_branch \<Rightarrow> (db, exn, branch_row) op" where
  "createBranch ctx businessId d =
    bind (assertBusinessOwned ctx businessId) (\<lambda>_.
    bind fresh_id (\<lambda>i.
    catch_op
      (scoped_create ctx branch_t (Some businessId)
        \<lparr> r_id = i, r_createdAt = 0, r_updatedAt = 0, r_deletedAt = None, br_businessId = businessId,
          br_name = cbr_name d, br_code = cbr_code d, br_address = cbr_address d \<rparr>)
      (\<lambda>e. throw (mapBranchWriteError e))))"

definition getBranch :: "ctx \<Rightarrow> uid \<Rightarrow> (db, exn, branch_row) op" where
  "getBranch ctx i = getOr404 ctx branch_t no_branch i"

definition updateBranch :: "ctx \<Rightarrow> uid \<Rightarrow> update_branch \<Rightarrow> (db, exn, branch_row) op" where
  "updateBranch ctx i d =
    bind (getBranch ctx i) (\<lambda>existing.
    if ubr_name d = None \<and> ubr_code d = None \<and> ubr_address d = None then ret existing
    else
      bind (lift_res (not_null (ubr_name d))) (\<lambda>name.
      bind (lift_res (not_null (ubr_code d))) (\<lambda>code.
      bind (lift_res (not_null (ubr_address d))) (\<lambda>address.
      catch_op
        (scoped_update ctx branch_t (\<lambda>r. r_id r = i)
          (given (\<lambda>v r. r\<lparr> br_name := v \<rparr>) name \<circ> given (\<lambda>v r. r\<lparr> br_code := v \<rparr>) code
           \<circ> given (\<lambda>v r. r\<lparr> br_address := v \<rparr>) address))
        (\<lambda>e. throw (mapBranchWriteError e))))))"

definition removeBranch :: "ctx \<Rightarrow> uid \<Rightarrow> (db, exn, branch_row) op" where
  "removeBranch ctx i =
    bind (getBranch ctx i) (\<lambda>_. scoped_delete ctx branch_t (\<lambda>r. r_id r = i))"

section \<open>Named discounts\<close>

record create_discount =
  cd_name :: string
  cd_kind :: disc_kind
  cd_value :: num
  cd_appliesTo :: discount_applies_to
  cd_active :: "bool maybe"

record update_discount =
  ud_name :: "string maybe"
  ud_kind :: "disc_kind maybe"
  ud_value :: "num maybe"
  ud_appliesTo :: "discount_applies_to maybe"
  ud_active :: "bool maybe"

definition no_discount :: string where "no_discount = ''Discount not found.''"

definition assertPercentRange :: "disc_kind \<Rightarrow> num \<Rightarrow> exn + unit" where
  "assertPercentRange kind v =
    (if kind = Percent \<and> (v < 1 \<or> 100 < v)
     then Inl (validation ''A percent discount value must be between 1 and 100.'') else Inr ())"

definition listDiscounts :: "ctx \<Rightarrow> uid \<Rightarrow> (db, exn, discount_row list) op" where
  "listDiscounts ctx businessId =
    bind (assertBusinessOwned ctx businessId) (\<lambda>_.
    bind (scoped_findMany ctx discount_t (\<lambda>d. dc_businessId d = businessId)) (\<lambda>rows. ret (newest_first rows)))"

definition createDiscount :: "ctx \<Rightarrow> uid \<Rightarrow> create_discount \<Rightarrow> (db, exn, discount_row) op" where
  "createDiscount ctx businessId d =
    bind (assertBusinessOwned ctx businessId) (\<lambda>_.
    bind (lift_res (assertPercentRange (cd_kind d) (cd_value d))) (\<lambda>_.
    bind (lift_res (int_column (cd_value d))) (\<lambda>v.
    bind (lift_res (not_null (cd_active d))) (\<lambda>active.
    bind fresh_id (\<lambda>i.
    scoped_create ctx discount_t (Some businessId)
      \<lparr> r_id = i, r_createdAt = 0, r_updatedAt = 0, r_deletedAt = None, dc_businessId = businessId, dc_name = cd_name d,
        dc_kind = cd_kind d, dc_value = v, dc_appliesTo = cd_appliesTo d,
        dc_active = (case active of None \<Rightarrow> True | Some x \<Rightarrow> x) \<rparr>)))))"

definition getDiscount :: "ctx \<Rightarrow> uid \<Rightarrow> (db, exn, discount_row) op" where
  "getDiscount ctx i = getOr404 ctx discount_t no_discount i"

definition updateDiscount :: "ctx \<Rightarrow> uid \<Rightarrow> update_discount \<Rightarrow> (db, exn, discount_row) op" where
  "updateDiscount ctx i d =
    bind (getDiscount ctx i) (\<lambda>existing.
    bind (lift_res (assertPercentRange (or_default (ud_kind d) (dc_kind existing))
            (or_default (ud_value d) (of_int (dc_value existing))))) (\<lambda>_.
    if ud_name d = None \<and> ud_kind d = None \<and> ud_value d = None \<and> ud_appliesTo d = None \<and> ud_active d = None
    then ret existing
    else
      bind (lift_res (not_null (ud_name d))) (\<lambda>name.
      bind (lift_res (not_null (ud_kind d))) (\<lambda>kind.
      bind (lift_res (not_null_int (ud_value d))) (\<lambda>v.
      bind (lift_res (not_null (ud_appliesTo d))) (\<lambda>applies.
      bind (lift_res (not_null (ud_active d))) (\<lambda>active.
      scoped_update ctx discount_t (\<lambda>r. r_id r = i)
        (given (\<lambda>v r. r\<lparr> dc_name := v \<rparr>) name \<circ> given (\<lambda>v r. r\<lparr> dc_kind := v \<rparr>) kind
         \<circ> given (\<lambda>v r. r\<lparr> dc_value := v \<rparr>) v \<circ> given (\<lambda>v r. r\<lparr> dc_appliesTo := v \<rparr>) applies
         \<circ> given (\<lambda>v r. r\<lparr> dc_active := v \<rparr>) active))))))))"

definition removeDiscount :: "ctx \<Rightarrow> uid \<Rightarrow> (db, exn, discount_row) op" where
  "removeDiscount ctx i =
    bind (getDiscount ctx i) (\<lambda>_. scoped_delete ctx discount_t (\<lambda>r. r_id r = i))"

section \<open>Terminals\<close>

record terminal_response =
  tr_id :: uid
  tr_branchId :: uid
  tr_name :: string
  tr_code :: string
  tr_pairedAt :: time
  tr_lastSeenAt :: "time option"
  tr_paired :: bool

definition serializeTerminal :: "terminal_row \<Rightarrow> terminal_response" where
  "serializeTerminal t = \<lparr> tr_id = r_id t, tr_branchId = tm_branchId t, tr_name = tm_name t, tr_code = tm_code t,
     tr_pairedAt = r_createdAt t, tr_lastSeenAt = tm_lastSeenAt t, tr_paired = (tm_deviceTokenHash t \<noteq> None) \<rparr>"

definition branch_in :: "db \<Rightarrow> uid \<Rightarrow> uid \<Rightarrow> bool" where
  "branch_in base businessId branchId \<longleftrightarrow> list_ex (\<lambda>b. r_id b = branchId \<and> br_businessId b = businessId) (db_branch base)"

definition listTerminals :: "ctx \<Rightarrow> uid \<Rightarrow> (db, exn, terminal_response list) op" where
  "listTerminals ctx businessId =
    bind (assertBusinessOwned ctx businessId) (\<lambda>_.
    bind (reads (base_db ctx)) (\<lambda>base.
    bind (scoped_findMany ctx terminal_t (\<lambda>t. branch_in base businessId (tm_branchId t))) (\<lambda>rows.
    ret (map serializeTerminal (sort_key r_createdAt rows)))))"

definition unpairTerminal :: "ctx \<Rightarrow> uid \<Rightarrow> (db, exn, terminal_response) op" where
  "unpairTerminal ctx i =
    bind (getOr404 ctx terminal_t ''Terminal not found.'' i) (\<lambda>_.
    bind (scoped_update ctx terminal_t (\<lambda>r. r_id r = i) (\<lambda>r. r\<lparr> tm_deviceTokenHash := None \<rparr>)) (\<lambda>t.
    ret (serializeTerminal t)))"

section \<open>The refund PIN\<close>

definition pin_valid :: "string \<Rightarrow> bool" where
  "pin_valid pin \<longleftrightarrow> List.length pin = 6 \<and> list_all is_digit pin"

text \<open>The salt is what the hash function draws at random.\<close>

definition setRefundPin :: "crypto \<Rightarrow> string \<Rightarrow> ctx \<Rightarrow> string \<Rightarrow> (db, exn, unit) op" where
  "setRefundPin lib salt ctx pin =
    (case (cx_actor ctx, truthy_id (cx_ownerId ctx)) of
       (Some (_, userId), Some ownerId) \<Rightarrow>
         bind (raw_update user_t userId (\<lambda>u. u\<lparr> us_pinHash := Some (hashSecret lib salt pin), us_failedPinCount := 0,
                 us_pinLockedUntil := None \<rparr>)) (\<lambda>_.
         logAuth ctx ''user.refund_pin_set'' userId (Some ownerId) [])
     | _ \<Rightarrow> throw no_owner)"

section \<open>The activity log\<close>

record activity_query =
  aq_branchId :: "uid option"
  aq_actorType :: "actor_type option"
  aq_action :: "string option"
  aq_from :: "time option"
  aq_to :: "time option"
  aq_page :: "nat option"
  aq_pageSize :: "nat option"

record 'a paginated =
  pg_data :: "'a list"
  pg_page :: nat
  pg_pageSize :: nat
  pg_total :: nat
  pg_totalPages :: nat

definition DEFAULT_PAGE_SIZE :: nat where "DEFAULT_PAGE_SIZE = 50"

definition opt_match :: "'a option \<Rightarrow> 'a option \<Rightarrow> bool" where
  "opt_match wanted x \<longleftrightarrow> wanted = None \<or> wanted = x"

text \<open>The filters a query adds; an empty string is no filter.\<close>

definition query_match :: "activity_query \<Rightarrow> audit_row \<Rightarrow> bool" where
  "query_match q a \<longleftrightarrow> opt_match (truthy_id (aq_branchId q)) (al_branchId a)
    \<and> opt_match (aq_actorType q) (Some (al_actorType a)) \<and> opt_match (truthy_id (aq_action q)) (Some (al_action a))
    \<and> (case aq_from q of None \<Rightarrow> True | Some t \<Rightarrow> t \<le> r_createdAt a)
    \<and> (case aq_to q of None \<Rightarrow> True | Some t \<Rightarrow> r_createdAt a \<le> t)"

definition paginate :: "activity_query \<Rightarrow> audit_row list \<Rightarrow> audit_row paginated" where
  "paginate q rows =
    (let page = (case aq_page q of None \<Rightarrow> 1 | Some p \<Rightarrow> p);
         size = (case aq_pageSize q of None \<Rightarrow> DEFAULT_PAGE_SIZE | Some n \<Rightarrow> n);
         n = List.length rows
     in \<lparr> pg_data = take size (drop ((page - 1) * size) (newest_first rows)), pg_page = page, pg_pageSize = size,
          pg_total = n, pg_totalPages = max 1 ((n + size - 1) div size) \<rparr>)"

definition activityLog :: "ctx \<Rightarrow> uid \<Rightarrow> activity_query \<Rightarrow> (db, exn, audit_row paginated) op" where
  "activityLog ctx businessId q =
    bind (assertBusinessOwned ctx businessId) (\<lambda>_.
    bind (scoped_audit_findMany ctx (\<lambda>a. (al_businessId a = Some businessId \<or> al_businessId a = None) \<and> query_match q a)) (\<lambda>rows.
    bind (logPortal ctx ''audit.activity_log_read'' ''business'' (Some businessId) (Some businessId) []) (\<lambda>_.
    ret (paginate q rows))))"

end
