(* ===== verification/Admin.thy ===== *)
theory Admin
  imports Portal
begin

text \<open>
  The platform administrator: provisioning and suspending owners (\<open>admin/owners.service.ts\<close>)
  on the raw client, and the audited browse of tenant data (\<open>admin/tenant-browse.service.ts\<close>)
  through the platform scope. Of an audit row written by an administrator the free-form
  \<open>changes\<close> are left out.
\<close>

section \<open>Owners\<close>

record create_owner =
  co_name :: string
  co_email :: string
  co_maxBusinesses :: num

record update_owner =
  uo_name :: "string maybe"
  uo_maxBusinesses :: "num maybe"

datatype suspend_tier = Default_tier | Hard_tier

definition email_taken :: exn where
  "email_taken = Api (EmailTakenError ''This email is already in use.'')"

definition listOwners :: "(db, exn, owner_row list) op" where
  "listOwners = reads (\<lambda>s. newest_first (filter live (db_owner s)))"

definition getOwner :: "uid \<Rightarrow> (db, exn, owner_row) op" where
  "getOwner i =
    bind (reads (\<lambda>s. find (\<lambda>w. r_id w = i \<and> live w) (db_owner s))) (\<lambda>found.
    case found of None \<Rightarrow> throw (not_found ''Owner not found.'') | Some w \<Rightarrow> ret w)"

definition new_owner :: "uid \<Rightarrow> create_owner \<Rightarrow> int \<Rightarrow> owner_row" where
  "new_owner i d n = \<lparr> r_id = i, r_createdAt = 0, r_updatedAt = 0, r_deletedAt = None, ow_name = co_name d,
     ow_email = co_email d, ow_status = Active, ow_maxBusinesses = n, ow_suspendedAt = None \<rparr>"

definition new_owner_user :: "uid \<Rightarrow> string \<Rightarrow> uid \<Rightarrow> user_row" where
  "new_owner_user i email ownerId = \<lparr> r_id = i, r_createdAt = 0, r_updatedAt = 0, r_deletedAt = None, us_email = email,
     us_passwordHash = None, us_role = Owner_role, us_ownerId = Some ownerId, us_pinHash = None, us_totpSecret = None,
     us_totpPendingSecret = None, us_totpLastTimeStep = None, us_totpRecoveryCodes = [], us_failedLoginCount = 0,
     us_loginLockedUntil = None, us_failedPinCount = 0, us_pinLockedUntil = None \<rparr>"

definition provision :: "create_owner \<Rightarrow> (db, exn, owner_row \<times> user_row) op" where
  "provision d =
    bind (lift_res (int_column (co_maxBusinesses d))) (\<lambda>n.
    bind fresh_id (\<lambda>i.
    bind (raw_insert owner_t (new_owner i d n)) (\<lambda>owner.
    bind fresh_id (\<lambda>j.
    bind (raw_insert user_t (new_owner_user j (co_email d) (r_id owner))) (\<lambda>user.
    ret (owner, user))))))"

text \<open>The answer is the owner and the invitation mail.\<close>

definition createOwner ::
  "crypto \<Rightarrow> string \<Rightarrow> string \<Rightarrow> ctx \<Rightarrow> create_owner \<Rightarrow> (db, exn, owner_row \<times> (string \<times> string)) op" where
  "createOwner lib appUrl rawToken ctx d =
    bind (catch_op (transaction (provision d)) (\<lambda>e. throw (if e = Unique_violation then email_taken else e))) (\<lambda>(owner, user).
    bind (createInvite lib appUrl rawToken (r_id user)) (\<lambda>invite.
    bind (logAdmin ctx ''admin.owner.create'' ''owner'' (Some (r_id owner)) []) (\<lambda>_.
    ret (owner, snd invite))))"

definition updateOwner :: "ctx \<Rightarrow> uid \<Rightarrow> update_owner \<Rightarrow> (db, exn, owner_row) op" where
  "updateOwner ctx i d =
    bind (getOwner i) (\<lambda>_.
    bind (lift_res (not_null (uo_name d))) (\<lambda>name.
    bind (lift_res (not_null_int (uo_maxBusinesses d))) (\<lambda>n.
    bind (raw_update owner_t i (given (\<lambda>v w. w\<lparr> ow_name := v \<rparr>) name \<circ> given (\<lambda>v w. w\<lparr> ow_maxBusinesses := v \<rparr>) n)) (\<lambda>owner.
    bind (logAdmin ctx ''admin.owner.update'' ''owner'' (Some i) []) (\<lambda>_. ret owner)))))"

definition suspendOwner :: "ctx \<Rightarrow> uid \<Rightarrow> suspend_tier \<Rightarrow> (db, exn, owner_row) op" where
  "suspendOwner ctx i tier =
    bind (getOwner i) (\<lambda>_.
    bind now (\<lambda>n.
    bind (raw_update owner_t i (\<lambda>w. w\<lparr> ow_status := (if tier = Hard_tier then Hard_suspended else Suspended),
            ow_suspendedAt := Some n \<rparr>)) (\<lambda>owner.
    bind (logAdmin ctx ''admin.owner.suspend'' ''owner'' (Some i) []) (\<lambda>_. ret owner))))"

definition reinstateOwner :: "ctx \<Rightarrow> uid \<Rightarrow> (db, exn, owner_row) op" where
  "reinstateOwner ctx i =
    bind (getOwner i) (\<lambda>_.
    bind (raw_update owner_t i (\<lambda>w. w\<lparr> ow_status := Active, ow_suspendedAt := None \<rparr>)) (\<lambda>owner.
    bind (logAdmin ctx ''admin.owner.reinstate'' ''owner'' (Some i) []) (\<lambda>_. ret owner)))"

section \<open>Browsing tenants\<close>

definition assertOwnerExists :: "ctx \<Rightarrow> uid \<Rightarrow> (db, exn, unit) op" where
  "assertOwnerExists ctx i =
    bind (scoped_findFirst ctx owner_t (\<lambda>w. r_id w = i \<and> live w)) (\<lambda>found.
    guard (found \<noteq> None) (not_found ''Owner not found.''))"

definition assertBusinessExists :: "ctx \<Rightarrow> uid \<Rightarrow> (db, exn, unit) op" where
  "assertBusinessExists ctx i =
    bind (scoped_findFirst ctx business_t (\<lambda>b. r_id b = i \<and> live b)) (\<lambda>found.
    guard (found \<noteq> None) (not_found no_business))"

definition browseBusinesses :: "ctx \<Rightarrow> uid \<Rightarrow> (db, exn, business_row list) op" where
  "browseBusinesses ctx ownerId =
    bind (assertOwnerExists ctx ownerId) (\<lambda>_.
    bind (scoped_findMany ctx business_t (\<lambda>b. bz_ownerId b = ownerId \<and> live b)) (\<lambda>rows.
    bind (logAdmin ctx ''admin.browse.businesses'' ''owner'' (Some ownerId) []) (\<lambda>_.
    ret (newest_first rows))))"

definition browseBranches :: "ctx \<Rightarrow> uid \<Rightarrow> (db, exn, branch_row list) op" where
  "browseBranches ctx businessId =
    bind (assertBusinessExists ctx businessId) (\<lambda>_.
    bind (scoped_findMany ctx branch_t (\<lambda>b. br_businessId b = businessId \<and> live b)) (\<lambda>rows.
    bind (logAdmin ctx ''admin.browse.branches'' ''business'' (Some businessId) [(''browsedBusinessId'', businessId)]) (\<lambda>_.
    ret (newest_first rows))))"

definition browseActivityLog :: "ctx \<Rightarrow> uid \<Rightarrow> activity_query \<Rightarrow> (db, exn, audit_row paginated) op" where
  "browseActivityLog ctx businessId q =
    bind (assertBusinessExists ctx businessId) (\<lambda>_.
    bind (scoped_audit_findMany ctx (\<lambda>a. al_businessId a = Some businessId \<and> query_match q a)) (\<lambda>rows.
    bind (logAdmin ctx ''admin.browse.activity_log'' ''business'' (Some businessId) [(''browsedBusinessId'', businessId)]) (\<lambda>_.
    ret (paginate q rows))))"

end
