(* ===== verification/Catalog.thy ===== *)
theory Catalog
  imports Portal Nested
begin

text \<open>
  The portal's catalogue (\<open>portal/catalog\<close>): categories, products with their variants, and
  modifier groups with their modifiers and their links to products. Variants and modifiers are
  replace-sets: entries with an id update, entries without create, rows left out are archived.
\<close>

section \<open>Categories\<close>

record create_category =
  cc_name :: string
  cc_sortOrder :: "num maybe"

record update_category =
  uc_name :: "string maybe"
  uc_sortOrder :: "num maybe"

definition no_category :: string where "no_category = ''Category not found.''"

definition listCategories :: "ctx \<Rightarrow> uid \<Rightarrow> (db, exn, category_row list) op" where
  "listCategories ctx businessId =
    bind (assertBusinessOwned ctx businessId) (\<lambda>_.
    bind (scoped_findMany ctx category_t (\<lambda>c. cg_businessId c = businessId)) (\<lambda>rows.
    ret (sort_key cg_sortOrder (sort_key r_createdAt rows))))"

definition createCategory :: "ctx \<Rightarrow> uid \<Rightarrow> create_category \<Rightarrow> (db, exn, category_row) op" where
  "createCategory ctx businessId d =
    bind (assertBusinessOwned ctx businessId) (\<lambda>_.
    bind (lift_res (not_null_int (cc_sortOrder d))) (\<lambda>so.
    bind fresh_id (\<lambda>i.
    scoped_create ctx category_t (Some businessId)
      \<lparr> r_id = i, r_createdAt = 0, r_updatedAt = 0, r_deletedAt = None, cg_businessId = businessId, cg_name = cc_name d,
        cg_sortOrder = (case so of None \<Rightarrow> 0 | Some x \<Rightarrow> x) \<rparr>)))"

definition getCategory :: "ctx \<Rightarrow> uid \<Rightarrow> (db, exn, category_row) op" where
  "getCategory ctx i = getOr404 ctx category_t no_category i"

definition updateCategory :: "ctx \<Rightarrow> uid \<Rightarrow> update_category \<Rightarrow> (db, exn, category_row) op" where
  "updateCategory ctx i d =
    bind (getCategory ctx i) (\<lambda>existing.
    if uc_name d = None \<and> uc_sortOrder d = None then ret existing
    else
      bind (lift_res (not_null (uc_name d))) (\<lambda>name.
      bind (lift_res (not_null_int (uc_sortOrder d))) (\<lambda>so.
      scoped_update ctx category_t (\<lambda>r. r_id r = i)
        (given (\<lambda>v r. r\<lparr> cg_name := v \<rparr>) name \<circ> given (\<lambda>v r. r\<lparr> cg_sortOrder := v \<rparr>) so))))"

definition removeCategory :: "ctx \<Rightarrow> uid \<Rightarrow> (db, exn, category_row) op" where
  "removeCategory ctx i =
    bind (getCategory ctx i) (\<lambda>_. scoped_delete ctx category_t (\<lambda>r. r_id r = i))"

section \<open>Products: requests and answers\<close>

record variant_input =
  vi_id :: "uid option"
  vi_name :: string
  vi_sku :: "string option"
  vi_barcode :: "string option"
  vi_priceC :: num
  vi_costC :: "num option"

record create_product =
  cp_categoryId :: uid
  cp_name :: string
  cp_sku :: "string option"
  cp_barcode :: "string option"
  cp_priceC :: num
  cp_costC :: "num option"
  cp_soldBy :: "sold_by maybe"
  cp_lowStockThreshold :: "num maybe"
  cp_trackStock :: "bool maybe"
  cp_trackExpiry :: "bool maybe"
  cp_active :: "bool maybe"
  cp_imagePath :: "string maybe"
  cp_variants :: "variant_input list option"

record update_product =
  up_categoryId :: "uid maybe"
  up_name :: "string maybe"
  up_sku :: "string maybe"
  up_barcode :: "string maybe"
  up_priceC :: "num maybe"
  up_costC :: "num maybe"
  up_soldBy :: "sold_by maybe"
  up_lowStockThreshold :: "num maybe"
  up_trackStock :: "bool maybe"
  up_trackExpiry :: "bool maybe"
  up_active :: "bool maybe"
  up_imagePath :: "string maybe"
  up_variants :: "variant_input list maybe"

record variant_response =
  vr_id :: uid
  vr_productId :: uid
  vr_name :: string
  vr_sku :: "string option"
  vr_barcode :: "string option"
  vr_priceC :: int
  vr_costC :: "int option"

text \<open>A product as it is read: the row, its live variants and its live group links, oldest first.\<close>

record product_tree =
  pt_product :: product_row
  pt_variants :: "variant_row list"
  pt_groupIds :: "uid list"

record product_response =
  ps_product :: product_row
  ps_lowStockThreshold :: "num option"
  ps_variants :: "variant_response list"
  ps_modifierGroupIds :: "uid list"

definition serializeVariant :: "variant_row \<Rightarrow> variant_response" where
  "serializeVariant v = \<lparr> vr_id = r_id v, vr_productId = pv_productId v, vr_name = pv_name v, vr_sku = pv_sku v,
     vr_barcode = pv_barcode v, vr_priceC = pv_price v, vr_costC = pv_cost v \<rparr>"

definition serializeProduct :: "product_tree \<Rightarrow> product_response" where
  "serializeProduct p = \<lparr> ps_product = pt_product p,
     ps_lowStockThreshold = map_option (\<lambda>x. fl (of_int x / 1000)) (pr_lowStockThreshold (pt_product p)),
     ps_variants = map serializeVariant (pt_variants p), ps_modifierGroupIds = pt_groupIds p \<rparr>"

definition liveGroupIds :: "db \<Rightarrow> uid \<Rightarrow> uid list" where
  "liveGroupIds base pid = map pg_groupId (sort_key r_createdAt
     (filter (\<lambda>l. pg_productId l = pid \<and> live l) (db_productModifierGroup base)))"

definition with_relations :: "db \<Rightarrow> product_row \<Rightarrow> product_tree" where
  "with_relations base p = \<lparr> pt_product = p, pt_variants = sort_key r_createdAt (liveVariants base (r_id p)),
     pt_groupIds = liveGroupIds base (r_id p) \<rparr>"

section \<open>SKUs and barcodes\<close>

text \<open>The identifiers of a product and its variants that are neither null nor empty.\<close>

definition collect :: "string option \<Rightarrow> string option list \<Rightarrow> string list" where
  "collect own many = List.map_filter (\<lambda>x. if x = Some [] then None else x) (own # many)"

fun firstDuplicate :: "string list \<Rightarrow> string list \<Rightarrow> string option" where
  "firstDuplicate seen [] = None"
| "firstDuplicate seen (v # vs) = (if v \<in> set seen then Some v else firstDuplicate (v # seen) vs)"

definition refuse :: "string \<Rightarrow> string \<Rightarrow> string \<Rightarrow> exn" where
  "refuse before v after = validation (before @ [CHR 0x22] @ v @ [CHR 0x22] @ after)"

definition taken_by :: "(product_row \<Rightarrow> string option) \<Rightarrow> (variant_row \<Rightarrow> string option) \<Rightarrow> db \<Rightarrow> product_row list \<Rightarrow> string list" where
  "taken_by pf vf base ps = List.concat (map (\<lambda>p. collect (pf p) (map vf (liveVariants base (r_id p)))) ps)"

definition check_duplicates :: "string list \<Rightarrow> string list \<Rightarrow> exn + unit" where
  "check_duplicates skus barcodes =
    (case firstDuplicate [] skus of
       Some v \<Rightarrow> Inl (refuse ''Duplicate SKU '' v '' in this submission.'')
     | None \<Rightarrow>
         (case firstDuplicate [] barcodes of
            Some v \<Rightarrow> Inl (refuse ''Duplicate barcode '' v '' in this submission.'')
          | None \<Rightarrow> Inr ()))"

definition check_taken :: "string list \<Rightarrow> string list \<Rightarrow> string list \<Rightarrow> string list \<Rightarrow> exn + unit" where
  "check_taken takenSku takenBarcode skus barcodes =
    (case find (\<lambda>v. v \<in> set takenSku) skus of
       Some v \<Rightarrow> Inl (refuse ''SKU '' v '' is already in use.'')
     | None \<Rightarrow>
         (case find (\<lambda>v. v \<in> set takenBarcode) barcodes of
            Some v \<Rightarrow> Inl (refuse ''Barcode '' v '' is already in use.'')
          | None \<Rightarrow> Inr ()))"

definition assertUniqueIdentifiers :: "ctx \<Rightarrow> uid \<Rightarrow> uid option \<Rightarrow> string list \<Rightarrow> string list \<Rightarrow> (db, exn, unit) op" where
  "assertUniqueIdentifiers ctx businessId excluded skus barcodes =
    bind (lift_res (check_duplicates skus barcodes)) (\<lambda>_.
    if skus = [] \<and> barcodes = [] then ret ()
    else
      bind (scoped_findMany ctx product_t (\<lambda>p. pr_businessId p = businessId \<and> Some (r_id p) \<noteq> excluded)) (\<lambda>products.
      bind (reads (base_db ctx)) (\<lambda>base.
      lift_res (check_taken (taken_by pr_sku pv_sku base products) (taken_by pr_barcode pv_barcode base products)
                  skus barcodes))))"

section \<open>Products: operations\<close>

definition no_product :: string where "no_product = ''Product not found.''"

definition loadOwned :: "ctx \<Rightarrow> uid \<Rightarrow> (db, exn, product_tree) op" where
  "loadOwned ctx i =
    bind (getOr404 ctx product_t no_product i) (\<lambda>p.
    bind (reads (base_db ctx)) (\<lambda>base. ret (with_relations base p)))"

definition assertCategoryInBusiness :: "ctx \<Rightarrow> uid \<Rightarrow> uid \<Rightarrow> (db, exn, unit) op" where
  "assertCategoryInBusiness ctx businessId categoryId =
    bind (scoped_findFirst ctx category_t (\<lambda>c. r_id c = categoryId \<and> cg_businessId c = businessId)) (\<lambda>found.
    guard (found \<noteq> None) (validation ''categoryId does not reference a category in this business.''))"

text \<open>
  What the violated index is called in the error's metadata comes from the database driver;
  \<open>target\<close> is that text in lower case.
\<close>

definition mentions :: "string \<Rightarrow> string \<Rightarrow> bool" where
  "mentions word s \<longleftrightarrow> list_ex (\<lambda>n. take (List.length word) (drop n s) = word) [0..<Suc (List.length s)]"

definition mapCatalogWriteError :: "string \<Rightarrow> exn \<Rightarrow> exn" where
  "mapCatalogWriteError target e =
    (if e = Unique_violation
     then validation (''This '' @ (if mentions ''barcode'' target then ''barcode'' else ''SKU'') @ '' is already in use.'')
     else e)"

definition opt_int :: "num option \<Rightarrow> exn + int option" where
  "opt_int x = (case x of None \<Rightarrow> Inr None | Some c \<Rightarrow> (case int_column c of Inl e \<Rightarrow> Inl e | Inr n \<Rightarrow> Inr (Some n)))"

text \<open>A nullable column of a patch: absent, or null, or a value.\<close>

definition nullable_int :: "num maybe \<Rightarrow> exn + int maybe" where
  "nullable_int x = (case x of None \<Rightarrow> Inr None
     | Some y \<Rightarrow> (case opt_int y of Inl e \<Rightarrow> Inl e | Inr n \<Rightarrow> Inr (Some n)))"

record variant_data =
  vd_name :: string
  vd_sku :: "string option"
  vd_barcode :: "string option"
  vd_price :: int
  vd_cost :: "int option"

definition variantData :: "variant_input \<Rightarrow> exn + variant_data" where
  "variantData v =
    (case int_column (vi_priceC v) of
       Inl e \<Rightarrow> Inl e
     | Inr price \<Rightarrow>
         (case opt_int (vi_costC v) of
            Inl e \<Rightarrow> Inl e
          | Inr cost \<Rightarrow> Inr \<lparr> vd_name = vi_name v, vd_sku = vi_sku v, vd_barcode = vi_barcode v, vd_price = price, vd_cost = cost \<rparr>))"

definition new_variant :: "uid \<Rightarrow> variant_data \<Rightarrow> uid \<Rightarrow> variant_row" where
  "new_variant pid d i =
    \<lparr> r_id = i, r_createdAt = 0, r_updatedAt = 0, r_deletedAt = None, pv_productId = pid, pv_name = vd_name d,
      pv_sku = vd_sku d, pv_barcode = vd_barcode d, pv_price = vd_price d, pv_cost = vd_cost d \<rparr>"

definition set_variant :: "variant_data \<Rightarrow> variant_row \<Rightarrow> variant_row" where
  "set_variant d r = r\<lparr> pv_name := vd_name d, pv_sku := vd_sku d, pv_barcode := vd_barcode d, pv_price := vd_price d,
     pv_cost := vd_cost d \<rparr>"

fun all_res :: "('a \<Rightarrow> 'e + 'b) \<Rightarrow> 'a list \<Rightarrow> 'e + 'b list" where
  "all_res f [] = Inr []"
| "all_res f (x # xs) = (case f x of Inl e \<Rightarrow> Inl e | Inr y \<Rightarrow> (case all_res f xs of Inl e \<Rightarrow> Inl e | Inr ys \<Rightarrow> Inr (y # ys)))"

definition new_product ::
  "uid \<Rightarrow> uid \<Rightarrow> create_product \<Rightarrow> int \<Rightarrow> int option \<Rightarrow> sold_by option \<Rightarrow> bool option \<Rightarrow> bool option \<Rightarrow> bool option \<Rightarrow> product_row" where
  "new_product i businessId d price cost sold stock expiry active =
    \<lparr> r_id = i, r_createdAt = 0, r_updatedAt = 0, r_deletedAt = None, pr_businessId = businessId,
      pr_categoryId = cp_categoryId d, pr_name = cp_name d, pr_sku = cp_sku d, pr_barcode = cp_barcode d,
      pr_price = price, pr_cost = cost, pr_soldBy = (case sold of None \<Rightarrow> By_unit | Some x \<Rightarrow> x),
      pr_lowStockThreshold = map_option toFixed3 (case cp_lowStockThreshold d of None \<Rightarrow> None | Some x \<Rightarrow> x),
      pr_imagePath = (case cp_imagePath d of None \<Rightarrow> None | Some x \<Rightarrow> x),
      pr_trackStock = (case stock of None \<Rightarrow> True | Some x \<Rightarrow> x),
      pr_trackExpiry = (case expiry of None \<Rightarrow> False | Some x \<Rightarrow> x),
      pr_active = (case active of None \<Rightarrow> True | Some x \<Rightarrow> x) \<rparr>"

definition createVariants :: "variant_input list option \<Rightarrow> variant_input list" where
  "createVariants vs = (case vs of None \<Rightarrow> [] | Some xs \<Rightarrow> xs)"

definition insertProduct :: "ctx \<Rightarrow> uid \<Rightarrow> create_product \<Rightarrow> (db, exn, product_row) op" where
  "insertProduct ctx businessId d =
    bind (lift_res (int_column (cp_priceC d))) (\<lambda>price.
    bind (lift_res (opt_int (cp_costC d))) (\<lambda>cost.
    bind (lift_res (not_null (cp_soldBy d))) (\<lambda>sold.
    bind (lift_res (not_null (cp_trackStock d))) (\<lambda>stock.
    bind (lift_res (not_null (cp_trackExpiry d))) (\<lambda>expiry.
    bind (lift_res (not_null (cp_active d))) (\<lambda>active.
    bind (lift_res (all_res variantData (createVariants (cp_variants d)))) (\<lambda>vs.
    bind fresh_id (\<lambda>i.
    scoped_create_nested ctx product_t (Some businessId)
      (\<lambda>p. for_each vs (\<lambda>v. nested_create productVariant_t (new_variant (r_id p) v)))
      (new_product i businessId d price cost sold stock expiry active)))))))))"

definition createProduct :: "string \<Rightarrow> ctx \<Rightarrow> uid \<Rightarrow> create_product \<Rightarrow> (db, exn, product_response) op" where
  "createProduct target ctx businessId d =
    bind (assertBusinessOwned ctx businessId) (\<lambda>_.
    bind (assertCategoryInBusiness ctx businessId (cp_categoryId d)) (\<lambda>_.
    bind (assertUniqueIdentifiers ctx businessId None
            (collect (cp_sku d) (map vi_sku (createVariants (cp_variants d))))
            (collect (cp_barcode d) (map vi_barcode (createVariants (cp_variants d))))) (\<lambda>_.
    bind (catch_op (insertProduct ctx businessId d) (\<lambda>e. throw (mapCatalogWriteError target e))) (\<lambda>p.
    bind (reads id) (\<lambda>s. ret (serializeProduct (with_relations s p)))))))"

definition listProducts :: "ctx \<Rightarrow> uid \<Rightarrow> (db, exn, product_response list) op" where
  "listProducts ctx businessId =
    bind (assertBusinessOwned ctx businessId) (\<lambda>_.
    bind (scoped_findMany ctx product_t (\<lambda>p. pr_businessId p = businessId)) (\<lambda>rows.
    bind (reads (base_db ctx)) (\<lambda>base.
    ret (map (serializeProduct \<circ> with_relations base) (newest_first rows)))))"

definition getProduct :: "ctx \<Rightarrow> uid \<Rightarrow> (db, exn, product_response) op" where
  "getProduct ctx i = bind (loadOwned ctx i) (\<lambda>p. ret (serializeProduct p))"

section \<open>Replace-sets\<close>

text \<open>What a submitted list does to the current rows of a parent.\<close>

record 'x replace_set =
  rs_create :: "'x list"
  rs_update :: "(uid \<times> 'x) list"
  rs_delete :: "uid list"

definition with_ids :: "('x \<Rightarrow> uid option) \<Rightarrow> 'x list \<Rightarrow> (uid \<times> 'x) list" where
  "with_ids key xs = List.map_filter (\<lambda>x. map_option (\<lambda>i. (i, x)) (truthy_id (key x))) xs"

definition buildReplaceSet :: "string \<Rightarrow> ('x \<Rightarrow> uid option) \<Rightarrow> uid list \<Rightarrow> 'x list \<Rightarrow> exn + 'x replace_set" where
  "buildReplaceSet what key currentIds submitted =
    (let withId = with_ids key submitted
     in case find (\<lambda>p. fst p \<notin> set currentIds) withId of
          Some p \<Rightarrow> Inl (refuse (''Unknown '' @ what @ '' id '') (fst p) ''.'')
        | None \<Rightarrow>
            if List.length withId \<noteq> List.length (remdups (map fst withId))
            then Inl (validation (''The same '' @ what @ '' id appears more than once in this submission.''))
            else Inr \<lparr> rs_create = filter (\<lambda>x. truthy_id (key x) = None) submitted, rs_update = withId,
                       rs_delete = filter (\<lambda>i. i \<notin> fst ` set withId) currentIds \<rparr>)"

definition buildVariantReplaceSet :: "variant_row list \<Rightarrow> variant_input list \<Rightarrow> exn + variant_input replace_set" where
  "buildVariantReplaceSet current submitted = buildReplaceSet ''variant'' vi_id (map r_id current) submitted"

text \<open>Creates first, then updates, then the deletes rewritten to updates.\<close>

definition nestedReplace ::
  "'a table \<Rightarrow> ('a row_scheme \<Rightarrow> bool) \<Rightarrow> ('d \<Rightarrow> uid \<Rightarrow> 'a row_scheme) \<Rightarrow> ('d \<Rightarrow> 'a row_scheme \<Rightarrow> 'a row_scheme)
    \<Rightarrow> 'd list \<Rightarrow> (uid \<times> 'd) list \<Rightarrow> uid list \<Rightarrow> (db, exn, unit) op" where
  "nestedReplace ct owned mk upd creates updates deletes =
    bind (for_each creates (\<lambda>d. nested_create ct (mk d))) (\<lambda>_.
    bind (for_each updates (\<lambda>u. nested_update ct owned (fst u) (upd (snd u)))) (\<lambda>_.
    for_each deletes (nested_delete ct owned)))"

text \<open>The audit rows follow the recording order: deletes before updates.\<close>

definition touchedReplace :: "(uid \<times> 'd) list \<Rightarrow> uid list \<Rightarrow> (touched_op \<times> uid) list" where
  "touchedReplace updates deletes = map (\<lambda>i. (Touched_delete, i)) deletes @ map (\<lambda>u. (Touched_update, fst u)) updates"

section \<open>Changing a product\<close>

definition empty_product_patch :: "update_product \<Rightarrow> bool" where
  "empty_product_patch d \<longleftrightarrow> up_categoryId d = None \<and> up_name d = None \<and> up_sku d = None \<and> up_barcode d = None
    \<and> up_priceC d = None \<and> up_costC d = None \<and> up_soldBy d = None \<and> up_lowStockThreshold d = None
    \<and> up_trackStock d = None \<and> up_trackExpiry d = None \<and> up_active d = None \<and> up_imagePath d = None
    \<and> up_variants d = None"

definition finalIds :: "string maybe \<Rightarrow> string option \<Rightarrow> string option list \<Rightarrow> string option list \<Rightarrow> bool \<Rightarrow> string list" where
  "finalIds patch own submitted current replaced =
    collect (case patch of None \<Rightarrow> own | Some x \<Rightarrow> x) (if replaced then submitted else current)"

definition submitted_variants :: "update_product \<Rightarrow> variant_input list option" where
  "submitted_variants d = (case up_variants d of None \<Rightarrow> None | Some v \<Rightarrow> v)"

definition checkPatch :: "ctx \<Rightarrow> uid \<Rightarrow> update_product \<Rightarrow> product_tree \<Rightarrow> (db, exn, unit) op" where
  "checkPatch ctx i d current =
    (let p = pt_product current; vs = createVariants (submitted_variants d); replaced = (submitted_variants d \<noteq> None)
     in bind (case up_categoryId d of
                None \<Rightarrow> ret ()
              | Some None \<Rightarrow> throw null_error
              | Some (Some c) \<Rightarrow> assertCategoryInBusiness ctx (pr_businessId p) c) (\<lambda>_.
        assertUniqueIdentifiers ctx (pr_businessId p) (Some i)
          (finalIds (up_sku d) (pr_sku p) (map vi_sku vs) (map pv_sku (pt_variants current)) replaced)
          (finalIds (up_barcode d) (pr_barcode p) (map vi_barcode vs) (map pv_barcode (pt_variants current)) replaced)))"

text \<open>The replace-set of a patch; a \<open>null\<close> list fails on its first property access.\<close>

definition patchVariants :: "update_product \<Rightarrow> product_tree \<Rightarrow> exn + variant_input replace_set" where
  "patchVariants d current =
    (case up_variants d of
       None \<Rightarrow> Inr \<lparr> rs_create = [], rs_update = [], rs_delete = [] \<rparr>
     | Some None \<Rightarrow> Inl (Crash ''Cannot read properties of null'')
     | Some (Some vs) \<Rightarrow> buildVariantReplaceSet (pt_variants current) vs)"

definition variantUpdates :: "(uid \<times> variant_input) list \<Rightarrow> exn + (uid \<times> variant_data) list" where
  "variantUpdates us = all_res (\<lambda>u. case variantData (snd u) of Inl e \<Rightarrow> Inl e | Inr d \<Rightarrow> Inr (fst u, d)) us"

definition writePatch :: "ctx \<Rightarrow> uid \<Rightarrow> update_product \<Rightarrow> variant_input replace_set \<Rightarrow> (db, exn, unit) op" where
  "writePatch ctx i d rs =
    bind (lift_res (not_null (up_name d))) (\<lambda>name.
    bind (lift_res (not_null (up_categoryId d))) (\<lambda>cat.
    bind (lift_res (not_null_int (up_priceC d))) (\<lambda>price.
    bind (lift_res (nullable_int (up_costC d))) (\<lambda>cost.
    bind (lift_res (not_null (up_soldBy d))) (\<lambda>sold.
    bind (lift_res (not_null (up_trackStock d))) (\<lambda>stock.
    bind (lift_res (not_null (up_trackExpiry d))) (\<lambda>expiry.
    bind (lift_res (not_null (up_active d))) (\<lambda>active.
    bind (lift_res (all_res variantData (rs_create rs))) (\<lambda>creates.
    bind (lift_res (variantUpdates (rs_update rs))) (\<lambda>updates.
    bind (scoped_update_touched ctx product_t (\<lambda>p. r_id p = i)
           (given (\<lambda>v r. r\<lparr> pr_name := v \<rparr>) name
            \<circ> given (\<lambda>v r. r\<lparr> pr_categoryId := v \<rparr>) cat
            \<circ> given (\<lambda>v r. r\<lparr> pr_sku := v \<rparr>) (up_sku d)
            \<circ> given (\<lambda>v r. r\<lparr> pr_barcode := v \<rparr>) (up_barcode d)
            \<circ> given (\<lambda>v r. r\<lparr> pr_price := v \<rparr>) price
            \<circ> given (\<lambda>v r. r\<lparr> pr_cost := v \<rparr>) cost
            \<circ> given (\<lambda>v r. r\<lparr> pr_soldBy := v \<rparr>) sold
            \<circ> given (\<lambda>v r. r\<lparr> pr_lowStockThreshold := map_option toFixed3 v \<rparr>) (up_lowStockThreshold d)
            \<circ> given (\<lambda>v r. r\<lparr> pr_trackStock := v \<rparr>) stock
            \<circ> given (\<lambda>v r. r\<lparr> pr_trackExpiry := v \<rparr>) expiry
            \<circ> given (\<lambda>v r. r\<lparr> pr_active := v \<rparr>) active
            \<circ> given (\<lambda>v r. r\<lparr> pr_imagePath := v \<rparr>) (up_imagePath d))
           (\<lambda>p. nestedReplace productVariant_t (\<lambda>v. pv_productId v = r_id p) (new_variant (r_id p)) set_variant
                  creates updates (rs_delete rs))
           (auditNested ctx productVariant_t (touchedReplace updates (rs_delete rs)))) (\<lambda>_. ret ())))))))))))"

definition updateProduct :: "string \<Rightarrow> ctx \<Rightarrow> uid \<Rightarrow> update_product \<Rightarrow> (db, exn, product_response) op" where
  "updateProduct target ctx i d =
    bind (loadOwned ctx i) (\<lambda>current.
    bind (checkPatch ctx i d current) (\<lambda>_.
    bind (lift_res (patchVariants d current)) (\<lambda>rs.
    if empty_product_patch d then ret (serializeProduct current)
    else
      bind (catch_op (writePatch ctx i d rs) (\<lambda>e. throw (mapCatalogWriteError target e))) (\<lambda>_.
      getProduct ctx i))))"

definition soldCount :: "uid \<Rightarrow> db \<Rightarrow> nat" where
  "soldCount pid s = List.length (filter (\<lambda>x. si_productId x = Some pid \<and> live x) (db_saleItem s))"

definition removeProduct :: "ctx \<Rightarrow> uid \<Rightarrow> (db, exn, product_response) op" where
  "removeProduct ctx i =
    bind (loadOwned ctx i) (\<lambda>current.
    bind (reads (soldCount i)) (\<lambda>sold.
    if 0 < sold then
      bind (scoped_update ctx product_t (\<lambda>p. r_id p = i) (\<lambda>p. p\<lparr> pr_active := False \<rparr>)) (\<lambda>_.
      getProduct ctx i)
    else
      bind (scoped_delete ctx product_t (\<lambda>p. r_id p = i)) (\<lambda>deleted.
      ret (serializeProduct (current\<lparr> pt_product := deleted \<rparr>)))))"

section \<open>Modifier groups\<close>

record modifier_input =
  mi_id :: "uid option"
  mi_name :: string
  mi_priceDeltaC :: num

record create_group =
  cgp_name :: string
  cgp_minSelect :: "num maybe"
  cgp_maxSelect :: "num maybe"
  cgp_modifiers :: "modifier_input list option"

record update_group =
  ugp_name :: "string maybe"
  ugp_minSelect :: "num maybe"
  ugp_maxSelect :: "num maybe"
  ugp_modifiers :: "modifier_input list maybe"

text \<open>
  A group with its live modifiers, oldest first. (The message of \<open>assertMinMax\<close> spells the
  comparison sign in ASCII.)
\<close>

record group_tree =
  gt_group :: modifier_group_row
  gt_modifiers :: "modifier_row list"

definition assertMinMax :: "num \<Rightarrow> num \<Rightarrow> exn + unit" where
  "assertMinMax lo hi = (if hi < lo then Inl (validation ''minSelect must be <= maxSelect.'') else Inr ())"

definition liveModifiers :: "db \<Rightarrow> uid \<Rightarrow> modifier_row list" where
  "liveModifiers base g = sort_key r_createdAt (filter (\<lambda>m. md_groupId m = g \<and> live m) (db_modifier base))"

definition with_modifiers :: "db \<Rightarrow> modifier_group_row \<Rightarrow> group_tree" where
  "with_modifiers base g = \<lparr> gt_group = g, gt_modifiers = liveModifiers base (r_id g) \<rparr>"

definition listGroups :: "ctx \<Rightarrow> uid \<Rightarrow> (db, exn, group_tree list) op" where
  "listGroups ctx businessId =
    bind (assertBusinessOwned ctx businessId) (\<lambda>_.
    bind (scoped_findMany ctx modifierGroup_t (\<lambda>g. mg_businessId g = businessId)) (\<lambda>rows.
    bind (reads (base_db ctx)) (\<lambda>base. ret (map (with_modifiers base) (sort_key r_createdAt rows)))))"

record modifier_data =
  mf_name :: string
  mf_priceDelta :: int

definition modifierData :: "modifier_input \<Rightarrow> exn + modifier_data" where
  "modifierData m = (case int_column (mi_priceDeltaC m) of Inl e \<Rightarrow> Inl e
     | Inr x \<Rightarrow> Inr \<lparr> mf_name = mi_name m, mf_priceDelta = x \<rparr>)"

definition new_modifier :: "uid \<Rightarrow> modifier_data \<Rightarrow> uid \<Rightarrow> modifier_row" where
  "new_modifier g d i = \<lparr> r_id = i, r_createdAt = 0, r_updatedAt = 0, r_deletedAt = None, md_groupId = g,
     md_name = mf_name d, md_priceDelta = mf_priceDelta d \<rparr>"

definition set_modifier :: "modifier_data \<Rightarrow> modifier_row \<Rightarrow> modifier_row" where
  "set_modifier d r = r\<lparr> md_name := mf_name d, md_priceDelta := mf_priceDelta d \<rparr>"

definition submitted_modifiers :: "modifier_input list option \<Rightarrow> modifier_input list" where
  "submitted_modifiers ms = (case ms of None \<Rightarrow> [] | Some xs \<Rightarrow> xs)"

definition createGroup :: "ctx \<Rightarrow> uid \<Rightarrow> create_group \<Rightarrow> (db, exn, group_tree) op" where
  "createGroup ctx businessId d =
    bind (assertBusinessOwned ctx businessId) (\<lambda>_.
    bind (lift_res (assertMinMax (or_default (cgp_minSelect d) 0) (or_default (cgp_maxSelect d) 1))) (\<lambda>_.
    bind (lift_res (not_null_int (cgp_minSelect d))) (\<lambda>lo.
    bind (lift_res (not_null_int (cgp_maxSelect d))) (\<lambda>hi.
    bind (lift_res (all_res modifierData (submitted_modifiers (cgp_modifiers d)))) (\<lambda>ms.
    bind fresh_id (\<lambda>i.
    bind (scoped_create_nested ctx modifierGroup_t (Some businessId)
            (\<lambda>g. for_each ms (\<lambda>m. nested_create modifier_t (new_modifier (r_id g) m)))
            \<lparr> r_id = i, r_createdAt = 0, r_updatedAt = 0, r_deletedAt = None, mg_businessId = businessId, mg_name = cgp_name d,
              mg_minSelect = (case lo of None \<Rightarrow> 0 | Some x \<Rightarrow> x), mg_maxSelect = (case hi of None \<Rightarrow> 1 | Some x \<Rightarrow> x) \<rparr>) (\<lambda>g.
    bind (reads id) (\<lambda>s. ret (with_modifiers s g)))))))))"

definition loadOwnedGroup :: "ctx \<Rightarrow> uid \<Rightarrow> (db, exn, group_tree) op" where
  "loadOwnedGroup ctx i =
    bind (getOr404 ctx modifierGroup_t ''Modifier group not found.'' i) (\<lambda>g.
    bind (reads (base_db ctx)) (\<lambda>base. ret (with_modifiers base g)))"

definition buildModifierReplaceSet :: "modifier_row list \<Rightarrow> modifier_input list \<Rightarrow> exn + modifier_input replace_set" where
  "buildModifierReplaceSet current submitted = buildReplaceSet ''modifier'' mi_id (map r_id current) submitted"

definition patchModifiers :: "update_group \<Rightarrow> group_tree \<Rightarrow> exn + modifier_input replace_set" where
  "patchModifiers d current =
    (case ugp_modifiers d of
       None \<Rightarrow> Inr \<lparr> rs_create = [], rs_update = [], rs_delete = [] \<rparr>
     | Some None \<Rightarrow> Inl (Crash ''Cannot read properties of null'')
     | Some (Some ms) \<Rightarrow> buildModifierReplaceSet (gt_modifiers current) ms)"

definition modifierUpdates :: "(uid \<times> modifier_input) list \<Rightarrow> exn + (uid \<times> modifier_data) list" where
  "modifierUpdates us = all_res (\<lambda>u. case modifierData (snd u) of Inl e \<Rightarrow> Inl e | Inr d \<Rightarrow> Inr (fst u, d)) us"

definition updateGroup :: "ctx \<Rightarrow> uid \<Rightarrow> update_group \<Rightarrow> (db, exn, group_tree) op" where
  "updateGroup ctx i d =
    bind (loadOwnedGroup ctx i) (\<lambda>current.
    bind (lift_res (assertMinMax (or_default (ugp_minSelect d) (of_int (mg_minSelect (gt_group current))))
            (or_default (ugp_maxSelect d) (of_int (mg_maxSelect (gt_group current)))))) (\<lambda>_.
    bind (lift_res (patchModifiers d current)) (\<lambda>rs.
    if ugp_name d = None \<and> ugp_minSelect d = None \<and> ugp_maxSelect d = None \<and> ugp_modifiers d = None then ret current
    else
      bind (lift_res (not_null (ugp_name d))) (\<lambda>name.
      bind (lift_res (not_null_int (ugp_minSelect d))) (\<lambda>lo.
      bind (lift_res (not_null_int (ugp_maxSelect d))) (\<lambda>hi.
      bind (lift_res (all_res modifierData (rs_create rs))) (\<lambda>creates.
      bind (lift_res (modifierUpdates (rs_update rs))) (\<lambda>updates.
      bind (scoped_update_touched ctx modifierGroup_t (\<lambda>g. r_id g = i)
             (given (\<lambda>v r. r\<lparr> mg_name := v \<rparr>) name \<circ> given (\<lambda>v r. r\<lparr> mg_minSelect := v \<rparr>) lo
              \<circ> given (\<lambda>v r. r\<lparr> mg_maxSelect := v \<rparr>) hi)
             (\<lambda>g. nestedReplace modifier_t (\<lambda>m. md_groupId m = r_id g) (new_modifier (r_id g)) set_modifier
                    creates updates (rs_delete rs))
             (auditNested ctx modifier_t (touchedReplace updates (rs_delete rs)))) (\<lambda>_.
      loadOwnedGroup ctx i)))))))))"

definition removeGroup :: "ctx \<Rightarrow> uid \<Rightarrow> (db, exn, group_tree) op" where
  "removeGroup ctx i =
    bind (loadOwnedGroup ctx i) (\<lambda>current.
    bind (scoped_delete ctx modifierGroup_t (\<lambda>g. r_id g = i)) (\<lambda>deleted.
    ret (current\<lparr> gt_group := deleted \<rparr>)))"

section \<open>Linking groups to a product\<close>

text \<open>
  The link rows of the product, archived ones included: new links are created, archived ones
  restored, unwanted ones archived; \<open>None\<close> when nothing changes. The last row wins in
  \<open>byGroup\<close>.
\<close>

record link_set =
  ls_create :: "uid list"
  ls_restore :: "uid list"
  ls_delete :: "uid list"

definition byGroup :: "product_modifier_group_row list \<Rightarrow> uid \<Rightarrow> product_modifier_group_row option" where
  "byGroup links g = find (\<lambda>l. pg_groupId l = g) (rev links)"

definition buildLinkReplaceSet :: "product_modifier_group_row list \<Rightarrow> uid list \<Rightarrow> link_set option" where
  "buildLinkReplaceSet links desired =
    (let wanted = rev (remdups (rev desired));
         create = filter (\<lambda>g. byGroup links g = None) wanted;
         restore = List.map_filter (\<lambda>g. case byGroup links g of None \<Rightarrow> None | Some l \<Rightarrow> if live l then None else Some (r_id l)) wanted;
         del = map r_id (filter (\<lambda>l. live l \<and> pg_groupId l \<notin> set desired) links)
     in if create = [] \<and> restore = [] \<and> del = [] then None
        else Some \<lparr> ls_create = create, ls_restore = restore, ls_delete = del \<rparr>)"

definition new_link :: "uid \<Rightarrow> uid \<Rightarrow> uid \<Rightarrow> product_modifier_group_row" where
  "new_link pid g i = \<lparr> r_id = i, r_createdAt = 0, r_updatedAt = 0, r_deletedAt = None, pg_productId = pid, pg_groupId = g \<rparr>"

definition linksOf :: "uid \<Rightarrow> db \<Rightarrow> product_modifier_group_row list" where
  "linksOf pid s = filter (\<lambda>l. pg_productId l = pid) (db_productModifierGroup s)"

definition writeLinks :: "ctx \<Rightarrow> uid \<Rightarrow> link_set \<Rightarrow> (db, exn, unit) op" where
  "writeLinks ctx pid ls =
    bind (scoped_update_touched ctx product_t (\<lambda>p. r_id p = pid) (\<lambda>p. p)
           (\<lambda>p. bind (for_each (ls_create ls) (\<lambda>g. nested_create productModifierGroup_t (new_link (r_id p) g))) (\<lambda>_.
                bind (for_each (ls_restore ls) (\<lambda>i. nested_update productModifierGroup_t (\<lambda>l. pg_productId l = r_id p) i
                        (\<lambda>l. l\<lparr> r_deletedAt := None \<rparr>))) (\<lambda>_.
                for_each (ls_delete ls) (nested_delete productModifierGroup_t (\<lambda>l. pg_productId l = r_id p)))))
           (auditNested ctx productModifierGroup_t (map (\<lambda>i. (Touched_delete, i)) (ls_delete ls)))) (\<lambda>_. ret ())"

definition assertGroups :: "ctx \<Rightarrow> uid \<Rightarrow> uid list \<Rightarrow> (db, exn, unit) op" where
  "assertGroups ctx businessId groupIds =
    (if groupIds = [] then ret ()
     else
       bind (scoped_findMany ctx modifierGroup_t (\<lambda>g. r_id g \<in> set groupIds \<and> mg_businessId g = businessId)) (\<lambda>found.
       case find (\<lambda>g. g \<notin> r_id ` set found) groupIds of
         None \<Rightarrow> ret ()
       | Some g \<Rightarrow> if g = [] then ret () else throw (refuse ''Modifier group '' g '' does not exist in this business.'')))"

definition setProductGroups :: "ctx \<Rightarrow> uid \<Rightarrow> uid list \<Rightarrow> (db, exn, uid \<times> uid list) op" where
  "setProductGroups ctx pid groupIds =
    bind (getOr404 ctx product_t no_product pid) (\<lambda>product.
    bind (assertGroups ctx (pr_businessId product) groupIds) (\<lambda>_.
    bind (reads (linksOf pid)) (\<lambda>links.
    bind (case buildLinkReplaceSet links groupIds of None \<Rightarrow> ret () | Some ls \<Rightarrow> writeLinks ctx pid ls) (\<lambda>_.
    bind (reads (\<lambda>s. liveGroupIds s pid)) (\<lambda>ids. ret (pid, ids))))))"

end
