(* ===== verification/Requests.thy ===== *)
theory Requests
  imports Admin Catalog
begin

text \<open>
  The request bodies of the portal and the administrator: the class-validator decorators of
  \<open>portal/*/dto\<close> and \<open>admin/dto\<close> as boolean functions, and the shared patterns of
  \<open>common/validation-constants.ts\<close>. \<open>@IsOptional\<close> lets an absent value and \<open>null\<close> pass.
  The checks of UUIDs and mail addresses are parameters.
\<close>

section \<open>Shared patterns\<close>

definition maybe_ok :: "('a \<Rightarrow> bool) \<Rightarrow> 'a maybe \<Rightarrow> bool" where
  "maybe_ok p x \<longleftrightarrow> (case x of Some (Some v) \<Rightarrow> p v | _ \<Rightarrow> True)"

definition length_in :: "nat \<Rightarrow> nat \<Rightarrow> string \<Rightarrow> bool" where
  "length_in lo hi s \<longleftrightarrow> lo \<le> List.length s \<and> List.length s \<le> hi"

fun HHMM :: "string \<Rightarrow> bool" where
  "HHMM [a, b, c, d, e] \<longleftrightarrow> ((a \<in> set ''01'' \<and> is_digit b) \<or> (a = CHR ''2'' \<and> b \<in> set ''0123''))
     \<and> c = CHR '':'' \<and> d \<in> set ''012345'' \<and> is_digit e"
| "HHMM _ \<longleftrightarrow> False"

definition branch_code_char :: "char \<Rightarrow> bool" where
  "branch_code_char c \<longleftrightarrow> is_digit c \<or> c \<in> set ''ABCDEFGHIJKLMNOPQRSTUVWXYZ''"

definition BRANCH_CODE :: "string \<Rightarrow> bool" where
  "BRANCH_CODE s \<longleftrightarrow> length_in 2 6 s \<and> list_all branch_code_char s"

definition rate_valid :: "num \<Rightarrow> bool" where
  "rate_valid x \<longleftrightarrow> 0 \<le> x \<and> x \<le> fl (9999 / 10000)"

section \<open>Businesses and branches\<close>

definition create_business_valid :: "create_business \<Rightarrow> bool" where
  "create_business_valid d \<longleftrightarrow> length_in 1 200 (cb_name d) \<and> maybe_ok (\<lambda>c. c = ''PHP'') (cb_currency d)
    \<and> rate_valid (cb_taxRate d) \<and> maybe_ok rate_valid (cb_serviceChargeRate d)
    \<and> maybe_ok HHMM (cb_dayStartTime d) \<and> maybe_ok (isInt_between 0 365) (cb_expiryWarningDays d)
    \<and> maybe_ok (length_in 0 500) (cb_receiptHeader d) \<and> maybe_ok (length_in 0 500) (cb_receiptFooter d)"

definition update_business_valid :: "update_business \<Rightarrow> bool" where
  "update_business_valid d \<longleftrightarrow> maybe_ok (length_in 1 200) (ub_name d) \<and> maybe_ok (\<lambda>c. c = ''PHP'') (ub_currency d)
    \<and> maybe_ok rate_valid (ub_taxRate d) \<and> maybe_ok rate_valid (ub_serviceChargeRate d)
    \<and> maybe_ok HHMM (ub_dayStartTime d) \<and> maybe_ok (isInt_between 0 365) (ub_expiryWarningDays d)
    \<and> maybe_ok (length_in 0 500) (ub_receiptHeader d) \<and> maybe_ok (length_in 0 500) (ub_receiptFooter d)"

definition create_branch_valid :: "create_branch \<Rightarrow> bool" where
  "create_branch_valid d \<longleftrightarrow> length_in 1 200 (cbr_name d) \<and> BRANCH_CODE (cbr_code d) \<and> length_in 1 500 (cbr_address d)"

definition update_branch_valid :: "update_branch \<Rightarrow> bool" where
  "update_branch_valid d \<longleftrightarrow> maybe_ok (length_in 1 200) (ubr_name d) \<and> maybe_ok BRANCH_CODE (ubr_code d)
    \<and> maybe_ok (length_in 1 500) (ubr_address d)"

section \<open>Discounts and the activity log\<close>

definition create_discount_valid :: "create_discount \<Rightarrow> bool" where
  "create_discount_valid d \<longleftrightarrow> length_in 1 200 (cd_name d) \<and> isInt_between 1 MAX_CENTAVOS (cd_value d)"

definition update_discount_valid :: "update_discount \<Rightarrow> bool" where
  "update_discount_valid d \<longleftrightarrow> maybe_ok (length_in 1 200) (ud_name d) \<and> maybe_ok (isInt_between 1 MAX_CENTAVOS) (ud_value d)"

text \<open>
  The activity-log query of an owner; an administrator may also ask for the rows of
  administrators.
\<close>

definition activity_query_valid :: "(string \<Rightarrow> bool) \<Rightarrow> bool \<Rightarrow> activity_query \<Rightarrow> bool" where
  "activity_query_valid isUUID admin q \<longleftrightarrow> opt_ok isUUID (aq_branchId q)
    \<and> opt_ok (\<lambda>a. admin \<or> a \<noteq> Act_platform_admin) (aq_actorType q)
    \<and> opt_ok (\<lambda>p. 1 \<le> p) (aq_page q) \<and> opt_ok (\<lambda>n. 1 \<le> n \<and> n \<le> 200) (aq_pageSize q)"

section \<open>Owners\<close>

definition create_owner_valid :: "(string \<Rightarrow> bool) \<Rightarrow> create_owner \<Rightarrow> bool" where
  "create_owner_valid isEmail d \<longleftrightarrow> length_in 1 200 (co_name d) \<and> isEmail (co_email d)
    \<and> isInt_between 1 1000 (co_maxBusinesses d)"

definition update_owner_valid :: "update_owner \<Rightarrow> bool" where
  "update_owner_valid d \<longleftrightarrow> maybe_ok (length_in 1 200) (uo_name d) \<and> maybe_ok (isInt_between 1 1000) (uo_maxBusinesses d)"

section \<open>The catalogue\<close>

definition create_category_valid :: "create_category \<Rightarrow> bool" where
  "create_category_valid d \<longleftrightarrow> length_in 1 200 (cc_name d) \<and> maybe_ok (isInt_between 0 100000) (cc_sortOrder d)"

definition update_category_valid :: "update_category \<Rightarrow> bool" where
  "update_category_valid d \<longleftrightarrow> maybe_ok (length_in 1 200) (uc_name d) \<and> maybe_ok (isInt_between 0 100000) (uc_sortOrder d)"

definition variant_input_valid :: "(string \<Rightarrow> bool) \<Rightarrow> variant_input \<Rightarrow> bool" where
  "variant_input_valid isUUID v \<longleftrightarrow> opt_ok isUUID (vi_id v) \<and> length_in 1 200 (vi_name v)
    \<and> opt_ok (length_in 0 100) (vi_sku v) \<and> opt_ok (length_in 0 100) (vi_barcode v)
    \<and> isInt_between 0 MAX_CENTAVOS (vi_priceC v) \<and> opt_ok (isInt_between 0 MAX_CENTAVOS) (vi_costC v)"

definition variants_valid :: "(string \<Rightarrow> bool) \<Rightarrow> variant_input list \<Rightarrow> bool" where
  "variants_valid isUUID vs \<longleftrightarrow> List.length vs \<le> 100 \<and> list_all (variant_input_valid isUUID) vs"

definition create_product_valid :: "(string \<Rightarrow> bool) \<Rightarrow> create_product \<Rightarrow> bool" where
  "create_product_valid isUUID d \<longleftrightarrow> isUUID (cp_categoryId d) \<and> length_in 1 200 (cp_name d)
    \<and> opt_ok (length_in 0 100) (cp_sku d) \<and> opt_ok (length_in 0 100) (cp_barcode d)
    \<and> isInt_between 0 MAX_CENTAVOS (cp_priceC d) \<and> opt_ok (isInt_between 0 MAX_CENTAVOS) (cp_costC d)
    \<and> maybe_ok (\<lambda>x. 0 \<le> x) (cp_lowStockThreshold d) \<and> maybe_ok (length_in 0 500) (cp_imagePath d)
    \<and> opt_ok (variants_valid isUUID) (cp_variants d)"

definition update_product_valid :: "(string \<Rightarrow> bool) \<Rightarrow> update_product \<Rightarrow> bool" where
  "update_product_valid isUUID d \<longleftrightarrow> maybe_ok isUUID (up_categoryId d) \<and> maybe_ok (length_in 1 200) (up_name d)
    \<and> maybe_ok (length_in 0 100) (up_sku d) \<and> maybe_ok (length_in 0 100) (up_barcode d)
    \<and> maybe_ok (isInt_between 0 MAX_CENTAVOS) (up_priceC d) \<and> maybe_ok (isInt_between 0 MAX_CENTAVOS) (up_costC d)
    \<and> maybe_ok (\<lambda>x. 0 \<le> x) (up_lowStockThreshold d) \<and> maybe_ok (length_in 0 500) (up_imagePath d)
    \<and> maybe_ok (variants_valid isUUID) (up_variants d)"

definition modifier_input_valid :: "(string \<Rightarrow> bool) \<Rightarrow> modifier_input \<Rightarrow> bool" where
  "modifier_input_valid isUUID m \<longleftrightarrow> opt_ok isUUID (mi_id m) \<and> length_in 1 200 (mi_name m)
    \<and> isInt_between (- MAX_CENTAVOS) MAX_CENTAVOS (mi_priceDeltaC m)"

definition modifiers_valid :: "(string \<Rightarrow> bool) \<Rightarrow> modifier_input list \<Rightarrow> bool" where
  "modifiers_valid isUUID ms \<longleftrightarrow> List.length ms \<le> 100 \<and> list_all (modifier_input_valid isUUID) ms"

definition create_group_valid :: "(string \<Rightarrow> bool) \<Rightarrow> create_group \<Rightarrow> bool" where
  "create_group_valid isUUID d \<longleftrightarrow> length_in 1 200 (cgp_name d) \<and> maybe_ok (isInt_between 0 100) (cgp_minSelect d)
    \<and> maybe_ok (isInt_between 0 100) (cgp_maxSelect d) \<and> opt_ok (modifiers_valid isUUID) (cgp_modifiers d)"

definition update_group_valid :: "(string \<Rightarrow> bool) \<Rightarrow> update_group \<Rightarrow> bool" where
  "update_group_valid isUUID d \<longleftrightarrow> maybe_ok (length_in 1 200) (ugp_name d) \<and> maybe_ok (isInt_between 0 100) (ugp_minSelect d)
    \<and> maybe_ok (isInt_between 0 100) (ugp_maxSelect d) \<and> maybe_ok (modifiers_valid isUUID) (ugp_modifiers d)"

definition set_groups_valid :: "(string \<Rightarrow> bool) \<Rightarrow> uid list \<Rightarrow> bool" where
  "set_groups_valid isUUID gs \<longleftrightarrow> distinct gs \<and> list_all isUUID gs"

end
