(* ===== verification/PosCatalog.thy ===== *)
theory PosCatalog
  imports Catalog Stock Pairing
begin

text \<open>
  What a paired terminal pulls in one request (\<open>pos/catalog/pos-catalog.service.ts\<close>): the
  sellable catalogue of its business. The records list only what the terminal may see; no
  cost is among it.
\<close>

section \<open>The payload\<close>

record catalog_variant =
  kv_id :: uid
  kv_name :: string
  kv_sku :: "string option"
  kv_barcode :: "string option"
  kv_priceC :: int

record catalog_product =
  kp_id :: uid
  kp_categoryId :: uid
  kp_name :: string
  kp_sku :: "string option"
  kp_barcode :: "string option"
  kp_priceC :: int
  kp_soldBy :: sold_by
  kp_lowStockThreshold :: "num option"
  kp_trackStock :: bool
  kp_active :: bool
  kp_variants :: "catalog_variant list"
  kp_modifierGroupIds :: "uid list"

record catalog_category =
  kc_id :: uid
  kc_name :: string
  kc_sortOrder :: int

record catalog_group =
  kg_id :: uid
  kg_name :: string
  kg_minSelect :: int
  kg_maxSelect :: int
  kg_modifiers :: "(uid \<times> string \<times> int) list"

record catalog_discount =
  kd_id :: uid
  kd_name :: string
  kd_kind :: disc_kind
  kd_value :: int
  kd_appliesTo :: discount_applies_to
  kd_active :: bool

record catalog_payload =
  kk_business :: business_settings
  kk_branch :: branch_info
  kk_terminal :: "string \<times> string"
  kk_categories :: "catalog_category list"
  kk_products :: "catalog_product list"
  kk_modifierGroups :: "catalog_group list"
  kk_discounts :: "catalog_discount list"
  kk_stock :: "(uid \<times> uid option \<times> num) list"
  kk_loadedAt :: time

section \<open>Serializers\<close>

definition catalogVariant :: "variant_row \<Rightarrow> catalog_variant" where
  "catalogVariant v = \<lparr> kv_id = r_id v, kv_name = pv_name v, kv_sku = pv_sku v, kv_barcode = pv_barcode v,
     kv_priceC = pv_price v \<rparr>"

definition catalogProduct :: "uid list \<Rightarrow> product_tree \<Rightarrow> catalog_product" where
  "catalogProduct liveGroups t =
    (let p = pt_product t
     in \<lparr> kp_id = r_id p, kp_categoryId = pr_categoryId p, kp_name = pr_name p, kp_sku = pr_sku p,
          kp_barcode = pr_barcode p, kp_priceC = pr_price p, kp_soldBy = pr_soldBy p,
          kp_lowStockThreshold = map_option milli_num (pr_lowStockThreshold p), kp_trackStock = pr_trackStock p,
          kp_active = pr_active p, kp_variants = map catalogVariant (pt_variants t),
          kp_modifierGroupIds = filter (\<lambda>g. g \<in> set liveGroups) (pt_groupIds t) \<rparr>)"

definition catalogCategory :: "category_row \<Rightarrow> catalog_category" where
  "catalogCategory c = \<lparr> kc_id = r_id c, kc_name = cg_name c, kc_sortOrder = cg_sortOrder c \<rparr>"

definition catalogGroup :: "group_tree \<Rightarrow> catalog_group" where
  "catalogGroup t = \<lparr> kg_id = r_id (gt_group t), kg_name = mg_name (gt_group t), kg_minSelect = mg_minSelect (gt_group t),
     kg_maxSelect = mg_maxSelect (gt_group t), kg_modifiers = map (\<lambda>m. (r_id m, md_name m, md_priceDelta m)) (gt_modifiers t) \<rparr>"

definition catalogDiscount :: "discount_row \<Rightarrow> catalog_discount" where
  "catalogDiscount d = \<lparr> kd_id = r_id d, kd_name = dc_name d, kd_kind = dc_kind d, kd_value = dc_value d,
     kd_appliesTo = dc_appliesTo d, kd_active = dc_active d \<rparr>"

section \<open>The pull\<close>

text \<open>The links of a product come in the order of the table: this query does not sort them.\<close>

definition unsorted_relations :: "db \<Rightarrow> product_row \<Rightarrow> product_tree" where
  "unsorted_relations base p = \<lparr> pt_product = p, pt_variants = sort_key r_createdAt (liveVariants base (r_id p)),
     pt_groupIds = map pg_groupId (filter (\<lambda>l. pg_productId l = r_id p \<and> live l) (db_productModifierGroup base)) \<rparr>"

definition catalogBody :: "ctx \<Rightarrow> uid \<Rightarrow> uid \<Rightarrow> business_row \<Rightarrow> branch_row \<Rightarrow> terminal_row \<Rightarrow> (db, exn, catalog_payload) op" where
  "catalogBody ctx businessId branchId business branch terminal =
    bind (scoped_findMany ctx category_t (\<lambda>c. cg_businessId c = businessId)) (\<lambda>categories.
    bind (scoped_findMany ctx product_t (\<lambda>p. pr_businessId p = businessId \<and> pr_active p)) (\<lambda>products.
    bind (scoped_findMany ctx modifierGroup_t (\<lambda>g. mg_businessId g = businessId)) (\<lambda>groups.
    bind (scoped_findMany ctx discount_t (\<lambda>d. dc_businessId d = businessId \<and> dc_active d)) (\<lambda>discounts.
    bind (levels ctx branchId) (\<lambda>stock.
    bind (reads (base_db ctx)) (\<lambda>base.
    bind now (\<lambda>n.
    ret \<lparr> kk_business = serializeBusinessSettings business, kk_branch = branchInfo branch,
          kk_terminal = (tm_name terminal, tm_code terminal),
          kk_categories = map catalogCategory (sort_key cg_sortOrder (sort_key r_createdAt categories)),
          kk_products = map (catalogProduct (map r_id groups) \<circ> unsorted_relations base) (sort_key r_createdAt products),
          kk_modifierGroups = map (catalogGroup \<circ> with_modifiers base) (sort_key r_createdAt groups),
          kk_discounts = map catalogDiscount (sort_key r_createdAt discounts),
          kk_stock = map (\<lambda>l. (lv_productId l, lv_variantId l, lv_qty l)) stock, kk_loadedAt = n \<rparr>)))))))"

definition pull :: "ctx \<Rightarrow> (db, exn, catalog_payload) op" where
  "pull ctx =
    (let businessId = the (cx_businessId ctx); branchId = the (cx_branchId ctx)
     in bind (getOr404 ctx business_t no_business businessId) (\<lambda>business.
        bind (getOr404 ctx branch_t no_branch branchId) (\<lambda>branch.
        bind (getOr404 ctx terminal_t ''Terminal not found.'' (snd (the (cx_actor ctx)))) (\<lambda>terminal.
        catalogBody ctx businessId branchId business branch terminal))))"

end
