(* ===== verification/PortalClaims.thy ===== *)
theory PortalClaims
  imports Requests PosCatalog SaleRequests Fixture
begin

text \<open>
  What the portal promises about businesses and request bodies: a create never takes an owner
  past the cap, and the numbers of a validated body, low-stock thresholds apart, fit their columns.
\<close>

section \<open>The cap on businesses\<close>

lemma findOwner_apply [simp]: "findOwner i s = (Inr (find (\<lambda>w. r_id w = i) (db_owner s)), s)"
  by (simp add: findOwner_def)

lemma insertBusiness_Inr:
  assumes "insertBusiness ctx ow d s = (Inr b, s')" "cx_ownerId ctx = Some ow"
  shows "live b \<and> bz_ownerId b = ow \<and> \<not> bz_isDemo b \<and> db_business s' = db_business s @ [b] \<and> db_owner s' = db_owner s"
proof -
  obtain c1 c2 c3 c4 c5 s1 where
    c: "scoped_create ctx business_t (Some ow) (new_business (nth_uuid (db_nextId s)) ow d c1 c2 c3 c4 c5) s1 = (Inr b, s')"
    and s1: "s1 = s\<lparr> db_nextId := Suc (db_nextId s) \<rparr>"
    using assms(1) unfolding insertBusiness_def
    by (auto simp: bind_eq_Inr [of fresh_id] split: sum.splits)
  from c [unfolded scoped_create_Inr] obtain r0 s2 where
    r0: "policeCreateData (base_db ctx s1) ctx business_t (Some ow)
        (new_business (nth_uuid (db_nextId s)) ow d c1 c2 c3 c4 c5) = Inr r0"
    and ins: "raw_insert business_t r0 s1 = (Inr b, s2)"
    and s': "db_business s' = db_business s2" "db_owner s' = db_owner s2"
    by (auto simp: audited_def)
  have "r0 = new_business (nth_uuid (db_nextId s)) ow d c1 c2 c3 c4 c5"
    using r0 assms(2) by (simp add: policeCreateData_def business_t_def TENANT_DIRECT_def new_business_def)
  with business_tb.raw_insert_cases [OF ins] s' show ?thesis
    by (auto simp: s1 business_t_def new_business_def live_def)
qed

lemma createBusinessBody_Inr:
  assumes "createBusinessBody ow d ctx s = (Inr b, s')" "cx_ownerId ctx = Some ow"
  obtains w where "find (\<lambda>w. r_id w = ow) (db_owner s) = Some w" "int (ownedCount ow s) < ow_maxBusinesses w"
    "insertBusiness ctx ow d s = (Inr b, s')"
  using assms(1) unfolding createBusinessBody_def
  by (auto simp: bind_eq_Inr [of "findOwner _"] bind_eq_Inr [of "orThrow _ _"] orThrow_Inr split: if_splits)

lemma createBusiness_Inr:
  assumes run: "createBusiness ctx d s = (Inr res, s')" and ow: "cx_ownerId ctx = Some ow" "ow \<noteq> []"
  obtains w b where "find (\<lambda>w. r_id w = ow) (db_owner s) = Some w" "int (ownedCount ow s) < ow_maxBusinesses w"
    "res = serializeBusiness b" "live b" "bz_ownerId b = ow" "\<not> bz_isDemo b"
    "db_business s' = db_business s @ [b]" "db_owner s' = db_owner s"
proof -
  obtain b where b: "createBusinessBody ow d (ctx\<lparr> cx_tx := Some s \<rparr>) s = (Inr b, s')" "res = serializeBusiness b"
    using run ow by (auto simp: createBusiness_def truthy_id_def bind_eq_Inr runWithTxClient_def transaction_Inr)
  have ow': "cx_ownerId (ctx\<lparr> cx_tx := Some s \<rparr>) = Some ow" using ow by simp
  show ?thesis
    by (rule createBusinessBody_Inr [OF b(1) ow'])
      (use insertBusiness_Inr [OF _ ow'] b(2) that in blast)
qed

text \<open>A create below the cap may fail for other reasons, but never as if the cap were reached.\<close>

lemma choke_not_cap: "choke_guard ctx m oper \<noteq> Some (Api x)"
  by (auto simp: choke_guard_def split: option.splits scope.splits if_splits)

lemma columns_not_cap: "not_null y \<noteq> Inl (Api x)" "not_null_int z \<noteq> Inl (Api x)"
  by (auto simp: not_null_def not_null_int_def null_error_def int_column_def split: option.splits sum.splits)

lemma insertBusiness_not_cap: "insertBusiness ctx ow d s = (Inl e, s') \<Longrightarrow> e \<noteq> Api x"
proof -
  assume run: "insertBusiness ctx ow d s = (Inl e, s')"
  have row: "raw_insert business_t r t \<noteq> (Inl (Api x), t')" for r t t'
    by (auto simp: raw_insert_def Let_def business_t_def column_check_def split: if_splits)
  have police: "policeCreateData base ctx business_t (Some ow) r = Inl f \<Longrightarrow> f \<noteq> Api x" for base r f
    by (auto simp: policeCreateData_def business_t_def TENANT_DIRECT_def split: option.splits)
  have create: "scoped_create ctx business_t (Some ow) r t = (Inl f, t') \<Longrightarrow> f \<noteq> Api x" for r t f t'
    using choke_not_cap police row
    by (auto simp: scoped_create_def scoped_create_nested_def create_body_def atomically_def transaction_Inl bind_eq_Inl
        choke_def writeAudit_def split: option.splits if_splits sum.splits)
  show ?thesis
    using run create unfolding insertBusiness_def bind_eq_Inl by (auto simp: fresh_id_def columns_not_cap split: sum.splits)
qed

text \<open>The businesses an owner holds: those that are neither deleted nor a demo.\<close>

definition held :: "uid \<Rightarrow> db \<Rightarrow> int" where
  "held ow s = (\<Sum>b \<leftarrow> db_business s. if bz_ownerId b = ow \<and> \<not> bz_isDemo b \<and> r_deletedAt b = None then 1 else 0)"

lemma ownedCount_held: "int (ownedCount ow s) = held ow s"
proof -
  have "int (List.length (filter (\<lambda>b. bz_ownerId b = ow \<and> \<not> bz_isDemo b \<and> live b) bs))
      = (\<Sum>b \<leftarrow> bs. if bz_ownerId b = ow \<and> \<not> bz_isDemo b \<and> r_deletedAt b = None then 1 else 0)" for bs
    by (induction bs) (auto simp: live_def)
  then show ?thesis by (simp add: ownedCount_def held_def)
qed

text \<open>
  C39. Creating a business never takes an owner past the cap. A create succeeds only when the owner
  holds fewer businesses than the owner's cap, counting those that are neither deleted nor a demo;
  it adds one business, which is the owner's in the context whatever the body says, so the owner then
  holds one more and at most the cap, and other owners hold what they held. A create that fails
  writes nothing, and it is refused for the cap exactly when the owner holds as many as the cap
  or more.
\<close>

theorem business_cap:
  assumes "cx_ownerId ctx = Some ow" and "ow \<noteq> []"
  shows "(case createBusiness ctx d s of
      (Inr res, s') \<Rightarrow> (\<exists>w b. find (\<lambda>w. r_id w = ow) (db_owner s') = Some w
          \<and> db_business s' = db_business s @ [b] \<and> bq_row res = b \<and> bz_ownerId b = ow \<and> \<not> bz_isDemo b \<and> r_deletedAt b = None
          \<and> held ow s' = held ow s + 1 \<and> held ow s' \<le> ow_maxBusinesses w)
        \<and> (\<forall>other. other \<noteq> ow \<longrightarrow> held other s' = held other s)
    | (Inl e, s') \<Rightarrow> s' = s)
    \<and> (\<forall>w. find (\<lambda>w. r_id w = ow) (db_owner s) = Some w \<longrightarrow>
        (fst (createBusiness ctx d s) = Inl cap_reached \<longleftrightarrow> ow_maxBusinesses w \<le> held ow s))"
proof (intro conjI allI impI)
  have t: "truthy_id (cx_ownerId ctx) = Some ow" using assms by (simp add: truthy_id_def)
  show "case createBusiness ctx d s of
      (Inr res, s') \<Rightarrow> (\<exists>w b. find (\<lambda>w. r_id w = ow) (db_owner s') = Some w
          \<and> db_business s' = db_business s @ [b] \<and> bq_row res = b \<and> bz_ownerId b = ow \<and> \<not> bz_isDemo b \<and> r_deletedAt b = None
          \<and> held ow s' = held ow s + 1 \<and> held ow s' \<le> ow_maxBusinesses w)
        \<and> (\<forall>other. other \<noteq> ow \<longrightarrow> held other s' = held other s)
    | (Inl e, s') \<Rightarrow> s' = s"
  proof (cases "createBusiness ctx d s")
    case (Pair res s')
    show ?thesis
    proof (cases res)
      case (Inl e)
      have "s' = s"
        using Pair [unfolded Inl] t by (auto simp: createBusiness_def runWithTxClient_def bind_eq_Inl transaction_Inl)
      with Pair Inl show ?thesis by simp
    next
      case (Inr r)
      show ?thesis
        by (rule createBusiness_Inr [OF Pair [unfolded Inr] assms])
          (auto simp: Pair Inr ownedCount_held held_def serializeBusiness_def live_def)
    qed
  qed
next
  fix w assume w: "find (\<lambda>w. r_id w = ow) (db_owner s) = Some w"
  obtain res s' where ins: "insertBusiness (ctx\<lparr> cx_tx := Some s \<rparr>) ow d s = (res, s')"
    by (cases "insertBusiness (ctx\<lparr> cx_tx := Some s \<rparr>) ow d s")
  have "res \<noteq> Inl cap_reached" using insertBusiness_not_cap ins unfolding cap_reached_def by metis
  then show "fst (createBusiness ctx d s) = Inl cap_reached \<longleftrightarrow> ow_maxBusinesses w \<le> held ow s"
    using assms w ins
    by (cases res) (auto simp: createBusiness_def truthy_id_def createBusinessBody_def runWithTxClient_def transaction_def bind_def
        orThrow_def ownedCount_held)
qed

definition fx_new_business :: create_business where
  "fx_new_business = \<lparr> cb_name = ''Cafe'', cb_type = Fnb, cb_currency = None, cb_taxRate = 3 / 25, cb_serviceChargeRate = None,
     cb_dayStartTime = Some (Some ''06:00''), cb_allowMiscItems = None, cb_expiryWarningDays = None, cb_receiptHeader = None,
     cb_receiptFooter = None \<rparr>"

text \<open>At a cap of two the fixture's owner gets a second business; then the cap is reached.\<close>

definition fx_cap2 :: db where
  "fx_cap2 = fx_db\<lparr> db_owner := [(fx_owner ''own1'' Active)\<lparr> ow_maxBusinesses := 2 \<rparr>, fx_owner ''own2'' Active] \<rparr>"

theorem business_cap_witness:
  "held ''own1'' (snd (createBusiness fx_owner_ctx fx_new_business fx_cap2)) = 2
    \<and> fst (createBusiness fx_owner_ctx fx_new_business fx_db) = Inl cap_reached"
proof -
  have o: "cx_ownerId fx_owner_ctx = Some ''own1''" by (simp add: fx_owner_ctx_def fx_terminal_ctx_def)
  have "case fst (createBusiness fx_owner_ctx fx_new_business fx_cap2) of Inl _ \<Rightarrow> False | Inr _ \<Rightarrow> True"
    by code_simp
  from run_Inr [OF this] obtain res s' where
    r: "createBusiness fx_owner_ctx fx_new_business fx_cap2 = (Inr res, s')"
    by blast
  have "held ''own1'' fx_cap2 = 1" by code_simp
  then have "held ''own1'' s' = 2"
    using business_cap [OF o, where d = fx_new_business and s = fx_cap2] by (auto simp: r)
  moreover have "find (\<lambda>w. r_id w = ''own1'') (db_owner fx_db) = Some (fx_owner ''own1'' Active)"
    "ow_maxBusinesses (fx_owner ''own1'' Active) \<le> held ''own1'' fx_db" by code_simp+
  then have "fst (createBusiness fx_owner_ctx fx_new_business fx_db) = Inl cap_reached"
    using business_cap [OF o, where d = fx_new_business and s = fx_db] by simp
  ultimately show ?thesis by (simp add: r)
qed

section \<open>Bodies that fit\<close>

text \<open>What it means that a number of a body fits: its conversion is a value the column takes.\<close>

definition int_fits :: "num \<Rightarrow> bool" where
  "int_fits x \<longleftrightarrow> (\<exists>n. int_column x = Inr n \<and> int4 n)"

definition rate_fits :: "num \<Rightarrow> bool" where
  "rate_fits x \<longleftrightarrow> numeric5_4 (toFixed4 x)"

definition qty_fits :: "num \<Rightarrow> bool" where
  "qty_fits x \<longleftrightarrow> numeric10_3 (toFixed3 x)"

definition variant_fits :: "variant_input \<Rightarrow> bool" where
  "variant_fits v \<longleftrightarrow> int_fits (vi_priceC v) \<and> opt_ok int_fits (vi_costC v)"

definition modifier_fits :: "modifier_input \<Rightarrow> bool" where
  "modifier_fits m \<longleftrightarrow> int_fits (mi_priceDeltaC m)"

lemma valid_rate_fits: "rate_valid x \<Longrightarrow> rate_fits x"
proof -
  assume x: "rate_valid x"
  have "\<bar>fl (9999 / 10000) - 9999 / 10000\<bar> \<le> 1 / 10000"
    by (rule order_trans [OF fl_error]) simp
  then have "fl (9999 / 10000) \<le> 1" by linarith
  with x have "0 \<le> x" "x \<le> 1" by (auto simp: rate_valid_def)
  then have "0 \<le> \<lfloor>x * 10000 + 1 / 2\<rfloor>" "\<lfloor>x * 10000 + 1 / 2\<rfloor> \<le> 10000" by (simp_all add: floor_le_iff)
  then show ?thesis using \<open>0 \<le> x\<close> by (simp add: rate_fits_def numeric5_4_def toFixed4_def)
qed

lemma isInt_between_fits: "isInt_between lo hi x \<Longrightarrow> - (2 ^ 31) \<le> lo \<Longrightarrow> hi < 2 ^ 31 \<Longrightarrow> int_fits x"
  unfolding isInt_between_def int_fits_def int_column_Inr int4_def
  by (rule exI [of _ "\<lfloor>x\<rfloor>"]) (auto simp: le_floor_iff floor_le_iff)

lemma centavos_fit:
  "isInt_between 0 MAX_CENTAVOS x \<Longrightarrow> int_fits x" "isInt_between 1 MAX_CENTAVOS x \<Longrightarrow> int_fits x"
  "isInt_between (- MAX_CENTAVOS) MAX_CENTAVOS x \<Longrightarrow> int_fits x"
  by (erule isInt_between_fits; simp add: MAX_CENTAVOS_def)+

lemma counts_fit:
  "isInt_between 0 365 x \<Longrightarrow> int_fits x" "isInt_between 1 1000 x \<Longrightarrow> int_fits x"
  "isInt_between 0 100000 x \<Longrightarrow> int_fits x" "isInt_between 0 100 x \<Longrightarrow> int_fits x"
  by (erule isInt_between_fits; simp)+

lemma maybe_ok_mono: "maybe_ok p x \<Longrightarrow> (\<And>v. p v \<Longrightarrow> q v) \<Longrightarrow> maybe_ok q x"
  by (auto simp: maybe_ok_def split: option.splits)

lemma opt_ok_mono: "opt_ok p x \<Longrightarrow> (\<And>v. p v \<Longrightarrow> q v) \<Longrightarrow> opt_ok q x"
  by (auto simp: opt_ok_def split: option.splits)

lemmas fit_rules = maybe_ok_mono [OF _ centavos_fit(1)] maybe_ok_mono [OF _ centavos_fit(2)] opt_ok_mono [OF _ centavos_fit(1)]
  maybe_ok_mono [OF _ counts_fit(1)] maybe_ok_mono [OF _ counts_fit(2)] maybe_ok_mono [OF _ counts_fit(3)]
  maybe_ok_mono [OF _ counts_fit(4)] maybe_ok_mono [OF _ valid_rate_fits]

lemma valid_variants_fit: "variants_valid isUUID vs \<Longrightarrow> list_all variant_fits vs"
  by (auto simp: variants_valid_def list_all_iff variant_input_valid_def variant_fits_def intro: centavos_fit fit_rules)

lemma valid_modifiers_fit: "modifiers_valid isUUID ms \<Longrightarrow> list_all modifier_fits ms"
  by (auto simp: modifiers_valid_def list_all_iff modifier_input_valid_def modifier_fits_def intro: centavos_fit)

lemma valid_qty_fits: "0 \<le> x \<Longrightarrow> x \<le> of_int MAX_QTY \<Longrightarrow> qty_fits x"
proof -
  assume x: "0 \<le> x" "x \<le> of_int MAX_QTY"
  then have "0 \<le> \<lfloor>x * 1000 + 1 / 2\<rfloor>" "\<lfloor>x * 1000 + 1 / 2\<rfloor> < 10 ^ 10"
    by (simp_all add: floor_less_iff MAX_QTY_def)
  then show ?thesis using x(1) by (simp add: qty_fits_def numeric10_3_def toFixed3_def)
qed

lemma line_fits: "receive_line_valid isUUID l \<Longrightarrow> qty_fits (rl_qty l) \<and> maybe_ok int_fits (rl_unitCostC l)"
  by (auto simp: receive_line_valid_def maybe_ok_def split: option.splits intro: valid_qty_fits centavos_fit)

text \<open>
  C40. Every number of a valid body of the portal and of the stock endpoints, on create and on
  update alike, fits the column it is written to, with one exception, the low-stock threshold of a
  product: the tax and service charge rates convert to a \<open>Decimal(5,4)\<close>, the quantities received and
  counted to a \<open>Decimal(10,3)\<close>, and the warning days, discount values, caps on businesses, sort
  orders, prices and costs of products and variants, unit costs, selection bounds and price
  differences are whole numbers of 32 bits.
\<close>

theorem valid_bodies_fit:
  "(create_business_valid cb \<longrightarrow> rate_fits (cb_taxRate cb) \<and> maybe_ok rate_fits (cb_serviceChargeRate cb)
        \<and> maybe_ok int_fits (cb_expiryWarningDays cb))
    \<and> (update_business_valid ub \<longrightarrow> maybe_ok rate_fits (ub_taxRate ub) \<and> maybe_ok rate_fits (ub_serviceChargeRate ub)
        \<and> maybe_ok int_fits (ub_expiryWarningDays ub))
    \<and> (create_discount_valid cd \<longrightarrow> int_fits (cd_value cd)) \<and> (update_discount_valid ud \<longrightarrow> maybe_ok int_fits (ud_value ud))
    \<and> (create_owner_valid isEmail co \<longrightarrow> int_fits (co_maxBusinesses co))
    \<and> (update_owner_valid uo \<longrightarrow> maybe_ok int_fits (uo_maxBusinesses uo))
    \<and> (create_category_valid cc \<longrightarrow> maybe_ok int_fits (cc_sortOrder cc))
    \<and> (update_category_valid uc \<longrightarrow> maybe_ok int_fits (uc_sortOrder uc))
    \<and> (create_product_valid isUUID cp \<longrightarrow> int_fits (cp_priceC cp) \<and> opt_ok int_fits (cp_costC cp)
        \<and> opt_ok (list_all variant_fits) (cp_variants cp))
    \<and> (update_product_valid isUUID up \<longrightarrow> maybe_ok int_fits (up_priceC up) \<and> maybe_ok int_fits (up_costC up)
        \<and> maybe_ok (list_all variant_fits) (up_variants up))
    \<and> (create_group_valid isUUID cg \<longrightarrow> maybe_ok int_fits (cgp_minSelect cg) \<and> maybe_ok int_fits (cgp_maxSelect cg)
        \<and> opt_ok (list_all modifier_fits) (cgp_modifiers cg))
    \<and> (update_group_valid isUUID ug \<longrightarrow> maybe_ok int_fits (ugp_minSelect ug) \<and> maybe_ok int_fits (ugp_maxSelect ug)
        \<and> maybe_ok (list_all modifier_fits) (ugp_modifiers ug))
    \<and> (receive_valid isUUID ls \<longrightarrow> list_all (\<lambda>l. qty_fits (rl_qty l) \<and> maybe_ok int_fits (rl_unitCostC l)) ls)
    \<and> (adjust_valid isUUID d \<longrightarrow> qty_fits (aj_newQty d))"
proof (intro conjI impI)
  assume "receive_valid isUUID ls"
  then show "list_all (\<lambda>l. qty_fits (rl_qty l) \<and> maybe_ok int_fits (rl_unitCostC l)) ls"
    using line_fits by (auto simp: receive_valid_def list_all_iff)
next
  assume "adjust_valid isUUID d"
  then show "qty_fits (aj_newQty d)" by (simp add: adjust_valid_def valid_qty_fits)
qed (auto simp: create_business_valid_def update_business_valid_def create_discount_valid_def update_discount_valid_def
    create_owner_valid_def update_owner_valid_def create_category_valid_def update_category_valid_def create_product_valid_def
    update_product_valid_def create_group_valid_def update_group_valid_def
    intro: valid_rate_fits centavos_fit counts_fit fit_rules
      opt_ok_mono [OF _ valid_variants_fit] maybe_ok_mono [OF _ valid_variants_fit]
      opt_ok_mono [OF _ valid_modifiers_fit] maybe_ok_mono [OF _ valid_modifiers_fit])

theorem valid_bodies_fit_witness:
  "rate_fits (cb_taxRate fx_new_business) \<and> maybe_ok int_fits (cb_expiryWarningDays fx_new_business)"
proof -
  have "create_business_valid fx_new_business" by code_simp
  from valid_bodies_fit [THEN conjunct1, THEN mp, OF this] show ?thesis by blast
qed

end
