(* ===== verification/CatalogClaims.thy ===== *)
theory CatalogClaims
  imports PosCatalog StockFacts SaleRequests Fixture Tenancy
begin

text \<open>
  What the catalogue promises: the pull of a terminal is exactly the sellable catalogue of
  its business, and the links of a product are exactly the groups that were asked for.
\<close>

section \<open>A catalogue\<close>

definition fx_group :: "uid \<Rightarrow> uid \<Rightarrow> modifier_group_row" where
  "fx_group i biz = \<lparr> r_id = i, r_createdAt = 0, r_updatedAt = 0, r_deletedAt = None, mg_businessId = biz, mg_name = ''Size'',
     mg_minSelect = 0, mg_maxSelect = 1 \<rparr>"

definition fx_link :: "uid \<Rightarrow> uid \<Rightarrow> uid \<Rightarrow> time option \<Rightarrow> product_modifier_group_row" where
  "fx_link i p g d = \<lparr> r_id = i, r_createdAt = 0, r_updatedAt = 0, r_deletedAt = d, pg_productId = p, pg_groupId = g \<rparr>"

text \<open>Group \<open>g1\<close> is linked, \<open>g2\<close> was, \<open>g3\<close> never.\<close>

definition fx_menu :: db where
  "fx_menu = fx_db\<lparr>
     db_modifierGroup := [fx_group ''g1'' ''biz1'', fx_group ''g2'' ''biz1'', fx_group ''g3'' ''biz1''],
     db_productModifierGroup := [fx_link ''l1'' (ex_uuid ''04'') ''g1'' None, fx_link ''l2'' (ex_uuid ''04'') ''g2'' (Some 5)] \<rparr>"

section \<open>Lookups\<close>

lemma get_catalog [simp]:
  "tb_get business_t = db_business" "tb_get category_t = db_category" "tb_get product_t = db_product"
  "tb_get productVariant_t = db_productVariant" "tb_get modifierGroup_t = db_modifierGroup"
  "tb_get productModifierGroup_t = db_productModifierGroup" "tb_get discount_t = db_discount"
  "tb_get branchStock_t = db_branchStock"
  by (simp_all add: business_t_def category_t_def product_t_def productVariant_t_def modifierGroup_t_def
      productModifierGroup_t_def discount_t_def branchStock_t_def)

lemma getOr404_Inr:
  assumes "getOr404 ctx t m i s = (Inr r, s')"
  shows "s' = s" and "r \<in> set (tb_get t (base_db ctx s))" and "r_id r = i"
    and "visible ctx t False (base_db ctx s) r"
proof -
  from assms have f: "scoped_findFirst ctx t (\<lambda>r. r_id r = i) s = (Inr (Some r), s')"
    unfolding getOr404_def bind_eq_Inr by (auto split: option.splits)
  from findFirst_Inr [OF f] show "s' = s" "r \<in> set (tb_get t (base_db ctx s))" "r_id r = i"
    "visible ctx t False (base_db ctx s) r" by simp_all
qed

lemma pure_getOr404: "pure_op (getOr404 ctx t m i)"
  by (auto simp: getOr404_def intro!: pure_bind split: option.split)

lemma visible_tenant:
  "cx_scope ctx = Some Tenant \<Longrightarrow> visible ctx t False base r \<longleftrightarrow> in_scope ctx t base r \<and> live r"
  by (auto simp: visible_def)

text \<open>Rows of a business the caller may see: the filter asks for nothing more than the business.\<close>

lemma business_in_scope:
  assumes "visible ctx business_t False base b" "cx_scope ctx = Some Tenant" "b \<in> set (db_business base)"
    and "cx_ownerId ctx \<noteq> None"
  shows "r_id b \<in> set (allowedBusinessIds base ctx)"
  using assms
  by (auto simp: visible_tenant in_scope_def tenantWhereFor_def business_t_def TENANT_DIRECT_def allowedBusinessIds_def)

lemma business_rows:
  assumes "TENANT_DIRECT (tb_model t) = Some BusinessId" "cx_scope ctx = Some Tenant"
    and "any_businessId (tb_any t r) = Some b" "b \<in> set (allowedBusinessIds base ctx)"
  shows "visible ctx t False base r \<longleftrightarrow> live r"
  using assms by (auto simp: visible_tenant in_scope_def tenantWhereFor_def)

lemma branch_rows:
  assumes "TENANT_DIRECT (tb_model t) = Some BranchId" "cx_scope ctx = Some Tenant" "is_terminal ctx"
    and "any_branchId (tb_any t r) = cx_branchId ctx"
  shows "visible ctx t False base r \<longleftrightarrow> live r"
  using assms by (auto simp: visible_tenant in_scope_def tenantWhereFor_def)

section \<open>The pull\<close>

lemma levels_Inr:
  assumes "levels ctx br s = (Inr ls, s')" "cx_scope ctx = Some Tenant" "is_terminal ctx" "cx_branchId ctx = Some br"
  shows "s' = s" and "set (map (\<lambda>l. (lv_productId l, lv_variantId l, lv_qty l)) ls)
    = {(bs_productId r, bs_variantId r, milli_num (bs_qty r)) | r. r \<in> set (db_branchStock (base_db ctx s))
        \<and> live r \<and> bs_branchId r = br \<and> tracks_stock (base_db ctx s) (bs_productId r)}"
proof -
  let ?B = "base_db ctx s"
  let ?rows = "filter (\<lambda>r. (bs_branchId r = br \<and> tracks_stock ?B (bs_productId r)) \<and> visible ctx branchStock_t False ?B r) (db_branchStock ?B)"
  have run: "s' = s \<and> ((?rows = [] \<and> ls = []) \<or>
      (\<exists>ps. ls = map (level_of_row ps (List.concat (map (\<lambda>p. liveVariants ?B (r_id p)) ps))) (sort_key r_createdAt ?rows)))"
    using assms(1) unfolding levels_def
    by (elim bind_pure_InrE [OF _ pure_assertBranch])
      (auto simp: bind_eq_Inr findMany_Inr simp del: filter_empty_conv filter.simps split: if_splits)
  have vis: "visible ctx branchStock_t False ?B r \<longleftrightarrow> live r" if "bs_branchId r = br" for r
    using assms(2,3,4) that by (intro branch_rows) (auto simp: branchStock_t_def TENANT_DIRECT_def)
  have "set (map (\<lambda>l. (lv_productId l, lv_variantId l, lv_qty l)) ls)
      = (\<lambda>r. (bs_productId r, bs_variantId r, milli_num (bs_qty r))) ` set ?rows"
    using run
  proof (elim conjE disjE)
    assume "?rows = []" "ls = []"
    then show ?thesis by (simp only: set_map list.simps image_empty)
  qed (auto simp: level_of_row_def image_image)
  then show "set (map (\<lambda>l. (lv_productId l, lv_variantId l, lv_qty l)) ls)
    = {(bs_productId r, bs_variantId r, milli_num (bs_qty r)) | r. r \<in> set (db_branchStock ?B)
        \<and> live r \<and> bs_branchId r = br \<and> tracks_stock ?B (bs_productId r)}"
    using vis by auto
  show "s' = s" using run by blast
qed


lemma pull_Inr:
  assumes run: "pull ctx s = (Inr k, s')" and sc: "cx_scope ctx = Some Tenant" and ow: "cx_ownerId ctx = Some ow"
    and b: "cx_businessId ctx = Some b" and br: "cx_branchId ctx = Some br"
  obtains business branch terminal where "b \<in> set (allowedBusinessIds (base_db ctx s) ctx)" "r_id business = b"
    "catalogBody ctx b br business branch terminal s = (Inr k, s')"
proof -
  obtain business branch terminal where
    r: "getOr404 ctx business_t no_business b s = (Inr business, s)"
    "catalogBody ctx b br business branch terminal s = (Inr k, s')"
    using run unfolding pull_def Let_def b br
    by (auto elim!: bind_pure_InrE [OF _ pure_getOr404])
  note bz = getOr404_Inr [OF r(1)]
  have "b \<in> set (allowedBusinessIds (base_db ctx s) ctx)"
    using business_in_scope [OF bz(4) sc] bz(2,3) ow by auto
  with r(2) bz(3) that show ?thesis by blast
qed

text \<open>The rows of one business, and the rows a terminal may sell from.\<close>

definition own_categories :: "db \<Rightarrow> uid \<Rightarrow> category_row set" where
  "own_categories s b = {c \<in> set (db_category s). live c \<and> cg_businessId c = b}"

definition sellable :: "db \<Rightarrow> uid \<Rightarrow> product_row set" where
  "sellable s b = {p \<in> set (db_product s). live p \<and> pr_active p \<and> pr_businessId p = b}"

definition own_groups :: "db \<Rightarrow> uid \<Rightarrow> modifier_group_row set" where
  "own_groups s b = {g \<in> set (db_modifierGroup s). live g \<and> mg_businessId g = b}"

definition usable_discounts :: "db \<Rightarrow> uid \<Rightarrow> discount_row set" where
  "usable_discounts s b = {d \<in> set (db_discount s). live d \<and> dc_active d \<and> dc_businessId d = b}"

definition branch_levels :: "db \<Rightarrow> uid \<Rightarrow> (uid \<times> uid option \<times> num) set" where
  "branch_levels s br = {(bs_productId r, bs_variantId r, milli_num (bs_qty r)) | r. r \<in> set (db_branchStock s)
     \<and> live r \<and> bs_branchId r = br \<and> tracks_stock s (bs_productId r)}"

lemma catalogBody_Inr:
  assumes run: "catalogBody ctx b br business branch terminal s = (Inr k, s')"
    and ctx: "cx_scope ctx = Some Tenant" "is_terminal ctx" "cx_branchId ctx = Some br"
    and b: "b \<in> set (allowedBusinessIds (base_db ctx s) ctx)"
  obtains gs where "s' = s" "set gs = own_groups (base_db ctx s) b"
    and "set (kk_modifierGroups k) = (catalogGroup \<circ> with_modifiers (base_db ctx s)) ` set gs"
    and "set (kk_categories k) = catalogCategory ` own_categories (base_db ctx s) b"
    and "set (kk_products k) = (catalogProduct (map r_id gs) \<circ> unsorted_relations (base_db ctx s)) ` sellable (base_db ctx s) b"
    and "set (kk_discounts k) = catalogDiscount ` usable_discounts (base_db ctx s) b"
    and "set (kk_stock k) = branch_levels (base_db ctx s) br"
proof -
  let ?B = "base_db ctx s"
  have vis: "\<And>c. cg_businessId c = b \<Longrightarrow> visible ctx category_t False ?B c \<longleftrightarrow> live c"
    "\<And>p. pr_businessId p = b \<Longrightarrow> visible ctx product_t False ?B p \<longleftrightarrow> live p"
    "\<And>g. mg_businessId g = b \<Longrightarrow> visible ctx modifierGroup_t False ?B g \<longleftrightarrow> live g"
    "\<And>d. dc_businessId d = b \<Longrightarrow> visible ctx discount_t False ?B d \<longleftrightarrow> live d"
    by (rule business_rows [OF _ ctx(1) _ b];
        simp add: category_t_def product_t_def modifierGroup_t_def discount_t_def TENANT_DIRECT_def)+
  let ?cs = "filter (\<lambda>c. cg_businessId c = b \<and> visible ctx category_t False ?B c) (db_category ?B)"
  let ?ps = "filter (\<lambda>p. (pr_businessId p = b \<and> pr_active p) \<and> visible ctx product_t False ?B p) (db_product ?B)"
  let ?gs = "filter (\<lambda>g. mg_businessId g = b \<and> visible ctx modifierGroup_t False ?B g) (db_modifierGroup ?B)"
  let ?ds = "filter (\<lambda>d. (dc_businessId d = b \<and> dc_active d) \<and> visible ctx discount_t False ?B d) (db_discount ?B)"
  obtain ls s1 where ls: "levels ctx br s = (Inr ls, s1)"
    and k: "s' = s1" "kk_categories k = map catalogCategory (sort_key cg_sortOrder (sort_key r_createdAt ?cs))"
      "kk_products k = map (catalogProduct (map r_id ?gs) \<circ> unsorted_relations (base_db ctx s1)) (sort_key r_createdAt ?ps)"
      "kk_modifierGroups k = map (catalogGroup \<circ> with_modifiers (base_db ctx s1)) (sort_key r_createdAt ?gs)"
      "kk_discounts k = map catalogDiscount (sort_key r_createdAt ?ds)"
      "kk_stock k = map (\<lambda>l. (lv_productId l, lv_variantId l, lv_qty l)) ls"
    using run unfolding catalogBody_def bind_eq_Inr [of "scoped_findMany _ _ _"] findMany_Inr bind_eq_Inr [of "levels _ _"]
    by (auto simp: bind_eq_Inr [of now])
  note lev = levels_Inr [OF ls ctx]
  show ?thesis
  proof (rule that [of ?gs])
    show "s' = s" using k(1) lev(1) by simp
    show "set ?gs = own_groups ?B b" using vis(3) by (auto simp: own_groups_def)
    show "set (kk_modifierGroups k) = (catalogGroup \<circ> with_modifiers ?B) ` set ?gs" by (simp add: k(4) lev(1))
    have "set ?cs = own_categories ?B b" using vis(1) by (auto simp: own_categories_def)
    then show "set (kk_categories k) = catalogCategory ` own_categories ?B b" by (simp add: k(2) del: set_filter)
    have "set ?ps = sellable ?B b" using vis(2) by (auto simp: sellable_def)
    then show "set (kk_products k) = (catalogProduct (map r_id ?gs) \<circ> unsorted_relations ?B) ` sellable ?B b"
      by (simp add: k(3) lev(1) del: set_filter)
    have "set ?ds = usable_discounts ?B b" using vis(4) by (auto simp: usable_discounts_def)
    then show "set (kk_discounts k) = catalogDiscount ` usable_discounts ?B b" by (simp add: k(5) del: set_filter)
    show "set (kk_stock k) = branch_levels ?B br" using lev(2) by (simp add: k(6) branch_levels_def)
  qed
qed

text \<open>
  C37. The pull of a terminal is exactly the sellable catalogue of its own business: the ids of
  its products are those of the live, active products of that business, each with its price
  and its live variants, its categories, groups and discounts are the live ones of that
  business, discounts active; its stock is the levels of the terminal's own branch. The group
  ids of a product are those of its live links whose group is itself part of the payload, so
  no reference dangles. Nothing is written.
\<close>

theorem pull_is_own_catalogue:
  assumes "pull ctx s = (Inr k, s')" and "cx_scope ctx = Some Tenant" and "is_terminal ctx"
    and "cx_ownerId ctx = Some ow" and "cx_businessId ctx = Some b" and "cx_branchId ctx = Some br"
    and "cx_tx ctx = None"
  shows "s' = s \<and> kp_id ` set (kk_products k) = r_id ` sellable s b
    \<and> (\<forall>q \<in> set (kk_products k). \<exists>p \<in> sellable s b. kp_id q = r_id p \<and> kp_name q = pr_name p \<and> kp_priceC q = pr_price p
        \<and> set (kp_variants q) = catalogVariant ` set (liveVariants s (r_id p))
        \<and> set (kp_modifierGroupIds q) = {pg_groupId l | l. l \<in> set (db_productModifierGroup s) \<and> live l
            \<and> pg_productId l = r_id p \<and> pg_groupId l \<in> kg_id ` set (kk_modifierGroups k)})
    \<and> kg_id ` set (kk_modifierGroups k) = r_id ` own_groups s b
    \<and> set (kk_categories k) = catalogCategory ` own_categories s b
    \<and> set (kk_discounts k) = catalogDiscount ` usable_discounts s b
    \<and> set (kk_stock k) = branch_levels s br"
proof -
  have base: "base_db ctx s = s" using assms(7) by (simp add: base_db_def)
  obtain business branch terminal where b: "b \<in> set (allowedBusinessIds (base_db ctx s) ctx)"
    and body: "catalogBody ctx b br business branch terminal s = (Inr k, s')"
    by (rule pull_Inr [OF assms(1,2,4,5,6)])
  obtain gs where g: "s' = s" "set gs = own_groups s b" "set (kk_modifierGroups k) = (catalogGroup \<circ> with_modifiers s) ` set gs"
    "set (kk_categories k) = catalogCategory ` own_categories s b"
    "set (kk_products k) = (catalogProduct (map r_id gs) \<circ> unsorted_relations s) ` sellable s b"
    "set (kk_discounts k) = catalogDiscount ` usable_discounts s b" "set (kk_stock k) = branch_levels s br"
    by (rule catalogBody_Inr [OF body assms(2,3,6) b, unfolded base])
  have ids: "kg_id ` set (kk_modifierGroups k) = r_id ` set gs"
    by (simp add: g(3) image_image catalogGroup_def with_modifiers_def)
  have kp: "kp_id (catalogProduct (map r_id gs) (unsorted_relations s p)) = r_id p" for p
    by (simp add: catalogProduct_def unsorted_relations_def Let_def)
  have each: "kp_name q = pr_name p \<and> kp_priceC q = pr_price p
      \<and> set (kp_variants q) = catalogVariant ` set (liveVariants s (r_id p))
      \<and> set (kp_modifierGroupIds q) = {pg_groupId l | l. l \<in> set (db_productModifierGroup s) \<and> live l
          \<and> pg_productId l = r_id p \<and> pg_groupId l \<in> kg_id ` set (kk_modifierGroups k)}"
    if "q = catalogProduct (map r_id gs) (unsorted_relations s p)" for q p
    unfolding that ids by (auto simp: catalogProduct_def unsorted_relations_def Let_def)
  show ?thesis
    using g(1,2,4,6,7) ids each kp by (auto simp: g(5) image_image)
qed

theorem pull_is_own_catalogue_witness:
  "\<exists>k. pull fx_terminal_ctx fx_menu = (Inr k, fx_menu) \<and> kp_id ` set (kk_products k) = r_id ` sellable fx_menu ''biz1''
    \<and> List.length (kk_products k) = 1"
proof -
  have "case fst (pull fx_terminal_ctx fx_menu) of Inl _ \<Rightarrow> False | Inr k \<Rightarrow> List.length (kk_products k) = 1"
    by code_simp
  from run_Inr [OF this] obtain k s' where r: "pull fx_terminal_ctx fx_menu = (Inr k, s')" "List.length (kk_products k) = 1"
    by blast
  have c: "cx_scope fx_terminal_ctx = Some Tenant" "is_terminal fx_terminal_ctx" "cx_ownerId fx_terminal_ctx = Some ''own1''"
    "cx_businessId fx_terminal_ctx = Some ''biz1''" "cx_branchId fx_terminal_ctx = Some ''br1''" "cx_tx fx_terminal_ctx = None"
    by (simp_all add: fx_terminal_ctx_def is_terminal_def)
  from pull_is_own_catalogue [OF r(1) c]
  have "s' = fx_menu \<and> kp_id ` set (kk_products k) = r_id ` sellable fx_menu ''biz1''" by (elim conjE) (intro conjI)
  with r show ?thesis by blast
qed

end
