(* ===== verification/IdentClaims.thy ===== *)
theory IdentClaims
  imports CatalogClaims "HOL-Library.Multiset"
begin

text \<open>
  SKUs and barcodes stay unique over the live products and variants of a business, under
  creating a product and under the replace-set of a patch.
\<close>

section \<open>Replacing a list of entries\<close>

text \<open>Entries are pairs of an id and what is stored under it.\<close>

definition put_entry :: "'k \<times> 'd \<Rightarrow> ('k \<times> 'd) list \<Rightarrow> ('k \<times> 'd) list" where
  "put_entry u T = map (\<lambda>t. if fst t = fst u then u else t) T"

lemma put_entries:
  assumes "distinct (map fst us)"
  shows "fold put_entry us T = map (\<lambda>t. case map_of us (fst t) of None \<Rightarrow> t | Some d \<Rightarrow> (fst t, d)) T"
  using assms
proof (induction us arbitrary: T)
  case (Cons u us)
  then have "map_of us (fst u) = None" by (simp add: map_of_eq_None_iff)
  with Cons show ?case
    by (auto simp: put_entry_def comp_def prod.case_eq_if split: option.split)
qed simp

lemma replaced_entries:
  assumes T: "distinct (map fst (T @ new))" and us: "distinct (map fst us)" "fst ` set us \<subseteq> fst ` set T"
    and ds: "set ds = fst ` set T - fst ` set us"
  shows "mset (map snd (filter (\<lambda>t. fst t \<notin> set ds) (fold put_entry us (T @ new)))) = mset (map snd us) + mset (map snd new)"
proof -
  let ?g = "\<lambda>t. case map_of us (fst t) of None \<Rightarrow> t | Some d \<Rightarrow> (fst t, d)"
  have fst_g: "fst (?g t) = fst t" for t by (simp split: option.split)
  have new: "map_of us (fst t) = None" "fst t \<notin> set ds" if "t \<in> set new" for t
    using T us(2) ds that by (auto simp: map_of_eq_None_iff)
  then have n: "filter (\<lambda>t. fst t \<notin> set ds) (map ?g new) = new"
    by (simp add: filter_id_conv map_idI)
  let ?K = "filter (\<lambda>t. fst t \<in> fst ` set us) T"
  have "filter (\<lambda>t. fst t \<notin> set ds) (map ?g T) = map ?g (filter (\<lambda>t. fst t \<notin> set ds) T)"
    by (simp add: filter_map comp_def fst_g)
  also have "filter (\<lambda>t. fst t \<notin> set ds) T = ?K" using ds by (intro filter_cong) auto
  finally have k: "map snd (filter (\<lambda>t. fst t \<notin> set ds) (map ?g T)) = map (\<lambda>i. the (map_of us i)) (map fst ?K)"
    by (auto simp: map_of_eq_None_iff split: option.split)
  have "mset (map fst ?K) = mset (map fst us)"
  proof (rule set_eq_iff_mset_eq_distinct [THEN iffD1])
    show "distinct (map fst ?K)" using T by (simp add: distinct_map_filter)
    have "set (map fst ?K) = fst ` set T \<inter> fst ` set us" by auto
    with us(2) show "set (map fst ?K) = set (map fst us)" by (simp add: Int_absorb1)
  qed (rule us(1))
  then have "mset (map (\<lambda>i. the (map_of us i)) (map fst ?K)) = mset (map (\<lambda>i. the (map_of us i)) (map fst us))"
    by (simp only: mset_map)
  also have "map (\<lambda>i. the (map_of us i)) (map fst us) = map snd us"
    using us(1) by (auto simp: map_of_is_SomeI)
  finally show ?thesis
    unfolding put_entries [OF us(1)] map_append filter_append n mset_append k by simp
qed

section \<open>The variants of a product\<close>

definition entries :: "db \<Rightarrow> uid \<Rightarrow> (uid \<times> string option \<times> string option) list" where
  "entries s pid = map (\<lambda>v. (r_id v, pv_sku v, pv_barcode v)) (liveVariants s pid)"

definition variant_ids_ok :: "db \<Rightarrow> bool" where
  "variant_ids_ok s \<longleftrightarrow> distinct (map r_id (db_productVariant s))"

abbreviation data_entry :: "uid \<Rightarrow> variant_data \<Rightarrow> uid \<times> string option \<times> string option" where
  "data_entry i d \<equiv> (i, vd_sku d, vd_barcode d)"

lemma variant_create:
  assumes "nested_create productVariant_t (new_variant pid d) s = (Inr (), s')" "variant_ids_ok s"
  shows "variant_ids_ok s' \<and> db_product s' = db_product s
    \<and> (\<exists>i. i \<notin> r_id ` set (db_productVariant s) \<and> r_id ` set (db_productVariant s') = insert i (r_id ` set (db_productVariant s))
       \<and> (\<forall>p. entries s' p = (if p = pid then entries s p @ [data_entry i d] else entries s p)))"
proof -
  obtain v where v: "db_productVariant s' = db_productVariant s @ [v]" "r_id v \<notin> r_id ` set (db_productVariant s)"
    "pv_productId v = pid" "pv_sku v = vd_sku d" "pv_barcode v = vd_barcode d" "live v" "db_product s' = db_product s"
    using assms(1)
    by (force simp: nested_create_def bind_eq_Inr raw_insert_def Let_def productVariant_t_def new_variant_def live_def
        split: if_splits option.splits)
  then show ?thesis
    using assms(2) by (intro conjI exI [of _ "r_id v"]) (auto simp: variant_ids_ok_def entries_def liveVariants_def)
qed

lemma variant_write:
  assumes run: "nested_update productVariant_t owned i f s = (Inr (), s')" and ok: "variant_ids_ok s"
    and row: "i \<in> fst ` set (entries s pid)"
    and f: "\<And>v. r_id (f v) = r_id v \<and> pv_productId (f v) = pv_productId v"
  shows "variant_ids_ok s' \<and> db_product s' = db_product s \<and> r_id ` set (db_productVariant s') = r_id ` set (db_productVariant s)
    \<and> (\<exists>r. r_id r = i \<and> pv_productId r = pid \<and> live r \<and> (\<forall>p. entries s' p =
      (if p \<noteq> pid then entries s p
       else if live (f r) then put_entry (i, pv_sku (f r), pv_barcode (f r)) (entries s p)
       else filter (\<lambda>t. fst t \<noteq> i) (entries s p))))"
proof -
  let ?T = "db_productVariant s"
  obtain r where r: "r \<in> set ?T" "r_id r = i" "pv_productId r = pid" "live r"
    using row by (auto simp: entries_def liveVariants_def)
  have d: "distinct (map r_id ?T)" using ok by (simp add: variant_ids_ok_def)
  have fr: "find (\<lambda>q. r_id q = i) ?T = Some r" using find_distinct_key [OF d r(1)] r(2) by simp
  let ?r = "(f r)\<lparr> r_updatedAt := db_now s \<rparr>"
  have s': "db_productVariant s' = upd_rows (\<lambda>q. r_id q = i) (\<lambda>_. ?r) ?T" and p': "db_product s' = db_product s"
    using run fr by (auto simp: nested_update_def bind_eq_Inr raw_update_def Let_def productVariant_t_def
        split: option.splits)
  have ri: "r_id ?r = i" "pv_productId ?r = pid" "live ?r = live (f r)" using f [of r] r by (simp_all add: live_def)
  have ids: "map r_id (db_productVariant s') = map r_id ?T"
    unfolding s' by (rule map_upd_rows) (simp add: ri)
  have same: "q = r" if "q \<in> set ?T" "r_id q = i" for q
    using same_id_same_row [OF d that(1) r(1)] that(2) r(2) by simp
  have e: "entries s' p = (if p \<noteq> pid then entries s p
       else if live (f r) then put_entry (i, pv_sku (f r), pv_barcode (f r)) (entries s p)
       else filter (\<lambda>t. fst t \<noteq> i) (entries s p))" for p
  proof -
    have "map (\<lambda>v. (r_id v, pv_sku v, pv_barcode v)) (filter (\<lambda>v. pv_productId v = p \<and> live v) (upd_rows (\<lambda>q. r_id q = i) (\<lambda>_. ?r) xs))
        = (if p \<noteq> pid then map (\<lambda>v. (r_id v, pv_sku v, pv_barcode v)) (filter (\<lambda>v. pv_productId v = p \<and> live v) xs)
           else if live (f r) then put_entry (i, pv_sku (f r), pv_barcode (f r))
               (map (\<lambda>v. (r_id v, pv_sku v, pv_barcode v)) (filter (\<lambda>v. pv_productId v = p \<and> live v) xs))
           else filter (\<lambda>t. fst t \<noteq> i) (map (\<lambda>v. (r_id v, pv_sku v, pv_barcode v)) (filter (\<lambda>v. pv_productId v = p \<and> live v) xs)))"
      if "set xs \<subseteq> set ?T" for xs
      using that
    proof (induction xs)
      case (Cons x xs)
      then have IH: "set xs \<subseteq> set ?T" and x: "x \<in> set ?T" by simp_all
      show ?case
      proof (cases "r_id x = i")
        case True
        with same [OF x] have "x = r" by blast
        then show ?thesis
          using Cons.IH [OF IH] r ri by (cases "p = pid"; cases "live (f r)") (simp_all add: put_entry_def)
      next
        case False
        then show ?thesis
          using Cons.IH [OF IH] by (cases "p = pid"; cases "live (f r)") (simp_all add: put_entry_def)
      qed
    qed (simp add: put_entry_def)
    from this [of ?T] show ?thesis by (simp only: entries_def liveVariants_def s' subset_refl)
  qed
  have "variant_ids_ok s'" using ids d by (simp add: variant_ids_ok_def)
  moreover have "r_id ` set (db_productVariant s') = r_id ` set ?T" using ids by (metis set_map)
  ultimately show ?thesis using p' e r by blast
qed

section \<open>The replace-set of a product\<close>

lemma variant_creates:
  assumes "for_each ds (\<lambda>d. nested_create productVariant_t (new_variant pid d)) s = (Inr (), s')" "variant_ids_ok s"
  shows "variant_ids_ok s' \<and> db_product s' = db_product s \<and> r_id ` set (db_productVariant s) \<subseteq> r_id ` set (db_productVariant s')
    \<and> (\<exists>new. map snd new = map (\<lambda>d. (vd_sku d, vd_barcode d)) ds \<and> distinct (map fst new)
        \<and> fst ` set new \<inter> r_id ` set (db_productVariant s) = {}
        \<and> (\<forall>p. entries s' p = (if p = pid then entries s p @ new else entries s p)))"
  using assms
proof (induction ds arbitrary: s)
  case Nil
  then show ?case by (intro conjI exI [of _ "[]"]) auto
next
  case (Cons d ds)
  then obtain s1 where s1: "nested_create productVariant_t (new_variant pid d) s = (Inr (), s1)"
    "for_each ds (\<lambda>d. nested_create productVariant_t (new_variant pid d)) s1 = (Inr (), s')"
    by (auto simp: bind_eq_Inr)
  from variant_create [OF s1(1) Cons.prems(2)] obtain i where i: "variant_ids_ok s1" "db_product s1 = db_product s"
    "i \<notin> r_id ` set (db_productVariant s)" "r_id ` set (db_productVariant s1) = insert i (r_id ` set (db_productVariant s))"
    "\<And>p. entries s1 p = (if p = pid then entries s p @ [data_entry i d] else entries s p)" by blast
  from Cons.IH [OF s1(2) i(1)] obtain new where n: "variant_ids_ok s'" "db_product s' = db_product s1"
    "r_id ` set (db_productVariant s1) \<subseteq> r_id ` set (db_productVariant s')"
    "map snd new = map (\<lambda>d. (vd_sku d, vd_barcode d)) ds" "distinct (map fst new)"
    "fst ` set new \<inter> r_id ` set (db_productVariant s1) = {}"
    "\<And>p. entries s' p = (if p = pid then entries s1 p @ new else entries s1 p)" by blast
  have "map snd (data_entry i d # new) = map (\<lambda>d. (vd_sku d, vd_barcode d)) (d # ds)" using n(4) by simp
  moreover have "distinct (map fst (data_entry i d # new))" using n(5,6) i(4) by auto
  moreover have "fst ` set (data_entry i d # new) \<inter> r_id ` set (db_productVariant s) = {}" using n(6) i(3,4) by auto
  moreover have "entries s' p = (if p = pid then entries s p @ data_entry i d # new else entries s p)" for p
    using n(7) [of p] i(5) [of p] by (cases "p = pid") simp_all
  ultimately have "\<exists>new. map snd new = map (\<lambda>d. (vd_sku d, vd_barcode d)) (d # ds) \<and> distinct (map fst new)
        \<and> fst ` set new \<inter> r_id ` set (db_productVariant s) = {}
        \<and> (\<forall>p. entries s' p = (if p = pid then entries s p @ new else entries s p))"
    by (intro exI [of _ "data_entry i d # new"]) simp
  with n(1-3) i(2,4) show ?case by auto
qed

lemma entries_ids: "fst ` set (entries s pid) \<subseteq> r_id ` set (db_productVariant s)"
  by (auto simp: entries_def liveVariants_def)

lemma put_entry_ids [simp]: "fst ` set (put_entry u T) = fst ` set T"
proof -
  have "map fst (put_entry u T) = map fst T" by (auto simp: put_entry_def)
  then show ?thesis by (metis set_map)
qed

lemma variant_updates:
  assumes "for_each us (\<lambda>u. nested_update productVariant_t owned (fst u) (set_variant (snd u))) s = (Inr (), s')"
    and "variant_ids_ok s" and "fst ` set us \<subseteq> fst ` set (entries s pid)"
  shows "variant_ids_ok s' \<and> db_product s' = db_product s \<and> (\<forall>p. entries s' p =
    (if p = pid then fold put_entry (map (\<lambda>u. data_entry (fst u) (snd u)) us) (entries s p) else entries s p))"
  using assms
proof (induction us arbitrary: s)
  case (Cons u us)
  then obtain s1 where s1: "nested_update productVariant_t owned (fst u) (set_variant (snd u)) s = (Inr (), s1)"
    "for_each us (\<lambda>u. nested_update productVariant_t owned (fst u) (set_variant (snd u))) s1 = (Inr (), s')"
    by (auto simp: bind_eq_Inr)
  have u: "fst u \<in> fst ` set (entries s pid)" using Cons.prems(3) by auto
  have f: "r_id (set_variant d v) = r_id v \<and> pv_productId (set_variant d v) = pv_productId v" for d v
    by (simp add: set_variant_def)
  have e: "pv_sku (set_variant d v) = vd_sku d" "pv_barcode (set_variant d v) = vd_barcode d" "live (set_variant d v) = live v"
    for d v by (simp_all add: set_variant_def live_def)
  from variant_write [OF s1(1) Cons.prems(2) u f] have one: "variant_ids_ok s1" "db_product s1 = db_product s"
    "\<And>p. entries s1 p = (if p = pid then put_entry (data_entry (fst u) (snd u)) (entries s p) else entries s p)"
    by (auto simp: e)
  have "fst ` set us \<subseteq> fst ` set (entries s1 pid)" using Cons.prems(3) by (simp add: one(3))
  from Cons.IH [OF s1(2) one(1) this] one(2,3) show ?case by simp
qed simp

lemma variant_deletes:
  assumes "for_each is (nested_delete productVariant_t owned) s = (Inr (), s')"
    and "variant_ids_ok s" and "set is \<subseteq> fst ` set (entries s pid)" and "distinct is"
  shows "variant_ids_ok s' \<and> db_product s' = db_product s \<and> (\<forall>p. entries s' p =
    (if p = pid then filter (\<lambda>t. fst t \<notin> set is) (entries s p) else entries s p))"
  using assms
proof (induction "is" arbitrary: s)
  case (Cons i "is")
  then obtain s1 where s1: "nested_update productVariant_t owned i (\<lambda>l. l\<lparr> r_deletedAt := Some (db_now s) \<rparr>) s = (Inr (), s1)"
    "for_each is (nested_delete productVariant_t owned) s1 = (Inr (), s')"
    by (auto simp: bind_eq_Inr nested_delete_def [of _ _ i])
  have i: "i \<in> fst ` set (entries s pid)" using Cons.prems(3) by simp
  from variant_write [OF s1(1) Cons.prems(2) i] have one: "variant_ids_ok s1" "db_product s1 = db_product s"
    "\<And>p. entries s1 p = (if p = pid then filter (\<lambda>t. fst t \<noteq> i) (entries s p) else entries s p)"
    by (auto simp: live_def)
  have "fst ` set (filter (\<lambda>t. fst t \<noteq> i) T) = fst ` set T - {i}" for T :: "(uid \<times> string option \<times> string option) list" by auto
  then have "set is \<subseteq> fst ` set (entries s1 pid)" using Cons.prems(3,4) by (auto simp: one(3) simp del: set_filter)
  from Cons.IH [OF s1(2) one(1) this] one(2,3) Cons.prems(4) show ?case
    by (auto simp: conj_commute)
qed simp

lemma nestedReplace_entries:
  assumes run: "nestedReplace productVariant_t owned (new_variant pid) set_variant cs us ds s = (Inr (), s')"
    and ok: "variant_ids_ok s" and us: "distinct (map fst us)" "fst ` set us \<subseteq> fst ` set (entries s pid)"
    and ds: "set ds = fst ` set (entries s pid) - fst ` set us" "distinct ds"
  shows "variant_ids_ok s' \<and> db_product s' = db_product s \<and> (\<forall>p. p \<noteq> pid \<longrightarrow> entries s' p = entries s p)
    \<and> mset (map snd (entries s' pid)) = mset (map (\<lambda>d. (vd_sku d, vd_barcode d)) (map snd us @ cs))"
proof -
  obtain s1 s2 where c: "for_each cs (\<lambda>d. nested_create productVariant_t (new_variant pid d)) s = (Inr (), s1)"
    and u: "for_each us (\<lambda>u. nested_update productVariant_t owned (fst u) (set_variant (snd u))) s1 = (Inr (), s2)"
    and d: "for_each ds (nested_delete productVariant_t owned) s2 = (Inr (), s')"
    using run unfolding nestedReplace_def bind_eq_Inr by auto
  from variant_creates [OF c ok] obtain new where n: "variant_ids_ok s1" "db_product s1 = db_product s"
    "map snd new = map (\<lambda>d. (vd_sku d, vd_barcode d)) cs" "distinct (map fst new)"
    "fst ` set new \<inter> r_id ` set (db_productVariant s) = {}"
    "\<And>p. entries s1 p = (if p = pid then entries s p @ new else entries s p)" by blast
  have T: "distinct (map fst (entries s pid @ new))"
    using ok n(4,5) entries_ids [of s pid]
    by (auto simp: entries_def liveVariants_def variant_ids_ok_def comp_def distinct_map_filter)
  let ?us = "map (\<lambda>u. data_entry (fst u) (snd u)) us"
  have us': "fst ` set us \<subseteq> fst ` set (entries s1 pid)" using us(2) by (auto simp: n(6))
  from variant_updates [OF u n(1) us'] have e2: "variant_ids_ok s2" "db_product s2 = db_product s"
    "\<And>p. entries s2 p = (if p = pid then fold put_entry ?us (entries s pid @ new) else entries s p)"
    by (auto simp: n(2,6))
  have "fst ` set (fold put_entry ws T) = fst ` set T" for ws and T :: "(uid \<times> string option \<times> string option) list"
    by (induction ws arbitrary: T) simp_all
  then have ds': "set ds \<subseteq> fst ` set (entries s2 pid)" using ds(1) by (auto simp: e2(3))
  from variant_deletes [OF d e2(1) ds' ds(2)] have e3: "variant_ids_ok s'" "db_product s' = db_product s"
    "\<And>p. entries s' p = (if p = pid then filter (\<lambda>t. fst t \<notin> set ds) (fold put_entry ?us (entries s pid @ new)) else entries s p)"
    by (auto simp: e2(2,3))
  have "map fst ?us = map fst us" "fst ` set ?us = fst ` set us" by (simp_all add: comp_def image_image)
  then have "distinct (map fst ?us)" "fst ` set ?us \<subseteq> fst ` set (entries s pid)"
    "set ds = fst ` set (entries s pid) - fst ` set ?us" using us ds(1) by (simp_all only:)
  from replaced_entries [OF T this]
  have "mset (map snd (entries s' pid)) = mset (map snd ?us) + mset (map snd new)"
    by (simp only: e3(3) if_True simp_thms)
  also have "\<dots> = mset (map (\<lambda>d. (vd_sku d, vd_barcode d)) (map snd us @ cs))"
    by (simp add: n(3) comp_def)
  finally show ?thesis using e3 by simp
qed

text \<open>Which products have variants.\<close>

definition parents_in :: "uid set \<Rightarrow> db \<Rightarrow> bool" where
  "parents_in X s \<longleftrightarrow> pv_productId ` set (db_productVariant s) \<subseteq> X"

lemma parents_create: "pid \<in> X \<Longrightarrow> keeps (parents_in X) (nested_create productVariant_t (new_variant pid d))"
  by (rule keepsI) (auto simp: parents_in_def nested_create_def bind_def raw_insert_def Let_def productVariant_t_def new_variant_def
      split: option.split)

lemma parents_update:
  assumes "\<And>v. pv_productId (f v) = pv_productId v"
  shows "keeps (parents_in X) (nested_update productVariant_t owned i f)"
proof -
  have "keeps (parents_in X) (raw_update productVariant_t i f)"
    by (rule keepsI) (auto simp: parents_in_def raw_update_def Let_def productVariant_t_def set_upd_rows assms
        dest!: find_SomeD split: option.split)
  then show ?thesis unfolding nested_update_def by (intro keeps_intros)
qed

lemma parents_replace: "pid \<in> X \<Longrightarrow> keeps (parents_in X) (nestedReplace productVariant_t owned (new_variant pid) set_variant cs us ds)"
  unfolding nestedReplace_def nested_delete_def
  by (intro keeps_intros parents_create parents_update) (simp_all add: set_variant_def)

section \<open>Unique identifiers\<close>

definition idents :: "(product_row \<Rightarrow> string option) \<Rightarrow> (variant_row \<Rightarrow> string option) \<Rightarrow> db \<Rightarrow> product_row \<Rightarrow> string list" where
  "idents pf vf s q = collect (pf q) (map vf (liveVariants s (r_id q)))"

definition live_of :: "db \<Rightarrow> uid \<Rightarrow> product_row set" where
  "live_of s b = {q \<in> set (db_product s). live q \<and> pr_businessId q = b}"

definition unique_in :: "(product_row \<Rightarrow> string list) \<Rightarrow> product_row set \<Rightarrow> bool" where
  "unique_in I L \<longleftrightarrow> (\<forall>q \<in> L. distinct (I q)) \<and> (\<forall>q \<in> L. \<forall>q' \<in> L. r_id q \<noteq> r_id q' \<longrightarrow> set (I q) \<inter> set (I q') = {})"

text \<open>
  No SKU, and no barcode, occurs twice among the live products of a business and their live
  variants; the rest is what the schema keeps: primary keys, and variants of existing products.
\<close>

definition catalog_ok :: "db \<Rightarrow> bool" where
  "catalog_ok s \<longleftrightarrow> (\<forall>b. unique_in (idents pr_sku pv_sku s) (live_of s b) \<and> unique_in (idents pr_barcode pv_barcode s) (live_of s b))
    \<and> distinct (map r_id (db_product s)) \<and> variant_ids_ok s \<and> parents_in (r_id ` set (db_product s)) s"

lemma catalog_ok_cong:
  "db_product s' = db_product s \<Longrightarrow> db_productVariant s' = db_productVariant s \<Longrightarrow> catalog_ok s' = catalog_ok s"
  by (simp add: catalog_ok_def unique_in_def idents_def live_of_def liveVariants_def variant_ids_ok_def parents_in_def)

lemma idents_entries:
  "idents pr_sku pv_sku s q = collect (pr_sku q) (map (fst \<circ> snd) (entries s (r_id q)))"
  "idents pr_barcode pv_barcode s q = collect (pr_barcode q) (map (snd \<circ> snd) (entries s (r_id q)))"
  by (simp_all add: idents_def entries_def comp_def)

text \<open>One product changes or appears; its new identifiers are its own and new.\<close>

lemma unique_change:
  assumes "\<forall>b. unique_in (I s) (live_of s b)"
    and old: "\<And>q b. q \<in> live_of s' b \<Longrightarrow> r_id q \<noteq> pid \<Longrightarrow> q \<in> live_of s b \<and> I s' q = I s q"
    and new: "\<And>q b. q \<in> live_of s' b \<Longrightarrow> r_id q = pid \<Longrightarrow> distinct (I s' q)
      \<and> (\<forall>q' \<in> live_of s b. r_id q' \<noteq> pid \<longrightarrow> set (I s' q) \<inter> set (I s q') = {})"
  shows "\<forall>b. unique_in (I s') (live_of s' b)"
proof (intro allI)
  fix b
  have u: "unique_in (I s) (live_of s b)" using assms(1) by blast
  show "unique_in (I s') (live_of s' b)"
    unfolding unique_in_def
  proof (intro conjI ballI impI)
    fix q assume q: "q \<in> live_of s' b"
    show "distinct (I s' q)"
      using u old [OF q] new [OF q] by (cases "r_id q = pid") (auto simp: unique_in_def)
  next
    fix q q' assume q: "q \<in> live_of s' b" "q' \<in> live_of s' b" "r_id q \<noteq> r_id q'"
    consider "r_id q = pid" "r_id q' \<noteq> pid" | "r_id q \<noteq> pid" "r_id q' = pid" | "r_id q \<noteq> pid" "r_id q' \<noteq> pid"
      using q(3) by auto
    then show "set (I s' q) \<inter> set (I s' q') = {}"
    proof cases
      case 1
      then show ?thesis using new [OF q(1) 1(1)] old [OF q(2) 1(2)] by simp
    next
      case 2
      then show ?thesis using new [OF q(2) 2(2)] old [OF q(1) 2(1)] by (simp add: Int_commute)
    next
      case 3
      then show ?thesis using old [OF q(1) 3(1)] old [OF q(2) 3(2)] u q(3) by (simp add: unique_in_def)
    qed
  qed
qed

section \<open>The check before a write\<close>

lemma firstDuplicate_None: "firstDuplicate seen vs = None \<Longrightarrow> distinct vs \<and> set vs \<inter> set seen = {}"
  by (induction seen vs rule: firstDuplicate.induct) (auto split: if_splits)

lemma check_duplicates_Inr: "check_duplicates skus barcodes = Inr () \<Longrightarrow> distinct skus \<and> distinct barcodes"
  using firstDuplicate_None [of "[]" skus] firstDuplicate_None [of "[]" barcodes]
  by (auto simp: check_duplicates_def split: option.splits)

lemma check_taken_Inr:
  "check_taken ts tb skus barcodes = Inr () \<Longrightarrow> set skus \<inter> set ts = {} \<and> set barcodes \<inter> set tb = {}"
  by (auto simp: check_taken_def find_None_iff split: option.splits)

lemma set_taken_by: "set (taken_by pf vf s ps) = (\<Union>q \<in> set ps. set (idents pf vf s q))"
  by (simp add: taken_by_def idents_def)

lemma pure_assertUnique: "pure_op (assertUniqueIdentifiers ctx b ex skus barcodes)"
  unfolding assertUniqueIdentifiers_def by (auto intro!: pure_bind pure_if)

text \<open>An owner at work in one of its own businesses.\<close>

definition in_business :: "ctx \<Rightarrow> db \<Rightarrow> uid \<Rightarrow> bool" where
  "in_business ctx s b \<longleftrightarrow> cx_scope ctx = Some Tenant \<and> cx_tx ctx = None \<and> b \<in> set (allowedBusinessIds s ctx)"

lemma visible_products:
  assumes "in_business ctx s b" "pr_businessId q = b"
  shows "visible ctx product_t False s q \<longleftrightarrow> live q"
  using assms business_rows [of product_t ctx q b s]
  by (simp add: in_business_def product_t_def TENANT_DIRECT_def)

definition fresh_idents :: "db \<Rightarrow> uid \<Rightarrow> uid option \<Rightarrow> string list \<Rightarrow> string list \<Rightarrow> bool" where
  "fresh_idents s b ex skus barcodes \<longleftrightarrow> distinct skus \<and> distinct barcodes
    \<and> (\<forall>q \<in> live_of s b. Some (r_id q) \<noteq> ex \<longrightarrow> set skus \<inter> set (idents pr_sku pv_sku s q) = {}
        \<and> set barcodes \<inter> set (idents pr_barcode pv_barcode s q) = {})"

lemma assertUnique_Inr:
  assumes run: "assertUniqueIdentifiers ctx b ex skus barcodes s = (Inr u, s')" and c: "in_business ctx s b"
  shows "fresh_idents s b ex skus barcodes"
proof -
  have base: "base_db ctx s = s" using c by (simp add: in_business_def base_db_def)
  have dup: "check_duplicates skus barcodes = Inr ()"
    using run by (auto simp: assertUniqueIdentifiers_def split: sum.splits)
  show ?thesis
  proof (cases "skus = [] \<and> barcodes = []")
    case False
    let ?ps = "filter (\<lambda>p. (pr_businessId p = b \<and> Some (r_id p) \<noteq> ex) \<and> visible ctx product_t False s p) (db_product s)"
    have "check_taken (taken_by pr_sku pv_sku s ?ps) (taken_by pr_barcode pv_barcode s ?ps) skus barcodes = Inr ()"
      using run False dup by (auto simp: assertUniqueIdentifiers_def bind_eq_Inr findMany_Inr base simp del: filter.simps)
    from check_taken_Inr [OF this]
    have "set skus \<inter> set (idents pr_sku pv_sku s q) = {} \<and> set barcodes \<inter> set (idents pr_barcode pv_barcode s q) = {}"
      if "q \<in> set ?ps" for q
      using that unfolding set_taken_by by blast
    moreover have "q \<in> set ?ps" if "q \<in> live_of s b" "Some (r_id q) \<noteq> ex" for q
      using that visible_products [OF c, of q] by (auto simp: live_of_def)
    ultimately show ?thesis using check_duplicates_Inr [OF dup] unfolding fresh_idents_def by blast
  qed (simp add: fresh_idents_def)
qed

text \<open>A write whose new identifiers passed the check keeps the catalogue.\<close>

lemma catalog_change:
  assumes ok: "catalog_ok s" and f: "fresh_idents s b ex skus barcodes" and ex: "ex = None \<or> ex = Some (r_id p)"
    and old: "\<And>q a. q \<in> live_of s' a \<Longrightarrow> r_id q \<noteq> r_id p \<Longrightarrow> q \<in> live_of s a"
      "\<And>i. i \<noteq> r_id p \<Longrightarrow> entries s' i = entries s i"
    and new: "\<And>q a. q \<in> live_of s' a \<Longrightarrow> r_id q = r_id p \<Longrightarrow> q = p \<and> a = b"
      "mset (idents pr_sku pv_sku s' p) = mset skus" "mset (idents pr_barcode pv_barcode s' p) = mset barcodes"
    and keys: "distinct (map r_id (db_product s'))" "variant_ids_ok s'" "parents_in (r_id ` set (db_product s')) s'"
  shows "catalog_ok s'"
proof -
  have same: "idents pr_sku pv_sku s' q = idents pr_sku pv_sku s q" "idents pr_barcode pv_barcode s' q = idents pr_barcode pv_barcode s q"
    if "r_id q \<noteq> r_id p" for q using old(2) [OF that] by (simp_all add: idents_entries)
  have u: "\<forall>a. unique_in (idents pr_sku pv_sku s) (live_of s a)" "\<forall>a. unique_in (idents pr_barcode pv_barcode s) (live_of s a)"
    using ok by (simp_all add: catalog_ok_def)
  have d: "distinct (idents pr_sku pv_sku s' p)" "distinct (idents pr_barcode pv_barcode s' p)"
    and st: "set (idents pr_sku pv_sku s' p) = set skus" "set (idents pr_barcode pv_barcode s' p) = set barcodes"
    using f new(2,3) by (auto simp: fresh_idents_def dest: mset_eq_imp_distinct_iff mset_eq_setD)
  have dis: "set skus \<inter> set (idents pr_sku pv_sku s q) = {}" "set barcodes \<inter> set (idents pr_barcode pv_barcode s q) = {}"
    if "q \<in> live_of s b" "r_id q \<noteq> r_id p" for q
    using f that ex by (auto simp: fresh_idents_def)
  have "\<forall>a. unique_in (idents pr_sku pv_sku s') (live_of s' a)"
  proof (rule unique_change [where I = "idents pr_sku pv_sku" and s = s and s' = s' and pid = "r_id p"])
    show "q \<in> live_of s a \<and> idents pr_sku pv_sku s' q = idents pr_sku pv_sku s q"
      if "q \<in> live_of s' a" "r_id q \<noteq> r_id p" for q a using old(1) [OF that] same that by blast
    show "distinct (idents pr_sku pv_sku s' q) \<and> (\<forall>q' \<in> live_of s a. r_id q' \<noteq> r_id p \<longrightarrow>
        set (idents pr_sku pv_sku s' q) \<inter> set (idents pr_sku pv_sku s q') = {})"
      if "q \<in> live_of s' a" "r_id q = r_id p" for q a using new(1) [OF that] d st dis by simp
  qed (rule u)
  moreover have "\<forall>a. unique_in (idents pr_barcode pv_barcode s') (live_of s' a)"
  proof (rule unique_change [where I = "idents pr_barcode pv_barcode" and s = s and s' = s' and pid = "r_id p"])
    show "q \<in> live_of s a \<and> idents pr_barcode pv_barcode s' q = idents pr_barcode pv_barcode s q"
      if "q \<in> live_of s' a" "r_id q \<noteq> r_id p" for q a using old(1) [OF that] same that by blast
    show "distinct (idents pr_barcode pv_barcode s' q) \<and> (\<forall>q' \<in> live_of s a. r_id q' \<noteq> r_id p \<longrightarrow>
        set (idents pr_barcode pv_barcode s' q) \<inter> set (idents pr_barcode pv_barcode s q') = {})"
      if "q \<in> live_of s' a" "r_id q = r_id p" for q a using new(1) [OF that] d st dis by simp
  qed (rule u)
  ultimately show ?thesis using keys by (simp add: catalog_ok_def)
qed

section \<open>Creating a product\<close>

lemma variantData_all:
  "all_res variantData vs = Inr ds \<Longrightarrow> map (\<lambda>d. (vd_sku d, vd_barcode d)) ds = map (\<lambda>v. (vi_sku v, vi_barcode v)) vs"
  by (induction vs arbitrary: ds) (auto simp: variantData_def split: sum.splits)

lemma insertProduct_Inr:
  assumes run: "insertProduct ctx b d s = (Inr p, s')" and c: "in_business ctx s b" and ok: "catalog_ok s"
  shows "db_product s' = db_product s @ [p]" and "r_id p \<notin> r_id ` set (db_product s)" and "live p" and "pr_businessId p = b"
    and "pr_sku p = cp_sku d" and "pr_barcode p = cp_barcode d" and "variant_ids_ok s'"
    and "\<And>q. q \<noteq> r_id p \<Longrightarrow> entries s' q = entries s q"
    and "map snd (entries s' (r_id p)) = map (\<lambda>v. (vi_sku v, vi_barcode v)) (createVariants (cp_variants d))"
    and "parents_in (insert (r_id p) (r_id ` set (db_product s))) s'"
proof -
  let ?i = "nth_uuid (db_nextId s)"
  let ?s0 = "s\<lparr> db_nextId := Suc (db_nextId s) \<rparr>"
  obtain price cost sold stock expiry active vs where
    vs: "all_res variantData (createVariants (cp_variants d)) = Inr vs"
    and cr: "scoped_create_nested ctx product_t (Some b) (\<lambda>p. for_each vs (\<lambda>v. nested_create productVariant_t (new_variant (r_id p) v)))
        (new_product ?i b d price cost sold stock expiry active) ?s0 = (Inr p, s')"
    using run unfolding insertProduct_def by (auto simp: bind_eq_Inr [of fresh_id] split: sum.splits)
  from cr [unfolded scoped_create_nested_Inr] obtain r0 s1 s2 a where
    r0: "policeCreateData (base_db ctx ?s0) ctx product_t (Some b) (new_product ?i b d price cost sold stock expiry active) = Inr r0"
    and ins: "raw_insert product_t r0 ?s0 = (Inr p, s1)"
    and n: "for_each vs (\<lambda>v. nested_create productVariant_t (new_variant (r_id p) v)) s1 = (Inr (), s2)"
    and s': "s' = audited a s2" by blast
  have "r0 = new_product ?i b d price cost sold stock expiry active"
    using r0 by (auto simp: policeCreateData_def policeCreateRefs_def product_t_def TENANT_DIRECT_def new_product_def
        split: if_splits option.splits)
  with product_tb.raw_insert_cases [OF ins] have p: "db_product s1 = db_product s @ [p]" "r_id p \<notin> r_id ` set (db_product s)"
    "live p" "pr_businessId p = b" "pr_sku p = cp_sku d" "pr_barcode p = cp_barcode d"
    and v1: "db_productVariant s1 = db_productVariant s"
    by (auto simp: product_t_def new_product_def live_def)
  have okv: "variant_ids_ok s1" using ok v1 by (simp add: catalog_ok_def variant_ids_ok_def)
  from variant_creates [OF n okv] obtain new where new: "variant_ids_ok s2" "db_product s2 = db_product s1"
    "map snd new = map (\<lambda>d. (vd_sku d, vd_barcode d)) vs"
    "\<And>q. entries s2 q = (if q = r_id p then entries s1 q @ new else entries s1 q)" by blast
  have same: "db_product s' = db_product s2" "db_productVariant s' = db_productVariant s2" using s' by (simp_all add: audited_def)
  have e: "entries s' q = entries s2 q" "entries s1 q = entries s q" for q
    by (simp_all add: entries_def liveVariants_def same v1)
  have "pv_productId v \<noteq> r_id p" if "v \<in> set (db_productVariant s)" for v
    using ok p(2) that unfolding catalog_ok_def parents_in_def by (metis image_eqI subsetD)
  then have "entries s (r_id p) = []" by (auto simp: entries_def liveVariants_def filter_empty_conv)
  then show "map snd (entries s' (r_id p)) = map (\<lambda>v. (vi_sku v, vi_barcode v)) (createVariants (cp_variants d))"
    using variantData_all [OF vs] new(3) by (simp add: e new(4))
  show "entries s' q = entries s q" if "q \<noteq> r_id p" for q using that by (simp add: e new(4))
  show "db_product s' = db_product s @ [p]" "variant_ids_ok s'"
    using new(1,2) p(1) same by (simp_all add: variant_ids_ok_def)
  show "r_id p \<notin> r_id ` set (db_product s)" "live p" "pr_businessId p = b" "pr_sku p = cp_sku d" "pr_barcode p = cp_barcode d"
    by (fact p)+
  let ?X = "insert (r_id p) (r_id ` set (db_product s))"
  have "parents_in ?X s1" using ok by (auto simp: catalog_ok_def parents_in_def v1)
  moreover have "keeps (parents_in ?X) (for_each vs (\<lambda>v. nested_create productVariant_t (new_variant (r_id p) v)))"
    by (intro keeps_intros parents_create) simp
  ultimately have "parents_in ?X s2" using n keepsD by fastforce
  then show "parents_in ?X s'" by (simp add: parents_in_def same)
qed

lemma catalog_create:
  assumes ok: "catalog_ok s" and c: "in_business ctx s b"
    and f: "fresh_idents s b None (collect (cp_sku d) (map vi_sku (createVariants (cp_variants d))))
      (collect (cp_barcode d) (map vi_barcode (createVariants (cp_variants d))))"
    and run: "insertProduct ctx b d s = (Inr p, s')"
  shows "catalog_ok s'"
proof -
  note i = insertProduct_Inr [OF run c ok]
  let ?vs = "createVariants (cp_variants d)"
  have "map (fst \<circ> snd) (entries s' (r_id p)) = map vi_sku ?vs" "map (snd \<circ> snd) (entries s' (r_id p)) = map vi_barcode ?vs"
    using arg_cong [OF i(9), of "map fst"] arg_cong [OF i(9), of "map snd"] by (simp_all add: comp_def)
  then have new: "idents pr_sku pv_sku s' p = collect (cp_sku d) (map vi_sku ?vs)"
    "idents pr_barcode pv_barcode s' p = collect (cp_barcode d) (map vi_barcode ?vs)"
    by (simp_all add: idents_entries i(5,6))
  have live_old: "q \<in> live_of s a" if "q \<in> live_of s' a" "r_id q \<noteq> r_id p" for q a
    using that by (auto simp: live_of_def i(1))
  have live_new: "q = p \<and> a = b" if "q \<in> live_of s' a" "r_id q = r_id p" for q a
    using that i(2,4) by (auto simp: live_of_def i(1)) (metis image_eqI)+
  show ?thesis
    by (rule catalog_change [OF ok f _ live_old i(8) live_new])
      (use ok i(1,2,7,10) new in \<open>simp_all add: catalog_ok_def\<close>)
qed

section \<open>Changing a product\<close>

lemma mset_map_filter: "mset xs = mset ys \<Longrightarrow> mset (List.map_filter f xs) = mset (List.map_filter f ys)"
  by (simp add: List.map_filter_def comp_def)

lemma collect_mset: "mset xs = mset ys \<Longrightarrow> mset (collect own xs) = mset (collect own ys)"
  unfolding collect_def by (rule mset_map_filter) simp

lemma given_keeps [simp]:
  "(\<And>v r. r_id (put v r) = r_id r) \<Longrightarrow> r_id (given put x r) = r_id r"
  "(\<And>v r. r_deletedAt (put v r) = r_deletedAt r) \<Longrightarrow> r_deletedAt (given put x r) = r_deletedAt r"
  "(\<And>v r. pr_businessId (put' v r) = pr_businessId r) \<Longrightarrow> pr_businessId (given put' y p) = pr_businessId p"
  "(\<And>v r. pr_sku (put' v r) = pr_sku r) \<Longrightarrow> pr_sku (given put' y p) = pr_sku p"
  "(\<And>v r. pr_barcode (put' v r) = pr_barcode r) \<Longrightarrow> pr_barcode (given put' y p) = pr_barcode p"
  by (simp_all add: given_def split: option.split)

lemma given_sku [simp]:
  "pr_sku (given (\<lambda>v r. r\<lparr> pr_sku := v \<rparr>) x p) = (case x of None \<Rightarrow> pr_sku p | Some v \<Rightarrow> v)"
  "pr_barcode (given (\<lambda>v r. r\<lparr> pr_barcode := v \<rparr>) x p) = (case x of None \<Rightarrow> pr_barcode p | Some v \<Rightarrow> v)"
  by (simp_all add: given_def split: option.split)

lemma keeps_audit_catalog: "keeps (\<lambda>s. (db_product s, db_productVariant s) = X) (auditNested ctx ct touched base)"
  unfolding auditNested_def audit_touched_def
  by (intro keeps_intros) (auto intro!: keepsI simp: audited_def split: touched_op.split)

lemma writePatch_Inr:
  assumes run: "writePatch ctx i d rs s = (Inr u, s')" and base: "cx_tx ctx = None"
    and p: "p \<in> set (db_product s)" "r_id p = i" and ids: "distinct (map r_id (db_product s))"
  obtains p' creates updates s1 s2 where
    "db_product s1 = upd_rows (\<lambda>q. r_id q = i) (\<lambda>_. p') (db_product s)" "db_productVariant s1 = db_productVariant s"
    "r_id p' = i" "live p' = live p" "pr_businessId p' = pr_businessId p"
    "pr_sku p' = (case up_sku d of None \<Rightarrow> pr_sku p | Some x \<Rightarrow> x)"
    "pr_barcode p' = (case up_barcode d of None \<Rightarrow> pr_barcode p | Some x \<Rightarrow> x)"
    "all_res variantData (rs_create rs) = Inr creates" "variantUpdates (rs_update rs) = Inr updates"
    "nestedReplace productVariant_t (\<lambda>v. pv_productId v = i) (new_variant i) set_variant creates updates (rs_delete rs) s1 = (Inr (), s2)"
    "db_product s' = db_product s2" "db_productVariant s' = db_productVariant s2"
proof -
  have b: "base_db ctx s = s" using base by (simp add: base_db_def)
  obtain name cat price cost sold stock expiry active creates updates q where
    cu: "all_res variantData (rs_create rs) = Inr creates" "variantUpdates (rs_update rs) = Inr updates"
    and t: "scoped_update_touched ctx product_t (\<lambda>p. r_id p = i)
           (given (\<lambda>v r. r\<lparr> pr_name := v \<rparr>) name
            \<circ> given (\<lambda>v r. r\<lparr> pr_categoryId := v \<rparr>) cat
            \<circ> given (\<lambda>v r. r\<lparr> pr_sku := v \<rparr>) (up_sku d)
            \<circ> given (\<lambda>v r. r\<lparr> pr_barcode := v \<rparr>) (up_barcode d)
            \<circ> given (\<lambda>v r. r\<lparr> pr_price := v \<rparr>) price
            \<circ> given (\<lambda>v r. r\<lparr> pr_cost := v \<rparr>) cost
            \<circ> given (\<lambda>v r. r\<lparr> pr_soldBy := v \<rparr>) sold
            \<circ> given (\<lambda>v r. r\<lparr> pr_lowStockThreshold := map_option toFixed3 v \<rparr>) (up_lowStockThreshold d)
            \<circ> given (\<lambda>v r. r\<lparr> pr_trackStock := v \<rparr>) stock
            \<circ> given (\<lambda>v r. r\<lparr> pr_trackExpiry := v \<rparr>) expiry
            \<circ> given (\<lambda>v r. r\<lparr> pr_active := v \<rparr>) active
            \<circ> given (\<lambda>v r. r\<lparr> pr_imagePath := v \<rparr>) (up_imagePath d))
           (\<lambda>p. nestedReplace productVariant_t (\<lambda>v. pv_productId v = r_id p) (new_variant (r_id p)) set_variant
                  creates updates (rs_delete rs))
           (auditNested ctx productVariant_t (touchedReplace updates (rs_delete rs))) s = (Inr q, s')"
    (is "scoped_update_touched _ _ _ ?F _ _ s = _")
    using run unfolding writePatch_def
    by (auto simp: bind_eq_Inr [of "scoped_update_touched _ _ _ _ _ _"] split: sum.splits)
  from t [unfolded scoped_update_touched_Inr b] obtain prev s0 where
    prev: "find (\<lambda>r. r_id r = i \<and> in_scope ctx product_t s r) (db_product s) = Some prev"
    and body: "update_body ctx product_t s prev ?F (\<lambda>p. nestedReplace productVariant_t (\<lambda>v. pv_productId v = r_id p)
        (new_variant (r_id p)) set_variant creates updates (rs_delete rs)) s = (Inr q, s0)"
    and au: "auditNested ctx productVariant_t (touchedReplace updates (rs_delete rs)) s s0 = (Inr (), s')"
    by auto
  have "prev \<in> set (db_product s)" "r_id prev = i" using find_SomeD [OF prev] by simp_all
  then have pv: "prev = p" using same_id_same_row [OF ids _ p(1)] p(2) by simp
  from body obtain p' s1 s2 a where up: "raw_update product_t i ?F s = (Inr p', s1)"
    and n: "nestedReplace productVariant_t (\<lambda>v. pv_productId v = r_id p') (new_variant (r_id p')) set_variant creates updates
        (rs_delete rs) s1 = (Inr (), s2)"
    and s0: "s0 = audited a s2"
    unfolding update_body_def bind_eq_Inr pv p(2) by auto
  have fp: "find (\<lambda>r. r_id r = i) (db_product s) = Some p" using find_distinct_key [OF ids p(1)] p(2) by simp
  from product_tb.raw_update_cases [OF up] fp have p': "p' = (?F p)\<lparr> r_updatedAt := db_now s \<rparr>"
    and s1: "s1 = s\<lparr> db_product := upd_rows (\<lambda>q. r_id q = i) (\<lambda>_. p') (db_product s) \<rparr>"
    by (auto simp: product_t_def)
  have f: "r_id p' = i" "live p' = live p" "pr_businessId p' = pr_businessId p"
    "pr_sku p' = (case up_sku d of None \<Rightarrow> pr_sku p | Some x \<Rightarrow> x)"
    "pr_barcode p' = (case up_barcode d of None \<Rightarrow> pr_barcode p | Some x \<Rightarrow> x)"
    using p(2) by (simp_all add: p' live_def split: option.split)
  have "(db_product s', db_productVariant s') = (db_product s0, db_productVariant s0)"
    using keeps_eq [where g = "\<lambda>s. (db_product s, db_productVariant s)", OF keeps_audit_catalog au] .
  then have "db_product s' = db_product s2" "db_productVariant s' = db_productVariant s2" by (simp_all add: s0 audited_def)
  with that [OF _ _ f cu n [unfolded f(1)]] s1 show ?thesis by simp
qed

lemma with_ids_split:
  "mset (map snd (with_ids key xs) @ filter (\<lambda>x. truthy_id (key x) = None) xs) = mset xs"
  by (induction xs) (auto simp: with_ids_def List.map_filter_def split: option.splits)

lemma buildReplaceSet_Inr:
  assumes "buildReplaceSet what key currentIds xs = Inr rs"
  shows "rs_update rs = with_ids key xs" "rs_create rs = filter (\<lambda>x. truthy_id (key x) = None) xs"
    and "distinct (map fst (rs_update rs))" "fst ` set (rs_update rs) \<subseteq> set currentIds"
    and "rs_delete rs = filter (\<lambda>i. i \<notin> fst ` set (rs_update rs)) currentIds"
proof -
  let ?w = "with_ids key xs"
  have f: "find (\<lambda>p. fst p \<notin> set currentIds) ?w = None" and l: "List.length ?w = List.length (remdups (map fst ?w))"
    and rs: "rs = \<lparr> rs_create = filter (\<lambda>x. truthy_id (key x) = None) xs, rs_update = ?w,
                       rs_delete = filter (\<lambda>i. i \<notin> fst ` set ?w) currentIds \<rparr>"
    using assms by (auto simp: buildReplaceSet_def Let_def split: option.splits if_splits)
  show "rs_update rs = ?w" "rs_create rs = filter (\<lambda>x. truthy_id (key x) = None) xs"
    "rs_delete rs = filter (\<lambda>i. i \<notin> fst ` set (rs_update rs)) currentIds" by (simp_all add: rs)
  show "distinct (map fst (rs_update rs))"
    using l by (simp add: rs) (metis length_map length_remdups_eq remdups_id_iff_distinct)
  show "fst ` set (rs_update rs) \<subseteq> set currentIds" using f by (auto simp: rs find_None_iff)
qed

lemma variantUpdates_all:
  "variantUpdates us = Inr ds \<Longrightarrow> map fst ds = map fst us
    \<and> map (\<lambda>d. (vd_sku d, vd_barcode d)) (map snd ds) = map (\<lambda>v. (vi_sku v, vi_barcode v)) (map snd us)"
  unfolding variantUpdates_def
  by (induction us arbitrary: ds) (auto simp: variantData_def split: sum.splits)

text \<open>What the variants of the product hold after a patch, up to order.\<close>

lemma patched_entries:
  assumes rs: "patchVariants d (with_relations s p) = Inr rs" and p: "r_id p = i"
    and cu: "all_res variantData (rs_create rs) = Inr creates" "variantUpdates (rs_update rs) = Inr updates"
    and run: "nestedReplace productVariant_t owned (new_variant i) set_variant creates updates (rs_delete rs) s1 = (Inr (), s2)"
    and s1: "entries s1 = entries s" "variant_ids_ok s1"
  shows "variant_ids_ok s2 \<and> db_product s2 = db_product s1 \<and> (\<forall>j. j \<noteq> i \<longrightarrow> entries s2 j = entries s j)
    \<and> mset (map snd (entries s2 i)) = mset (case submitted_variants d of None \<Rightarrow> map snd (entries s i)
        | Some vs \<Rightarrow> map (\<lambda>v. (vi_sku v, vi_barcode v)) vs)"
proof (cases "up_variants d")
  case None
  then have e: "rs = \<lparr> rs_create = [], rs_update = [], rs_delete = [] \<rparr>" using rs by (simp add: patchVariants_def)
  then have "creates = []" "updates = []" using cu by (simp_all add: variantUpdates_def)
  then have "s2 = s1" using run by (simp add: nestedReplace_def bind_eq_Inr e)
  then show ?thesis using s1 None by (simp add: submitted_variants_def)
next
  case (Some v)
  then obtain vs where vs: "v = Some vs" "buildVariantReplaceSet (pt_variants (with_relations s p)) vs = Inr rs"
    using rs by (cases v) (auto simp: patchVariants_def)
  note b = buildReplaceSet_Inr [OF vs(2) [unfolded buildVariantReplaceSet_def]]
  have current: "set (map r_id (pt_variants (with_relations s p))) = fst ` set (entries s i)"
    by (simp add: with_relations_def entries_def p image_image)
  have dist: "distinct (map r_id (pt_variants (with_relations s p)))"
  proof -
    have "distinct (map fst (entries s1 i))"
      using s1(2) by (simp add: entries_def liveVariants_def variant_ids_ok_def comp_def distinct_map_filter)
    then have "distinct (map r_id (liveVariants s i))" by (simp add: s1(1)) (simp add: entries_def comp_def)
    then show ?thesis by (simp add: with_relations_def p distinct_map)
  qed
  note up = variantUpdates_all [OF cu(2)]
  have fs: "fst ` set updates = fst ` set (rs_update rs)" using up by (metis set_map)
  have h: "distinct (map fst updates)" "fst ` set updates \<subseteq> fst ` set (entries s1 i)"
    "set (rs_delete rs) = fst ` set (entries s1 i) - fst ` set updates" "distinct (rs_delete rs)"
    using b(3,4) up current dist unfolding fs s1(1) b(5) by auto
  have "mset (map (\<lambda>d. (vd_sku d, vd_barcode d)) (map snd updates @ creates))
      = mset (map (\<lambda>v. (vi_sku v, vi_barcode v)) (map snd (rs_update rs) @ rs_create rs))"
    using up variantData_all [OF cu(1)] by simp
  also have "\<dots> = mset (map (\<lambda>v. (vi_sku v, vi_barcode v)) vs)"
    unfolding b(1,2) mset_map with_ids_split ..
  finally have "mset (map (\<lambda>d. (vd_sku d, vd_barcode d)) (map snd updates @ creates)) = mset (map (\<lambda>v. (vi_sku v, vi_barcode v)) vs)" .
  with nestedReplace_entries [OF run s1(2) h] show ?thesis
    by (simp add: s1(1) submitted_variants_def Some vs(1))
qed

lemma pure_loadOwned: "pure_op (loadOwned ctx i)"
  unfolding loadOwned_def by (intro pure_bind pure_getOr404 pure_simps)

lemma loadOwned_Inr:
  assumes "loadOwned ctx i s = (Inr cur, s')" "cx_scope ctx = Some Tenant" "cx_tx ctx = None"
  obtains p where "cur = with_relations s p" "p \<in> set (db_product s)" "r_id p = i" "live p" "in_business ctx s (pr_businessId p)"
proof -
  have b: "base_db ctx s = s" using assms(3) by (simp add: base_db_def)
  obtain p where p: "getOr404 ctx product_t no_product i s = (Inr p, s)" "cur = with_relations s p"
    using assms(1) unfolding loadOwned_def by (auto simp: b elim!: bind_pure_InrE [OF _ pure_getOr404])
  note g = getOr404_Inr [OF p(1), unfolded b]
  have "in_scope ctx product_t s p" "live p" using g(4) assms(2) by (simp_all add: visible_tenant)
  then have "in_business ctx s (pr_businessId p)"
    using assms(2,3) by (simp add: in_business_def in_scope_def tenantWhereFor_def product_t_def TENANT_DIRECT_def)
  with g p(2) \<open>live p\<close> that show ?thesis by simp
qed

lemma checkPatch_Inr:
  assumes "checkPatch ctx i d (with_relations s p) s = (Inr u, s')" "in_business ctx s (pr_businessId p)"
  shows "fresh_idents s (pr_businessId p) (Some i)
    (finalIds (up_sku d) (pr_sku p) (map vi_sku (createVariants (submitted_variants d)))
       (map pv_sku (pt_variants (with_relations s p))) (submitted_variants d \<noteq> None))
    (finalIds (up_barcode d) (pr_barcode p) (map vi_barcode (createVariants (submitted_variants d)))
       (map pv_barcode (pt_variants (with_relations s p))) (submitted_variants d \<noteq> None))"
proof -
  have pt: "pt_product (with_relations s p) = p" by (simp add: with_relations_def)
  have "pure_op (assertCategoryInBusiness ctx b c)" for b c
    unfolding assertCategoryInBusiness_def by (intro pure_bind) simp_all
  then have pure: "pure_op (case up_categoryId d of None \<Rightarrow> ret () | Some None \<Rightarrow> throw null_error
      | Some (Some c) \<Rightarrow> assertCategoryInBusiness ctx (pr_businessId p) c)"
    by (auto split: option.split)
  show ?thesis
    using assms(1) unfolding checkPatch_def Let_def pt
    by (elim bind_pure_InrE [OF _ pure]) (rule assertUnique_Inr [OF _ assms(2)])
qed

lemma catalog_patch:
  assumes ok: "catalog_ok s" and ctx: "cx_tx ctx = None"
    and p: "p \<in> set (db_product s)" "r_id p = i" "live p" "in_business ctx s (pr_businessId p)"
    and chk: "checkPatch ctx i d (with_relations s p) s = (Inr u, t)"
    and rs: "patchVariants d (with_relations s p) = Inr rs"
    and run: "writePatch ctx i d rs s = (Inr w, s')"
  shows "catalog_ok s'"
proof -
  have ids: "distinct (map r_id (db_product s))" using ok by (simp add: catalog_ok_def)
  obtain p' creates updates s1 s2 where w: "db_product s1 = upd_rows (\<lambda>q. r_id q = i) (\<lambda>_. p') (db_product s)"
    "db_productVariant s1 = db_productVariant s" "r_id p' = i" "live p' = live p" "pr_businessId p' = pr_businessId p"
    "pr_sku p' = (case up_sku d of None \<Rightarrow> pr_sku p | Some x \<Rightarrow> x)"
    "pr_barcode p' = (case up_barcode d of None \<Rightarrow> pr_barcode p | Some x \<Rightarrow> x)"
    "all_res variantData (rs_create rs) = Inr creates" "variantUpdates (rs_update rs) = Inr updates"
    "nestedReplace productVariant_t (\<lambda>v. pv_productId v = i) (new_variant i) set_variant creates updates (rs_delete rs) s1 = (Inr (), s2)"
    "db_product s' = db_product s2" "db_productVariant s' = db_productVariant s2"
    by (rule writePatch_Inr [OF run ctx p(1,2) ids])
  have e1: "entries s1 = entries s" by (simp add: fun_eq_iff entries_def liveVariants_def w(2))
  have v1: "variant_ids_ok s1" using ok by (simp add: catalog_ok_def variant_ids_ok_def w(2))
  have e': "entries s' = entries s2" by (simp add: fun_eq_iff entries_def liveVariants_def w(12))
  note pe = patched_entries [OF rs p(2) w(8,9,10) e1 v1]
  have table: "db_product s' = upd_rows (\<lambda>q. r_id q = i) (\<lambda>_. p') (db_product s)" using pe w(1,11) by simp
  have pt: "mset (map k (pt_variants (with_relations s p))) = mset (map k (liveVariants s i))" for k :: "variant_row \<Rightarrow> string option"
    by (simp add: with_relations_def p(2))
  have final: "mset (map (h \<circ> snd) (entries s' i)) = mset (if submitted_variants d \<noteq> None
      then map (\<lambda>v. h (vi_sku v, vi_barcode v)) (createVariants (submitted_variants d)) else map (\<lambda>v. h (pv_sku v, pv_barcode v)) (liveVariants s i))"
    for h :: "string option \<times> string option \<Rightarrow> string option"
  proof -
    have "mset (map (h \<circ> snd) (entries s' i)) = image_mset h (mset (map snd (entries s2 i)))"
      by (simp add: e' image_mset.compositionality)
    also have "\<dots> = image_mset h (mset (case submitted_variants d of None \<Rightarrow> map snd (entries s i)
        | Some vs \<Rightarrow> map (\<lambda>v. (vi_sku v, vi_barcode v)) vs))" using pe by simp
    finally show ?thesis
      by (cases "submitted_variants d") (simp_all add: createVariants_def entries_def image_mset.compositionality comp_def)
  qed
  have new: "mset (idents pr_sku pv_sku s' p') = mset (finalIds (up_sku d) (pr_sku p)
        (map vi_sku (createVariants (submitted_variants d))) (map pv_sku (pt_variants (with_relations s p))) (submitted_variants d \<noteq> None))"
    "mset (idents pr_barcode pv_barcode s' p') = mset (finalIds (up_barcode d) (pr_barcode p)
        (map vi_barcode (createVariants (submitted_variants d))) (map pv_barcode (pt_variants (with_relations s p))) (submitted_variants d \<noteq> None))"
    unfolding idents_entries finalIds_def w(3,6,7)
    by (rule collect_mset; use final [of fst] final [of snd] pt in \<open>simp split: if_split\<close>)+
  have rows: "q = p' \<or> (q \<in> set (db_product s) \<and> r_id q \<noteq> i)" if "q \<in> set (db_product s')" for q
    using that by (auto simp: table set_upd_rows split: if_splits)
  have "map r_id (db_product s') = map r_id (db_product s)" unfolding table by (rule map_upd_rows) (simp add: w(3))
  moreover have "parents_in (r_id ` set (db_product s)) s'"
  proof -
    have i: "i \<in> r_id ` set (db_product s)" using p(1,2) by blast
    have "parents_in (r_id ` set (db_product s)) s1" using ok by (simp add: catalog_ok_def parents_in_def w(2))
    with keepsD [OF parents_replace [OF i]] w(10) have "parents_in (r_id ` set (db_product s)) s2" by (metis snd_conv)
    then show ?thesis by (simp add: parents_in_def w(12))
  qed
  ultimately have keys: "distinct (map r_id (db_product s'))" "parents_in (r_id ` set (db_product s')) s'"
    using ids by (simp, metis set_map)
  have v': "variant_ids_ok s'" using pe by (simp add: variant_ids_ok_def w(12))
  show ?thesis
  proof (rule catalog_change [OF ok checkPatch_Inr [OF chk p(4)], of p'])
    show "q \<in> live_of s a" if "q \<in> live_of s' a" "r_id q \<noteq> r_id p'" for q a
      using that rows [of q] w(3) by (auto simp: live_of_def)
    show "q = p' \<and> a = pr_businessId p" if "q \<in> live_of s' a" "r_id q = r_id p'" for q a
      using that rows [of q] w(3,5) by (auto simp: live_of_def)
  qed (use new keys v' pe e' w(3) in simp_all)
qed

section \<open>Removing a product\<close>

lemma catalog_row_update:
  assumes F: "\<And>q. r_id (F q) = r_id q \<and> pr_sku (F q) = pr_sku q \<and> pr_barcode (F q) = pr_barcode q
      \<and> pr_businessId (F q) = pr_businessId q \<and> (live (F q) \<longrightarrow> live q)"
  shows "keeps catalog_ok (raw_update product_t i F)"
proof (rule keepsI)
  fix s assume ok: "catalog_ok s"
  show "catalog_ok (snd (raw_update product_t i F s))"
  proof (cases "raw_update product_t i F s")
    case (Pair res s')
    show ?thesis
    proof (cases "s' = s")
      case False
      with product_tb.raw_update_cases [OF Pair] obtain r r' where r: "find (\<lambda>r. r_id r = i) (db_product s) = Some r"
        "r' = (F r)\<lparr> r_updatedAt := db_now s \<rparr>"
        "s' = s\<lparr> db_product := upd_rows (\<lambda>q. r_id q = i) (\<lambda>_. r') (db_product s) \<rparr>"
        by (auto simp: product_t_def)
      have f: "r_id r' = i" "pr_sku r' = pr_sku r" "pr_barcode r' = pr_barcode r" "pr_businessId r' = pr_businessId r" "live r' \<Longrightarrow> live r"
        using F [of r] find_SomeD [OF r(1)] by (auto simp: r(2) live_def)
      have old: "\<exists>w \<in> live_of s a. r_id w = r_id q \<and> pr_sku w = pr_sku q \<and> pr_barcode w = pr_barcode q" if "q \<in> live_of s' a" for q a
      proof (cases "r_id q = i")
        case True
        with that have "q = r'" by (auto simp: live_of_def r(3) set_upd_rows split: if_splits)
        with that f find_SomeD [OF r(1)] show ?thesis by (intro bexI [of _ r]) (auto simp: live_of_def)
      next
        case False
        with that f(1) have "q \<in> live_of s a" by (auto simp: live_of_def r(3) set_upd_rows split: if_splits)
        then show ?thesis by blast
      qed
      have v: "db_productVariant s' = db_productVariant s" by (simp add: r(3))
      have sub: "unique_in (idents pf pv s') (live_of s' a)"
        if u: "unique_in (idents pf pv s) (live_of s a)" and k: "pf = pr_sku \<or> pf = pr_barcode" for pf pv a
      proof -
        have w: "\<exists>w \<in> live_of s a. r_id w = r_id q \<and> idents pf pv s w = idents pf pv s' q" if "q \<in> live_of s' a" for q
          using old [OF that] k by (auto simp: idents_def liveVariants_def v)
        show ?thesis using u w unfolding unique_in_def by metis
      qed
      have ids: "map r_id (db_product s') = map r_id (db_product s)"
        unfolding r(3) by (simp add: map_upd_rows f(1))
      then have "r_id ` set (db_product s') = r_id ` set (db_product s)" by (metis set_map)
      then have "catalog_ok s'"
        using ok ids sub unfolding catalog_ok_def by (simp add: variant_ids_ok_def parents_in_def v)
      then show ?thesis by (simp add: Pair)
    qed (simp add: Pair ok)
  qed
qed

lemma keeps_catalog_audit: "keeps catalog_ok (writeAudit base ctx m oper i b a e)"
proof (rule keepsI)
  fix s assume "catalog_ok s"
  then show "catalog_ok (snd (writeAudit base ctx m oper i b a e s))"
    by (subst catalog_ok_cong [of _ s]) (simp_all add: audited_def)
qed

lemma catalog_remove: "keeps catalog_ok (removeProduct ctx i)"
  unfolding removeProduct_def getProduct_def scoped_update_def scoped_update_nested_def update_body_def scoped_delete_def delete_body_def
  by (intro keeps_intros pure_op_keeps [OF pure_loadOwned] catalog_row_update keeps_catalog_audit) (simp_all add: live_def)

section \<open>The invariant\<close>

lemma insertProduct_Inl:
  assumes "insertProduct ctx b d s = (Inl e, s')" "cx_tx ctx = None" "catalog_ok s"
  shows "catalog_ok s'"
proof -
  have "db_product s' = db_product s \<and> db_productVariant s' = db_productVariant s"
    using assms(1) unfolding insertProduct_def
    by (auto simp: bind_eq_Inl dest: clean_opD [OF scoped_clean(1) [OF assms(2)]] split: sum.splits)
  then show ?thesis using assms(3) catalog_ok_cong [of s' s] by simp
qed

lemma pure_assertBusiness: "pure_op (assertBusinessOwned ctx b)" "pure_op (assertCategoryInBusiness ctx b c)"
  unfolding assertBusinessOwned_def assertCategoryInBusiness_def by (auto intro!: pure_bind)

lemma assertBusinessOwned_Inr:
  assumes "assertBusinessOwned ctx b s = (Inr u, s')" "cx_scope ctx = Some Tenant" "cx_tx ctx = None" "cx_ownerId ctx \<noteq> None"
  shows "in_business ctx s b"
proof -
  have base: "base_db ctx s = s" using assms(3) by (simp add: base_db_def)
  obtain r t where "scoped_findFirst ctx business_t (\<lambda>r. r_id r = b) s = (Inr (Some r), t)"
    using assms(1) unfolding assertBusinessOwned_def bind_eq_Inr [of "scoped_findFirst _ _ _"] guard_apply
    by (auto split: if_splits)
  note f = findFirst_Inr [OF this, unfolded base]
  have "r_id r \<in> set (allowedBusinessIds s ctx)"
    by (rule business_in_scope [OF f(3) assms(2) _ assms(4)]) (use f(1) in simp)
  with f(2) assms(2,3) show ?thesis by (simp add: in_business_def)
qed

lemma catalog_createProduct:
  assumes ctx: "cx_scope ctx = Some Tenant" "cx_tx ctx = None" "cx_ownerId ctx \<noteq> None" and ok: "catalog_ok s"
  shows "catalog_ok (snd (createProduct target ctx b d s))"
proof -
  let ?ids = "\<lambda>own f. collect own (map f (createVariants (cp_variants d)))"
  let ?check = "assertUniqueIdentifiers ctx b None (?ids (cp_sku d) vi_sku) (?ids (cp_barcode d) vi_barcode)"
  have "catalog_ok (snd (catch_op (insertProduct ctx b d) h s))" if "in_business ctx s b" "?check s = (Inr (), s)"
    and "\<And>e. keeps catalog_ok (h e)" for h
    using catalog_create [OF ok that(1) assertUnique_Inr [OF that(2,1)]] insertProduct_Inl [OF _ ctx(2) ok] keepsD [OF that(3)]
    by (cases "insertProduct ctx b d s"; cases "fst (insertProduct ctx b d s)") (auto simp: catch_op_def)
  then show ?thesis
    unfolding createProduct_def
    by (intro snd_bind_pure [where P = catalog_ok] snd_bind_keeps [where P = catalog_ok] pure_assertBusiness pure_assertUnique ok)
      (auto intro!: keeps_intros dest: assertBusinessOwned_Inr [OF _ ctx])
qed

lemma catalog_write:
  assumes ctx: "cx_scope ctx = Some Tenant" "cx_tx ctx = None" and ok: "catalog_ok s"
    and cur: "loadOwned ctx i s = (Inr current, s)" and chk: "checkPatch ctx i d current s = (Inr u, s)"
    and rs: "patchVariants d current = Inr rs"
  shows "catalog_ok (snd (catch_op (writePatch ctx i d rs) (\<lambda>e. throw (f e)) s))"
proof -
  obtain p where p: "current = with_relations s p" "p \<in> set (db_product s)" "r_id p = i" "live p" "in_business ctx s (pr_businessId p)"
    by (rule loadOwned_Inr [OF cur ctx])
  have clean: "clean_op (writePatch ctx i d rs)"
    unfolding writePatch_def using ctx(2)
    by (intro clean_bind pure_simps clean_bind_ret clean_update_touched)
  obtain r t where w: "writePatch ctx i d rs s = (r, t)" by fastforce
  show ?thesis
  proof (cases r)
    case (Inl e)
    then have "t = s" using clean_opD [OF clean] w by simp
    then show ?thesis using ok w Inl by (simp add: catch_op_def)
  next
    case (Inr x)
    then show ?thesis
      using catalog_patch [OF ok ctx(2) p(2-5) chk [unfolded p(1)] rs [unfolded p(1)]] w by (simp add: catch_op_def)
  qed
qed

lemma catalog_updateProduct:
  assumes ctx: "cx_scope ctx = Some Tenant" "cx_tx ctx = None" and ok: "catalog_ok s"
  shows "catalog_ok (snd (updateProduct target ctx i d s))"
proof -
  have pure: "pure_op (checkPatch ctx i d c)" for c
    unfolding checkPatch_def Let_def
    by (intro pure_bind pure_assertUnique) (auto intro: pure_assertBusiness split: option.split)
  have get: "keeps catalog_ok (getProduct ctx i)"
    unfolding getProduct_def by (intro keeps_intros pure_op_keeps pure_loadOwned)
  show ?thesis
    unfolding updateProduct_def
  proof (intro snd_bind_pure [where P = catalog_ok] pure_loadOwned pure ok pure_simps)
    fix c u rs
    assume "loadOwned ctx i s = (Inr c, s)" "checkPatch ctx i d c s = (Inr u, s)"
      "lift_res (patchVariants d c) s = (Inr rs, s)"
    then show "catalog_ok (snd ((if empty_product_patch d then ret (serializeProduct c)
        else bind (catch_op (writePatch ctx i d rs) (\<lambda>e. throw (mapCatalogWriteError target e))) (\<lambda>_. getProduct ctx i)) s))"
      using ok catalog_write [OF ctx ok] by (auto intro!: snd_bind_keeps [where P = catalog_ok] get)
  qed
qed

text \<open>
  C35. SKUs and barcodes stay unique: over the live products of a business and their live variants
  no SKU and no barcode occurs twice, and creating a product, patching one with any mix of
  updated, new and dropped variants, or removing one keeps it so, whether the request succeeds,
  is refused or fails half-way; together with it the primary keys and the variants' references
  are kept, so the statement is inductive.
\<close>

theorem identifiers_stay_unique:
  assumes "cx_scope ctx = Some Tenant" and "cx_tx ctx = None" and "cx_ownerId ctx \<noteq> None" and "catalog_ok s"
  shows "catalog_ok (snd (createProduct target ctx b d s)) \<and> catalog_ok (snd (updateProduct target ctx i u s))
    \<and> catalog_ok (snd (removeProduct ctx i s))"
  using catalog_createProduct [OF assms] catalog_updateProduct [OF assms(1,2,4)] keepsD [OF catalog_remove assms(4)] by blast

definition fx_category :: category_row where
  "fx_category = \<lparr> r_id = ''cat'', r_createdAt = 0, r_updatedAt = 0, r_deletedAt = None, cg_businessId = ''biz1'', cg_name = ''Food'',
     cg_sortOrder = 0 \<rparr>"

definition fx_skus :: db where
  "fx_skus = fx_db\<lparr> db_category := [fx_category],
     db_product := [(fx_product (ex_uuid ''04'') ''biz1'')\<lparr> pr_sku := Some ''A1'' \<rparr>] \<rparr>"

definition fx_variant_input :: "string \<Rightarrow> variant_input" where
  "fx_variant_input sku = \<lparr> vi_id = None, vi_name = ''Large'', vi_sku = Some sku, vi_barcode = None, vi_priceC = 100, vi_costC = None \<rparr>"

definition fx_new_product :: "string \<Rightarrow> create_product" where
  "fx_new_product sku = \<lparr> cp_categoryId = ''cat'', cp_name = ''Tea'', cp_sku = Some ''B1'', cp_barcode = None, cp_priceC = 100,
     cp_costC = None, cp_soldBy = None, cp_lowStockThreshold = None, cp_trackStock = None, cp_trackExpiry = None, cp_active = None,
     cp_imagePath = None, cp_variants = Some [fx_variant_input sku] \<rparr>"

text \<open>A product whose variant takes a free SKU is created; with a taken one it is refused.\<close>

theorem identifiers_stay_unique_witness:
  "catalog_ok (snd (createProduct [] fx_owner_ctx ''biz1'' (fx_new_product ''B2'') fx_skus))
    \<and> List.length (db_product (snd (createProduct [] fx_owner_ctx ''biz1'' (fx_new_product ''B2'') fx_skus))) = 2
    \<and> fst (createProduct [] fx_owner_ctx ''biz1'' (fx_new_product ''A1'') fx_skus) = Inl (refuse ''SKU '' ''A1'' '' is already in use.'')"
proof -
  have "catalog_ok fx_skus"
    by (simp add: catalog_ok_def unique_in_def live_of_def idents_def collect_def List.map_filter_def variant_ids_ok_def
        parents_in_def liveVariants_def fx_skus_def fx_db_def fx_product_def empty_db_def)
  moreover have "cx_scope fx_owner_ctx = Some Tenant" "cx_tx fx_owner_ctx = None" "cx_ownerId fx_owner_ctx \<noteq> None"
    by (simp_all add: fx_owner_ctx_def fx_terminal_ctx_def)
  ultimately have "catalog_ok (snd (createProduct [] fx_owner_ctx ''biz1'' (fx_new_product ''B2'') fx_skus))"
    by (intro identifiers_stay_unique [THEN conjunct1])
  moreover have "List.length (db_product (snd (createProduct [] fx_owner_ctx ''biz1'' (fx_new_product ''B2'') fx_skus))) = 2"
    by code_simp
  moreover have "fst (createProduct [] fx_owner_ctx ''biz1'' (fx_new_product ''A1'') fx_skus)
      = Inl (refuse ''SKU '' ''A1'' '' is already in use.'')"
    by code_simp
  ultimately show ?thesis by blast
qed

end
