(* ===== verification/LinkClaims.thy ===== *)
theory LinkClaims
  imports CatalogClaims
begin

text \<open>
  Linking modifier groups to a product (\<open>setProductGroups\<close>): the nested creates, restores and
  archivings of link rows leave exactly the requested groups linked.
\<close>

section \<open>The link table\<close>

definition link_key :: "product_modifier_group_row \<Rightarrow> uid \<times> uid" where
  "link_key l = (pg_productId l, pg_groupId l)"

text \<open>The primary key and the unique index of the table.\<close>

definition links_ok :: "db \<Rightarrow> bool" where
  "links_ok s \<longleftrightarrow> distinct (map r_id (db_productModifierGroup s)) \<and> distinct (map link_key (db_productModifierGroup s))"

definition linked :: "db \<Rightarrow> uid \<Rightarrow> uid set" where
  "linked s pid = {pg_groupId l | l. l \<in> set (db_productModifierGroup s) \<and> pg_productId l = pid \<and> live l}"

definition link_rows :: "db \<Rightarrow> (uid \<times> uid \<times> uid) set" where
  "link_rows s = (\<lambda>l. (r_id l, link_key l)) ` set (db_productModifierGroup s)"

lemma set_liveGroupIds: "set (liveGroupIds s pid) = linked s pid"
  by (auto simp: liveGroupIds_def linked_def)

lemma linked_cong: "db_productModifierGroup s = db_productModifierGroup s' \<Longrightarrow> linked s = linked s'"
  by (simp add: linked_def fun_eq_iff)

section \<open>One nested write\<close>

lemma link_create:
  assumes "nested_create productModifierGroup_t (new_link pid g) s = (Inr (), s')" "links_ok s"
  shows "links_ok s'" and "linked s' p = linked s p \<union> (if p = pid then {g} else {})" and "link_rows s \<subseteq> link_rows s'"
proof -
  let ?T = "db_productModifierGroup s"
  obtain l where l: "db_productModifierGroup s' = ?T @ [l]" "r_id l \<notin> r_id ` set ?T" "link_key l \<notin> link_key ` set ?T"
    "link_key l = (pid, g)" "live l"
    using assms(1)
    by (force simp: nested_create_def bind_eq_Inr raw_insert_def Let_def productModifierGroup_t_def new_link_def
        link_key_def live_def column_check_def unique_ok_def split: if_splits option.splits)
  show "links_ok s'" using assms(2) l by (simp add: links_ok_def)
  show "linked s' p = linked s p \<union> (if p = pid then {g} else {})"
    using l(4,5) by (auto simp: linked_def l(1) link_key_def)
  show "link_rows s \<subseteq> link_rows s'" by (auto simp: link_rows_def l(1))
qed

lemma switch_one:
  assumes "l \<in> T" "k l = g" "P l = i" "\<forall>q \<in> T. P q = i \<longrightarrow> k q = g \<longrightarrow> q = l"
  shows "(\<exists>q \<in> T. k q = h \<and> P q = p \<and> (if q = l then b else V q)) \<longleftrightarrow>
    (if p \<noteq> i then \<exists>q \<in> T. k q = h \<and> P q = p \<and> V q
     else if b then (\<exists>q \<in> T. k q = h \<and> P q = p \<and> V q) \<or> h = g
     else (\<exists>q \<in> T. k q = h \<and> P q = p \<and> V q) \<and> h \<noteq> g)"
proof (cases "p = i \<and> h = g")
  case True
  have "(\<exists>q \<in> T. k q = h \<and> P q = p \<and> (if q = l then b else V q)) \<longleftrightarrow> b"
  proof
    assume "\<exists>q \<in> T. k q = h \<and> P q = p \<and> (if q = l then b else V q)"
    then obtain q where q: "q \<in> T" "k q = h" "P q = p" "if q = l then b else V q" by blast
    have "q = l" using assms(4) q True by blast
    with q(4) show b by simp
  next
    assume b
    then show "\<exists>q \<in> T. k q = h \<and> P q = p \<and> (if q = l then b else V q)"
      using True assms(1-3) by (intro bexI [of _ l]) simp_all
  qed
  with True show ?thesis by simp
next
  case False
  then have "k q = h \<and> P q = p \<Longrightarrow> q \<noteq> l" for q using assms(2,3) by auto
  then have "(\<exists>q \<in> T. k q = h \<and> P q = p \<and> (if q = l then b else V q)) \<longleftrightarrow> (\<exists>q \<in> T. k q = h \<and> P q = p \<and> V q)"
    by (intro bex_cong refl conj_cong) simp
  with False show ?thesis by (cases "p = i") simp_all
qed

lemma switch_set:
  assumes "l \<in> T" "k l = g" "P l = i" "\<forall>q \<in> T. P q = i \<longrightarrow> k q = g \<longrightarrow> q = l"
    and f: "\<And>q. q \<in> T \<Longrightarrow> k (f q) = k q" "\<And>q. q \<in> T \<Longrightarrow> P (f q) = P q"
      "\<And>q. q \<in> T \<Longrightarrow> V (f q) \<longleftrightarrow> (if q = l then b else V q)"
  shows "{k q | q. q \<in> f ` T \<and> P q = p \<and> V q} =
    (if p \<noteq> i then {k q | q. q \<in> T \<and> P q = p \<and> V q}
     else if b then {k q | q. q \<in> T \<and> P q = p \<and> V q} \<union> {g}
     else {k q | q. q \<in> T \<and> P q = p \<and> V q} - {g})"
proof (rule set_eqI)
  fix h
  have sp: "h \<in> {k q | q. q \<in> T \<and> P q = p \<and> V q} \<longleftrightarrow> (\<exists>q \<in> T. k q = h \<and> P q = p \<and> V q)" by blast
  have "h \<in> {k q | q. q \<in> f ` T \<and> P q = p \<and> V q} \<longleftrightarrow> (\<exists>q \<in> T. k (f q) = h \<and> P (f q) = p \<and> V (f q))" by blast
  also have "\<dots> \<longleftrightarrow> (\<exists>q \<in> T. k q = h \<and> P q = p \<and> (if q = l then b else V q))"
    by (rule bex_cong [OF refl]) (simp only: f)
  also note switch_one [where T = T and l = l and k = k and g = g and P = P and i = i and h = h and p = p and b = b
      and V = V, OF assms(1-4)]
  finally show "h \<in> {k q | q. q \<in> f ` T \<and> P q = p \<and> V q} \<longleftrightarrow>
    h \<in> (if p \<noteq> i then {k q | q. q \<in> T \<and> P q = p \<and> V q}
      else if b then {k q | q. q \<in> T \<and> P q = p \<and> V q} \<union> {g} else {k q | q. q \<in> T \<and> P q = p \<and> V q} - {g})"
    using sp by (cases "p = i"; cases b) (simp_all only: simp_thms if_True if_False Un_iff Diff_iff insert_iff empty_iff)
qed

lemma link_update:
  assumes run: "nested_update productModifierGroup_t owned i (\<lambda>l. l\<lparr> r_deletedAt := d \<rparr>) s = (Inr (), s')" and ok: "links_ok s"
    and row: "(i, pid, g) \<in> link_rows s"
  shows "links_ok s'" and "link_rows s' = link_rows s"
    and "linked s' p = (if p \<noteq> pid then linked s p else if d = None then linked s p \<union> {g} else linked s p - {g})"
proof -
  let ?T = "db_productModifierGroup s"
  obtain l where l: "l \<in> set ?T" "r_id l = i" "pg_productId l = pid" "pg_groupId l = g"
    using row by (auto simp: link_rows_def link_key_def)
  have d: "distinct (map r_id ?T)" "distinct (map link_key ?T)" using ok by (simp_all add: links_ok_def)
  have f: "find (\<lambda>r. r_id r = i) ?T = Some l" using find_distinct_key [OF d(1) l(1)] l(2) by simp
  let ?l = "l\<lparr> r_deletedAt := d, r_updatedAt := db_now s \<rparr>"
  let ?u = "\<lambda>q. if r_id q = i then ?l else q"
  have s': "db_productModifierGroup s' = upd_rows (\<lambda>q. r_id q = i) (\<lambda>_. ?l) ?T"
    using run f by (auto simp: nested_update_def bind_eq_Inr raw_update_def Let_def productModifierGroup_t_def
        split: option.splits)
  have same: "?u q = q\<lparr> r_deletedAt := d, r_updatedAt := db_now s \<rparr>" if "q \<in> set ?T" "r_id q = i" for q
    using same_id_same_row [OF d(1) that(1) l(1)] that(2) l(2) by simp
  have key: "link_key (?u q) = link_key q \<and> r_id (?u q) = r_id q" if "q \<in> set ?T" for q
    using same [OF that] by (auto simp: link_key_def)
  have T': "map k (db_productModifierGroup s') = map k ?T" if "\<And>q. q \<in> set ?T \<Longrightarrow> k (?u q) = k q" for k :: "_ \<Rightarrow> 'k"
    unfolding s' upd_rows_def using that by simp
  show "links_ok s'" using T' [of r_id] T' [of link_key] key d by (simp add: links_ok_def)
  show "link_rows s' = link_rows s"
    using T' [of "\<lambda>l. (r_id l, link_key l)"] key unfolding link_rows_def set_map [symmetric] by simp
  have u: "pg_groupId (?u q) = pg_groupId q" "pg_productId (?u q) = pg_productId q"
      "live (?u q) \<longleftrightarrow> (if q = l then d = None else live q)" if q: "q \<in> set ?T" for q
  proof -
    have "r_id q = i \<longleftrightarrow> q = l" using same_id_same_row [OF d(1) q l(1)] l(2) by auto
    then show "pg_groupId (?u q) = pg_groupId q" "pg_productId (?u q) = pg_productId q"
      "live (?u q) \<longleftrightarrow> (if q = l then d = None else live q)"
      by (simp_all add: live_def)
  qed
  have "q = l" if "q \<in> set ?T" "pg_productId q = pid" "pg_groupId q = g" for q
    using find_distinct_key [OF d(2) that(1)] find_distinct_key [OF d(2) l(1)] that l by (simp add: link_key_def)
  then have only: "\<forall>q \<in> set ?T. pg_productId q = pid \<longrightarrow> pg_groupId q = g \<longrightarrow> q = l" by blast
  show "linked s' p = (if p \<noteq> pid then linked s p else if d = None then linked s p \<union> {g} else linked s p - {g})"
    unfolding linked_def s' set_upd_rows by (rule switch_set [where T = "set ?T" and l = l and k = pg_groupId and g = g and P = pg_productId and i = pid
      and f = ?u and V = live and b = "d = None" and p = p, OF l(1,4,3) only u])
qed

section \<open>All of them\<close>

lemma link_creates:
  assumes "for_each gs (\<lambda>g. nested_create productModifierGroup_t (new_link pid g)) s = (Inr (), s')" "links_ok s"
  shows "links_ok s' \<and> linked s' p = linked s p \<union> (if p = pid then set gs else {}) \<and> link_rows s \<subseteq> link_rows s'"
  using assms
proof (induction gs arbitrary: s)
  case (Cons g gs)
  then obtain s1 where s1: "nested_create productModifierGroup_t (new_link pid g) s = (Inr (), s1)"
    "for_each gs (\<lambda>g. nested_create productModifierGroup_t (new_link pid g)) s1 = (Inr (), s')"
    by (auto simp: bind_eq_Inr)
  note one = link_create [OF s1(1) Cons.prems(2)]
  from Cons.IH [OF s1(2) one(1)] one(2) [of p] one(3) show ?case by (auto split: if_splits)
qed simp

lemma link_restores:
  assumes "for_each is (\<lambda>i. nested_update productModifierGroup_t owned i (\<lambda>l. l\<lparr> r_deletedAt := None \<rparr>)) s = (Inr (), s')"
    and "links_ok s" and "\<And>i. i \<in> set is \<Longrightarrow> (i, pid, grp i) \<in> link_rows s"
  shows "links_ok s' \<and> link_rows s' = link_rows s \<and> linked s' p = linked s p \<union> (if p = pid then grp ` set is else {})"
  using assms
proof (induction "is" arbitrary: s)
  case (Cons i "is")
  then obtain s1 where s1: "nested_update productModifierGroup_t owned i (\<lambda>l. l\<lparr> r_deletedAt := None \<rparr>) s = (Inr (), s1)"
    "for_each is (\<lambda>i. nested_update productModifierGroup_t owned i (\<lambda>l. l\<lparr> r_deletedAt := None \<rparr>)) s1 = (Inr (), s')"
    by (auto simp: bind_eq_Inr)
  have row: "(i, pid, grp i) \<in> link_rows s" by (rule Cons.prems(3)) simp
  note one = link_update [OF s1(1) Cons.prems(2) row]
  have "(j, pid, grp j) \<in> link_rows s1" if "j \<in> set is" for j using Cons.prems(3) [of j] that one(2) by simp
  from Cons.IH [OF s1(2) one(1) this] one(2) one(3) [of p] show ?case by (auto split: if_splits)
qed simp

lemma link_deletes:
  assumes "for_each is (nested_delete productModifierGroup_t owned) s = (Inr (), s')"
    and "links_ok s" and "\<And>i. i \<in> set is \<Longrightarrow> (i, pid, grp i) \<in> link_rows s"
  shows "links_ok s' \<and> linked s' p = linked s p - (if p = pid then grp ` set is else {})"
  using assms
proof (induction "is" arbitrary: s)
  case (Cons i "is")
  then obtain s1 where s1: "nested_update productModifierGroup_t owned i (\<lambda>l. l\<lparr> r_deletedAt := Some (db_now s) \<rparr>) s = (Inr (), s1)"
    "for_each is (nested_delete productModifierGroup_t owned) s1 = (Inr (), s')"
    by (auto simp: bind_eq_Inr nested_delete_def [of _ _ i])
  have row: "(i, pid, grp i) \<in> link_rows s" by (rule Cons.prems(3)) simp
  note one = link_update [OF s1(1) Cons.prems(2) row]
  have "(j, pid, grp j) \<in> link_rows s1" if "j \<in> set is" for j using Cons.prems(3) [of j] that one(2) by simp
  from Cons.IH [OF s1(2) one(1) this] one(3) [of p] show ?case by (auto split: if_splits)
qed simp

lemma keeps_audit_links: "keeps (\<lambda>s. db_productModifierGroup s = X) (auditNested ctx ct touched base)"
  unfolding auditNested_def audit_touched_def
  by (intro keeps_intros) (auto intro!: keepsI simp: audited_def split: touched_op.split)

section \<open>The replace-set\<close>

lemma writeLinks_Inr:
  assumes run: "writeLinks ctx pid ls s = (Inr u, s')" and ok: "links_ok s"
    and rest: "\<And>i. i \<in> set (ls_restore ls) \<Longrightarrow> (i, pid, grp i) \<in> link_rows s"
    and del: "\<And>i. i \<in> set (ls_delete ls) \<Longrightarrow> (i, pid, grp i) \<in> link_rows s"
  shows "links_ok s' \<and> linked s' p = (if p = pid
    then (linked s p \<union> set (ls_create ls) \<union> grp ` set (ls_restore ls)) - grp ` set (ls_delete ls) else linked s p)"
proof -
  let ?T = productModifierGroup_t
  obtain prev r s1 s2 s3 s4 a where prev: "find (\<lambda>r. r_id r = pid \<and> in_scope ctx product_t (base_db ctx s) r)
        (db_product (base_db ctx s)) = Some prev"
    and up: "raw_update product_t (r_id prev) (\<lambda>p. p) s = (Inr r, s1)"
    and c: "for_each (ls_create ls) (\<lambda>g. nested_create ?T (new_link (r_id r) g)) s1 = (Inr (), s2)"
    and e: "for_each (ls_restore ls) (\<lambda>i. nested_update ?T (\<lambda>l. pg_productId l = r_id r) i (\<lambda>l. l\<lparr> r_deletedAt := None \<rparr>)) s2 = (Inr (), s3)"
    and d: "for_each (ls_delete ls) (nested_delete ?T (\<lambda>l. pg_productId l = r_id r)) s3 = (Inr (), s4)"
    and a: "auditNested ctx ?T (map (\<lambda>i. (Touched_delete, i)) (ls_delete ls)) (base_db ctx s) (audited a s4) = (Inr (), s')"
    using run unfolding writeLinks_def bind_eq_Inr [of "scoped_update_touched _ _ _ _ _ _"] scoped_update_touched_Inr
      update_body_def bind_eq_Inr
    by auto
  have "r_id prev = pid" using find_SomeD [OF prev] by simp
  then have r: "r_id r = pid" using product_tb.raw_update_cases [OF up] by (auto dest: find_SomeD)
  have s1: "db_productModifierGroup s1 = db_productModifierGroup s"
    by (rule keeps_eq [where g = db_productModifierGroup and m = "raw_update product_t (r_id prev) (\<lambda>p. p)" and s = s, OF _ up]) (simp add: framed_update framed_def product_t_def)
  have "db_productModifierGroup s' = db_productModifierGroup (audited a s4)"
    by (rule keeps_eq [where g = db_productModifierGroup, OF keeps_audit_links a])
  then have s': "db_productModifierGroup s' = db_productModifierGroup s4" by (simp add: audited_def)
  have rows1: "link_rows s1 = link_rows s" and ok1: "links_ok s1" using s1 ok by (simp_all add: link_rows_def links_ok_def)
  note c = link_creates [OF c [unfolded r] ok1, of p]
  have "i \<in> set (ls_restore ls) \<Longrightarrow> (i, pid, grp i) \<in> link_rows s2" for i using rest [of i] c rows1 by auto
  note e = link_restores [OF e _ this, of p]
  have "i \<in> set (ls_delete ls) \<Longrightarrow> (i, pid, grp i) \<in> link_rows s3" for i using del [of i] c e rows1 by auto
  note d = link_deletes [OF d _ this, of p]
  have "links_ok s4 \<and> linked s4 p = (linked s p \<union> (if p = pid then set (ls_create ls) else {})
      \<union> (if p = pid then grp ` set (ls_restore ls) else {})) - (if p = pid then grp ` set (ls_delete ls) else {})"
    using c e d linked_cong [OF s1] by simp
  then show ?thesis
    using linked_cong [OF s'] s' by (auto simp: links_ok_def)
qed

text \<open>The set a submission describes, computed from the link rows.\<close>

lemma byGroup_Some: "byGroup links g = Some l \<Longrightarrow> l \<in> set links \<and> pg_groupId l = g"
  unfolding byGroup_def by (auto dest: find_SomeD)

lemma byGroup_None: "byGroup links g = None \<longleftrightarrow> g \<notin> pg_groupId ` set links"
  unfolding byGroup_def by (auto simp: find_None_iff)

lemma in_map_filter: "y \<in> set (List.map_filter f xs) \<longleftrightarrow> (\<exists>x \<in> set xs. f x = Some y)"
  by (force simp: List.map_filter_def)

lemma restore_rows:
  "i \<in> set (List.map_filter (\<lambda>g. case byGroup links g of None \<Rightarrow> None | Some l \<Rightarrow> if live l then None else Some (r_id l)) gs)
    \<longleftrightarrow> (\<exists>g \<in> set gs. \<exists>l. byGroup links g = Some l \<and> \<not> live l \<and> i = r_id l)"
  unfolding in_map_filter by (intro bex_cong refl) (auto split: option.splits if_splits)

lemma setLinks_Inr:
  assumes run: "(case buildLinkReplaceSet (linksOf pid s) gs of None \<Rightarrow> ret () | Some ls \<Rightarrow> writeLinks ctx pid ls) s = (Inr u, s')"
    and ok: "links_ok s"
  shows "links_ok s' \<and> linked s' p = (if p = pid then set gs else linked s p)"
proof -
  let ?L = "linksOf pid s" and ?w = "rev (remdups (rev gs))"
  have inL: "l \<in> set ?L \<longleftrightarrow> l \<in> set (db_productModifierGroup s) \<and> pg_productId l = pid" for l by (simp add: linksOf_def)
  have lk: "linked s pid = {pg_groupId l | l. l \<in> set ?L \<and> live l}" by (auto simp: linked_def inL)
  define grp where "grp i = pg_groupId (the (find (\<lambda>l. r_id l = i) (db_productModifierGroup s)))" for i
  have d: "distinct (map r_id (db_productModifierGroup s))" "distinct (map link_key (db_productModifierGroup s))"
    using ok by (simp_all add: links_ok_def)
  have grp: "grp (r_id l) = pg_groupId l" if "l \<in> set ?L" for l
    using find_distinct_key [OF d(1)] that inL by (simp add: grp_def)
  have row: "(r_id l, pid, grp (r_id l)) \<in> link_rows s" if "l \<in> set ?L" for l
    using that inL [of l] grp [OF that] by (auto simp: link_rows_def link_key_def)
  have one: "l = q" if "l \<in> set ?L" "q \<in> set ?L" "pg_groupId l = pg_groupId q" for l q
    using that inL find_distinct_key [OF d(2), of l] find_distinct_key [OF d(2), of q] by (auto simp: link_key_def)
  let ?create = "filter (\<lambda>g. byGroup ?L g = None) ?w"
  let ?restore = "List.map_filter (\<lambda>g. case byGroup ?L g of None \<Rightarrow> None | Some l \<Rightarrow> if live l then None else Some (r_id l)) ?w"
  let ?del = "map r_id (filter (\<lambda>l. live l \<and> pg_groupId l \<notin> set gs) ?L)"
  have restored: "grp ` set ?restore = {g \<in> set gs. \<exists>l \<in> set ?L. pg_groupId l = g \<and> \<not> live l}"
  proof (rule set_eqI)
    fix g
    show "g \<in> grp ` set ?restore \<longleftrightarrow> g \<in> {g \<in> set gs. \<exists>l \<in> set ?L. pg_groupId l = g \<and> \<not> live l}"
    proof
      assume "g \<in> grp ` set ?restore"
      then obtain i where "g = grp i" "i \<in> set ?restore" by blast
      then obtain h l where "h \<in> set gs" "byGroup ?L h = Some l" "\<not> live l" "g = grp (r_id l)"
        unfolding restore_rows by auto
      with byGroup_Some [of ?L h l] grp [of l] show "g \<in> {g \<in> set gs. \<exists>l \<in> set ?L. pg_groupId l = g \<and> \<not> live l}" by auto
    next
      assume "g \<in> {g \<in> set gs. \<exists>l \<in> set ?L. pg_groupId l = g \<and> \<not> live l}"
      then obtain l where l: "g \<in> set gs" "l \<in> set ?L" "pg_groupId l = g" "\<not> live l" by blast
      then obtain q where q: "byGroup ?L g = Some q" using byGroup_None [of ?L g] by fastforce
      with byGroup_Some [OF q] one l have "q = l" by blast
      then have "r_id l \<in> set ?restore" unfolding restore_rows using q l by auto
      then show "g \<in> grp ` set ?restore" using grp [OF l(2)] l(3) by (intro image_eqI [of _ _ "r_id l"]) simp_all
    qed
  qed
  have deleted: "grp ` set ?del = {pg_groupId l | l. l \<in> set ?L \<and> live l} - set gs"
    using grp by (auto simp: image_iff)
  have created: "set ?create = set gs - pg_groupId ` set ?L" by (auto simp: byGroup_None)
  have all: "(linked s pid \<union> set ?create \<union> grp ` set ?restore) - grp ` set ?del = set gs"
    unfolding lk created restored deleted using one by auto
  show ?thesis
  proof (cases "buildLinkReplaceSet ?L gs")
    case None
    then have "?create = []" "?restore = []" "?del = []" by (auto simp: buildLinkReplaceSet_def Let_def split: if_splits)
    then have "linked s pid = set gs" using all by (simp only: list.set image_empty Un_empty_right Diff_empty)
    moreover have "s' = s" using run None by simp
    ultimately show ?thesis using ok by auto
  next
    case (Some ls)
    then have ls: "ls_create ls = ?create" "ls_restore ls = ?restore" "ls_delete ls = ?del"
      by (auto simp: buildLinkReplaceSet_def Let_def split: if_splits)
    have w: "writeLinks ctx pid ls s = (Inr u, s')" using run Some by simp
    have "i \<in> set (ls_restore ls) \<Longrightarrow> (i, pid, grp i) \<in> link_rows s" for i
      unfolding ls restore_rows using byGroup_Some row by blast
    moreover have "i \<in> set (ls_delete ls) \<Longrightarrow> (i, pid, grp i) \<in> link_rows s" for i
      unfolding ls using row by auto
    ultimately show ?thesis
      using writeLinks_Inr [OF w ok, of grp p] all unfolding ls by simp
  qed
qed

section \<open>The requested groups, and no others\<close>

lemma assertGroups_Inr:
  assumes "assertGroups ctx b gs s = (Inr (), s')" "[] \<notin> set gs" "g \<in> set gs" "cx_scope ctx = Some Tenant"
  shows "\<exists>r \<in> own_groups (base_db ctx s) b. r_id r = g"
proof -
  obtain rows where rows: "scoped_findMany ctx modifierGroup_t (\<lambda>g. r_id g \<in> set gs \<and> mg_businessId g = b) s = (Inr rows, s)"
    and f: "find (\<lambda>g. g \<notin> r_id ` set rows) gs = None"
    using assms(1,2,3)
    by (auto simp: assertGroups_def bind_eq_Inr findMany_Inr split: if_splits option.splits dest: find_SomeD)
  have "g \<in> r_id ` set rows" using find_NoneD [OF f assms(3)] by simp
  then show ?thesis using rows assms(4) by (auto simp: findMany_Inr own_groups_def visible_tenant)
qed

lemma pure_assertGroups: "pure_op (assertGroups ctx b gs)"
  unfolding assertGroups_def by (auto intro!: pure_bind pure_if split: option.split)

text \<open>
  C36. Setting the modifier groups of a product leaves exactly the requested ones linked: whatever
  was linked or archived before, afterwards the live links of the product, and the answer,
  are the requested ids; every requested group is a live group of the product's own business,
  and the links of all other products are as they were.
\<close>

theorem exactly_requested_groups:
  assumes "setProductGroups ctx pid gs s = (Inr (i, ids), s')" and "links_ok s" and "[] \<notin> set gs"
    and "cx_scope ctx = Some Tenant" and "cx_tx ctx = None"
  shows "i = pid \<and> set ids = set gs \<and> linked s' pid = set gs \<and> (\<forall>p. p \<noteq> pid \<longrightarrow> linked s' p = linked s p) \<and> links_ok s'
    \<and> (\<exists>product \<in> set (db_product s). r_id product = pid \<and> live product
        \<and> (\<forall>g \<in> set gs. \<exists>r \<in> own_groups s (pr_businessId product). r_id r = g))"
proof -
  have base: "base_db ctx s = s" using assms(5) by (simp add: base_db_def)
  obtain product where p: "getOr404 ctx product_t no_product pid s = (Inr product, s)"
    and run: "bind (assertGroups ctx (pr_businessId product) gs) (\<lambda>_.
      bind (reads (linksOf pid)) (\<lambda>links.
      bind (case buildLinkReplaceSet links gs of None \<Rightarrow> ret () | Some ls \<Rightarrow> writeLinks ctx pid ls) (\<lambda>_.
      bind (reads (\<lambda>s. liveGroupIds s pid)) (\<lambda>ids. ret (pid, ids))))) s = (Inr (i, ids), s')"
    by (rule bind_pure_InrE [OF assms(1) [unfolded setProductGroups_def] pure_getOr404])
  obtain a: "assertGroups ctx (pr_businessId product) gs s = (Inr (), s)"
    and rest: "bind (reads (linksOf pid)) (\<lambda>links.
      bind (case buildLinkReplaceSet links gs of None \<Rightarrow> ret () | Some ls \<Rightarrow> writeLinks ctx pid ls) (\<lambda>_.
      bind (reads (\<lambda>s. liveGroupIds s pid)) (\<lambda>ids. ret (pid, ids)))) s = (Inr (i, ids), s')"
    by (rule bind_pure_InrE [OF run pure_assertGroups]) simp
  obtain u where w: "(case buildLinkReplaceSet (linksOf pid s) gs of None \<Rightarrow> ret () | Some ls \<Rightarrow> writeLinks ctx pid ls) s = (Inr u, s')"
    and i: "i = pid" "ids = liveGroupIds s' pid"
    using rest [unfolded bind_reads] by (rule bind_InrE) (simp only: bind_reads ret_apply prod.inject sum.inject, blast)
  note found = getOr404_Inr [OF p, unfolded base]
  have "product \<in> set (db_product s)" "r_id product = pid" "live product"
    using found assms(4) by (auto simp: visible_tenant)
  moreover have "\<forall>g \<in> set gs. \<exists>r \<in> own_groups s (pr_businessId product). r_id r = g"
    using assertGroups_Inr [OF a assms(3) _ assms(4)] by (simp add: base)
  ultimately show ?thesis
    using setLinks_Inr [OF w assms(2)] i by (auto simp: set_liveGroupIds)
qed

theorem exactly_requested_groups_witness:
  "linked (snd (setProductGroups fx_owner_ctx (ex_uuid ''04'') [''g3'', ''g2''] fx_menu)) (ex_uuid ''04'') = {''g2'', ''g3''}"
proof -
  have "case fst (setProductGroups fx_owner_ctx (ex_uuid ''04'') [''g3'', ''g2''] fx_menu) of Inl _ \<Rightarrow> False | Inr _ \<Rightarrow> True"
    by code_simp
  from run_Inr [OF this] obtain i ids s' where
    r: "setProductGroups fx_owner_ctx (ex_uuid ''04'') [''g3'', ''g2''] fx_menu = (Inr (i, ids), s')"
    by (metis surj_pair)
  have h: "links_ok fx_menu" "[] \<notin> set [''g3'', ''g2'']" "cx_scope fx_owner_ctx = Some Tenant" "cx_tx fx_owner_ctx = None"
    by (simp_all add: links_ok_def fx_menu_def fx_link_def link_key_def fx_owner_ctx_def fx_terminal_ctx_def)
  have "linked s' (ex_uuid ''04'') = set [''g3'', ''g2'']"
    using exactly_requested_groups [OF r h] by (elim conjE)
  then show ?thesis by (simp add: r insert_commute)
qed

end
