(* ===== verification/PullCosts.thy ===== *)
theory PullCosts
  imports CatalogClaims
begin

text \<open>
  Non-interference of the pull: two databases that differ only in the costs of products and
  variants give the same answer. \<open>sim R m n\<close> relates a run of \<open>m\<close> on a database to the run of
  \<open>n\<close> on the same database without costs: same errors, results related by \<open>R\<close>, both read-only.
\<close>

definition no_cost :: "product_row \<Rightarrow> product_row" where
  "no_cost p = p\<lparr> pr_cost := None \<rparr>"

definition no_variant_cost :: "variant_row \<Rightarrow> variant_row" where
  "no_variant_cost v = v\<lparr> pv_cost := None \<rparr>"

definition erase_costs :: "db \<Rightarrow> db" where
  "erase_costs s = s\<lparr> db_product := map no_cost (db_product s),
     db_productVariant := map no_variant_cost (db_productVariant s) \<rparr>"

definition sim :: "('a \<Rightarrow> 'b \<Rightarrow> bool) \<Rightarrow> (db, exn, 'a) op \<Rightarrow> (db, exn, 'b) op \<Rightarrow> bool" where
  "sim R m n \<longleftrightarrow> (\<forall>s. rel_sum (=) R (fst (m s)) (fst (n (erase_costs s))) \<and> snd (m s) = s
     \<and> snd (n (erase_costs s)) = erase_costs s)"

lemma sim_ret: "R x y \<Longrightarrow> sim R (ret x) (ret y)"
  by (simp add: sim_def)

lemma sim_throw: "sim R (throw e) (throw e)"
  by (simp add: sim_def)

lemma sim_bind:
  assumes "sim R m n" "\<And>x y. R x y \<Longrightarrow> sim Q (f x) (g y)"
  shows "sim Q (bind m f) (bind n g)"
  unfolding sim_def
proof (intro allI)
  fix s
  from assms(1) have a: "rel_sum (=) R (fst (m s)) (fst (n (erase_costs s)))" "snd (m s) = s"
    "snd (n (erase_costs s)) = erase_costs s" by (simp_all add: sim_def)
  show "rel_sum (=) Q (fst (bind m f s)) (fst (bind n g (erase_costs s))) \<and> snd (bind m f s) = s
      \<and> snd (bind n g (erase_costs s)) = erase_costs s"
    using a assms(2) by (cases "m s"; cases "n (erase_costs s)") (auto elim!: rel_sum.cases simp: bind_def sim_def)
qed

lemma sim_reads: "(\<And>s. R (h s) (k (erase_costs s))) \<Longrightarrow> sim R (reads h) (reads k)"
  by (simp add: sim_def)

section \<open>Reads\<close>

lemma erase_tables [simp]:
  "db_product (erase_costs s) = map no_cost (db_product s)"
  "db_productVariant (erase_costs s) = map no_variant_cost (db_productVariant s)"
  "db_business (erase_costs s) = db_business s" "db_branch (erase_costs s) = db_branch s"
  "db_terminal (erase_costs s) = db_terminal s" "db_category (erase_costs s) = db_category s"
  "db_modifierGroup (erase_costs s) = db_modifierGroup s" "db_modifier (erase_costs s) = db_modifier s"
  "db_productModifierGroup (erase_costs s) = db_productModifierGroup s" "db_discount (erase_costs s) = db_discount s"
  "db_branchStock (erase_costs s) = db_branchStock s" "db_now (erase_costs s) = db_now s"
  by (simp_all add: erase_costs_def)

lemma no_cost_fields [simp]:
  "r_id (no_cost p) = r_id p" "r_createdAt (no_cost p) = r_createdAt p" "live (no_cost p) = live p"
  "pr_businessId (no_cost p) = pr_businessId p" "pr_active (no_cost p) = pr_active p" "pr_name (no_cost p) = pr_name p"
  "pr_trackStock (no_cost p) = pr_trackStock p"
  "r_id (no_variant_cost v) = r_id v" "r_createdAt (no_variant_cost v) = r_createdAt v"
  "live (no_variant_cost v) = live v" "pv_productId (no_variant_cost v) = pv_productId v"
  "pv_name (no_variant_cost v) = pv_name v"
  by (simp_all add: no_cost_def no_variant_cost_def live_def)

lemma no_cost_any [simp]:
  "any_businessId (Any_product (no_cost p)) = any_businessId (Any_product p)"
  by (simp add: no_cost_def)

lemma erase_scope [simp]:
  "allowedBusinessIds (erase_costs s) ctx = allowedBusinessIds s ctx"
  "allowedBranchIds (erase_costs s) ctx = allowedBranchIds s ctx"
  by (simp_all add: allowedBusinessIds_def allowedBranchIds_def Let_def)

lemma erase_visible [simp]: "visible ctx t inc (erase_costs s) r = visible ctx t inc s r"
  by (auto simp: visible_def in_scope_def tenantWhereFor_def split: option.split scope_col.split)

lemma sim_findMany:
  assumes "cx_tx ctx = None" "\<And>r. p r = q r" "\<And>s. tb_get t (erase_costs s) = tb_get t s"
  shows "sim (=) (scoped_findMany ctx t p) (scoped_findMany ctx t q)"
  using assms by (auto simp: sim_def scoped_findMany_def scoped_find_all_def choke_bind base_db_def Let_def split: option.split)

lemma sim_findProducts:
  assumes "cx_tx ctx = None" "\<And>r. p r = q (no_cost r)"
  shows "sim (\<lambda>ps qs. qs = map no_cost ps) (scoped_findMany ctx product_t p) (scoped_findMany ctx product_t q)"
proof -
  have "in_scope ctx product_t s (no_cost r) = in_scope ctx product_t s r" for s r
    by (simp add: in_scope_def tenantWhereFor_def product_t_def TENANT_DIRECT_def)
  then have "visible ctx product_t inc s (no_cost r) = visible ctx product_t inc s r" for s r inc
    by (simp add: visible_def)
  then have f: "filter (\<lambda>r. q r \<and> visible ctx product_t False s r) (map no_cost xs)
      = map no_cost (filter (\<lambda>r. p r \<and> visible ctx product_t False s r) xs)" for s xs
    using assms(2) by (simp add: filter_map comp_def)
  show ?thesis
    using assms(1) f
    by (auto simp: sim_def scoped_findMany_def scoped_find_all_def choke_bind base_db_def Let_def split: option.split)
qed

lemma sim_getOr404:
  assumes "cx_tx ctx = None" "\<And>s. tb_get t (erase_costs s) = tb_get t s"
  shows "sim (=) (getOr404 ctx t m i) (getOr404 ctx t m i)"
  unfolding getOr404_def scoped_findFirst_def
  by (rule sim_bind [where R = "(=)"], rule sim_bind [OF sim_findMany [OF assms(1) refl assms(2)]])
    (auto intro: sim_ret sim_throw split: option.split)

lemma sort_key_map: "(\<And>x. k (f x) = h x) \<Longrightarrow> sort_key k (map f xs) = map f (sort_key h xs)"
proof (induction xs)
  case (Cons x xs)
  have "insort_key k (f x) (map f ys) = map f (insort_key h x ys)" for ys
    by (induction ys) (simp_all add: Cons.prems)
  with Cons show ?case by simp
qed simp

section \<open>Levels\<close>

lemma erase_liveVariants [simp]: "liveVariants (erase_costs s) i = map no_variant_cost (liveVariants s i)"
  by (simp add: liveVariants_def filter_map comp_def)

lemma erase_tracks [simp]: "tracks_stock (erase_costs s) i = tracks_stock s i"
  by (simp add: tracks_stock_def list_ex_iff)

lemma find_map_same: "(\<And>x. p (f x) = p x) \<Longrightarrow> find p (map f xs) = map_option f (find p xs)"
  by (induction xs) auto

lemma level_of_row_erase: "level_of_row (map no_cost ps) (map no_variant_cost vs) r = level_of_row ps vs r"
  by (auto simp: level_of_row_def find_map_same option.map_comp comp_def
      split: option.split)

lemma level_of_row_variants:
  "level_of_row (map no_cost ps) (List.concat (map (\<lambda>p. map no_variant_cost (liveVariants s (r_id p))) ps)) r
    = level_of_row ps (List.concat (map (\<lambda>p. liveVariants s (r_id p)) ps)) r"
  using level_of_row_erase [of ps "List.concat (map (\<lambda>p. liveVariants s (r_id p)) ps)" r]
  by (simp add: map_concat comp_def)

lemma sim_levels:
  assumes "cx_tx ctx = None"
  shows "sim (=) (levels ctx br) (levels ctx br)"
proof -
  have b: "sim (=) (assertBranch ctx br) (assertBranch ctx br)"
    using sim_getOr404 [OF assms, of branch_t "''Branch not found.''" br]
    by (simp add: getOr404_def assertBranch_def branch_t_def)
  have rd: "sim (\<lambda>x y. y = erase_costs x) (reads (base_db ctx)) (reads (base_db ctx))"
    using assms by (intro sim_reads) (simp add: base_db_def)
  show ?thesis
    unfolding levels_def
    by (rule sim_bind [OF b], rule sim_bind [OF rd], rule sim_bind [OF sim_findMany [OF assms]])
      (auto simp: level_of_row_variants comp_def
        intro!: sim_ret sim_bind [OF sim_findProducts [OF assms]])
qed

section \<open>The pull\<close>

lemma catalogProduct_erase:
  "catalogProduct gs (unsorted_relations (erase_costs s) (no_cost p)) = catalogProduct gs (unsorted_relations s p)"
proof -
  have "map catalogVariant (sort_key r_createdAt (map no_variant_cost vs)) = map catalogVariant (sort_key r_createdAt vs)" for vs
    by (simp add: sort_key_map [where h = r_createdAt] comp_def) (simp add: catalogVariant_def no_variant_cost_def)
  then show ?thesis
    by (simp add: catalogProduct_def unsorted_relations_def Let_def) (simp add: no_cost_def)
qed

lemma with_modifiers_erase [simp]: "with_modifiers (erase_costs s) g = with_modifiers s g"
  by (simp add: with_modifiers_def liveModifiers_def)

lemma sim_pull:
  assumes "cx_tx ctx = None"
  shows "sim (=) (pull ctx) (pull ctx)"
proof -
  have rd: "sim (\<lambda>x y. y = erase_costs x) (reads (base_db ctx)) (reads (base_db ctx))"
    using assms by (intro sim_reads) (simp add: base_db_def)
  have n: "sim (=) now now" by (simp add: sim_def)
  have p: "map (catalogProduct gs \<circ> unsorted_relations (erase_costs s)) (sort_key r_createdAt (map no_cost ps))
      = map (catalogProduct gs \<circ> unsorted_relations s) (sort_key r_createdAt ps)" for gs s ps
    by (simp add: sort_key_map [where h = r_createdAt] comp_def catalogProduct_erase)
  have g: "map (catalogGroup \<circ> with_modifiers (erase_costs s)) gs = map (catalogGroup \<circ> with_modifiers s) gs" for s gs
    by simp
  have body: "sim (=) (catalogBody ctx b br business branch terminal) (catalogBody ctx b br business branch terminal)"
    for b br business branch terminal
    unfolding catalogBody_def
    by (rule sim_bind [OF sim_findMany [OF assms refl]], simp,
        rule sim_bind [OF sim_findProducts [OF assms]], simp,
        rule sim_bind [OF sim_findMany [OF assms refl]], simp,
        rule sim_bind [OF sim_findMany [OF assms refl]], simp,
        rule sim_bind [OF sim_levels [OF assms]],
        rule sim_bind [OF rd], rule sim_bind [OF n])
      (auto intro!: sim_ret simp: p [unfolded comp_def] comp_def)
  have get: "sim (=) (getOr404 ctx business_t m i) (getOr404 ctx business_t m i)"
    "sim (=) (getOr404 ctx branch_t m i) (getOr404 ctx branch_t m i)"
    "sim (=) (getOr404 ctx terminal_t m i) (getOr404 ctx terminal_t m i)" for m i
    by (rule sim_getOr404 [OF assms]; simp add: branch_t_def terminal_t_def)+
  show ?thesis
    unfolding pull_def Let_def
    by (rule sim_bind [OF get(1)], rule sim_bind [OF get(2)], rule sim_bind [OF get(3)]) (simp add: body)
qed

text \<open>
  C38. A terminal never learns a cost: two databases that differ only in the costs of products
  and variants give a terminal the same catalogue, or the same error.
\<close>

theorem pull_hides_costs:
  assumes "cx_tx ctx = None" and "erase_costs s = erase_costs s'"
  shows "fst (pull ctx s) = fst (pull ctx s')"
proof -
  have "rel_sum (=) (=) (fst (pull ctx s)) (fst (pull ctx (erase_costs s)))" for s
    using sim_pull [OF assms(1)] by (simp add: sim_def)
  from this [of s] this [of s'] show ?thesis using assms(2) by (simp add: sum.rel_eq)
qed

theorem pull_hides_costs_witness:
  "fst (pull fx_terminal_ctx fx_menu)
    = fst (pull fx_terminal_ctx (fx_menu\<lparr> db_product := map (\<lambda>p. p\<lparr> pr_cost := Some 123 \<rparr>) (db_product fx_menu) \<rparr>))"
  by (rule pull_hides_costs) (simp_all add: fx_terminal_ctx_def erase_costs_def no_cost_def)

end
