(* ===== verification/Till.thy ===== *)
theory Till
  imports SaleRequests StockFacts
begin

text \<open>
  What the stock of a shop promises, without the tables: a machine over levels, the sums of the
  recorded movements, the quantities each sale took and the set of sales that were given back.
  Each of its steps is named by an event, and the event leaves it no choice. The database is
  read as a state of that machine by summing its rows; the well-formedness the requests rely on
  and the facts that every write of a request keeps it are here too.
\<close>

section \<open>The machine\<close>

type_synonym key = "uid \<times> uid \<times> uid option"

record till =
  tl_level :: "key \<Rightarrow> int"
  tl_moved :: "key \<Rightarrow> int"
  tl_sold :: "uid \<Rightarrow> key \<Rightarrow> int"
  tl_returned :: "uid set"

text \<open>
  \<open>Counted k n missed\<close> sets the level of \<open>k\<close> to \<open>n\<close>; the count was taken against a level that
  other requests have changed by \<open>missed\<close> since, so its movement is off by that much.
\<close>

datatype till_event =
    Sold uid "key \<Rightarrow> int"
  | Gave_back uid
  | Received "key \<Rightarrow> int"
  | Counted key int int

inductive till_step :: "till_event \<Rightarrow> till \<Rightarrow> till \<Rightarrow> bool" where
  sell: "till_step (Sold i q) a (a\<lparr> tl_level := \<lambda>k. tl_level a k - q k, tl_moved := \<lambda>k. tl_moved a k - q k,
      tl_sold := (tl_sold a)(i := q) \<rparr>)"
    if "i \<notin> tl_returned a" and "tl_sold a i = (\<lambda>_. 0)" and "\<forall>k. 0 \<le> q k \<and> q k \<le> tl_level a k"
| give_back: "till_step (Gave_back i) a (a\<lparr> tl_level := \<lambda>k. tl_level a k + tl_sold a i k,
      tl_moved := \<lambda>k. tl_moved a k + tl_sold a i k, tl_returned := insert i (tl_returned a) \<rparr>)"
    if "i \<notin> tl_returned a"
| goods_in: "till_step (Received q) a (a\<lparr> tl_level := \<lambda>k. tl_level a k + q k, tl_moved := \<lambda>k. tl_moved a k + q k \<rparr>)"
    if "\<forall>k. 0 \<le> q k"
| count_to: "till_step (Counted k n missed) a (a\<lparr> tl_level := (tl_level a)(k := n),
      tl_moved := (tl_moved a)(k := tl_moved a k + (n - (tl_level a k - missed))) \<rparr>)"
    if "0 \<le> n"

inductive_cases till_stepE: "till_step e a b"

primrec till_run :: "till_event list \<Rightarrow> till \<Rightarrow> till \<Rightarrow> bool" where
  "till_run [] a b \<longleftrightarrow> a = b"
| "till_run (e # es) a b \<longleftrightarrow> (\<exists>c. till_step e a c \<and> till_run es c b)"

lemma till_run_append: "till_run (es @ fs) a b \<longleftrightarrow> (\<exists>c. till_run es a c \<and> till_run fs c b)"
  by (induction es arbitrary: a) auto

text \<open>The events determine where the machine ends.\<close>

lemma till_step_unique: "till_step e a b \<Longrightarrow> till_step e a c \<Longrightarrow> b = c"
  by (cases e) (auto elim!: till_stepE)

lemma till_run_unique: "till_run es a b \<Longrightarrow> till_run es a c \<Longrightarrow> b = c"
  by (induction es arbitrary: a) (auto dest: till_step_unique)

text \<open>The sales a run gives back, and what its counts missed of a key.\<close>

fun given_back :: "till_event list \<Rightarrow> uid list" where
  "given_back [] = []"
| "given_back (Gave_back i # es) = i # given_back es"
| "given_back (_ # es) = given_back es"

fun missed_at :: "till_event list \<Rightarrow> key \<Rightarrow> int" where
  "missed_at [] k = 0"
| "missed_at (Counted k' n d # es) k = (if k' = k then d else 0) + missed_at es k"
| "missed_at (_ # es) k = missed_at es k"

lemma till_run_given_back:
  "till_run es a b \<Longrightarrow> distinct (given_back es) \<and> set (given_back es) \<inter> tl_returned a = {}"
proof (induction es arbitrary: a)
  case (Cons e es)
  then obtain c where "till_step e a c" and run: "till_run es c b" by auto
  from this(1) Cons.IH [OF run] show ?case by (cases e) (auto elim!: till_stepE)
qed simp

lemma till_run_gap:
  "till_run es a b \<Longrightarrow> tl_level b k - tl_moved b k = tl_level a k - tl_moved a k - missed_at es k"
proof (induction es arbitrary: a)
  case (Cons e es)
  then obtain c where "till_step e a c" and run: "till_run es c b" by auto
  from this(1) Cons.IH [OF run] show ?case by (cases e) (auto elim!: till_stepE)
qed simp

section \<open>The database as a state of the machine\<close>

definition moves_for :: "uid \<Rightarrow> db \<Rightarrow> stock_movement_row list" where
  "moves_for i s = filter (\<lambda>m. mv_refId m = i \<and> mv_type m = Mv_sale) (db_stockMovement s)"

definition till_of :: "db \<Rightarrow> till" where
  "till_of s = \<lparr> tl_level = (\<lambda>(b, p, v). stock_at b p v s), tl_moved = (\<lambda>(b, p, v). moved_at b p v s),
     tl_sold = (\<lambda>i (b, p, v). - moves_of p v b (moves_for i s)),
     tl_returned = {r_id r | r. r \<in> set (db_sale s) \<and> sl_status r \<noteq> Completed} \<rparr>"

lemma till_of_cong:
  "db_branchStock s' = db_branchStock s \<Longrightarrow> db_stockMovement s' = db_stockMovement s \<Longrightarrow> db_sale s' = db_sale s
    \<Longrightarrow> till_of s' = till_of s"
  by (simp add: till_of_def stock_at_def moved_at_def moves_for_def)

section \<open>Well-formed tables\<close>

definition key_ok :: "uid \<Rightarrow> uid option \<Rightarrow> bool" where
  "key_ok p v \<longleftrightarrow> uid_ok p \<and> vid_ok v"

definition rows_ok :: "db \<Rightarrow> bool" where
  "rows_ok s \<longleftrightarrow> stock_ok s \<and> (\<forall>r \<in> set (db_branchStock s). key_ok (bs_productId r) (bs_variantId r))"

definition move_ok :: "stock_movement_row \<Rightarrow> bool" where
  "move_ok m \<longleftrightarrow> key_ok (mv_productId m) (mv_variantId m) \<and> \<bar>mv_qtyDelta m\<bar> < 10 ^ 10"

definition shop_ok :: "db \<Rightarrow> bool" where
  "shop_ok s \<longleftrightarrow> rows_ok s \<and> (\<forall>m \<in> set (db_stockMovement s). move_ok m) \<and> distinct (map r_id (db_sale s))
    \<and> (\<forall>m \<in> set (db_stockMovement s). mv_type m = Mv_sale \<longrightarrow> live m \<and>
         (\<exists>r \<in> set (db_sale s). r_id r = mv_refId m \<and> sl_branchId r = mv_branchId m))"

lemma shop_ok_cong:
  assumes "db_branchStock s' = db_branchStock s" "db_stockMovement s' = db_stockMovement s" "db_sale s' = db_sale s"
  shows "shop_ok s' = shop_ok s"
  using assms by (simp add: shop_ok_def rows_ok_def stock_ok_def)

lemma shop_sale_move:
  assumes "shop_ok s" "m \<in> set (db_stockMovement s)" "mv_type m = Mv_sale"
  obtains r where "r \<in> set (db_sale s)" "r_id r = mv_refId m" "sl_branchId r = mv_branchId m" "live m"
  using assms unfolding shop_ok_def by blast

lemma shop_ok_stock:
  assumes "shop_ok s" shows "wf_stock br s" "wf_moves s" "distinct (map r_id (db_branchStock s))"
proof -
  have ok: "stock_ok s" and key: "\<forall>r \<in> set (db_branchStock s). key_ok (bs_productId r) (bs_variantId r)"
    using assms by (simp_all add: shop_ok_def rows_ok_def)
  have "distinct (map row_key (filter (\<lambda>r. bs_branchId r = br \<and> live r) rows))"
    if "distinct (map level_key (filter live rows))" "\<forall>r \<in> set rows. key_ok (bs_productId r) (bs_variantId r)" for rows
    using that
  proof (induction rows)
    case (Cons x xs)
    have "row_key x \<noteq> row_key y" if "y \<in> set xs" "live y" "live x" "bs_branchId y = br" "bs_branchId x = br" for y
      using Cons.prems that keyOf_inj [of "bs_productId x" "bs_productId y" "bs_variantId x" "bs_variantId y"]
      by (auto simp: row_key_def key_ok_def level_key_def image_iff)
    with Cons show ?case by (auto split: if_splits)
  qed simp
  with ok key show "wf_stock br s" by (auto simp: wf_stock_def stock_ok_def list_all_iff key_ok_def)
  show "wf_moves s" using assms by (auto simp: shop_ok_def wf_moves_def list_all_iff move_ok_def)
  show "distinct (map r_id (db_branchStock s))" using ok by (simp add: stock_ok_def)
qed

section \<open>What a successful step establishes\<close>

text \<open>
  Inside a transaction only the successful outcome is ever seen by others: \<open>okeeps P m\<close> says
  that \<open>m\<close>, when it succeeds, leads from \<open>P\<close> to \<open>P\<close>.
\<close>

named_theorems okeeps_intros

definition okeeps :: "(db \<Rightarrow> bool) \<Rightarrow> (db, exn, 'a) op \<Rightarrow> bool" where
  "okeeps P m \<longleftrightarrow> (\<forall>s x s'. m s = (Inr x, s') \<longrightarrow> P s \<longrightarrow> P s')"

lemma okeepsD: "okeeps P m \<Longrightarrow> m s = (Inr x, s') \<Longrightarrow> P s \<Longrightarrow> P s'"
  by (auto simp: okeeps_def)

lemma okeeps_keeps: "keeps P m \<Longrightarrow> okeeps P m"
  unfolding okeeps_def keeps_def by (metis snd_conv)

lemma okeeps_pure: "pure_op m \<Longrightarrow> okeeps P m"
  by (rule okeeps_keeps, rule pure_op_keeps)

lemma okeeps_bind [okeeps_intros]:
  "okeeps P m \<Longrightarrow> (\<And>x. okeeps P (f x)) \<Longrightarrow> okeeps P (bind m f)"
  unfolding okeeps_def bind_eq_Inr by blast

lemma okeeps_if [okeeps_intros]: "(b \<Longrightarrow> okeeps P m) \<Longrightarrow> (\<not> b \<Longrightarrow> okeeps P n) \<Longrightarrow> okeeps P (if b then m else n)"
  by simp

lemma okeeps_option [okeeps_intros]:
  "(x = None \<Longrightarrow> okeeps P m) \<Longrightarrow> (\<And>y. x = Some y \<Longrightarrow> okeeps P (f y)) \<Longrightarrow> okeeps P (case x of None \<Rightarrow> m | Some y \<Rightarrow> f y)"
  by (cases x) simp_all

lemma okeeps_let [okeeps_intros]: "okeeps P (f x) \<Longrightarrow> okeeps P (let y = x in f y)"
  by simp

lemma okeeps_prod [okeeps_intros]: "(\<And>a b. okeeps P (f a b)) \<Longrightarrow> okeeps P (case_prod f x)"
  by (cases x) simp

lemma okeeps_for_each [okeeps_intros]: "(\<And>x. x \<in> set xs \<Longrightarrow> okeeps P (f x)) \<Longrightarrow> okeeps P (for_each xs f)"
  by (induction xs) (simp_all add: okeeps_bind okeeps_pure)

lemma okeeps_map_op [okeeps_intros]: "(\<And>x. x \<in> set xs \<Longrightarrow> okeeps P (f x)) \<Longrightarrow> okeeps P (map_op f xs)"
  by (induction xs) (simp_all add: okeeps_bind okeeps_pure)

lemma okeeps_reading [okeeps_intros]:
  "okeeps P (ret x)" "okeeps P (throw e)" "okeeps P (reads g)" "okeeps P (lift_res r)" "okeeps P (guard b e)"
  "okeeps P now" "okeeps P (scoped_findFirst ctx t p)" "okeeps P (scoped_findMany ctx t p)"
  by (auto intro: okeeps_pure okeeps_keeps keeps_intros)

lemma keeps_prod [keeps_intros]: "(\<And>a b. keeps P (f a b)) \<Longrightarrow> keeps P (case_prod f x)"
  by (cases x) simp

subsection \<open>The stock table\<close>

lemma raw_update_stock_ok:
  assumes ok: "stock_ok s" and u: "raw_update branchStock_t i f s = (Inr u, s')" and f: "\<And>r. r_id (f r) = r_id r"
  shows "stock_ok s'"
proof -
  let ?rows = "db_branchStock s"
  from u obtain r where r: "find (\<lambda>r. r_id r = i) ?rows = Some r" "u = (f r)\<lparr> r_updatedAt := db_now s \<rparr>"
    and c: "tb_ok branchStock_t (filter (\<lambda>q. r_id q \<noteq> i) ?rows) u = None"
    and s': "db_branchStock s' = upd_rows (\<lambda>q. r_id q = i) (\<lambda>_. u) ?rows"
    by (auto simp: raw_update_def Let_def branchStock_t_def split: option.splits)
  have id: "r_id u = i" using find_SomeD [OF r(1)] f by (simp add: r(2))
  have ids: "map r_id (upd_rows (\<lambda>q. r_id q = i) (\<lambda>_. u) rows) = map r_id rows" for rows
    using id by (induction rows) auto
  have check: "0 \<le> bs_qty u" "bs_qty u < 10 ^ 10"
    "live u \<Longrightarrow> \<forall>q \<in> set (filter (\<lambda>q. r_id q \<noteq> i) ?rows). live q \<longrightarrow> level_key q \<noteq> level_key u"
    using c by (auto simp: branchStock_t_def column_check_def numeric10_3_def unique_ok_def level_key_def split: if_splits)
  have d: "distinct (map r_id ?rows)" "distinct (map level_key (filter live ?rows))" using ok by (simp_all add: stock_ok_def)
  have "distinct (map level_key (filter live (upd_rows (\<lambda>q. r_id q = i) (\<lambda>_. u) rows)))"
    if "distinct (map r_id rows)" "distinct (map level_key (filter live rows))" "set rows \<subseteq> set ?rows" for rows
    using that
  proof (induction rows)
    case (Cons x xs)
    then have IH: "distinct (map level_key (filter live (upd_rows (\<lambda>q. r_id q = i) (\<lambda>_. u) xs)))"
      by (auto split: if_splits)
    show ?case
    proof (cases "r_id x = i")
      case True
      then have "i \<notin> r_id ` set xs" using Cons.prems(1) by auto
      then have same: "upd_rows (\<lambda>q. r_id q = i) (\<lambda>_. u) xs = xs" unfolding upd_rows_def by (intro map_idI) auto
      have "level_key u \<notin> level_key ` set (filter live xs)" if "live u"
        using check(3) [OF that] Cons.prems(3) \<open>i \<notin> r_id ` set xs\<close> by force
      then show ?thesis using True IH by (auto simp: same)
    next
      case False
      have "level_key x \<noteq> level_key y" if "live x" "y \<in> set (upd_rows (\<lambda>q. r_id q = i) (\<lambda>_. u) xs)" "live y" for y
      proof (cases "y = u \<and> (\<exists>q \<in> set xs. r_id q = i)")
        case True
        then show ?thesis using check(3) that False Cons.prems(3) by auto
      next
        case f: False
        then have "y \<in> set xs" using that(2) by (auto simp: upd_rows_def split: if_splits)
        then show ?thesis using Cons.prems(2) that by (auto simp: image_iff)
      qed
      then show ?thesis using False IH by auto
    qed
  qed simp
  note keys = this [OF d order_refl]
  have "distinct (map r_id (db_branchStock s'))" unfolding s' ids by (rule d(1))
  moreover have "\<forall>r \<in> set (db_branchStock s'). 0 \<le> bs_qty r \<and> bs_qty r < 10 ^ 10"
    using ok check(1,2) by (auto simp: s' upd_rows_def stock_ok_def)
  ultimately show ?thesis using keys by (simp add: stock_ok_def s')
qed

lemma rows_scope: "policeCreateData base ctx branchStock_t sc r = Inr r0 \<Longrightarrow>
    bs_productId r0 = bs_productId r \<and> bs_variantId r0 = bs_variantId r"
  by (auto simp: policeCreateData_def policeCreateRefs_def branchStock_t_def split: if_splits option.splits scope_col.splits)

lemma audited_tables [simp]:
  "db_stockMovement (audited a s) = db_stockMovement s" "db_sale (audited a s) = db_sale s"
  by (simp_all add: audited_def)

lemma rows_ok_cong: "db_branchStock s' = db_branchStock s \<Longrightarrow> rows_ok s' = rows_ok s"
  by (simp add: rows_ok_def stock_ok_def)

lemma okeeps_rows_create:
  assumes "key_ok (bs_productId r) (bs_variantId r)"
  shows "okeeps rows_ok (scoped_create ctx branchStock_t sc r)"
  unfolding okeeps_def
proof (intro allI impI)
  fix s x s' assume run: "scoped_create ctx branchStock_t sc r s = (Inr x, s')" and ok: "rows_ok s"
  from run [unfolded scoped_create_Inr] obtain r0 s1 where
    pol: "policeCreateData (base_db ctx s) ctx branchStock_t sc r = Inr r0"
    and ins: "raw_insert branchStock_t r0 s = (Inr x, s1)" and s': "db_branchStock s' = db_branchStock s1"
    by auto
  have "stock_ok s1" using raw_insert_stock_ok [OF _ ins] ok by (simp add: rows_ok_def)
  moreover from branchStock_tb.raw_insert_cases [OF ins] have
    "\<exists>y. db_branchStock s1 = db_branchStock s @ [y] \<and> bs_productId y = bs_productId r \<and> bs_variantId y = bs_variantId r"
    using rows_scope [OF pol] by (auto simp: branchStock_t_def)
  ultimately have "rows_ok s1" using ok assms by (auto simp: rows_ok_def)
  then show "rows_ok s'" using rows_ok_cong [OF s'] by simp
qed

lemma okeeps_rows_update:
  assumes f: "\<And>r. r_id (f r) = r_id r \<and> bs_productId (f r) = bs_productId r \<and> bs_variantId (f r) = bs_variantId r"
  shows "okeeps rows_ok (scoped_update ctx branchStock_t p f)"
  unfolding okeeps_def
proof (intro allI impI)
  fix s x s' assume run: "scoped_update ctx branchStock_t p f s = (Inr x, s')" and ok: "rows_ok s"
  from run [unfolded scoped_update_Inr] obtain i s1 where
    u: "raw_update branchStock_t i f s = (Inr x, s1)" and s': "db_branchStock s' = db_branchStock s1"
    by auto
  have "stock_ok s1" using raw_update_stock_ok [OF _ u] ok f by (simp add: rows_ok_def)
  moreover from branchStock_tb.raw_update_cases [OF u] obtain r where
    "find (\<lambda>r. r_id r = i) (db_branchStock s) = Some r" "x = (f r)\<lparr> r_updatedAt := db_now s \<rparr>"
    "db_branchStock s1 = upd_rows (\<lambda>q. r_id q = i) (\<lambda>_. x) (db_branchStock s)"
    by (auto simp: branchStock_t_def)
  then have "\<forall>y \<in> set (db_branchStock s1). key_ok (bs_productId y) (bs_variantId y)"
    using ok f find_SomeD by (fastforce simp: rows_ok_def upd_rows_def)
  ultimately show "rows_ok s'" using rows_ok_cong [OF s'] by (simp add: rows_ok_def)
qed

lemma framed_rows [simp]:
  "framed rows_ok sale_t" "framed rows_ok stockMovement_t" "framed rows_ok terminal_t" "framed rows_ok saleItem_t"
  "framed rows_ok salePayment_t" "framed rows_ok user_t" "framed rows_ok product_t" "framed rows_ok productVariant_t"
  "framed rows_ok stockBatch_t"
  by (simp_all add: framed_def table_defs user_t_def rows_ok_def stock_ok_def)

lemma framed_tx [simp]:
  "framed (tx_of b) stockMovement_t" "framed (tx_of b) product_t" "framed (tx_of b) productVariant_t"
  "framed (tx_of b) stockBatch_t"
  by (simp_all add: framed_def table_defs tx_of_def)

subsection \<open>Rows that stay\<close>

lemma same_level_row_trans: "same_level_row q r \<Longrightarrow> same_level_row r t \<Longrightarrow> same_level_row q t"
  by (simp add: same_level_row_def)

lemma okeeps_tx_create: "okeeps (tx_of b) (scoped_create ctx branchStock_t sc r)"
  unfolding okeeps_def
proof (intro allI impI)
  fix s x s' assume run: "scoped_create ctx branchStock_t sc r s = (Inr x, s')" and tx: "tx_of b s"
  from run [unfolded scoped_create_Inr] obtain r0 s1 where
    ins: "raw_insert branchStock_t r0 s = (Inr x, s1)" and s': "db_branchStock s' = db_branchStock s1"
    by auto
  from branchStock_tb.raw_insert_cases [OF ins] have
    "\<exists>y. db_branchStock s1 = db_branchStock s @ [y] \<and> r_id y \<notin> r_id ` set (db_branchStock s)"
    by (auto simp: branchStock_t_def)
  then show "tx_of b s'" using tx by (auto simp: tx_of_def s')
qed

lemma okeeps_tx_update:
  assumes f: "\<And>r. same_level_row r (f r)"
  shows "okeeps (tx_of b) (scoped_update ctx branchStock_t p f)"
  unfolding okeeps_def
proof (intro allI impI)
  fix s x s' assume run: "scoped_update ctx branchStock_t p f s = (Inr x, s')" and tx: "tx_of b s"
  have d: "distinct (map r_id (db_branchStock s))" using tx by (simp add: tx_of_def)
  from run [unfolded scoped_update_Inr] obtain i s1 where
    u: "raw_update branchStock_t i f s = (Inr x, s1)" and s': "db_branchStock s' = db_branchStock s1"
    by auto
  from branchStock_tb.raw_update_cases [OF u] obtain r where r:
    "find (\<lambda>r. r_id r = i) (db_branchStock s) = Some r" "x = (f r)\<lparr> r_updatedAt := db_now s \<rparr>"
    "db_branchStock s' = upd_rows (\<lambda>q. r_id q = i) (\<lambda>_. x) (db_branchStock s)"
    using s' by (auto simp: branchStock_t_def)
  have x: "r_id x = i" "same_level_row r x" using f [of r] find_SomeD [OF r(1)] by (auto simp: r(2) same_level_row_def)
  have "\<exists>y \<in> set (db_branchStock s'). same_level_row q y" if q: "q \<in> set (db_branchStock s)" for q
  proof (cases "r_id q = i")
    case True
    then have "q = r" using find_distinct_key [OF d q] r(1) by auto
    then show ?thesis using x q True by (auto simp: r(3) upd_rows_def intro!: bexI [of _ x])
  next
    case False
    then show ?thesis using q by (auto simp: r(3) upd_rows_def same_level_row_def)
  qed
  moreover have "map r_id (db_branchStock s') = map r_id (db_branchStock s)" using x by (simp add: r(3) upd_rows_def)
  ultimately show "tx_of b s'" using tx unfolding tx_of_def by (metis same_level_row_trans)
qed

subsection \<open>The movements\<close>

text \<open>Movements are only ever added; those that do not belong to a sale's own taking are plain.\<close>

definition plain_from :: "stock_movement_row list \<Rightarrow> db \<Rightarrow> bool" where
  "plain_from M s \<longleftrightarrow> (\<exists>ms. db_stockMovement s = M @ ms \<and> (\<forall>m \<in> set ms. mv_type m \<noteq> Mv_sale \<and> move_ok m))"

lemma plain_from_refl: "plain_from (db_stockMovement s) s"
  by (simp add: plain_from_def)

lemma plain_from_cong: "db_stockMovement s' = db_stockMovement s \<Longrightarrow> plain_from M s' = plain_from M s"
  by (simp add: plain_from_def)

lemma okeeps_plain_create:
  assumes m: "mv_type r \<noteq> Mv_sale" "key_ok (mv_productId r) (mv_variantId r)"
  shows "okeeps (plain_from M) (scoped_create ctx stockMovement_t sc r)"
  unfolding okeeps_def
proof (intro allI impI)
  fix s x s' assume run: "scoped_create ctx stockMovement_t sc r s = (Inr x, s')" and p: "plain_from M s"
  from run [unfolded scoped_create_Inr] obtain r0 s1 where
    pol: "policeCreateData (base_db ctx s) ctx stockMovement_t sc r = Inr r0"
    and ins: "raw_insert stockMovement_t r0 s = (Inr x, s1)" and s': "db_stockMovement s' = db_stockMovement s1"
    by auto
  have r0: "mv_type r0 = mv_type r \<and> mv_productId r0 = mv_productId r \<and> mv_variantId r0 = mv_variantId r"
    using pol by (auto simp: policeCreateData_def policeCreateRefs_def stockMovement_t_def split: if_splits option.splits scope_col.splits)
  from ins have "db_stockMovement s1 = db_stockMovement s @ [x] \<and> numeric10_3 (mv_qtyDelta x)
      \<and> mv_type x = mv_type r0 \<and> mv_productId x = mv_productId r0 \<and> mv_variantId x = mv_variantId r0"
    by (auto simp: raw_insert_def Let_def stockMovement_t_def column_check_def split: if_splits option.splits)
  with p r0 m s' show "plain_from M s'"
    by (auto simp: plain_from_def move_ok_def numeric10_3_def)
qed

lemma framed_plain [simp]:
  "framed (plain_from M) sale_t" "framed (plain_from M) branchStock_t" "framed (plain_from M) terminal_t"
  "framed (plain_from M) user_t" "framed (plain_from M) product_t" "framed (plain_from M) productVariant_t"
  "framed (plain_from M) stockBatch_t"
  by (simp_all add: framed_def table_defs user_t_def plain_from_def)

section \<open>Advancing\<close>

text \<open>The movements and the audit log are histories: they only grow.\<close>

definition history :: "db \<Rightarrow> db \<Rightarrow> bool" where
  "history s s' \<longleftrightarrow> audit_from (db_auditLog s) s' \<and> (\<exists>ms. db_stockMovement s' = db_stockMovement s @ ms)"

lemma history_trans: "history s t \<Longrightarrow> history t u \<Longrightarrow> history s u"
  by (auto simp: history_def audit_from_def)

text \<open>What every request may rely on about the requests before it.\<close>

definition advances :: "db \<Rightarrow> till_event list \<Rightarrow> db \<Rightarrow> bool" where
  "advances s es s' \<longleftrightarrow> shop_ok s' \<and> till_run es (till_of s) (till_of s') \<and> tx_of s s' \<and> history s s'"

lemma advances_trans: "advances s es t \<Longrightarrow> advances t fs u \<Longrightarrow> advances s (es @ fs) u"
  unfolding advances_def tx_of_def till_run_append
  by (auto intro: history_trans) (meson same_level_row_trans)

lemma advances_frame:
  assumes "shop_ok s" "db_branchStock s' = db_branchStock s" "db_stockMovement s' = db_stockMovement s"
    "db_sale s' = db_sale s" "audit_from (db_auditLog s) s'"
  shows "advances s [] s'"
  using assms shop_ok_cong [OF assms(2,3,4)] till_of_cong [OF assms(2,3,4)] tx_of_refl [of s] tx_of_cong [OF assms(2)]
    shop_ok_stock(3) by (simp add: advances_def history_def)

lemma advances_refl: "shop_ok s \<Longrightarrow> advances s [] s"
  by (rule advances_frame) (simp_all add: audit_from_def)

lemma advances_ok: "advances s es s' \<Longrightarrow> shop_ok s'"
  by (simp add: advances_def)

lemma advances_tx: "advances s es t \<Longrightarrow> tx_of s t"
  by (simp add: advances_def)

end
