(* ===== verification/TillSteps.thy ===== *)
theory TillSteps
  imports Till VoidRefund StockClaims
begin

text \<open>
  What each request that touches stock does to a well-formed shop: a completed sale, a
  void or a refund, a delivery and a count, each as the one step of the till machine that its
  own arguments name.
\<close>

section \<open>Writes inside a transaction\<close>

lemma okeeps_fresh [okeeps_intros]:
  "okeeps rows_ok fresh_id" "okeeps (plain_from M) fresh_id" "okeeps (tx_of b) fresh_id"
  by (auto simp: okeeps_def rows_ok_def stock_ok_def plain_from_def tx_of_def)

lemma okeeps_putLevel:
  assumes "key_ok p v"
  shows "okeeps rows_ok (putLevel ctx br p v e f)" "okeeps (plain_from M) (putLevel ctx br p v e f)"
    "okeeps (tx_of b) (putLevel ctx br p v e f)"
proof -
  show "okeeps (tx_of b) (putLevel ctx br p v e f)"
    unfolding putLevel_def
    by (intro okeeps_intros okeeps_tx_create okeeps_tx_update) (simp add: same_level_row_def)
  show "okeeps rows_ok (putLevel ctx br p v e f)"
    unfolding putLevel_def
    by (intro okeeps_intros okeeps_rows_create okeeps_rows_update) (simp_all add: level_row_def assms)
  show "okeeps (plain_from M) (putLevel ctx br p v e f)"
    by (rule okeeps_keeps, rule framed_putLevel) simp
qed

lemma okeeps_restoreOne:
  assumes "key_ok (mv_productId m) (mv_variantId m)" "ty \<noteq> Mv_sale"
  shows "okeeps rows_ok (restoreOne ctx i ty m)" "okeeps (plain_from M) (restoreOne ctx i ty m)"
proof -
  have "okeeps rows_ok (restoreLevel ctx m e)" for e
    unfolding restoreLevel_def
    by (intro okeeps_intros okeeps_rows_create okeeps_rows_update) (simp_all add: assms)
  then show "okeeps rows_ok (restoreOne ctx i ty m)"
    unfolding restoreOne_def by (intro okeeps_intros okeeps_keeps [OF framed_movement]) simp_all
  have "okeeps (plain_from M) (createMovement ctx b (mv_productId m) (mv_variantId m) ty i d)" for b d
    unfolding createMovement_def
    by (intro okeeps_intros okeeps_plain_create) (simp_all add: movement_row_def assms)
  then show "okeeps (plain_from M) (restoreOne ctx i ty m)"
    unfolding restoreOne_def by (intro okeeps_intros okeeps_keeps [OF framed_restoreLevel]) simp_all
qed

lemma okeeps_receiveLine:
  assumes "key_ok (rl_productId l) (rl_variantId l)"
  shows "okeeps rows_ok (receiveLine ctx branch oid l)" "okeeps (plain_from M) (receiveLine ctx branch oid l)" "okeeps (tx_of b) (receiveLine ctx branch oid l)"
proof -
  show "okeeps rows_ok (receiveLine ctx branch oid l)"
    unfolding receiveLine_def addToLevel_def findLevel_def
    by (intro okeeps_intros okeeps_putLevel okeeps_keeps [OF framed_scoped_create] okeeps_keeps [OF framed_cost_batch]
        okeeps_pure [OF pure_loadProduct]) (simp_all add: assms)
  show "okeeps (tx_of b) (receiveLine ctx branch oid l)"
    unfolding receiveLine_def addToLevel_def findLevel_def
    by (intro okeeps_intros okeeps_putLevel okeeps_keeps [OF framed_scoped_create] okeeps_keeps [OF framed_cost_batch]
        okeeps_pure [OF pure_loadProduct]) (simp_all add: assms)
  show "okeeps (plain_from M) (receiveLine ctx branch oid l)"
    unfolding receiveLine_def addToLevel_def findLevel_def
    by (intro okeeps_intros okeeps_putLevel okeeps_plain_create okeeps_keeps [OF framed_cost_batch]
        okeeps_pure [OF pure_loadProduct]) (simp_all add: assms receive_movement_def movement_row_def)
qed

lemma okeeps_receiveBody:
  assumes "\<forall>l \<in> set ls. key_ok (rl_productId l) (rl_variantId l)"
  shows "okeeps rows_ok (receiveBody br oid ls ctx)" "okeeps (plain_from M) (receiveBody br oid ls ctx)"
    "okeeps (tx_of b) (receiveBody br oid ls ctx)"
  unfolding receiveBody_def using assms
  by (intro okeeps_intros okeeps_receiveLine okeeps_pure [OF pure_assertBranch]; simp)+

lemma okeeps_adjustBody:
  assumes "key_ok (aj_productId d) (aj_variantId d)"
  shows "okeeps rows_ok (adjustBody br d ctx)" "okeeps (plain_from M) (adjustBody br d ctx)" "okeeps (tx_of b) (adjustBody br d ctx)"
proof -
  show "okeeps rows_ok (adjustBody br d ctx)"
    unfolding adjustBody_def findLevel_def Let_def
    by (intro okeeps_intros okeeps_putLevel okeeps_keeps [OF framed_scoped_create]
        okeeps_pure [OF pure_loadProduct] okeeps_pure [OF pure_assertBranch]) (simp_all add: assms)
  show "okeeps (tx_of b) (adjustBody br d ctx)"
    unfolding adjustBody_def findLevel_def Let_def
    by (intro okeeps_intros okeeps_putLevel okeeps_keeps [OF framed_scoped_create]
        okeeps_pure [OF pure_loadProduct] okeeps_pure [OF pure_assertBranch]) (simp_all add: assms)
  show "okeeps (plain_from M) (adjustBody br d ctx)"
    unfolding adjustBody_def findLevel_def Let_def
    by (intro okeeps_intros okeeps_putLevel okeeps_plain_create
        okeeps_pure [OF pure_loadProduct] okeeps_pure [OF pure_assertBranch])
      (simp_all add: assms adjust_movement_def movement_row_def)
qed

section \<open>The audit log through a request\<close>

lemma audit_movement: "keeps (audit_from L) (createMovement ctx br p v ty ref d)"
  unfolding createMovement_def by (intro keeps_intros stockMovement_tb.audit_grows)

lemma audit_sale: "keeps (audit_from L) (persist dto totals costs br tm ctx)"
proof -
  have lock: "keeps (audit_from L) (lockStock br pids)" for pids
    by (intro keepsI) (metis lockStock_pure prod.collapse)
  have nested: "keeps (audit_from L) (nestedSale dto totals costs r)" for r
    unfolding nestedSale_def createItem_def createPayment_def
    by (intro keeps_intros saleItem_tb.audit_grows salePayment_tb.audit_grows)
  show ?thesis
    unfolding persist_def decrementLevel_def createSale_def saleMovement_def bumpReceiptSeq_def Let_def
    by (intro keeps_intros lock nested audit_movement branchStock_tb.audit_grows sale_tb.audit_grows terminal_tb.audit_grows)
qed

lemma audit_restore: "keeps (audit_from L) (restoreStock ctx i ty)"
  unfolding restoreStock_def restoreOne_def restoreLevel_def
  by (intro keeps_intros audit_movement branchStock_tb.audit_grows)

lemma audit_locked: "keeps (audit_from L) (lockSale i br)"
  by (auto simp: lockSale_def intro!: keeps_intros)

lemma audit_touched_log: "keeps (audit_from L) (auditNested ctx ct touched base)"
  unfolding auditNested_def audit_touched_def
  by (intro keeps_intros) (auto split: touched_op.split intro!: keeps_intros)

lemma audit_update_touched:
  "(\<And>r. keeps (audit_from L) (nested r)) \<Longrightarrow> (\<And>b. keeps (audit_from L) (audits b)) \<Longrightarrow>
    (\<And>i. keeps (audit_from L) (raw_update t i f)) \<Longrightarrow> keeps (audit_from L) (scoped_update_touched ctx t p f nested audits)"
  unfolding scoped_update_touched_def update_body_def by (intro keeps_intros)

lemma audit_batch: "keeps (audit_from L) (applyCostAndBatch ctx product l)"
proof -
  have cost: "keeps (audit_from L) (nestedCost l c p)" for c p
    unfolding nestedCost_def nested_update_def
    by (auto intro!: keeps_intros productVariant_tb.audit_grows split: option.split)
  have batch: "keeps (audit_from L) (nestedBatch l c p)" for c p
    unfolding nestedBatch_def nested_create_def by (intro keeps_intros stockBatch_tb.audit_grows)
  show ?thesis
    unfolding applyCostAndBatch_def
    by (intro keeps_intros audit_update_touched audit_touched_log cost batch product_tb.audit_grows)
qed

lemma audit_putLevel: "keeps (audit_from L) (putLevel ctx br p v e f)"
  unfolding putLevel_def by (intro keeps_intros branchStock_tb.audit_grows)

lemma audit_receive: "keeps (audit_from L) (receiveBody br oid ls ctx)"
proof -
  show ?thesis
    unfolding receiveBody_def receiveLine_def addToLevel_def findLevel_def
    by (intro keeps_intros audit_putLevel audit_batch stockMovement_tb.audit_grows
        pure_op_keeps [OF pure_loadProduct] pure_op_keeps [OF pure_assertBranch])
qed

lemma audit_adjust: "keeps (audit_from L) (adjustBody br d ctx)"
proof -
  show ?thesis
    unfolding adjustBody_def findLevel_def Let_def
    by (intro keeps_intros audit_putLevel stockMovement_tb.audit_grows
        pure_op_keeps [OF pure_loadProduct] pure_op_keeps [OF pure_assertBranch])
qed

lemma audit_pin: "keeps (audit_from L) (verifyPinWithLockout verify ctx ow pin)"
  unfolding verifyPinWithLockout_def assertNotLocked_def recordFailure_def recordSuccess_def writePinFailureAudit_def Let_def
  by (intro keeps_intros user_tb.audit_grows)

section \<open>A sale\<close>

lemma kept_row:
  "list_all2 (\<lambda>r r'. same_level_row r r' \<and> Q r r') xs ys \<Longrightarrow> r \<in> set xs \<Longrightarrow> \<exists>r' \<in> set ys. same_level_row r r'"
  by (induction rule: list_all2_induct) auto

lemma line_taken_nonneg: "\<forall>l \<in> set ls. qty_ok l \<Longrightarrow> 0 \<le> line_taken ls p v"
  unfolding line_taken_def by (intro sum_list_nonneg) (auto simp: qty_ok_def intro: less_imp_le)

lemma stock_at_nonneg: "rows_ok s \<Longrightarrow> 0 \<le> stock_at b p v s"
  unfolding stock_at_def by (intro sum_list_nonneg) (auto simp: rows_ok_def stock_ok_def)

lemma moves_of_append: "moves_of p v b (xs @ ys) = moves_of p v b xs + moves_of p v b ys"
  by (simp add: moves_of_def)

lemma no_moves: "shop_ok s \<Longrightarrow> find (\<lambda>r. r_id r = i) (db_sale s) = None \<Longrightarrow> moves_for i s = []"
  unfolding shop_ok_def moves_for_def filter_empty_conv find_None_iff by blast

lemma own_moves_ok:
  assumes "list_all2 (movement_of br i) ls ms" "\<forall>l \<in> set ls. line_ids_ok l \<and> qty_ok l" "m \<in> set ms"
  shows "move_ok m" "mv_type m = Mv_sale" "mv_refId m = i" "mv_branchId m = br" "live m"
proof -
  have "\<exists>l \<in> set ls. movement_of br i l m" using assms(1,3) by (induction rule: list_all2_induct) auto
  then obtain l where l: "l \<in> set ls" "movement_of br i l m" by blast
  then have "line_ids_ok l" "0 < line_milli l" "line_milli l \<le> 10 ^ 9" using assms(2) by (auto simp: qty_ok_def)
  with l show "move_ok m" "mv_type m = Mv_sale" "mv_refId m = i" "mv_branchId m = br" "live m"
    by (auto simp: movement_of_def move_ok_def key_ok_def line_ids_ok_def)
qed

lemma sale_rows_ok:
  assumes ok: "shop_ok s" and t: "terminal_of ctx br tm biz"
    and new: "find (\<lambda>r. r_id r = sd_id dto) (db_sale s) = None"
    and run: "persist dto totals costs br tm (in_tx ctx s) s = (Inr sale, s')"
  shows "rows_ok s'"
proof -
  from persist_steps [OF run new] obtain W ids s1 created s2 s3 where st:
    "for_each W (decrementLevel (in_tx ctx s) ids) s = (Inr (), s1)"
    "createSale (in_tx ctx s) dto totals costs br tm s1 = (Inr created, s2)"
    "for_each (tracked_lines dto) (saleMovement (in_tx ctx s) br (r_id created)) s2 = (Inr (), s3)"
    "bumpReceiptSeq tm (sd_receiptNo dto) s3 = (Inr (), s')"
    by metis
  have "okeeps rows_ok (for_each W (decrementLevel (in_tx ctx s) ids))"
    unfolding decrementLevel_def by (intro okeeps_intros okeeps_rows_update) simp
  from okeepsD [OF this st(1)] ok have "rows_ok s1" by (simp add: shop_ok_def)
  then show ?thesis using rows_ok_cong [OF after_stock [OF st(2,3,4)]] by simp
qed

text \<open>What a sale of these lines takes at its branch.\<close>

definition taken_of :: "uid \<Rightarrow> cart_line list \<Rightarrow> key \<Rightarrow> int" where
  "taken_of br ls = (\<lambda>(b, p, v). if b = br then line_taken ls p v else 0)"

lemma sale_advances:
  assumes ok: "shop_ok s" and t: "terminal_of ctx br tm biz" and b: "basket_ok (sd_lines dto)"
    and new: "find (\<lambda>r. r_id r = sd_id dto) (db_sale s) = None"
    and run: "persist dto totals costs br tm (in_tx ctx s) s = (Inr sale, s')"
  shows "advances s [Sold (sd_id dto) (taken_of br (sd_lines dto))] s'"
proof -
  note wf = shop_ok_stock [OF ok]
  have on: "on_branch (in_tx ctx s) br" using t by simp
  note row = persist_row(1) [OF t new run] and lev = persist_stock_at [OF wf(1) b new run]
    and mov = persist_moved_at [OF b on new run]
  obtain ms where ms: "db_stockMovement s' = db_stockMovement s @ ms"
      "list_all2 (movement_of br (sd_id dto)) (tracked_lines dto) ms"
    using persist_moves [OF b on new run] by blast
  have lines: "\<forall>l \<in> set (tracked_lines dto). line_ids_ok l \<and> qty_ok l" "\<forall>l \<in> set (tracked_lines dto). is_tracked l"
    using b by (auto simp: tracked_lines_def basket_ok_def list_all_iff)
  note own = own_moves_ok [OF ms(2) lines(1)]
  let ?row = "buildSaleRow (db_now s) dto totals br tm"
  have id: "r_id ?row = sd_id dto" "sl_branchId ?row = br" "sl_status ?row = Completed"
    by (simp_all add: buildSaleRow_def)
  have rows: "rows_ok s'" by (rule sale_rows_ok [OF ok t new run])
  have "sd_id dto \<notin> r_id ` set (db_sale s)" using new by (auto simp: find_None_iff)
  then have shop: "shop_ok s'"
    using ok rows own id by (auto simp: shop_ok_def row ms(1))
  let ?q = "taken_of br (sd_lines dto)"
  let ?a = "till_of s"
  have none: "sd_id dto \<notin> tl_returned ?a" "tl_sold ?a (sd_id dto) = (\<lambda>_. 0)"
    using \<open>sd_id dto \<notin> r_id ` set (db_sale s)\<close> no_moves [OF ok new] by (auto simp: till_of_def fun_eq_iff)
  have "\<forall>l \<in> set (sd_lines dto). qty_ok l" using b by (simp add: basket_ok_def list_all_iff)
  then have q: "\<forall>k. 0 \<le> ?q k \<and> ?q k \<le> tl_level ?a k"
    using line_taken_nonneg lev stock_at_nonneg [OF rows] stock_at_nonneg [of s] ok
    by (auto simp: till_of_def shop_ok_def taken_of_def)
  have sold: "moves_for j s' = moves_for j s @ (if j = sd_id dto then ms else [])" for j
    using own by (auto simp: moves_for_def ms(1) filter_empty_conv filter_id_conv)
  have sum: "moves_of p v c ms = (if c = br then - line_taken (sd_lines dto) p v else 0)" for p v c
    using own_moves_sum [OF ms(2) lines(2), of p v c] by (simp add: tracked_lines_def line_taken_tracked)
  have "till_of s' = ?a\<lparr> tl_level := \<lambda>k. tl_level ?a k - ?q k,
      tl_moved := \<lambda>k. tl_moved ?a k - ?q k, tl_sold := (tl_sold ?a)(sd_id dto := ?q) \<rparr>"
    using none(2) id(3)
    by (auto simp: till_of_def fun_eq_iff taken_of_def lev mov sold sum moves_of_append row no_moves [OF ok new])
  then have step: "till_step (Sold (sd_id dto) ?q) ?a (till_of s')" using till_step.sell [OF none q] by simp
  have "tx_of s s'"
    using kept_row [OF persist_stock [OF wf(1) b new run]] rows
    by (auto simp: tx_of_def rows_ok_def stock_ok_def)
  moreover have "audit_from (db_auditLog s) s'"
    using keepsD [OF audit_sale, of "db_auditLog s" s dto totals costs br tm "in_tx ctx s"] run by (simp add: audit_from_def)
  ultimately show ?thesis using shop step ms(1) by (auto simp: advances_def history_def)
qed

section \<open>Giving a sale back\<close>

lemma sale_moves_own:
  assumes ok: "shop_ok s" and t: "terminal_of ctx br tm biz"
    and r: "find (\<lambda>r. r_id r = i \<and> sl_branchId r = br \<and> live r) (db_sale s) = Some r"
  shows "sale_moves ctx i s = moves_for i s"
proof -
  note r' = find_SomeD [OF r]
  have d: "distinct (map r_id (db_sale s))" using ok by (simp add: shop_ok_def)
  have "visible ctx stockMovement_t False s m"
    if m: "m \<in> set (db_stockMovement s)" "mv_refId m = i" "mv_type m = Mv_sale" for m
  proof -
    obtain q where "q \<in> set (db_sale s)" "r_id q = i" "sl_branchId q = mv_branchId m" "live m"
      using shop_sale_move [OF ok m(1,3)] m(2) by auto
    moreover from this have "mv_branchId m = br" using same_id_same_row [OF d, of q r] r' by auto
    ultimately show ?thesis using t
      by (auto simp: visible_def in_scope_def tenantWhereFor_def terminal_of_def is_terminal_def stockMovement_t_def)
  qed
  then show ?thesis unfolding sale_moves_def moves_for_def by (intro filter_cong refl) auto
qed

lemma give_back_advances:
  assumes ok: "shop_ok s" and t: "terminal_of ctx br tm biz"
    and r: "find (\<lambda>r. r_id r = i \<and> sl_branchId r = br \<and> live r) (db_sale s) = Some r" "sl_status r = Completed"
    and u: "scoped_update (in_tx ctx s) sale_t (\<lambda>r. r_id r = i) f s = (Inr after, s1)"
    and rs: "restoreStock (in_tx ctx s) i ty s1 = (Inr (), s')"
    and f: "\<And>r. r_id (f r) = r_id r \<and> sl_branchId (f r) = sl_branchId r \<and> sl_status (f r) \<noteq> Completed"
    and ty: "ty \<noteq> Mv_sale"
  shows "advances s [Gave_back i] s'"
proof -
  note wf = shop_ok_stock [OF ok] and fr = sale_update_frame [OF u]
  have d: "distinct (map r_id (db_sale s))" using ok by (simp add: shop_ok_def)
  note r' = find_SomeD [OF r(1)]
  note lev = restoreStock_Inr [OF t rs fr wf(3,2), unfolded sale_moves_own [OF ok t r(1)]]
  have for_each: "for_each (moves_for i s) (restoreOne (in_tx ctx s) i ty) s1 = (Inr (), s')"
    using rs sale_moves_own [OF ok t r(1)]
    by (auto simp: restoreStock_def bind_eq_Inr findMany_Inr base_db_def sale_moves_def stockMovement_t_def)
  have keys: "key_ok (mv_productId m) (mv_variantId m)" if "m \<in> set (moves_for i s)" for m
    using ok that by (auto simp: shop_ok_def moves_for_def move_ok_def)
  have "okeeps P (for_each (moves_for i s) (restoreOne (in_tx ctx s) i ty))"
    if "P = rows_ok \<or> P = plain_from (db_stockMovement s)" for P
    using that okeeps_restoreOne [OF keys ty] by (auto intro: okeeps_intros)
  note kept = okeepsD [OF this for_each]
  have rows: "rows_ok s'" and plain: "plain_from (db_stockMovement s) s'"
    using kept ok fr rows_ok_cong [OF fr(1)] plain_from_refl [of s] plain_from_cong [OF fr(2), of "db_stockMovement s"]
    by (auto simp: shop_ok_def)
  obtain ms where ms: "db_stockMovement s' = db_stockMovement s @ ms" "\<forall>m \<in> set ms. mv_type m \<noteq> Mv_sale \<and> move_ok m"
    using plain by (auto simp: plain_from_def)
  obtain q where q: "find (\<lambda>r. r_id r = i) (db_sale s) = Some q" "after = (f q)\<lparr> r_updatedAt := db_now s \<rparr>"
      "db_sale s' = upd_rows (\<lambda>q. r_id q = i) (\<lambda>_. after) (db_sale s)"
    using sale_update_rows [OF u rs _] f by auto
  have "q = r" using find_distinct_key [OF d, of r] r' q(1) by auto
  note q = q [unfolded this]
  have after: "r_id after = i" "sl_branchId after = br" "sl_status after \<noteq> Completed"
    using f [of r] r' by (simp_all add: q(2))
  have sale: "(\<exists>x \<in> set (db_sale s'). P x) \<longleftrightarrow> P after \<or> (\<exists>x \<in> set (db_sale s). r_id x \<noteq> i \<and> P x)" for P
    using r' by (auto simp: q(3) upd_rows_def)
  have ids: "map r_id (db_sale s') = map r_id (db_sale s)" using after(1) by (simp add: q(3) upd_rows_def)
  have refs: "live m \<and> (\<exists>x \<in> set (db_sale s'). r_id x = mv_refId m \<and> sl_branchId x = mv_branchId m)"
    if m: "m \<in> set (db_stockMovement s)" "mv_type m = Mv_sale" for m
  proof -
    obtain x where x: "x \<in> set (db_sale s)" "r_id x = mv_refId m" "sl_branchId x = mv_branchId m" "live m"
      using shop_sale_move [OF ok m] by auto
    show ?thesis
    proof (cases "r_id x = i")
      case True
      then have "x = r" using same_id_same_row [OF d x(1), of r] r' by auto
      then show ?thesis using x after r' unfolding sale by auto
    next
      case False
      then show ?thesis using x unfolding sale by auto
    qed
  qed
  have shop: "shop_ok s'" using ok rows refs ms d unfolding shop_ok_def ids by (auto simp: ms(1))
  let ?a = "till_of s"
  have "\<And>x. x \<in> set (db_sale s) \<Longrightarrow> r_id x = i \<Longrightarrow> x = r" using same_id_same_row [OF d] r' by blast
  then have open_: "i \<notin> tl_returned ?a" using r(2) by (auto simp: till_of_def)
  have moves: "moves_for j s' = moves_for j s" for j using ms by (auto simp: moves_for_def filter_empty_conv)
  have "x \<in> tl_returned (till_of s') \<longleftrightarrow> x \<in> insert i (tl_returned ?a)" for x
    using after sale [of "\<lambda>r. r_id r = x \<and> sl_status r \<noteq> Completed"] by (auto simp: till_of_def)
  then have "till_of s' = ?a\<lparr> tl_level := \<lambda>k. tl_level ?a k + tl_sold ?a i k,
      tl_moved := \<lambda>k. tl_moved ?a k + tl_sold ?a i k, tl_returned := insert i (tl_returned ?a) \<rparr>"
    using lev by (auto simp: till_of_def moves fun_eq_iff)
  then have step: "till_step (Gave_back i) ?a (till_of s')" using till_step.give_back [OF open_] by simp
  have "okeeps (tx_of s) (for_each (moves_for i s) (restoreOne (in_tx ctx s) i ty))"
  proof (rule okeeps_for_each)
    fix m assume m: "m \<in> set (moves_for i s)"
    then have "m \<in> set (sale_moves ctx i s)" using sale_moves_own [OF ok t r(1)] by simp
    then have "on_branch (in_tx ctx s) (mv_branchId m)" using t
      by (auto simp: sale_moves_def on_branch_def visible_def in_scope_def tenantWhereFor_def terminal_of_def is_terminal_def
          stockMovement_t_def)
    moreover have "\<bar>mv_qtyDelta m\<bar> < 10 ^ 10" using ok m by (auto simp: shop_ok_def moves_for_def move_ok_def)
    ultimately show "okeeps (tx_of s) (restoreOne (in_tx ctx s) i ty m)"
      using restoreOne_Inr(1) [where base = s] by (auto simp: okeeps_def)
  qed
  from okeepsD [OF this for_each] have "tx_of s s'" using tx_of_refl [OF wf(3)] tx_of_cong [OF fr(1)] by simp
  moreover have "audit_from (db_auditLog s) s1"
    using keepsD [OF sale_tb.audit_update, of "db_auditLog s" s "in_tx ctx s" "\<lambda>r. r_id r = i" f] u by (simp add: audit_from_def)
  then have "audit_from (db_auditLog s) s'" using keepsD [OF audit_restore, of _ s1 "in_tx ctx s" i ty] rs by simp
  ultimately show ?thesis using shop step ms(1) by (auto simp: advances_def history_def)
qed

section \<open>A delivery and a count\<close>

text \<open>What the two bodies share: rows and movements stay well-formed and no sale is touched.\<close>

lemma plain_advances:
  assumes ok: "shop_ok s" and run: "m s = (Inr x, s')"
    and keep: "okeeps rows_ok m" "okeeps (plain_from (db_stockMovement s)) m" "okeeps (tx_of s) m"
    and sale: "keeps (\<lambda>u. db_sale u = db_sale s) m" and log: "keeps (audit_from (db_auditLog s)) m"
    and step: "till_step e (till_of s) ((till_of s)\<lparr> tl_level := tl_level (till_of s'), tl_moved := tl_moved (till_of s') \<rparr>)"
  shows "advances s [e] s'"
proof -
  have rows: "rows_ok s'" and tx: "tx_of s s'" and plain: "plain_from (db_stockMovement s) s'"
    using okeepsD [OF keep(1) run] okeepsD [OF keep(2) run] okeepsD [OF keep(3) run] ok shop_ok_stock(3) [OF ok]
    by (simp_all add: shop_ok_def tx_of_refl plain_from_refl)
  have sales: "db_sale s' = db_sale s" using keepsD [OF sale, of s] run by simp
  obtain ms where ms: "db_stockMovement s' = db_stockMovement s @ ms" "\<forall>m \<in> set ms. mv_type m \<noteq> Mv_sale \<and> move_ok m"
    using plain by (auto simp: plain_from_def)
  have shop: "shop_ok s'" using ok rows ms by (auto simp: shop_ok_def sales)
  have "moves_for j s' = moves_for j s" for j using ms by (auto simp: moves_for_def filter_empty_conv)
  then have "till_of s' = (till_of s)\<lparr> tl_level := tl_level (till_of s'), tl_moved := tl_moved (till_of s') \<rparr>"
    by (simp add: till_of_def sales)
  with step have "till_step e (till_of s) (till_of s')" by simp
  moreover have "audit_from (db_auditLog s) s'" using keepsD [OF log, of s] run by (simp add: audit_from_def)
  ultimately show ?thesis using shop tx ms(1) by (auto simp: advances_def history_def)
qed

lemma received_nonneg: "receive_valid isUUID ls \<Longrightarrow> 0 \<le> received ls p v"
  unfolding received_def
  by (intro sum_list_nonneg) (auto simp: receive_valid_def receive_line_valid_def list_all_iff toFixed3_def not_less)

lemma framed_sale_catalog [simp]:
  "framed (\<lambda>s. db_sale s = X) product_t" "framed (\<lambda>s. db_sale s = X) productVariant_t" "framed (\<lambda>s. db_sale s = X) stockBatch_t"
  by (simp_all add: framed_def table_defs)

lemma sales_receive: "keeps (\<lambda>s. db_sale s = X) (receiveBody br oid ls ctx)"
proof -
  have f: "keeps (\<lambda>s. db_sale s = X) fresh_id" by (simp add: keeps_def)
  show ?thesis
    unfolding receiveBody_def receiveLine_def addToLevel_def findLevel_def
    by (intro keeps_intros f framed_putLevel framed_cost_batch framed_scoped_create
        pure_op_keeps [OF pure_loadProduct] pure_op_keeps [OF pure_assertBranch]) simp_all
qed

lemma sales_adjust: "keeps (\<lambda>s. db_sale s = X) (adjustBody br d ctx)"
proof -
  have f: "keeps (\<lambda>s. db_sale s = X) fresh_id" by (simp add: keeps_def)
  show ?thesis
    unfolding adjustBody_def findLevel_def Let_def
    by (intro keeps_intros f framed_putLevel framed_scoped_create
        pure_op_keeps [OF pure_loadProduct] pure_op_keeps [OF pure_assertBranch]) simp_all
qed

text \<open>What a delivery of these lines brings to its branch.\<close>

definition received_of :: "uid \<Rightarrow> receive_line list \<Rightarrow> key \<Rightarrow> int" where
  "received_of br ls = (\<lambda>(b, p, v). if b = br then received ls p v else 0)"

lemma receive_body_advances:
  assumes run: "receiveBody br oid ls (in_tx ctx s0) s = (Inr x, s')" and tx: "tx_of s0 s" and ok: "shop_ok s"
    and on: "on_branch ctx br" and valid: "receive_valid isUUID ls" and ids: "\<And>i. isUUID i \<Longrightarrow> uid_ok i"
  shows "advances s [Received (received_of br ls)] s'"
proof -
  obtain branch s1 ms where b: "assertBranch (in_tx ctx s0) br s = (Inr branch, s1)"
    and m: "map_op (receiveLine (in_tx ctx s0) branch oid) ls s1 = (Inr ms, s')"
    using run unfolding receiveBody_def by (auto simp: bind_eq_Inr)
  have b': "r_id branch = br" "s1 = s" using assertBranch_id [OF b] by auto
  have on': "on_branch (in_tx ctx s0) (r_id branch)" using on b' by (simp add: on_branch_def is_terminal_def)
  have eff: "stock_at b p v s' = stock_at b p v s + (if b = br then received ls p v else 0)"
    "moved_at b p v s' = moved_at b p v s + (if b = br then received ls p v else 0)" for b p v
    using receiveLines_Inr [OF m [unfolded b'(2)] tx _ on', of b p v] b'(1) by simp_all
  have "\<forall>l \<in> set ls. key_ok (rl_productId l) (rl_variantId l)"
    using valid ids by (auto simp: receive_valid_def receive_line_valid_def list_all_iff key_ok_def vid_ok_def uid_ok_def split: option.splits)
  note keep = okeeps_receiveBody [OF this]
  let ?q = "received_of br ls"
  have "\<forall>k. 0 \<le> ?q k" using received_nonneg [OF valid] by (auto simp: received_of_def)
  from till_step.goods_in [OF this, of "till_of s"]
  have "till_step (Received ?q) (till_of s) ((till_of s)\<lparr> tl_level := tl_level (till_of s'), tl_moved := tl_moved (till_of s') \<rparr>)"
    by (simp add: till_of_def received_of_def eff case_prod_unfold)
  then show ?thesis by (rule plain_advances [OF ok run keep sales_receive audit_receive])
qed

text \<open>
  A count reads the level before it takes the row: what the others changed between \<open>u\<close>, the state
  it read, and \<open>t\<close>, the state it writes to, is what its movement misses.
\<close>

definition counted_of :: "uid \<Rightarrow> adjust_dto \<Rightarrow> db \<Rightarrow> db \<Rightarrow> till_event" where
  "counted_of br d u t = (let p = aj_productId d; v = aj_variantId d in
     Counted (br, p, v) (toFixed3 (aj_newQty d)) (stock_at br p v t - stock_at br p v u))"

lemma adjust_body_advances:
  assumes run: "adjustBody br d (in_tx ctx u) t = (Inr x, t')" and tx: "tx_of u t" and ok: "shop_ok u" "shop_ok t"
    and on: "on_branch ctx br" and valid: "adjust_valid isUUID d" and ids: "\<And>i. isUUID i \<Longrightarrow> uid_ok i"
  shows "advances t [counted_of br d u t] t'"
proof -
  let ?p = "aj_productId d" and ?v = "aj_variantId d"
  obtain m where m: "aj_newQty d = milli_num m" "0 \<le> m" "m \<le> 10 ^ 9"
    using valid three_decimals_milli [of "aj_newQty d"] by (auto simp: adjust_valid_def milli_num_def)
  have put: "toFixed3 (aj_newQty d) = m" using m toFixed3_milli [of m] by simp
  have on': "on_branch (in_tx ctx u) br" using on by (simp add: on_branch_def is_terminal_def)
  have st: "stock_ok u" "stock_ok t" using ok by (simp_all add: shop_ok_def rows_ok_def)
  note eff = adjustBody_Inr [OF run tx _ on' st m]
  have "key_ok ?p ?v"
    using valid ids by (auto simp: adjust_valid_def key_ok_def vid_ok_def uid_ok_def split: option.splits)
  note keep = okeeps_adjustBody [OF this]
  have lev: "stock_at b p v t' = (if at_key br ?p ?v b p v then m else stock_at b p v t)" for b p v
    using eff(1) eff(2) [of b p v] by (auto simp: at_key_def)
  have mov: "moved_at b p v t' = moved_at b p v t + (if at_key br ?p ?v b p v then m - stock_at br ?p ?v u else 0)" for b p v
    using eff(2) [of b p v] eff(3) by (auto simp: at_key_def)
  have "till_step (counted_of br d u t) (till_of t) ((till_of t)\<lparr> tl_level := tl_level (till_of t'), tl_moved := tl_moved (till_of t') \<rparr>)"
    using till_step.count_to [OF m(2), of "(br, ?p, ?v)" "stock_at br ?p ?v t - stock_at br ?p ?v u" "till_of t"]
    by (simp add: till_of_def counted_of_def Let_def put lev mov at_key_def fun_upd_def case_prod_unfold prod_eq_iff if_distrib cong: if_cong)
  then show ?thesis by (rule plain_advances [OF ok(2) run keep sales_adjust audit_adjust])
qed

end
