(* ===== verification/System.thy ===== *)
theory System
  imports TillSteps ShiftFacts
begin

text \<open>
  The running shop: requests of any number of terminals and owners, one after the other, each
  seeing what the others committed between its own steps. The relation \<open>evolves\<close> lists what the
  requests did, in the order in which they took effect; the till machine, run over that list,
  explains the stock. Movements and audit entries stay, and so do stock rows.
\<close>

section \<open>The attempt that decides\<close>

text \<open>
  A retried request runs its transaction again when it lost a race for a new level. \<open>decided\<close> is
  the number of the attempt whose outcome the request returns, with the state its reads see;
  \<open>until fs n j\<close> is what the others did up to that attempt, \<open>fs k\<close> being what they did before
  attempt \<open>k\<close>.
\<close>

fun decided :: "(nat \<Rightarrow> db) \<Rightarrow> nat \<Rightarrow> ctx \<Rightarrow> (ctx \<Rightarrow> (db, exn, 'a) op) \<Rightarrow> db \<Rightarrow> nat \<times> db" where
  "decided e 0 ctx body s = (0, s)"
| "decided e (Suc k) ctx body s =
    (if fst (racing_tx (\<lambda>_. e (Suc k)) ctx body s) = Inl Unique_violation then decided e k ctx body (e (Suc k)) else (Suc k, s))"

definition until :: "(nat \<Rightarrow> till_event list) \<Rightarrow> nat \<Rightarrow> nat \<Rightarrow> till_event list" where
  "until fs n j = List.concat (map fs (rev [j..<Suc n]))"

lemma decided_le: "fst (decided e n ctx body s) \<le> n"
  by (induction n arbitrary: s) (auto simp: le_SucI)

lemma until_nil [simp]: "until (\<lambda>_. []) n j = []"
  unfolding until_def by (induction "rev [j..<Suc n]") simp_all

lemma until_Suc: "j \<le> n \<Longrightarrow> until fs (Suc n) j = fs (Suc n) @ until fs n j" "until fs n n = fs n"
  by (simp_all add: until_def)

section \<open>One request after another\<close>

text \<open>
  \<open>evolves isUUID verify s es s'\<close>: the database can go from \<open>s\<close> to \<open>s'\<close> by requests which did \<open>es\<close>.
  A request that checks before its transaction, or retries it, names the states other requests
  left in between, and these have evolved themselves. What a request did is fixed by the request
  and its answer: a sale that went through takes the quantities of its tracked lines, a void or a
  refund that went through gives back the sale it names, a delivery that went through brings the
  quantities of its lines, a count sets the level it was asked for, and it missed what the others
  changed between its read and its write. Requests that fail, sales that were there already, and
  shifts do nothing to the stock.
\<close>

inductive evolves :: "(string \<Rightarrow> bool) \<Rightarrow> (string \<Rightarrow> string \<Rightarrow> bool) \<Rightarrow> db \<Rightarrow> till_event list \<Rightarrow> db \<Rightarrow> bool"
  for isUUID verify where
  start: "evolves isUUID verify s [] s"
| time_passes: "evolves isUUID verify s0 es (s\<lparr> db_now := n, db_nextId := k \<rparr>)"
    if "evolves isUUID verify s0 es s" and "db_now s \<le> n" and "db_nextId s \<le> k"
| sale: "evolves isUUID verify s0 (es @ (case res of
        Inr (False, _) \<Rightarrow> fs @ (if \<exists>r \<in> set (db_sale t). r_id r = sd_id dto then [] else [Sold (sd_id dto) (taken_of br (sd_lines dto))])
      | _ \<Rightarrow> if s' = s then [] else fs)) s'"
    if "evolves isUUID verify s0 es s" and "evolves isUUID verify s fs t"
      and "terminal_of ctx br tm biz" and "draft_valid isUUID dto" and "List.length (sd_lines dto) \<le> 2 ^ 16"
      and "completeSale (\<lambda>_. t) ctx dto s = (res, s')"
| void: "evolves isUUID verify s0 (es @ (case res of Inr _ \<Rightarrow> [Gave_back i] | Inl _ \<Rightarrow> [])) s'"
    if "evolves isUUID verify s0 es s" and "terminal_of ctx br tm biz" and "voidSale ctx i reason s = (res, s')"
| refund: "evolves isUUID verify s0 (es @ (case res of Inr _ \<Rightarrow> [Gave_back i] | Inl _ \<Rightarrow> [])) s'"
    if "evolves isUUID verify s0 es s" and "terminal_of ctx br tm biz" and "refundSale verify ctx i reason pin s = (res, s')"
| duplicate_lines: "evolves isUUID verify s0 es s'"
    if "evolves isUUID verify s0 es s" and "assertNoDuplicateLines [] ls = Inl err" and "receive env ctx br ls s = (ans, s')"
| delivery: "evolves isUUID verify s0 (es @ until fs LEVEL_RETRIES j @ (case ans of Inr _ \<Rightarrow> [Received (received_of br ls)] | Inl _ \<Rightarrow> [])) s'"
    if "evolves isUUID verify s0 es s" and "evolves isUUID verify s (fs LEVEL_RETRIES) (e LEVEL_RETRIES)"
      and "\<forall>k < LEVEL_RETRIES. evolves isUUID verify (e (Suc k)) (fs k) (e k)"
      and "on_branch ctx br" and "receive_valid isUUID ls" and "assertNoDuplicateLines [] ls = Inr ()"
      and "receive (\<lambda>k _. e k) ctx br ls s = (ans, s')"
      and "fresh_id s = (Inr oid, t)" and "decided e LEVEL_RETRIES ctx (receiveBody br oid ls) t = (j, u)"
| count: "evolves isUUID verify s0 (es @ until fs LEVEL_RETRIES j @ (case out of Inr _ \<Rightarrow> [counted_of br d u (e j)] | Inl _ \<Rightarrow> [])) s'"
    if "evolves isUUID verify s0 es s" and "evolves isUUID verify s (fs LEVEL_RETRIES) (e LEVEL_RETRIES)"
      and "\<forall>k < LEVEL_RETRIES. evolves isUUID verify (e (Suc k)) (fs k) (e k)"
      and "on_branch ctx br" and "adjust_valid isUUID d" and "adjust (\<lambda>k _. e k) ctx br d s = (out, s')"
      and "decided e LEVEL_RETRIES ctx (adjustBody br d) s = (j, u)"
| open_shift: "evolves isUUID verify s0 es s'"
    if "evolves isUUID verify s0 es s" and "openNewShift ctx x s = (v, s')"
| cash: "evolves isUUID verify s0 es s'"
    if "evolves isUUID verify s0 es s" and "addCashMovement ctx ty x reason s = (cm, s')"
| close_shift: "evolves isUUID verify s0 es s'"
    if "evolves isUUID verify s0 es s" and "closeShift ctx x s = (z, s')"

section \<open>What each request does to a well-formed shop\<close>

lemma draft_basket:
  assumes "draft_valid isUUID dto" "List.length (sd_lines dto) \<le> 2 ^ 16" "\<And>i. isUUID i \<Longrightarrow> uid_ok i"
  shows "basket_ok (sd_lines dto)"
proof -
  have "line_ids_ok l \<and> qty_ok l" if "line_valid isUUID l" for l
    using that line_valid_qty_ok [OF that] assms(3)
    by (auto simp: line_valid_def line_ids_ok_def vid_ok_def uid_ok_def split: option.splits)
  then show ?thesis using assms(1,2) by (auto simp: basket_ok_def draft_valid_def list_all_iff)
qed

lemma persist_existing:
  assumes "persist dto totals costs br tm ctx u = (Inr sale, s')" "find (\<lambda>r. r_id r = sd_id dto) (db_sale u) = Some r"
  shows "s' = u"
proof -
  let ?L = "lockStock br (remdups (map (\<lambda>l. the (productId l)) (filter is_tracked (sd_lines dto))))"
  obtain p where "?L u = (p, u)" using lockStock_pure by (metis prod.collapse)
  then show ?thesis using assms
    by (auto simp: persist_def Let_def bind_def [of ?L] split: sum.splits)
qed

lemma saleTx_dup: "saleTx ctx dto totals costs br tm u = (Inr (True, sale), s') \<Longrightarrow> s' = u"
  unfolding saleTx_def catch_Inr bind_eq_Inl [of "runWithTxClient _ _"] runWithTxClient_Inl
  by (auto simp: bind_eq_Inr dest!: pure_op_result [OF pure_findSale] split: if_splits option.splits)

text \<open>A sale request changes the state of others at most by its own transaction.\<close>

lemma completeSale_cases:
  assumes t: "terminal_of ctx br tm biz" and run: "completeSale (\<lambda>_. u) ctx dto s = (res, s')"
  obtains "s' = s" "\<And>sale. res \<noteq> Inr (False, sale)" | "s' = u" "\<And>sale. res \<noteq> Inr (False, sale)"
    | sale r where "s' = u" "res = Inr (False, sale)" "find (\<lambda>r. r_id r = sd_id dto) (db_sale u) = Some r"
    | totals costs sale where "res = Inr (False, sale)" "find (\<lambda>r. r_id r = sd_id dto) (db_sale u) = None"
        "persist dto totals costs br tm (in_tx ctx u) u = (Inr sale, s')"
proof (cases res)
  case (Inl e)
  then show ?thesis using completeSale_failed [OF t run [unfolded Inl]] that by blast
next
  case (Inr p)
  obtain dup sale where p: "p = (dup, sale)" by (cases p)
  show ?thesis
  proof (cases dup)
    case False
    have "completeSale (\<lambda>_. u) ctx dto s = (Inr (False, sale), s')" using run by (simp add: Inr p False)
    from completeSale_fresh [OF t this] obtain totals costs where
      persist: "persist dto totals costs br tm (in_tx ctx u) u = (Inr sale, s')" by metis
    have res: "res = Inr (False, sale)" by (simp add: Inr p False)
    show ?thesis
    proof (cases "find (\<lambda>r. r_id r = sd_id dto) (db_sale u)")
      case None
      with res persist show ?thesis by (intro that(4))
    next
      case (Some r)
      with res persist_existing [OF persist Some] show ?thesis by (intro that(3))
    qed
  next
    case True
    have run': "completeSale (\<lambda>_. u) ctx dto s = (Inr (True, sale), s')" and res: "\<And>x. res \<noteq> Inr (False, x)"
      using run by (simp_all add: Inr p True)
    from run' [unfolded completeSale_terminal [OF t] bind_eq_Inr [of "findSale _ _"]] obtain ex s1 where
      f: "findSale ctx (sd_id dto) s = (Inr ex, s1)"
      and r: "(case ex of Some row \<Rightarrow> ret (True, assemble row)
        | None \<Rightarrow> bind (checkSale ctx biz tm dto) (\<lambda>(totals, costs).
            bind (modify (\<lambda>_. u)) (\<lambda>_. saleTx ctx dto totals costs br tm))) s1 = (Inr (True, sale), s')"
      by blast
    have s1: "s1 = s" by (rule pure_op_result [OF pure_findSale f])
    show ?thesis
    proof (cases ex)
      case (Some row)
      then show ?thesis using r s1 res by (intro that(1)) simp_all
    next
      case None
      then have "s' = u" using r
        by (auto simp: bind_eq_Inr [of "checkSale _ _ _ _"] dest!: saleTx_dup)
      then show ?thesis using res by (intro that(2))
    qed
  qed
qed

lemma sale_step:
  assumes ok: "shop_ok s" and "terminal_of ctx br tm biz" and "draft_valid isUUID dto" and "List.length (sd_lines dto) \<le> 2 ^ 16"
    and "completeSale (\<lambda>_. u) ctx dto s = (res, s')" and ids: "\<And>i. isUUID i \<Longrightarrow> uid_ok i"
    and su: "advances s fs u"
  shows "advances s (case res of
        Inr (False, _) \<Rightarrow> fs @ (if \<exists>r \<in> set (db_sale u). r_id r = sd_id dto then [] else [Sold (sd_id dto) (taken_of br (sd_lines dto))])
      | _ \<Rightarrow> if s' = s then [] else fs) s'"
proof -
  have other: "(case res of Inr (False, _) \<Rightarrow> es | _ \<Rightarrow> gs) = gs" if "\<And>sale. res \<noteq> Inr (False, sale)" for es gs :: "till_event list"
    using that by (auto split: sum.split bool.split)
  show ?thesis
  proof (cases rule: completeSale_cases [OF assms(2,5)])
    case 1
    then show ?thesis using advances_refl [OF ok] other by simp
  next
    case 2
    then show ?thesis using su advances_refl [OF ok] other by simp
  next
    case (3 sale r)
    then show ?thesis using su find_SomeD by fastforce
  next
    case (4 totals costs sale)
    then have "\<not> (\<exists>r \<in> set (db_sale u). r_id r = sd_id dto)" by (auto simp: find_None_iff)
    then show ?thesis
      using advances_trans [OF su sale_advances [OF advances_ok [OF su] assms(2) draft_basket [OF assms(3,4) ids] 4(2,3)]] 4(1) by simp
  qed
qed

lemma void_step:
  assumes ok: "shop_ok s" and t: "terminal_of ctx br tm biz" and run: "voidSale ctx i reason s = (res, s')"
  shows "advances s (case res of Inr _ \<Rightarrow> [Gave_back i] | Inl _ \<Rightarrow> []) s'"
proof (cases res)
  case (Inl e)
  then have "s' = s" using run by (auto simp: voidSale_terminal [OF t] runWithTxClient_Inl split: if_splits)
  then show ?thesis using advances_refl [OF ok] Inl by simp
next
  case (Inr sale)
  have "advances s [Gave_back i] s'"
    by (rule voidSale_Inr [OF t run [unfolded Inr]]) (erule give_back_advances [OF ok t], assumption+, simp_all)
  then show ?thesis by (simp add: Inr)
qed

lemma refund_step:
  assumes ok: "shop_ok s" and t: "terminal_of ctx br tm biz" and run: "refundSale verify ctx i reason pin s = (res, s')"
  shows "advances s (case res of Inr _ \<Rightarrow> [Gave_back i] | Inl _ \<Rightarrow> []) s'"
proof (cases "cx_ownerId ctx")
  case None
  then have "s' = s" "\<exists>e. res = Inl e" using run by (auto simp: refundSale_def)
  then show ?thesis using advances_refl [OF ok] by auto
next
  case (Some ow)
  let ?pin = "verifyPinWithLockout verify ctx ow pin"
  obtain v s0 where p: "?pin s = (v, s0)" by (cases "?pin s")
  have pinned: "advances s [] s0"
  proof (rule advances_frame [OF ok])
    show "db_branchStock s0 = db_branchStock s" "db_stockMovement s0 = db_stockMovement s" "db_sale s0 = db_sale s"
      using keeps_eq [of db_branchStock ?pin s, OF _ p] keeps_eq [of db_stockMovement ?pin s, OF _ p]
        keeps_eq [of db_sale ?pin s, OF _ p] by (simp_all add: framed_verifyPin)
    show "audit_from (db_auditLog s) s0"
      using keepsD [OF audit_pin, of "db_auditLog s" s verify ctx ow pin] p by (simp add: audit_from_def)
  qed
  have rest: "s' = s0 \<and> (\<exists>e. res = Inl e) \<or> (\<exists>sale. res = Inr sale \<and> refundBody i (trim reason) br tm (in_tx ctx s0) s0 = (Inr sale, s'))"
    using run unfolding refundSale_terminal [OF t Some]
    by (cases v; cases res) (auto simp: bind_def [of ?pin] p runWithTxClient_Inr runWithTxClient_Inl split: if_splits)
  have "advances s0 [Gave_back i] s'" if "refundBody i (trim reason) br tm (in_tx ctx s0) s0 = (Inr sale, s')" for sale
    by (rule refundBody_Inr [OF that]) (erule give_back_advances [OF advances_ok [OF pinned] t], assumption+, simp_all)
  with rest pinned advances_trans [OF pinned] show ?thesis by auto
qed

lemma retry_advances:
  assumes "withLevelCreateRetry (\<lambda>k _. e k) n ctx body s = (res, s')" and "shop_ok s"
    and "advances s (fs n) (e n)" and "\<And>k. k < n \<Longrightarrow> advances (e (Suc k)) (fs k) (e k)"
    and body: "\<And>u es t x t'. shop_ok u \<Longrightarrow> advances u es t \<Longrightarrow> body (in_tx ctx u) t = (Inr x, t') \<Longrightarrow> advances t [ev u t] t'"
    and "decided e n ctx body s = (j, u)"
  shows "advances s (until fs n j @ (case res of Inr _ \<Rightarrow> [ev u (e j)] | Inl _ \<Rightarrow> [])) s'"
  using assms(1-4,6)
proof (induction n arbitrary: s)
  case 0
  show ?case
  proof (cases res)
    case (Inl x)
    then show ?thesis using 0 by (simp add: racing_tx_def transaction_Inl until_Suc)
  next
    case (Inr x)
    then show ?thesis using 0 advances_trans [OF 0(3) body [OF 0(2,3), of x s']]
      by (simp add: racing_tx_def transaction_Inr until_Suc)
  qed
next
  case (Suc n)
  obtain r t where a: "racing_tx (\<lambda>_. e (Suc n)) ctx body s = (r, t)" by (cases "racing_tx (\<lambda>_. e (Suc n)) ctx body s")
  show ?case
  proof (cases r)
    case (Inr x)
    then have out: "t = s'" "res = Inr x" "j = Suc n" "u = s" using a Suc.prems(1,5) by (auto simp: catch_op_def split: if_splits)
    have "body (in_tx ctx s) (e (Suc n)) = (Inr x, t)" using a Inr by (simp add: racing_tx_def transaction_Inr)
    from advances_trans [OF Suc.prems(3) body [OF Suc.prems(2,3) this]] show ?thesis by (simp add: out until_Suc)
  next
    case (Inl err)
    then have t: "t = e (Suc n)" using a by (auto simp: racing_tx_def transaction_Inl)
    show ?thesis
    proof (cases "err = Unique_violation")
      case True
      then have again: "withLevelCreateRetry (\<lambda>k _. e k) n ctx body (e (Suc n)) = (res, s')"
          "decided e n ctx body (e (Suc n)) = (j, u)"
        using Suc.prems(1,5) a Inl t by (simp_all add: catch_op_def)
      then have j: "j \<le> n" using decided_le [of e n ctx body "e (Suc n)"] by simp
      from Suc.IH [OF again(1) advances_ok [OF Suc.prems(3)] _ _ again(2)] Suc.prems(4)
      have "advances (e (Suc n)) (until fs n j @ (case res of Inr _ \<Rightarrow> [ev u (e j)] | Inl _ \<Rightarrow> [])) s'" by simp
      from advances_trans [OF Suc.prems(3) this] show ?thesis by (simp add: until_Suc(1) [OF j])
    next
      case False
      then show ?thesis using Suc.prems(1,3,5) a Inl t by (auto simp: catch_op_def until_Suc)
    qed
  qed
qed

lemma delivery_step:
  assumes ok: "shop_ok s" and chain: "advances s (fs LEVEL_RETRIES) (e LEVEL_RETRIES)"
      "\<And>k. k < LEVEL_RETRIES \<Longrightarrow> advances (e (Suc k)) (fs k) (e k)"
    and on: "on_branch ctx br" and valid: "receive_valid isUUID ls" and ids: "\<And>i. isUUID i \<Longrightarrow> uid_ok i"
    and dup: "assertNoDuplicateLines [] ls = Inr ()" and run: "receive (\<lambda>k _. e k) ctx br ls s = (ans, s')"
    and d: "fresh_id s = (Inr oid, t)" "decided e LEVEL_RETRIES ctx (receiveBody br oid ls) t = (j, u)"
  shows "advances s (until fs LEVEL_RETRIES j @ (case ans of Inr _ \<Rightarrow> [Received (received_of br ls)] | Inl _ \<Rightarrow> [])) s'"
proof -
  have t: "t = s\<lparr> db_nextId := Suc (db_nextId s) \<rparr>" using d(1) by (simp add: fresh_id_def)
  have same: "shop_ok t" "till_of t = till_of s" "tx_of t = tx_of s"
    using ok shop_ok_cong [of t s] till_of_cong [of t s] by (auto simp: tx_of_def fun_eq_iff t)
  have eq: "advances t es z = advances s es z" for es z unfolding advances_def same history_def by (simp add: t)
  have r: "withLevelCreateRetry (\<lambda>k _. e k) LEVEL_RETRIES ctx (receiveBody br oid ls) t = (ans, s')"
    using run d(1) by (auto simp: receive_def bind_def [of fresh_id] dup)
  have "advances t (until fs LEVEL_RETRIES j @ (case ans of Inr _ \<Rightarrow> [(\<lambda>_ _. Received (received_of br ls)) u (e j)] | Inl _ \<Rightarrow> [])) s'"
    by (rule retry_advances [where fs = fs, OF r same(1) _ chain(2) _ d(2)])
      (use chain(1) eq receive_body_advances [OF _ advances_tx advances_ok on valid ids] in blast)+
  then show ?thesis by (simp add: eq)
qed

lemma count_step:
  assumes ok: "shop_ok s" and chain: "advances s (fs LEVEL_RETRIES) (e LEVEL_RETRIES)"
      "\<And>k. k < LEVEL_RETRIES \<Longrightarrow> advances (e (Suc k)) (fs k) (e k)"
    and on: "on_branch ctx br" and valid: "adjust_valid isUUID d" and ids: "\<And>i. isUUID i \<Longrightarrow> uid_ok i"
    and run: "adjust (\<lambda>k _. e k) ctx br d s = (out, s')" and j: "decided e LEVEL_RETRIES ctx (adjustBody br d) s = (j, u)"
  shows "advances s (until fs LEVEL_RETRIES j @ (case out of Inr _ \<Rightarrow> [counted_of br d u (e j)] | Inl _ \<Rightarrow> [])) s'"
proof (rule retry_advances [where fs = fs and ev = "counted_of br d", OF run [unfolded adjust_def] ok chain _ j])
  fix w es t x t' assume w: "shop_ok w" "advances w es t" and b: "adjustBody br d (in_tx ctx w) t = (Inr x, t')"
  show "advances t [counted_of br d w t] t'"
    by (rule adjust_body_advances [OF b advances_tx [OF w(2)] w(1) advances_ok [OF w(2)] on valid ids])
qed

text \<open>Requests about shifts write shifts, cash movements and audit rows only.\<close>

lemma framed_shift_tables [simp]:
  "framed (\<lambda>s. db_branchStock s = X) shift_t" "framed (\<lambda>s. db_stockMovement s = Y) shift_t" "framed (\<lambda>s. db_sale s = Z) shift_t"
  "framed (\<lambda>s. db_branchStock s = X) shiftCashMovement_t" "framed (\<lambda>s. db_stockMovement s = Y) shiftCashMovement_t"
  "framed (\<lambda>s. db_sale s = Z) shiftCashMovement_t"
  by (simp_all add: framed_def table_defs)

lemma shift_step:
  assumes ok: "shop_ok s" and run: "m s = (res, s')"
    and frame: "\<And>P :: db \<Rightarrow> bool. framed P shift_t \<Longrightarrow> framed P shiftCashMovement_t \<Longrightarrow> keeps P m"
    and log: "keeps (audit_from (db_auditLog s)) m"
  shows "advances s [] s'"
proof (rule advances_frame [OF ok])
  show "db_branchStock s' = db_branchStock s" "db_stockMovement s' = db_stockMovement s" "db_sale s' = db_sale s"
    using keeps_eq [of db_branchStock m s, OF frame run] keeps_eq [of db_stockMovement m s, OF frame run]
      keeps_eq [of db_sale m s, OF frame run] by simp_all
  show "audit_from (db_auditLog s) s'" using keepsD [OF log, of s] run by (simp add: audit_from_def)
qed

lemma shift_requests:
  assumes "framed P shift_t" "framed P shiftCashMovement_t"
  shows "keeps P (openNewShift ctx x)" "keeps P (addCashMovement ctx ty y reason)" "keeps P (closeShift ctx x)"
proof -
  have f: "keeps P fresh_id" by (rule framed_fresh [OF assms(1)])
  have nested: "keeps P (scoped_update_nested ctx shift_t p (\<lambda>r. r) (insertCashMovement i ty y why))" for p i why
    unfolding scoped_update_nested_def update_body_def insertCashMovement_def
    by (intro keeps_intros framed_update framed_insert framed_audit [OF assms(1)] assms)
  show "keeps P (openNewShift ctx x)"
    unfolding openNewShift_def createShift_def openShift_def
    by (auto intro!: keeps_intros f framed_scoped_create assms split: option.split prod.split)
  show "keeps P (addCashMovement ctx ty y reason)"
    unfolding addCashMovement_def findOpenShift_def by (intro keeps_intros f nested)
  show "keeps P (closeShift ctx x)"
    unfolding closeShift_def closeWith_def findOpenShift_def computeShiftTotals_def
    by (intro keeps_intros framed_scoped_update assms)
qed

lemma shift_log:
  "keeps (audit_from L) (openNewShift ctx x)" "keeps (audit_from L) (addCashMovement ctx ty y reason)"
  "keeps (audit_from L) (closeShift ctx x)"
proof -
  show "keeps (audit_from L) (openNewShift ctx x)"
    unfolding openNewShift_def createShift_def openShift_def
    by (auto intro!: keeps_intros shift_tb.audit_grows split: option.split prod.split)
  show "keeps (audit_from L) (addCashMovement ctx ty y reason)"
    unfolding addCashMovement_def findOpenShift_def insertCashMovement_def
    by (intro keeps_intros shift_tb.audit_grows shiftCashMovement_tb.audit_grows)
  show "keeps (audit_from L) (closeShift ctx x)"
    unfolding closeShift_def closeWith_def findOpenShift_def computeShiftTotals_def
    by (intro keeps_intros shift_tb.audit_grows)
qed

section \<open>The shop as a whole\<close>

lemma retry_chain:
  assumes "shop_ok s" "shop_ok s \<Longrightarrow> advances s (fs n) (e n)"
    and "\<forall>k < n. shop_ok (e (Suc k)) \<longrightarrow> advances (e (Suc k)) (fs k) (e k)"
  shows "advances s (fs n) (e n)" "k < n \<Longrightarrow> advances (e (Suc k)) (fs k) (e k)"
proof -
  show last: "advances s (fs n) (e n)" by (rule assms(2) [OF assms(1)])
  have "shop_ok (e i)" if "i \<le> n" for i
    using that
  proof (induction rule: inc_induct)
    case base
    then show ?case using advances_ok [OF last] .
  next
    case (step i)
    then show ?case using assms(3) advances_ok by blast
  qed
  then show "advances (e (Suc k)) (fs k) (e k)" if "k < n" using that assms(3) Suc_leI by blast
qed

lemma evolves_advances:
  assumes "evolves isUUID verify s0 es s" and ids: "\<And>i. isUUID i \<Longrightarrow> uid_ok i"
  shows "shop_ok s0 \<Longrightarrow> advances s0 es s"
  using assms(1)
proof (induction rule: evolves.induct)
  case (start s)
  then show ?case by (rule advances_refl)
next
  case (time_passes s0 es s n k)
  then have "advances s0 es s" by simp
  moreover have "advances s [] (s\<lparr> db_now := n, db_nextId := k \<rparr>)"
    by (rule advances_frame) (simp_all add: advances_ok [OF calculation] audit_from_def)
  ultimately show ?case using advances_trans by fastforce
next
  case (sale s0 es s fs t ctx br tm biz dto res s')
  then have s: "advances s0 es s" by simp
  note ok = advances_ok [OF this]
  from sale_step [OF ok sale.hyps(3-6) ids sale.IH(2) [OF ok]] show ?case by (rule advances_trans [OF s])
next
  case (void s0 es s ctx br tm biz i reason res s')
  then have s: "advances s0 es s" by simp
  from void_step [OF advances_ok [OF s] void.hyps(2,3)] show ?case by (rule advances_trans [OF s])
next
  case (refund s0 es s ctx br tm biz i reason pin res s')
  then have s: "advances s0 es s" by simp
  from refund_step [OF advances_ok [OF s] refund.hyps(2,3)] show ?case by (rule advances_trans [OF s])
next
  case (duplicate_lines s0 es s ls err env ctx br ans s')
  then show ?case by (auto simp: receive_def)
next
  case (delivery s0 es s fs e ctx br ls ans s' oid t j u)
  then have s: "advances s0 es s" by simp
  note ok = advances_ok [OF this]
  have "\<forall>k < LEVEL_RETRIES. shop_ok (e (Suc k)) \<longrightarrow> advances (e (Suc k)) (fs k) (e k)" using delivery.IH(3) by blast
  note c = retry_chain [where s = s and fs = fs and e = e, OF ok delivery.IH(2) this]
  from delivery_step [OF ok c(1) c(2) delivery.hyps(3,4) ids delivery.hyps(5-8)] show ?case by (rule advances_trans [OF s])
next
  case (count s0 es s fs e ctx br d out s' j u)
  then have s: "advances s0 es s" by simp
  note ok = advances_ok [OF this]
  have "\<forall>k < LEVEL_RETRIES. shop_ok (e (Suc k)) \<longrightarrow> advances (e (Suc k)) (fs k) (e k)" using count.IH(3) by blast
  note c = retry_chain [where s = s and fs = fs and e = e, OF ok count.IH(2) this]
  from count_step [OF ok c(1) c(2) count.hyps(3,4) ids count.hyps(5,6)] show ?case by (rule advances_trans [OF s])
next
  case (open_shift s0 es s ctx x v s')
  then have s: "advances s0 es s" by simp
  from shift_step [OF advances_ok [OF s] open_shift.hyps(2) shift_requests(1) shift_log(1)] show ?case using advances_trans [OF s] by fastforce
next
  case (cash s0 es s ctx ty x reason cm s')
  then have s: "advances s0 es s" by simp
  from shift_step [OF advances_ok [OF s] cash.hyps(2) shift_requests(2) shift_log(2)] show ?case using advances_trans [OF s] by fastforce
next
  case (close_shift s0 es s ctx x z s')
  then have s: "advances s0 es s" by simp
  from shift_step [OF advances_ok [OF s] close_shift.hyps(2) shift_requests(3) shift_log(3)] show ?case using advances_trans [OF s] by fastforce
qed

section \<open>A concrete evening\<close>

lemma hex_not_colon: "list_all is_hex s \<Longrightarrow> CHR '':'' \<notin> set s"
proof
  assume "list_all is_hex s" "CHR '':'' \<in> set s"
  then have "is_hex (CHR '':'')" by (simp add: list_all_iff)
  then show False by (simp add: is_hex_def)
qed

lemma hex_no_colon: "hex_groups ns s \<Longrightarrow> CHR '':'' \<notin> set s"
proof (induction ns s rule: hex_groups.induct)
  case (3 n m ns s)
  then have h: "list_all is_hex (take n s)" "case drop n s of [] \<Rightarrow> False | c # r \<Rightarrow> c = CHR ''-'' \<and> hex_groups (m # ns) r"
    by (simp_all only: hex_groups.simps)
  have "CHR '':'' \<notin> set (drop n s)"
  proof (cases "drop n s")
    case (Cons c r)
    with h(2) have "c = CHR ''-''" "hex_groups (m # ns) r" by (simp_all only: list.case)
    with 3(1) [OF Cons] show ?thesis unfolding Cons by simp
  qed simp
  with hex_not_colon [OF h(1)] have "CHR '':'' \<notin> set (take n s @ drop n s)" unfolding set_append by blast
  then show ?case unfolding append_take_drop_id .
qed (simp_all add: hex_not_colon)

lemma UUID_ok: "UUID_RE i \<Longrightarrow> uid_ok i"
  using hex_no_colon [of "[8, 4, 4, 4, 12]" i] by (auto simp: UUID_RE_def uid_ok_def)

definition fx_empty :: db where
  "fx_empty = fx_db\<lparr> db_branchStock := [] \<rparr>"

definition fx_stocked :: db where
  "fx_stocked = snd (receive (\<lambda>_ _. fx_empty) fx_owner_ctx ''br1'' fx_receive fx_empty)"

definition fx_evening :: db where
  "fx_evening = snd (completeSale (\<lambda>_. fx_stocked) fx_terminal_ctx fx_draft fx_stocked)"

text \<open>The count reads the level before the sale above commits, and writes after it.\<close>

definition fx_counted :: db where
  "fx_counted = snd (adjust (\<lambda>_ _. fx_evening) fx_owner_ctx ''br1'' fx_adjust fx_stocked)"

definition fx_events :: "till_event list" where
  "fx_events = [Received (received_of ''br1'' fx_receive), Sold (sd_id fx_draft) (taken_of ''br1'' (sd_lines fx_draft)),
     Counted (''br1'', ex_uuid ''04'', None) 3000 (- 750)]"

lemma fx_empty_ok: "shop_ok fx_empty"
  by (simp add: shop_ok_def rows_ok_def stock_ok_def fx_empty_def fx_db_def empty_db_def)

lemma fx_stocked_level: "stock_at ''br1'' (ex_uuid ''04'') None fx_stocked = 2500"
  by code_simp

lemma fx_count_to: "toFixed3 (aj_newQty fx_adjust) = 3000"
  by code_simp

lemma fx_stocked_evolves: "evolves UUID_RE fx_verify fx_empty [Received (received_of ''br1'' fx_receive)] fx_stocked"
proof -
  let ?e = "\<lambda>_ :: nat. fx_empty"
  have "case fst (receive (\<lambda>k _. ?e k) fx_owner_ctx ''br1'' fx_receive fx_empty) of Inl _ \<Rightarrow> False | Inr _ \<Rightarrow> True"
    by code_simp
  from run_Inr [OF this] obtain ans where r: "receive (\<lambda>k _. ?e k) fx_owner_ctx ''br1'' fx_receive fx_empty = (Inr ans, fx_stocked)"
    by (auto simp: fx_stocked_def)
  obtain oid t where f: "fresh_id fx_empty = (Inr oid, t)" by (simp add: fresh_id_def)
  obtain j u where d: "decided ?e LEVEL_RETRIES fx_owner_ctx (receiveBody ''br1'' oid fx_receive) t = (j, u)"
    by fastforce
  have dup: "assertNoDuplicateLines [] fx_receive = Inr ()" by code_simp
  show ?thesis
    using evolves.delivery [where fs = "\<lambda>_. []", OF evolves.start evolves.start _ fx_owner_on_branch fx_receive_valid dup r f d]
    by (simp add: evolves.start)
qed

lemma fx_sale_evolves:
  "evolves UUID_RE fx_verify fx_stocked [Sold (sd_id fx_draft) (taken_of ''br1'' (sd_lines fx_draft))] fx_evening"
proof -
  have "case fst (completeSale (\<lambda>_. fx_stocked) fx_terminal_ctx fx_draft fx_stocked) of Inr (False, _) \<Rightarrow> True | _ \<Rightarrow> False"
    by code_simp
  then obtain sale where r: "completeSale (\<lambda>_. fx_stocked) fx_terminal_ctx fx_draft fx_stocked = (Inr (False, sale), fx_evening)"
    by (cases "completeSale (\<lambda>_. fx_stocked) fx_terminal_ctx fx_draft fx_stocked")
      (auto simp: fx_evening_def split: sum.splits prod.splits bool.splits)
  have none: "\<not> (\<exists>r \<in> set (db_sale fx_stocked). r_id r = sd_id fx_draft)" by code_simp
  have v: "draft_valid UUID_RE fx_draft" by code_simp
  have l: "List.length (sd_lines fx_draft) \<le> 2 ^ 16" by (simp add: fx_draft_def ex_draft_def)
  show ?thesis
    using evolves.sale [OF evolves.start evolves.start fx_terminal v l r, where verify = fx_verify] none by simp
qed

lemma fx_evening_level: "stock_at ''br1'' (ex_uuid ''04'') None fx_evening = 1750"
proof -
  let ?k = "(''br1'', ex_uuid ''04'', None)"
  note ok = advances_ok [OF evolves_advances [OF fx_stocked_evolves UUID_ok fx_empty_ok]]
  have "till_run [Sold (sd_id fx_draft) (taken_of ''br1'' (sd_lines fx_draft))] (till_of fx_stocked) (till_of fx_evening)"
    using evolves_advances [OF fx_sale_evolves UUID_ok ok] by (simp add: advances_def)
  then have "tl_level (till_of fx_evening) ?k = tl_level (till_of fx_stocked) ?k - taken_of ''br1'' (sd_lines fx_draft) ?k"
    by (auto elim!: till_stepE)
  moreover have "taken_of ''br1'' (sd_lines fx_draft) ?k = 750" by code_simp
  ultimately show ?thesis using fx_stocked_level by (simp add: till_of_def)
qed

lemma fx_counted_evolves: "evolves UUID_RE fx_verify fx_empty fx_events fx_counted"
proof -
  let ?e = "\<lambda>_ :: nat. fx_evening" and ?body = "adjustBody ''br1'' fx_adjust"
  let ?sold = "[Sold (sd_id fx_draft) (taken_of ''br1'' (sd_lines fx_draft))]"
  have "case fst (racing_tx (\<lambda>_. fx_evening) fx_owner_ctx ?body fx_stocked) of Inl _ \<Rightarrow> False | Inr _ \<Rightarrow> True"
    by code_simp
  from run_Inr [OF this] obtain out w where tx: "racing_tx (\<lambda>_. fx_evening) fx_owner_ctx ?body fx_stocked = (Inr out, w)"
    by blast
  have r: "adjust (\<lambda>k _. ?e k) fx_owner_ctx ''br1'' fx_adjust fx_stocked = (Inr out, fx_counted)"
    by (simp add: fx_counted_def adjust_def LEVEL_RETRIES_def numeral_2_eq_2 catch_op_def tx)
  have d: "decided ?e LEVEL_RETRIES fx_owner_ctx ?body fx_stocked = (LEVEL_RETRIES, fx_stocked)"
    unfolding LEVEL_RETRIES_def numeral_2_eq_2 decided.simps tx by simp
  have v: "adjust_valid UUID_RE fx_adjust" by (rule fx_adjust_valid)
  have chain: "\<forall>k < LEVEL_RETRIES. evolves UUID_RE fx_verify (?e (Suc k)) ((\<lambda>k. if k = LEVEL_RETRIES then ?sold else []) k) (?e k)"
    by (simp add: evolves.start)
  have c: "counted_of ''br1'' fx_adjust fx_stocked fx_evening = Counted (''br1'', ex_uuid ''04'', None) 3000 (- 750)"
    using fx_stocked_level fx_evening_level fx_count_to by (simp add: counted_of_def Let_def fx_adjust_def)
  show ?thesis
    using evolves.count [OF fx_stocked_evolves _ chain fx_owner_on_branch v r d] fx_sale_evolves
    by (simp add: fx_events_def until_def c)
qed

lemma fx_events_run: "till_run fx_events a b \<Longrightarrow> tl_level b (''br1'', ex_uuid ''04'', None) = 3000"
  by (auto simp: fx_events_def elim!: till_stepE)

section \<open>The properties\<close>

text \<open>
  C2. Refinement. However the requests of the shop interleave (sales, voids, refunds, deliveries
  and counts that race each other, shifts), what they did is a run of the till machine from the
  stock before to the stock after: a sale that went through took exactly the quantities of its
  tracked lines and no more than was there, a void or refund that went through gave back exactly
  what that sale took and did so once, a delivery brought what its lines say, a count set the
  level it was asked for, and no other request moved anything. The run leaves the machine no
  choice, so the levels, the movements' sums, the quantities of every sale and the set of sales
  given back after the requests are the ones it computes.
\<close>

theorem requests_refine_till:
  assumes "evolves isUUID verify s0 es s" and "shop_ok s0" and "\<forall>i. isUUID i \<longrightarrow> uid_ok i"
  shows "till_run es (till_of s0) (till_of s) \<and> (\<forall>b. till_run es (till_of s0) b \<longrightarrow> b = till_of s)
    \<and> distinct (given_back es) \<and> set (given_back es) \<inter> tl_returned (till_of s0) = {}"
proof -
  have "till_run es (till_of s0) (till_of s)"
    using evolves_advances [OF assms(1) _ assms(2)] assms(3) by (simp add: advances_def)
  then show ?thesis using till_run_given_back till_run_unique by blast
qed

theorem requests_refine_till_witness:
  "till_run fx_events (till_of fx_empty) (till_of fx_counted) \<and> stock_at ''br1'' (ex_uuid ''04'') None fx_counted = 3000"
proof -
  have "till_run fx_events (till_of fx_empty) (till_of fx_counted)"
    using requests_refine_till [OF fx_counted_evolves fx_empty_ok] UUID_ok by blast
  with fx_events_run [OF this] show ?thesis by (simp add: till_of_def)
qed

text \<open>
  C3. The ledger and the levels: after any requests, racing counts included, the distance between
  a level and the sum of its movements is what it was before less what the counts missed, a
  count missing exactly what others changed between its read of the level and its write; so a
  ledger that balanced drifts by nothing else. No level is negative, and every stock row is still
  there under its branch, product and variant.
\<close>

theorem ledger_drifts_by_missed_counts:
  assumes "evolves isUUID verify s0 es s" and "shop_ok s0" and "\<forall>i. isUUID i \<longrightarrow> uid_ok i"
  shows "(\<forall>b p v. 0 \<le> stock_at b p v s
      \<and> stock_at b p v s - moved_at b p v s = stock_at b p v s0 - moved_at b p v s0 - missed_at es (b, p, v))
    \<and> (\<forall>r \<in> set (db_branchStock s0). \<exists>r' \<in> set (db_branchStock s). same_level_row r r')"
proof -
  have a: "advances s0 es s" using evolves_advances [OF assms(1) _ assms(2)] assms(3) by simp
  then have "rows_ok s" "tx_of s0 s" and run: "till_run es (till_of s0) (till_of s)"
    by (simp_all add: advances_def shop_ok_def)
  moreover have "stock_at b p v s - moved_at b p v s = stock_at b p v s0 - moved_at b p v s0 - missed_at es (b, p, v)" for b p v
    using till_run_gap [OF run, of "(b, p, v)"] by (simp add: till_of_def)
  ultimately show ?thesis using stock_at_nonneg [of s] by (simp add: tx_of_def)
qed

theorem ledger_drifts_by_missed_counts_witness:
  "stock_at ''br1'' (ex_uuid ''04'') None fx_counted - moved_at ''br1'' (ex_uuid ''04'') None fx_counted = 750"
proof -
  have "stock_at ''br1'' (ex_uuid ''04'') None fx_empty - moved_at ''br1'' (ex_uuid ''04'') None fx_empty = 0"
    by code_simp
  moreover have "missed_at fx_events (''br1'', ex_uuid ''04'', None) = - 750" by (simp add: fx_events_def)
  moreover have "stock_at ''br1'' (ex_uuid ''04'') None fx_counted - moved_at ''br1'' (ex_uuid ''04'') None fx_counted
      = stock_at ''br1'' (ex_uuid ''04'') None fx_empty - moved_at ''br1'' (ex_uuid ''04'') None fx_empty
        - missed_at fx_events (''br1'', ex_uuid ''04'', None)"
    using ledger_drifts_by_missed_counts [OF fx_counted_evolves fx_empty_ok] UUID_ok by blast
  ultimately show ?thesis by simp
qed

text \<open>
  C22. Nothing that happened is rewritten: the audit log and the stock movements of any later state
  begin with those of the earlier one, entry by entry, whatever requests ran, succeeded, failed or
  were rolled back in between.
\<close>

theorem histories_only_grow:
  assumes "evolves isUUID verify s0 es s" and "shop_ok s0" and "\<forall>i. isUUID i \<longrightarrow> uid_ok i"
  shows "(\<exists>as. db_auditLog s = db_auditLog s0 @ as) \<and> (\<exists>ms. db_stockMovement s = db_stockMovement s0 @ ms)"
proof -
  have "advances s0 es s" using evolves_advances [OF assms(1) _ assms(2)] assms(3) by simp
  then show ?thesis by (simp add: advances_def history_def audit_from_def)
qed

theorem histories_only_grow_witness:
  "\<exists>ms. db_stockMovement fx_counted = db_stockMovement fx_empty @ ms"
  using histories_only_grow [OF fx_counted_evolves fx_empty_ok] UUID_ok by blast

end
