(* ===== verification/Calendar.thy ===== *)
theory Calendar
  imports Errors
begin

text \<open>
  Business days: \<open>portal/analytics/scope/business-day.ts\<close> and what it uses of \<open>Date\<close>. An
  instant is its time value, in milliseconds since the epoch; a thrown \<open>Error\<close> is \<open>Inl\<close>.
  Calendar dates are the proleptic Gregorian ones of the language: day numbers from year,
  month and day of the month, and back. Every instant the program forms lies far inside the
  range of \<open>Date\<close> (the years of a date string have four digits), so none is invalid.
\<close>

section \<open>Days, months and years\<close>

definition DAY_MS :: int where "DAY_MS = 86400000"

definition MANILA_OFFSET_MINUTES :: int where "MANILA_OFFSET_MINUTES = 8 * 60"

definition leap_year :: "int \<Rightarrow> bool" where
  "leap_year y \<longleftrightarrow> (y mod 4 = 0 \<and> y mod 100 \<noteq> 0) \<or> y mod 400 = 0"

text \<open>The day number of the first of January, and of the first of a month within its year.\<close>

definition day_from_year :: "int \<Rightarrow> int" where
  "day_from_year y = 365 * (y - 1970) + (y - 1969) div 4 - (y - 1901) div 100 + (y - 1601) div 400"

definition MONTH_STARTS :: "int list" where
  "MONTH_STARTS = [0, 31, 59, 90, 120, 151, 181, 212, 243, 273, 304, 334, 365]"

definition month_start :: "bool \<Rightarrow> nat \<Rightarrow> int" where
  "month_start leap m = MONTH_STARTS ! m + (if leap \<and> 2 \<le> m then 1 else 0)"

text \<open>\<open>MakeDay\<close>: months are counted from 0, any month and day number is carried over.\<close>

definition make_day :: "int \<Rightarrow> int \<Rightarrow> int \<Rightarrow> int" where
  "make_day y m d = (let ym = y + m div 12 in day_from_year ym + month_start (leap_year ym) (nat (m mod 12)) + d - 1)"

text \<open>\<open>Date.UTC(y, m, d, 0, minutes)\<close>: a year below 100 is one of the twentieth century.\<close>

definition date_utc :: "int \<Rightarrow> int \<Rightarrow> int \<Rightarrow> int \<Rightarrow> time" where
  "date_utc y m d minutes =
    (let y' = (if 0 \<le> y \<and> y \<le> 99 then 1900 + y else y) in make_day y' m d * DAY_MS + minutes * 60000)"

lemma div_next:
  fixes a k :: int
  assumes "0 < k"
  shows "(a + 1) div k = a div k + (if (a + 1) mod k = 0 then 1 else 0)"
proof -
  define q r where "q = (a + 1) div k" and "r = (a + 1) mod k"
  have a: "a + 1 = k * q + r" and r: "0 \<le> r" "r < k" using assms by (simp_all add: q_def r_def)
  show ?thesis
  proof (cases "r = 0")
    case True
    have "a div k = q - 1" by (rule int_div_pos_eq [of a k "q - 1" "k - 1"]) (use a True assms in \<open>simp_all add: algebra_simps\<close>)
    with True show ?thesis by (simp add: q_def r_def)
  next
    case False
    have "a div k = q" by (rule int_div_pos_eq [of a k q "r - 1"]) (use a False r in simp_all)
    with False show ?thesis by (simp add: q_def r_def)
  qed
qed

lemma diff_mod_0: "c mod k = 0 \<Longrightarrow> (y - c) mod k = 0 \<longleftrightarrow> y mod k = 0" for y c k :: int
  by (simp add: mod_diff_eq [of y k c, symmetric])

lemma leap_years_counted:
  fixes y :: int
  shows
  "(y + 1 - 1969) div 4 = (y - 1969) div 4 + (if y mod 4 = 0 then 1 else 0)"
  "(y + 1 - 1901) div 100 = (y - 1901) div 100 + (if y mod 100 = 0 then 1 else 0)"
  "(y + 1 - 1601) div 400 = (y - 1601) div 400 + (if y mod 400 = 0 then 1 else 0)"
proof -
  have "y + 1 - 1969 = y - 1969 + 1" "y + 1 - 1901 = y - 1901 + 1" "y + 1 - 1601 = y - 1601 + 1" by simp_all
  moreover have "y - 1969 + 1 = y - 1968" "y - 1901 + 1 = y - 1900" "y - 1601 + 1 = y - 1600" by simp_all
  moreover have "(y - 1968) mod 4 = 0 \<longleftrightarrow> y mod 4 = 0" "(y - 1900) mod 100 = 0 \<longleftrightarrow> y mod 100 = 0"
    "(y - 1600) mod 400 = 0 \<longleftrightarrow> y mod 400 = 0" by (rule diff_mod_0; simp)+
  ultimately show "(y + 1 - 1969) div 4 = (y - 1969) div 4 + (if y mod 4 = 0 then 1 else 0)"
    "(y + 1 - 1901) div 100 = (y - 1901) div 100 + (if y mod 100 = 0 then 1 else 0)"
    "(y + 1 - 1601) div 400 = (y - 1601) div 400 + (if y mod 400 = 0 then 1 else 0)"
    using div_next [of 4 "y - 1969"] div_next [of 100 "y - 1901"] div_next [of 400 "y - 1601"] by (simp_all only: zero_less_numeral simp_thms)
qed

lemma day_from_year_next: "day_from_year (y + 1) = day_from_year y + (if leap_year y then 366 else 365)"
proof -
  have "y mod 400 = 0 \<Longrightarrow> y mod 100 = 0" "y mod 100 = 0 \<Longrightarrow> y mod 4 = 0"
    unfolding mod_eq_0_iff_dvd by (rule dvd_trans [of 100 400] dvd_trans [of 4 100], simp, assumption)+
  then show ?thesis
    unfolding day_from_year_def leap_year_def leap_years_counted by (simp split: if_splits)
qed

lemma day_from_year_less: "day_from_year y < day_from_year (y + 1)"
  by (simp add: day_from_year_next)

lemma day_from_year_mono: "y \<le> z \<Longrightarrow> day_from_year y \<le> day_from_year z"
proof (induction z rule: int_ge_induct)
  case (step i)
  then show ?case using day_from_year_less [of i] by simp
qed simp

text \<open>The year a day lies in, found by searching down from an estimate that is never too small.\<close>

function year_down :: "int \<Rightarrow> int \<Rightarrow> int" where
  "year_down y d = (if day_from_year y \<le> d then y else year_down (y - 1) d)"
  by pat_completeness auto
termination
proof (relation "measure (\<lambda>(y, d). nat (day_from_year y - d))")
  fix y d :: int
  assume "\<not> day_from_year y \<le> d"
  then show "((y - 1, d), (y, d)) \<in> measure (\<lambda>(y, d). nat (day_from_year y - d))"
    using day_from_year_less [of "y - 1"] by simp
qed simp

declare year_down.simps [simp del]

definition year_of_day :: "int \<Rightarrow> int" where
  "year_of_day d = year_down (1971 + d div (if 0 \<le> d then 365 else 366)) d"

definition month_of_day :: "bool \<Rightarrow> int \<Rightarrow> nat" where
  "month_of_day leap doy = List.length (filter (\<lambda>m. month_start leap m \<le> doy) [1..<12])"

definition date_of_day :: "int \<Rightarrow> int \<times> nat \<times> int" where
  "date_of_day n =
    (let y = year_of_day n; doy = n - day_from_year y; m = month_of_day (leap_year y) doy
     in (y, m, doy - month_start (leap_year y) m + 1))"

text \<open>A date of the calendar: month \<open>0\<close> to \<open>11\<close>, a day that month has.\<close>

definition real_date :: "int \<Rightarrow> nat \<Rightarrow> int \<Rightarrow> bool" where
  "real_date y m d \<longleftrightarrow> m < 12 \<and> 1 \<le> d \<and> d \<le> month_start (leap_year y) (Suc m) - month_start (leap_year y) m"

lemma year_down: "d < day_from_year (y + 1) \<Longrightarrow> day_from_year (year_down y d) \<le> d \<and> d < day_from_year (year_down y d + 1)"
proof (induction y d rule: year_down.induct)
  case (1 y d)
  then show ?case by (cases "day_from_year y \<le> d") (simp_all add: year_down.simps [of y d])
qed

lemma below_next_multiple:
  fixes d k :: int
  assumes "0 < k"
  shows "d < k * (d div k + 1)"
proof -
  have "d mod k < k" using assms by simp
  moreover have "k * (d div k + 1) = d - d mod k + k" by (simp add: distrib_left minus_mod_eq_mult_div)
  ultimately show ?thesis by simp
qed

lemma year_estimate: "d < day_from_year (1971 + d div (if 0 \<le> d then 365 else 366) + 1)"
proof (cases "0 \<le> d")
  case True
  define k where "k = d div 365"
  have "0 \<le> k" using True by (simp add: k_def)
  moreover have "d < 365 * (k + 1)" unfolding k_def by (rule below_next_multiple) simp
  moreover have "0 \<le> (k + 3) div 4 - (k + 71) div 100 + (k + 371) div 400" using \<open>0 \<le> k\<close> by linarith
  ultimately show ?thesis using True by (simp add: day_from_year_def k_def [symmetric] algebra_simps)
next
  case False
  define k where "k = d div 366"
  have "k < 0" using False by (simp add: k_def div_neg_pos_less0)
  moreover have "d < 366 * (k + 1)" unfolding k_def by (rule below_next_multiple) simp
  moreover have "k \<le> (k + 3) div 4 - (k + 71) div 100 + (k + 371) div 400" using \<open>k < 0\<close> by linarith
  ultimately show ?thesis using False by (simp add: day_from_year_def k_def [symmetric] algebra_simps)
qed

lemma year_of_day: "day_from_year (year_of_day d) \<le> d \<and> d < day_from_year (year_of_day d + 1)"
  unfolding year_of_day_def by (rule year_down [OF year_estimate])

lemma year_of_day_eqI: "day_from_year y \<le> d \<Longrightarrow> d < day_from_year (y + 1) \<Longrightarrow> year_of_day d = y"
  using year_of_day [of d] day_from_year_mono [of "year_of_day d + 1" y] day_from_year_mono [of "y + 1" "year_of_day d"] by linarith

lemma month_start_values:
  "month_start l 0 = 0" "month_start l 1 = 31" "month_start l (Suc 0) = 31" "month_start l 12 = (if l then 366 else 365)"
  by (simp_all add: month_start_def MONTH_STARTS_def)

lemma less_12: "m < 12 \<longleftrightarrow> m = 0 \<or> m = 1 \<or> m = 2 \<or> m = 3 \<or> m = 4 \<or> m = 5 \<or> m = 6 \<or> m = 7 \<or> m = 8 \<or> m = 9 \<or> m = 10 \<or> m = 11"
  for m :: nat by presburger

lemma months_upto: "[Suc 0..<12] = [1, 2, 3, 4, 5, 6, 7, 8, 9, 10, 11 :: nat]"
  by code_simp

lemma month_of_day_start:
  assumes "m < 12" "1 \<le> d" "d \<le> month_start l (Suc m) - month_start l m"
  shows "month_of_day l (month_start l m + d - 1) = m"
  using assms unfolding less_12
  by (elim disjE) (cases l; simp add: month_of_day_def months_upto month_start_def MONTH_STARTS_def)+

lemma month_exists: "0 \<le> x \<Longrightarrow> x < month_start l n \<Longrightarrow> \<exists>m<n. month_start l m \<le> x \<and> x < month_start l (Suc m)"
proof (induction n)
  case (Suc n)
  then show ?case by (cases "x < month_start l n") (auto intro: less_SucI)
qed (simp add: month_start_values)

lemma month_of_day_bounds:
  assumes "0 \<le> x" "x < (if l then 366 else 365)"
  shows "month_of_day l x < 12 \<and> month_start l (month_of_day l x) \<le> x \<and> x < month_start l (Suc (month_of_day l x))"
proof -
  have "x < month_start l 12" using assms by (simp add: month_start_values)
  then obtain m where m: "m < 12" "month_start l m \<le> x" "x < month_start l (Suc m)"
    using month_exists [of x l 12] assms by auto
  then have "month_of_day l x = m" using month_of_day_start [of m "x - month_start l m + 1" l] by simp
  with m show ?thesis by simp
qed

text \<open>Dates and day numbers are inverse to each other.\<close>

lemma make_day_month: "m < 12 \<Longrightarrow> make_day y (int m) d = day_from_year y + month_start (leap_year y) m + d - 1"
  by (simp add: make_day_def)

lemma date_of_make_day:
  assumes "real_date y m d"
  shows "date_of_day (make_day y (int m) d) = (y, m, d)"
proof -
  let ?l = "leap_year y" and ?n = "make_day y (int m) d"
  have m: "m < 12" "1 \<le> d" "d \<le> month_start ?l (Suc m) - month_start ?l m" using assms by (simp_all add: real_date_def)
  have "0 \<le> month_start ?l m" "month_start ?l (Suc m) \<le> month_start ?l 12"
    using m(1) unfolding less_12 by (elim disjE; simp add: month_start_def MONTH_STARTS_def)+
  then have "day_from_year y \<le> ?n" "?n < day_from_year (y + 1)"
    using m by (simp_all add: make_day_month day_from_year_next month_start_values split: if_splits)
  then have "year_of_day ?n = y" by (rule year_of_day_eqI)
  moreover have "?n - day_from_year y = month_start ?l m + d - 1" by (simp add: make_day_month m)
  ultimately show ?thesis using month_of_day_start [OF m] by (simp add: date_of_day_def Let_def)
qed

lemma make_date_of_day:
  obtains y m d where "date_of_day n = (y, m, d)" "real_date y m d" "make_day y (int m) d = n"
proof -
  let ?y = "year_of_day n"
  let ?x = "n - day_from_year ?y" and ?l = "leap_year ?y"
  have "0 \<le> ?x" "?x < (if ?l then 366 else 365)" using year_of_day [of n] by (simp_all add: day_from_year_next)
  from month_of_day_bounds [OF this] have "month_of_day ?l ?x < 12" "month_start ?l (month_of_day ?l ?x) \<le> ?x"
    "?x < month_start ?l (Suc (month_of_day ?l ?x))" by simp_all
  then show thesis
    by (intro that [of ?y "month_of_day ?l ?x" "?x - month_start ?l (month_of_day ?l ?x) + 1"])
      (simp_all add: date_of_day_def Let_def real_date_def make_day_month)
qed

section \<open>Printing and reading dates\<close>

definition padStart :: "nat \<Rightarrow> string \<Rightarrow> string" where
  "padStart n s = replicate (n - List.length s) (CHR ''0'') @ s"

text \<open>The digits of a natural number, held as an integer.\<close>

function show_int :: "int \<Rightarrow> string" where
  "show_int n = (if n < 10 then [digit_char (nat n)] else show_int (n div 10) @ [digit_char (nat (n mod 10))])"
  by pat_completeness auto
termination by (relation "measure nat") auto

declare show_int.simps [simp del]

lemma show_int_nat: "0 \<le> n \<Longrightarrow> show_int n = show_nat (nat n)"
proof (induction n rule: show_int.induct)
  case (1 n)
  show ?case
  proof (cases "n < 10")
    case True
    then show ?thesis using 1 by (simp add: show_int.simps [of n] show_nat.simps [of "nat n"] nat_less_iff)
  next
    case False
    then have "show_int (n div 10) = show_nat (nat (n div 10))" using 1 by simp
    then show ?thesis using False by (simp add: show_int.simps [of n] show_nat.simps [of "nat n"] nat_div_distrib nat_mod_distrib nat_less_iff)
  qed
qed

lemma show_int_of_nat [simp]: "show_int (int n) = show_nat n" "show_int (1 + int n) = show_nat (Suc n)"
proof -
  have "nat (1 + int n) = Suc n" by simp
  then show "show_int (int n) = show_nat n" "show_int (1 + int n) = show_nat (Suc n)"
    by (simp_all only: show_int_nat [of "int n"] show_int_nat [of "1 + int n"] nat_int)
qed

text \<open>\<open>toISOString\<close>: years outside \<open>0\<close> to \<open>9999\<close> have a sign and six digits.\<close>

definition iso_year :: "int \<Rightarrow> string" where
  "iso_year y = (if 0 \<le> y \<and> y \<le> 9999 then padStart 4 (show_int y)
     else (if y < 0 then CHR ''-'' else CHR ''+'') # padStart 6 (show_int \<bar>y\<bar>))"

definition iso_date :: "int \<Rightarrow> string" where
  "iso_date n = (case date_of_day n of (y, m, d) \<Rightarrow>
     iso_year y @ ''-'' @ padStart 2 (show_int (int (Suc m))) @ ''-'' @ padStart 2 (show_int d))"

definition toISOString :: "time \<Rightarrow> string" where
  "toISOString t =
    (let r = t mod DAY_MS
     in iso_date (t div DAY_MS) @ ''T'' @ padStart 2 (show_int (r div 3600000)) @ '':''
        @ padStart 2 (show_int (r div 60000 mod 60)) @ '':'' @ padStart 2 (show_int (r div 1000 mod 60)) @ ''.''
        @ padStart 3 (show_int (r mod 1000)) @ ''Z'')"

text \<open>\<open>toISOString().slice(0, 10)\<close>\<close>

definition date_part :: "time \<Rightarrow> string" where
  "date_part t = take 10 (toISOString t)"

text \<open>The pattern \<open>^([01]\d|2[0-3]):([0-5]\d)$\<close>; both numbers together in minutes.\<close>

fun parseDayStart :: "string \<Rightarrow> exn + int" where
  "parseDayStart [a, b, c, d, e] =
    (if ((a \<in> set ''01'' \<and> is_digit b) \<or> (a = CHR ''2'' \<and> b \<in> set ''0123'')) \<and> c = CHR '':''
        \<and> d \<in> set ''012345'' \<and> is_digit e
     then Inr (int (read_nat [a, b]) * 60 + int (read_nat [d, e])) else Inl (Crash ''Invalid dayStartTime''))"
| "parseDayStart _ = Inl (Crash ''Invalid dayStartTime'')"

text \<open>The pattern \<open>^(\d{4})-(\d{2})-(\d{2})$\<close>.\<close>

fun parseDate :: "string \<Rightarrow> exn + int \<times> int \<times> int" where
  "parseDate [a, b, c, d, e, f, g, h, i, j] =
    (if list_all is_digit [a, b, c, d, f, g, i, j] \<and> e = CHR ''-'' \<and> h = CHR ''-''
     then Inr (int (read_nat [a, b, c, d]), int (read_nat [f, g]), int (read_nat [i, j]))
     else Inl (Crash ''Invalid date''))"
| "parseDate _ = Inl (Crash ''Invalid date'')"

section \<open>Business days\<close>

definition businessDayStartUtc :: "string \<Rightarrow> int \<Rightarrow> exn + time" where
  "businessDayStartUtc date dayStartMinutes =
    map_sum id (\<lambda>(y, m, d). date_utc y (m - 1) d (dayStartMinutes - MANILA_OFFSET_MINUTES)) (parseDate date)"

definition businessDayOf :: "time \<Rightarrow> int \<Rightarrow> string" where
  "businessDayOf instant dayStartMinutes = date_part (instant + (MANILA_OFFSET_MINUTES - dayStartMinutes) * 60000)"

function days_from :: "time \<Rightarrow> time \<Rightarrow> string list" where
  "days_from t last_day = (if t \<le> last_day then businessDayOf t 0 # days_from (t + DAY_MS) last_day else [])"
  by pat_completeness auto
termination by (relation "measure (\<lambda>(t, last_day). nat (last_day - t + 1))") (auto simp: DAY_MS_def)

declare days_from.simps [simp del]

text \<open>Both ends are read first, in the order of the code: an invalid date is reported before a reversed range.\<close>

definition businessDaySeries :: "string \<Rightarrow> string \<Rightarrow> exn + string list" where
  "businessDaySeries from to =
    (case businessDayStartUtc from 0 of Inl e \<Rightarrow> Inl e | Inr start \<Rightarrow>
    (case businessDayStartUtc to 0 of Inl e \<Rightarrow> Inl e | Inr last_day \<Rightarrow>
       if last_day < start then Inl (Crash ''Range ends before it starts'') else Inr (days_from start last_day)))"

definition businessDayRangeUtc :: "string \<Rightarrow> string \<Rightarrow> int \<Rightarrow> exn + time \<times> time" where
  "businessDayRangeUtc from to dayStartMinutes =
    (case businessDayStartUtc from dayStartMinutes of Inl e \<Rightarrow> Inl e | Inr fromUtc \<Rightarrow>
    (case businessDayStartUtc to dayStartMinutes of Inl e \<Rightarrow> Inl e | Inr lastStart \<Rightarrow>
       if lastStart < fromUtc then Inl (Crash ''Range ends before it starts'') else Inr (fromUtc, lastStart + DAY_MS)))"

definition previousPeriod :: "time \<Rightarrow> time \<Rightarrow> time \<times> time" where
  "previousPeriod fromUtc toUtc = (let len = toUtc - fromUtc in (fromUtc - len, fromUtc))"

definition addDays :: "string \<Rightarrow> int \<Rightarrow> exn + string" where
  "addDays date days = map_sum id (\<lambda>base. businessDayOf (base + days * DAY_MS) 0) (businessDayStartUtc date 0)"


section \<open>Strings of digits\<close>

lemma digit_cases: "is_digit c \<Longrightarrow> digit_val c < 10 \<and> digit_char (digit_val c) = c"
  unfolding is_digit_def by (simp only: list.set insert_iff empty_iff) (elim disjE; simp add: digit_val_def digit_char_def; code_simp)

lemma show_nat_step: "0 < n \<Longrightarrow> d < 10 \<Longrightarrow> show_nat (10 * n + d) = show_nat n @ [digit_char d]"
  by (simp add: show_nat.simps [of "10 * n + d"])

lemma padStart_snoc: "padStart (Suc n) (s @ [c]) = padStart n s @ [c]"
  by (simp add: padStart_def)

lemma padStart_read: "s \<noteq> [] \<Longrightarrow> list_all is_digit s \<Longrightarrow> padStart (List.length s) (show_nat (read_nat s)) = s"
proof (induction s rule: rev_induct)
  case (snoc c s)
  have c: "digit_val c < 10" "digit_char (digit_val c) = c" using snoc.prems digit_cases [of c] by simp_all
  show ?case
  proof (cases "s = []")
    case True
    then show ?thesis using c by (simp add: read_nat_def show_nat.simps [of "digit_val c"] padStart_def)
  next
    case False
    then have IH: "padStart (List.length s) (show_nat (read_nat s)) = s" using snoc by simp
    show ?thesis
    proof (cases "read_nat s = 0")
      case True
      have "show_nat (digit_val c) = [c]" using c by (simp add: show_nat.simps [of "digit_val c"])
      moreover have "show_nat 0 = [CHR ''0'']" by code_simp
      then have "s = replicate (List.length s) (CHR ''0'')" using IH False True
        by (cases "List.length s") (simp_all add: padStart_def replicate_append_same)
      ultimately show ?thesis using True padStart_snoc [of "List.length s" "[]" c]
        by (simp add: read_nat_append_digit) (simp add: padStart_def)
    next
      case False
      then show ?thesis using c IH by (simp add: read_nat_append_digit show_nat_step padStart_snoc)
    qed
  qed
qed simp

lemma show_nat_length: "n < 10 ^ k \<Longrightarrow> 0 < k \<Longrightarrow> List.length (show_nat n) \<le> k"
proof (induction k arbitrary: n)
  case (Suc k)
  show ?case
  proof (cases "n < 10")
    case False
    then have "n div 10 < 10 ^ k" "0 < k" using Suc.prems by (auto simp: less_mult_imp_div_less mult.commute intro: Suc_leI gr0I)
    then show ?thesis using Suc.IH [of "n div 10"] by (simp add: show_nat.simps [of n])
  qed (simp add: show_nat.simps [of n])
qed simp

lemma padStart_length: "n < 10 ^ k \<Longrightarrow> 0 < k \<Longrightarrow> List.length (padStart k (show_nat n)) = k"
  using show_nat_length [of n k] by (simp add: padStart_def)

lemma read_nat_zeros: "read_nat (replicate k (CHR ''0'') @ s) = read_nat s"
proof (induction s rule: rev_induct)
  case Nil
  have "digit_val (CHR ''0'') = 0" by code_simp
  then show ?case by (induction k) (simp_all add: read_nat_def)
next
  case (snoc c s)
  then show ?case using read_nat_append_digit [of "replicate k (CHR ''0'') @ s" c] by (simp add: read_nat_append_digit)
qed

lemma read_padStart [simp]: "read_nat (padStart k (show_nat n)) = n"
  by (simp add: padStart_def read_nat_zeros)

lemma padStart_digits: "list_all is_digit (padStart k (show_nat n))"
proof -
  have "is_digit (CHR ''0'')" by code_simp
  then show ?thesis using show_nat_digits [of n] by (auto simp: padStart_def list_all_iff)
qed

lemma read_nat_bound: "list_all is_digit s \<Longrightarrow> read_nat s < 10 ^ List.length s"
proof (induction s rule: rev_induct)
  case (snoc c s)
  then show ?case using digit_cases [of c] by (simp add: read_nat_append_digit)
qed (simp add: read_nat_def)

section \<open>Dates as strings\<close>

definition day_string :: "int \<Rightarrow> string" where
  "day_string n = take 10 (iso_date n)"

text \<open>The day a date string stands for; a string the code treats as a date of the calendar.\<close>

definition day_number :: "string \<Rightarrow> int" where
  "day_number s = (case parseDate s of Inl _ \<Rightarrow> 0 | Inr (y, m, d) \<Rightarrow> make_day (if y \<le> 99 then 1900 + y else y) (m - 1) d)"

definition business_date :: "string \<Rightarrow> bool" where
  "business_date s \<longleftrightarrow> (case parseDate s of Inl _ \<Rightarrow> False | Inr (y, m, d) \<Rightarrow> 100 \<le> y \<and> 1 \<le> m \<and> real_date y (nat (m - 1)) d)"

lemma length_4: "List.length s = 4 \<longleftrightarrow> (\<exists>a b c d. s = [a, b, c, d])"
  by (cases s; cases "tl s"; cases "tl (tl s)"; cases "tl (tl (tl s))"; cases "tl (tl (tl (tl s)))") auto

lemma length_2: "List.length s = 2 \<longleftrightarrow> (\<exists>a b. s = [a, b])"
  by (cases s; cases "tl s"; cases "tl (tl s)") auto

lemma parseDate_Inr:
  "parseDate s = Inr (y, m, d) \<longleftrightarrow> (\<exists>ys ms ds. s = ys @ ''-'' @ ms @ ''-'' @ ds \<and> List.length ys = 4 \<and> List.length ms = 2
    \<and> List.length ds = 2 \<and> list_all is_digit (ys @ ms @ ds) \<and> y = int (read_nat ys) \<and> m = int (read_nat ms) \<and> d = int (read_nat ds))"
proof
  assume "parseDate s = Inr (y, m, d)"
  then show "\<exists>ys ms ds. s = ys @ ''-'' @ ms @ ''-'' @ ds \<and> List.length ys = 4 \<and> List.length ms = 2
    \<and> List.length ds = 2 \<and> list_all is_digit (ys @ ms @ ds) \<and> y = int (read_nat ys) \<and> m = int (read_nat ms) \<and> d = int (read_nat ds)"
  proof (cases s rule: parseDate.cases)
    case (1 a b c d' e f g h i j)
    then show ?thesis using \<open>parseDate s = Inr (y, m, d)\<close>
      by (intro exI [of _ "[a, b, c, d']"] exI [of _ "[f, g]"] exI [of _ "[i, j]"]) (auto split: if_splits)
  qed simp_all
qed (auto simp: length_4 length_2)

lemma real_date_bounds: "real_date y m d \<Longrightarrow> m < 12 \<and> 1 \<le> d \<and> d \<le> 31"
  unfolding real_date_def less_12
  by (elim conjE disjE) (cases "leap_year y"; simp add: month_start_def MONTH_STARTS_def)+

lemma iso_date_real:
  assumes "0 \<le> y" "y \<le> 9999" "real_date y m d"
  shows "iso_date (make_day y (int m) d) = padStart 4 (show_nat (nat y)) @ ''-'' @ padStart 2 (show_nat (Suc m)) @ ''-'' @ padStart 2 (show_nat (nat d))"
  using assms real_date_bounds [OF assms(3)] by (simp add: iso_date_def date_of_make_day iso_year_def show_int_nat)

lemma parse_day_string:
  assumes "date_of_day n = (y, m, d)" "0 \<le> y" "y \<le> 9999"
  shows "parseDate (day_string n) = Inr (y, int (Suc m), d) \<and> day_string n = iso_date n"
proof -
  obtain y' m' d' where "date_of_day n = (y', m', d')" "real_date y' m' d'" "make_day y' (int m') d' = n" by (rule make_date_of_day)
  with assms have real: "real_date y m d" and n: "make_day y (int m) d = n" by simp_all
  let ?Y = "padStart 4 (show_nat (nat y))" and ?M = "padStart 2 (show_nat (Suc m))" and ?D = "padStart 2 (show_nat (nat d))"
  have iso: "iso_date n = ?Y @ ''-'' @ ?M @ ''-'' @ ?D" using iso_date_real [OF assms(2,3) real] n by simp
  have b: "m < 12" "1 \<le> d" "d \<le> 31" using real_date_bounds [OF real] by simp_all
  have len: "List.length ?Y = 4" "List.length ?M = 2" "List.length ?D = 2"
    by (rule padStart_length; use b assms(2,3) in simp)+
  then have s: "day_string n = ?Y @ ''-'' @ ?M @ ''-'' @ ?D" by (simp add: day_string_def iso)
  moreover have "y = int (read_nat ?Y)" "int (Suc m) = int (read_nat ?M)" "d = int (read_nat ?D)" using b assms(2) by simp_all
  ultimately show ?thesis unfolding iso parseDate_Inr using len padStart_digits by (metis list_all_append)
qed

lemma day_string_of_date:
  assumes "business_date s"
  shows "day_string (day_number s) = s \<and> 0 \<le> year_of_day (day_number s) \<and> year_of_day (day_number s) \<le> 9999"
proof -
  from assms obtain y m d where p: "parseDate s = Inr (y, m, d)" and y: "100 \<le> y" and m: "1 \<le> m" and real: "real_date y (nat (m - 1)) d"
    by (auto simp: business_date_def split: sum.splits)
  from p obtain ys ms ds where s: "s = ys @ ''-'' @ ms @ ''-'' @ ds" and len: "List.length ys = 4" "List.length ms = 2" "List.length ds = 2"
    and dig: "list_all is_digit ys" "list_all is_digit ms" "list_all is_digit ds"
    and v: "y = int (read_nat ys)" "m = int (read_nat ms)" "d = int (read_nat ds)" unfolding parseDate_Inr by auto
  have "padStart (List.length ys) (show_nat (read_nat ys)) = ys" "padStart (List.length ms) (show_nat (read_nat ms)) = ms"
    "padStart (List.length ds) (show_nat (read_nat ds)) = ds"
    using len dig by (intro padStart_read; auto)+
  then have pad: "padStart 4 (show_nat (nat y)) = ys" "padStart 2 (show_nat (Suc (nat (m - 1)))) = ms" "padStart 2 (show_nat (nat d)) = ds"
    using len m v by (simp_all add: Suc_nat_eq_nat_zadd1)
  have "y \<le> 9999" using read_nat_bound [OF dig(1)] len v by simp
  have n: "day_number s = make_day y (int (nat (m - 1))) d" using p y m by (simp add: day_number_def)
  have "iso_date (make_day y (int (nat (m - 1))) d) = s"
    using iso_date_real [OF _ \<open>y \<le> 9999\<close> real] y unfolding pad s by simp
  then have "iso_date (day_number s) = s" unfolding n .
  moreover have "date_of_day (day_number s) = (y, nat (m - 1), d)" unfolding n by (rule date_of_make_day [OF real])
  then have "year_of_day (day_number s) = y" by (simp add: date_of_day_def Let_def)
  ultimately show ?thesis using y \<open>y \<le> 9999\<close> len by (simp add: day_string_def s)
qed

lemma day_string_inj:
  assumes "0 \<le> year_of_day n" "year_of_day n \<le> 9999" "day_string n = day_string k"
  shows "n = k"
proof -
  obtain y m d where n: "date_of_day n = (y, m, d)" "make_day y (int m) d = n" by (rule make_date_of_day)
  obtain y' m' d' where k: "date_of_day k = (y', m', d')" "make_day y' (int m') d' = k" by (rule make_date_of_day)
  have y: "y = year_of_day n" "y' = year_of_day k" using n(1) k(1) by (simp_all add: date_of_day_def Let_def)
  have p: "parseDate (day_string n) = Inr (y, int (Suc m), d)" using parse_day_string [OF n(1)] assms(1,2) y by blast
  show ?thesis
  proof (cases "0 \<le> y' \<and> y' \<le> 9999")
    case True
    then have "parseDate (day_string k) = Inr (y', int (Suc m'), d')" using parse_day_string [OF k(1)] by blast
    with p assms(3) have "y = y'" "m = m'" "d = d'" by simp_all
    with n(2) k(2) show ?thesis by simp
  next
    case False
    then have "day_string k = (if y' < 0 then CHR ''-'' else CHR ''+'') # tl (day_string k)"
      by (simp add: day_string_def iso_date_def k(1) iso_year_def)
    moreover have "\<not> is_digit (CHR ''-'')" "\<not> is_digit (CHR ''+'')" by code_simp+
    moreover obtain c r where "day_string n = c # r" "is_digit c" using p unfolding parseDate_Inr by (auto simp: length_4)
    ultimately show ?thesis using assms(3) by (auto split: if_splits)
  qed
qed

lemma date_part_day: "date_part t = day_string (t div DAY_MS)"
proof -
  obtain y m d where n: "date_of_day (t div DAY_MS) = (y, m, d)" "real_date y m d" by (rule make_date_of_day)
  have b: "m < 12" "1 \<le> d" "d \<le> 31" using real_date_bounds [OF n(2)] by simp_all
  have pad: "k \<le> List.length (padStart k s)" for k s by (simp add: padStart_def)
  have "List.length (padStart 2 (show_nat (Suc m))) = 2" "List.length (padStart 2 (show_int d)) = 2"
    using b padStart_length [of "Suc m" 2] padStart_length [of "nat d" 2] by (simp_all add: show_int_nat)
  moreover have "4 \<le> List.length (iso_year y)" using pad [of 4 "show_int y"] pad [of 6 "show_int \<bar>y\<bar>"] by (auto simp: iso_year_def)
  ultimately have "10 \<le> List.length (iso_date (t div DAY_MS))" by (simp add: iso_date_def n(1))
  then show ?thesis by (simp add: date_part_def toISOString_def day_string_def Let_def)
qed

section \<open>The business day an instant falls on\<close>

text \<open>The day number an instant has in a business whose day starts \<open>m\<close> minutes after midnight in Manila.\<close>

definition business_day :: "time \<Rightarrow> int \<Rightarrow> int" where
  "business_day t m = (t + (MANILA_OFFSET_MINUTES - m) * 60000) div DAY_MS"

lemma businessDayOf_string: "businessDayOf t m = day_string (business_day t m)"
  by (simp add: businessDayOf_def date_part_day business_day_def)

definition day_start :: "int \<Rightarrow> int \<Rightarrow> time" where
  "day_start n m = n * DAY_MS + (m - MANILA_OFFSET_MINUTES) * 60000"

lemma parseDate_range: "parseDate s = Inr (y, m, d) \<Longrightarrow> 0 \<le> y \<and> 0 \<le> m \<and> 0 \<le> d"
  unfolding parseDate_Inr by auto

lemma businessDayStartUtc_run:
  "businessDayStartUtc s m = (case parseDate s of Inl e \<Rightarrow> Inl e | Inr _ \<Rightarrow> Inr (day_start (day_number s) m))"
  by (auto simp: businessDayStartUtc_def day_start_def day_number_def date_utc_def Let_def algebra_simps
    split: sum.split dest!: parseDate_range)

lemma div_between:
  fixes x k n :: int
  assumes "0 < k"
  shows "x div k = n \<longleftrightarrow> n * k \<le> x \<and> x < (n + 1) * k"
proof
  assume "x div k = n"
  then have "x = n * k + x mod k" using div_mult_mod_eq [of x k] by simp
  moreover have "0 \<le> x mod k" "x mod k < k" using assms by simp_all
  ultimately show "n * k \<le> x \<and> x < (n + 1) * k" by (simp add: distrib_right)
next
  assume "n * k \<le> x \<and> x < (n + 1) * k"
  then show "x div k = n" by (intro int_div_pos_eq [of x k n "x - k * n"]) (simp_all add: algebra_simps)
qed

lemma business_day_in: "business_day t m = n \<longleftrightarrow> day_start n m \<le> t \<and> t < day_start (n + 1) m"
proof -
  define x where "x = t + (MANILA_OFFSET_MINUTES - m) * 60000"
  have "day_start n m \<le> t \<longleftrightarrow> n * DAY_MS \<le> x" "t < day_start (n + 1) m \<longleftrightarrow> x < (n + 1) * DAY_MS"
    by (simp_all add: day_start_def x_def algebra_simps)
  moreover have "0 < DAY_MS" by (simp add: DAY_MS_def)
  then have "x div DAY_MS = n \<longleftrightarrow> n * DAY_MS \<le> x \<and> x < (n + 1) * DAY_MS"
    by (rule div_between)
  ultimately show ?thesis by (simp add: business_day_def x_def)
qed

lemma day_start_mono: "day_start n m \<le> day_start k m \<longleftrightarrow> n \<le> k"
  by (simp add: day_start_def DAY_MS_def)

lemma business_day_range: "day_start a m \<le> t \<and> t < day_start (b + 1) m \<longleftrightarrow> a \<le> business_day t m \<and> business_day t m \<le> b"
proof -
  have "day_start (business_day t m) m \<le> t" "t < day_start (business_day t m + 1) m" using business_day_in [of t m "business_day t m"] by simp_all
  moreover have "a \<le> business_day t m \<longleftrightarrow> day_start a m \<le> day_start (business_day t m) m" by (simp add: day_start_mono)
  ultimately show ?thesis
    using day_start_mono [of a m "business_day t m"] day_start_mono [of "business_day t m + 1" m a]
      day_start_mono [of "business_day t m + 1" m "b + 1"] day_start_mono [of "b + 1" m "business_day t m"] by fastforce
qed

lemma day_start_next: "day_start (n + 1) m = day_start n m + DAY_MS"
  by (simp add: day_start_def algebra_simps)

lemma days_from_days: "days_from (day_start a 0) (day_start b 0) = map day_string [a..b]"
proof (induction "nat (b - a + 1)" arbitrary: a)
  case 0
  then show ?case by (simp add: days_from.simps [of "day_start a 0"] day_start_mono)
next
  case (Suc k)
  have "business_day (day_start a 0) 0 = a" by (simp add: business_day_in day_start_def DAY_MS_def)
  moreover have "day_start a 0 + DAY_MS = day_start (a + 1) 0" by (simp add: day_start_def algebra_simps)
  moreover have "a \<le> b" using Suc(2) by simp
  moreover have "days_from (day_start (a + 1) 0) (day_start b 0) = map day_string [a + 1..b]" using Suc by simp
  ultimately show ?case
    by (simp add: days_from.simps [of "day_start a 0"] day_start_mono businessDayOf_string upto_rec1 [of a b])
qed

lemma businessDaySeries_run:
  "businessDaySeries from to = (case parseDate from of Inl e \<Rightarrow> Inl e | Inr _ \<Rightarrow> (case parseDate to of Inl e \<Rightarrow> Inl e | Inr _ \<Rightarrow>
     if day_number to < day_number from then Inl (Crash ''Range ends before it starts'')
     else Inr (map day_string [day_number from..day_number to])))"
  by (auto simp: businessDaySeries_def businessDayStartUtc_run days_from_days day_start_mono not_le [symmetric] split: sum.split)

lemma businessDayRangeUtc_run:
  "businessDayRangeUtc from to m = (case parseDate from of Inl e \<Rightarrow> Inl e | Inr _ \<Rightarrow> (case parseDate to of Inl e \<Rightarrow> Inl e | Inr _ \<Rightarrow>
     if day_number to < day_number from then Inl (Crash ''Range ends before it starts'')
     else Inr (day_start (day_number from) m, day_start (day_number to + 1) m)))"
  by (auto simp: businessDayRangeUtc_def businessDayStartUtc_run day_start_mono not_le [symmetric] day_start_next split: sum.split)

lemma business_date_parse: "business_date s \<Longrightarrow> \<exists>x. parseDate s = Inr x"
  by (auto simp: business_date_def split: sum.splits)

lemma year_of_day_mono: "n \<le> k \<Longrightarrow> year_of_day n \<le> year_of_day k"
proof (rule ccontr)
  assume "n \<le> k" "\<not> year_of_day n \<le> year_of_day k"
  then have "day_from_year (year_of_day k + 1) \<le> day_from_year (year_of_day n)" by (intro day_from_year_mono) simp
  with year_of_day [of n] year_of_day [of k] \<open>n \<le> k\<close> show False by linarith
qed

text \<open>The series of a range of dates names each of its days once, and exactly the days of the range.\<close>

lemma series_days:
  assumes "business_date from" "business_date to"
  shows "distinct (map day_string [day_number from..day_number to])"
    and "day_string n \<in> set (map day_string [day_number from..day_number to]) \<longleftrightarrow> day_number from \<le> n \<and> n \<le> day_number to"
proof -
  let ?a = "day_number from" and ?b = "day_number to"
  have y: "0 \<le> year_of_day k \<and> year_of_day k \<le> 9999" if "?a \<le> k" "k \<le> ?b" for k
    using day_string_of_date [OF assms(1)] day_string_of_date [OF assms(2)] year_of_day_mono [OF that(1)] year_of_day_mono [OF that(2)] by linarith
  show "distinct (map day_string [?a..?b])"
    unfolding distinct_map inj_on_def by (auto intro!: day_string_inj dest: y)
  show "day_string n \<in> set (map day_string [?a..?b]) \<longleftrightarrow> ?a \<le> n \<and> n \<le> ?b"
  proof
    assume "day_string n \<in> set (map day_string [?a..?b])"
    then obtain k where "?a \<le> k" "k \<le> ?b" "day_string k = day_string n" by auto
    moreover from this have "k = n" using y day_string_inj by blast
    ultimately show "?a \<le> n \<and> n \<le> ?b" by simp
  qed simp
qed

end
