(* ===== verification/Analytics.thy ===== *)
theory Analytics
  imports Calendar Requests
begin

text \<open>
  What every report is made of: the query body (\<open>portal/analytics/dto\<close>), the scope it is
  resolved to (\<open>scope/analytics-scope.service.ts\<close>), the gate in front of raw SQL
  (\<open>scoped-sql.ts\<close>), the audit of report reads (\<open>report-audit.service.ts\<close>) and the money
  and stock arithmetic (\<open>overview/overview.math.ts\<close>, \<open>inventory/days-of-stock.ts\<close>).
  Sums of centavos and counts are integers: PostgreSQL adds them as \<open>bigint\<close> and
  \<open>Number\<close> is exact below \<open>2 ^ 53\<close>. Quotients are doubles.
\<close>

section \<open>Queries\<close>

datatype report_format = Json | Csv_format

datatype granularity = By_day | By_week | By_month

datatype ranking = By_units | By_revenue

record analytics_query =
  an_businessId :: "uid option"
  an_branchId :: "uid option"
  an_from :: string
  an_to :: string
  an_format :: "report_format option"

record trend_query = analytics_query +
  tq_granularity :: "granularity option"

record product_query = analytics_query +
  pq_by :: "ranking option"
  pq_limit :: "num option"

record movements_query = analytics_query +
  mq_type :: "movement_type option"
  mq_productId :: "uid option"
  mq_page :: "num option"
  mq_pageSize :: "num option"

text \<open>The pattern \<open>^\d{4}-\d{2}-\d{2}$\<close>: digits in place, not a date of the calendar.\<close>

fun ISO_DATE :: "string \<Rightarrow> bool" where
  "ISO_DATE [a, b, c, d, e, f, g, h, i, j] \<longleftrightarrow> list_all is_digit [a, b, c, d, f, g, i, j] \<and> e = CHR ''-'' \<and> h = CHR ''-''"
| "ISO_DATE _ \<longleftrightarrow> False"

definition optional_ok :: "('a \<Rightarrow> bool) \<Rightarrow> 'a option \<Rightarrow> bool" where
  "optional_ok p x \<longleftrightarrow> (case x of None \<Rightarrow> True | Some v \<Rightarrow> p v)"

definition analytics_query_valid :: "(string \<Rightarrow> bool) \<Rightarrow> 'a analytics_query_scheme \<Rightarrow> bool" where
  "analytics_query_valid isUUID q \<longleftrightarrow> optional_ok isUUID (an_businessId q) \<and> optional_ok isUUID (an_branchId q)
    \<and> ISO_DATE (an_from q) \<and> ISO_DATE (an_to q)"

definition product_query_valid :: "(string \<Rightarrow> bool) \<Rightarrow> product_query \<Rightarrow> bool" where
  "product_query_valid isUUID q \<longleftrightarrow> analytics_query_valid isUUID q \<and> optional_ok (isInt_between 1 100) (pq_limit q)"

definition at_least_one :: "num \<Rightarrow> bool" where
  "at_least_one x \<longleftrightarrow> of_int \<lfloor>x\<rfloor> = x \<and> 1 \<le> x"

definition movements_query_valid :: "(string \<Rightarrow> bool) \<Rightarrow> movements_query \<Rightarrow> bool" where
  "movements_query_valid isUUID q \<longleftrightarrow> analytics_query_valid isUUID q \<and> optional_ok isUUID (mq_productId q)
    \<and> optional_ok at_least_one (mq_page q) \<and> optional_ok (isInt_between 1 200) (mq_pageSize q)"

section \<open>Scope\<close>

definition MAX_RANGE_DAYS :: nat where "MAX_RANGE_DAYS = 366"

record scoped_business =
  sb_id :: uid
  sb_name :: string
  sb_dayStartTime :: string
  sb_dayStartMinutes :: int
  sb_taxRate :: num
  sb_branchIds :: "uid list"
  sb_fromUtc :: time
  sb_toUtc :: time
  sb_previousFromUtc :: time
  sb_previousToUtc :: time

record resolved_scope =
  sc_businesses :: "scoped_business list"
  sc_branchIds :: "uid list"
  sc_from :: string
  sc_to :: string
  sc_dayCount :: nat

text \<open>The branch ids a business has in the map built from the branches found.\<close>

definition byBusiness :: "branch_row list \<Rightarrow> uid \<Rightarrow> uid list" where
  "byBusiness branches i = map r_id (filter (\<lambda>b. br_businessId b = i) branches)"

text \<open>The loop over the businesses: one without branches is skipped, an error ends it.\<close>

fun scope_businesses :: "(business_row \<Rightarrow> uid list \<Rightarrow> exn + scoped_business) \<Rightarrow> branch_row list \<Rightarrow> business_row list
    \<Rightarrow> exn + scoped_business list" where
  "scope_businesses mk branches [] = Inr []"
| "scope_businesses mk branches (b # bs) =
    (let ids = byBusiness branches (r_id b)
     in if ids = [] then scope_businesses mk branches bs
        else case mk b ids of Inl e \<Rightarrow> Inl e | Inr x \<Rightarrow>
          (case scope_businesses mk branches bs of Inl e \<Rightarrow> Inl e | Inr xs \<Rightarrow> Inr (x # xs)))"

definition rangeWindow :: "string \<Rightarrow> string \<Rightarrow> business_row \<Rightarrow> uid list \<Rightarrow> exn + scoped_business" where
  "rangeWindow from to b branchIds =
    (case parseDayStart (bz_dayStartTime b) of Inl e \<Rightarrow> Inl e | Inr minutes \<Rightarrow>
    (case businessDayRangeUtc from to minutes of Inl e \<Rightarrow> Inl e | Inr (fromUtc, toUtc) \<Rightarrow>
       Inr \<lparr> sb_id = r_id b, sb_name = bz_name b, sb_dayStartTime = bz_dayStartTime b, sb_dayStartMinutes = minutes,
         sb_taxRate = fl (of_int (bz_taxRate b) / 10000), sb_branchIds = branchIds, sb_fromUtc = fromUtc,
         sb_toUtc = toUtc, sb_previousFromUtc = fst (previousPeriod fromUtc toUtc),
         sb_previousToUtc = snd (previousPeriod fromUtc toUtc) \<rparr>))"

definition resolve :: "ctx \<Rightarrow> 'a analytics_query_scheme \<Rightarrow> (db, exn, resolved_scope) op" where
  "resolve ctx q =
    (let businessId = truthy_id (an_businessId q); branchId = truthy_id (an_branchId q)
     in if branchId \<noteq> None \<and> businessId = None
        then throw (Api (ValidationFailedError ''branchId requires businessId''))
        else case businessDaySeries (an_from q) (an_to q) of
          Inl _ \<Rightarrow> throw (Api (ValidationFailedError ''to must be on or after from.''))
        | Inr days \<Rightarrow>
          bind (guard (List.length days \<le> MAX_RANGE_DAYS)
                 (Api (ValidationFailedError ''The date range must not exceed 366 days.''))) (\<lambda>_.
          bind (scoped_findMany ctx business_t
                 (\<lambda>b. case businessId of Some i \<Rightarrow> r_id b = i | None \<Rightarrow> \<not> bz_isDemo b)) (\<lambda>found.
          let businesses = sort_key r_createdAt found
          in bind (guard (businesses \<noteq> []) (Api (NotFoundError ''Business not found.''))) (\<lambda>_.
             bind (scoped_findMany ctx branch_t
                    (\<lambda>r. br_businessId r \<in> set (map r_id businesses) \<and> opt_match branchId (Some (r_id r)))) (\<lambda>kept.
             let branches = sort_key r_createdAt kept
             in bind (guard (branchId = None \<or> branches \<noteq> []) (Api (NotFoundError ''Branch not found.''))) (\<lambda>_.
                bind (lift_res (scope_businesses (rangeWindow (an_from q) (an_to q)) branches businesses)) (\<lambda>bs.
                ret \<lparr> sc_businesses = bs, sc_branchIds = List.concat (map sb_branchIds bs), sc_from = an_from q,
                      sc_to = an_to q, sc_dayCount = List.length days \<rparr>)))))))"

definition todayWindow :: "time \<Rightarrow> business_row \<Rightarrow> uid list \<Rightarrow> exn + scoped_business" where
  "todayWindow n b branchIds =
    (case parseDayStart (bz_dayStartTime b) of Inl e \<Rightarrow> Inl e | Inr minutes \<Rightarrow>
     let today = businessDayOf n minutes
     in (case addDays today (- 7) of Inl e \<Rightarrow> Inl e | Inr lastWeek \<Rightarrow>
        (case businessDayStartUtc today minutes of Inl e \<Rightarrow> Inl e | Inr fromUtc \<Rightarrow>
        (case addDays today 1 of Inl e \<Rightarrow> Inl e | Inr tomorrow \<Rightarrow>
        (case businessDayStartUtc tomorrow minutes of Inl e \<Rightarrow> Inl e | Inr toUtc \<Rightarrow>
        (case businessDayStartUtc lastWeek minutes of Inl e \<Rightarrow> Inl e | Inr previousFrom \<Rightarrow>
        (case addDays lastWeek 1 of Inl e \<Rightarrow> Inl e | Inr dayAfter \<Rightarrow>
        (case businessDayStartUtc dayAfter minutes of Inl e \<Rightarrow> Inl e | Inr previousTo \<Rightarrow>
          Inr \<lparr> sb_id = r_id b, sb_name = bz_name b, sb_dayStartTime = bz_dayStartTime b, sb_dayStartMinutes = minutes,
            sb_taxRate = fl (of_int (bz_taxRate b) / 10000), sb_branchIds = branchIds, sb_fromUtc = fromUtc,
            sb_toUtc = toUtc, sb_previousFromUtc = previousFrom, sb_previousToUtc = previousTo \<rparr>))))))))"

definition resolveToday :: "ctx \<Rightarrow> time \<Rightarrow> (db, exn, resolved_scope) op" where
  "resolveToday ctx n =
    bind (scoped_findMany ctx business_t (\<lambda>b. \<not> bz_isDemo b)) (\<lambda>found.
    let businesses = sort_key r_createdAt found
    in bind (scoped_findMany ctx branch_t (\<lambda>r. br_businessId r \<in> set (map r_id businesses))) (\<lambda>kept.
       bind (lift_res (scope_businesses (todayWindow n) (sort_key r_createdAt kept) businesses)) (\<lambda>bs.
       let stamp = businessDayOf n (case bs of [] \<Rightarrow> 0 | b # _ \<Rightarrow> sb_dayStartMinutes b)
       in ret \<lparr> sc_businesses = bs, sc_branchIds = List.concat (map sb_branchIds bs), sc_from = stamp, sc_to = stamp,
                sc_dayCount = 1 \<rparr>)))"

section \<open>Raw SQL behind the scope\<close>

text \<open>
  A query text, of which the gate looks only for \<open>branch_id\<close>, and what PostgreSQL answers.
  Raw statements go to the base client and see the committed database.
\<close>

datatype 'a sql = Sql (names_branch: bool) (answer: "db \<Rightarrow> 'a list")

definition assertScoped :: "scoped_business \<Rightarrow> 'a sql \<Rightarrow> (db, exn, unit) op" where
  "assertScoped business q =
    bind (guard (sb_branchIds business \<noteq> []) (Crash ''runScoped: no branches in scope'')) (\<lambda>_.
    guard (names_branch q) (Crash ''runScoped: analytics SQL must constrain branch_id''))"

definition runScoped :: "scoped_business \<Rightarrow> (scoped_business \<Rightarrow> 'a sql) \<Rightarrow> (db, exn, 'a list) op" where
  "runScoped business build =
    (let q = build business in bind (assertScoped business q) (\<lambda>_. reads (answer q)))"

definition runScopedOne :: "scoped_business \<Rightarrow> (scoped_business \<Rightarrow> 'a sql) \<Rightarrow> (db, exn, 'a) op" where
  "runScopedOne business build =
    bind (runScoped business build) (\<lambda>rows.
    case rows of [row] \<Rightarrow> ret row | _ \<Rightarrow> throw (Crash ''runScopedOne: expected exactly one row''))"

section \<open>The audit of report reads\<close>

definition logReport :: "ctx \<Rightarrow> resolved_scope \<Rightarrow> string \<Rightarrow> report_format \<Rightarrow> (db, exn, unit) op" where
  "logReport ctx sc report format =
    (let action = (if format = Csv_format then ''audit.report_export'' else ''audit.report_read'')
     in for_each (sc_businesses sc) (\<lambda>b. logPortal ctx action ''report'' None (Some (sb_id b))
          [(''report'', report), (''from'', sc_from sc), (''to'', sc_to sc)]))"

definition format_of :: "'a analytics_query_scheme \<Rightarrow> report_format" where
  "format_of q = (case an_format q of None \<Rightarrow> Json | Some f \<Rightarrow> f)"

section \<open>Money arithmetic\<close>

record sales_aggregate =
  sa_gross :: int
  sa_discounts :: int
  sa_serviceCharge :: int
  sa_transactions :: int
  sa_voids :: int
  sa_refunds :: int

record line_aggregate =
  la_costedLines :: int
  la_costedRevenue :: int
  la_costedCost :: int
  la_uncostedRevenue :: int

record totals =
  tt_grossSalesC :: int
  tt_discountsC :: int
  tt_serviceChargeC :: int
  tt_transactions :: int
  tt_voidCount :: int
  tt_refundCount :: int
  tt_costedLines :: int
  tt_costedRevenueC :: int
  tt_costedCostC :: int
  tt_uncostedRevenueC :: int

definition emptyTotals :: totals where
  "emptyTotals = \<lparr> tt_grossSalesC = 0, tt_discountsC = 0, tt_serviceChargeC = 0, tt_transactions = 0, tt_voidCount = 0,
     tt_refundCount = 0, tt_costedLines = 0, tt_costedRevenueC = 0, tt_costedCostC = 0, tt_uncostedRevenueC = 0 \<rparr>"

definition addRows :: "totals \<Rightarrow> sales_aggregate \<Rightarrow> line_aggregate \<Rightarrow> totals" where
  "addRows t s l = \<lparr> tt_grossSalesC = tt_grossSalesC t + sa_gross s, tt_discountsC = tt_discountsC t + sa_discounts s,
     tt_serviceChargeC = tt_serviceChargeC t + sa_serviceCharge s, tt_transactions = tt_transactions t + sa_transactions s,
     tt_voidCount = tt_voidCount t + sa_voids s, tt_refundCount = tt_refundCount t + sa_refunds s,
     tt_costedLines = tt_costedLines t + la_costedLines l, tt_costedRevenueC = tt_costedRevenueC t + la_costedRevenue l,
     tt_costedCostC = tt_costedCostC t + la_costedCost l, tt_uncostedRevenueC = tt_uncostedRevenueC t + la_uncostedRevenue l \<rparr>"

definition netSalesC :: "totals \<Rightarrow> int" where
  "netSalesC t = tt_grossSalesC t - tt_discountsC t"

text \<open>The profit, known only when some line carried a cost, of a number of lines, their revenue and cost.\<close>

definition grossProfitC :: "totals \<Rightarrow> int option" where
  "grossProfitC t = (if tt_costedLines t = 0 then None else Some (tt_costedRevenueC t - tt_costedCostC t))"

definition marginPct :: "totals \<Rightarrow> num option" where
  "marginPct t = (case grossProfitC t of None \<Rightarrow> None | Some profit \<Rightarrow>
     if tt_costedRevenueC t = 0 then None else Some (jdiv (of_int profit) (of_int (tt_costedRevenueC t))))"

text \<open>\<open>halfUp\<close> gives a whole number.\<close>

definition averageBasketC :: "totals \<Rightarrow> int option" where
  "averageBasketC t = (if tt_transactions t = 0 then None
     else Some \<lfloor>halfUp (jdiv (of_int (netSalesC t)) (of_int (tt_transactions t)))\<rfloor>)"

definition changePct :: "int \<Rightarrow> int \<Rightarrow> num option" where
  "changePct v previous = (if previous = 0 then None else Some (jdiv (of_int (v - previous)) (of_int previous)))"

record kpi =
  kp_value :: int
  kp_previous :: int
  kp_changePct :: "num option"

record nullable_kpi =
  nk_value :: "int option"
  nk_previous :: "int option"
  nk_changePct :: "num option"

record margin_kpi =
  mk_value :: "num option"
  mk_previous :: "num option"
  mk_changePoints :: "num option"

definition toKpi :: "int \<Rightarrow> int \<Rightarrow> kpi" where
  "toKpi v p = \<lparr> kp_value = v, kp_previous = p, kp_changePct = changePct v p \<rparr>"

definition toNullableKpi :: "int option \<Rightarrow> int option \<Rightarrow> nullable_kpi" where
  "toNullableKpi v p = \<lparr> nk_value = v, nk_previous = p,
     nk_changePct = (case (v, p) of (Some a, Some b) \<Rightarrow> changePct a b | _ \<Rightarrow> None) \<rparr>"

definition toMarginKpi :: "num option \<Rightarrow> num option \<Rightarrow> margin_kpi" where
  "toMarginKpi v p = \<lparr> mk_value = v, mk_previous = p,
     mk_changePoints = (case (v, p) of (Some a, Some b) \<Rightarrow> Some (jsub a b) | _ \<Rightarrow> None) \<rparr>"

section \<open>Stock arithmetic\<close>

definition daysOfStock :: "num \<Rightarrow> num \<Rightarrow> nat \<Rightarrow> num option" where
  "daysOfStock q unitsSold dayCount =
    (if unitsSold \<le> 0 \<or> dayCount = 0 then None else Some (jdiv q (jdiv unitsSold (of_nat dayCount))))"

definition valuationC :: "num \<Rightarrow> int option \<Rightarrow> int option" where
  "valuationC q unitCostC = map_option (\<lambda>c. \<lfloor>halfUp (jmul q (of_int c))\<rfloor>) unitCostC"

definition isLow :: "num \<Rightarrow> num option \<Rightarrow> bool" where
  "isLow q threshold = (case threshold of None \<Rightarrow> False | Some t \<Rightarrow> q \<le> t)"

end
