(* ===== verification/ReportSql.thy ===== *)
theory ReportSql
  imports Analytics "HOL-Library.Product_Lexorder"
begin

text \<open>
  The SQL of the reports (\<open>portal/analytics/reports\<close>), each statement as the list of rows it
  answers on a database: comprehensions for joins, \<open>group_by\<close> for GROUP BY, sums over the
  rows a FILTER keeps. The order of groups without ORDER BY is PostgreSQL's choice (here: the
  order of their last members); text is ordered by bytes. Quantities are thousandths, and
  \<open>float8\<close> turns them into doubles. Prices added by modifiers are whole centavos.
\<close>

section \<open>Building blocks\<close>

definition group_by :: "('a \<Rightarrow> 'k) \<Rightarrow> 'a list \<Rightarrow> ('k \<times> 'a list) list" where
  "group_by key rows = map (\<lambda>k. (k, filter (\<lambda>r. key r = k) rows)) (remdups (map key rows))"

definition total_of :: "('a \<Rightarrow> int) \<Rightarrow> 'a list \<Rightarrow> int" where
  "total_of f rows = sum_list (map f rows)"

definition count_of :: "'a list \<Rightarrow> int" where
  "count_of rows = int (List.length rows)"

text \<open>\<open>::float8\<close> of a quantity\<close>

definition float8 :: "milli \<Rightarrow> num" where
  "float8 q = fl (of_int q / 1000)"

text \<open>\<open>round(numeric)\<close> of a product with a quantity: half away from zero.\<close>

definition round_milli :: "int \<Rightarrow> int" where
  "round_milli x = (if 0 \<le> x then (2 * x + 1000) div 2000 else - ((2 * (- x) + 1000) div 2000))"

text \<open>Live sales of some branches created in a window, whatever their status.\<close>

definition sales_in :: "uid list \<Rightarrow> time \<Rightarrow> time \<Rightarrow> db \<Rightarrow> sale_row list" where
  "sales_in branchIds fromUtc toUtc s = filter (\<lambda>r. sl_branchId r \<in> set branchIds \<and> live r
     \<and> fromUtc \<le> r_createdAt r \<and> r_createdAt r < toUtc) (db_sale s)"

definition with_status :: "sale_status \<Rightarrow> sale_row list \<Rightarrow> sale_row list" where
  "with_status st rows = filter (\<lambda>r. sl_status r = st) rows"

definition completedInWindow :: "scoped_business \<Rightarrow> db \<Rightarrow> sale_row list" where
  "completedInWindow b s = with_status Completed (sales_in (sb_branchIds b) (sb_fromUtc b) (sb_toUtc b) s)"

text \<open>\<open>sale_items si JOIN sales s ON s.id = si.sale_id\<close>, live lines only.\<close>

definition lines_of :: "sale_row list \<Rightarrow> db \<Rightarrow> (sale_item_row \<times> sale_row) list" where
  "lines_of sales s = List.concat (map (\<lambda>si. map (\<lambda>r. (si, r)) (filter (\<lambda>r. r_id r = si_saleId si) sales))
     (filter live (db_saleItem s)))"

definition completedLinesInWindow :: "scoped_business \<Rightarrow> db \<Rightarrow> (sale_item_row \<times> sale_row) list" where
  "completedLinesInWindow b s = lines_of (completedInWindow b s) s"

definition mods_c :: "sale_item_row \<Rightarrow> int" where
  "mods_c si = sum_list (map (\<lambda>m. \<lfloor>priceDeltaC m\<rfloor>) (si_modifiers si))"

definition line_net :: "sale_item_row \<Rightarrow> int" where
  "line_net si = round_milli (si_qty si * (si_unitPrice si + mods_c si)) - si_discount si"

definition costed :: "sale_item_row \<times> sale_row \<Rightarrow> bool" where
  "costed l \<longleftrightarrow> si_costSnapshot (fst l) \<noteq> None"

definition line_cost :: "sale_item_row \<Rightarrow> int" where
  "line_cost si = (case si_costSnapshot si of None \<Rightarrow> 0 | Some c \<Rightarrow> round_milli (si_qty si * c))"

definition lines_net :: "(sale_item_row \<times> sale_row) list \<Rightarrow> int" where
  "lines_net ls = total_of (line_net \<circ> fst) ls"

definition lines_cost :: "(sale_item_row \<times> sale_row) list \<Rightarrow> int" where
  "lines_cost ls = total_of (line_cost \<circ> fst) ls"

definition net_sale :: "sale_row \<Rightarrow> int" where
  "net_sale r = sl_subtotal r - sl_discount r - sl_scPwdDiscount r"

section \<open>Aggregates of a window\<close>

definition salesAggregateSql :: "scoped_business \<Rightarrow> time \<Rightarrow> time \<Rightarrow> sales_aggregate sql" where
  "salesAggregateSql b fromUtc toUtc = Sql True (\<lambda>s.
    let rows = sales_in (sb_branchIds b) fromUtc toUtc s; sold = with_status Completed rows
    in [\<lparr> sa_gross = total_of sl_subtotal sold, sa_discounts = total_of (\<lambda>r. sl_discount r + sl_scPwdDiscount r) sold,
          sa_serviceCharge = total_of sl_serviceCharge sold, sa_transactions = count_of sold,
          sa_voids = count_of (with_status Voided rows), sa_refunds = count_of (with_status Refunded rows) \<rparr>])"

definition lineAggregateSql :: "scoped_business \<Rightarrow> time \<Rightarrow> time \<Rightarrow> line_aggregate sql" where
  "lineAggregateSql b fromUtc toUtc = Sql True (\<lambda>s.
    let ls = lines_of (with_status Completed (sales_in (sb_branchIds b) fromUtc toUtc s)) s; known = filter costed ls
    in [\<lparr> la_costedLines = count_of known, la_costedRevenue = lines_net known, la_costedCost = lines_cost known,
          la_uncostedRevenue = lines_net (filter (\<lambda>l. \<not> costed l) ls) \<rparr>])"

record tax_row =
  tx_vatable :: int
  tx_vat :: int
  tx_vatExempt :: int
  tx_scPwd :: int
  tx_serviceCharge :: int

definition taxSummarySql :: "scoped_business \<Rightarrow> tax_row sql" where
  "taxSummarySql b = Sql True (\<lambda>s.
    let rows = completedInWindow b s
    in [\<lparr> tx_vatable = total_of (\<lambda>r. sl_total r - sl_vatExemptSales r - sl_tax r) rows, tx_vat = total_of sl_tax rows,
          tx_vatExempt = total_of sl_vatExemptSales rows, tx_scPwd = total_of sl_scPwdDiscount rows,
          tx_serviceCharge = total_of sl_serviceCharge rows \<rparr>])"

section \<open>Sales over time\<close>

text \<open>
  \<open>(created_at + shift)::date\<close>; a \<open>date\<close> is read as the instant of its UTC midnight.
  \<open>date_trunc\<close> goes back to the Monday or the first of the month.
\<close>

definition day_bucket :: "scoped_business \<Rightarrow> sale_row \<Rightarrow> int" where
  "day_bucket b r = (r_createdAt r + (MANILA_OFFSET_MINUTES - sb_dayStartMinutes b) * 60000) div DAY_MS"

definition bucketExpr :: "scoped_business \<Rightarrow> granularity \<Rightarrow> sale_row \<Rightarrow> time" where
  "bucketExpr b g r =
    (let n = day_bucket b r
     in (case g of By_day \<Rightarrow> n | By_week \<Rightarrow> n - (n + 3) mod 7
         | By_month \<Rightarrow> (case date_of_day n of (y, m, _) \<Rightarrow> make_day y (int m) 1)) * DAY_MS)"

record bucket_row =
  bk_bucket :: time
  bk_sales :: int
  bk_transactions :: int

definition bucket_rows :: "(sale_row \<Rightarrow> time) \<Rightarrow> sale_row list \<Rightarrow> bucket_row list" where
  "bucket_rows f rows = map (\<lambda>(k, rs). \<lparr> bk_bucket = k, bk_sales = total_of net_sale rs, bk_transactions = count_of rs \<rparr>)
     (group_by f rows)"

definition heatmapSql :: "scoped_business \<Rightarrow> bucket_row sql" where
  "heatmapSql b = Sql True (\<lambda>s. bucket_rows (bucketExpr b By_day) (completedInWindow b s))"

definition trendSalesSql :: "granularity \<Rightarrow> scoped_business \<Rightarrow> bucket_row sql" where
  "trendSalesSql g b = Sql True (\<lambda>s. bucket_rows (bucketExpr b g) (completedInWindow b s))"

record trend_profit_row =
  tp_bucket :: time
  tp_costedLines :: int
  tp_costedRevenue :: int
  tp_costedCost :: int

definition trendLinesSql :: "granularity \<Rightarrow> scoped_business \<Rightarrow> trend_profit_row sql" where
  "trendLinesSql g b = Sql True (\<lambda>s. map (\<lambda>(k, ls). let known = filter costed ls in
      \<lparr> tp_bucket = k, tp_costedLines = count_of known, tp_costedRevenue = lines_net known, tp_costedCost = lines_cost known \<rparr>)
     (group_by (bucketExpr b g \<circ> snd) (completedLinesInWindow b s)))"

record 'k key_row =
  kr_key :: 'k
  kr_sales :: int
  kr_transactions :: int

definition key_rows :: "(sale_row \<Rightarrow> 'k) \<Rightarrow> sale_row list \<Rightarrow> 'k key_row list" where
  "key_rows f rows = map (\<lambda>(k, rs). \<lparr> kr_key = k, kr_sales = total_of net_sale rs, kr_transactions = count_of rs \<rparr>)
     (group_by f rows)"

text \<open>The hour on the wall clock in Manila; the day of the week, from Sunday, of the business day.\<close>

definition manila_hour :: "sale_row \<Rightarrow> nat" where
  "manila_hour r = nat ((r_createdAt r + MANILA_OFFSET_MINUTES * 60000) mod DAY_MS div 3600000)"

definition day_of_week :: "scoped_business \<Rightarrow> sale_row \<Rightarrow> nat" where
  "day_of_week b r = nat ((day_bucket b r + 4) mod 7)"

definition hourPatternSql :: "scoped_business \<Rightarrow> nat key_row sql" where
  "hourPatternSql b = Sql True (\<lambda>s. key_rows manila_hour (completedInWindow b s))"

definition dowPatternSql :: "scoped_business \<Rightarrow> nat key_row sql" where
  "dowPatternSql b = Sql True (\<lambda>s. key_rows (day_of_week b) (completedInWindow b s))"

definition paymentBreakdownSql :: "scoped_business \<Rightarrow> payment_method key_row sql" where
  "paymentBreakdownSql b = Sql True (\<lambda>s.
    let paid = List.concat (map (\<lambda>p. map (\<lambda>r. (p, r)) (filter (\<lambda>r. r_id r = sp_saleId p) (completedInWindow b s)))
                 (filter live (db_salePayment s)))
    in map (\<lambda>(k, ps). \<lparr> kr_key = k, kr_sales = total_of (sp_amount \<circ> fst) ps,
         kr_transactions = count_of (remdups (map (r_id \<circ> snd) ps)) \<rparr>) (group_by (sp_method \<circ> fst) paid))"

definition orderTypeBreakdownSql :: "scoped_business \<Rightarrow> order_type key_row sql" where
  "orderTypeBreakdownSql b = Sql True (\<lambda>s. key_rows sl_orderType (completedInWindow b s))"

text \<open>\<open>JOIN branches b ON b.id = s.branch_id\<close>, grouped by id and name, the best seller first.\<close>

definition branch_name :: "db \<Rightarrow> uid \<Rightarrow> string option" where
  "branch_name s i = map_option br_name (find (\<lambda>b. r_id b = i) (db_branch s))"

definition branchBreakdownSql :: "scoped_business \<Rightarrow> (uid \<times> string) key_row sql" where
  "branchBreakdownSql b = Sql True (\<lambda>s. sort_key (\<lambda>x. - kr_sales x)
     (key_rows (\<lambda>r. (sl_branchId r, the (branch_name s (sl_branchId r))))
       (filter (\<lambda>r. branch_name s (sl_branchId r) \<noteq> None) (completedInWindow b s))))"

section \<open>Products and categories\<close>

record product_sales_row =
  ps_productId :: uid
  ps_variantId :: "uid option"
  ps_name :: string
  ps_units :: num
  ps_revenue :: int
  ps_costedLines :: int
  ps_costedRevenue :: int
  ps_costedCost :: int

text \<open>The lines of products, not open-price ones; the name is that of the newest sale.\<close>

definition product_lines :: "scoped_business \<Rightarrow> db \<Rightarrow> (sale_item_row \<times> sale_row) list" where
  "product_lines b s = filter (\<lambda>l. si_productId (fst l) \<noteq> None) (completedLinesInWindow b s)"

definition newest_name :: "(sale_item_row \<times> sale_row) list \<Rightarrow> string" where
  "newest_name ls = si_nameSnapshot (fst (hd (sort_key (\<lambda>l. - r_createdAt (snd l)) ls)))"

definition productSalesSql :: "scoped_business \<Rightarrow> product_sales_row sql" where
  "productSalesSql b = Sql True (\<lambda>s. map (\<lambda>((p, v), ls). let known = filter costed ls in
      \<lparr> ps_productId = the p, ps_variantId = v, ps_name = newest_name ls, ps_units = float8 (total_of (si_qty \<circ> fst) ls),
        ps_revenue = lines_net ls, ps_costedLines = count_of known, ps_costedRevenue = lines_net known,
        ps_costedCost = lines_cost known \<rparr>)
     (group_by (\<lambda>l. (si_productId (fst l), si_variantId (fst l))) (product_lines b s)))"

record category_sales_row =
  gs_categoryId :: uid
  gs_name :: string
  gs_units :: num
  gs_revenue :: int
  gs_costedLines :: int
  gs_costedRevenue :: int
  gs_costedCost :: int

text \<open>\<open>JOIN products p ON p.id = si.product_id JOIN categories c ON c.id = p.category_id\<close>\<close>

definition category_of :: "db \<Rightarrow> uid \<Rightarrow> category_row option" where
  "category_of s i = (case find (\<lambda>p. r_id p = i) (db_product s) of None \<Rightarrow> None
     | Some p \<Rightarrow> find (\<lambda>c. r_id c = pr_categoryId p) (db_category s))"

definition line_category :: "db \<Rightarrow> sale_item_row \<times> sale_row \<Rightarrow> category_row option" where
  "line_category s l = (case si_productId (fst l) of None \<Rightarrow> None | Some i \<Rightarrow> category_of s i)"

definition categorySalesSql :: "scoped_business \<Rightarrow> category_sales_row sql" where
  "categorySalesSql b = Sql True (\<lambda>s. map (\<lambda>((i, nm), ls). let known = filter costed ls in
      \<lparr> gs_categoryId = i, gs_name = nm, gs_units = float8 (total_of (si_qty \<circ> fst) ls), gs_revenue = lines_net ls,
        gs_costedLines = count_of known, gs_costedRevenue = lines_net known, gs_costedCost = lines_cost known \<rparr>)
     (group_by (\<lambda>l. case line_category s l of Some c \<Rightarrow> (r_id c, cg_name c))
       (filter (\<lambda>l. line_category s l \<noteq> None) (completedLinesInWindow b s))))"

record zero_sales_row =
  zs_productId :: uid
  zs_name :: string
  zs_categoryName :: string

definition zeroSalesSql :: "scoped_business \<Rightarrow> zero_sales_row sql" where
  "zeroSalesSql b = Sql True (\<lambda>s.
    List.concat (map (\<lambda>p. case find (\<lambda>c. r_id c = pr_categoryId p) (db_category s) of None \<Rightarrow> []
        | Some c \<Rightarrow> [\<lparr> zs_productId = r_id p, zs_name = pr_name p, zs_categoryName = cg_name c \<rparr>])
      (sort_key pr_name (filter (\<lambda>p. pr_businessId p = sb_id b \<and> live p \<and> pr_active p
         \<and> \<not> list_ex (\<lambda>l. si_productId (fst l) = Some (r_id p)) (completedLinesInWindow b s)) (db_product s)))))"

record product_trend_row =
  pt_bucket :: time
  pt_units :: num
  pt_revenue :: int
  pt_costedLines :: int
  pt_costedRevenue :: int
  pt_costedCost :: int

definition productTrendSql :: "uid \<Rightarrow> granularity \<Rightarrow> scoped_business \<Rightarrow> product_trend_row sql" where
  "productTrendSql prodId g b = Sql True (\<lambda>s. map (\<lambda>(k, ls). let known = filter costed ls in
      \<lparr> pt_bucket = k, pt_units = float8 (total_of (si_qty \<circ> fst) ls), pt_revenue = lines_net ls,
        pt_costedLines = count_of known, pt_costedRevenue = lines_net known, pt_costedCost = lines_cost known \<rparr>)
     (group_by (bucketExpr b g \<circ> snd) (filter (\<lambda>l. si_productId (fst l) = Some prodId) (completedLinesInWindow b s))))"

end
