(* ===== verification/OperationsSql.thy ===== *)
theory OperationsSql
  imports ReportSql
begin

text \<open>
  The SQL of the leaks, inventory and dashboard reports (\<open>reports/leaks.sql.ts\<close>,
  \<open>reports/inventory.sql.ts\<close>, \<open>reports/dashboard.sql.ts\<close>), in the manner of \<open>ReportSql\<close>.
\<close>

section \<open>Leaks\<close>

record discount_totals_row =
  dt_saleDiscount :: int
  dt_lineDiscount :: int
  dt_scPwdDiscount :: int
  dt_vatExemptSales :: int
  dt_scPwdSales :: int
  dt_netSales :: int

definition line_discounts :: "db \<Rightarrow> sale_row \<Rightarrow> int" where
  "line_discounts s r = total_of si_discount (filter (\<lambda>si. si_saleId si = r_id r \<and> live si) (db_saleItem s))"

definition discountTotalsSql :: "scoped_business \<Rightarrow> discount_totals_row sql" where
  "discountTotalsSql b = Sql True (\<lambda>s.
    let rows = completedInWindow b s
    in [\<lparr> dt_saleDiscount = total_of sl_discount rows, dt_lineDiscount = total_of (line_discounts s) rows,
          dt_scPwdDiscount = total_of sl_scPwdDiscount rows, dt_vatExemptSales = total_of sl_vatExemptSales rows,
          dt_scPwdSales = count_of (filter (\<lambda>r. sl_scPwd r \<noteq> None) rows), dt_netSales = total_of net_sale rows \<rparr>])"

record named_discount_row =
  nd_discountId :: uid
  nd_name :: string
  nd_kind :: disc_kind
  nd_timesUsed :: int
  nd_amount :: int

text \<open>\<open>JOIN discounts d ON d.id = ...\<close>, grouped by id, name and kind.\<close>

definition discount_of :: "db \<Rightarrow> uid option \<Rightarrow> discount_row option" where
  "discount_of s i = (case i of None \<Rightarrow> None | Some d \<Rightarrow> find (\<lambda>r. r_id r = d) (db_discount s))"

definition named_rows :: "('a \<Rightarrow> discount_row option) \<Rightarrow> ('a \<Rightarrow> int) \<Rightarrow> 'a list \<Rightarrow> named_discount_row list" where
  "named_rows disc amount rows = map (\<lambda>((i, nm, k), xs). \<lparr> nd_discountId = i, nd_name = nm, nd_kind = k,
       nd_timesUsed = count_of xs, nd_amount = total_of amount xs \<rparr>)
     (group_by (\<lambda>x. case disc x of Some d \<Rightarrow> (r_id d, dc_name d, dc_kind d)) (filter (\<lambda>x. disc x \<noteq> None) rows))"

definition lineDiscountsSql :: "scoped_business \<Rightarrow> named_discount_row sql" where
  "lineDiscountsSql b = Sql True (\<lambda>s. named_rows (discount_of s \<circ> si_discountId \<circ> fst) (si_discount \<circ> fst) (completedLinesInWindow b s))"

definition orderDiscountsSql :: "scoped_business \<Rightarrow> named_discount_row sql" where
  "orderDiscountsSql b = Sql True (\<lambda>s. named_rows (discount_of s \<circ> sl_discountId)
     (\<lambda>r. sl_discount r - (line_discounts s r - sl_scPwdDiscount r)) (completedInWindow b s))"

definition miscLinesSql :: "scoped_business \<Rightarrow> int sql" where
  "miscLinesSql b = Sql True (\<lambda>s. [lines_net (filter (\<lambda>l. si_productId (fst l) = None) (completedLinesInWindow b s))])"

record status_value_row =
  sv_status :: sale_status
  sv_reason :: string
  sv_count :: int
  sv_value :: int

definition reason_text :: "sale_row \<Rightarrow> string" where
  "reason_text r = (case sl_statusReason r of None \<Rightarrow> ''(no reason given)''
     | Some t \<Rightarrow> if t = [] then ''(no reason given)'' else t)"

definition statusValueSql :: "scoped_business \<Rightarrow> status_value_row sql" where
  "statusValueSql b = Sql True (\<lambda>s. map (\<lambda>((st, t), rs). \<lparr> sv_status = st, sv_reason = t, sv_count = count_of rs, sv_value = total_of net_sale rs \<rparr>)
     (group_by (\<lambda>r. (sl_status r, reason_text r))
       (filter (\<lambda>r. sl_status r \<noteq> Completed) (sales_in (sb_branchIds b) (sb_fromUtc b) (sb_toUtc b) s))))"

record over_short_row =
  os_shiftId :: uid
  os_branchId :: uid
  os_branchName :: string
  os_closedAt :: time
  os_expectedCash :: "int option"
  os_closingCash :: "int option"

text \<open>A shift belongs to the window it was closed in.\<close>

definition over_short :: "db \<Rightarrow> shift_row \<Rightarrow> over_short_row option" where
  "over_short s sh = (case (sh_closedAt sh, branch_name s (sh_branchId sh)) of
     (Some t, Some nm) \<Rightarrow> Some \<lparr> os_shiftId = r_id sh, os_branchId = sh_branchId sh, os_branchName = nm, os_closedAt = t,
        os_expectedCash = sh_expectedCash sh, os_closingCash = sh_closingCash sh \<rparr>
   | _ \<Rightarrow> None)"

definition overShortSql :: "scoped_business \<Rightarrow> over_short_row sql" where
  "overShortSql b = Sql True (\<lambda>s. sort_key (\<lambda>x. - os_closedAt x) (filter (\<lambda>x. sb_fromUtc b \<le> os_closedAt x \<and> os_closedAt x < sb_toUtc b)
     (List.map_filter (over_short s) (filter (\<lambda>sh. sh_branchId sh \<in> set (sb_branchIds b) \<and> live sh) (db_shift s)))))"

section \<open>Inventory\<close>

record movement_filter =
  mf_type :: "movement_type option"
  mf_productId :: "uid option"

definition movementWhere :: "scoped_business \<Rightarrow> movement_filter \<Rightarrow> stock_movement_row \<Rightarrow> bool" where
  "movementWhere b f m \<longleftrightarrow> mv_branchId m \<in> set (sb_branchIds b) \<and> live m \<and> sb_fromUtc b \<le> r_createdAt m
    \<and> r_createdAt m < sb_toUtc b \<and> opt_match (mf_type f) (Some (mv_type m)) \<and> opt_match (truthy_id (mf_productId f)) (Some (mv_productId m))"

record movement_out =
  mo_id :: uid
  mo_createdAt :: time
  mo_branchId :: uid
  mo_branchName :: string
  mo_productId :: uid
  mo_variantId :: "uid option"
  mo_productName :: string
  mo_variantName :: "string option"
  mo_type :: movement_type
  mo_qtyDelta :: num
  mo_reasonCategory :: "reason_category option"
  mo_unitCost :: "int option"
  mo_note :: "string option"
  mo_actor :: "(actor_type \<times> uid option \<times> string) option"

text \<open>The earliest audit row about the movement; actor type and action are there together or not at all.\<close>

definition movement_actor :: "db \<Rightarrow> uid \<Rightarrow> (actor_type \<times> uid option \<times> string) option" where
  "movement_actor s i = (case sort_key r_createdAt (filter (\<lambda>a. al_entityId a = Some i) (db_auditLog s)) of
     [] \<Rightarrow> None | a # _ \<Rightarrow> Some (al_actorType a, al_actorId a, al_action a))"

definition movement_row :: "db \<Rightarrow> stock_movement_row \<Rightarrow> movement_out option" where
  "movement_row s m = (case (branch_name s (mv_branchId m), find (\<lambda>p. r_id p = mv_productId m) (db_product s)) of
     (Some bn, Some p) \<Rightarrow> Some \<lparr> mo_id = r_id m, mo_createdAt = r_createdAt m, mo_branchId = mv_branchId m, mo_branchName = bn,
        mo_productId = mv_productId m, mo_variantId = mv_variantId m, mo_productName = pr_name p,
        mo_variantName = (case mv_variantId m of None \<Rightarrow> None | Some v \<Rightarrow> map_option pv_name (find (\<lambda>x. r_id x = v) (db_productVariant s))),
        mo_type = mv_type m, mo_qtyDelta = float8 (mv_qtyDelta m), mo_reasonCategory = mv_reasonCategory m,
        mo_unitCost = mv_unitCost m, mo_note = mv_note m, mo_actor = movement_actor s (r_id m) \<rparr>
   | _ \<Rightarrow> None)"

text \<open>\<open>ORDER BY created_at DESC, id DESC\<close>\<close>

definition newest_movements :: "movement_out list \<Rightarrow> movement_out list" where
  "newest_movements ms = rev (sort_key (\<lambda>m. (mo_createdAt m, mo_id m)) ms)"

definition movementsSql :: "movement_filter \<Rightarrow> nat \<Rightarrow> scoped_business \<Rightarrow> movement_out sql" where
  "movementsSql f limit b = Sql True (\<lambda>s. take limit (newest_movements
     (List.map_filter (movement_row s) (filter (movementWhere b f) (db_stockMovement s)))))"

definition movementsCountSql :: "movement_filter \<Rightarrow> scoped_business \<Rightarrow> int sql" where
  "movementsCountSql f b = Sql True (\<lambda>s. [count_of (filter (movementWhere b f) (db_stockMovement s))])"

text \<open>\<open>COALESCE(v.cost, p.cost)\<close>\<close>

definition item_cost :: "db \<Rightarrow> product_row \<Rightarrow> uid option \<Rightarrow> int option" where
  "item_cost s p v = (case (case v of None \<Rightarrow> None | Some i \<Rightarrow> find (\<lambda>x. r_id x = i) (db_productVariant s)) of
     None \<Rightarrow> pr_cost p | Some x \<Rightarrow> (case pv_cost x of None \<Rightarrow> pr_cost p | Some c \<Rightarrow> Some c))"

record shrinkage_row =
  sk_reasonCategory :: reason_category
  sk_units :: num
  sk_costedRows :: int
  sk_value :: int
  sk_uncostedUnits :: num

definition shrunk :: "scoped_business \<Rightarrow> stock_movement_row \<Rightarrow> bool" where
  "shrunk b m \<longleftrightarrow> mv_branchId m \<in> set (sb_branchIds b) \<and> live m \<and> mv_type m = Mv_adjustment \<and> mv_qtyDelta m < 0
    \<and> mv_reasonCategory m \<noteq> None \<and> sb_fromUtc b \<le> r_createdAt m \<and> r_createdAt m < sb_toUtc b"

definition with_cost :: "db \<Rightarrow> stock_movement_row \<Rightarrow> (stock_movement_row \<times> int option) option" where
  "with_cost s m = map_option (\<lambda>p. (m, item_cost s p (mv_variantId m))) (find (\<lambda>p. r_id p = mv_productId m) (db_product s))"

definition shrinkageSql :: "scoped_business \<Rightarrow> shrinkage_row sql" where
  "shrinkageSql b = Sql True (\<lambda>s. map (\<lambda>(k, ms).
      let known = filter (\<lambda>x. snd x \<noteq> None) ms
      in \<lparr> sk_reasonCategory = the k, sk_units = float8 (total_of (\<lambda>x. - mv_qtyDelta (fst x)) ms), sk_costedRows = count_of known,
          sk_value = total_of (\<lambda>x. round_milli (- mv_qtyDelta (fst x) * the (snd x))) known,
          sk_uncostedUnits = float8 (total_of (\<lambda>x. - mv_qtyDelta (fst x)) (filter (\<lambda>x. snd x = None) ms)) \<rparr>)
     (group_by (mv_reasonCategory \<circ> fst) (List.map_filter (with_cost s) (filter (shrunk b) (db_stockMovement s)))))"

record on_hand_row =
  oh_branchId :: uid
  oh_branchName :: string
  oh_productId :: uid
  oh_variantId :: "uid option"
  oh_name :: string
  oh_qty :: num
  oh_unitCost :: "int option"
  oh_lowStockThreshold :: "num option"
  oh_unitsSold :: num

text \<open>Units sold match product and variant, absent variants being the same; the dash of a variant's name is \<open>U+2014\<close>.\<close>

definition units_sold :: "scoped_business \<Rightarrow> db \<Rightarrow> branch_stock_row \<Rightarrow> milli" where
  "units_sold b s bs = total_of (si_qty \<circ> fst) (filter (\<lambda>l. si_productId (fst l) = Some (bs_productId bs)
      \<and> si_variantId (fst l) = bs_variantId bs \<and> sl_branchId (snd l) = bs_branchId bs)
     (lines_of (filter (\<lambda>r. live r \<and> sl_status r = Completed \<and> sb_fromUtc b \<le> r_createdAt r \<and> r_createdAt r < sb_toUtc b) (db_sale s)) s))"

definition EM_DASH :: string where
  "EM_DASH = [CHR 0x20, CHR 0xE2, CHR 0x80, CHR 0x94, CHR 0x20]"

definition on_hand :: "scoped_business \<Rightarrow> db \<Rightarrow> branch_stock_row \<Rightarrow> ((string \<times> string) \<times> on_hand_row) option" where
  "on_hand b s bs = (case (branch_name s (bs_branchId bs), find (\<lambda>p. r_id p = bs_productId bs) (db_product s)) of
     (Some bn, Some p) \<Rightarrow>
       if live p then
         let v = (case bs_variantId bs of None \<Rightarrow> None | Some i \<Rightarrow> find (\<lambda>x. r_id x = i) (db_productVariant s))
         in Some ((bn, pr_name p), \<lparr> oh_branchId = bs_branchId bs, oh_branchName = bn, oh_productId = bs_productId bs,
              oh_variantId = bs_variantId bs,
              oh_name = (case v of None \<Rightarrow> pr_name p | Some x \<Rightarrow> pr_name p @ EM_DASH @ pv_name x),
              oh_qty = float8 (bs_qty bs), oh_unitCost = item_cost s p (bs_variantId bs),
              oh_lowStockThreshold = map_option float8 (pr_lowStockThreshold p), oh_unitsSold = float8 (units_sold b s bs) \<rparr>)
       else None
   | _ \<Rightarrow> None)"

definition onHandSql :: "scoped_business \<Rightarrow> on_hand_row sql" where
  "onHandSql b = Sql True (\<lambda>s. map snd (sort_key fst
     (List.map_filter (on_hand b s) (filter (\<lambda>bs. bs_branchId bs \<in> set (sb_branchIds b) \<and> live bs) (db_branchStock s)))))"

section \<open>Dashboard\<close>

record dashboard_branch_row =
  db_branchId :: uid
  db_branchName :: string
  db_salesC :: int
  db_transactions :: int
  db_costedLines :: int
  db_costedRevenue :: int
  db_costedCost :: int

text \<open>Every live branch in scope, by name, with its sales and lines in a window.\<close>

definition dashboardBranchSql :: "time \<Rightarrow> time \<Rightarrow> scoped_business \<Rightarrow> dashboard_branch_row sql" where
  "dashboardBranchSql fromUtc toUtc b = Sql True (\<lambda>s.
    let scoped_sales = with_status Completed (sales_in (sb_branchIds b) fromUtc toUtc s)
    in map (\<lambda>br. let rows = filter (\<lambda>r. sl_branchId r = r_id br) scoped_sales; known = filter costed (lines_of rows s)
         in \<lparr> db_branchId = r_id br, db_branchName = br_name br, db_salesC = total_of net_sale rows,
              db_transactions = count_of rows, db_costedLines = count_of known, db_costedRevenue = lines_net known,
              db_costedCost = lines_cost known \<rparr>)
       (sort_key br_name (filter (\<lambda>br. r_id br \<in> set (sb_branchIds b) \<and> live br) (db_branch s))))"

definition dashboardSparklineSql :: "time \<Rightarrow> time \<Rightarrow> scoped_business \<Rightarrow> bucket_row sql" where
  "dashboardSparklineSql fromUtc toUtc b = Sql True (\<lambda>s.
     bucket_rows (bucketExpr b By_day) (with_status Completed (sales_in (sb_branchIds b) fromUtc toUtc s)))"

definition low_stock :: "db \<Rightarrow> branch_stock_row \<Rightarrow> bool" where
  "low_stock s bs \<longleftrightarrow> (case find (\<lambda>p. r_id p = bs_productId bs) (db_product s) of None \<Rightarrow> False
     | Some p \<Rightarrow> live p \<and> (case pr_lowStockThreshold p of None \<Rightarrow> False | Some t \<Rightarrow> bs_qty bs \<le> t))"

definition lowStockCountSql :: "scoped_business \<Rightarrow> int sql" where
  "lowStockCountSql b = Sql True (\<lambda>s. [count_of (filter (\<lambda>bs. bs_branchId bs \<in> set (sb_branchIds b) \<and> live bs \<and> low_stock s bs) (db_branchStock s))])"

end
