(* ===== verification/Reports.thy ===== *)
theory Reports
  imports OperationsSql "HOL-Library.AList"
begin

text \<open>
  The report services of \<open>portal/analytics\<close>: resolve the scope, query each business, merge in
  the order of the businesses, write the audit rows, build the answer. A \<open>Map\<close> is an
  association list in insertion order; a \<open>sort\<close> by a number is stable. The queries of a
  \<open>Promise.all\<close> read one state: no report writes before its audit rows.
\<close>

section \<open>Loops and maps\<close>

fun fold_op :: "('x \<Rightarrow> 'a \<Rightarrow> ('s, 'e, 'a) op) \<Rightarrow> 'x list \<Rightarrow> 'a \<Rightarrow> ('s, 'e, 'a) op" where
  "fold_op f [] acc = ret acc"
| "fold_op f (x # xs) acc = bind (f x acc) (\<lambda>acc'. fold_op f xs acc')"

definition bump :: "'v \<Rightarrow> ('v \<Rightarrow> 'v) \<Rightarrow> 'k \<Rightarrow> ('k \<times> 'v) list \<Rightarrow> ('k \<times> 'v) list" where
  "bump initial f k m = AList.update k (f (case map_of m k of None \<Rightarrow> initial | Some v \<Rightarrow> v)) m"

text \<open>\<open>Number(m.get(k)?.field ?? 0)\<close>\<close>

definition get_or :: "'v \<Rightarrow> 'k \<Rightarrow> ('k \<times> 'v) list \<Rightarrow> 'v" where
  "get_or d k m = (case map_of m k of None \<Rightarrow> d | Some v \<Rightarrow> v)"

text \<open>\<open>bucket.toISOString().slice(0, 10)\<close>\<close>

definition bucketKey :: "time \<Rightarrow> string" where
  "bucketKey t = date_part t"

section \<open>Overview\<close>

record overview_report =
  ov_from :: string
  ov_to :: string
  ov_grossSalesC :: kpi
  ov_discountsC :: kpi
  ov_netSalesC :: kpi
  ov_serviceChargeC :: kpi
  ov_transactions :: kpi
  ov_voidCount :: kpi
  ov_refundCount :: kpi
  ov_averageBasketC :: nullable_kpi
  ov_grossProfitC :: nullable_kpi
  ov_marginPct :: margin_kpi
  ov_costedRevenueC :: int
  ov_uncostedRevenueC :: int

definition overview_business :: "scoped_business \<Rightarrow> totals \<times> totals \<Rightarrow> (db, exn, totals \<times> totals) op" where
  "overview_business b acc =
    bind (runScopedOne b (\<lambda>b. salesAggregateSql b (sb_fromUtc b) (sb_toUtc b))) (\<lambda>salesNow.
    bind (runScopedOne b (\<lambda>b. salesAggregateSql b (sb_previousFromUtc b) (sb_previousToUtc b))) (\<lambda>salesThen.
    bind (runScopedOne b (\<lambda>b. lineAggregateSql b (sb_fromUtc b) (sb_toUtc b))) (\<lambda>linesNow.
    bind (runScopedOne b (\<lambda>b. lineAggregateSql b (sb_previousFromUtc b) (sb_previousToUtc b))) (\<lambda>linesThen.
    ret (addRows (fst acc) salesNow linesNow, addRows (snd acc) salesThen linesThen)))))"

definition build_overview :: "string \<Rightarrow> string \<Rightarrow> totals \<Rightarrow> totals \<Rightarrow> overview_report" where
  "build_overview from to current previous =
    \<lparr> ov_from = from, ov_to = to, ov_grossSalesC = toKpi (tt_grossSalesC current) (tt_grossSalesC previous),
      ov_discountsC = toKpi (tt_discountsC current) (tt_discountsC previous),
      ov_netSalesC = toKpi (netSalesC current) (netSalesC previous),
      ov_serviceChargeC = toKpi (tt_serviceChargeC current) (tt_serviceChargeC previous),
      ov_transactions = toKpi (tt_transactions current) (tt_transactions previous),
      ov_voidCount = toKpi (tt_voidCount current) (tt_voidCount previous),
      ov_refundCount = toKpi (tt_refundCount current) (tt_refundCount previous),
      ov_averageBasketC = toNullableKpi (averageBasketC current) (averageBasketC previous),
      ov_grossProfitC = toNullableKpi (grossProfitC current) (grossProfitC previous),
      ov_marginPct = toMarginKpi (marginPct current) (marginPct previous),
      ov_costedRevenueC = tt_costedRevenueC current, ov_uncostedRevenueC = tt_uncostedRevenueC current \<rparr>"

definition overview :: "ctx \<Rightarrow> 'q analytics_query_scheme \<Rightarrow> (db, exn, overview_report) op" where
  "overview ctx q =
    bind (resolve ctx q) (\<lambda>sc.
    bind (fold_op overview_business (sc_businesses sc) (emptyTotals, emptyTotals)) (\<lambda>(current, previous).
    bind (logReport ctx sc ''overview'' (format_of q)) (\<lambda>_.
    ret (build_overview (sc_from sc) (sc_to sc) current previous))))"

section \<open>Tax\<close>

record tax_totals =
  xx_vatableSalesC :: int
  xx_vatC :: int
  xx_vatExemptSalesC :: int
  xx_scPwdDiscountC :: int
  xx_serviceChargeC :: int

record tax_business_row = tax_totals +
  xb_businessId :: uid
  xb_name :: string
  xb_taxRate :: num

record tax_report =
  xr_from :: string
  xr_to :: string
  xr_businesses :: "tax_business_row list"
  xr_totals :: tax_totals

definition tax_business :: "scoped_business \<Rightarrow> tax_business_row list \<times> tax_totals
    \<Rightarrow> (db, exn, tax_business_row list \<times> tax_totals) op" where
  "tax_business b acc = bind (runScopedOne b taxSummarySql) (\<lambda>row. ret
    (fst acc @ [\<lparr> xx_vatableSalesC = tx_vatable row, xx_vatC = tx_vat row, xx_vatExemptSalesC = tx_vatExempt row,
        xx_scPwdDiscountC = tx_scPwd row, xx_serviceChargeC = tx_serviceCharge row,
        xb_businessId = sb_id b, xb_name = sb_name b, xb_taxRate = sb_taxRate b \<rparr>],
     \<lparr> xx_vatableSalesC = xx_vatableSalesC (snd acc) + tx_vatable row, xx_vatC = xx_vatC (snd acc) + tx_vat row,
       xx_vatExemptSalesC = xx_vatExemptSalesC (snd acc) + tx_vatExempt row,
       xx_scPwdDiscountC = xx_scPwdDiscountC (snd acc) + tx_scPwd row,
       xx_serviceChargeC = xx_serviceChargeC (snd acc) + tx_serviceCharge row \<rparr>))"

definition no_tax :: tax_totals where
  "no_tax = \<lparr> xx_vatableSalesC = 0, xx_vatC = 0, xx_vatExemptSalesC = 0, xx_scPwdDiscountC = 0, xx_serviceChargeC = 0 \<rparr>"

definition taxReport :: "ctx \<Rightarrow> 'q analytics_query_scheme \<Rightarrow> (db, exn, tax_report) op" where
  "taxReport ctx q =
    bind (resolve ctx q) (\<lambda>sc.
    bind (fold_op tax_business (sc_businesses sc) ([], no_tax)) (\<lambda>(rows, totals).
    bind (logReport ctx sc ''tax'' (format_of q)) (\<lambda>_.
    ret \<lparr> xr_from = sc_from sc, xr_to = sc_to sc, xr_businesses = rows, xr_totals = totals \<rparr>)))"

section \<open>Sales over time\<close>

text \<open>Sales and number of transactions under a key.\<close>

type_synonym 'k tally = "('k \<times> int \<times> int) list"

definition add_tally :: "int \<Rightarrow> int \<Rightarrow> 'k \<Rightarrow> 'k tally \<Rightarrow> 'k tally" where
  "add_tally sales transactions = bump (0, 0) (\<lambda>(a, n). (a + sales, n + transactions))"

definition add_buckets :: "bucket_row list \<Rightarrow> string tally \<Rightarrow> string tally" where
  "add_buckets rows m = foldl (\<lambda>m r. add_tally (bk_sales r) (bk_transactions r) (bucketKey (bk_bucket r)) m) m rows"

record heatmap_day =
  hd_date :: string
  hd_salesC :: int
  hd_transactions :: int

definition heatmap :: "ctx \<Rightarrow> 'q analytics_query_scheme \<Rightarrow> (db, exn, heatmap_day list) op" where
  "heatmap ctx q =
    bind (resolve ctx q) (\<lambda>sc.
    bind (fold_op (\<lambda>b m. bind (runScoped b heatmapSql) (\<lambda>rows. ret (add_buckets rows m))) (sc_businesses sc) []) (\<lambda>sales.
    bind (logReport ctx sc ''sales-heatmap'' (format_of q)) (\<lambda>_.
    bind (lift_res (businessDaySeries (sc_from sc) (sc_to sc))) (\<lambda>days.
    ret (map (\<lambda>date. \<lparr> hd_date = date, hd_salesC = fst (get_or (0, 0) date sales),
      hd_transactions = snd (get_or (0, 0) date sales) \<rparr>) days)))))"

definition granularity_of :: "trend_query \<Rightarrow> granularity" where
  "granularity_of q = (case tq_granularity q of None \<Rightarrow> By_day | Some g \<Rightarrow> g)"

text \<open>Costed lines, their revenue and their cost under a key.\<close>

type_synonym costed_sums = "int \<times> int \<times> int"

definition add_costed :: "costed_sums \<Rightarrow> costed_sums \<Rightarrow> costed_sums" where
  "add_costed x y = (case (x, y) of ((n, r, c), (n', r', c')) \<Rightarrow> (n + n', r + r', c + c'))"

definition profit_of :: "costed_sums \<Rightarrow> int option" where
  "profit_of x = (case x of (n, r, c) \<Rightarrow> if 0 < n then Some (r - c) else None)"

record trend_bucket =
  tb_bucket :: string
  tb_salesC :: int
  tb_grossProfitC :: "int option"
  tb_transactions :: int

definition trend_business :: "granularity \<Rightarrow> scoped_business \<Rightarrow> string tally \<times> (string \<times> costed_sums) list
    \<Rightarrow> (db, exn, string tally \<times> (string \<times> costed_sums) list) op" where
  "trend_business g b acc =
    bind (runScoped b (trendSalesSql g)) (\<lambda>salesRows.
    bind (runScoped b (trendLinesSql g)) (\<lambda>lineRows.
    ret (add_buckets salesRows (fst acc),
         foldl (\<lambda>m r. bump (0, 0, 0) (\<lambda>x. add_costed x (tp_costedLines r, tp_costedRevenue r, tp_costedCost r)) (bucketKey (tp_bucket r)) m)
           (snd acc) lineRows)))"

definition trend :: "ctx \<Rightarrow> trend_query \<Rightarrow> (db, exn, trend_bucket list) op" where
  "trend ctx q =
    bind (resolve ctx q) (\<lambda>sc.
    bind (fold_op (trend_business (granularity_of q)) (sc_businesses sc) ([], [])) (\<lambda>(sales, profit).
    bind (logReport ctx sc ''sales-trend'' (format_of q)) (\<lambda>_.
    ret (map (\<lambda>(k, a, n). \<lparr> tb_bucket = k, tb_salesC = a,
        tb_grossProfitC = (case map_of profit k of None \<Rightarrow> None | Some p \<Rightarrow> profit_of p), tb_transactions = n \<rparr>)
      (sort_key fst sales)))))"

record 'k count_entry =
  ce_key :: 'k
  ce_salesC :: int
  ce_transactions :: int

definition entry :: "'k \<Rightarrow> int \<times> int \<Rightarrow> 'k count_entry" where
  "entry k x = \<lparr> ce_key = k, ce_salesC = fst x, ce_transactions = snd x \<rparr>"

record patterns_report =
  pa_hourOfDay :: "nat count_entry list"
  pa_dayOfWeek :: "nat count_entry list"

text \<open>\<open>cells[row.key].salesC += ...\<close>\<close>

definition add_cells :: "nat key_row list \<Rightarrow> (int \<times> int) list \<Rightarrow> (int \<times> int) list" where
  "add_cells rows cells = foldl (\<lambda>cs r. cs[kr_key r := (fst (cs ! kr_key r) + kr_sales r, snd (cs ! kr_key r) + kr_transactions r)]) cells rows"

definition patterns :: "ctx \<Rightarrow> 'q analytics_query_scheme \<Rightarrow> (db, exn, patterns_report) op" where
  "patterns ctx q =
    bind (resolve ctx q) (\<lambda>sc.
    bind (fold_op (\<lambda>b acc.
        bind (runScoped b hourPatternSql) (\<lambda>hourRows.
        bind (runScoped b dowPatternSql) (\<lambda>dowRows.
        ret (add_cells hourRows (fst acc), add_cells dowRows (snd acc)))))
      (sc_businesses sc) (replicate 24 (0, 0), replicate 7 (0, 0))) (\<lambda>(hours, days).
    bind (logReport ctx sc ''sales-patterns'' (format_of q)) (\<lambda>_.
    ret \<lparr> pa_hourOfDay = map (\<lambda>h. entry h (hours ! h)) [0..<List.length hours],
          pa_dayOfWeek = map (\<lambda>d. entry d (days ! d)) [0..<List.length days] \<rparr>)))"

record breakdowns_report =
  bd_byPaymentMethod :: "payment_method count_entry list"
  bd_byOrderType :: "order_type count_entry list"
  bd_byBranch :: "(uid \<times> string) count_entry list"

definition add_keys :: "'k key_row list \<Rightarrow> 'k tally \<Rightarrow> 'k tally" where
  "add_keys rows m = foldl (\<lambda>m r. add_tally (kr_sales r) (kr_transactions r) (kr_key r) m) m rows"

definition breakdowns :: "ctx \<Rightarrow> 'q analytics_query_scheme \<Rightarrow> (db, exn, breakdowns_report) op" where
  "breakdowns ctx q =
    bind (resolve ctx q) (\<lambda>sc.
    bind (fold_op (\<lambda>b (methods, types, branches).
        bind (runScoped b paymentBreakdownSql) (\<lambda>methodRows.
        bind (runScoped b orderTypeBreakdownSql) (\<lambda>typeRows.
        bind (runScoped b branchBreakdownSql) (\<lambda>branchRows.
        ret (add_keys methodRows methods, add_keys typeRows types,
             branches @ map (\<lambda>r. entry (kr_key r) (kr_sales r, kr_transactions r)) branchRows)))))
      (sc_businesses sc) ([], [], [])) (\<lambda>(methods, types, branches).
    bind (logReport ctx sc ''sales-breakdowns'' (format_of q)) (\<lambda>_.
    ret \<lparr> bd_byPaymentMethod = map (\<lambda>(k, x). entry k x) methods, bd_byOrderType = map (\<lambda>(k, x). entry k x) types,
          bd_byBranch = sort_key (\<lambda>e. - ce_salesC e) branches \<rparr>)))"

end
