(* ===== verification/ProductReports.thy ===== *)
theory ProductReports
  imports Reports
begin

text \<open>
  The product and profit reports: \<open>products/products-report.service.ts\<close> and
  \<open>profit/profit-report.service.ts\<close>, in the manner of \<open>Reports\<close>. Every margin is computed by
  the functions of the overview.
\<close>

section \<open>Products sold\<close>

record accumulated =
  ac_productId :: uid
  ac_variantId :: "uid option"
  ac_name :: string
  ac_units :: num
  ac_revenueC :: int
  ac_costed :: costed_sums

record sold_row =
  sd_productId :: uid
  sd_variantId :: "uid option"
  sd_name :: string
  sd_units :: num
  sd_revenueC :: int
  sd_grossProfitC :: "int option"
  sd_marginPct :: "num option"

text \<open>The overview's totals with only the costed figures filled in.\<close>

definition costed_totals :: "costed_sums \<Rightarrow> totals" where
  "costed_totals x = (case x of (n, r, c) \<Rightarrow> emptyTotals\<lparr> tt_costedLines := n, tt_costedRevenueC := r, tt_costedCostC := c \<rparr>)"

definition sold_key :: "product_sales_row \<Rightarrow> string" where
  "sold_key r = ps_productId r @ '':'' @ (case ps_variantId r of None \<Rightarrow> [] | Some v \<Rightarrow> v)"

definition accumulate :: "product_sales_row \<Rightarrow> (string \<times> accumulated) list \<Rightarrow> (string \<times> accumulated) list" where
  "accumulate r m = (let x = (ps_costedLines r, ps_costedRevenue r, ps_costedCost r) in
    case map_of m (sold_key r) of
      Some a \<Rightarrow> AList.update (sold_key r) (a\<lparr> ac_units := jadd (ac_units a) (ps_units r), ac_revenueC := ac_revenueC a + ps_revenue r,
          ac_costed := add_costed (ac_costed a) x \<rparr>) m
    | None \<Rightarrow> AList.update (sold_key r) \<lparr> ac_productId = ps_productId r, ac_variantId = ps_variantId r, ac_name = ps_name r,
          ac_units = ps_units r, ac_revenueC = ps_revenue r, ac_costed = x \<rparr> m)"

definition sold :: "scoped_business list \<Rightarrow> (db, exn, accumulated list) op" where
  "sold businesses =
    bind (fold_op (\<lambda>b m. bind (runScoped b productSalesSql) (\<lambda>rows. ret (foldl (\<lambda>m r. accumulate r m) m rows))) businesses []) (\<lambda>merged.
    ret (map snd merged))"

definition toSoldRow :: "accumulated \<Rightarrow> sold_row" where
  "toSoldRow a = \<lparr> sd_productId = ac_productId a, sd_variantId = ac_variantId a, sd_name = ac_name a, sd_units = ac_units a,
     sd_revenueC = ac_revenueC a, sd_grossProfitC = grossProfitC (costed_totals (ac_costed a)),
     sd_marginPct = marginPct (costed_totals (ac_costed a)) \<rparr>"

definition rank_value :: "ranking \<Rightarrow> accumulated \<Rightarrow> num" where
  "rank_value k a = (case k of By_units \<Rightarrow> ac_units a | By_revenue \<Rightarrow> of_int (ac_revenueC a))"

definition rank :: "accumulated list \<Rightarrow> ranking \<Rightarrow> bool \<Rightarrow> sold_row list" where
  "rank rows k descending = map toSoldRow (sort_key (\<lambda>a. if descending then - rank_value k a else rank_value k a) rows)"

record category_entry =
  cy_categoryId :: uid
  cy_name :: string
  cy_units :: num
  cy_revenueC :: int

definition add_category :: "category_sales_row \<Rightarrow> (uid \<times> category_entry) list \<Rightarrow> (uid \<times> category_entry) list" where
  "add_category r m = (case map_of m (gs_categoryId r) of
      Some c \<Rightarrow> AList.update (gs_categoryId r) (c\<lparr> cy_units := jadd (cy_units c) (gs_units r), cy_revenueC := cy_revenueC c + gs_revenue r \<rparr>) m
    | None \<Rightarrow> AList.update (gs_categoryId r) \<lparr> cy_categoryId = gs_categoryId r, cy_name = gs_name r, cy_units = gs_units r,
        cy_revenueC = gs_revenue r \<rparr> m)"

definition ranking_of :: "product_query \<Rightarrow> ranking" where
  "ranking_of q = (case pq_by q of None \<Rightarrow> By_units | Some k \<Rightarrow> k)"

definition limit_of :: "product_query \<Rightarrow> nat" where
  "limit_of q = (case pq_limit q of None \<Rightarrow> 20 | Some n \<Rightarrow> nat \<lfloor>n\<rfloor>)"

record top_products_report =
  tr_from :: string
  tr_to :: string
  tr_by :: ranking
  tr_rows :: "sold_row list"
  tr_categories :: "category_entry list"

definition topProducts :: "ctx \<Rightarrow> product_query \<Rightarrow> (db, exn, top_products_report) op" where
  "topProducts ctx q =
    bind (resolve ctx q) (\<lambda>sc.
    bind (sold (sc_businesses sc)) (\<lambda>rows.
    bind (fold_op (\<lambda>b m. bind (runScoped b categorySalesSql) (\<lambda>rs. ret (foldl (\<lambda>m r. add_category r m) m rs))) (sc_businesses sc) []) (\<lambda>categories.
    bind (logReport ctx sc ''products-top'' (format_of q)) (\<lambda>_.
    ret \<lparr> tr_from = sc_from sc, tr_to = sc_to sc, tr_by = ranking_of q,
          tr_rows = take (limit_of q) (rank rows (ranking_of q) True),
          tr_categories = sort_key (\<lambda>c. - cy_revenueC c) (map snd categories) \<rparr>))))"

record slow_products_report =
  sw_from :: string
  sw_to :: string
  sw_bottom :: "sold_row list"
  sw_zeroSales :: "zero_sales_row list"

definition slowProducts :: "ctx \<Rightarrow> product_query \<Rightarrow> (db, exn, slow_products_report) op" where
  "slowProducts ctx q =
    bind (resolve ctx q) (\<lambda>sc.
    bind (sold (sc_businesses sc)) (\<lambda>rows.
    bind (fold_op (\<lambda>b acc. bind (runScoped b zeroSalesSql) (\<lambda>rs. ret (acc @ rs))) (sc_businesses sc) []) (\<lambda>zeroSales.
    bind (logReport ctx sc ''products-slow'' (format_of q)) (\<lambda>_.
    ret \<lparr> sw_from = sc_from sc, sw_to = sc_to sc, sw_bottom = take (limit_of q) (rank rows (ranking_of q) False),
          sw_zeroSales = zeroSales \<rparr>))))"

record bucket_tally =
  bt_units :: num
  bt_revenueC :: int
  bt_costed :: costed_sums

definition add_trend_row :: "product_trend_row \<Rightarrow> (string \<times> bucket_tally) list \<Rightarrow> (string \<times> bucket_tally) list" where
  "add_trend_row r m = (let k = bucketKey (pt_bucket r); x = (pt_costedLines r, pt_costedRevenue r, pt_costedCost r) in
    case map_of m k of
      Some t \<Rightarrow> AList.update k (t\<lparr> bt_units := jadd (bt_units t) (pt_units r), bt_revenueC := bt_revenueC t + pt_revenue r,
         bt_costed := add_costed (bt_costed t) x \<rparr>) m
    | None \<Rightarrow> AList.update k \<lparr> bt_units = pt_units r, bt_revenueC = pt_revenue r, bt_costed = x \<rparr> m)"

text \<open>Day buckets are filled from the requested range, coarser ones come from the data.\<close>

definition bucket_keys :: "granularity \<Rightarrow> resolved_scope \<Rightarrow> string list \<Rightarrow> exn + string list" where
  "bucket_keys g sc ks = (if g = By_day then businessDaySeries (sc_from sc) (sc_to sc) else Inr (sort ks))"

record product_trend_bucket =
  pb_bucket :: string
  pb_units :: num
  pb_revenueC :: int
  pb_grossProfitC :: "int option"
  pb_marginPct :: "num option"

record product_trend_report =
  pe_productId :: uid
  pe_from :: string
  pe_to :: string
  pe_granularity :: granularity
  pe_buckets :: "product_trend_bucket list"

definition trend_bucket_of :: "(string \<times> bucket_tally) list \<Rightarrow> string \<Rightarrow> product_trend_bucket" where
  "trend_bucket_of merged k =
    (let t = get_or \<lparr> bt_units = 0, bt_revenueC = 0, bt_costed = (0, 0, 0) \<rparr> k merged
     in \<lparr> pb_bucket = k, pb_units = bt_units t, pb_revenueC = bt_revenueC t,
          pb_grossProfitC = grossProfitC (costed_totals (bt_costed t)), pb_marginPct = marginPct (costed_totals (bt_costed t)) \<rparr>)"

definition productTrend :: "ctx \<Rightarrow> uid \<Rightarrow> trend_query \<Rightarrow> (db, exn, product_trend_report) op" where
  "productTrend ctx prodId q =
    bind (scoped_findFirst ctx product_t (\<lambda>p. r_id p = prodId)) (\<lambda>owned.
    bind (guard (owned \<noteq> None) (Api (NotFoundError ''Product not found.''))) (\<lambda>_.
    bind (resolve ctx q) (\<lambda>sc.
    bind (fold_op (\<lambda>b m. bind (runScoped b (productTrendSql prodId (granularity_of q))) (\<lambda>rs. ret (foldl (\<lambda>m r. add_trend_row r m) m rs)))
      (sc_businesses sc) []) (\<lambda>merged.
    bind (lift_res (bucket_keys (granularity_of q) sc (map fst merged))) (\<lambda>ks.
    bind (logReport ctx sc ''product-trend'' (format_of q)) (\<lambda>_.
    ret \<lparr> pe_productId = prodId, pe_from = sc_from sc, pe_to = sc_to sc, pe_granularity = granularity_of q,
          pe_buckets = map (trend_bucket_of merged) ks \<rparr>))))))"

section \<open>Profit\<close>

record margin_figures =
  mf_revenueC :: int
  mf_costC :: "int option"
  mf_grossProfitC :: "int option"
  mf_marginPct :: "num option"

text \<open>Revenue and costed figures.\<close>

type_synonym costed_tally = "int \<times> costed_sums"

definition addInto :: "costed_tally \<Rightarrow> costed_tally \<Rightarrow> costed_tally" where
  "addInto target x = (fst target + fst x, add_costed (snd target) (snd x))"

definition emptyCosted :: costed_tally where
  "emptyCosted = (0, 0, 0, 0)"

definition marginsOf :: "costed_tally \<Rightarrow> margin_figures" where
  "marginsOf x = (case x of (revenue, n, r, c) \<Rightarrow> \<lparr> mf_revenueC = revenue, mf_costC = (if n = 0 then None else Some c),
     mf_grossProfitC = grossProfitC (costed_totals (n, r, c)), mf_marginPct = marginPct (costed_totals (n, r, c)) \<rparr>)"

record profit_bucket =
  pf_bucket :: string
  pf_grossProfitC :: "int option"
  pf_marginPct :: "num option"

record product_margin_row = margin_figures +
  pm_productId :: uid
  pm_variantId :: "uid option"
  pm_name :: string

record category_margin_row = margin_figures +
  gm_categoryId :: uid
  gm_name :: string

record profit_report =
  pr_from :: string
  pr_to :: string
  pr_granularity :: granularity
  pr_overTime :: "profit_bucket list"
  pr_byProduct :: "product_margin_row list"
  pr_byCategory :: "category_margin_row list"
  pr_costedRevenueC :: int
  pr_uncostedRevenueC :: int

record profit_sums =
  fs_overTime :: "(string \<times> costed_tally) list"
  fs_byProduct :: "(string \<times> (uid \<times> uid option \<times> string) \<times> costed_tally) list"
  fs_byCategory :: "(uid \<times> string \<times> costed_tally) list"
  fs_costedRevenueC :: int
  fs_uncostedRevenueC :: int

text \<open>The first row under a key fixes the names, every row adds to the tally.\<close>

definition profit_business :: "granularity \<Rightarrow> scoped_business \<Rightarrow> profit_sums \<Rightarrow> (db, exn, profit_sums) op" where
  "profit_business g b acc =
    bind (runScoped b (trendLinesSql g)) (\<lambda>buckets.
    bind (runScoped b productSalesSql) (\<lambda>products.
    bind (runScoped b categorySalesSql) (\<lambda>categories.
    bind (runScopedOne b (\<lambda>b. lineAggregateSql b (sb_fromUtc b) (sb_toUtc b))) (\<lambda>tally.
    ret \<lparr> fs_overTime = foldl (\<lambda>m r. bump emptyCosted
            (\<lambda>x. addInto x (0, tp_costedLines r, tp_costedRevenue r, tp_costedCost r)) (bucketKey (tp_bucket r)) m) (fs_overTime acc) buckets,
          fs_byProduct = foldl (\<lambda>m r. bump ((ps_productId r, ps_variantId r, ps_name r), emptyCosted)
            (\<lambda>(i, x). (i, addInto x (ps_revenue r, ps_costedLines r, ps_costedRevenue r, ps_costedCost r))) (sold_key r) m) (fs_byProduct acc) products,
          fs_byCategory = foldl (\<lambda>m r. bump (gs_name r, emptyCosted)
            (\<lambda>(nm, x). (nm, addInto x (gs_revenue r, gs_costedLines r, gs_costedRevenue r, gs_costedCost r))) (gs_categoryId r) m) (fs_byCategory acc) categories,
          fs_costedRevenueC = fs_costedRevenueC acc + la_costedRevenue tally,
          fs_uncostedRevenueC = fs_uncostedRevenueC acc + la_uncostedRevenue tally \<rparr>))))"

definition profit_bucket_of :: "(string \<times> costed_tally) list \<Rightarrow> string \<Rightarrow> profit_bucket" where
  "profit_bucket_of overTime k = (let x = marginsOf (get_or emptyCosted k overTime)
     in \<lparr> pf_bucket = k, pf_grossProfitC = mf_grossProfitC x, pf_marginPct = mf_marginPct x \<rparr>)"

definition product_margin :: "string \<times> (uid \<times> uid option \<times> string) \<times> costed_tally \<Rightarrow> product_margin_row" where
  "product_margin e = (case e of (_, (p, v, nm), x) \<Rightarrow>
     \<lparr> mf_revenueC = mf_revenueC (marginsOf x), mf_costC = mf_costC (marginsOf x), mf_grossProfitC = mf_grossProfitC (marginsOf x),
       mf_marginPct = mf_marginPct (marginsOf x), pm_productId = p, pm_variantId = v, pm_name = nm \<rparr>)"

definition category_margin :: "uid \<times> string \<times> costed_tally \<Rightarrow> category_margin_row" where
  "category_margin e = (case e of (i, nm, x) \<Rightarrow>
     \<lparr> mf_revenueC = mf_revenueC (marginsOf x), mf_costC = mf_costC (marginsOf x), mf_grossProfitC = mf_grossProfitC (marginsOf x),
       mf_marginPct = mf_marginPct (marginsOf x), gm_categoryId = i, gm_name = nm \<rparr>)"

definition profit :: "ctx \<Rightarrow> trend_query \<Rightarrow> (db, exn, profit_report) op" where
  "profit ctx q =
    bind (resolve ctx q) (\<lambda>sc.
    bind (fold_op (profit_business (granularity_of q)) (sc_businesses sc) \<lparr> fs_overTime = [], fs_byProduct = [], fs_byCategory = [],
        fs_costedRevenueC = 0, fs_uncostedRevenueC = 0 \<rparr>) (\<lambda>tally.
    bind (lift_res (bucket_keys (granularity_of q) sc (map fst (fs_overTime tally)))) (\<lambda>ks.
    bind (logReport ctx sc ''profit'' (format_of q)) (\<lambda>_.
    ret \<lparr> pr_from = sc_from sc, pr_to = sc_to sc, pr_granularity = granularity_of q,
          pr_overTime = map (profit_bucket_of (fs_overTime tally)) ks,
          pr_byProduct = sort_key (\<lambda>r. - mf_revenueC r) (map product_margin (fs_byProduct tally)),
          pr_byCategory = sort_key (\<lambda>r. - mf_revenueC r) (map category_margin (fs_byCategory tally)),
          pr_costedRevenueC = fs_costedRevenueC tally, pr_uncostedRevenueC = fs_uncostedRevenueC tally \<rparr>))))"

end
