(* ===== verification/StockReports.thy ===== *)
theory StockReports
  imports Reports
begin

text \<open>
  The inventory and leaks reports: \<open>inventory/inventory-report.service.ts\<close> and
  \<open>profit/leaks-report.service.ts\<close>.
\<close>

section \<open>Inventory\<close>

definition MAX_MERGE_ROWS :: nat where "MAX_MERGE_ROWS = 2000"

definition whole_or :: "nat \<Rightarrow> num option \<Rightarrow> nat" where
  "whole_or d x = (case x of None \<Rightarrow> d | Some n \<Rightarrow> nat \<lfloor>n\<rfloor>)"

definition page_of :: "nat \<Rightarrow> nat \<Rightarrow> 'a list \<Rightarrow> 'a list" where
  "page_of page psize rows = drop ((page - 1) * psize) (take (page * psize) rows)"

definition movements_business :: "movement_filter \<Rightarrow> nat \<Rightarrow> scoped_business \<Rightarrow> movement_out list \<times> int
    \<Rightarrow> (db, exn, movement_out list \<times> int) op" where
  "movements_business f reach b acc =
    bind (runScopedOne b (movementsCountSql f)) (\<lambda>counted.
    bind (runScoped b (movementsSql f reach)) (\<lambda>rows.
    ret (fst acc @ rows, snd acc + counted)))"

definition movements :: "ctx \<Rightarrow> movements_query \<Rightarrow> (db, exn, movement_out paginated) op" where
  "movements ctx q =
    (let page = whole_or 1 (mq_page q); psize = whole_or DEFAULT_PAGE_SIZE (mq_pageSize q); reach = page * psize
     in bind (guard (reach \<le> MAX_MERGE_ROWS) (Api (ValidationFailedError ''page x pageSize must not exceed 2000''))) (\<lambda>_.
        bind (resolve ctx q) (\<lambda>sc.
        bind (fold_op (movements_business \<lparr> mf_type = mq_type q, mf_productId = mq_productId q \<rparr> reach) (sc_businesses sc) ([], 0)) (\<lambda>(rows, n).
        bind (logReport ctx sc ''inventory-movements'' (format_of q)) (\<lambda>_.
        ret \<lparr> pg_data = page_of page psize (newest_movements rows), pg_page = page, pg_pageSize = psize, pg_total = nat n,
              pg_totalPages = max 1 ((nat n + psize - 1) div psize) \<rparr>)))))"

record shrinkage_sums =
  ss_units :: num
  ss_costedRows :: int
  ss_valueC :: int
  ss_uncostedUnits :: num

definition add_shrinkage :: "shrinkage_row \<Rightarrow> (reason_category \<times> shrinkage_sums) list \<Rightarrow> (reason_category \<times> shrinkage_sums) list" where
  "add_shrinkage r = bump \<lparr> ss_units = 0, ss_costedRows = 0, ss_valueC = 0, ss_uncostedUnits = 0 \<rparr>
     (\<lambda>x. \<lparr> ss_units = jadd (ss_units x) (sk_units r), ss_costedRows = ss_costedRows x + sk_costedRows r,
        ss_valueC = ss_valueC x + sk_value r, ss_uncostedUnits = jadd (ss_uncostedUnits x) (sk_uncostedUnits r) \<rparr>)
     (sk_reasonCategory r)"

record shrinkage_entry =
  se_reasonCategory :: reason_category
  se_units :: num
  se_valueC :: "int option"
  se_uncostedUnits :: num

record shrinkage_report =
  sg_from :: string
  sg_to :: string
  sg_rows :: "shrinkage_entry list"

definition or_zero :: "int option \<Rightarrow> int" where
  "or_zero x = (case x of None \<Rightarrow> 0 | Some v \<Rightarrow> v)"

definition shrinkage :: "ctx \<Rightarrow> 'q analytics_query_scheme \<Rightarrow> (db, exn, shrinkage_report) op" where
  "shrinkage ctx q =
    bind (resolve ctx q) (\<lambda>sc.
    bind (fold_op (\<lambda>b m. bind (runScoped b shrinkageSql) (\<lambda>rows. ret (foldl (\<lambda>m r. add_shrinkage r m) m rows))) (sc_businesses sc) []) (\<lambda>merged.
    bind (logReport ctx sc ''inventory-shrinkage'' (format_of q)) (\<lambda>_.
    ret \<lparr> sg_from = sc_from sc, sg_to = sc_to sc,
      sg_rows = sort_key (\<lambda>e. - or_zero (se_valueC e)) (map (\<lambda>(k, x). \<lparr> se_reasonCategory = k, se_units = ss_units x,
        se_valueC = (if ss_costedRows x = 0 then None else Some (ss_valueC x)), se_uncostedUnits = ss_uncostedUnits x \<rparr>) merged) \<rparr>)))"

record on_hand_entry =
  oe_branchId :: uid
  oe_branchName :: string
  oe_productId :: uid
  oe_variantId :: "uid option"
  oe_name :: string
  oe_qty :: num
  oe_unitCostC :: "int option"
  oe_valueC :: "int option"
  oe_lowStockThreshold :: "num option"
  oe_isLow :: bool
  oe_daysOfStock :: "num option"

record on_hand_report =
  or_from :: string
  or_to :: string
  or_rows :: "on_hand_entry list"
  or_valueC :: int
  or_uncostedItems :: nat

definition on_hand_entry_of :: "nat \<Rightarrow> on_hand_row \<Rightarrow> on_hand_entry" where
  "on_hand_entry_of dayCount r = \<lparr> oe_branchId = oh_branchId r, oe_branchName = oh_branchName r, oe_productId = oh_productId r,
     oe_variantId = oh_variantId r, oe_name = oh_name r, oe_qty = oh_qty r, oe_unitCostC = oh_unitCost r,
     oe_valueC = valuationC (oh_qty r) (oh_unitCost r), oe_lowStockThreshold = oh_lowStockThreshold r,
     oe_isLow = isLow (oh_qty r) (oh_lowStockThreshold r), oe_daysOfStock = daysOfStock (oh_qty r) (oh_unitsSold r) dayCount \<rparr>"

definition add_value :: "int \<times> nat \<Rightarrow> on_hand_entry \<Rightarrow> int \<times> nat" where
  "add_value acc e = (case oe_valueC e of None \<Rightarrow> (fst acc, Suc (snd acc)) | Some v \<Rightarrow> (fst acc + v, snd acc))"

definition onHand :: "ctx \<Rightarrow> 'q analytics_query_scheme \<Rightarrow> (db, exn, on_hand_report) op" where
  "onHand ctx q =
    bind (resolve ctx q) (\<lambda>sc.
    bind (fold_op (\<lambda>b acc. bind (runScoped b onHandSql) (\<lambda>rows. ret (acc @ map (on_hand_entry_of (sc_dayCount sc)) rows))) (sc_businesses sc) []) (\<lambda>rows.
    bind (logReport ctx sc ''inventory-on-hand'' (format_of q)) (\<lambda>_.
    ret (let tally = foldl add_value (0, 0) rows
         in \<lparr> or_from = sc_from sc, or_to = sc_to sc, or_rows = rows, or_valueC = fst tally, or_uncostedItems = snd tally \<rparr>))))"

section \<open>Leaks\<close>

record status_bucket =
  sx_count :: int
  sx_valueC :: int
  sx_reasons :: "(string \<times> int \<times> int) list"

record over_short_entry =
  oz_shiftId :: uid
  oz_branchId :: uid
  oz_branchName :: string
  oz_closedAt :: time
  oz_expectedCashC :: "int option"
  oz_closingCashC :: "int option"
  oz_varianceC :: "int option"

record leak_sums =
  lk_named :: "(uid \<times> named_discount_row) list"
  lk_voidReasons :: "(string \<times> int \<times> int) list"
  lk_refundReasons :: "(string \<times> int \<times> int) list"
  lk_overShort :: "over_short_entry list"
  lk_orderLevelDiscountC :: int
  lk_scPwdDiscountC :: int
  lk_vatExemptSalesC :: int
  lk_scPwdSales :: int
  lk_miscRevenueC :: int
  lk_netSalesC :: int

definition no_leaks :: leak_sums where
  "no_leaks = \<lparr> lk_named = [], lk_voidReasons = [], lk_refundReasons = [], lk_overShort = [], lk_orderLevelDiscountC = 0,
     lk_scPwdDiscountC = 0, lk_vatExemptSalesC = 0, lk_scPwdSales = 0, lk_miscRevenueC = 0, lk_netSalesC = 0 \<rparr>"

definition add_named :: "named_discount_row \<Rightarrow> (uid \<times> named_discount_row) list \<Rightarrow> (uid \<times> named_discount_row) list" where
  "add_named r m = AList.update (nd_discountId r) (case map_of m (nd_discountId r) of None \<Rightarrow> r
     | Some x \<Rightarrow> x\<lparr> nd_timesUsed := nd_timesUsed x + nd_timesUsed r, nd_amount := nd_amount x + nd_amount r \<rparr>) m"

definition add_reason :: "status_value_row \<Rightarrow> (string \<times> int \<times> int) list \<Rightarrow> (string \<times> int \<times> int) list" where
  "add_reason r = bump (0, 0) (\<lambda>(n, v). (n + sv_count r, v + sv_value r)) (sv_reason r)"

text \<open>Unknown, not zero, when the close did not record both figures.\<close>

definition variance :: "int option \<Rightarrow> int option \<Rightarrow> int option" where
  "variance expected closing = (case (expected, closing) of (Some e, Some c) \<Rightarrow> Some (c - e) | _ \<Rightarrow> None)"

definition over_short_entry_of :: "over_short_row \<Rightarrow> over_short_entry" where
  "over_short_entry_of r = \<lparr> oz_shiftId = os_shiftId r, oz_branchId = os_branchId r, oz_branchName = os_branchName r,
     oz_closedAt = os_closedAt r, oz_expectedCashC = os_expectedCash r, oz_closingCashC = os_closingCash r,
     oz_varianceC = variance (os_expectedCash r) (os_closingCash r) \<rparr>"

definition leaks_business :: "scoped_business \<Rightarrow> leak_sums \<Rightarrow> (db, exn, leak_sums) op" where
  "leaks_business b acc =
    bind (runScopedOne b discountTotalsSql) (\<lambda>t.
    bind (runScopedOne b miscLinesSql) (\<lambda>misc.
    bind (runScoped b lineDiscountsSql) (\<lambda>lineNamed.
    bind (runScoped b orderDiscountsSql) (\<lambda>orderNamed.
    bind (runScoped b statusValueSql) (\<lambda>statuses.
    bind (runScoped b overShortSql) (\<lambda>shifts.
    let linePromos = dt_lineDiscount t - dt_scPwdDiscount t
    in ret \<lparr> lk_named = foldl (\<lambda>m r. add_named r m) (lk_named acc) (lineNamed @ orderNamed),
         lk_voidReasons = foldl (\<lambda>m r. add_reason r m) (lk_voidReasons acc) (filter (\<lambda>r. sv_status r = Voided) statuses),
         lk_refundReasons = foldl (\<lambda>m r. add_reason r m) (lk_refundReasons acc) (filter (\<lambda>r. sv_status r \<noteq> Voided) statuses),
         lk_overShort = lk_overShort acc @ map over_short_entry_of shifts,
         lk_orderLevelDiscountC = lk_orderLevelDiscountC acc + (dt_saleDiscount t - linePromos),
         lk_scPwdDiscountC = lk_scPwdDiscountC acc + dt_scPwdDiscount t,
         lk_vatExemptSalesC = lk_vatExemptSalesC acc + dt_vatExemptSales t,
         lk_scPwdSales = lk_scPwdSales acc + dt_scPwdSales t,
         lk_miscRevenueC = lk_miscRevenueC acc + misc,
         lk_netSalesC = lk_netSalesC acc + dt_netSales t \<rparr>))))))"

definition toBucket :: "(string \<times> int \<times> int) list \<Rightarrow> status_bucket" where
  "toBucket reasons = (let rows = sort_key (\<lambda>(_, _, v). - v) reasons
     in \<lparr> sx_count = sum_list (map (\<lambda>(_, n, _). n) rows), sx_valueC = sum_list (map (\<lambda>(_, _, v). v) rows), sx_reasons = rows \<rparr>)"

record leaks_report =
  lr_from :: string
  lr_to :: string
  lr_discountsByName :: "named_discount_row list"
  lr_orderLevelDiscountC :: int
  lr_scPwdDiscountC :: int
  lr_vatExemptSalesC :: int
  lr_scPwdSales :: int
  lr_miscRevenueC :: int
  lr_miscPctOfNetSales :: "num option"
  lr_voids :: status_bucket
  lr_refunds :: status_bucket
  lr_overShort :: "over_short_entry list"

definition leaks :: "ctx \<Rightarrow> 'q analytics_query_scheme \<Rightarrow> (db, exn, leaks_report) op" where
  "leaks ctx q =
    bind (resolve ctx q) (\<lambda>sc.
    bind (fold_op leaks_business (sc_businesses sc) no_leaks) (\<lambda>t.
    bind (logReport ctx sc ''leaks'' (format_of q)) (\<lambda>_.
    ret \<lparr> lr_from = sc_from sc, lr_to = sc_to sc, lr_discountsByName = sort_key (\<lambda>r. - nd_amount r) (map snd (lk_named t)),
          lr_orderLevelDiscountC = lk_orderLevelDiscountC t, lr_scPwdDiscountC = lk_scPwdDiscountC t,
          lr_vatExemptSalesC = lk_vatExemptSalesC t, lr_scPwdSales = lk_scPwdSales t, lr_miscRevenueC = lk_miscRevenueC t,
          lr_miscPctOfNetSales = (if lk_netSalesC t = 0 then None else Some (jdiv (of_int (lk_miscRevenueC t)) (of_int (lk_netSalesC t)))),
          lr_voids = toBucket (lk_voidReasons t), lr_refunds = toBucket (lk_refundReasons t),
          lr_overShort = sort_key (\<lambda>e. - oz_closedAt e) (lk_overShort t) \<rparr>)))"

end
