(* ===== verification/Csv.thy ===== *)
theory Csv
  imports ProductReports StockReports
begin

text \<open>
  The CSV exports: the writer \<open>portal/analytics/csv.ts\<close>, \<open>report-response.ts\<close> and the sections
  of every report (\<open>*.csv.ts\<close>). Strings are the UTF-8 bytes sent. \<open>String(x)\<close> of a number is
  the shortest decimal that reads back as it, as the language defines it.
\<close>

section \<open>Numbers as text\<close>

text \<open>The \<open>n\<close> with \<open>10 ^ (n - 1) \<le> x < 10 ^ n\<close>.\<close>

definition decimal_exponent :: "num \<Rightarrow> int" where
  "decimal_exponent x =
    (let (p, q) = quotient_of x;
         n = int (List.length (show_int p)) - int (List.length (show_int q))
     in if 10 powi n \<le> x then n + 1 else n)"

text \<open>The \<open>k\<close>-digit number closest to \<open>x\<close> among the two around it that read back as \<open>x\<close>.\<close>

definition digits_with :: "nat \<Rightarrow> num \<Rightarrow> int option" where
  "digits_with k x =
    (let n = decimal_exponent x; y = x * 10 powi (int k - n); lo = \<lfloor>y\<rfloor>;
         ok = (\<lambda>s. 10 ^ (k - 1) \<le> s \<and> s < 10 ^ k \<and> fl (of_int s * 10 powi (n - int k)) = x)
     in if ok lo \<and> (y - of_int lo \<le> 1/2 \<or> \<not> ok (lo + 1)) then Some lo
        else if ok (lo + 1) then Some (lo + 1) else None)"

fun shortest :: "nat list \<Rightarrow> num \<Rightarrow> string" where
  "shortest [] x = []"
| "shortest (k # ks) x = (case digits_with k x of Some s \<Rightarrow> show_int s | None \<Rightarrow> shortest ks x)"

definition show_exponent :: "int \<Rightarrow> string" where
  "show_exponent e = CHR ''e'' # (if e < 0 then CHR ''-'' else CHR ''+'') # show_int \<bar>e\<bar>"

definition place_point :: "int \<Rightarrow> string \<Rightarrow> string" where
  "place_point n ds =
    (let k = int (List.length ds)
     in if k \<le> n \<and> n \<le> 21 then ds @ replicate (nat (n - k)) (CHR ''0'')
        else if 0 < n \<and> n \<le> 21 then take (nat n) ds @ ''.'' @ drop (nat n) ds
        else if - 6 < n \<and> n \<le> 0 then ''0.'' @ replicate (nat (- n)) (CHR ''0'') @ ds
        else if k = 1 then ds @ show_exponent (n - 1)
        else take 1 ds @ ''.'' @ drop 1 ds @ show_exponent (n - 1))"

definition show_num :: "num \<Rightarrow> string" where
  "show_num x = (if x = 0 then ''0'' else
     (if x < 0 then ''-'' else []) @ place_point (decimal_exponent \<bar>x\<bar>) (shortest [1..<18] \<bar>x\<bar>))"

text \<open>\<open>toFixed(1)\<close>, for numbers below \<open>10 ^ 21\<close>.\<close>

definition toFixed1 :: "num \<Rightarrow> string" where
  "toFixed1 x = (let ds = padStart 2 (show_int \<lfloor>\<bar>x\<bar> * 10 + 1/2\<rfloor>); k = List.length ds - 1
     in (if x < 0 then ''-'' else []) @ take k ds @ ''.'' @ drop k ds)"

text \<open>Centavos as pesos; an unknown amount is an empty field.\<close>

definition centavosToPesos :: "int option \<Rightarrow> string" where
  "centavosToPesos c = (case c of None \<Rightarrow> [] | Some v \<Rightarrow>
     (if v < 0 then ''-'' else []) @ show_int (\<bar>v\<bar> div 100) @ ''.'' @ padStart 2 (show_int (\<bar>v\<bar> mod 100)))"

definition asPercent :: "num option \<Rightarrow> string" where
  "asPercent x = (case x of None \<Rightarrow> [] | Some v \<Rightarrow> toFixed1 (jmul v 100))"

section \<open>The writer\<close>

datatype cell = Text string | Number num | Null

record csv_section =
  sn_title :: "string option"
  sn_columns :: "string list"
  sn_rows :: "cell list list"

definition BOM :: string where "BOM = [CHR 0xEF, CHR 0xBB, CHR 0xBF]"

definition CR :: char where "CR = CHR 0x0D"

definition LF :: char where "LF = CHR 0x0A"

definition EOL :: string where "EOL = [CR, LF]"

definition QUOTE :: char where "QUOTE = CHR 0x22"

definition cell_text :: "cell \<Rightarrow> string" where
  "cell_text c = (case c of Text s \<Rightarrow> s | Number x \<Rightarrow> show_num x | Null \<Rightarrow> [])"

definition needs_quotes :: "string \<Rightarrow> bool" where
  "needs_quotes s \<longleftrightarrow> list_ex (\<lambda>c. c = QUOTE \<or> c = CHR '','' \<or> c = CR \<or> c = LF) s"

definition double_quotes :: "string \<Rightarrow> string" where
  "double_quotes s = List.concat (map (\<lambda>c. if c = QUOTE then [QUOTE, QUOTE] else [c]) s)"

definition escape_text :: "string \<Rightarrow> string" where
  "escape_text s = (if needs_quotes s then QUOTE # double_quotes s @ [QUOTE] else s)"

definition escapeField :: "cell \<Rightarrow> string" where
  "escapeField c = (if c = Null then [] else escape_text (cell_text c))"

fun join :: "string \<Rightarrow> string list \<Rightarrow> string" where
  "join sep [] = []"
| "join sep [x] = x"
| "join sep (x # y # xs) = x @ sep @ join sep (y # xs)"

definition csv_line :: "cell list \<Rightarrow> string" where
  "csv_line cells = join '','' (map escapeField cells)"

definition section_lines :: "csv_section \<Rightarrow> string list" where
  "section_lines sn = (case sn_title sn of None \<Rightarrow> [] | Some t \<Rightarrow> [escapeField (Text t)])
     @ csv_line (map Text (sn_columns sn)) # map csv_line (sn_rows sn)"

definition toCsv :: "csv_section list \<Rightarrow> string" where
  "toCsv sections = BOM @ join EOL (List.concat (map (\<lambda>(i, sn). (if 0 < i then [[]] else []) @ section_lines sn)
     (List.enumerate 0 sections))) @ EOL"

text \<open>The response: JSON by default, or a text with the two headers of a download.\<close>

datatype 'a rendered = Json_body 'a | Csv_body (csv_headers: "(string \<times> string) list") (csv_text: string)

definition renderReport :: "string \<Rightarrow> 'q analytics_query_scheme \<Rightarrow> 'a \<Rightarrow> ('a \<Rightarrow> csv_section list) \<Rightarrow> 'a rendered" where
  "renderReport reportName q data toSections =
    (if an_format q \<noteq> Some Csv_format then Json_body data
     else Csv_body [(''Content-Type'', ''text/csv; charset=utf-8''),
         (''Content-Disposition'', ''attachment; filename='' @ [QUOTE] @ reportName @ ''-'' @ an_from q @ ''-'' @ an_to q @ ''.csv'' @ [QUOTE])]
       (toCsv (toSections data)))"

section \<open>Sections of the reports\<close>

definition int_cell :: "int \<Rightarrow> cell" where
  "int_cell n = Number (of_int n)"

definition num_cell :: "num option \<Rightarrow> cell" where
  "num_cell x = (case x of None \<Rightarrow> Null | Some v \<Rightarrow> Number v)"

definition text_cell :: "string option \<Rightarrow> cell" where
  "text_cell x = (case x of None \<Rightarrow> Null | Some s \<Rightarrow> Text s)"

definition money_cell :: "int option \<Rightarrow> cell" where
  "money_cell c = Text (centavosToPesos c)"

definition money_kpi :: "string \<Rightarrow> int option \<Rightarrow> int option \<Rightarrow> num option \<Rightarrow> cell list" where
  "money_kpi label v p change = [Text label, money_cell v, money_cell p, num_cell change]"

definition kpi_row :: "string \<Rightarrow> kpi \<Rightarrow> cell list" where
  "kpi_row label k = money_kpi label (Some (kp_value k)) (Some (kp_previous k)) (kp_changePct k)"

definition nullable_row :: "string \<Rightarrow> nullable_kpi \<Rightarrow> cell list" where
  "nullable_row label k = money_kpi label (nk_value k) (nk_previous k) (nk_changePct k)"

definition count_row :: "string \<Rightarrow> kpi \<Rightarrow> cell list" where
  "count_row label k = [Text label, int_cell (kp_value k), int_cell (kp_previous k), num_cell (kp_changePct k)]"

definition overviewCsv :: "overview_report \<Rightarrow> csv_section list" where
  "overviewCsv r = [\<lparr> sn_title = Some (''Overview '' @ ov_from r @ '' to '' @ ov_to r),
     sn_columns = [''metric'', ''value'', ''previous'', ''change''],
     sn_rows = [kpi_row ''Gross sales'' (ov_grossSalesC r), kpi_row ''Discounts'' (ov_discountsC r), kpi_row ''Net sales'' (ov_netSalesC r),
       kpi_row ''Service charge'' (ov_serviceChargeC r), count_row ''Transactions'' (ov_transactions r), count_row ''Voids'' (ov_voidCount r),
       count_row ''Refunds'' (ov_refundCount r), nullable_row ''Average basket'' (ov_averageBasketC r),
       nullable_row ''Gross profit'' (ov_grossProfitC r),
       [Text ''Margin'', num_cell (mk_value (ov_marginPct r)), num_cell (mk_previous (ov_marginPct r)), num_cell (mk_changePoints (ov_marginPct r))],
       money_kpi ''Costed revenue'' (Some (ov_costedRevenueC r)) None None,
       money_kpi ''Uncosted revenue'' (Some (ov_uncostedRevenueC r)) None None] \<rparr>]"

definition tax_cells :: "'b tax_totals_scheme \<Rightarrow> cell list" where
  "tax_cells t = map (\<lambda>c. money_cell (Some c)) [xx_vatableSalesC t, xx_vatC t, xx_vatExemptSalesC t, xx_scPwdDiscountC t, xx_serviceChargeC t]"

definition taxCsv :: "tax_report \<Rightarrow> csv_section list" where
  "taxCsv r = [\<lparr> sn_title = Some (''Tax summary '' @ xr_from r @ '' to '' @ xr_to r),
     sn_columns = [''business'', ''tax rate'', ''vatable sales'', ''VAT'', ''VAT-exempt sales'', ''SC/PWD discount'', ''service charge''],
     sn_rows = map (\<lambda>b. [Text (xb_name b), Number (xb_taxRate b)] @ tax_cells b) (xr_businesses r)
       @ [[Text ''All businesses'', Null] @ tax_cells (xr_totals r)] \<rparr>]"

definition heatmapCsv :: "heatmap_day list \<Rightarrow> csv_section list" where
  "heatmapCsv days = [\<lparr> sn_title = Some ''Sales by day'', sn_columns = [''date'', ''sales'', ''transactions''],
     sn_rows = map (\<lambda>d. [Text (hd_date d), money_cell (Some (hd_salesC d)), int_cell (hd_transactions d)]) days \<rparr>]"

definition trendCsv :: "trend_bucket list \<Rightarrow> csv_section list" where
  "trendCsv bs = [\<lparr> sn_title = Some ''Sales trend'', sn_columns = [''bucket'', ''sales'', ''gross profit'', ''transactions''],
     sn_rows = map (\<lambda>b. [Text (tb_bucket b), money_cell (Some (tb_salesC b)), money_cell (tb_grossProfitC b), int_cell (tb_transactions b)]) bs \<rparr>]"

definition entry_cells :: "cell \<Rightarrow> 'k count_entry \<Rightarrow> cell list" where
  "entry_cells k e = [k, money_cell (Some (ce_salesC e)), int_cell (ce_transactions e)]"

definition patternsCsv :: "patterns_report \<Rightarrow> csv_section list" where
  "patternsCsv r =
    [\<lparr> sn_title = Some ''By hour of day'', sn_columns = [''hour'', ''sales'', ''transactions''],
       sn_rows = map (\<lambda>e. entry_cells (int_cell (int (ce_key e))) e) (pa_hourOfDay r) \<rparr>,
     \<lparr> sn_title = Some ''By day of week (0 = Sunday)'', sn_columns = [''day of week'', ''sales'', ''transactions''],
       sn_rows = map (\<lambda>e. entry_cells (int_cell (int (ce_key e))) e) (pa_dayOfWeek r) \<rparr>]"

fun method_text :: "payment_method \<Rightarrow> string" where
  "method_text Cash = ''cash''"
| "method_text Card = ''card''"
| "method_text Gcash = ''gcash''"
| "method_text Maya = ''maya''"
| "method_text Other_method = ''other''"

fun order_type_text :: "order_type \<Rightarrow> string" where
  "order_type_text Dine_in = ''dine_in''"
| "order_type_text Takeout = ''takeout''"
| "order_type_text No_type = ''none''"

definition breakdownsCsv :: "breakdowns_report \<Rightarrow> csv_section list" where
  "breakdownsCsv r =
    [\<lparr> sn_title = Some ''By payment method'', sn_columns = [''method'', ''sales'', ''transactions''],
       sn_rows = map (\<lambda>e. entry_cells (Text (method_text (ce_key e))) e) (bd_byPaymentMethod r) \<rparr>,
     \<lparr> sn_title = Some ''By order type'', sn_columns = [''order type'', ''sales'', ''transactions''],
       sn_rows = map (\<lambda>e. entry_cells (Text (order_type_text (ce_key e))) e) (bd_byOrderType r) \<rparr>,
     \<lparr> sn_title = Some ''By branch'', sn_columns = [''branch'', ''sales'', ''transactions''],
       sn_rows = map (\<lambda>e. entry_cells (Text (snd (ce_key e))) e) (bd_byBranch r) \<rparr>]"

definition SOLD_COLUMNS :: "string list" where
  "SOLD_COLUMNS = [''Product'', ''Units'', ''Revenue'', ''Gross profit'', ''Margin %'']"

definition soldRows :: "sold_row list \<Rightarrow> cell list list" where
  "soldRows rows = map (\<lambda>r. [Text (sd_name r), Number (sd_units r), money_cell (Some (sd_revenueC r)),
     money_cell (sd_grossProfitC r), Text (asPercent (sd_marginPct r))]) rows"

definition topProductsCsv :: "top_products_report \<Rightarrow> csv_section list" where
  "topProductsCsv r =
    [\<lparr> sn_title = None, sn_columns = SOLD_COLUMNS, sn_rows = soldRows (tr_rows r) \<rparr>,
     \<lparr> sn_title = Some ''By category'', sn_columns = [''Category'', ''Units'', ''Revenue''],
       sn_rows = map (\<lambda>c. [Text (cy_name c), Number (cy_units c), money_cell (Some (cy_revenueC c))]) (tr_categories r) \<rparr>]"

definition slowProductsCsv :: "slow_products_report \<Rightarrow> csv_section list" where
  "slowProductsCsv r =
    [\<lparr> sn_title = None, sn_columns = SOLD_COLUMNS, sn_rows = soldRows (sw_bottom r) \<rparr>,
     \<lparr> sn_title = Some ''No sales in this period'', sn_columns = [''Product'', ''Category''],
       sn_rows = map (\<lambda>z. [Text (zs_name z), Text (zs_categoryName z)]) (sw_zeroSales r) \<rparr>]"

definition productTrendCsv :: "product_trend_report \<Rightarrow> csv_section list" where
  "productTrendCsv r = [\<lparr> sn_title = None, sn_columns = [''Bucket'', ''Units'', ''Revenue'', ''Gross profit'', ''Margin %''],
     sn_rows = map (\<lambda>b. [Text (pb_bucket b), Number (pb_units b), money_cell (Some (pb_revenueC b)), money_cell (pb_grossProfitC b),
       Text (asPercent (pb_marginPct b))]) (pe_buckets r) \<rparr>]"

definition MARGIN_COLUMNS :: "string list" where
  "MARGIN_COLUMNS = [''Revenue'', ''Cost'', ''Gross profit'', ''Margin %'']"

definition marginCells :: "'b margin_figures_scheme \<Rightarrow> cell list" where
  "marginCells m = [money_cell (Some (mf_revenueC m)), money_cell (mf_costC m), money_cell (mf_grossProfitC m), Text (asPercent (mf_marginPct m))]"

definition profitCsv :: "profit_report \<Rightarrow> csv_section list" where
  "profitCsv r =
    [\<lparr> sn_title = Some ''Over time'', sn_columns = [''Bucket'', ''Gross profit'', ''Margin %''],
       sn_rows = map (\<lambda>b. [Text (pf_bucket b), money_cell (pf_grossProfitC b), Text (asPercent (pf_marginPct b))]) (pr_overTime r) \<rparr>,
     \<lparr> sn_title = Some ''By product'', sn_columns = ''Product'' # MARGIN_COLUMNS,
       sn_rows = map (\<lambda>p. Text (pm_name p) # marginCells p) (pr_byProduct r) \<rparr>,
     \<lparr> sn_title = Some ''By category'', sn_columns = ''Category'' # MARGIN_COLUMNS,
       sn_rows = map (\<lambda>c. Text (gm_name c) # marginCells c) (pr_byCategory r) \<rparr>,
     \<lparr> sn_title = Some ''Profit coverage'', sn_columns = [''Costed revenue'', ''Uncosted revenue''],
       sn_rows = [[money_cell (Some (pr_costedRevenueC r)), money_cell (Some (pr_uncostedRevenueC r))]] \<rparr>]"

fun movement_text :: "movement_type \<Rightarrow> string" where
  "movement_text Mv_sale = ''sale''"
| "movement_text Mv_void = ''void''"
| "movement_text Mv_refund = ''refund''"
| "movement_text Mv_adjustment = ''adjustment''"
| "movement_text Mv_receive = ''receive''"
| "movement_text Mv_transfer_out = ''transfer_out''"
| "movement_text Mv_transfer_in = ''transfer_in''"

fun reason_category_text :: "reason_category \<Rightarrow> string" where
  "reason_category_text Damage = ''damage''"
| "reason_category_text Expiry = ''expiry''"
| "reason_category_text Theft_loss = ''theft_loss''"
| "reason_category_text Count_correction = ''count_correction''"
| "reason_category_text Other_reason = ''other''"

fun actor_text :: "actor_type \<Rightarrow> string" where
  "actor_text Act_owner = ''owner''"
| "actor_text Act_terminal = ''terminal''"
| "actor_text Act_platform_admin = ''platform_admin''"

fun disc_kind_text :: "disc_kind \<Rightarrow> string" where
  "disc_kind_text Percent = ''percent''"
| "disc_kind_text Fixed = ''fixed''"

definition movementsCsv :: "movement_out paginated \<Rightarrow> csv_section list" where
  "movementsCsv page = [\<lparr> sn_title = None, sn_columns = [''Date'', ''Branch'', ''Product'', ''Variant'', ''Type'', ''Quantity'', ''Reason'',
       ''Unit cost'', ''Note'', ''Actor'', ''Action''],
     sn_rows = map (\<lambda>m. [Text (toISOString (mo_createdAt m)), Text (mo_branchName m), Text (mo_productName m), text_cell (mo_variantName m),
       Text (movement_text (mo_type m)), Number (mo_qtyDelta m), text_cell (map_option reason_category_text (mo_reasonCategory m)),
       money_cell (mo_unitCost m), text_cell (mo_note m), text_cell (map_option (\<lambda>(a, _, _). actor_text a) (mo_actor m)),
       text_cell (map_option (\<lambda>(_, _, act). act) (mo_actor m))]) (pg_data page) \<rparr>]"

definition shrinkageCsv :: "shrinkage_report \<Rightarrow> csv_section list" where
  "shrinkageCsv r = [\<lparr> sn_title = None, sn_columns = [''Reason'', ''Units'', ''Value at cost'', ''Uncosted units''],
     sn_rows = map (\<lambda>e. [Text (reason_category_text (se_reasonCategory e)), Number (se_units e), money_cell (se_valueC e),
       Number (se_uncostedUnits e)]) (sg_rows r) \<rparr>]"

definition onHandCsv :: "on_hand_report \<Rightarrow> csv_section list" where
  "onHandCsv r =
    [\<lparr> sn_title = None, sn_columns = [''Branch'', ''Item'', ''Quantity'', ''Unit cost'', ''Value'', ''Low stock threshold'', ''Low'', ''Days of stock''],
       sn_rows = map (\<lambda>e. [Text (oe_branchName e), Text (oe_name e), Number (oe_qty e), money_cell (oe_unitCostC e), money_cell (oe_valueC e),
         num_cell (oe_lowStockThreshold e), Text (if oe_isLow e then ''yes'' else ''no''),
         Text (case oe_daysOfStock e of None \<Rightarrow> [] | Some d \<Rightarrow> toFixed1 d)]) (or_rows r) \<rparr>,
     \<lparr> sn_title = Some ''Totals'', sn_columns = [''Value'', ''Items with no cost''],
       sn_rows = [[money_cell (Some (or_valueC r)), int_cell (int (or_uncostedItems r))]] \<rparr>]"

definition statusSection :: "string \<Rightarrow> status_bucket \<Rightarrow> csv_section" where
  "statusSection title b = \<lparr> sn_title = Some title, sn_columns = [''Reason'', ''Count'', ''Value''],
     sn_rows = map (\<lambda>(t, n, v). [Text t, int_cell n, money_cell (Some v)]) (sx_reasons b) \<rparr>"

definition leaksCsv :: "leaks_report \<Rightarrow> csv_section list" where
  "leaksCsv r =
    [\<lparr> sn_title = Some ''Discounts by name'', sn_columns = [''Name'', ''Kind'', ''Times used'', ''Amount''],
       sn_rows = map (\<lambda>d. [Text (nd_name d), Text (disc_kind_text (nd_kind d)), int_cell (nd_timesUsed d), money_cell (Some (nd_amount d))])
         (lr_discountsByName r) \<rparr>,
     \<lparr> sn_title = Some ''Summary'', sn_columns = [''Measure'', ''Value''],
       sn_rows = [[Text ''Order-level discount'', money_cell (Some (lr_orderLevelDiscountC r))],
         [Text ''SC/PWD discount'', money_cell (Some (lr_scPwdDiscountC r))],
         [Text ''VAT-exempt sales'', money_cell (Some (lr_vatExemptSalesC r))],
         [Text ''SC/PWD sales'', int_cell (lr_scPwdSales r)],
         [Text ''Misc revenue'', money_cell (Some (lr_miscRevenueC r))],
         [Text ''Misc % of net sales'', Text (asPercent (lr_miscPctOfNetSales r))]] \<rparr>,
     statusSection ''Voids'' (lr_voids r), statusSection ''Refunds'' (lr_refunds r),
     \<lparr> sn_title = Some ''Over / short'', sn_columns = [''Branch'', ''Closed at'', ''Expected'', ''Counted'', ''Variance''],
       sn_rows = map (\<lambda>e. [Text (oz_branchName e), Text (toISOString (oz_closedAt e)), money_cell (oz_expectedCashC e),
         money_cell (oz_closingCashC e), money_cell (oz_varianceC e)]) (lr_overShort r) \<rparr>]"

end
