(* ===== verification/Dashboard.thy ===== *)
theory Dashboard
  imports Reports
begin

text \<open>
  The landing page, \<open>dashboard/dashboard.service.ts\<close>: every business but the demo ones, each on
  its own today, with what is live and what needs attention.
\<close>

section \<open>Figures of a day\<close>

record day_figures =
  df_salesC :: int
  df_grossProfitC :: "int option"
  df_transactions :: int

definition figuresOf :: "dashboard_branch_row list \<Rightarrow> day_figures" where
  "figuresOf rows = \<lparr> df_salesC = total_of db_salesC rows,
     df_grossProfitC = (if total_of db_costedLines rows = 0 then None else Some (total_of db_costedRevenue rows - total_of db_costedCost rows)),
     df_transactions = total_of db_transactions rows \<rparr>"

text \<open>The business each branch in scope belongs to; a later entry replaces an earlier one.\<close>

definition branchIndex :: "scoped_business list \<Rightarrow> (uid \<times> uid) list" where
  "branchIndex businesses = foldl (\<lambda>m (i, b). AList.update i b m) []
     (List.concat (map (\<lambda>b. map (\<lambda>i. (i, sb_id b)) (sb_branchIds b)) businesses))"

section \<open>The sparkline\<close>

definition SPARKLINE_DAYS :: nat where "SPARKLINE_DAYS = 7"

definition sparkline :: "scoped_business \<Rightarrow> time \<Rightarrow> (db, exn, (string \<times> int) list) op" where
  "sparkline b n =
    (let today = businessDayOf n (sb_dayStartMinutes b)
     in bind (lift_res (addDays today (- (int SPARKLINE_DAYS - 1)))) (\<lambda>first.
        bind (lift_res (businessDayStartUtc first (sb_dayStartMinutes b))) (\<lambda>fromUtc.
        bind (runScoped b (dashboardSparklineSql fromUtc (sb_toUtc b))) (\<lambda>rows.
        let byDate = foldl (\<lambda>m r. AList.update (bucketKey (bk_bucket r)) (bk_sales r) m) [] rows
        in map_op (\<lambda>i. bind (lift_res (addDays first (int i))) (\<lambda>date. ret (date, get_or 0 date byDate))) [0..<SPARKLINE_DAYS]))))"

section \<open>What is live\<close>

record open_shift_out =
  op_shiftId :: uid
  op_businessId :: uid
  op_branchId :: uid
  op_branchName :: string
  op_terminalName :: string
  op_openedAt :: time

definition openShifts :: "ctx \<Rightarrow> scoped_business list \<Rightarrow> (db, exn, open_shift_out list) op" where
  "openShifts ctx businesses =
    (let index = branchIndex businesses
     in bind (scoped_findMany ctx shift_t (\<lambda>sh. sh_branchId sh \<in> set (map fst index) \<and> sh_closedAt sh = None)) (\<lambda>rows.
        bind (reads (base_db ctx)) (\<lambda>base.
        ret (map (\<lambda>sh. \<lparr> op_shiftId = r_id sh, op_businessId = get_or [] (sh_branchId sh) index, op_branchId = sh_branchId sh,
            op_branchName = (case find (\<lambda>r. r_id r = sh_branchId sh) (db_branch base) of None \<Rightarrow> [] | Some r \<Rightarrow> br_name r),
            op_terminalName = (case find (\<lambda>r. r_id r = sh_terminalId sh) (db_terminal base) of None \<Rightarrow> [] | Some r \<Rightarrow> tm_name r),
            op_openedAt = sh_openedAt sh \<rparr>) (sort_key sh_openedAt rows)))))"

record terminal_out =
  to_terminalId :: uid
  to_businessId :: uid
  to_branchId :: uid
  to_name :: string
  to_code :: string
  to_lastSeenAt :: "time option"
  to_paired :: bool

definition terminals :: "ctx \<Rightarrow> scoped_business list \<Rightarrow> (db, exn, terminal_out list) op" where
  "terminals ctx businesses =
    (let index = branchIndex businesses
     in bind (scoped_findMany ctx terminal_t (\<lambda>t. tm_branchId t \<in> set (map fst index))) (\<lambda>rows.
        ret (map (\<lambda>t. \<lparr> to_terminalId = r_id t, to_businessId = get_or [] (tm_branchId t) index, to_branchId = tm_branchId t,
            to_name = tm_name t, to_code = tm_code t, to_lastSeenAt = tm_lastSeenAt t, to_paired = (tm_deviceTokenHash t \<noteq> None) \<rparr>)
          (sort_key tm_code rows))))"

definition UNCLOSED_SHIFT_HOURS :: int where "UNCLOSED_SHIFT_HOURS = 24"

definition unclosedShifts :: "ctx \<Rightarrow> scoped_business list \<Rightarrow> time \<Rightarrow> (db, exn, (uid \<times> nat) list) op" where
  "unclosedShifts ctx businesses n =
    (let cutoff = n - UNCLOSED_SHIFT_HOURS * 3600000; index = branchIndex businesses
     in bind (scoped_findMany ctx shift_t (\<lambda>sh. sh_branchId sh \<in> set (map fst index) \<and> sh_closedAt sh = None \<and> sh_openedAt sh < cutoff)) (\<lambda>rows.
        ret (foldl (\<lambda>m sh. case truthy_id (map_of index (sh_branchId sh)) of None \<Rightarrow> m | Some b \<Rightarrow> bump 0 Suc b m)
          (foldl (\<lambda>m b. AList.update (sb_id b) 0 m) [] businesses) rows)))"

section \<open>The report\<close>

record dashboard_business =
  dz_businessId :: uid
  dz_name :: string
  dz_today :: day_figures
  dz_sameDayLastWeek :: day_figures
  dz_branches :: "(uid \<times> string \<times> day_figures) list"
  dz_sparkline :: "(string \<times> int) list"

record dashboard_report =
  da_businesses :: "dashboard_business list"
  da_openShifts :: "open_shift_out list"
  da_terminals :: "terminal_out list"
  da_unreadNotifications :: nat
  da_lowStock :: "(uid \<times> int) list"
  da_unclosedShifts :: "(uid \<times> nat) list"

definition dashboard_business_of :: "time \<Rightarrow> scoped_business \<Rightarrow> dashboard_business list \<times> (uid \<times> int) list
    \<Rightarrow> (db, exn, dashboard_business list \<times> (uid \<times> int) list) op" where
  "dashboard_business_of n b acc =
    bind (runScoped b (dashboardBranchSql (sb_fromUtc b) (sb_toUtc b))) (\<lambda>todayRows.
    bind (runScoped b (dashboardBranchSql (sb_previousFromUtc b) (sb_previousToUtc b))) (\<lambda>lastWeekRows.
    bind (sparkline b n) (\<lambda>spark.
    bind (runScopedOne b lowStockCountSql) (\<lambda>low.
    ret (fst acc @ [\<lparr> dz_businessId = sb_id b, dz_name = sb_name b, dz_today = figuresOf todayRows,
           dz_sameDayLastWeek = figuresOf lastWeekRows,
           dz_branches = map (\<lambda>r. (db_branchId r, db_branchName r, figuresOf [r])) todayRows, dz_sparkline = spark \<rparr>],
         snd acc @ [(sb_id b, low)])))))"

definition dashboard :: "ctx \<Rightarrow> time \<Rightarrow> (db, exn, dashboard_report) op" where
  "dashboard ctx n =
    bind (resolveToday ctx n) (\<lambda>sc.
    bind (fold_op (dashboard_business_of n) (sc_businesses sc) ([], [])) (\<lambda>(businesses, lowStock).
    bind (openShifts ctx (sc_businesses sc)) (\<lambda>shifts.
    bind (terminals ctx (sc_businesses sc)) (\<lambda>ts.
    bind (scoped_findMany ctx notification_t (\<lambda>x. nt_readAt x = None)) (\<lambda>unread.
    bind (unclosedShifts ctx (sc_businesses sc) n) (\<lambda>unclosed.
    bind (logReport ctx sc ''dashboard'' Json) (\<lambda>_.
    ret \<lparr> da_businesses = businesses, da_openShifts = shifts, da_terminals = ts, da_unreadNotifications = List.length unread,
          da_lowStock = lowStock, da_unclosedShifts = unclosed \<rparr>)))))))"

end
