(* ===== verification/ReportFacts.thy ===== *)
theory ReportFacts
  imports Csv Dashboard SaleRestore
begin

text \<open>
  How the reports run: what a resolved scope is made of, that queries read and only the audit
  writes, and how sums over groups, buckets and businesses fit together.
\<close>

section \<open>Queries only read\<close>

lemma pure_fold_op: "(\<And>x acc. pure_op (f x acc)) \<Longrightarrow> pure_op (fold_op f xs acc)"
  by (induction xs arbitrary: acc) (auto intro: pure_bind)

lemma pure_case_prod: "(\<And>a b. pure_op (f a b)) \<Longrightarrow> pure_op (case p of (a, b) \<Rightarrow> f a b)"
  by (cases p) simp

lemma pure_case_list: "pure_op m \<Longrightarrow> (\<And>x xs. pure_op (f x xs)) \<Longrightarrow> pure_op (case l of [] \<Rightarrow> m | x # xs \<Rightarrow> f x xs)"
  by (cases l) simp_all

lemma pure_runScoped [simp]: "pure_op (runScoped b build)"
  by (simp add: runScoped_def assertScoped_def Let_def pure_bind)

lemma pure_runScopedOne [simp]: "pure_op (runScopedOne b build)"
  unfolding runScopedOne_def by (intro pure_bind pure_case_list) simp_all

lemma pure_resolve [simp]: "pure_op (resolve ctx q)"
  by (auto simp: resolve_def Let_def pure_find intro!: pure_bind split: sum.split)

lemma pure_resolveToday [simp]: "pure_op (resolveToday ctx n)"
  by (auto simp: resolveToday_def Let_def pure_find intro!: pure_bind)

lemma runScoped_run:
  "sb_branchIds b \<noteq> [] \<Longrightarrow> names_branch (build b) \<Longrightarrow> runScoped b build s = (Inr (answer (build b) s), s)"
  by (simp add: runScoped_def assertScoped_def Let_def bind_def)

lemma runScopedOne_run:
  "sb_branchIds b \<noteq> [] \<Longrightarrow> names_branch (build b) \<Longrightarrow> answer (build b) s = [row] \<Longrightarrow> runScopedOne b build s = (Inr row, s)"
  by (simp add: runScopedOne_def bind_def runScoped_run)

lemma fold_op_run:
  assumes "\<And>x acc. x \<in> set xs \<Longrightarrow> f x acc s = (Inr (g x acc), s)"
  shows "fold_op f xs acc s = (Inr (foldl (\<lambda>a x. g x a) acc xs), s)"
  using assms by (induction xs arbitrary: acc) (simp_all add: bind_def)

section \<open>The audit rows\<close>

text \<open>The rows a report of a scope leaves, one for each of its businesses.\<close>

definition report_rows :: "ctx \<Rightarrow> resolved_scope \<Rightarrow> audit_row list \<Rightarrow> bool" where
  "report_rows ctx sc acts \<longleftrightarrow> map al_businessId acts = map (Some \<circ> sb_id) (sc_businesses sc)
    \<and> (\<forall>a \<in> set acts. al_ownerId a = cx_ownerId ctx \<and> al_entityType a = ''report''
        \<and> al_action a \<in> {''audit.report_read'', ''audit.report_export''})"

lemma for_each_logs:
  "\<exists>acts. for_each bs (\<lambda>b. logPortal ctx action ''report'' None (Some (sb_id b)) extra) s
      = (Inr (), s\<lparr> db_auditLog := db_auditLog s @ acts, db_nextId := db_nextId s + List.length acts \<rparr>)
    \<and> map al_businessId acts = map (Some \<circ> sb_id) bs
    \<and> (\<forall>a \<in> set acts. al_ownerId a = cx_ownerId ctx \<and> al_entityType a = ''report'' \<and> al_action a = action)"
proof (induction bs arbitrary: s)
  case Nil
  then show ?case by simp
next
  case (Cons b bs)
  let ?a = "plain_audit (case cx_actor ctx of None \<Rightarrow> Act_owner | Some a \<Rightarrow> fst a) (map_option snd (cx_actor ctx))
    (cx_ownerId ctx) (Some (sb_id b)) None action ''report'' None (plain_meta ctx extra)
    \<lparr> r_id := nth_uuid (db_nextId s), r_createdAt := db_now s, r_updatedAt := db_now s, r_deletedAt := None \<rparr>"
  let ?s = "s\<lparr> db_auditLog := db_auditLog s @ [?a], db_nextId := Suc (db_nextId s) \<rparr>"
  from Cons [of ?s] obtain acts where
    run: "for_each bs (\<lambda>b. logPortal ctx action ''report'' None (Some (sb_id b)) extra) ?s
      = (Inr (), ?s\<lparr> db_auditLog := db_auditLog ?s @ acts, db_nextId := db_nextId ?s + List.length acts \<rparr>)"
    and acts: "map al_businessId acts = map (Some \<circ> sb_id) bs"
      "\<forall>a \<in> set acts. al_ownerId a = cx_ownerId ctx \<and> al_entityType a = ''report'' \<and> al_action a = action" by blast
  have "logPortal ctx action ''report'' None (Some (sb_id b)) extra s = (Inr (), ?s)" by (simp add: logPortal_def)
  then show ?case using run acts
    by (intro exI [of _ "?a # acts"]) (simp add: bind_def plain_audit_def)
qed

lemma logReport_run:
  "\<exists>acts. logReport ctx sc report f s
      = (Inr (), s\<lparr> db_auditLog := db_auditLog s @ acts, db_nextId := db_nextId s + List.length acts \<rparr>) \<and> report_rows ctx sc acts"
  using for_each_logs [of "sc_businesses sc" ctx "if f = Csv_format then ''audit.report_export'' else ''audit.report_read''" _ s]
  unfolding logReport_def report_rows_def Let_def by (cases "f = Csv_format") fastforce+

text \<open>A report run in state \<open>s\<close>: it fails and writes nothing, or leaves its audit rows and nothing else.\<close>

definition logs :: "ctx \<Rightarrow> (db, exn, resolved_scope) op \<Rightarrow> db \<Rightarrow> (db, exn, 'a) op \<Rightarrow> bool" where
  "logs ctx scope s m \<longleftrightarrow> (case m s of (Inl e, t) \<Rightarrow> t = s
     | (Inr x, t) \<Rightarrow> (\<exists>sc acts. scope s = (Inr sc, s) \<and> report_rows ctx sc acts
        \<and> t = s\<lparr> db_auditLog := db_auditLog s @ acts, db_nextId := db_nextId s + List.length acts \<rparr>))"

lemma logs_bind:
  assumes "\<And>x. m s = (Inr x, s) \<Longrightarrow> logs ctx scope s (f x)" "pure_op m"
  shows "logs ctx scope s (bind m f)"
proof -
  obtain r where r: "m s = (r, s)" using pure_opD [OF assms(2), of s] by (metis prod.collapse)
  show ?thesis using assms(1) r by (cases r) (simp_all add: logs_def bind_def)
qed

lemma logs_prod: "(\<And>a b. p = (a, b) \<Longrightarrow> logs ctx scope s (f a b)) \<Longrightarrow> logs ctx scope s (case p of (a, b) \<Rightarrow> f a b)"
  by (cases p) simp

lemma logs_end:
  assumes "scope s = (Inr sc, s)"
  shows "logs ctx scope s (bind (logReport ctx sc report f) (\<lambda>_. ret x))"
proof -
  obtain acts where run: "logReport ctx sc report f s
      = (Inr (), s\<lparr> db_auditLog := db_auditLog s @ acts, db_nextId := db_nextId s + List.length acts \<rparr>)" "report_rows ctx sc acts"
    using logReport_run by blast
  show ?thesis unfolding logs_def bind_def run(1) using assms run(2) by (simp, blast)
qed

lemma bind_lift_Inr: "bind (lift_res (Inr x)) f = f x"
  by (rule ext) simp

section \<open>A resolved scope\<close>

lemma scope_businesses_member:
  assumes "scope_businesses mk R B = Inr xs" "x \<in> set xs"
  obtains b where "b \<in> set B" "byBusiness R (r_id b) \<noteq> []" "mk b (byBusiness R (r_id b)) = Inr x"
  using assms
proof (induction B arbitrary: xs thesis)
  case (Cons b B)
  then show ?case
    by (auto simp: Let_def split: if_splits sum.splits) blast+
qed simp

lemma rangeWindow_Inr:
  assumes "rangeWindow from to b ids = Inr x"
  obtains m where "parseDayStart (bz_dayStartTime b) = Inr m" "sb_dayStartMinutes x = m" "sb_id x = r_id b" "sb_branchIds x = ids"
    "sb_fromUtc x = day_start (day_number from) m" "sb_toUtc x = day_start (day_number to + 1) m"
    "sb_previousToUtc x = sb_fromUtc x" "sb_previousFromUtc x = sb_fromUtc x - (sb_toUtc x - sb_fromUtc x)"
  using assms
  by (auto simp: rangeWindow_def businessDayRangeUtc_run previousPeriod_def Let_def split: sum.splits prod.splits if_splits)

lemma resolve_Inr:
  assumes "resolve ctx q s = (Inr sc, s')"
  obtains B R where "s' = s" "sc_from sc = an_from q" "sc_to sc = an_to q"
    "businessDaySeries (an_from q) (an_to q) = Inr (map day_string [day_number (an_from q)..day_number (an_to q)])"
    "sc_dayCount sc = List.length [day_number (an_from q)..day_number (an_to q)]" "sc_dayCount sc \<le> 366"
    "set B = {b \<in> set (db_business (base_db ctx s)). visible ctx business_t False (base_db ctx s) b
        \<and> (case truthy_id (an_businessId q) of Some i \<Rightarrow> r_id b = i | None \<Rightarrow> \<not> bz_isDemo b)}"
    "set R = {r \<in> set (db_branch (base_db ctx s)). visible ctx branch_t False (base_db ctx s) r
        \<and> br_businessId r \<in> r_id ` set B \<and> opt_match (truthy_id (an_branchId q)) (Some (r_id r))}"
    "B \<noteq> []" "scope_businesses (rangeWindow (an_from q) (an_to q)) R B = Inr (sc_businesses sc)"
    "sc_branchIds sc = List.concat (map sb_branchIds (sc_businesses sc))"
proof -
  let ?b = "truthy_id (an_businessId q)" and ?r = "truthy_id (an_branchId q)" and ?base = "base_db ctx s"
  have g: "\<not> (?r \<noteq> None \<and> ?b = None)"
  proof
    assume "?r \<noteq> None \<and> ?b = None"
    with assms show False unfolding resolve_def Let_def by simp
  qed
  obtain days where days: "businessDaySeries (an_from q) (an_to q) = Inr days"
    using assms unfolding resolve_def Let_def if_not_P [OF g] by (cases "businessDaySeries (an_from q) (an_to q)") simp_all
  then have d: "days = map day_string [day_number (an_from q)..day_number (an_to q)]"
    by (auto simp: businessDaySeries_run split: sum.splits if_splits)
  note run = assms [unfolded resolve_def Let_def if_not_P [OF g] days sum.case]
  from run have le: "List.length days \<le> 366" by (auto simp: MAX_RANGE_DAYS_def split: if_splits)
  from run obtain found kept bs where
    B: "found = filter (\<lambda>b. (case ?b of Some i \<Rightarrow> r_id b = i | None \<Rightarrow> \<not> bz_isDemo b) \<and> visible ctx business_t False ?base b) (tb_get business_t ?base)"
    and ne: "sort_key r_createdAt found \<noteq> []"
    and R: "kept = filter (\<lambda>r. (br_businessId r \<in> set (map r_id (sort_key r_createdAt found)) \<and> opt_match ?r (Some (r_id r)))
        \<and> visible ctx branch_t False ?base r) (tb_get branch_t ?base)"
    and bs: "scope_businesses (rangeWindow (an_from q) (an_to q)) (sort_key r_createdAt kept) (sort_key r_createdAt found) = Inr bs"
    and sc: "sc = \<lparr> sc_businesses = bs, sc_branchIds = List.concat (map sb_branchIds bs), sc_from = an_from q,
        sc_to = an_to q, sc_dayCount = List.length days \<rparr>" and s': "s' = s"
    unfolding bind_eq_Inr findMany_Inr by (auto split: if_splits)
  show thesis
    by (rule that [of "sort_key r_createdAt found" "sort_key r_createdAt kept"])
      (use B R bs sc s' ne le days d in \<open>auto simp: business_t_def branch_t_def\<close>)
qed

lemma scope_window:
  assumes "resolve ctx q s = (Inr sc, s')" "b \<in> set (sc_businesses sc)"
  shows "sb_branchIds b \<noteq> [] \<and> sb_fromUtc b = day_start (day_number (an_from q)) (sb_dayStartMinutes b)
    \<and> sb_toUtc b = day_start (day_number (an_to q) + 1) (sb_dayStartMinutes b)"
proof -
  obtain B R where "scope_businesses (rangeWindow (an_from q) (an_to q)) R B = Inr (sc_businesses sc)"
    by (rule resolve_Inr [OF assms(1)])
  from this assms(2) obtain r where "byBusiness R (r_id r) \<noteq> []" "rangeWindow (an_from q) (an_to q) r (byBusiness R (r_id r)) = Inr b"
    by (rule scope_businesses_member)
  then show ?thesis by (elim rangeWindow_Inr) simp
qed

section \<open>Sums\<close>

lemma total_simps [simp]: "total_of f [] = 0" "total_of f (x # xs) = f x + total_of f xs" "total_of f (xs @ ys) = total_of f xs + total_of f ys"
  by (simp_all add: total_of_def)

lemma total_diff: "total_of (\<lambda>x. f x - g x) xs = total_of f xs - total_of g xs"
  by (induction xs) simp_all

lemma count_total: "count_of xs = total_of (\<lambda>_. 1) xs"
  by (induction xs) (simp_all add: count_of_def)

lemma total_filter: "total_of f (filter p xs) = total_of (\<lambda>x. if p x then f x else 0) xs"
  by (induction xs) simp_all

lemma total_keys:
  "distinct ks \<Longrightarrow> set (map key rows) \<subseteq> set ks \<Longrightarrow> total_of (\<lambda>k. total_of f (filter (\<lambda>r. key r = k) rows)) ks = total_of f rows"
proof (induction rows)
  case Nil
  then show ?case by (induction ks) simp_all
next
  case (Cons r rows)
  have "total_of (\<lambda>k. total_of f (filter (\<lambda>x. key x = k) (r # rows))) ks
    = total_of (\<lambda>k. if key r = k then f r else 0) ks + total_of (\<lambda>k. total_of f (filter (\<lambda>x. key x = k) rows)) ks"
    by (induction ks) simp_all
  moreover have "total_of (\<lambda>k. if key r = k then f r else 0) ks = f r"
    using Cons.prems unfolding total_of_def by (simp add: sum_list_distinct_conv_sum_set)
  ultimately show ?case using Cons by simp
qed

text \<open>The groups of a query lose no row.\<close>

lemma group_total: "total_of (\<lambda>(k, rs). total_of f rs) (group_by key rows) = total_of f rows"
proof -
  have "total_of (\<lambda>(k, rs). total_of f rs) (group_by key rows) = total_of (\<lambda>k. total_of f (filter (\<lambda>r. key r = k) rows)) (remdups (map key rows))"
    by (simp add: group_by_def total_of_def comp_def)
  also have "\<dots> = total_of f rows" by (rule total_keys) auto
  finally show ?thesis .
qed

end
