(* ===== verification/ReportClaims.thy ===== *)
theory ReportClaims
  imports ReportFacts Tenancy
begin

text \<open>
  What the reports promise: a business day is the day a date names, a scope never leaves the
  caller's own branches, and a report changes nothing but the audit log.
\<close>

section \<open>Business days\<close>

text \<open>
  C27. A business day and its instants: the start computed for a date of the calendar is an
  instant of that date, and exactly the 24 hours from there on are read back as that date,
  whatever hour the business starts its day at.
\<close>

theorem business_day_roundtrip:
  assumes "business_date d"
  shows "\<exists>t. businessDayStartUtc d m = Inr t \<and> (\<forall>u. businessDayOf u m = d \<longleftrightarrow> t \<le> u \<and> u < t + DAY_MS)"
proof -
  from business_date_parse [OF assms] obtain x where x: "parseDate d = Inr x" by blast
  have day: "day_string (day_number d) = d" "0 \<le> year_of_day (day_number d)" "year_of_day (day_number d) \<le> 9999"
    using day_string_of_date [OF assms] by simp_all
  have "businessDayOf u m = d \<longleftrightarrow> business_day u m = day_number d" for u
    unfolding businessDayOf_string using day day_string_inj [OF day(2,3)] by metis
  then have "businessDayOf u m = d \<longleftrightarrow> day_start (day_number d) m \<le> u \<and> u < day_start (day_number d) m + DAY_MS" for u
    by (simp add: business_day_in day_start_next)
  then show ?thesis using x by (simp add: businessDayStartUtc_run)
qed

lemma fx_date: "business_date ''2024-02-29''" "day_number ''2024-02-29'' = 19782"
  by code_simp+

theorem business_day_roundtrip_witness:
  "businessDayOf (day_start 19782 240 + 7200000) 240 = ''2024-02-29''"
proof -
  obtain t where t: "businessDayStartUtc ''2024-02-29'' 240 = Inr t"
    and days: "\<forall>u. businessDayOf u 240 = ''2024-02-29'' \<longleftrightarrow> t \<le> u \<and> u < t + DAY_MS"
    using business_day_roundtrip [OF fx_date(1)] by blast
  obtain x where x: "parseDate ''2024-02-29'' = Inr x" using business_date_parse [OF fx_date(1)] by blast
  have "t = day_start 19782 240" using t unfolding businessDayStartUtc_run x fx_date(2) sum.case sum.inject by simp
  with days show ?thesis by (simp add: DAY_MS_def)
qed

section \<open>The scope of a report\<close>

text \<open>
  C25. Raw SQL is not filtered by the choke point, so its scope must be right: every branch id a
  resolved scope hands to a query is a live branch of a live business of the caller's owner, the
  branch belongs to that business, demo businesses take part only when asked for by name, and a
  query that names a business or a branch gets that one alone.
\<close>

theorem report_scope_is_own:
  assumes "wf_tree (base_db ctx s)" and "cx_scope ctx = Some Tenant" and "cx_ownerId ctx = Some ow" and "\<not> is_terminal ctx"
    and "resolve ctx q s = (Inr sc, s')"
  shows "s' = s \<and> (\<forall>b \<in> set (sc_businesses sc). \<forall>i \<in> set (sb_branchIds b). \<exists>r bz. r \<in> set (db_branch (base_db ctx s)) \<and> bz \<in> set (db_business (base_db ctx s))
      \<and> r_id r = i \<and> live r \<and> br_businessId r = r_id bz \<and> r_id bz = sb_id b \<and> live bz \<and> bz_ownerId bz = ow
      \<and> (bz_isDemo bz \<longrightarrow> truthy_id (an_businessId q) = Some (r_id bz))
      \<and> opt_match (truthy_id (an_businessId q)) (Some (r_id bz)) \<and> opt_match (truthy_id (an_branchId q)) (Some i))"
proof -
  let ?base = "base_db ctx s" and ?want = "truthy_id (an_businessId q)"
  obtain B R where s': "s' = s"
    and B: "set B = {b \<in> set (db_business ?base). visible ctx business_t False ?base b
        \<and> (case ?want of Some i \<Rightarrow> r_id b = i | None \<Rightarrow> \<not> bz_isDemo b)}"
    and R: "set R = {r \<in> set (db_branch ?base). visible ctx branch_t False ?base r
        \<and> br_businessId r \<in> r_id ` set B \<and> opt_match (truthy_id (an_branchId q)) (Some (r_id r))}"
    and sc: "scope_businesses (rangeWindow (an_from q) (an_to q)) R B = Inr (sc_businesses sc)"
    by (rule resolve_Inr [OF assms(5)])
  have "\<exists>r bz. r \<in> set (db_branch ?base) \<and> bz \<in> set (db_business ?base) \<and> r_id r = i \<and> live r \<and> br_businessId r = r_id bz
      \<and> r_id bz = sb_id b \<and> live bz \<and> bz_ownerId bz = ow \<and> (bz_isDemo bz \<longrightarrow> ?want = Some (r_id bz))
      \<and> opt_match ?want (Some (r_id bz)) \<and> opt_match (truthy_id (an_branchId q)) (Some i)"
    if b: "b \<in> set (sc_businesses sc)" and i: "i \<in> set (sb_branchIds b)" for b i
  proof -
    from scope_businesses_member [OF sc b] obtain bz where bz: "bz \<in> set B"
      and w: "rangeWindow (an_from q) (an_to q) bz (byBusiness R (r_id bz)) = Inr b" by blast
    from w have ids: "sb_id b = r_id bz" "sb_branchIds b = byBusiness R (r_id bz)" by (elim rangeWindow_Inr; simp)+
    with i obtain r where r: "r \<in> set R" "r_id r = i" "br_businessId r = r_id bz" by (auto simp: byBusiness_def)
    have "live bz" "bz_ownerId bz = ow" "live r"
      using bz r(1) assms(2,3,4) unfolding B R by (auto simp: visible_def in_scope_def tenantWhereFor_def business_t_def TENANT_DIRECT_def)
    then show ?thesis using bz r ids unfolding B R
      by (intro exI [of _ r] exI [of _ bz]) (auto simp: opt_match_def split: option.splits)
  qed
  with s' show ?thesis by blast
qed

definition fx_query :: analytics_query where
  "fx_query = \<lparr> an_businessId = None, an_branchId = None, an_from = ''2024-02-29'', an_to = ''2024-02-29'', an_format = None \<rparr>"

lemma fx_resolve: "\<exists>sc. resolve fx_owner_ctx fx_query fx_db = (Inr sc, fx_db) \<and> map sb_branchIds (sc_businesses sc) = [[''br1'']]"
proof -
  have "case fst (resolve fx_owner_ctx fx_query fx_db) of Inl _ \<Rightarrow> False | Inr sc \<Rightarrow> map sb_branchIds (sc_businesses sc) = [[''br1'']]"
    by code_simp
  from pure_run_Inr [OF pure_resolve this] show ?thesis .
qed

lemma fx_report_ctx: "wf_tree (base_db fx_owner_ctx fx_db)" "cx_scope fx_owner_ctx = Some Tenant" "cx_ownerId fx_owner_ctx = Some ''own1''"
  "\<not> is_terminal fx_owner_ctx" "base_db fx_owner_ctx fx_db = fx_db"
  by (simp_all add: wf_tree_def base_db_def fx_owner_ctx_def fx_terminal_ctx_def fx_db_def empty_db_def fx_business_def fx_branch_def is_terminal_def)

theorem report_scope_is_own_witness:
  "\<exists>sc. resolve fx_owner_ctx fx_query fx_db = (Inr sc, fx_db) \<and> map sb_branchIds (sc_businesses sc) = [[''br1'']]
    \<and> (\<exists>(r :: branch_row) (bz :: business_row). r_id r = ''br1'' \<and> br_businessId r = r_id bz \<and> bz_ownerId bz = ''own1'')"
proof -
  obtain sc where sc: "resolve fx_owner_ctx fx_query fx_db = (Inr sc, fx_db)" "map sb_branchIds (sc_businesses sc) = [[''br1'']]"
    using fx_resolve by (elim exE conjE)
  then obtain b where b: "b \<in> set (sc_businesses sc)" "''br1'' \<in> set (sb_branchIds b)" by auto
  from conjunct2 [OF report_scope_is_own [OF fx_report_ctx(1-4) sc(1)], THEN bspec, OF b(1), THEN bspec, OF b(2)]
  obtain r :: branch_row and bz :: business_row where "r_id r = ''br1''" "br_businessId r = r_id bz" "bz_ownerId bz = ''own1''" by (elim exE conjE) rule
  with sc show ?thesis by (intro exI conjI)
qed

section \<open>Reports only read\<close>

lemma logs_overview: "logs ctx (resolve ctx q) s (overview ctx q)"
  unfolding overview_def by (((rule logs_end, assumption) | rule logs_bind logs_prod)+, simp_all add: overview_business_def pure_bind pure_fold_op)

lemma logs_tax: "logs ctx (resolve ctx q) s (taxReport ctx q)"
  unfolding taxReport_def by (((rule logs_end, assumption) | rule logs_bind logs_prod)+, simp_all add: tax_business_def pure_bind pure_fold_op)

lemma logs_heatmap: "logs ctx (resolve ctx q) s (heatmap ctx q)"
  unfolding heatmap_def
proof (rule logs_bind [OF logs_bind])
  fix sc m
  assume sc: "resolve ctx q s = (Inr sc, s)"
  then have days: "businessDaySeries (sc_from sc) (sc_to sc) = Inr (map day_string [day_number (an_from q)..day_number (an_to q)])"
    by (elim resolve_Inr) simp
  show "logs ctx (resolve ctx q) s (bind (logReport ctx sc ''sales-heatmap'' (format_of q)) (\<lambda>_.
      bind (lift_res (businessDaySeries (sc_from sc) (sc_to sc))) (\<lambda>days. ret (map (\<lambda>date. \<lparr> hd_date = date,
        hd_salesC = fst (get_or (0, 0) date m), hd_transactions = snd (get_or (0, 0) date m) \<rparr>) days))))"
    unfolding days bind_lift_Inr by (rule logs_end [where scope = "resolve ctx q"]) (rule sc)
qed (simp_all add: pure_bind pure_fold_op)

lemma logs_trend: "logs ctx (resolve ctx tq) s (trend ctx tq)"
  unfolding trend_def by (((rule logs_end, assumption) | rule logs_bind logs_prod)+, simp_all add: trend_business_def pure_bind pure_fold_op)

lemma logs_patterns: "logs ctx (resolve ctx q) s (patterns ctx q)"
  unfolding patterns_def by (((rule logs_end, assumption) | rule logs_bind logs_prod)+, simp_all add: pure_bind pure_fold_op)

lemma logs_breakdowns: "logs ctx (resolve ctx q) s (breakdowns ctx q)"
  unfolding breakdowns_def
  by (((rule logs_end, assumption) | rule logs_bind logs_prod)+, simp_all add: pure_bind pure_fold_op split: prod.split)

lemma pure_sold [simp]: "pure_op (sold bs)"
  unfolding sold_def by (intro pure_bind pure_fold_op) (simp_all add: pure_bind)

lemma logs_topProducts: "logs ctx (resolve ctx pq) s (topProducts ctx pq)"
  unfolding topProducts_def by (((rule logs_end, assumption) | rule logs_bind logs_prod)+, simp_all add: pure_bind pure_fold_op)

lemma logs_slowProducts: "logs ctx (resolve ctx pq) s (slowProducts ctx pq)"
  unfolding slowProducts_def by (((rule logs_end, assumption) | rule logs_bind logs_prod)+, simp_all add: pure_bind pure_fold_op)

lemma logs_productTrend: "logs ctx (resolve ctx tq) s (productTrend ctx i tq)"
  unfolding productTrend_def by (((rule logs_end, assumption) | rule logs_bind logs_prod)+, simp_all add: pure_bind pure_fold_op pure_find)

lemma logs_profit: "logs ctx (resolve ctx tq) s (profit ctx tq)"
  unfolding profit_def by (((rule logs_end, assumption) | rule logs_bind logs_prod)+, simp_all add: profit_business_def pure_bind pure_fold_op)

lemma logs_movements: "logs ctx (resolve ctx mq) s (movements ctx mq)"
  unfolding movements_def Let_def
  by (((rule logs_end, assumption) | rule logs_bind logs_prod)+, simp_all add: movements_business_def pure_bind pure_fold_op)

lemma logs_shrinkage: "logs ctx (resolve ctx q) s (shrinkage ctx q)"
  unfolding shrinkage_def by (((rule logs_end, assumption) | rule logs_bind logs_prod)+, simp_all add: pure_bind pure_fold_op)

lemma logs_onHand: "logs ctx (resolve ctx q) s (onHand ctx q)"
  unfolding onHand_def by (((rule logs_end, assumption) | rule logs_bind logs_prod)+, simp_all add: pure_bind pure_fold_op)

lemma logs_leaks: "logs ctx (resolve ctx q) s (leaks ctx q)"
  unfolding leaks_def by (((rule logs_end, assumption) | rule logs_bind logs_prod)+, simp_all add: leaks_business_def pure_bind pure_fold_op Let_def)

lemma pure_sparkline [simp]: "pure_op (sparkline b n)"
  unfolding sparkline_def Let_def by (intro pure_bind pure_map_op) simp_all

lemma logs_dashboard: "logs ctx (resolveToday ctx n) s (dashboard ctx n)"
  unfolding dashboard_def
  by (((rule logs_end, assumption) | rule logs_bind logs_prod)+,
    simp_all add: dashboard_business_of_def pure_bind pure_fold_op pure_find openShifts_def terminals_def unclosedShifts_def Let_def)

text \<open>
  C26. A report is a read: for each of the fifteen report requests, whatever the state, the caller
  and the query, a request that fails has written nothing, and one that answers has appended one
  audit row for each business of its scope, carrying that business and the caller's owner, and has
  changed nothing else.
\<close>

theorem reports_only_audit:
  "logs ctx (resolve ctx q) s (overview ctx q) \<and> logs ctx (resolve ctx q) s (taxReport ctx q)
    \<and> logs ctx (resolve ctx q) s (heatmap ctx q) \<and> logs ctx (resolve ctx tq) s (trend ctx tq)
    \<and> logs ctx (resolve ctx q) s (patterns ctx q) \<and> logs ctx (resolve ctx q) s (breakdowns ctx q)
    \<and> logs ctx (resolve ctx pq) s (topProducts ctx pq) \<and> logs ctx (resolve ctx pq) s (slowProducts ctx pq)
    \<and> logs ctx (resolve ctx tq) s (productTrend ctx i tq) \<and> logs ctx (resolve ctx tq) s (profit ctx tq)
    \<and> logs ctx (resolve ctx mq) s (movements ctx mq) \<and> logs ctx (resolve ctx q) s (shrinkage ctx q)
    \<and> logs ctx (resolve ctx q) s (onHand ctx q) \<and> logs ctx (resolve ctx q) s (leaks ctx q)
    \<and> logs ctx (resolveToday ctx n) s (dashboard ctx n)"
  by (intro conjI logs_overview logs_tax logs_heatmap logs_trend logs_patterns logs_breakdowns logs_topProducts logs_slowProducts
    logs_productTrend logs_profit logs_movements logs_shrinkage logs_onHand logs_leaks logs_dashboard)

end
