(* ===== verification/MoneyClaims.thy ===== *)
theory MoneyClaims
  imports ReportFacts SaleFixture
begin

text \<open>
  The same money in two reports: the overview and the calendar of days add up the same sales,
  business by business and day by day.
\<close>

section \<open>The overview as a sum over sales\<close>

lemma overview_business_run:
  assumes "sb_branchIds b \<noteq> []"
  shows "overview_business b acc s = (Inr
    (addRows (fst acc) (hd (answer (salesAggregateSql b (sb_fromUtc b) (sb_toUtc b)) s)) (hd (answer (lineAggregateSql b (sb_fromUtc b) (sb_toUtc b)) s)),
     addRows (snd acc) (hd (answer (salesAggregateSql b (sb_previousFromUtc b) (sb_previousToUtc b)) s))
       (hd (answer (lineAggregateSql b (sb_previousFromUtc b) (sb_previousToUtc b)) s))), s)"
proof -
  have sales: "runScopedOne b (\<lambda>b. salesAggregateSql b (f b) (t b)) s = (Inr (hd (answer (salesAggregateSql b (f b) (t b)) s)), s)" for f t
    by (rule runScopedOne_run [OF assms]) (simp_all add: salesAggregateSql_def Let_def)
  have lines: "runScopedOne b (\<lambda>b. lineAggregateSql b (f b) (t b)) s = (Inr (hd (answer (lineAggregateSql b (f b) (t b)) s)), s)" for f t
    by (rule runScopedOne_run [OF assms]) (simp_all add: lineAggregateSql_def Let_def)
  show ?thesis by (simp add: overview_business_def bind_def sales lines)
qed

definition window_net :: "db \<Rightarrow> scoped_business \<Rightarrow> int" where
  "window_net s b = total_of net_sale (completedInWindow b s)"

definition window_count :: "db \<Rightarrow> scoped_business \<Rightarrow> int" where
  "window_count s b = count_of (completedInWindow b s)"

lemma aggregate_net:
  "netSalesC (addRows t (hd (answer (salesAggregateSql b (sb_fromUtc b) (sb_toUtc b)) s)) l) = netSalesC t + window_net s b"
  "tt_transactions (addRows t (hd (answer (salesAggregateSql b (sb_fromUtc b) (sb_toUtc b)) s)) l) = tt_transactions t + window_count s b"
proof -
  have "total_of sl_subtotal rows - total_of (\<lambda>r. sl_discount r + sl_scPwdDiscount r) rows = total_of net_sale rows" for rows
    by (induction rows) (simp_all add: net_sale_def)
  then show "netSalesC (addRows t (hd (answer (salesAggregateSql b (sb_fromUtc b) (sb_toUtc b)) s)) l) = netSalesC t + window_net s b"
    "tt_transactions (addRows t (hd (answer (salesAggregateSql b (sb_fromUtc b) (sb_toUtc b)) s)) l) = tt_transactions t + window_count s b"
    by (simp_all add: salesAggregateSql_def Let_def netSalesC_def addRows_def window_net_def window_count_def completedInWindow_def algebra_simps)
qed

lemma overview_fold:
  assumes "\<forall>b \<in> set bs. sb_branchIds b \<noteq> []"
  shows "\<exists>current previous. fold_op overview_business bs acc s = (Inr (current, previous), s)
    \<and> netSalesC current = netSalesC (fst acc) + total_of (window_net s) bs
    \<and> tt_transactions current = tt_transactions (fst acc) + total_of (window_count s) bs"
  using assms
proof (induction bs arbitrary: acc)
  case Nil
  then show ?case by (cases acc) simp
next
  case (Cons b bs)
  obtain acc' where one: "overview_business b acc s = (Inr acc', s)"
    and sums: "netSalesC (fst acc') = netSalesC (fst acc) + window_net s b" "tt_transactions (fst acc') = tt_transactions (fst acc) + window_count s b"
    using Cons.prems overview_business_run [of b acc s] by (force simp: aggregate_net)
  from Cons.IH [of acc'] Cons.prems sums show ?case by (auto simp: bind_def one)
qed

lemma overview_Inr:
  assumes "overview ctx q s = (Inr ov, s')"
  obtains sc where "resolve ctx q s = (Inr sc, s)"
    "kp_value (ov_netSalesC ov) = total_of (window_net s) (sc_businesses sc)"
    "kp_value (ov_transactions ov) = total_of (window_count s) (sc_businesses sc)"
proof -
  let ?rest = "\<lambda>sc. bind (fold_op overview_business (sc_businesses sc) (emptyTotals, emptyTotals)) (\<lambda>(current, previous).
        bind (logReport ctx sc ''overview'' (format_of q)) (\<lambda>_. ret (build_overview (sc_from sc) (sc_to sc) current previous)))"
  from assms [unfolded overview_def] obtain sc where sc: "resolve ctx q s = (Inr sc, s)" and run: "?rest sc s = (Inr ov, s')"
    by (rule bind_pure_InrE [OF _ pure_resolve])
  obtain current previous where f: "fold_op overview_business (sc_businesses sc) (emptyTotals, emptyTotals) s = (Inr (current, previous), s)"
    and sums: "netSalesC current = netSalesC emptyTotals + total_of (window_net s) (sc_businesses sc)"
      "tt_transactions current = tt_transactions emptyTotals + total_of (window_count s) (sc_businesses sc)"
    using overview_fold [of "sc_businesses sc" "(emptyTotals, emptyTotals)" s] scope_window [OF sc] by auto
  have "ov = build_overview (sc_from sc) (sc_to sc) current previous" using run by (auto simp: bind_eq_Inr f)
  then show thesis using sums by (intro that [OF sc]) (simp_all add: build_overview_def toKpi_def emptyTotals_def netSalesC_def)
qed

section \<open>The calendar of days\<close>

lemma get_or_bump: "get_or d k (bump d f k' m) = (if k = k' then f (get_or d k m) else get_or d k m)"
  by (simp add: get_or_def bump_def AList.update_conv')

lemma total_add: "total_of (\<lambda>x. f x + g x) xs = total_of f xs + total_of g xs"
  by (induction xs) simp_all

lemma days_bucket:
  "distinct ds \<Longrightarrow> k \<in> set ds \<Longrightarrow>
    total_of (\<lambda>d. fst (get_or (0, 0) d (add_tally a n k m))) ds = total_of (\<lambda>d. fst (get_or (0, 0) d m)) ds + a"
  "distinct ds \<Longrightarrow> k \<in> set ds \<Longrightarrow>
    total_of (\<lambda>d. snd (get_or (0, 0) d (add_tally a n k m))) ds = total_of (\<lambda>d. snd (get_or (0, 0) d m)) ds + n"
proof -
  have one: "distinct ds \<Longrightarrow> k \<in> set ds \<Longrightarrow> total_of (\<lambda>d. if d = k then x else 0) ds = x" for x
    unfolding total_of_def by (simp add: sum_list_distinct_conv_sum_set)
  have split: "get_or (0, 0) d (add_tally a n k m) = (fst (get_or (0, 0) d m) + (if d = k then a else 0), snd (get_or (0, 0) d m) + (if d = k then n else 0))" for d
    by (auto simp: add_tally_def get_or_bump split: prod.split)
  assume "distinct ds" "k \<in> set ds"
  then show "total_of (\<lambda>d. fst (get_or (0, 0) d (add_tally a n k m))) ds = total_of (\<lambda>d. fst (get_or (0, 0) d m)) ds + a"
    "total_of (\<lambda>d. snd (get_or (0, 0) d (add_tally a n k m))) ds = total_of (\<lambda>d. snd (get_or (0, 0) d m)) ds + n"
    by (simp_all add: split total_add one)
qed

lemma days_buckets:
  assumes "distinct ds" "\<forall>r \<in> set rows. bucketKey (bk_bucket r) \<in> set ds"
  shows "total_of (\<lambda>d. fst (get_or (0, 0) d (add_buckets rows m))) ds = total_of (\<lambda>d. fst (get_or (0, 0) d m)) ds + total_of bk_sales rows
    \<and> total_of (\<lambda>d. snd (get_or (0, 0) d (add_buckets rows m))) ds = total_of (\<lambda>d. snd (get_or (0, 0) d m)) ds + total_of bk_transactions rows"
  using assms(2) unfolding add_buckets_def
  by (induction rows arbitrary: m) (simp_all add: days_bucket [OF assms(1)])

lemma total_map: "total_of f (map g xs) = total_of (f \<circ> g) xs"
  by (simp add: total_of_def)

lemma bucket_rows_totals:
  "total_of bk_sales (bucket_rows f rows) = total_of net_sale rows" "total_of bk_transactions (bucket_rows f rows) = count_of rows"
  unfolding bucket_rows_def total_map count_total
  by (simp_all add: comp_def case_prod_beta' flip: group_total [of _ f rows])

lemma date_part_midnight: "date_part (n * DAY_MS) = day_string n"
  by (simp add: date_part_day DAY_MS_def)

lemma bucket_in_range:
  assumes "resolve ctx q s = (Inr sc, s')" "b \<in> set (sc_businesses sc)"
    and "r \<in> set (bucket_rows (bucketExpr b By_day) (completedInWindow b u))"
  shows "bucketKey (bk_bucket r) \<in> set (map day_string [day_number (an_from q)..day_number (an_to q)])"
proof -
  from assms(3) obtain x where x: "x \<in> set (completedInWindow b u)" "bk_bucket r = bucketExpr b By_day x"
    by (auto simp: bucket_rows_def group_by_def)
  have "sb_fromUtc b \<le> r_createdAt x" "r_createdAt x < sb_toUtc b" using x(1) by (auto simp: completedInWindow_def with_status_def sales_in_def)
  then have "day_number (an_from q) \<le> business_day (r_createdAt x) (sb_dayStartMinutes b)
      \<and> business_day (r_createdAt x) (sb_dayStartMinutes b) \<le> day_number (an_to q)"
    using scope_window [OF assms(1,2)]
      business_day_range [of "day_number (an_from q)" "sb_dayStartMinutes b" "r_createdAt x" "day_number (an_to q)"] by simp
  moreover have "bk_bucket r = business_day (r_createdAt x) (sb_dayStartMinutes b) * DAY_MS"
    by (simp add: x(2) bucketExpr_def day_bucket_def business_day_def)
  ultimately show ?thesis by (auto simp: bucketKey_def date_part_midnight)
qed

lemma heatmap_fold:
  assumes "distinct ds" "\<forall>b \<in> set bs. \<forall>r \<in> set (bucket_rows (bucketExpr b By_day) (completedInWindow b s)). bucketKey (bk_bucket r) \<in> set ds"
  shows "total_of (\<lambda>d. fst (get_or (0, 0) d (foldl (\<lambda>m b. add_buckets (answer (heatmapSql b) s) m) m bs))) ds
      = total_of (\<lambda>d. fst (get_or (0, 0) d m)) ds + total_of (window_net s) bs
    \<and> total_of (\<lambda>d. snd (get_or (0, 0) d (foldl (\<lambda>m b. add_buckets (answer (heatmapSql b) s) m) m bs))) ds
      = total_of (\<lambda>d. snd (get_or (0, 0) d m)) ds + total_of (window_count s) bs"
  using assms(2)
proof (induction bs arbitrary: m)
  case (Cons b bs)
  have "\<forall>r \<in> set (answer (heatmapSql b) s). bucketKey (bk_bucket r) \<in> set ds" using Cons.prems by (simp add: heatmapSql_def)
  from days_buckets [OF assms(1) this] Cons show ?case
    by (simp add: heatmapSql_def bucket_rows_totals window_net_def window_count_def)
qed simp

lemma no_days: "total_of (\<lambda>d. fst (get_or (0, 0) d [])) ds = 0" "total_of (\<lambda>d. snd (get_or (0, 0) d [])) ds = 0"
  by (induction ds) (simp_all add: get_or_def)

text \<open>
  C10. Every centavo has a day: for a range of calendar dates, the days of the calendar report are
  the days of the range, in order and each once, and their sales and transactions add up to the net
  sales and the transactions of the overview, however many businesses the scope spans and whatever
  hour each of them starts its day at.
\<close>

theorem days_add_up_to_overview:
  assumes "overview ctx q s = (Inr ov, s1)" and "heatmap ctx q s = (Inr days, s2)"
    and "business_date (an_from q)" and "business_date (an_to q)"
  shows "total_of hd_salesC days = kp_value (ov_netSalesC ov) \<and> total_of hd_transactions days = kp_value (ov_transactions ov)
    \<and> distinct (map hd_date days) \<and> businessDaySeries (an_from q) (an_to q) = Inr (map hd_date days)"
proof -
  obtain sc where sc: "resolve ctx q s = (Inr sc, s)"
    and ov: "kp_value (ov_netSalesC ov) = total_of (window_net s) (sc_businesses sc)"
      "kp_value (ov_transactions ov) = total_of (window_count s) (sc_businesses sc)"
    by (rule overview_Inr [OF assms(1)])
  let ?ds = "map day_string [day_number (an_from q)..day_number (an_to q)]"
  let ?m = "foldl (\<lambda>m b. add_buckets (answer (heatmapSql b) s) m) [] (sc_businesses sc)"
  from sc have series: "businessDaySeries (sc_from sc) (sc_to sc) = Inr ?ds" "sc_from sc = an_from q" "sc_to sc = an_to q"
    by (elim resolve_Inr; simp)+
  have "fold_op (\<lambda>b m. bind (runScoped b heatmapSql) (\<lambda>rows. ret (add_buckets rows m))) (sc_businesses sc) [] s = (Inr ?m, s)"
    by (rule fold_op_run) (use scope_window [OF sc] in \<open>simp add: bind_def runScoped_run heatmapSql_def\<close>)
  then have days: "days = map (\<lambda>d. \<lparr> hd_date = d, hd_salesC = fst (get_or (0, 0) d ?m), hd_transactions = snd (get_or (0, 0) d ?m) \<rparr>) ?ds"
    using assms(2) series(1) by (auto simp: heatmap_def bind_eq_Inr sc)
  have "distinct ?ds" by (rule series_days [OF assms(3,4)])
  moreover have "\<forall>b \<in> set (sc_businesses sc). \<forall>r \<in> set (bucket_rows (bucketExpr b By_day) (completedInWindow b s)). bucketKey (bk_bucket r) \<in> set ?ds"
    using bucket_in_range [OF sc] by blast
  ultimately have "total_of (\<lambda>d. fst (get_or (0, 0) d ?m)) ?ds = total_of (window_net s) (sc_businesses sc)
    \<and> total_of (\<lambda>d. snd (get_or (0, 0) d ?m)) ?ds = total_of (window_count s) (sc_businesses sc)"
    by (rule heatmap_fold [where m = "[]", unfolded no_days add_0])
  then show ?thesis using \<open>distinct ?ds\<close> series unfolding days ov total_map by (simp add: comp_def total_map)
qed

lemma overview_succeeds:
  assumes "resolve ctx q s = (Inr sc, s)"
  shows "\<exists>ov s'. overview ctx q s = (Inr ov, s')"
proof -
  obtain current previous where "fold_op overview_business (sc_businesses sc) (emptyTotals, emptyTotals) s = (Inr (current, previous), s)"
    using overview_fold [of "sc_businesses sc" "(emptyTotals, emptyTotals)" s] scope_window [OF assms] by auto
  moreover obtain acts where "logReport ctx sc ''overview'' (format_of q) s
      = (Inr (), s\<lparr> db_auditLog := db_auditLog s @ acts, db_nextId := db_nextId s + List.length acts \<rparr>)"
    using logReport_run by blast
  ultimately show ?thesis by (simp add: overview_def bind_def assms)
qed

lemma heatmap_succeeds:
  assumes "resolve ctx q s = (Inr sc, s)"
  shows "\<exists>days s'. heatmap ctx q s = (Inr days, s')"
proof -
  have "fold_op (\<lambda>b m. bind (runScoped b heatmapSql) (\<lambda>rows. ret (add_buckets rows m))) (sc_businesses sc) [] s
      = (Inr (foldl (\<lambda>m b. add_buckets (answer (heatmapSql b) s) m) [] (sc_businesses sc)), s)"
    by (rule fold_op_run) (use scope_window [OF assms] in \<open>simp add: bind_def runScoped_run heatmapSql_def\<close>)
  moreover obtain acts where "logReport ctx sc ''sales-heatmap'' (format_of q) s
      = (Inr (), s\<lparr> db_auditLog := db_auditLog s @ acts, db_nextId := db_nextId s + List.length acts \<rparr>)"
    using logReport_run by blast
  moreover have "\<exists>ds. businessDaySeries (sc_from sc) (sc_to sc) = Inr ds" using assms by (elim resolve_Inr) simp
  ultimately show ?thesis by (auto simp: heatmap_def bind_def assms)
qed

text \<open>One completed and one voided sale in the first minutes of 1970.\<close>

definition fx_first_day :: analytics_query where
  "fx_first_day = \<lparr> an_businessId = None, an_branchId = None, an_from = ''1970-01-01'', an_to = ''1970-01-01'', an_format = None \<rparr>"

definition fx_row :: sale_row where
  "fx_row = \<lparr> r_id = ''sal1'', r_createdAt = 1000000, r_updatedAt = 1000000, r_deletedAt = None, sl_branchId = ''br1'',
     sl_terminalId = ''tm1'', sl_shiftId = Some ''sh1'', sl_receiptNo = ''r1'', sl_orderType = Takeout, sl_status = Completed,
     sl_statusReason = None, sl_subtotal = 30000, sl_discount = 1000, sl_discountId = None, sl_serviceCharge = 0, sl_scPwd = None,
     sl_scPwdDiscount = 500, sl_vatExemptSales = 0, sl_tax = 3000, sl_total = 28500, sl_createdAtDevice = 1000000,
     sl_syncedAt = None, sl_voidedAt = None, sl_refundedAt = None, sl_refundShiftId = None, sl_draft = fx_draft \<rparr>"

definition fx_books :: db where
  "fx_books = fx_db\<lparr> db_sale := [fx_row, fx_row\<lparr> r_id := ''sal2'', sl_status := Voided \<rparr>] \<rparr>"

lemma fx_books_resolve:
  "\<exists>sc. resolve fx_owner_ctx fx_first_day fx_books = (Inr sc, fx_books) \<and> map (window_net fx_books) (sc_businesses sc) = [28500]"
proof -
  have "case fst (resolve fx_owner_ctx fx_first_day fx_books) of Inl _ \<Rightarrow> False | Inr sc \<Rightarrow> map (window_net fx_books) (sc_businesses sc) = [28500]"
    by code_simp
  from pure_run_Inr [OF pure_resolve this] show ?thesis .
qed

lemma fx_first_day: "business_date (an_from fx_first_day)" "business_date (an_to fx_first_day)"
  by code_simp+

theorem days_add_up_to_overview_witness:
  "\<exists>ov days s1 s2. overview fx_owner_ctx fx_first_day fx_books = (Inr ov, s1) \<and> heatmap fx_owner_ctx fx_first_day fx_books = (Inr days, s2)
    \<and> total_of hd_salesC days = 28500 \<and> kp_value (ov_netSalesC ov) = 28500"
proof -
  obtain sc where sc: "resolve fx_owner_ctx fx_first_day fx_books = (Inr sc, fx_books)"
    and net: "map (window_net fx_books) (sc_businesses sc) = [28500]" using fx_books_resolve by (elim exE conjE)
  obtain ov s1 days s2 where runs: "overview fx_owner_ctx fx_first_day fx_books = (Inr ov, s1)"
    "heatmap fx_owner_ctx fx_first_day fx_books = (Inr days, s2)"
    using overview_succeeds [OF sc] heatmap_succeeds [OF sc] by (elim exE)
  have "total_of (window_net fx_books) (sc_businesses sc) = 28500" using net by (simp add: total_of_def)
  then have "kp_value (ov_netSalesC ov) = 28500" using overview_Inr [OF runs(1)] sc by force
  moreover from this have "total_of hd_salesC days = 28500"
    using conjunct1 [OF days_add_up_to_overview [OF runs fx_first_day]] by simp
  ultimately show ?thesis using runs by (intro exI conjI)
qed

end
