(* ===== verification/PageClaims.thy ===== *)
theory PageClaims
  imports ReportFacts Fixture "HOL-Library.Multiset"
begin

text \<open>
  The movement ledger is queried business by business, each query cut off at the rows the page can
  reach, and merged: the page is the one a single query over all businesses would give.
\<close>

section \<open>The top of a merge\<close>

lemma top_insort:
  "k \<le> List.length (filter (\<lambda>y. f x \<le> f y) L) \<Longrightarrow> take k (rev (insort_key f x L)) = take k (rev L)"
proof (induction L)
  case (Cons y L)
  show ?case
  proof (cases "f x \<le> f y")
    case True
    have "k \<le> List.length (y # L)" using Cons.prems length_filter_le [of "\<lambda>y. f x \<le> f y" "y # L"] by simp
    then have "k - List.length L = 0 \<or> k - List.length L = 1" by auto
    with True show ?thesis by auto
  next
    case False
    then have "k \<le> List.length (filter (\<lambda>y. f x \<le> f y) L)" using Cons.prems by simp
    moreover from this have "k \<le> List.length L" by (rule order.trans) (rule length_filter_le)
    ultimately show ?thesis using Cons.IH False by simp
  qed
qed simp

lemma count_sort_key: "List.length (filter p (sort_key f xs)) = List.length (filter p xs)"
  by (simp add: filter_sort)

lemma top_more:
  "\<forall>x \<in> set D. k \<le> List.length (filter (\<lambda>y. f x \<le> f y) L) \<Longrightarrow> take k (rev (sort_key f (D @ L))) = take k (rev (sort_key f L))"
proof (induction D)
  case (Cons x D)
  have "k \<le> List.length (filter (\<lambda>y. f x \<le> f y) (sort_key f (D @ L)))" using Cons.prems by (simp add: count_sort_key)
  from top_insort [OF this] Cons show ?case by simp
qed simp

text \<open>What was cut off does not matter: at least as many rows are newer.\<close>

lemma top_cut:
  assumes inj: "inj_on f (set A \<union> set B)"
  shows "take k (rev (sort_key f (take k (rev (sort_key f A)) @ B))) = take k (rev (sort_key f (A @ B)))"
proof -
  let ?N = "rev (sort_key f A)"
  let ?P = "take k ?N" and ?D = "drop k ?N"
  have sorted: "sorted (map f (sort_key f A))" by simp
  have "k \<le> List.length (filter (\<lambda>y. f x \<le> f y) (?P @ B))" if x: "x \<in> set ?D" for x
  proof -
    have len: "List.length ?P = k" using x by (cases "k \<le> List.length ?N") auto
    have "sorted_wrt (\<lambda>a b. f b \<le> f a) (?P @ ?D)" using sorted by (simp add: sorted_wrt_rev sorted_map)
    then have "\<forall>y \<in> set ?P. f x \<le> f y" using x unfolding sorted_wrt_append by blast
    then have "filter (\<lambda>y. f x \<le> f y) ?P = ?P" by (simp add: filter_id_conv)
    with len show ?thesis by simp
  qed
  then have "take k (rev (sort_key f (?D @ ?P @ B))) = take k (rev (sort_key f (?P @ B)))" by (intro top_more ballI)
  moreover have "sort_key f (?D @ ?P @ B) = sort_key f (A @ B)"
  proof (rule sort_key_inj_key_eq)
    have "mset (?D @ ?P) = mset A" by (metis append_take_drop_id mset_append mset_rev mset_sort union_commute)
    then show m: "mset (?D @ ?P @ B) = mset (sort_key f (A @ B))" by simp
    show "inj_on f (set (?D @ ?P @ B))" using inj mset_eq_setD [OF m] by simp
    show "sorted (map f (sort_key f (A @ B)))" by simp
  qed
  ultimately show ?thesis by simp
qed

lemma top_merge:
  assumes "inj_on f (\<Union>xs \<in> set xss. set xs)"
  shows "take k (rev (sort_key f (List.concat (map (\<lambda>xs. take k (rev (sort_key f xs))) xss)))) = take k (rev (sort_key f (List.concat xss)))"
proof -
  have cut: "set (take k (rev (sort_key f xs))) \<subseteq> set xs" for xs using set_take_subset [of k "rev (sort_key f xs)"] by simp
  have "take k (rev (sort_key f (List.concat (map (\<lambda>xs. take k (rev (sort_key f xs))) xss) @ R)))
      = take k (rev (sort_key f (List.concat xss @ R)))" if "inj_on f ((\<Union>xs \<in> set xss. set xs) \<union> set R)" for R
    using that
  proof (induction xss arbitrary: R)
    case (Cons xs xss)
    let ?C = "\<lambda>xs. take k (rev (sort_key f xs))"
    let ?M = "List.concat (map ?C xss)"
    have M: "set ?M \<subseteq> (\<Union>xs \<in> set xss. set xs)" using cut by fastforce
    have swap: "take k (rev (sort_key f (X @ Y @ R))) = take k (rev (sort_key f (Y @ X @ R)))"
      if "inj_on f (set X \<union> set Y \<union> set R)" for X Y
    proof -
      have "sort_key f (X @ Y @ R) = sort_key f (Y @ X @ R)"
        by (rule sort_key_inj_key_eq) (use that in \<open>auto simp: inj_on_def\<close>)
      then show ?thesis by simp
    qed
    have "?C (?C xs @ ?M @ R) = ?C (xs @ ?M @ R)"
      by (rule top_cut) (rule inj_on_subset [OF Cons.prems], use M in auto)
    also have "\<dots> = ?C (?M @ xs @ R)" by (rule swap) (rule inj_on_subset [OF Cons.prems], use M in auto)
    also have "\<dots> = ?C (List.concat xss @ xs @ R)" by (rule Cons.IH) (rule inj_on_subset [OF Cons.prems], auto)
    also have "\<dots> = ?C (xs @ List.concat xss @ R)" by (rule swap) (rule inj_on_subset [OF Cons.prems], auto)
    finally show ?case by simp
  qed simp
  from this [of "[]"] assms show ?thesis by simp
qed

section \<open>The ledger page\<close>

text \<open>The movements of a business a query asks for, in no particular order.\<close>

definition ledger_rows :: "db \<Rightarrow> movement_filter \<Rightarrow> scoped_business \<Rightarrow> movement_out list" where
  "ledger_rows s f b = List.map_filter (movement_row s) (filter (movementWhere b f) (db_stockMovement s))"

lemma ledger_row_of:
  assumes "x \<in> set (ledger_rows s f b)"
  obtains m where "m \<in> set (db_stockMovement s)" "movement_row s m = Some x" "mo_id x = r_id m"
proof -
  from assms obtain m where "m \<in> set (db_stockMovement s)" "movement_row s m = Some x"
    by (auto simp: ledger_rows_def List.map_filter_def)
  moreover from this have "mo_id x = r_id m" by (auto simp: movement_row_def split: option.splits)
  ultimately show thesis by (rule that)
qed

lemma ledger_key_inj:
  assumes "distinct (map r_id (db_stockMovement s))"
  shows "inj_on (\<lambda>m. (mo_createdAt m, mo_id m)) (\<Union>xs \<in> set (map (ledger_rows s f) bs). set xs)"
proof (rule inj_onI)
  fix x y
  assume xy: "x \<in> (\<Union>xs \<in> set (map (ledger_rows s f) bs). set xs)" "y \<in> (\<Union>xs \<in> set (map (ledger_rows s f) bs). set xs)"
    "(mo_createdAt x, mo_id x) = (mo_createdAt y, mo_id y)"
  from xy(1) obtain m where m: "m \<in> set (db_stockMovement s)" "movement_row s m = Some x" "mo_id x = r_id m"
    by (auto elim: ledger_row_of)
  from xy(2) obtain n where n: "n \<in> set (db_stockMovement s)" "movement_row s n = Some y" "mo_id y = r_id n"
    by (auto elim: ledger_row_of)
  have "m = n" using m n xy(3) assms by (auto simp: distinct_map inj_on_def)
  then show "x = y" using m(2) n(2) by simp
qed

lemma movements_fold:
  assumes "\<forall>b \<in> set bs. sb_branchIds b \<noteq> []"
  shows "\<exists>n. fold_op (movements_business f reach) bs acc s
    = (Inr (fst acc @ List.concat (map (\<lambda>b. take reach (newest_movements (ledger_rows s f b))) bs), n), s)"
  using assms
proof (induction bs arbitrary: acc)
  case Nil
  then show ?case by (cases acc) simp
next
  case (Cons b bs)
  have "runScopedOne b (movementsCountSql f) s = (Inr (hd (answer (movementsCountSql f b) s)), s)"
    by (rule runScopedOne_run) (use Cons.prems in \<open>simp_all add: movementsCountSql_def\<close>)
  moreover have "runScoped b (movementsSql f reach) s = (Inr (take reach (newest_movements (ledger_rows s f b))), s)"
    using Cons.prems by (simp add: runScoped_run movementsSql_def ledger_rows_def)
  ultimately obtain n where one: "movements_business f reach b acc s
      = (Inr (fst acc @ take reach (newest_movements (ledger_rows s f b)), n), s)"
    by (simp add: movements_business_def bind_def)
  from Cons.IH [of "(fst acc @ take reach (newest_movements (ledger_rows s f b)), n)"] Cons.prems show ?case by (auto simp: bind_def one)
qed

text \<open>
  C23. Merging pages: although every business is queried on its own and each answer is cut off after
  as many rows as the page can reach, the page of the movement ledger is the page of the ledger of
  the whole scope, newest first.
\<close>

theorem page_of_merged_ledger:
  assumes "movements ctx q s = (Inr pg, s')" and "distinct (map r_id (db_stockMovement s))"
  shows "\<exists>sc. resolve ctx q s = (Inr sc, s)
    \<and> pg_data pg = page_of (pg_page pg) (pg_pageSize pg) (newest_movements (List.concat
        (map (ledger_rows s \<lparr> mf_type = mq_type q, mf_productId = mq_productId q \<rparr>) (sc_businesses sc))))"
proof -
  let ?f = "\<lparr> mf_type = mq_type q, mf_productId = mq_productId q \<rparr>"
  let ?page = "whole_or 1 (mq_page q)" and ?size = "whole_or DEFAULT_PAGE_SIZE (mq_pageSize q)"
  let ?reach = "?page * ?size"
  from assms(1) have "bind (resolve ctx q) (\<lambda>sc. bind (fold_op (movements_business ?f ?reach) (sc_businesses sc) ([], 0)) (\<lambda>(rows, n).
      bind (logReport ctx sc ''inventory-movements'' (format_of q)) (\<lambda>_.
      ret \<lparr> pg_data = page_of ?page ?size (newest_movements rows), pg_page = ?page, pg_pageSize = ?size, pg_total = nat n,
            pg_totalPages = max 1 ((nat n + ?size - 1) div ?size) \<rparr>))) s = (Inr pg, s')"
    unfolding movements_def Let_def by (rule guard_bind_InrE)
  then obtain sc where sc: "resolve ctx q s = (Inr sc, s)"
    and run: "bind (fold_op (movements_business ?f ?reach) (sc_businesses sc) ([], 0)) (\<lambda>(rows, n).
      bind (logReport ctx sc ''inventory-movements'' (format_of q)) (\<lambda>_.
      ret \<lparr> pg_data = page_of ?page ?size (newest_movements rows), pg_page = ?page, pg_pageSize = ?size, pg_total = nat n,
            pg_totalPages = max 1 ((nat n + ?size - 1) div ?size) \<rparr>)) s = (Inr pg, s')"
    by (rule bind_pure_InrE [OF _ pure_resolve])
  let ?rows = "List.concat (map (\<lambda>b. take ?reach (newest_movements (ledger_rows s ?f b))) (sc_businesses sc))"
  have "\<forall>b \<in> set (sc_businesses sc). sb_branchIds b \<noteq> []" using scope_window [OF sc] by blast
  from movements_fold [OF this, of ?f ?reach "([], 0)" s] obtain n where
    f: "fold_op (movements_business ?f ?reach) (sc_businesses sc) ([], 0) s = (Inr (?rows, n), s)" by auto
  from run have pg: "pg_data pg = page_of ?page ?size (newest_movements ?rows)" "pg_page pg = ?page" "pg_pageSize pg = ?size"
    by (auto simp: bind_eq_Inr f simp del: One_nat_def)
  have "take ?reach (newest_movements ?rows)
      = take ?reach (newest_movements (List.concat (map (ledger_rows s ?f) (sc_businesses sc))))"
    using top_merge [OF ledger_key_inj [OF assms(2), of ?f "sc_businesses sc"], of ?reach]
    by (simp add: newest_movements_def comp_def)
  then show ?thesis using sc pg by (simp add: page_of_def)
qed

definition fx_movement :: "uid \<Rightarrow> time \<Rightarrow> stock_movement_row" where
  "fx_movement i t = \<lparr> r_id = i, r_createdAt = t, r_updatedAt = t, r_deletedAt = None, mv_branchId = ''br1'', mv_productId = ex_uuid ''04'',
     mv_variantId = None, mv_type = Mv_receive, mv_refId = ''op1'', mv_transferId = None, mv_qtyDelta = 1000, mv_reasonCategory = None,
     mv_unitCost = None, mv_note = None \<rparr>"

definition fx_ledger :: db where
  "fx_ledger = fx_db\<lparr> db_stockMovement := [fx_movement ''mv1'' 1000, fx_movement ''mv2'' 3000, fx_movement ''mv3'' 2000] \<rparr>"

definition fx_page_query :: movements_query where
  "fx_page_query = \<lparr> an_businessId = None, an_branchId = None, an_from = ''1970-01-01'', an_to = ''1970-01-01'', an_format = None,
     mq_type = None, mq_productId = None, mq_page = Some 2, mq_pageSize = Some 1 \<rparr>"

lemma fx_page_filter: "mq_type fx_page_query = None" "mq_productId fx_page_query = None"
  by (simp_all add: fx_page_query_def)

lemma fx_page: "\<exists>pg s'. movements fx_owner_ctx fx_page_query fx_ledger = (Inr pg, s') \<and> map mo_id (pg_data pg) = [''mv3'']"
proof -
  have "case fst (movements fx_owner_ctx fx_page_query fx_ledger) of Inl _ \<Rightarrow> False | Inr pg \<Rightarrow> map mo_id (pg_data pg) = [''mv3'']"
    by code_simp
  from run_Inr [OF this] show ?thesis by (elim exE conjE) (intro exI conjI)
qed

theorem page_of_merged_ledger_witness:
  "\<exists>pg :: movement_out paginated. map mo_id (pg_data pg) = [''mv3'']
    \<and> (\<exists>sc :: resolved_scope. pg_data pg = page_of (pg_page pg) (pg_pageSize pg) (newest_movements (List.concat
        (map (ledger_rows fx_ledger \<lparr> mf_type = None, mf_productId = None \<rparr>) (sc_businesses sc)))))"
proof -
  obtain pg s' where pg: "movements fx_owner_ctx fx_page_query fx_ledger = (Inr pg, s')" "map mo_id (pg_data pg) = [''mv3'']"
    using fx_page by (elim exE conjE)
  have "distinct (map r_id (db_stockMovement fx_ledger))" by (simp add: fx_ledger_def fx_movement_def)
  from page_of_merged_ledger [OF pg(1) this] have "\<exists>sc :: resolved_scope. pg_data pg = page_of (pg_page pg) (pg_pageSize pg)
      (newest_movements (List.concat (map (ledger_rows fx_ledger \<lparr> mf_type = None, mf_productId = None \<rparr>) (sc_businesses sc))))"
    by (simp only: fx_page_filter) (elim exE conjE, rule exI, assumption)
  then show ?thesis using pg(2) by (intro exI [of _ pg] conjI)
qed

end
