(* ===== verification/BooksClaims.thy ===== *)
theory BooksClaims
  imports ReportFacts VoidRefund
begin

text \<open>
  From the till to the reports: what a completed sale adds to the aggregates of a window, and what
  voiding it takes out again.
\<close>

section \<open>The rows a report answers\<close>

definition aggregate :: "scoped_business \<Rightarrow> db \<Rightarrow> sales_aggregate" where
  "aggregate w s = hd (answer (salesAggregateSql w (sb_fromUtc w) (sb_toUtc w)) s)"

definition tax_summary :: "scoped_business \<Rightarrow> db \<Rightarrow> tax_row" where
  "tax_summary w s = hd (answer (taxSummarySql w) s)"

text \<open>Whether the sales a branch makes at a time belong to the window.\<close>

definition counts_for :: "scoped_business \<Rightarrow> uid \<Rightarrow> time \<Rightarrow> bool" where
  "counts_for w br t \<longleftrightarrow> br \<in> set (sb_branchIds w) \<and> sb_fromUtc w \<le> t \<and> t < sb_toUtc w"

abbreviation window_sales :: "scoped_business \<Rightarrow> db \<Rightarrow> sale_row list" where
  "window_sales w s \<equiv> sales_in (sb_branchIds w) (sb_fromUtc w) (sb_toUtc w) s"

lemma sale_appended:
  assumes "db_sale s1 = db_sale s0 @ [row]" "live row"
  shows "window_sales w s1 = window_sales w s0 @ (if counts_for w (sl_branchId row) (r_createdAt row) then [row] else [])"
  using assms by (simp add: sales_in_def counts_for_def)

lemma upd_rows_id: "\<forall>r \<in> set xs. \<not> p r \<Longrightarrow> upd_rows p f xs = xs"
  by (simp add: upd_rows_def map_idI)

lemma sale_replaced:
  assumes "db_sale s1 = db_sale s0 @ [row]" "db_sale s2 = upd_rows (\<lambda>q. r_id q = r_id row) (\<lambda>_. row') (db_sale s1)"
    and "find (\<lambda>r. r_id r = r_id row) (db_sale s0) = None"
  shows "db_sale s2 = db_sale s0 @ [row']"
proof -
  have "upd_rows (\<lambda>q. r_id q = r_id row) (\<lambda>_. row') (db_sale s0) = db_sale s0"
    using assms(3) by (intro upd_rows_id) (auto simp: find_None_iff)
  with assms(1,2) show ?thesis by (simp add: upd_rows_def)
qed

lemma total_append: "total_of f (xs @ ys) = total_of f xs + total_of f ys"
  by simp

lemma aggregate_appended:
  assumes "window_sales w s1 = window_sales w s0 @ rows"
  shows "sa_gross (aggregate w s1) = sa_gross (aggregate w s0) + total_of sl_subtotal (with_status Completed rows)"
    "sa_discounts (aggregate w s1) = sa_discounts (aggregate w s0) + total_of (\<lambda>r. sl_discount r + sl_scPwdDiscount r) (with_status Completed rows)"
    "sa_serviceCharge (aggregate w s1) = sa_serviceCharge (aggregate w s0) + total_of sl_serviceCharge (with_status Completed rows)"
    "sa_transactions (aggregate w s1) = sa_transactions (aggregate w s0) + count_of (with_status Completed rows)"
    "sa_voids (aggregate w s1) = sa_voids (aggregate w s0) + count_of (with_status Voided rows)"
    "sa_refunds (aggregate w s1) = sa_refunds (aggregate w s0) + count_of (with_status Refunded rows)"
  by (simp_all add: aggregate_def salesAggregateSql_def Let_def assms with_status_def count_of_def)

lemma tax_appended:
  assumes "window_sales w s1 = window_sales w s0 @ rows"
  shows "tx_vat (tax_summary w s1) = tx_vat (tax_summary w s0) + total_of sl_tax (with_status Completed rows)"
    "tx_vatable (tax_summary w s1) = tx_vatable (tax_summary w s0) + total_of (\<lambda>r. sl_total r - sl_vatExemptSales r - sl_tax r) (with_status Completed rows)"
    "tx_vatExempt (tax_summary w s1) = tx_vatExempt (tax_summary w s0) + total_of sl_vatExemptSales (with_status Completed rows)"
    "tx_scPwd (tax_summary w s1) = tx_scPwd (tax_summary w s0) + total_of sl_scPwdDiscount (with_status Completed rows)"
    "tx_serviceCharge (tax_summary w s1) = tx_serviceCharge (tax_summary w s0) + total_of sl_serviceCharge (with_status Completed rows)"
  by (simp_all add: tax_summary_def taxSummarySql_def Let_def completedInWindow_def assms with_status_def)

lemma voided_row:
  assumes t: "terminal_of ctx br tm biz" and v: "voidSale ctx i reason s = (Inr sale, s')"
  obtains r after where "find (\<lambda>r. r_id r = i) (db_sale s) = Some r"
    "after = r\<lparr> sl_status := Voided, sl_voidedAt := Some (db_now s), sl_statusReason := Some (trim reason), r_updatedAt := db_now s \<rparr>"
    "db_sale s' = upd_rows (\<lambda>q. r_id q = i) (\<lambda>_. after) (db_sale s)"
proof (rule voidSale_Inr [OF t v])
  fix after s1
  assume "scoped_update (in_tx ctx s) sale_t (\<lambda>r. r_id r = i)
      (\<lambda>r. r\<lparr> sl_status := Voided, sl_voidedAt := Some (db_now s), sl_statusReason := Some (trim reason) \<rparr>) s = (Inr after, s1)"
    "restoreStock (in_tx ctx s) i Mv_void s1 = (Inr (), s')"
  from sale_update_rows [OF this] show thesis by (auto intro: that)
qed

lemma voided_figures:
  assumes t: "terminal_of ctx br tm biz" and none: "find (\<lambda>r. r_id r = i) (db_sale s) = None" and w: "counts_for w br (db_now s)"
    and new: "db_sale s1 = db_sale s @ [row]"
    and row: "r_id row = i" "sl_status row = Completed" "sl_branchId row = br" "r_createdAt row = db_now s" "live row"
    and v: "voidSale ctx i reason s1 = (Inr sale', s2)"
  shows "tax_summary w s2 = tax_summary w s \<and> aggregate w s2 = (aggregate w s)\<lparr> sa_voids := sa_voids (aggregate w s) + 1 \<rparr>"
proof -
  obtain r after where v: "find (\<lambda>r. r_id r = i) (db_sale s1) = Some r"
    "after = r\<lparr> sl_status := Voided, sl_voidedAt := Some (db_now s1), sl_statusReason := Some (trim reason), r_updatedAt := db_now s1 \<rparr>"
    "db_sale s2 = upd_rows (\<lambda>q. r_id q = i) (\<lambda>_. after) (db_sale s1)"
    by (rule voided_row [OF t v])
  have "r = row" using v(1) none row(1) by (simp add: new find_append)
  then have after: "sl_status after = Voided" "sl_branchId after = br" "r_createdAt after = db_now s" "live after"
    using v(2) row by (simp_all add: live_def)
  have "db_sale s2 = db_sale s @ [after]" by (rule sale_replaced [OF new]) (simp_all only: row(1) v(3) none)
  from sale_appended [OF this after(4), of w] have "window_sales w s2 = window_sales w s @ [after]"
    using w after by simp
  from aggregate_appended [OF this] tax_appended [OF this] show ?thesis
    using after(1) by (simp add: with_status_def count_of_def)
qed

text \<open>
  C7. A sale on the books: a completed sale adds one row under its id to the sales, and for every
  report window it falls into raises the sales figures and the tax summary by exactly the
  amounts stored in that row: gross sales by its subtotal, discounts by both its discounts, the
  service charge, the transactions by one, and each tax column by its own. Nothing else of the
  figures changes. Whenever that sale is voided, the tax summary and every amount are what they were
  before the sale, and only the count of voids is one higher.
\<close>

theorem sale_on_the_books:
  assumes "terminal_of ctx br tm biz" and "completeSale env ctx dto s = (Inr (False, sale), s1)"
    and "find (\<lambda>r. r_id r = sd_id dto) (db_sale (env s)) = None" and "counts_for w br (db_now (env s))"
  shows "\<exists>row. db_sale s1 = db_sale (env s) @ [row] \<and> r_id row = sd_id dto \<and> sl_status row = Completed \<and> sale = assemble row
    \<and> aggregate w s1 = \<lparr> sa_gross = sa_gross (aggregate w (env s)) + sl_subtotal row,
          sa_discounts = sa_discounts (aggregate w (env s)) + sl_discount row + sl_scPwdDiscount row,
          sa_serviceCharge = sa_serviceCharge (aggregate w (env s)) + sl_serviceCharge row,
          sa_transactions = sa_transactions (aggregate w (env s)) + 1,
          sa_voids = sa_voids (aggregate w (env s)), sa_refunds = sa_refunds (aggregate w (env s)) \<rparr>
    \<and> tax_summary w s1 = \<lparr> tx_vatable = tx_vatable (tax_summary w (env s)) + (sl_total row - sl_vatExemptSales row - sl_tax row),
          tx_vat = tx_vat (tax_summary w (env s)) + sl_tax row,
          tx_vatExempt = tx_vatExempt (tax_summary w (env s)) + sl_vatExemptSales row,
          tx_scPwd = tx_scPwd (tax_summary w (env s)) + sl_scPwdDiscount row,
          tx_serviceCharge = tx_serviceCharge (tax_summary w (env s)) + sl_serviceCharge row \<rparr>
    \<and> (\<forall>reason sale' s2. voidSale ctx (sd_id dto) reason s1 = (Inr sale', s2) \<longrightarrow>
          tax_summary w s2 = tax_summary w (env s)
          \<and> aggregate w s2 = (aggregate w (env s))\<lparr> sa_voids := sa_voids (aggregate w (env s)) + 1 \<rparr>)"
proof (rule completeSale_fresh [OF assms(1,2)])
  fix totals costs
  assume p: "persist dto totals costs br tm (in_tx ctx (env s)) (env s) = (Inr sale, s1)"
  define row where "row = buildSaleRow (db_now (env s)) dto totals br tm"
  have new: "db_sale s1 = db_sale (env s) @ [row]" "sale = assemble row"
    using persist_row [OF assms(1,3) p] by (simp_all add: row_def)
  have row: "r_id row = sd_id dto" "sl_status row = Completed" "sl_branchId row = br" "r_createdAt row = db_now (env s)" "live row"
    by (simp_all add: row_def buildSaleRow_def live_def)
  have sold: "window_sales w s1 = window_sales w (env s) @ [row]"
    using sale_appended [OF new(1) row(5), of w] assms(4) row by simp
  note add = aggregate_appended [OF sold] tax_appended [OF sold]
  have "tax_summary w s2 = tax_summary w (env s) \<and> aggregate w s2 = (aggregate w (env s))\<lparr> sa_voids := sa_voids (aggregate w (env s)) + 1 \<rparr>"
    if "voidSale ctx (sd_id dto) reason s1 = (Inr sale', s2)" for reason sale' s2
    by (rule voided_figures [OF assms(1,3,4) new(1) row that])
  then show ?thesis using new row(1,2)
    by (intro exI [of _ row] conjI) (simp_all add: add with_status_def count_of_def)
qed

definition fx_window :: scoped_business where
  "fx_window = \<lparr> sb_id = ''biz1'', sb_name = ''Cafe'', sb_dayStartTime = ''00:00'', sb_dayStartMinutes = 0, sb_taxRate = 0,
     sb_branchIds = [''br1''], sb_fromUtc = 0, sb_toUtc = DAY_MS, sb_previousFromUtc = - DAY_MS, sb_previousToUtc = 0 \<rparr>"

theorem sale_on_the_books_witness:
  "\<exists>sale s2. voidSale fx_terminal_ctx (sd_id fx_draft) ''spilled'' fx_sold = (Inr sale, s2)
    \<and> sa_transactions (aggregate fx_window fx_sold) = 1 \<and> sa_transactions (aggregate fx_window s2) = 0
    \<and> sa_voids (aggregate fx_window s2) = 1"
proof -
  obtain sale s2 where v: "voidSale fx_terminal_ctx (sd_id fx_draft) ''spilled'' fx_sold = (Inr sale, s2)"
    using fx_void_ok by blast
  have w: "counts_for fx_window ''br1'' (db_now fx_db)"
    by (simp add: counts_for_def fx_window_def fx_db_def DAY_MS_def)
  have "sa_transactions (aggregate fx_window fx_db) = 0" "sa_voids (aggregate fx_window fx_db) = 0"
    by (simp_all add: aggregate_def salesAggregateSql_def Let_def sales_in_def with_status_def count_of_def fx_db_def empty_db_def)
  with sale_on_the_books [OF fx_terminal fx_complete fx_new w] v show ?thesis by fastforce
qed

end
