(* ===== verification/CsvClaims.thy ===== *)
theory CsvClaims
  imports Csv
begin

text \<open>
  The CSV writer against a reader of RFC 4180 files, written as the automaton the RFC describes:
  reading an export gives back every field of every line the report put into it.
\<close>

section \<open>A reader\<close>

text \<open>Where the reader stands: before a field, inside a bare one, inside a quoted one, behind a quote inside a quoted one.\<close>

datatype csv_state = Start | Plain | Quoted | Closing

text \<open>\<open>f\<close> is the field read so far and \<open>r\<close> the fields of its record before it.\<close>

fun csv_scan :: "csv_state \<Rightarrow> string \<Rightarrow> string list \<Rightarrow> string \<Rightarrow> string list list option" where
  "csv_scan st f r [] = (if st = Start \<and> r = [] then Some [] else None)"
| "csv_scan st f r (c # cs) =
    (if st = Quoted then (if c = QUOTE then csv_scan Closing f r cs else csv_scan Quoted (f @ [c]) r cs)
     else if c = QUOTE then
       (if st = Start then csv_scan Quoted [] r cs else if st = Closing then csv_scan Quoted (f @ [c]) r cs else None)
     else if c = CHR '','' then csv_scan Start [] (r @ [f]) cs
     else if c = CR then
       (case cs of [] \<Rightarrow> None | d # ds \<Rightarrow> if d = LF then map_option (Cons (r @ [f])) (csv_scan Start [] [] ds) else None)
     else if c = LF \<or> st = Closing then None
     else csv_scan Plain (f @ [c]) r cs)"

definition csv_read :: "string \<Rightarrow> string list list option" where
  "csv_read s = (if take 3 s = BOM then csv_scan Start [] [] (drop 3 s) else None)"

section \<open>Fields\<close>

lemmas csv_chars = QUOTE_def CR_def LF_def

lemma scan_bare:
  "\<not> needs_quotes s \<Longrightarrow> st = Start \<or> st = Plain \<Longrightarrow>
    csv_scan st f r (s @ rest) = csv_scan (if s = [] then st else Plain) (f @ s) r rest"
proof (induction s arbitrary: st f)
  case (Cons c s)
  then have "c \<noteq> QUOTE" "c \<noteq> CHR '',''" "c \<noteq> CR" "c \<noteq> LF" and s: "\<not> needs_quotes s"
    by (auto simp: needs_quotes_def)
  with Cons.prems(2) have "csv_scan st f r ((c # s) @ rest) = csv_scan Plain (f @ [c]) r (s @ rest)" by auto
  with Cons.IH [OF s, of Plain "f @ [c]"] show ?case by simp
qed simp

lemma scan_quoted: "csv_scan Quoted f r (double_quotes s @ QUOTE # rest) = csv_scan Closing (f @ s) r rest"
proof (induction s arbitrary: f)
  case (Cons c s)
  then show ?case by (simp add: double_quotes_def)
qed (simp add: double_quotes_def)

lemma scan_field:
  "csv_scan Start [] r (escapeField x @ CHR '','' # rest) = csv_scan Start [] (r @ [cell_text x]) rest"
  "csv_scan Start [] r (escapeField x @ CR # LF # rest) = map_option (Cons (r @ [cell_text x])) (csv_scan Start [] [] rest)"
proof -
  have q: "CHR '','' \<noteq> QUOTE" "CR \<noteq> QUOTE" "CR \<noteq> CHR '',''" by (simp_all add: csv_chars)
  consider (null) "x = Null" | (quoted) "x \<noteq> Null" "needs_quotes (cell_text x)" | (bare) "x \<noteq> Null" "\<not> needs_quotes (cell_text x)"
    by blast
  then have "csv_scan Start [] r (escapeField x @ CHR '','' # rest) = csv_scan Start [] (r @ [cell_text x]) rest
    \<and> csv_scan Start [] r (escapeField x @ CR # LF # rest) = map_option (Cons (r @ [cell_text x])) (csv_scan Start [] [] rest)"
  proof cases
    case null
    then show ?thesis using q by (simp add: escapeField_def cell_text_def)
  next
    case quoted
    then show ?thesis using q by (simp add: escapeField_def escape_text_def scan_quoted)
  next
    case bare
    then show ?thesis using q by (simp add: escapeField_def escape_text_def scan_bare)
  qed
  then show "csv_scan Start [] r (escapeField x @ CHR '','' # rest) = csv_scan Start [] (r @ [cell_text x]) rest"
    "csv_scan Start [] r (escapeField x @ CR # LF # rest) = map_option (Cons (r @ [cell_text x])) (csv_scan Start [] [] rest)"
    by blast+
qed

section \<open>Lines\<close>

text \<open>The record a line stands for; a line without fields reads as one empty field.\<close>

definition record_of :: "cell list \<Rightarrow> string list" where
  "record_of cells = (if cells = [] then [[]] else map cell_text cells)"

lemma scan_line:
  "csv_scan Start [] r (csv_line cells @ CR # LF # rest) = map_option (Cons (r @ record_of cells)) (csv_scan Start [] [] rest)"
  unfolding csv_line_def
proof (induction cells arbitrary: r rule: induct_list012)
  case 1
  show ?case by (simp add: record_of_def csv_chars)
next
  case (2 x)
  show ?case by (simp add: record_of_def scan_field)
next
  case (3 x y xs)
  have "map_option (Cons ((r @ [cell_text x]) @ record_of (y # xs))) = map_option (Cons (r @ record_of (x # y # xs)))"
    by (simp add: record_of_def)
  with 3(2) [of "r @ [cell_text x]"] show ?case by (simp add: scan_field)
qed

text \<open>The lines of an export, before they are written.\<close>

definition section_cells :: "csv_section \<Rightarrow> cell list list" where
  "section_cells sn = (case sn_title sn of None \<Rightarrow> [] | Some t \<Rightarrow> [[Text t]]) @ map Text (sn_columns sn) # sn_rows sn"

fun export_cells :: "csv_section list \<Rightarrow> cell list list" where
  "export_cells [] = [[]]"
| "export_cells [sn] = section_cells sn"
| "export_cells (sn # sns) = section_cells sn @ [] # export_cells sns"

lemma section_lines_cells: "section_lines sn = map csv_line (section_cells sn)"
  by (simp add: section_lines_def section_cells_def csv_line_def split: option.splits)

lemma export_cells_cons: "sns \<noteq> [] \<Longrightarrow> export_cells (sn # sns) = section_cells sn @ [] # export_cells sns"
  by (cases sns) simp_all

lemma export_lines:
  "List.concat (map (\<lambda>(i, sn). (if 0 < i then [[]] else []) @ section_lines sn) (List.enumerate (Suc n) sns))
    = (if sns = [] then [] else [] # map csv_line (export_cells sns))"
proof (induction sns arbitrary: n)
  case (Cons sn sns)
  then show ?case by (cases sns) (simp_all add: section_lines_cells csv_line_def)
qed simp

lemma join_eol: "xs \<noteq> [] \<Longrightarrow> join EOL xs @ EOL = List.concat (map (\<lambda>x. x @ EOL) xs)"
  by (induction xs rule: induct_list012) simp_all

lemma toCsv_lines: "toCsv sns = BOM @ List.concat (map (\<lambda>l. csv_line l @ EOL) (export_cells sns))"
proof (cases sns)
  case Nil
  then show ?thesis by (simp add: toCsv_def csv_line_def)
next
  case (Cons sn rest)
  let ?ls = "section_lines sn @ (if rest = [] then [] else [] # map csv_line (export_cells rest))"
  have ls: "?ls = map csv_line (export_cells (sn # rest))"
    by (cases "rest = []") (simp_all add: section_lines_cells export_cells_cons csv_line_def)
  have "?ls \<noteq> []" by (simp add: section_lines_def)
  from join_eol [OF this] show ?thesis
    using Cons export_lines [of 0 rest] by (simp add: toCsv_def ls comp_def)
qed

lemma scan_lines: "csv_scan Start [] [] (List.concat (map (\<lambda>l. csv_line l @ EOL) ls)) = Some (map record_of ls)"
  by (induction ls) (simp_all add: EOL_def scan_line)

text \<open>
  C24. Exports read back: whatever texts, numbers and empty fields a report puts into its sections
  (product names with commas, quotes or line breaks included), a reader of RFC 4180 finds exactly
  these fields again, line by line, the sections set apart by an empty line.
\<close>

theorem export_reads_back: "csv_read (toCsv sections) = Some (map record_of (export_cells sections))"
  by (simp add: csv_read_def toCsv_lines scan_lines BOM_def)

end
