(* ===== verification/Spec2Isabelle.thy ===== *)
theory Spec2Isabelle
  imports SaleClaims VoidRefund Tenancy ShiftClaims PairingClaims StockClaims PortalClaims IdentClaims LinkClaims PullCosts
    System ReportClaims MoneyClaims PageClaims BooksClaims CsvClaims
begin

text \<open>
  Sentry POS back end: a multi-tenant point-of-sale server (NestJS over PostgreSQL through Prisma).
  Owners run businesses with branches from a portal; devices are paired as terminals of a branch
  and ring up sales; administrators provision and suspend owners. Sources are named below by their
  path under \<open>src/src\<close>.

  How the parts interact. A request gets a context from the middleware and a guard (\<open>Guards\<close>):
  who acts, for which owner, business and branch. A service reads and writes through the scoped
  client (\<open>ScopedPrisma\<close>), which adds the tenant's condition to every query, polices what a create may
  point at and writes an audit row with every mutation; sign-in, pairing and the owners' administration
  run on the raw client. A sale is recomputed by the totals engine (\<open>Totals\<close>) from the draft the
  terminal posts (\<open>Draft\<close>), then persisted in one transaction that locks the stock rows, takes the
  quantities, writes the sale with its items and payment, the movements and the receipt counter
  (\<open>Sales\<close>). Shifts (\<open>Shifts\<close>) bracket sales on a terminal; receiving and adjusting stock (\<open>Stock\<close>),
  voiding and refunding write the same levels and the same ledger of movements. Reports read those
  tables through SQL (\<open>Analytics\<close> and after).

  How code becomes a definition. A service method is a state-passing function of type \<open>op\<close>
  (\<open>Prelude\<close>): an error or a result, and the database at that point; \<open>transaction\<close> rolls back. The
  database is the record \<open>db\<close> with a list of rows per table, the clock and the supply of identifiers
  (\<open>Database\<close>); \<open>Tables\<close> describes each table (scope column, references, unique indexes, checks,
  32-bit and decimal columns). A thrown exception is a value of \<open>exn\<close> (\<open>Errors\<close>). A JavaScript number is a
  rational, each operation rounded to 53 bits (\<open>JsNumber\<close>). What other requests commit between two
  steps of a request is an argument of its definition (\<open>env\<close>): between the checks of a sale and its
  transaction, before each attempt of a retried stock write, and between count and insert of a pairing.
  Checks and primitives of third-party packages are parameters: \<open>isUUID\<close>, mail addresses, hashes,
  tokens, one-time codes, random draws (the record \<open>crypto\<close>), with the promises the theorems use as
  hypotheses and an instance of them in \<open>AuthFixture\<close>.
\<close>

text \<open>
  The theories, in the order of the layers.

  Base: \<open>Prelude\<close> (effects, the calculus of preserved properties, list and table lemmas); \<open>JsNumber\<close>
  (numbers; the locale \<open>js_rounding\<close> of the laws of rounding, interpreted on \<open>fl\<close>); \<open>Money\<close> and \<open>Totals\<close>
  (\<open>common/totals\<close>); \<open>Errors\<close> (\<open>common/errors\<close>, \<open>common/filters\<close>); \<open>Draft\<close> (\<open>pos/sales/dto\<close>); \<open>Database\<close>,
  \<open>ScopedPrisma\<close> and \<open>Tables\<close> (\<open>prisma/schema.prisma\<close>, \<open>prisma/scoped-prisma.ts\<close>, \<open>common/context\<close>; the
  locale \<open>db_table\<close> of the laws of a table, in which the lemmas about the scoped operations are proved
  once, interpreted on each of the schema's tables); \<open>Nested\<close> (nested writes); \<open>Fixture\<close> (concrete states).

  Point of sale: \<open>Lockout\<close> (\<open>common/lockout\<close>, \<open>auth/audit.service.ts\<close>), \<open>Sales\<close> (\<open>pos/sales\<close>), \<open>Shifts\<close>
  (\<open>pos/shifts\<close>), \<open>Stock\<close> (\<open>portal/stock\<close>, \<open>pos/stock\<close>), \<open>Pairing\<close> (\<open>pos/pairing\<close>), \<open>PosCatalog\<close>
  (\<open>pos/catalog\<close>). Their lemmas: \<open>SaleStock\<close>, \<open>SaleTx\<close>, \<open>SaleRestore\<close>, \<open>SaleRequests\<close>, \<open>ShiftFacts\<close>,
  \<open>StockFacts\<close>; their requests: \<open>SaleFixture\<close>.

  Accounts and portal: \<open>Auth\<close> and \<open>Guards\<close> (\<open>auth\<close>, \<open>pos/guards\<close>), \<open>Portal\<close>, \<open>Catalog\<close> (\<open>portal/businesses\<close>,
  \<open>branches\<close>, \<open>discounts\<close>, \<open>terminals\<close>, \<open>settings\<close>, \<open>activity-log\<close>, \<open>catalog\<close>), \<open>Admin\<close> (\<open>admin\<close>), \<open>Requests\<close>
  (the request bodies).

  Reports (\<open>portal/analytics\<close>): \<open>Calendar\<close>, \<open>Analytics\<close>, \<open>ReportSql\<close> and \<open>OperationsSql\<close> (each statement as
  the rows it answers), \<open>Reports\<close>, \<open>ProductReports\<close>, \<open>StockReports\<close>, \<open>Dashboard\<close>, \<open>Csv\<close>; their lemmas:
  \<open>ReportFacts\<close>.
\<close>

text \<open>
  What is shown.

  Abstract specifications. \<open>Till\<close> is the stock of a shop without tables, a machine whose events
  name what a request did. \<open>System.evolves\<close> composes the whole requests of any terminals and owners, with
  the states others leave at the points where a request can be overtaken, and lists what they did:
  completed sales, voids and refunds, deliveries, counts, shift operations and the passing of time.
  It contains no requests that change the catalogue or accounts, and no direct writes. The database refines
  the machine over that list (C2); the ledger and the levels drift apart by exactly what racing
  counts missed (C3); histories only grow (C22). \<open>CsvClaims\<close> specifies the export by a reader of
  RFC 4180 files (C24), \<open>PageClaims\<close> a page of merged queries by one query over all (C23).

  Sales and money: what a sale takes, stores, refuses and answers when repeated (C1, C4, C5, C21);
  totals that account for every centavo under the line rule (C6, C9, C14) and exact quantity prices (C15);
  voids and refunds (C11 to C13); shifts, the X report figure by figure over the tables, and the Z report
  (C18 to C20); the same money in the reports (C7, C10); stock counts (C34).

  Isolation and audit: scoped reads and writes, one audit row or nothing (C8, C16, C17); report scopes
  and their traces (C25, C26); the pull of a terminal (C37, C38); the guard of a terminal (C28).

  Accounts: lockout, sessions, second factor, reset links (C30 to C33). Catalogue and portal: identifiers,
  links, the cap on businesses, numbers that fit their columns (C35, C36, C39, C40). Pairing codes (C29).
  Business days (C27).

  Bounds. A sale has at most \<open>2 ^ 16\<close> lines where stock is summed, amounts are whole centavos below \<open>2 ^ 50\<close>,
  quantities obey the three decimals and the maximum of the validation, decimal columns hold less than
  \<open>10 ^ 10\<close> thousandths; sums of integer columns are exact in a JavaScript number below \<open>2 ^ 53\<close>. A lost
  race for a stock level is retried \<open>LEVEL_RETRIES = 2\<close> times and for a terminal code \<open>MAX_RETRIES = 3\<close>
  times, as in the code; the recursions count these down and need no fuel, and what happens after the last
  retry is part of the statements. Every other loop is structural or has its measure.

  Not modelled: the demo and database seeds (fixed sample data), controllers, modules, start-up,
  environment parsing, the health probe and the mail transport (framework glue and I/O). The seed an
  accepted invitation runs is a parameter and mail is a returned value. Check and write of an opening
  shift, of a token refresh and of product identifiers are one step in the model; the races this leaves out
  are ruled out by the code's comment for shifts and recorded as a finding for identifiers. Text is
  compared by bytes, and the order of SQL groups without ORDER BY is a choice of the model.
\<close>

end
